(* ===== verification/Js_Prelude.thy ===== *)
theory Js_Prelude
  imports Complex_Main "HOL-Library.AList"
begin

text \<open>
  What the consoles use of the language and of the browser's string, number, JSON and URL
  functions, as HOL functions, with the generic lemmas the component theories share.

  \<^item> Strings are lists of bytes: the text in UTF-8. Percent-encoding works on exactly these
    bytes. Where the source reads a length or slices a string, \<open>js_length\<close> and \<open>js_take\<close>
    count UTF-16 code units as the language does.
  \<^item> A \<open>number\<close> that comes from JSON or from a text field is a rational. Dividing a
    double by 1024 is exact, so the byte-size loops compute the same values.
  \<^item> An object literal or a \<open>Record\<close> is an association list in insertion order;
    assignment is \<open>AList.update\<close>, property access is \<open>map_of\<close>, and \<open>undefined\<close> is \<open>None\<close>.
  \<^item> A function that may throw and that changes state is a state-passing function into a
    sum type (\<open>io\<close> below): \<open>Inl\<close> is the thrown value.
\<close>

named_theorems js_simps \<open>evaluation rules of the language model\<close>

subsection \<open>State with exceptions\<close>

type_synonym ('s, 'e, 'a) io = "'s \<Rightarrow> ('e + 'a) \<times> 's"

definition io_ret :: "'a \<Rightarrow> ('s, 'e, 'a) io" where
  "io_ret x = (\<lambda>s. (Inr x, s))"

definition io_throw :: "'e \<Rightarrow> ('s, 'e, 'a) io" where
  "io_throw e = (\<lambda>s. (Inl e, s))"

definition io_bind :: "('s, 'e, 'a) io \<Rightarrow> ('a \<Rightarrow> ('s, 'e, 'b) io) \<Rightarrow> ('s, 'e, 'b) io" where
  "io_bind m f = (\<lambda>s. case m s of (Inl e, t) \<Rightarrow> (Inl e, t) | (Inr x, t) \<Rightarrow> f x t)"

text \<open>\<open>try { m } catch (e) { h e }\<close> and \<open>try { m } finally { f }\<close> for an \<open>f\<close> that does not throw.\<close>

definition io_catch :: "('s, 'e, 'a) io \<Rightarrow> ('e \<Rightarrow> ('s, 'e, 'a) io) \<Rightarrow> ('s, 'e, 'a) io" where
  "io_catch m h = (\<lambda>s. case m s of (Inl e, t) \<Rightarrow> h e t | (Inr x, t) \<Rightarrow> (Inr x, t))"

definition io_finally :: "('s, 'e, 'a) io \<Rightarrow> ('s \<Rightarrow> 's) \<Rightarrow> ('s, 'e, 'a) io" where
  "io_finally m f = (\<lambda>s. case m s of (r, t) \<Rightarrow> (r, f t))"

definition io_modify :: "('s \<Rightarrow> 's) \<Rightarrow> ('s, 'e, unit) io" where
  "io_modify f = (\<lambda>s. (Inr (), f s))"

lemmas io_defs = io_ret_def io_throw_def io_bind_def io_catch_def io_finally_def io_modify_def

lemma io_ret_apply [simp, js_simps]: "io_ret x s = (Inr x, s)"
  by (simp add: io_ret_def)

lemma io_throw_apply [simp, js_simps]: "io_throw e s = (Inl e, s)"
  by (simp add: io_throw_def)

lemma io_modify_apply [simp, js_simps]: "io_modify f s = (Inr (), f s)"
  by (simp add: io_modify_def)

lemma io_bind_Inr: "m s = (Inr x, t) \<Longrightarrow> io_bind m f s = f x t"
  by (simp add: io_bind_def)

lemma io_bind_Inl: "m s = (Inl e, t) \<Longrightarrow> io_bind m f s = (Inl e, t)"
  by (simp add: io_bind_def)

lemma io_catch_Inr: "m s = (Inr x, t) \<Longrightarrow> io_catch m h s = (Inr x, t)"
  by (simp add: io_catch_def)

lemma io_catch_Inl: "m s = (Inl e, t) \<Longrightarrow> io_catch m h s = h e t"
  by (simp add: io_catch_def)

lemma io_finally_snd [simp]: "snd (io_finally m f s) = f (snd (m s))"
  by (simp add: io_finally_def split: prod.splits)

lemma io_finally_fst [simp]: "fst (io_finally m f s) = fst (m s)"
  by (simp add: io_finally_def split: prod.splits)

lemma io_bind_cases:
  assumes "io_bind m f s = (r, t)"
  obtains (Error) e where "m s = (Inl e, t)" and "r = Inl e"
    | (Value) x u where "m s = (Inr x, u)" and "f x u = (r, t)"
  using assms by (auto simp: io_bind_def split: prod.splits sum.splits)

subsection \<open>Strings\<close>

fun startsWith :: "string \<Rightarrow> string \<Rightarrow> bool" where
  "startsWith s [] = True"
| "startsWith [] (p # ps) = False"
| "startsWith (c # s) (p # ps) = (c = p \<and> startsWith s ps)"

lemma startsWith_iff: "startsWith s p \<longleftrightarrow> (\<exists>t. s = p @ t)"
  by (induction s p rule: startsWith.induct) auto

lemma startsWith_append [simp]: "startsWith (p @ t) p"
  by (simp add: startsWith_iff)

lemma startsWith_append_iff: "startsWith (p @ s) (p @ t) = startsWith s t"
  by (induction p) auto

lemma startsWith_length: "startsWith s p \<Longrightarrow> length p \<le> length s"
  by (auto simp: startsWith_iff)

definition endsWith :: "string \<Rightarrow> string \<Rightarrow> bool" where
  "endsWith s p = startsWith (rev s) (rev p)"

fun str_includes :: "string \<Rightarrow> string \<Rightarrow> bool" where
  "str_includes [] p = (p = [])"
| "str_includes (c # s) p = (startsWith (c # s) p \<or> str_includes s p)"

lemma str_includes_iff: "str_includes s p \<longleftrightarrow> (\<exists>a b. s = a @ p @ b)"
proof (induction s)
  case Nil
  then show ?case by simp
next
  case (Cons c s)
  have "(\<exists>a b. c # s = a @ p @ b) \<longleftrightarrow> (\<exists>b. c # s = p @ b) \<or> (\<exists>a b. s = a @ p @ b)"
    by (metis append_Cons append_Nil list.inject neq_Nil_conv)
  with Cons show ?case by (auto simp: startsWith_iff)
qed

lemma str_includes_empty [simp]: "str_includes s []"
  by (cases s) auto

definition is_ws :: "char \<Rightarrow> bool" where
  "is_ws c \<longleftrightarrow> c \<in> {CHR '' '', CHR 0x09, CHR 0x0A, CHR 0x0B, CHR 0x0C, CHR 0x0D}"

text \<open>\<open>String.prototype.trim\<close>.\<close>

definition trim :: "string \<Rightarrow> string" where
  "trim s = rev (dropWhile is_ws (rev (dropWhile is_ws s)))"

lemma trim_Nil [simp]: "trim [] = []"
  by (simp add: trim_def)

lemma trim_length: "length (trim s) \<le> length s"
  unfolding trim_def by (metis length_dropWhile_le length_rev order_trans)

lemma hd_trim: "trim s \<noteq> [] \<Longrightarrow> \<not> is_ws (hd (trim s))"
proof -
  assume ne: "trim s \<noteq> []"
  let ?t = "dropWhile is_ws s"
  from ne have t: "?t \<noteq> []"
    unfolding trim_def by (metis dropWhile.simps(1) rev.simps(1))
  then have h: "\<not> is_ws (hd ?t)" by (rule hd_dropWhile)
  obtain u where u: "?t = trim s @ u"
    unfolding trim_def
    by (metis rev_append rev_rev_ident takeWhile_dropWhile_id)
  with ne have "hd ?t = hd (trim s)" by simp
  with h show ?thesis by simp
qed

lemma trim_idem: "trim (trim s) = trim s"
proof -
  have "dropWhile is_ws (trim s) = trim s"
    using hd_trim [of s] by (cases "trim s") (auto simp: dropWhile_eq_self_iff)
  then show ?thesis unfolding trim_def by (metis dropWhile_idem rev_rev_ident)
qed

text \<open>\<open>toLowerCase\<close> and \<open>toUpperCase\<close> on ASCII letters.\<close>

definition lower_char :: "char \<Rightarrow> char" where
  "lower_char c = (let n = of_char c :: nat in if 65 \<le> n \<and> n \<le> 90 then char_of (n + 32) else c)"

definition upper_char :: "char \<Rightarrow> char" where
  "upper_char c = (let n = of_char c :: nat in if 97 \<le> n \<and> n \<le> 122 then char_of (n - 32) else c)"

definition toLowerCase :: "string \<Rightarrow> string" where
  "toLowerCase s = map lower_char s"

definition toUpperCase :: "string \<Rightarrow> string" where
  "toUpperCase s = map upper_char s"

lemma of_char_lt_256 [simp]: "(of_char c :: nat) < 256"
  by simp

lemma lower_char_idem: "lower_char (lower_char c) = lower_char c"
  by (simp add: lower_char_def Let_def)

lemma toLowerCase_idem [simp]: "toLowerCase (toLowerCase s) = toLowerCase s"
  by (simp add: toLowerCase_def lower_char_idem)

lemma upper_char_idem: "upper_char (upper_char c) = upper_char c"
proof (cases "97 \<le> (of_char c :: nat) \<and> (of_char c :: nat) \<le> 122")
  case True
  then have "((of_char c :: nat) - 32) mod 256 = of_char c - 32" by (intro mod_less) linarith
  moreover have "\<not> 97 \<le> (of_char c :: nat) - 32" using True by linarith
  ultimately show ?thesis using True by (simp add: upper_char_def Let_def)
qed (auto simp: upper_char_def Let_def)

lemma toUpperCase_idem [simp]: "toUpperCase (toUpperCase s) = toUpperCase s"
  by (simp add: toUpperCase_def upper_char_idem)

lemma length_toLowerCase [simp]: "length (toLowerCase s) = length s"
  by (simp add: toLowerCase_def)

text \<open>\<open>s.length\<close> counts UTF-16 code units: one for a character of up to three bytes, two for one of
  four. \<open>s.slice(0, n)\<close> keeps whole characters; a pair of code units it would cut in half is left
  out.\<close>

definition code_units :: "char \<Rightarrow> nat" where
  "code_units c = (let n = of_char c :: nat in if 128 \<le> n \<and> n \<le> 191 then 0 else if 240 \<le> n then 2 else 1)"

definition js_length :: "string \<Rightarrow> nat" where
  "js_length s = sum_list (map code_units s)"

fun js_take :: "nat \<Rightarrow> string \<Rightarrow> string" where
  "js_take n [] = []"
| "js_take n (c # s) = (if code_units c \<le> n then c # js_take (n - code_units c) s else [])"

lemma js_length_take: "js_length (js_take n s) \<le> n"
  by (induction n s rule: js_take.induct) (auto simp: js_length_def)

lemma js_take_all: "js_length s \<le> n \<Longrightarrow> js_take n s = s"
  by (induction n s rule: js_take.induct) (auto simp: js_length_def)

text \<open>\<open>Array.prototype.join\<close>.\<close>

fun join :: "string \<Rightarrow> string list \<Rightarrow> string" where
  "join sep [] = []"
| "join sep [x] = x"
| "join sep (x # y # xs) = x @ sep @ join sep (y # xs)"

text \<open>The em dash and the ellipsis the pages print, in UTF-8.\<close>

definition em_dash :: string where
  "em_dash = [CHR 0xE2, CHR 0x80, CHR 0x94]"

definition ellipsis :: string where
  "ellipsis = [CHR 0xE2, CHR 0x80, CHR 0xA6]"

definition middle_dot :: string where
  "middle_dot = [CHR 0xC2, CHR 0xB7]"

subsection \<open>Printing and reading numbers\<close>

definition digit_char :: "nat \<Rightarrow> char" where
  "digit_char n = char_of (48 + n)"

lemma digit_char_numerals [simp, js_simps]:
  "digit_char 0 = CHR ''0''" "digit_char (Suc 0) = CHR ''1''" "digit_char 1 = CHR ''1''"
  "digit_char 2 = CHR ''2''" "digit_char 3 = CHR ''3''" "digit_char 4 = CHR ''4''"
  "digit_char 5 = CHR ''5''" "digit_char 6 = CHR ''6''" "digit_char 7 = CHR ''7''"
  "digit_char 8 = CHR ''8''" "digit_char 9 = CHR ''9''"
  by code_simp+

definition is_digit :: "char \<Rightarrow> bool" where
  "is_digit c \<longleftrightarrow> 48 \<le> (of_char c :: nat) \<and> (of_char c :: nat) \<le> 57"

definition digit_val :: "char \<Rightarrow> nat" where
  "digit_val c = of_char c - 48"

fun show_nat :: "nat \<Rightarrow> string" where
  "show_nat n = (if n < 10 then [digit_char n] else show_nat (n div 10) @ [digit_char (n mod 10)])"

declare show_nat.simps [simp del]

definition show_int :: "int \<Rightarrow> string" where
  "show_int i = (if i < 0 then CHR ''-'' # show_nat (nat (- i)) else show_nat (nat i))"

definition read_nat :: "string \<Rightarrow> nat" where
  "read_nat s = foldl (\<lambda>n c. 10 * n + digit_val c) 0 s"

lemma of_char_digit [simp]: "n < 10 \<Longrightarrow> (of_char (digit_char n) :: nat) = 48 + n"
  by (simp add: digit_char_def)

lemma is_digit_digit_char [simp]: "n < 10 \<Longrightarrow> is_digit (digit_char n)"
  by (simp add: is_digit_def)

lemma digit_val_digit_char [simp]: "n < 10 \<Longrightarrow> digit_val (digit_char n) = n"
  by (simp add: digit_val_def)

lemma show_nat_nonempty [simp]: "show_nat n \<noteq> []"
  by (subst show_nat.simps) simp

lemma show_nat_digits: "c \<in> set (show_nat n) \<Longrightarrow> is_digit c"
proof (induction n rule: show_nat.induct)
  case (1 n)
  then show ?case
    by (cases "n < 10") (auto simp: show_nat.simps [of n])
qed

lemma read_nat_append: "read_nat (s @ [c]) = 10 * read_nat s + digit_val c"
  by (simp add: read_nat_def)

lemma read_show_nat [simp]: "read_nat (show_nat n) = n"
proof (induction n rule: show_nat.induct)
  case (1 n)
  show ?case
  proof (cases "n < 10")
    case True
    then show ?thesis by (simp add: show_nat.simps [of n] read_nat_def)
  next
    case False
    with 1 show ?thesis by (simp add: show_nat.simps [of n] read_nat_append)
  qed
qed

lemma show_nat_inj: "show_nat m = show_nat n \<Longrightarrow> m = n"
  by (metis read_show_nat)

text \<open>\<open>padStart(n, "0")\<close> on a printed number.\<close>

definition pad_nat :: "nat \<Rightarrow> nat \<Rightarrow> string" where
  "pad_nat w n = (let s = show_nat n in replicate (w - length s) CHR ''0'' @ s)"

lemma read_nat_zeros [simp]: "read_nat (replicate k CHR ''0'' @ s) = read_nat s"
  by (induction k) (simp_all add: read_nat_def digit_val_def)

lemma read_pad_nat [simp]: "read_nat (pad_nat w n) = n"
  by (simp add: pad_nat_def Let_def)

text \<open>
  \<open>toFixed\<close>: the nearest multiple of \<open>10 ^ - k\<close>, the larger one on a tie, printed with
  exactly \<open>k\<close> decimals.
\<close>

definition toFixed :: "nat \<Rightarrow> rat \<Rightarrow> string" where
  "toFixed k x =
     (let a = \<bar>x\<bar>; n = nat \<lfloor>a * 10 ^ k + 1 / 2\<rfloor>; i = n div 10 ^ k; f = n mod 10 ^ k
      in (if x < 0 then ''-'' else []) @ show_nat i
         @ (if k = 0 then [] else CHR ''.'' # pad_nat k f))"

text \<open>\<open>Math.round\<close>: half up.\<close>

definition js_round :: "rat \<Rightarrow> int" where
  "js_round x = \<lfloor>x + 1 / 2\<rfloor>"

lemma js_round_of_int [simp]: "js_round (of_int i) = i"
proof -
  have "\<lfloor>(of_int i :: rat) + 1 / 2\<rfloor> = i"
    by (rule floor_unique) simp_all
  then show ?thesis by (simp add: js_round_def)
qed

lemma js_round_mono: "x \<le> y \<Longrightarrow> js_round x \<le> js_round y"
  by (simp add: js_round_def floor_mono)

text \<open>
  Number to string. Integers print their digits; other rationals print the shortest decimal
  expansion of at most 17 places, which is what the language prints for decimals of at most 15
  significant digits between \<open>1e-6\<close> and \<open>1e21\<close>.
\<close>

definition decimal_places :: "rat \<Rightarrow> nat" where
  "decimal_places q = (case filter (\<lambda>k. of_int \<lfloor>q * 10 ^ k\<rfloor> = q * 10 ^ k) [0 ..< 18] of [] \<Rightarrow> 17 | k # _ \<Rightarrow> k)"

definition show_num :: "rat \<Rightarrow> string" where
  "show_num q = toFixed (decimal_places q) q"

subsection \<open>JSON values\<close>

datatype json = JNull | JBool bool | JNum rat | JStr string | JArr "json list"
  | JObj "(string \<times> json) list"

type_synonym 'a js_record = "(string \<times> 'a) list"

text \<open>Property access: \<open>None\<close> is \<open>undefined\<close>. None of the accessed names exists on arrays,
  strings, numbers or booleans.\<close>

fun prop_of :: "json \<Rightarrow> string \<Rightarrow> json option" where
  "prop_of (JObj kvs) k = map_of kvs k"
| "prop_of _ k = None"

fun is_JArr :: "json \<Rightarrow> bool" where
  "is_JArr (JArr _) = True"
| "is_JArr _ = False"

fun is_JObj :: "json \<Rightarrow> bool" where
  "is_JObj (JObj _) = True"
| "is_JObj _ = False"

text \<open>\<open>typeof v === "object" && v !== null\<close>: objects and arrays.\<close>

fun is_object :: "json \<Rightarrow> bool" where
  "is_object (JArr _) = True"
| "is_object (JObj _) = True"
| "is_object _ = False"

fun truthy :: "json \<Rightarrow> bool" where
  "truthy JNull = False"
| "truthy (JBool b) = b"
| "truthy (JNum q) = (q \<noteq> 0)"
| "truthy (JStr s) = (s \<noteq> [])"
| "truthy _ = True"

text \<open>\<open>v ?? d\<close>.\<close>

fun nullish :: "json option \<Rightarrow> bool" where
  "nullish None = True"
| "nullish (Some v) = (v = JNull)"

definition coalesce :: "json option \<Rightarrow> json \<Rightarrow> json" where
  "coalesce v d = (if nullish v then d else the v)"

lemma coalesce_simps [simp, js_simps]:
  "coalesce None d = d" "coalesce (Some JNull) d = d"
  "v \<noteq> JNull \<Longrightarrow> coalesce (Some v) d = v"
  by (simp_all add: coalesce_def)

text \<open>\<open>String(v)\<close>.\<close>

fun js_String :: "json \<Rightarrow> string" where
  "js_String JNull = ''null''"
| "js_String (JBool b) = (if b then ''true'' else ''false'')"
| "js_String (JNum q) = show_num q"
| "js_String (JStr s) = s"
| "js_String (JArr vs) = join '','' (map (\<lambda>v. if v = JNull then [] else js_String v) vs)"
| "js_String (JObj _) = ''[object Object]''"

text \<open>\<open>JSON.stringify\<close>, compact.\<close>

definition hex_digit :: "nat \<Rightarrow> char" where
  "hex_digit n = (if n < 10 then char_of (48 + n) else char_of (55 + n))"

definition stringify_char :: "char \<Rightarrow> string" where
  "stringify_char c =
     (let n = of_char c :: nat in
      if c = CHR 0x22 then [CHR 0x5C, CHR 0x22]
      else if c = CHR 0x5C then [CHR 0x5C, CHR 0x5C]
      else if n = 8 then [CHR 0x5C, CHR ''b'']
      else if n = 9 then [CHR 0x5C, CHR ''t'']
      else if n = 10 then [CHR 0x5C, CHR ''n'']
      else if n = 12 then [CHR 0x5C, CHR ''f'']
      else if n = 13 then [CHR 0x5C, CHR ''r'']
      else if n < 32 then [CHR 0x5C, CHR ''u'', CHR ''0'', CHR ''0'',
        digit_char (n div 16), lower_char (hex_digit (n mod 16))]
      else [c])"

definition stringify_str :: "string \<Rightarrow> string" where
  "stringify_str s = [CHR 0x22] @ concat (map stringify_char s) @ [CHR 0x22]"

fun JSON_stringify :: "json \<Rightarrow> string" where
  "JSON_stringify JNull = ''null''"
| "JSON_stringify (JBool b) = (if b then ''true'' else ''false'')"
| "JSON_stringify (JNum q) = show_num q"
| "JSON_stringify (JStr s) = stringify_str s"
| "JSON_stringify (JArr vs) = ''['' @ join '','' (map JSON_stringify vs) @ '']''"
| "JSON_stringify (JObj kvs) =
     ''{'' @ join '','' (map (\<lambda>kv. stringify_str (fst kv) @ '':'' @ JSON_stringify (snd kv)) kvs)
       @ ''}''"


subsection \<open>Event-driven components\<close>

text \<open>
  A component whose handlers all keep an invariant: what every run keeps. The components with
  state interpret this locale with their own step function.
\<close>

locale event_machine =
  fixes step :: "'e \<Rightarrow> 's \<Rightarrow> 's"
    and inv :: "'s \<Rightarrow> bool"
  assumes step_inv: "inv s \<Longrightarrow> inv (step e s)"
begin

lemma run_inv: "inv s \<Longrightarrow> inv (fold step es s)"
  by (induction es arbitrary: s) (simp_all add: step_inv)

lemma run_inv_all: "inv s \<Longrightarrow> \<forall>n. inv (fold step (take n es) s)"
  by (blast intro: run_inv)

end

end
