(* ===== verification/Url_Codec.thy ===== *)
theory Url_Codec
  imports Js_Prelude
begin

text \<open>
  The URL functions the consoles call: \<open>encodeURIComponent\<close>, \<open>decodeURIComponent\<close>, and the
  serialiser and parser of \<open>URLSearchParams\<close>. Both encoders escape one byte at a time, so the
  round trip is proved once, in the locale \<open>byte_codec\<close>, and interpreted for each of them.
\<close>

subsection \<open>Percent escapes\<close>

definition hex_val :: "char \<Rightarrow> nat option" where
  "hex_val c =
     (let n = of_char c :: nat in
      if 48 \<le> n \<and> n \<le> 57 then Some (n - 48)
      else if 65 \<le> n \<and> n \<le> 70 then Some (n - 55)
      else if 97 \<le> n \<and> n \<le> 102 then Some (n - 87)
      else None)"

definition pct :: "char \<Rightarrow> string" where
  "pct c = (let n = of_char c :: nat in [CHR ''%'', hex_digit (n div 16), hex_digit (n mod 16)])"

lemma hex_val_hex_digit [simp]: "n < 16 \<Longrightarrow> hex_val (hex_digit n) = Some n"
  by (auto simp: hex_val_def hex_digit_def Let_def)

lemma of_char_nibbles [simp]:
  "(of_char c :: nat) div 16 < 16" "(of_char c :: nat) mod 16 < 16"
proof -
  have "(of_char c :: nat) < 16 * 16" by simp
  then show "(of_char c :: nat) div 16 < 16" by (rule less_mult_imp_div_less)
qed simp

lemma char_of_div_mod: "char_of (of_char c div 16 * 16 + of_char c mod (16::nat)) = c"
  by simp

definition is_alnum :: "char \<Rightarrow> bool" where
  "is_alnum c \<longleftrightarrow> (let n = of_char c :: nat in
     (48 \<le> n \<and> n \<le> 57) \<or> (65 \<le> n \<and> n \<le> 90) \<or> (97 \<le> n \<and> n \<le> 122))"

text \<open>\<open>encodeURIComponent\<close> keeps letters, digits and \<open>- _ . ! ~ * ' ( )\<close>.\<close>

definition uri_safe :: "char \<Rightarrow> bool" where
  "uri_safe c \<longleftrightarrow> is_alnum c \<or> c \<in> set ''-_.!~*()'' \<or> c = CHR 0x27"

definition uri_esc :: "char \<Rightarrow> string" where
  "uri_esc c = (if uri_safe c then [c] else pct c)"

definition encodeURIComponent :: "string \<Rightarrow> string" where
  "encodeURIComponent s = concat (map uri_esc s)"

text \<open>The form serialiser keeps letters, digits and \<open>* - . _\<close>; a space becomes \<open>+\<close>.\<close>

definition form_safe :: "char \<Rightarrow> bool" where
  "form_safe c \<longleftrightarrow> is_alnum c \<or> c \<in> set ''*-._''"

definition form_esc :: "char \<Rightarrow> string" where
  "form_esc c = (if c = CHR '' '' then ''+'' else if form_safe c then [c] else pct c)"

definition form_encode :: "string \<Rightarrow> string" where
  "form_encode s = concat (map form_esc s)"

text \<open>\<open>decodeURIComponent\<close>: a malformed escape, or bytes that are not UTF-8, throw (\<open>None\<close>).\<close>

fun pct_decode :: "string \<Rightarrow> string option" where
  "pct_decode [] = Some []"
| "pct_decode (c # s) =
     (if c = CHR ''%'' then
        (case s of
           a # b # t \<Rightarrow>
             (case (hex_val a, hex_val b) of
                (Some x, Some y) \<Rightarrow> map_option (Cons (char_of (x * 16 + y))) (pct_decode t)
              | _ \<Rightarrow> None)
         | _ \<Rightarrow> None)
      else map_option (Cons c) (pct_decode s))"

definition cont_byte :: "nat \<Rightarrow> bool" where
  "cont_byte n \<longleftrightarrow> 128 \<le> n \<and> n \<le> 191"

fun utf8_valid :: "nat list \<Rightarrow> bool" where
  "utf8_valid [] = True"
| "utf8_valid (a # s) =
     (if a < 128 then utf8_valid s
      else if 194 \<le> a \<and> a \<le> 223 then
        (case s of b # t \<Rightarrow> cont_byte b \<and> utf8_valid t | _ \<Rightarrow> False)
      else if 224 \<le> a \<and> a \<le> 239 then
        (case s of b # c # t \<Rightarrow>
           cont_byte b \<and> (a = 224 \<longrightarrow> 160 \<le> b) \<and> (a = 237 \<longrightarrow> b \<le> 159) \<and> cont_byte c \<and> utf8_valid t
         | _ \<Rightarrow> False)
      else if 240 \<le> a \<and> a \<le> 244 then
        (case s of b # c # d # t \<Rightarrow>
           cont_byte b \<and> (a = 240 \<longrightarrow> 144 \<le> b) \<and> (a = 244 \<longrightarrow> b \<le> 143)
             \<and> cont_byte c \<and> cont_byte d \<and> utf8_valid t
         | _ \<Rightarrow> False)
      else False)"

definition utf8_text :: "string \<Rightarrow> bool" where
  "utf8_text s = utf8_valid (map of_char s)"

definition decodeURIComponent :: "string \<Rightarrow> string option" where
  "decodeURIComponent s =
     (case pct_decode s of None \<Rightarrow> None | Some t \<Rightarrow> if utf8_text t then Some t else None)"

text \<open>The form parser: \<open>+\<close> is a space and a malformed escape stays as it is.\<close>

fun form_decode :: "string \<Rightarrow> string" where
  "form_decode [] = []"
| "form_decode (c # s) =
     (if c = CHR ''+'' then CHR '' '' # form_decode s
      else if c = CHR ''%'' then
        (case s of
           a # b # t \<Rightarrow>
             (case (hex_val a, hex_val b) of
                (Some x, Some y) \<Rightarrow> char_of (x * 16 + y) # form_decode t
              | _ \<Rightarrow> c # form_decode s)
         | _ \<Rightarrow> c # form_decode s)
      else c # form_decode s)"

subsection \<open>The round trip, once for both encoders\<close>

locale byte_codec =
  fixes esc :: "char \<Rightarrow> string"
    and dec :: "string \<Rightarrow> string option"
  assumes dec_Nil: "dec [] = Some []"
    and dec_esc: "dec (esc c @ s) = map_option (Cons c) (dec s)"
begin

lemma dec_append: "dec (concat (map esc t) @ s) = map_option ((@) t) (dec s)"
  by (induction t) (auto simp: dec_esc option.map_comp o_def option.map_ident)

lemma dec_enc: "dec (concat (map esc t)) = Some t"
  using dec_append [of t "[]"] by (simp add: dec_Nil)

lemma enc_inj: "concat (map esc s) = concat (map esc t) \<Longrightarrow> s = t"
  by (metis dec_enc option.inject)

end

lemma pct_decode_pct: "pct_decode (pct c @ s) = map_option (Cons c) (pct_decode s)"
  by (simp add: pct_def Let_def char_of_div_mod)

lemma form_decode_pct: "form_decode (pct c @ s) = c # form_decode s"
  by (simp add: pct_def Let_def char_of_div_mod)

lemma uri_safe_not_pct: "uri_safe c \<Longrightarrow> c \<noteq> CHR ''%''"
  by (auto simp: uri_safe_def is_alnum_def)

lemma form_safe_plain: "form_safe c \<Longrightarrow> c \<noteq> CHR ''%'' \<and> c \<noteq> CHR ''+''"
  by (auto simp: form_safe_def is_alnum_def)

interpretation uri: byte_codec uri_esc pct_decode
proof unfold_locales
  show "pct_decode (uri_esc c @ s) = map_option (Cons c) (pct_decode s)" for c s
    using uri_safe_not_pct by (cases "uri_safe c") (auto simp: uri_esc_def pct_decode_pct)
qed simp

interpretation form: byte_codec form_esc "\<lambda>s. Some (form_decode s)"
proof unfold_locales
  show "Some (form_decode (form_esc c @ s)) = map_option (Cons c) (Some (form_decode s))" for c s
    using form_safe_plain by (cases "form_safe c") (auto simp: form_esc_def form_decode_pct)
qed simp

lemma form_decode_encode [simp]: "form_decode (form_encode s) = s"
  using form.dec_enc [of s] by (simp add: form_encode_def)

lemma form_encode_inj: "form_encode s = form_encode t \<Longrightarrow> s = t"
  by (metis form_decode_encode)

lemma decode_encodeURIComponent: "utf8_text s \<Longrightarrow> decodeURIComponent (encodeURIComponent s) = Some s"
  using uri.dec_enc [of s] by (simp add: decodeURIComponent_def encodeURIComponent_def)

lemma form_decode_encodeURIComponent [simp]: "form_decode (encodeURIComponent s) = s"
proof -
  have "form_decode (concat (map uri_esc s)) = s"
  proof (induction s)
    case (Cons c s)
    have "c \<noteq> CHR ''+'' \<and> c \<noteq> CHR ''%''" if "uri_safe c"
      using that by (auto simp: uri_safe_def is_alnum_def)
    with Cons show ?case
      by (auto simp: uri_esc_def form_decode_pct)
  qed simp
  then show ?thesis by (simp add: encodeURIComponent_def)
qed

text \<open>Neither encoder ever outputs a character that separates the parts of a URL.\<close>

definition url_delims :: "char set" where
  "url_delims = {CHR ''&'', CHR ''='', CHR ''?'', CHR ''/'', CHR ''#'', CHR '' ''}"

lemma hex_digit_alnum: "n < 16 \<Longrightarrow> is_alnum (hex_digit n)"
  by (auto simp: is_alnum_def hex_digit_def Let_def)

lemma pct_no_delims: "set (pct c) \<inter> url_delims = {}"
proof -
  have "is_alnum x \<Longrightarrow> x \<notin> url_delims" for x
    by (auto simp: is_alnum_def url_delims_def)
  moreover have "set (pct c) \<subseteq> insert CHR ''%'' {x. is_alnum x}"
    by (auto simp: pct_def Let_def hex_digit_alnum)
  moreover have "CHR ''%'' \<notin> url_delims"
    by (simp add: url_delims_def)
  ultimately show ?thesis by blast
qed

lemma form_encode_no_delims: "set (form_encode s) \<inter> url_delims = {}"
proof -
  have "set (form_esc c) \<inter> url_delims = {}" for c
    using pct_no_delims [of c]
    by (auto simp: form_esc_def form_safe_def is_alnum_def url_delims_def)
  then show ?thesis by (auto simp: form_encode_def)
qed

lemma encodeURIComponent_no_delims: "set (encodeURIComponent s) \<inter> url_delims = {}"
proof -
  have "set (uri_esc c) \<inter> url_delims = {}" for c
    using pct_no_delims [of c]
    by (auto simp: uri_esc_def uri_safe_def is_alnum_def url_delims_def)
  then show ?thesis by (auto simp: encodeURIComponent_def)
qed

subsection \<open>URLSearchParams\<close>

text \<open>\<open>toString\<close> and the constructor's parser.\<close>

definition pair_string :: "string \<times> string \<Rightarrow> string" where
  "pair_string kv = form_encode (fst kv) @ ''='' @ form_encode (snd kv)"

definition params_toString :: "(string \<times> string) list \<Rightarrow> string" where
  "params_toString ps = join ''&'' (map pair_string ps)"

fun split_at_char :: "char \<Rightarrow> string \<Rightarrow> string list" where
  "split_at_char d [] = [[]]"
| "split_at_char d (c # s) =
     (if c = d then [] # split_at_char d s
      else (case split_at_char d s of [] \<Rightarrow> [[c]] | w # ws \<Rightarrow> (c # w) # ws))"

definition parse_pair :: "string \<Rightarrow> string \<times> string" where
  "parse_pair w = (form_decode (takeWhile (\<lambda>c. c \<noteq> CHR ''='') w),
                   form_decode (drop 1 (dropWhile (\<lambda>c. c \<noteq> CHR ''='') w)))"

definition parse_query :: "string \<Rightarrow> (string \<times> string) list" where
  "parse_query s = map parse_pair (filter (\<lambda>w. w \<noteq> []) (split_at_char CHR ''&'' s))"

lemma split_at_char_nonempty [simp]: "split_at_char d s \<noteq> []"
  by (induction s) (auto split: list.splits)

lemma split_at_char_none: "d \<notin> set s \<Longrightarrow> split_at_char d s = [s]"
  by (induction s) auto

lemma split_at_char_append: "d \<notin> set s \<Longrightarrow> split_at_char d (s @ d # t) = s # split_at_char d t"
  by (induction s) auto

lemma split_join:
  assumes "ws \<noteq> []" and "\<forall>w \<in> set ws. d \<notin> set w"
  shows "split_at_char d (join [d] ws) = ws"
  using assms
  by (induction "[d]" ws rule: join.induct)
     (simp_all add: split_at_char_none split_at_char_append)

lemma form_encode_no_amp [simp]: "CHR ''&'' \<notin> set (form_encode s)" "CHR ''='' \<notin> set (form_encode s)"
  using form_encode_no_delims [of s] by (auto simp: url_delims_def)

lemma parse_pair_string [simp]: "parse_pair (pair_string kv) = kv"
proof -
  have t: "takeWhile (\<lambda>c. c \<noteq> CHR ''='') (form_encode (fst kv) @ CHR ''='' # form_encode (snd kv))
      = form_encode (fst kv)"
    by (subst takeWhile_append2) (auto simp: form_encode_no_amp(2) intro: ccontr)
  have d: "dropWhile (\<lambda>c. c \<noteq> CHR ''='') (form_encode (fst kv) @ CHR ''='' # form_encode (snd kv))
      = CHR ''='' # form_encode (snd kv)"
    by (subst dropWhile_append2) (auto simp: form_encode_no_amp(2) intro: ccontr)
  show ?thesis by (simp add: parse_pair_def pair_string_def t d)
qed

lemma pair_string_nonempty [simp]: "pair_string kv \<noteq> []"
  by (simp add: pair_string_def)

lemma parse_params_toString: "parse_query (params_toString ps) = ps"
proof (cases "ps = []")
  case True
  then show ?thesis by (simp add: parse_query_def params_toString_def)
next
  case False
  have "\<forall>w \<in> set (map pair_string ps). CHR ''&'' \<notin> set w"
    by (auto simp: pair_string_def)
  with False have "split_at_char CHR ''&'' (params_toString ps) = map pair_string ps"
    unfolding params_toString_def by (intro split_join) auto
  moreover have "filter (\<lambda>w. w \<noteq> []) (map pair_string ps) = map pair_string ps"
    by (simp add: filter_id_conv)
  ultimately show ?thesis by (simp add: parse_query_def o_def)
qed

lemma params_toString_empty_iff: "params_toString ps = [] \<longleftrightarrow> ps = []"
  by (metis parse_params_toString join.simps(1) list.simps(8) params_toString_def)

lemma set_join: "set (join sep ws) \<subseteq> set sep \<union> \<Union> (set (map set ws))"
  by (induction sep ws rule: join.induct) auto

lemma params_toString_no_qmark: "CHR ''?'' \<notin> set (params_toString ps)"
proof -
  have "CHR ''?'' \<notin> set (pair_string kv)" for kv
    using form_encode_no_delims [of "fst kv"] form_encode_no_delims [of "snd kv"]
    by (auto simp: pair_string_def url_delims_def)
  then show ?thesis
    using set_join [of "''&''" "map pair_string ps"] by (auto simp: params_toString_def)
qed

end
