(* ===== verification/Browser.thy ===== *)
theory Browser
  imports Url_Codec
begin

text \<open>
  The environment the consoles run in: \<open>localStorage\<close>, \<open>document.cookie\<close>,
  \<open>window.location\<close>, the build configuration and the network. The network is not modelled: the
  \<open>n\<close>-th request of a session gets the \<open>n\<close>-th answer of an arbitrary sequence \<open>net\<close>, so a
  theorem for every \<open>net\<close> is a theorem for every behaviour of the backend. \<open>sent\<close> and
  \<open>assigned\<close> record the requests made and the \<open>window.location.assign\<close> calls.

  A response carries its status, its text (\<open>None\<close> when reading the body fails) and what
  \<open>JSON.parse\<close> makes of that text (\<open>None\<close> when it throws).
\<close>

record env =
  env_DEV :: bool
  env_API_BASE_URL :: "string option"
  env_ADMIN_CONSOLE_URL :: "string option"
  env_CUSTOMER_CONSOLE_URL :: "string option"
  env_AUTH_CONSOLE_URL :: "string option"

record http_request =
  rq_method :: string
  rq_url :: string
  rq_headers :: "string js_record"
  rq_include :: bool
  rq_body :: "json option"

record http_response =
  rs_status :: int
  rs_text :: "string option"
  rs_json :: "json option"

datatype fetch_result = NetFail | Resp http_response

datatype details = NoDetails | CauseError | Details json

datatype js_error =
    ApiError (err_code: json) (err_message: string) (err_status: int) (err_details: details)
  | PlainError (err_message: string)

record browser =
  config :: env
  storage :: "string \<rightharpoonup> string"
  storage_ok :: bool
  cookie :: string
  pathname :: string
  search :: string
  assigned :: "string list"
  sent :: "http_request list"
  net :: "nat \<Rightarrow> fetch_result"

definition response_ok :: "http_response \<Rightarrow> bool" where
  "response_ok r \<longleftrightarrow> 200 \<le> rs_status r \<and> rs_status r < 300"

definition fetch :: "http_request \<Rightarrow> browser \<Rightarrow> fetch_result \<times> browser" where
  "fetch rq b = (net b (length (sent b)), b\<lparr>sent := sent b @ [rq]\<rparr>)"

text \<open>The answer the next request will get.\<close>

definition next_answer :: "browser \<Rightarrow> fetch_result" where
  "next_answer b = net b (length (sent b))"

text \<open>\<open>s.replace(/\/+$/, "")\<close>.\<close>

definition strip_trailing_slashes :: "string \<Rightarrow> string" where
  "strip_trailing_slashes s = rev (dropWhile (\<lambda>c. c = CHR ''/'') (rev s))"

text \<open>\<open>x || d\<close> on an optional string.\<close>

definition or_default :: "string option \<Rightarrow> string \<Rightarrow> string" where
  "or_default x d = (case x of None \<Rightarrow> d | Some s \<Rightarrow> if s = [] then d else s)"

text \<open>\<open>{ ...a, ...b }\<close>.\<close>

definition obj_spread :: "'v js_record \<Rightarrow> 'v js_record \<Rightarrow> 'v js_record" where
  "obj_spread a b = foldl (\<lambda>o' kv. AList.update (fst kv) (snd kv) o') a b"

lemma map_of_obj_spread:
  "distinct (map fst b) \<Longrightarrow> map_of (obj_spread a b) = map_of a ++ map_of b"
  unfolding obj_spread_def
proof (induction b arbitrary: a)
  case (Cons kv b)
  obtain k v where kv: "kv = (k, v)" by (cases kv)
  with Cons have "map_of (foldl (\<lambda>o' kv. AList.update (fst kv) (snd kv) o') a (kv # b))
      = map_of (AList.update k v a) ++ map_of b"
    by simp
  also have "\<dots> = map_of a ++ map_of (kv # b)"
  proof -
    have "map_of b k = None" using Cons.prems kv by (simp add: map_of_eq_None_iff)
    then show ?thesis
      by (auto simp: kv fun_eq_iff map_add_def update_conv' split: option.splits)
  qed
  finally show ?case .
qed simp

lemma obj_spread_Nil [simp]: "obj_spread a [] = a"
  by (simp add: obj_spread_def)

text \<open>The absence of a header survives a spread that does not set it.\<close>

lemma map_of_obj_spread_notin: "k \<notin> fst ` set b \<Longrightarrow> map_of (obj_spread a b) k = map_of a k"
  unfolding obj_spread_def
  by (induction b arbitrary: a) (auto simp: update_conv')

end
