(* ===== verification/Api_Client.thy ===== *)
theory Api_Client
  imports Browser
begin

text \<open>
  \<open>frontend/apps/console-admin/src/lib/api.ts\<close> (the cookie-session client, shared by the
  admin, user and auth consoles) and \<open>frontend/apps/console-docs/src/lib/api.ts\<close> (the
  bearer-token client of the docs and landing sites).
\<close>

subsection \<open>Cookie-session client\<close>

definition API_BASE :: "browser \<Rightarrow> string" where
  "API_BASE b =
     (if env_DEV (config b) then ''/api/v1''
      else (case env_API_BASE_URL (config b) of
              None \<Rightarrow> []
            | Some u \<Rightarrow> if u = [] then [] else strip_trailing_slashes u) @ ''/v1'')"

definition getToken :: "browser \<Rightarrow> string option" where
  "getToken b = None"

definition setToken :: "string option \<Rightarrow> browser \<Rightarrow> browser" where
  "setToken t b = b"

definition AUTH_ONLY_PATHS :: "string list" where
  "AUTH_ONLY_PATHS = [''/auth/'', ''/contact-change/confirm'']"

definition handleSessionExpired :: "browser \<Rightarrow> browser" where
  "handleSessionExpired b =
     (let b1 = (if storage_ok b
                then b\<lparr>storage := (storage b)(''kilat_role'' := None, ''kilat_profile'' := None,
                                    ''kilat_org_id'' := None)\<rparr>
                else b)
      in if startsWith (pathname b1) ''/oauth/callback'' \<or> startsWith (pathname b1) ''/handoff''
         then b1
         else if pathname b1 \<noteq> ''/login''
         then b1\<lparr>assigned := assigned b1
                   @ [''/login?next='' @ encodeURIComponent (pathname b1 @ search b1)]\<rparr>
         else b1)"

definition authHeaders :: "browser \<Rightarrow> string js_record" where
  "authHeaders b = []"

text \<open>\<open>document.cookie.match(/(?:^|;\s*)kc_csrf=([^;]+)/)\<close>.\<close>

definition csrf_at :: "string \<Rightarrow> string option" where
  "csrf_at s =
     (if startsWith s ''kc_csrf=''
      then (let v = takeWhile (\<lambda>c. c \<noteq> CHR '';'') (drop 8 s) in if v = [] then None else Some v)
      else None)"

fun csrf_scan :: "string \<Rightarrow> string option" where
  "csrf_scan [] = None"
| "csrf_scan (c # s) =
     (if c = CHR '';''
      then (case csrf_at (dropWhile is_ws s) of Some v \<Rightarrow> Some v | None \<Rightarrow> csrf_scan s)
      else csrf_scan s)"

definition csrf_match :: "string \<Rightarrow> string option" where
  "csrf_match s = (case csrf_at s of Some v \<Rightarrow> Some v | None \<Rightarrow> csrf_scan s)"

definition csrfToken :: "browser \<Rightarrow> js_error + string option" where
  "csrfToken b =
     (case csrf_match (cookie b) of
        None \<Rightarrow> Inr None
      | Some v \<Rightarrow> (case decodeURIComponent v of
                    None \<Rightarrow> Inl (PlainError ''URI malformed'')
                  | Some t \<Rightarrow> Inr (Some t)))"

datatype query_value = QStr string | QNum rat | QBool bool | QNull | QUndefined

record api_options =
  ao_headers :: "string js_record option"
  ao_query :: "query_value js_record option"

definition no_options :: api_options where
  "no_options = \<lparr>ao_headers = None, ao_query = None\<rparr>"

record envelope =
  env_data :: json
  env_meta :: "json option"

fun query_String :: "query_value \<Rightarrow> string option" where
  "query_String (QStr s) = Some s"
| "query_String (QNum q) = Some (show_num q)"
| "query_String (QBool v) = Some (if v then ''true'' else ''false'')"
| "query_String QNull = None"
| "query_String QUndefined = None"

text \<open>The loop that fills the \<open>URLSearchParams\<close>.\<close>

fun fill_params :: "query_value js_record \<Rightarrow> string js_record \<Rightarrow> string js_record" where
  "fill_params [] ps = ps"
| "fill_params ((k, v) # q) ps =
     (case query_String v of None \<Rightarrow> fill_params q ps | Some s \<Rightarrow> fill_params q (AList.update k s ps))"

definition buildUrl :: "browser \<Rightarrow> string \<Rightarrow> query_value js_record option \<Rightarrow> string" where
  "buildUrl b path query =
     (let url = API_BASE b @ (if startsWith path ''/'' then path else ''/'' @ path)
      in case query of
           None \<Rightarrow> url
         | Some q \<Rightarrow> (let qs = params_toString (fill_params q [])
                     in if qs \<noteq> [] then url @ ''?'' @ qs else url))"

fun hasDataField :: "json \<Rightarrow> bool" where
  "hasDataField (JObj kvs) = (map_of kvs ''data'' \<noteq> None)"
| "hasDataField _ = False"

text \<open>\<open>response.text()\<close> then \<open>JSON.parse\<close>, a parse failure and an empty text giving \<open>null\<close>.\<close>

definition payload_of :: "http_response \<Rightarrow> string \<Rightarrow> json" where
  "payload_of r txt = (if txt = [] then JNull else case rs_json r of None \<Rightarrow> JNull | Some j \<Rightarrow> j)"

definition error_field :: "json \<Rightarrow> json option" where
  "error_field payload = prop_of payload ''error''"

definition opt_prop :: "json option \<Rightarrow> string \<Rightarrow> json option" where
  "opt_prop v k = (case v of None \<Rightarrow> None | Some j \<Rightarrow> prop_of j k)"

definition details_of :: "json option \<Rightarrow> details" where
  "details_of v = (case v of None \<Rightarrow> NoDetails | Some j \<Rightarrow> Details j)"

definition api_error_of :: "int \<Rightarrow> json \<Rightarrow> js_error" where
  "api_error_of st payload =
     (let err = error_field payload
      in ApiError
           (coalesce (opt_prop err ''code'') (JStr (if st = 429 then ''rate_limited'' else ''unknown_error'')))
           (js_String (coalesce (opt_prop err ''message'')
              (JStr (if st = 429 then ''Terlalu banyak percobaan, coba lagi dalam 1 menit''
                     else ''Request failed with status '' @ show_int st))))
           st (details_of (opt_prop err ''details'')))"

definition envelope_of :: "json \<Rightarrow> envelope" where
  "envelope_of payload =
     (if hasDataField payload
      then \<lparr>env_data = the (prop_of payload ''data''), env_meta = prop_of payload ''meta''\<rparr>
      else \<lparr>env_data = payload, env_meta = None\<rparr>)"

definition is_auth_only :: "string \<Rightarrow> bool" where
  "is_auth_only path = list_ex (startsWith path) AUTH_ONLY_PATHS"

definition base_headers :: "browser \<Rightarrow> json option \<Rightarrow> api_options \<Rightarrow> string js_record" where
  "base_headers b body opts =
     (let h = obj_spread (obj_spread [(''Accept'', ''application/json'')] (authHeaders b))
                (case ao_headers opts of None \<Rightarrow> [] | Some h' \<Rightarrow> h')
      in if body \<noteq> None then AList.update ''Content-Type'' ''application/json'' h else h)"

definition is_safe_method :: "string \<Rightarrow> bool" where
  "is_safe_method m \<longleftrightarrow> m = ''GET'' \<or> m = ''HEAD'' \<or> m = ''OPTIONS''"

definition request_headers ::
  "string \<Rightarrow> browser \<Rightarrow> json option \<Rightarrow> api_options \<Rightarrow> js_error + string js_record" where
  "request_headers m b body opts =
     (if is_safe_method m then Inr (base_headers b body opts)
      else case csrfToken b of
             Inl e \<Rightarrow> Inl e
           | Inr None \<Rightarrow> Inr (base_headers b body opts)
           | Inr (Some t) \<Rightarrow>
               Inr (if t \<noteq> [] then AList.update ''X-CSRF-Token'' t (base_headers b body opts)
                    else base_headers b body opts))"

text \<open>What \<open>request\<close> does with the answer of \<open>fetch\<close>.\<close>

definition handle_response :: "string \<Rightarrow> fetch_result \<Rightarrow> (browser, js_error, envelope) io" where
  "handle_response path res b =
     (case res of
        NetFail \<Rightarrow> (Inl (ApiError (JStr ''network_error'') ''Network request failed'' 0 CauseError), b)
      | Resp r \<Rightarrow>
          (case rs_text r of
             None \<Rightarrow> (Inl (PlainError ''body stream failed''), b)
           | Some txt \<Rightarrow>
               (let payload = payload_of r txt
                in if \<not> response_ok r
                   then (Inl (api_error_of (rs_status r) payload),
                         if rs_status r = 401 \<and> \<not> is_auth_only path then handleSessionExpired b else b)
                   else (Inr (envelope_of payload), b))))"

definition request ::
  "string \<Rightarrow> string \<Rightarrow> json option \<Rightarrow> api_options \<Rightarrow> (browser, js_error, envelope) io" where
  "request m path body opts b =
     (let url = buildUrl b path (ao_query opts)
      in case request_headers m b body opts of
           Inl e \<Rightarrow> (Inl e, b)
         | Inr hs \<Rightarrow>
             (case fetch \<lparr>rq_method = m, rq_url = url, rq_headers = hs, rq_include = True,
                          rq_body = body\<rparr> b of
                (res, b') \<Rightarrow> handle_response path res b'))"

definition unwrap :: "envelope \<Rightarrow> json" where
  "unwrap e = env_data e"

definition apiGet :: "string \<Rightarrow> api_options \<Rightarrow> (browser, js_error, envelope) io" where
  "apiGet path opts = request ''GET'' path None opts"

definition apiPost :: "string \<Rightarrow> json option \<Rightarrow> api_options \<Rightarrow> (browser, js_error, envelope) io" where
  "apiPost path body opts = request ''POST'' path body opts"

definition apiPut :: "string \<Rightarrow> json option \<Rightarrow> api_options \<Rightarrow> (browser, js_error, envelope) io" where
  "apiPut path body opts = request ''PUT'' path body opts"

definition apiPatch :: "string \<Rightarrow> json option \<Rightarrow> api_options \<Rightarrow> (browser, js_error, envelope) io" where
  "apiPatch path body opts = request ''PATCH'' path body opts"

definition apiDelete :: "string \<Rightarrow> api_options \<Rightarrow> (browser, js_error, envelope) io" where
  "apiDelete path opts = request ''DELETE'' path None opts"

subsection \<open>Bearer-token client of the docs and landing sites\<close>

definition TOKEN_KEY :: string where
  "TOKEN_KEY = ''kilat_token''"

definition API_ORIGIN :: "browser \<Rightarrow> string" where
  "API_ORIGIN b =
     (if env_DEV (config b)
      then strip_trailing_slashes (or_default (env_API_BASE_URL (config b)) ''http://localhost:8080'')
      else strip_trailing_slashes (or_default (env_API_BASE_URL (config b)) []))"

definition resolveMediaUrl :: "browser \<Rightarrow> string \<Rightarrow> string" where
  "resolveMediaUrl b value =
     (if value = [] then []
      else if startsWith value ''http://'' \<or> startsWith value ''https://'' \<or> startsWith value ''data:''
      then value
      else API_ORIGIN b @ (if startsWith value ''/'' then value else ''/'' @ value))"

definition docs_getToken :: "browser \<Rightarrow> string option" where
  "docs_getToken b = (if storage_ok b then storage b TOKEN_KEY else None)"

definition docs_setToken :: "string option \<Rightarrow> browser \<Rightarrow> browser" where
  "docs_setToken t b =
     (if storage_ok b
      then (case t of
              Some (c # s) \<Rightarrow> b\<lparr>storage := (storage b)(TOKEN_KEY \<mapsto> c # s)\<rparr>
            | _ \<Rightarrow> b\<lparr>storage := (storage b)(TOKEN_KEY := None)\<rparr>)
      else b)"

definition docs_handleSessionExpired :: "browser \<Rightarrow> browser" where
  "docs_handleSessionExpired b =
     (let b1 = (if storage_ok b
                then b\<lparr>storage := (storage b)(TOKEN_KEY := None, ''kilat_role'' := None,
                                    ''kilat_profile'' := None, ''kilat_org_id'' := None)\<rparr>
                else b)
      in if pathname b1 \<noteq> ''/login''
         then b1\<lparr>assigned := assigned b1
                   @ [''/login?next='' @ encodeURIComponent (pathname b1 @ search b1)]\<rparr>
         else b1)"

definition has_token :: "browser \<Rightarrow> bool" where
  "has_token b \<longleftrightarrow> docs_getToken b \<noteq> None \<and> docs_getToken b \<noteq> Some []"

definition docs_authHeaders :: "browser \<Rightarrow> string js_record" where
  "docs_authHeaders b =
     (if has_token b then [(''Authorization'', ''Bearer '' @ the (docs_getToken b))] else [])"

definition docs_error_of :: "int \<Rightarrow> json \<Rightarrow> js_error" where
  "docs_error_of st payload =
     (let err = error_field payload
      in ApiError
           (coalesce (opt_prop err ''code'') (JStr ''unknown_error''))
           (js_String (coalesce (opt_prop err ''message'')
              (JStr (''Request failed with status '' @ show_int st))))
           st (details_of (opt_prop err ''details'')))"

definition docs_headers :: "browser \<Rightarrow> json option \<Rightarrow> api_options \<Rightarrow> string js_record" where
  "docs_headers b body opts =
     (let h = obj_spread (obj_spread [(''Accept'', ''application/json'')] (docs_authHeaders b))
                (case ao_headers opts of None \<Rightarrow> [] | Some h' \<Rightarrow> h')
      in if body \<noteq> None then AList.update ''Content-Type'' ''application/json'' h else h)"

definition docs_handle_response ::
  "bool \<Rightarrow> string \<Rightarrow> fetch_result \<Rightarrow> (browser, js_error, envelope) io" where
  "docs_handle_response hadToken path res b =
     (case res of
        NetFail \<Rightarrow> (Inl (ApiError (JStr ''network_error'') ''Network request failed'' 0 CauseError), b)
      | Resp r \<Rightarrow>
          (case rs_text r of
             None \<Rightarrow> (Inl (PlainError ''body stream failed''), b)
           | Some txt \<Rightarrow>
               (let payload = payload_of r txt
                in if \<not> response_ok r
                   then (Inl (docs_error_of (rs_status r) payload),
                         if rs_status r = 401 \<and> hadToken \<and> \<not> is_auth_only path
                         then docs_handleSessionExpired b else b)
                   else (Inr (envelope_of payload), b))))"

definition docs_request ::
  "string \<Rightarrow> string \<Rightarrow> json option \<Rightarrow> api_options \<Rightarrow> (browser, js_error, envelope) io" where
  "docs_request m path body opts b =
     (let url = buildUrl b path (ao_query opts);
          hadToken = has_token b
      in case fetch \<lparr>rq_method = m, rq_url = url, rq_headers = docs_headers b body opts,
                     rq_include = False, rq_body = body\<rparr> b of
           (res, b') \<Rightarrow> docs_handle_response hadToken path res b')"

text \<open>\<open>console-docs/src/docs/index.ts\<close>.\<close>

definition fetchDocs :: "(browser, js_error, json) io" where
  "fetchDocs = io_bind (docs_request ''GET'' ''/docs'' None no_options) (\<lambda>e. io_ret (env_data e))"

definition fetchDoc :: "string \<Rightarrow> (browser, js_error, json) io" where
  "fetchDoc slug =
     io_bind (docs_request ''GET'' (''/docs/'' @ encodeURIComponent slug) None no_options)
       (\<lambda>e. io_ret (env_data e))"


subsection \<open>Query strings\<close>

lemma update_new: "k \<notin> fst ` set al \<Longrightarrow> AList.update k v al = al @ [(k, v)]"
  by (induction al) auto

text \<open>The entries that reach the URL, in order.\<close>

definition query_entries :: "query_value js_record \<Rightarrow> string js_record" where
  "query_entries q = List.map_filter (\<lambda>kv. map_option (Pair (fst kv)) (query_String (snd kv))) q"

lemma query_entries_simps [simp]:
  "query_entries [] = []"
  "query_entries ((k, v) # q) =
     (case query_String v of None \<Rightarrow> query_entries q | Some s \<Rightarrow> (k, s) # query_entries q)"
  by (simp_all add: query_entries_def List.map_filter_simps split: option.splits)

lemma fill_params_entries:
  "distinct (map fst q) \<Longrightarrow> fst ` set q \<inter> fst ` set ps = {} \<Longrightarrow>
   fill_params q ps = ps @ query_entries q"
proof (induction q ps rule: fill_params.induct)
  case (2 k v q ps)
  show ?case
  proof (cases "query_String v")
    case None
    with 2 show ?thesis by auto
  next
    case (Some s)
    have "fill_params q (ps @ [(k, s)]) = (ps @ [(k, s)]) @ query_entries q"
      using "2.IH"(2) [OF Some] "2.prems" by (auto simp: update_new)
    with Some "2.prems" show ?thesis by (auto simp: update_new)
  qed
qed simp

text \<open>The two halves of a URL at its first question mark.\<close>

definition url_path :: "string \<Rightarrow> string" where
  "url_path u = takeWhile (\<lambda>c. c \<noteq> CHR ''?'') u"

definition url_query :: "string \<Rightarrow> string" where
  "url_query u = drop 1 (dropWhile (\<lambda>c. c \<noteq> CHR ''?'') u)"

lemma url_split:
  assumes "CHR ''?'' \<notin> set p"
  shows "url_path (p @ CHR ''?'' # q) = p" "url_query (p @ CHR ''?'' # q) = q"
    and "url_path p = p" "url_query p = []"
proof -
  have all: "\<forall>c \<in> set p. c \<noteq> CHR ''?''" using assms by blast
  show "url_path (p @ CHR ''?'' # q) = p"
    using all by (simp add: url_path_def)
  show "url_query (p @ CHR ''?'' # q) = q"
    using all by (simp add: url_query_def)
  show "url_path p = p" using all by (simp add: url_path_def takeWhile_eq_all_conv)
  have "dropWhile (\<lambda>c. c \<noteq> CHR ''?'') p = []" using all by (simp only: dropWhile_eq_Nil_conv)
  then show "url_query p = []" unfolding url_query_def by (simp only: drop_Nil)
qed

definition full_path :: "browser \<Rightarrow> string \<Rightarrow> string" where
  "full_path b path = API_BASE b @ (if startsWith path ''/'' then path else ''/'' @ path)"


text \<open>A browser on the users page of a development build, with one CSRF cookie.\<close>

definition sample_env :: env where
  "sample_env = \<lparr>env_DEV = True, env_API_BASE_URL = None, env_ADMIN_CONSOLE_URL = None,
     env_CUSTOMER_CONSOLE_URL = None, env_AUTH_CONSOLE_URL = None\<rparr>"

definition sample_browser :: "fetch_result \<Rightarrow> browser" where
  "sample_browser res = \<lparr>config = sample_env,
     storage = [''kilat_role'' \<mapsto> ''admin'', ''theme'' \<mapsto> ''dark''], storage_ok = True,
     cookie = ''theme=dark; kc_csrf=a%20b'', pathname = ''/admin/users'', search = ''?page=2'',
     assigned = [], sent = [], net = (\<lambda>_. res)\<rparr>"

lemmas sample_defs = sample_browser_def sample_env_def



subsection \<open>What one request does\<close>

lemma request_unfold:
  "request_headers m b body opts = Inr hs \<Longrightarrow>
   request m path body opts b =
     handle_response path (next_answer b)
       (b\<lparr>sent := sent b @ [\<lparr>rq_method = m, rq_url = buildUrl b path (ao_query opts),
          rq_headers = hs, rq_include = True, rq_body = body\<rparr>]\<rparr>)"
  by (simp add: request_def fetch_def next_answer_def Let_def)

lemma request_no_headers:
  "request_headers m b body opts = Inl e \<Longrightarrow> request m path body opts b = (Inl e, b)"
  by (simp add: request_def Let_def)

lemma handleSessionExpired_frame [simp]:
  "sent (handleSessionExpired b) = sent b" "net (handleSessionExpired b) = net b"
  "cookie (handleSessionExpired b) = cookie b" "pathname (handleSessionExpired b) = pathname b"
  "search (handleSessionExpired b) = search b" "config (handleSessionExpired b) = config b"
  "storage_ok (handleSessionExpired b) = storage_ok b"
  by (simp_all add: handleSessionExpired_def Let_def)

lemma docs_handleSessionExpired_frame [simp]:
  "sent (docs_handleSessionExpired b) = sent b" "net (docs_handleSessionExpired b) = net b"
  "cookie (docs_handleSessionExpired b) = cookie b" "pathname (docs_handleSessionExpired b) = pathname b"
  "search (docs_handleSessionExpired b) = search b" "config (docs_handleSessionExpired b) = config b"
  "storage_ok (docs_handleSessionExpired b) = storage_ok b"
  by (simp_all add: docs_handleSessionExpired_def Let_def)

lemma handle_response_frame [simp]:
  "sent (snd (handle_response p res b)) = sent b" "net (snd (handle_response p res b)) = net b"
  "cookie (snd (handle_response p res b)) = cookie b"
  "pathname (snd (handle_response p res b)) = pathname b"
  "search (snd (handle_response p res b)) = search b"
  "config (snd (handle_response p res b)) = config b"
  "storage_ok (snd (handle_response p res b)) = storage_ok b"
  by (simp_all add: handle_response_def Let_def split: fetch_result.splits option.splits)

lemma docs_handle_response_frame [simp]:
  "sent (snd (docs_handle_response h p res b)) = sent b"
  "net (snd (docs_handle_response h p res b)) = net b"
  "cookie (snd (docs_handle_response h p res b)) = cookie b"
  "pathname (snd (docs_handle_response h p res b)) = pathname b"
  "search (snd (docs_handle_response h p res b)) = search b"
  "config (snd (docs_handle_response h p res b)) = config b"
  "storage_ok (snd (docs_handle_response h p res b)) = storage_ok b"
  by (simp_all add: docs_handle_response_def Let_def split: fetch_result.splits option.splits)

text \<open>The answers from which both clients make an envelope.\<close>

definition good_answer :: "fetch_result \<Rightarrow> envelope \<Rightarrow> bool" where
  "good_answer res e \<longleftrightarrow> (\<exists>r txt. res = Resp r \<and> response_ok r \<and> rs_text r = Some txt
     \<and> e = envelope_of (payload_of r txt))"

lemma handle_response_Inr: "fst (handle_response p res b) = Inr e \<longleftrightarrow> good_answer res e"
  by (auto simp: handle_response_def good_answer_def Let_def split: fetch_result.splits option.splits)

lemma docs_handle_response_Inr: "fst (docs_handle_response h p res b) = Inr e \<longleftrightarrow> good_answer res e"
  by (auto simp: docs_handle_response_def good_answer_def Let_def
      split: fetch_result.splits option.splits)

subsection \<open>The interface of an API client\<close>

text \<open>
  What the other components rely on: a call changes neither the network nor the place, sends at
  most one request, and yields a value only for a readable 2xx answer, whose envelope it is.
\<close>

locale api_client =
  fixes req :: "string \<Rightarrow> string \<Rightarrow> json option \<Rightarrow> api_options \<Rightarrow> (browser, js_error, envelope) io"
  assumes req_net: "net (snd (req m p bd opts b)) = net b"
    and req_sent: "\<exists>rqs. sent (snd (req m p bd opts b)) = sent b @ rqs \<and> length rqs \<le> 1"
    and req_value: "fst (req m p bd opts b) = Inr e \<Longrightarrow> good_answer (next_answer b) e"
    and req_place: "pathname (snd (req m p bd opts b)) = pathname b
      \<and> search (snd (req m p bd opts b)) = search b \<and> cookie (snd (req m p bd opts b)) = cookie b"
begin

lemma req_length:
  "length (sent b) \<le> length (sent (snd (req m p bd opts b)))"
  "length (sent (snd (req m p bd opts b))) \<le> Suc (length (sent b))"
  using req_sent [of m p bd opts b] by auto

lemma req_value_status:
  assumes "fst (req m p bd opts b) = Inr e"
  obtains r where "next_answer b = Resp r" and "200 \<le> rs_status r" and "rs_status r < 300"
  using req_value [OF assms] by (auto simp: good_answer_def response_ok_def)

lemma req_net_fail: "next_answer b = NetFail \<Longrightarrow> \<exists>er. fst (req m p bd opts b) = Inl er"
  using req_value [of m p bd opts b] by (cases "fst (req m p bd opts b)") (auto simp: good_answer_def)

end

interpretation cookie_client: api_client request
proof unfold_locales
  fix m p bd opts b e
  show "net (snd (request m p bd opts b)) = net b"
    by (cases "request_headers m b bd opts") (simp_all add: request_unfold request_no_headers)
  show "\<exists>rqs. sent (snd (request m p bd opts b)) = sent b @ rqs \<and> length rqs \<le> 1"
    by (cases "request_headers m b bd opts") (simp_all add: request_unfold request_no_headers)
  show "fst (request m p bd opts b) = Inr e \<Longrightarrow> good_answer (next_answer b) e"
    by (cases "request_headers m b bd opts")
       (simp_all add: request_unfold request_no_headers handle_response_Inr)
  show "pathname (snd (request m p bd opts b)) = pathname b
      \<and> search (snd (request m p bd opts b)) = search b
      \<and> cookie (snd (request m p bd opts b)) = cookie b"
    by (cases "request_headers m b bd opts") (simp_all add: request_unfold request_no_headers)
qed

lemma docs_request_unfold:
  "docs_request m path body opts b =
     docs_handle_response (has_token b) path (next_answer b)
       (b\<lparr>sent := sent b @ [\<lparr>rq_method = m, rq_url = buildUrl b path (ao_query opts),
          rq_headers = docs_headers b body opts, rq_include = False, rq_body = body\<rparr>]\<rparr>)"
  by (simp add: docs_request_def fetch_def next_answer_def Let_def)

interpretation token_client: api_client docs_request
  by unfold_locales (simp_all add: docs_request_unfold docs_handle_response_Inr)

subsection \<open>Outcome of a request\<close>




subsection \<open>Session expiry\<close>

definition session_keys :: "string set" where
  "session_keys = {''kilat_role'', ''kilat_profile'', ''kilat_org_id''}"

text \<open>The pages that handle a 401 themselves.\<close>

definition own_401_page :: "string \<Rightarrow> bool" where
  "own_401_page p \<longleftrightarrow> p = ''/login'' \<or> startsWith p ''/oauth/callback'' \<or> startsWith p ''/handoff''"

definition is_expiry :: "string \<Rightarrow> fetch_result \<Rightarrow> bool" where
  "is_expiry path res \<longleftrightarrow>
     (\<exists>r. res = Resp r \<and> rs_status r = 401 \<and> rs_text r \<noteq> None) \<and> \<not> is_auth_only path"

text \<open>\<open>new URLSearchParams(query).get("next")\<close> on the page the redirect loads.\<close>

definition next_param :: "string \<Rightarrow> string option" where
  "next_param u = map_of (parse_query (url_query u)) ''next''"

lemma parse_query_next:
  "parse_query (''next='' @ encodeURIComponent t) = [(''next'', t)]"
proof -
  have nd: "CHR ''&'' \<notin> set (''next='' @ encodeURIComponent t)"
    using encodeURIComponent_no_delims [of t] by (auto simp: url_delims_def)
  have key: "form_decode ''next'' = ''next''" by code_simp
  show ?thesis
    unfolding parse_query_def split_at_char_none [OF nd]
    using key by (simp add: parse_pair_def)
qed

lemma login_next: "next_param (''/login?next='' @ encodeURIComponent t) = Some t"
proof -
  have "url_query (''/login'' @ CHR ''?'' # (''next='' @ encodeURIComponent t))
      = ''next='' @ encodeURIComponent t"
    by (rule url_split(2)) simp
  then show ?thesis using parse_query_next [of t] by (simp add: next_param_def)
qed

definition with_request :: "http_request \<Rightarrow> browser \<Rightarrow> browser" where
  "with_request rq b = b\<lparr>sent := sent b @ [rq]\<rparr>"

lemma request_state:
  assumes hs: "request_headers m b body opts = Inr hs"
  shows "\<exists>rq. snd (request m path body opts b) =
    (if is_expiry path (next_answer b) then handleSessionExpired (with_request rq b)
     else with_request rq b)"
  unfolding request_unfold [OF hs] with_request_def
  by (rule exI) (auto simp: handle_response_def is_expiry_def Let_def response_ok_def
      split: fetch_result.splits option.splits)

text \<open>
  C1: when a request outside the credential endpoints is answered 401, the cached role, profile
  and organisation are gone from \<open>localStorage\<close>, every other key is kept, and, unless the
  current page handles 401 itself, the browser is sent to \<open>/login\<close> with a \<open>next\<close> parameter
  that decodes to exactly the page and query the user was on.
\<close>

theorem session_expiry_redirects:
  assumes hs: "request_headers m b body opts = Inr hs"
    and exp: "is_expiry path (next_answer b)" and ok: "storage_ok b"
  shows "let b' = snd (request m path body opts b) in
    (\<forall>k. storage b' k = (if k \<in> session_keys then None else storage b k))
    \<and> (if own_401_page (pathname b) then assigned b' = assigned b
       else \<exists>u. assigned b' = assigned b @ [u] \<and> url_path u = ''/login''
              \<and> next_param u = Some (pathname b @ search b))"
proof -
  have up: "url_path (''/login?next='' @ encodeURIComponent t) = ''/login''" for t
    by (simp add: url_path_def)
  obtain rq where rq: "snd (request m path body opts b) = handleSessionExpired (with_request rq b)"
    using request_state [OF hs, of path] exp by auto
  show ?thesis
    unfolding Let_def rq with_request_def
    using ok up [of "pathname b @ search b"] login_next [of "pathname b @ search b"]
    by (auto simp: handleSessionExpired_def session_keys_def own_401_page_def Let_def)
qed

theorem session_expiry_redirects_witness:
  "let b = sample_browser (Resp \<lparr>rs_status = 401, rs_text = Some [], rs_json = None\<rparr>);
       b' = snd (request ''GET'' ''/admin/users'' None no_options b) in
    (\<forall>k. storage b' k = (if k \<in> session_keys then None else storage b k))
    \<and> (if own_401_page (pathname b) then assigned b' = assigned b
       else \<exists>u. assigned b' = assigned b @ [u] \<and> url_path u = ''/login''
              \<and> next_param u = Some (pathname b @ search b))"
proof -
  let ?b = "sample_browser (Resp \<lparr>rs_status = 401, rs_text = Some [], rs_json = None\<rparr>)"
  have h1: "request_headers ''GET'' ?b None no_options = Inr (base_headers ?b None no_options)"
    by (simp add: request_headers_def is_safe_method_def)
  have h2: "is_expiry ''/admin/users'' (next_answer ?b)"
    by (simp add: is_expiry_def next_answer_def sample_defs is_auth_only_def AUTH_ONLY_PATHS_def)
  have h3: "storage_ok ?b" by (simp add: sample_defs)
  show ?thesis
    unfolding Let_def by (rule session_expiry_redirects [OF h1 h2 h3, unfolded Let_def])
qed

lemma request_unexpired:
  assumes "\<not> is_expiry path (next_answer b)"
  shows "storage (snd (request m path body opts b)) = storage b"
    and "assigned (snd (request m path body opts b)) = assigned b"
proof -
  have "storage (snd (request m path body opts b)) = storage b
    \<and> assigned (snd (request m path body opts b)) = assigned b"
  proof (cases "request_headers m b body opts")
    case (Inl e)
    then show ?thesis by (simp add: request_no_headers)
  next
    case (Inr hs)
    obtain rq where "snd (request m path body opts b) = with_request rq b"
      using request_state [OF Inr, of path] assms by auto
    then show ?thesis by (simp add: with_request_def)
  qed
  then show "storage (snd (request m path body opts b)) = storage b"
    and "assigned (snd (request m path body opts b)) = assigned b"
    by simp_all
qed

lemma request_storage_ok [simp]: "storage_ok (snd (request m path body opts b)) = storage_ok b"
  by (cases "request_headers m b body opts") (simp_all add: request_unfold request_no_headers)

text \<open>
  C37: nothing but a 401 outside the credential endpoints ends a session: after any other answer,
  and when the request could not be sent, \<open>localStorage\<close> and the navigation are untouched.
\<close>

theorem session_kept:
  assumes "\<not> is_expiry path (next_answer b)"
  shows "storage (snd (request m path body opts b)) = storage b
    \<and> assigned (snd (request m path body opts b)) = assigned b"
  using request_unexpired [OF assms] by blast

theorem session_kept_witness:
  "let b = sample_browser (Resp \<lparr>rs_status = 401, rs_text = Some [], rs_json = None\<rparr>) in
   storage (snd (request ''POST'' ''/auth/login'' None no_options b)) = storage b
    \<and> assigned (snd (request ''POST'' ''/auth/login'' None no_options b)) = assigned b"
  unfolding Let_def
  by (rule session_kept) (simp add: is_expiry_def is_auth_only_def AUTH_ONLY_PATHS_def)

subsection \<open>CSRF double submit\<close>

lemma pct_decode_nonempty: "pct_decode s = Some [] \<Longrightarrow> s = []"
  by (cases s) (auto split: if_splits list.splits option.splits)

lemma csrf_at_nonempty: "csrf_at s = Some v \<Longrightarrow> v \<noteq> []"
  by (auto simp: csrf_at_def Let_def split: if_splits)

lemma csrf_match_nonempty: "csrf_match s = Some v \<Longrightarrow> v \<noteq> []"
proof -
  have "csrf_scan s = Some v \<Longrightarrow> v \<noteq> []" for s v
    by (induction s) (auto dest: csrf_at_nonempty split: if_splits option.splits)
  then show "csrf_match s = Some v \<Longrightarrow> v \<noteq> []"
    by (auto simp: csrf_match_def dest: csrf_at_nonempty split: option.splits)
qed

lemma csrfToken_nonempty: "csrfToken b \<noteq> Inr (Some [])"
  using csrf_match_nonempty pct_decode_nonempty
  by (auto simp: csrfToken_def decodeURIComponent_def split: option.splits if_splits)

definition extra_headers :: "api_options \<Rightarrow> string js_record" where
  "extra_headers opts = (case ao_headers opts of None \<Rightarrow> [] | Some h \<Rightarrow> h)"

lemma base_headers_no_csrf:
  assumes "''X-CSRF-Token'' \<notin> fst ` set (extra_headers opts)"
  shows "map_of (base_headers b body opts) ''X-CSRF-Token'' = None"
proof -
  let ?h = "obj_spread [(''Accept'', ''application/json'')] (extra_headers opts)"
  have "map_of ?h ''X-CSRF-Token'' = None"
    by (simp add: map_of_obj_spread_notin [OF assms])
  then show ?thesis
    by (auto simp: base_headers_def authHeaders_def extra_headers_def update_conv' Let_def)
qed


lemma sample_csrf: "csrf_match (cookie (sample_browser res)) = Some ''a%20b''"
  by (simp add: sample_defs csrf_match_def csrf_at_def is_ws_def)

lemma sample_decode: "decodeURIComponent ''a%20b'' = Some ''a b''"
  by code_simp

lemma sample_headers: "\<exists>hs. request_headers m (sample_browser res) body opts = Inr hs"
  by (simp add: request_headers_def csrfToken_def sample_csrf sample_decode)

text \<open>A request of the sample browser is answered by \<open>res\<close>.\<close>

lemma sample_request:
  "\<exists>rq. request m path body opts (sample_browser res)
     = handle_response path res (with_request rq (sample_browser res))"
proof -
  obtain hs where "request_headers m (sample_browser res) body opts = Inr hs"
    using sample_headers by blast
  then show ?thesis
    by (auto simp: request_unfold with_request_def next_answer_def sample_defs)
qed


subsection \<open>The anonymous sites\<close>

text \<open>
  On the docs and landing sites a visitor without a token is never sent to the login page:
  whatever the backend answers, no request changes \<open>localStorage\<close> or navigates, and none carries
  an \<open>Authorization\<close> header of its own. The same 401 on the cookie client does end the session.
\<close>

theorem docs_anonymous:
  assumes anon: "\<not> has_token b"
    and extra: "''Authorization'' \<notin> fst ` set (extra_headers opts)"
  shows "let b' = snd (docs_request m path body opts b) in
    storage b' = storage b \<and> assigned b' = assigned b
    \<and> map_of (rq_headers (last (sent b'))) ''Authorization'' = None"
proof -
  have "map_of (obj_spread [(''Accept'', ''application/json'')] (extra_headers opts)) ''Authorization''
      = None"
    by (simp add: map_of_obj_spread_notin [OF extra])
  then have h: "map_of (docs_headers b body opts) ''Authorization'' = None"
    using anon
    by (auto simp: docs_headers_def docs_authHeaders_def extra_headers_def update_conv' Let_def)
  show ?thesis
    using anon h
    by (auto simp: docs_request_unfold docs_handle_response_def Let_def
        split: fetch_result.splits option.splits)
qed

theorem docs_anonymous_witness:
  "let b = sample_browser (Resp \<lparr>rs_status = 401, rs_text = Some [], rs_json = None\<rparr>);
       b' = snd (docs_request ''GET'' ''/docs'' None no_options b) in
    storage b' = storage b \<and> assigned b' = assigned b
    \<and> map_of (rq_headers (last (sent b'))) ''Authorization'' = None"
proof -
  let ?b = "sample_browser (Resp \<lparr>rs_status = 401, rs_text = Some [], rs_json = None\<rparr>)"
  have h1: "\<not> has_token ?b"
    by (simp add: has_token_def docs_getToken_def sample_defs TOKEN_KEY_def)
  have h2: "''Authorization'' \<notin> fst ` set (extra_headers no_options)"
    by (simp add: extra_headers_def no_options_def)
  show ?thesis
    unfolding Let_def by (rule docs_anonymous [OF h1 h2, unfolded Let_def])
qed

end
