(* ===== verification/Auth_Session.thy ===== *)
theory Auth_Session
  imports Api_Client
begin

text \<open>
  \<open>src/lib/auth.tsx\<close> of the admin, user and auth consoles: detection of the console role by
  probing staff endpoints, the cached session in \<open>localStorage\<close>, and the \<open>AuthProvider\<close>
  operations (validation on mount, login, second factor, registration, logout).

  The provider's \<open>useState\<close> cells are the record \<open>auth_state\<close>; a console is a browser with
  that record. An awaited call that rejects throws; React's state setters take effect at once.
  The mount effect takes two flags: whether the component was unmounted by the time its first and
  its second \<open>await\<close> came back (the \<open>cancelled\<close> variable of the effect).
\<close>

datatype app_role = Admin | Noc | Finance | Customer

fun role_name :: "app_role \<Rightarrow> string" where
  "role_name Admin = ''admin''"
| "role_name Noc = ''noc''"
| "role_name Finance = ''finance''"
| "role_name Customer = ''customer''"

datatype login_result = SessionReady app_role | MfaRequired json

record auth_state =
  au_token :: "string option"
  au_claims :: "json option"
  au_role :: "app_role option"
  au_profile :: "json option"
  au_loading :: bool

record console =
  br :: browser
  au :: auth_state

definition on_br :: "(browser, 'e, 'a) io \<Rightarrow> (console, 'e, 'a) io" where
  "on_br m s = (case m (br s) of (r, b) \<Rightarrow> (r, s\<lparr>br := b\<rparr>))"

definition set_au :: "(auth_state \<Rightarrow> auth_state) \<Rightarrow> console \<Rightarrow> console" where
  "set_au f s = s\<lparr>au := f (au s)\<rparr>"

definition setLoading :: "bool \<Rightarrow> console \<Rightarrow> console" where
  "setLoading v = set_au (\<lambda>a. a\<lparr>au_loading := v\<rparr>)"

subsection \<open>Destinations\<close>

definition consoleUrlFor :: "env \<Rightarrow> app_role option \<Rightarrow> string" where
  "consoleUrlFor e role =
     (case role of
        Some Customer \<Rightarrow> or_default (env_CUSTOMER_CONSOLE_URL e) ''https://console.kilat-cloud.com''
      | None \<Rightarrow> ''/login''
      | Some _ \<Rightarrow> or_default (env_ADMIN_CONSOLE_URL e) ''https://admin.kilat-cloud.com'')"

definition homePathFor :: "app_role option \<Rightarrow> string" where
  "homePathFor role =
     (case role of
        Some Admin \<Rightarrow> ''/admin''
      | Some Noc \<Rightarrow> ''/noc''
      | Some Finance \<Rightarrow> ''/finance''
      | Some Customer \<Rightarrow> ''/login''
      | None \<Rightarrow> ''/login'')"

definition user_homePathFor :: "app_role option \<Rightarrow> string" where
  "user_homePathFor role = (if role = Some Customer then ''/app'' else ''/login'')"

definition auth_homePathFor :: "app_role option \<Rightarrow> string" where
  "auth_homePathFor role = (if role = Some Customer then ''/handoff'' else ''/handoff'')"

subsection \<open>Role detection\<close>

definition probe :: "string \<Rightarrow> browser \<Rightarrow> (int \<times> string) \<times> browser" where
  "probe path b =
     (case fetch \<lparr>rq_method = ''GET'', rq_url = API_BASE b @ path, rq_headers = [],
                  rq_include = True, rq_body = None\<rparr> b of
        (NetFail, b') \<Rightarrow> ((0, []), b')
      | (Resp r, b') \<Rightarrow> ((rs_status r, case rs_text r of None \<Rightarrow> [] | Some t \<Rightarrow> t), b'))"

definition isAuthFailure :: "int \<Rightarrow> string \<Rightarrow> bool" where
  "isAuthFailure st body \<longleftrightarrow> st = 401"

fun try_roles :: "(string \<times> app_role) list \<Rightarrow> bool \<Rightarrow> (browser, js_error, app_role) io" where
  "try_roles [] saw b = (if saw then (Inl (PlainError ''Session expired''), b) else (Inr Customer, b))"
| "try_roles ((path, role) # rest) saw b =
     (case probe path b of
        ((st, body), b') \<Rightarrow>
          if 200 \<le> st \<and> st < 300 then (Inr role, b')
          else try_roles rest (saw \<or> isAuthFailure st body) b')"

definition role_attempts :: "(string \<times> app_role) list" where
  "role_attempts =
     [(''/admin/audit-logs?limit=1'', Admin),
      (''/admin/finance/summary?days=1'', Finance),
      (''/admin/providers'', Noc)]"

definition resolveRole :: "(browser, js_error, app_role) io" where
  "resolveRole = try_roles role_attempts False"

subsection \<open>The cached session\<close>

definition ROLE_KEY :: string where "ROLE_KEY = ''kilat_role''"
definition PROFILE_KEY :: string where "PROFILE_KEY = ''kilat_profile''"

definition storage_error :: js_error where
  "storage_error = PlainError ''SecurityError''"

definition readCachedRole :: "browser \<Rightarrow> js_error + app_role option" where
  "readCachedRole b =
     (if storage_ok b
      then Inr (let stored = storage b ROLE_KEY in
                if stored = Some ''admin'' then Some Admin
                else if stored = Some ''noc'' then Some Noc
                else if stored = Some ''finance'' then Some Finance
                else if stored = Some ''customer'' then Some Customer
                else None)
      else Inl storage_error)"

text \<open>\<open>parse\<close> is the engine's \<open>JSON.parse\<close>.\<close>

definition readCachedProfile :: "(string \<Rightarrow> json option) \<Rightarrow> browser \<Rightarrow> json option" where
  "readCachedProfile parse b =
     (if storage_ok b
      then (case storage b PROFILE_KEY of
              None \<Rightarrow> None
            | Some raw \<Rightarrow> if raw = [] then None else parse raw)
      else None)"

definition persistSession ::
  "app_role option \<Rightarrow> json option \<Rightarrow> (browser, js_error, unit) io" where
  "persistSession role profile b =
     (if storage_ok b
      then (Inr (), b\<lparr>storage := (storage b)
              (ROLE_KEY := map_option role_name role,
               PROFILE_KEY := map_option JSON_stringify profile)\<rparr>)
      else (Inl storage_error, b))"

definition clearPersistedSession :: "(browser, js_error, unit) io" where
  "clearPersistedSession b =
     (if storage_ok b
      then (Inr (), b\<lparr>storage := (storage b)(ROLE_KEY := None, PROFILE_KEY := None)\<rparr>)
      else (Inl storage_error, b))"

definition readSession :: "(string \<Rightarrow> json option) \<Rightarrow> browser \<Rightarrow> js_error + auth_state" where
  "readSession parse b =
     (case readCachedRole b of
        Inl e \<Rightarrow> Inl e
      | Inr role \<Rightarrow> Inr \<lparr>au_token = None, au_claims = None, au_role = role,
                      au_profile = readCachedProfile parse b, au_loading = True\<rparr>)"

subsection \<open>The provider\<close>

text \<open>\<open>apiGet("/me").then(e => e.data).catch(() => null)\<close>; a falsy body counts as no profile.\<close>

definition fetch_me :: "browser \<Rightarrow> json option \<times> browser" where
  "fetch_me b =
     (case apiGet ''/me'' no_options b of
        (Inl e, b') \<Rightarrow> (None, b')
      | (Inr env, b') \<Rightarrow> (if truthy (env_data env) then Some (env_data env) else None, b'))"

definition signed_in :: "app_role \<Rightarrow> json option \<Rightarrow> auth_state \<Rightarrow> auth_state" where
  "signed_in role me a =
     a\<lparr>au_token := Some ''cookie'', au_claims := Some (JObj []), au_role := Some role, au_profile := me\<rparr>"

definition signed_out :: "auth_state \<Rightarrow> auth_state" where
  "signed_out a = a\<lparr>au_token := None, au_claims := None, au_role := None, au_profile := None\<rparr>"

definition adoptSession :: "(console, js_error, app_role) io" where
  "adoptSession s =
     (case on_br resolveRole s of
        (Inl e, s1) \<Rightarrow> (Inl e, s1)
      | (Inr role, s1) \<Rightarrow>
          (case fetch_me (br s1) of
             (me, b2) \<Rightarrow>
               (case on_br (persistSession (Some role) me) (set_au (signed_in role me) (s1\<lparr>br := b2\<rparr>)) of
                  (Inl e, s3) \<Rightarrow> (Inl e, s3)
                | (Inr _, s3) \<Rightarrow> (Inr role, s3))))"

text \<open>The \<open>catch\<close> block of the mount effect; \<open>clearPersistedSession\<close> comes last.\<close>

definition mount_failed :: "bool \<Rightarrow> console \<Rightarrow> console" where
  "mount_failed cancelled s =
     (if cancelled then s else snd (on_br clearPersistedSession (set_au signed_out s)))"

definition mount_end :: "bool \<Rightarrow> console \<Rightarrow> console" where
  "mount_end cancelled s = (if cancelled then s else setLoading False s)"

definition mount_session :: "bool \<Rightarrow> bool \<Rightarrow> console \<Rightarrow> console" where
  "mount_session c1 c2 s =
     (case fetch_me (br s) of
        (fetched, b1) \<Rightarrow>
          (let s1 = s\<lparr>br := b1\<rparr> in
           if c1 then s1
           else case fetched of
             None \<Rightarrow>
               (case on_br clearPersistedSession s1 of
                  (Inl e, s2) \<Rightarrow> mount_end c1 (mount_failed c1 s2)
                | (Inr _, s2) \<Rightarrow>
                    mount_end c1 (setLoading False
                      (set_au (\<lambda>a. a\<lparr>au_role := None, au_profile := None\<rparr>) s2)))
           | Some me \<Rightarrow>
               (case on_br resolveRole s1 of
                  (Inl e, s2) \<Rightarrow> mount_end c2 (mount_failed c2 s2)
                | (Inr role, s2) \<Rightarrow>
                    if c2 then s2
                    else (case on_br (persistSession (Some role) (Some me)) (set_au (signed_in role (Some me)) s2) of
                            (Inl e, s3) \<Rightarrow> mount_end c2 (mount_failed c2 s3)
                          | (Inr _, s3) \<Rightarrow> mount_end c2 s3))))"

text \<open>The user console catches errors of \<open>resolveRole\<close> once more.\<close>

definition user_resolve :: "(browser, js_error, app_role) io" where
  "user_resolve b =
     (case resolveRole b of
        (Inl (PlainError msg), b') \<Rightarrow>
          if msg = ''Session expired'' then (Inl (PlainError msg), b') else (Inr Customer, b')
      | (Inl (ApiError c msg st d), b') \<Rightarrow>
          if msg = ''Session expired'' then (Inl (ApiError c msg st d), b') else (Inr Customer, b')
      | (Inr role, b') \<Rightarrow> (Inr role, b'))"

definition user_mount_session :: "bool \<Rightarrow> bool \<Rightarrow> console \<Rightarrow> console" where
  "user_mount_session c1 c2 s =
     (case fetch_me (br s) of
        (fetched, b1) \<Rightarrow>
          (let s1 = s\<lparr>br := b1\<rparr> in
           if c1 then s1
           else case fetched of
             None \<Rightarrow>
               (case on_br clearPersistedSession s1 of
                  (Inl e, s2) \<Rightarrow> mount_end c1 (mount_failed c1 s2)
                | (Inr _, s2) \<Rightarrow>
                    mount_end c1 (setLoading False
                      (set_au (\<lambda>a. a\<lparr>au_role := None, au_profile := None\<rparr>) s2)))
           | Some me \<Rightarrow>
               (case on_br user_resolve s1 of
                  (Inl e, s2) \<Rightarrow> if c2 then s2 else mount_end c2 (mount_failed c2 s2)
                | (Inr role, s2) \<Rightarrow>
                    if c2 then s2
                    else (case on_br (persistSession (Some role) (Some me)) (set_au (signed_in role (Some me)) s2) of
                            (Inl e, s3) \<Rightarrow> mount_end c2 (mount_failed c2 s3)
                          | (Inr _, s3) \<Rightarrow> mount_end c2 s3))))"

definition credentials_body :: "string \<Rightarrow> string \<Rightarrow> json" where
  "credentials_body email password = JObj [(''email'', JStr email), (''password'', JStr password)]"

definition login :: "string \<Rightarrow> string \<Rightarrow> (console, js_error, login_result) io" where
  "login email password s =
     io_finally
       (io_bind (on_br (apiPost ''/auth/login'' (Some (credentials_body email password)) no_options))
          (\<lambda>env. case env_data env of
              JNull \<Rightarrow> io_throw (PlainError ''TypeError'')
            | data \<Rightarrow>
                (case (prop_of data ''mfa_required'', prop_of data ''preauth_token'') of
                   (Some m, Some t) \<Rightarrow>
                     if truthy m \<and> truthy t then io_ret (MfaRequired t)
                     else io_bind adoptSession (\<lambda>role. io_ret (SessionReady role))
                 | _ \<Rightarrow> io_bind adoptSession (\<lambda>role. io_ret (SessionReady role)))))
       (setLoading False) (setLoading True s)"

definition loginMFA :: "json \<Rightarrow> string \<Rightarrow> (console, js_error, app_role) io" where
  "loginMFA preauthToken code s =
     io_finally
       (io_bind (on_br (apiPost ''/auth/login/mfa''
            (Some (JObj [(''preauth_token'', preauthToken), (''code'', JStr code)])) no_options))
          (\<lambda>_. adoptSession))
       (setLoading False) (setLoading True s)"

text \<open>The payload of a registration; \<open>rp_extra\<close> are the optional fields a form adds.\<close>

record register_payload =
  rp_email :: string
  rp_password :: string
  rp_full_name :: string
  rp_extra :: "json js_record"

definition register_body :: "register_payload \<Rightarrow> json" where
  "register_body p = JObj ([(''email'', JStr (rp_email p)), (''password'', JStr (rp_password p)),
     (''full_name'', JStr (rp_full_name p)), (''terms_accepted'', JBool True),
     (''privacy_accepted'', JBool True)] @ rp_extra p)"

definition register :: "register_payload \<Rightarrow> (console, js_error, login_result) io" where
  "register p s =
     io_finally
       (io_bind (on_br (apiPost ''/auth/register'' (Some (register_body p)) no_options))
          (\<lambda>_. login (rp_email p) (rp_password p)))
       (setLoading False) (setLoading True s)"

text \<open>The auth console first tries to adopt the session the registration opened.\<close>

definition auth_register :: "register_payload \<Rightarrow> (console, js_error, login_result) io" where
  "auth_register p s =
     io_finally
       (io_bind (on_br (apiPost ''/auth/register'' (Some (register_body p)) no_options))
          (\<lambda>_. io_catch (io_bind adoptSession (\<lambda>role. io_ret (SessionReady role)))
                 (\<lambda>_. login (rp_email p) (rp_password p))))
       (setLoading False) (setLoading True s)"

definition logout :: "(console, js_error, unit) io" where
  "logout s =
     (let s1 = snd (on_br (apiPost ''/auth/logout'' None no_options) s)
      in on_br clearPersistedSession (set_au signed_out s1))"

subsection \<open>Frames\<close>

lemma try_roles_frame [simp]:
  "storage (snd (try_roles as saw b)) = storage b"
  "storage_ok (snd (try_roles as saw b)) = storage_ok b"
  "assigned (snd (try_roles as saw b)) = assigned b"
  "net (snd (try_roles as saw b)) = net b"
  by (induction as saw b rule: try_roles.induct)
     (auto simp: probe_def fetch_def split: fetch_result.splits prod.splits)

lemma resolveRole_frame [simp]:
  "storage (snd (resolveRole b)) = storage b" "storage_ok (snd (resolveRole b)) = storage_ok b"
  "assigned (snd (resolveRole b)) = assigned b" "net (snd (resolveRole b)) = net b"
  by (simp_all add: resolveRole_def)

lemma fetch_me_storage_ok [simp]: "storage_ok (snd (fetch_me b)) = storage_ok b"
  using request_storage_ok [of "''GET''" "''/me''" None no_options b]
  by (cases "request ''GET'' ''/me'' None no_options b")
     (auto simp: fetch_me_def apiGet_def split: sum.splits)

lemma on_br_simps [simp]:
  "fst (on_br m s) = fst (m (br s))" "br (snd (on_br m s)) = snd (m (br s))"
  "au (snd (on_br m s)) = au s"
  by (simp_all add: on_br_def split: prod.splits)

lemma set_au_simps [simp]:
  "br (set_au f s) = br s" "au (set_au f s) = f (au s)"
  by (simp_all add: set_au_def)

lemma setLoading_simps [simp]:
  "br (setLoading v s) = br s" "au_loading (au (setLoading v s)) = v"
  "au_token (au (setLoading v s)) = au_token (au s)" "au_role (au (setLoading v s)) = au_role (au s)"
  "au_profile (au (setLoading v s)) = au_profile (au s)"
  "au_claims (au (setLoading v s)) = au_claims (au s)"
  by (simp_all add: setLoading_def)

text \<open>The credential endpoints never end the session.\<close>

lemma auth_path_unexpired:
  assumes "startsWith path ''/auth/''"
  shows "storage (snd (apiPost path body opts b)) = storage b"
    and "storage_ok (snd (apiPost path body opts b)) = storage_ok b"
  using assms request_unexpired(1) [of path b "''POST''" body opts]
  by (simp_all add: apiPost_def is_expiry_def is_auth_only_def AUTH_ONLY_PATHS_def)

subsection \<open>Cache coherence\<close>

text \<open>The cached role and the provider's role, token and claims agree.\<close>

definition cache_agrees :: "console \<Rightarrow> bool" where
  "cache_agrees s \<longleftrightarrow> storage_ok (br s)
     \<and> storage (br s) ROLE_KEY = map_option role_name (au_role (au s))
     \<and> (au_token (au s) \<noteq> None \<longleftrightarrow> au_role (au s) \<noteq> None)
     \<and> (au_claims (au s) \<noteq> None \<longleftrightarrow> au_token (au s) \<noteq> None)"

definition session_coherent :: "console \<Rightarrow> bool" where
  "session_coherent s \<longleftrightarrow> cache_agrees s \<and> \<not> au_loading (au s)"

lemma role_key_neq [simp]: "ROLE_KEY \<noteq> PROFILE_KEY" "PROFILE_KEY \<noteq> ROLE_KEY"
  by (simp_all add: ROLE_KEY_def PROFILE_KEY_def)

lemma cache_agrees_setLoading [simp]: "cache_agrees (setLoading v s) = cache_agrees s"
  by (simp add: cache_agrees_def)

lemma cache_agrees_on_br:
  assumes "storage (snd (m (br s))) = storage (br s)"
    and "storage_ok (snd (m (br s))) = storage_ok (br s)"
  shows "cache_agrees (snd (on_br m s)) = cache_agrees s"
  using assms by (simp add: cache_agrees_def)

lemma persist_agrees:
  "storage_ok (br s) \<Longrightarrow>
   \<exists>t. on_br (persistSession (Some role) me) (set_au (signed_in role me) s) = (Inr (), t)
     \<and> cache_agrees t"
  by (simp add: on_br_def cache_agrees_def persistSession_def signed_in_def set_au_def)

lemma adoptSession_agrees:
  assumes "cache_agrees s"
  shows "cache_agrees (snd (adoptSession s))"
proof -
  obtain r s1 where r: "on_br resolveRole s = (r, s1)" by fastforce
  then have s1: "s1 = snd (on_br resolveRole s)" by simp
  have ok: "storage_ok (br s)" using assms by (simp add: cache_agrees_def)
  show ?thesis
  proof (cases r)
    case (Inl e)
    then have "snd (adoptSession s) = s1" by (simp add: adoptSession_def r)
    with assms s1 show ?thesis by (simp add: cache_agrees_on_br)
  next
    case (Inr role)
    obtain me b2 where me: "fetch_me (br s1) = (me, b2)" by fastforce
    have "storage_ok b2 = storage_ok (br s1)"
      using fetch_me_storage_ok [of "br s1"] unfolding me by simp
    with s1 ok have "storage_ok b2" by simp
    then obtain t where "on_br (persistSession (Some role) me)
        (set_au (signed_in role me) (s1\<lparr>br := b2\<rparr>)) = (Inr (), t)" and "cache_agrees t"
      using persist_agrees [of "s1\<lparr>br := b2\<rparr>" role me] by auto
    then show ?thesis by (simp add: adoptSession_def r Inr me)
  qed
qed

lemma io_bind_agrees:
  assumes "cache_agrees (snd (m s))" and "\<And>x t. cache_agrees t \<Longrightarrow> cache_agrees (snd (f x t))"
  shows "cache_agrees (snd (io_bind m f s))"
  using assms by (auto simp: io_bind_def split: prod.splits sum.splits)

lemma io_catch_agrees:
  assumes "cache_agrees (snd (m s))" and "\<And>x t. cache_agrees t \<Longrightarrow> cache_agrees (snd (h x t))"
  shows "cache_agrees (snd (io_catch m h s))"
  using assms by (auto simp: io_catch_def split: prod.splits sum.splits)

lemma auth_post_agrees:
  "startsWith path ''/auth/'' \<Longrightarrow> cache_agrees s \<Longrightarrow> cache_agrees (snd (on_br (apiPost path body opts) s))"
  by (simp add: cache_agrees_on_br auth_path_unexpired)


lemma login_agrees:
  assumes "cache_agrees s"
  shows "cache_agrees (snd (login email password s))"
    and "\<not> au_loading (au (snd (login email password s)))"
proof -
  have adopt: "cache_agrees t \<Longrightarrow>
      cache_agrees (snd (io_bind adoptSession (\<lambda>role. io_ret (SessionReady role)) t))" for t
    by (rule io_bind_agrees) (simp_all add: adoptSession_agrees)
  show "cache_agrees (snd (login email password s))"
    unfolding login_def io_finally_snd cache_agrees_setLoading
    by (rule io_bind_agrees)
       (auto simp: auth_post_agrees assms adopt split: json.splits option.splits)
  show "\<not> au_loading (au (snd (login email password s)))"
    by (simp add: login_def)
qed

lemma loginMFA_agrees:
  assumes "cache_agrees s"
  shows "cache_agrees (snd (loginMFA t c s))" and "\<not> au_loading (au (snd (loginMFA t c s)))"
proof -
  show "cache_agrees (snd (loginMFA t c s))"
    unfolding loginMFA_def io_finally_snd cache_agrees_setLoading
    by (rule io_bind_agrees) (simp_all add: auth_post_agrees assms adoptSession_agrees)
  show "\<not> au_loading (au (snd (loginMFA t c s)))"
    by (simp add: loginMFA_def)
qed

lemma register_agrees:
  assumes "cache_agrees s"
  shows "cache_agrees (snd (register p s))" and "\<not> au_loading (au (snd (register p s)))"
proof -
  show "cache_agrees (snd (register p s))"
    unfolding register_def io_finally_snd cache_agrees_setLoading
    by (rule io_bind_agrees) (simp_all add: auth_post_agrees assms login_agrees)
  show "\<not> au_loading (au (snd (register p s)))"
    by (simp add: register_def)
qed

lemma auth_register_agrees:
  assumes "cache_agrees s"
  shows "cache_agrees (snd (auth_register p s))" and "\<not> au_loading (au (snd (auth_register p s)))"
proof -
  have adopt: "cache_agrees t \<Longrightarrow>
      cache_agrees (snd (io_bind adoptSession (\<lambda>role. io_ret (SessionReady role)) t))" for t
    by (rule io_bind_agrees) (simp_all add: adoptSession_agrees)
  show "cache_agrees (snd (auth_register p s))"
    unfolding auth_register_def io_finally_snd cache_agrees_setLoading
    by (rule io_bind_agrees)
       (auto intro!: io_catch_agrees simp: auth_post_agrees assms adopt login_agrees)
  show "\<not> au_loading (au (snd (auth_register p s)))"
    by (simp add: auth_register_def)
qed

lemma logout_coherent:
  assumes "session_coherent s"
  shows "session_coherent (snd (logout s))"
  using assms auth_path_unexpired [of "''/auth/logout''" None no_options "br s"]
  by (simp add: logout_def session_coherent_def cache_agrees_def clearPersistedSession_def
      signed_out_def Let_def)

datatype auth_event =
    Login string string
  | LoginMFA json string
  | Register register_payload
  | RegisterAtAuth register_payload
  | Logout

fun auth_step :: "auth_event \<Rightarrow> console \<Rightarrow> console" where
  "auth_step (Login e p) s = snd (login e p s)"
| "auth_step (LoginMFA t c) s = snd (loginMFA t c s)"
| "auth_step (Register p) s = snd (register p s)"
| "auth_step (RegisterAtAuth p) s = snd (auth_register p s)"
| "auth_step Logout s = snd (logout s)"

interpretation provider: event_machine auth_step session_coherent
proof unfold_locales
  fix s e
  assume "session_coherent s"
  then show "session_coherent (auth_step e s)"
    by (cases e)
       (simp_all add: logout_coherent, simp_all add: session_coherent_def login_agrees
          loginMFA_agrees register_agrees auth_register_agrees)
qed

text \<open>The mount effect, when not cancelled, reaches a coherent session from the initial one.\<close>

lemma clearPersisted_simps:
  "storage_ok b \<Longrightarrow> clearPersistedSession b =
     (Inr (), b\<lparr>storage := (storage b)(ROLE_KEY := None, PROFILE_KEY := None)\<rparr>)"
  by (simp add: clearPersistedSession_def)

lemma mount_failed_agrees:
  assumes "storage_ok (br s)"
  shows "session_coherent (mount_end False (mount_failed False s))"
  using assms
  by (simp add: mount_end_def mount_failed_def session_coherent_def cache_agrees_def
      clearPersisted_simps signed_out_def)

lemma mount_coherent:
  assumes ok: "storage_ok (br s)" and init: "au_token (au s) = None" "au_claims (au s) = None"
  shows "session_coherent (mount_session False False s)"
proof -
  obtain fetched b1 where me: "fetch_me (br s) = (fetched, b1)" by fastforce
  have ok1: "storage_ok b1"
    using fetch_me_storage_ok [of "br s"] ok unfolding me by simp
  show ?thesis
  proof (cases fetched)
    case None
    with ok1 init show ?thesis
      by (simp add: mount_session_def me on_br_def clearPersisted_simps mount_end_def
          session_coherent_def cache_agrees_def)
  next
    case (Some p)
    let ?s1 = "s\<lparr>br := b1\<rparr>"
    obtain r s2 where r: "on_br resolveRole ?s1 = (r, s2)" by fastforce
    then have s2: "s2 = snd (on_br resolveRole ?s1)" by simp
    then have ok2: "storage_ok (br s2)" using ok1 by simp
    show ?thesis
    proof (cases r)
      case (Inl e)
      then show ?thesis
        using mount_failed_agrees [OF ok2] by (simp add: mount_session_def me Some r)
    next
      case (Inr role)
      obtain t where "on_br (persistSession (Some role) (Some p))
          (set_au (signed_in role (Some p)) s2) = (Inr (), t)" and "cache_agrees t"
        using persist_agrees [OF ok2, of role "Some p"] by blast
      with Inr show ?thesis
        by (simp add: mount_session_def me Some r mount_end_def session_coherent_def)
    qed
  qed
qed

text \<open>
  C2: whatever the backend answers, once the session has been validated on mount, every sequence of
  logins, second-factor steps, registrations and logouts (failed ones included) leaves the
  provider idle, with a token exactly when it has a role, and with the cached role equal to the
  role in memory; so reading the cache on the next page load gives the role the session has.
\<close>

theorem auth_cache_coherent:
  assumes "storage_ok (br s)" and "au_token (au s) = None" and "au_claims (au s) = None"
  shows "let t = fold auth_step es (mount_session False False s) in
    session_coherent t \<and> readCachedRole (br t) = Inr (au_role (au t))"
proof -
  let ?t = "fold auth_step es (mount_session False False s)"
  have "session_coherent ?t"
    by (rule provider.run_inv) (rule mount_coherent [OF assms])
  moreover from this have "readCachedRole (br ?t) = Inr (au_role (au ?t))"
    by (cases "au_role (au ?t)"; cases "the (au_role (au ?t))")
       (auto simp: session_coherent_def cache_agrees_def readCachedRole_def Let_def)
  ultimately show ?thesis by (simp add: Let_def)
qed

definition start_console :: "browser \<Rightarrow> console" where
  "start_console b = \<lparr>br = b, au = \<lparr>au_token = None, au_claims = None, au_role = None,
     au_profile = None, au_loading = True\<rparr>\<rparr>"

theorem auth_cache_coherent_witness:
  "let t = fold auth_step [Login ''a@b.c'' ''pw'', Logout]
      (mount_session False False (start_console (sample_browser NetFail))) in
    session_coherent t \<and> readCachedRole (br t) = Inr (au_role (au t))"
  by (rule auth_cache_coherent) (simp_all add: start_console_def sample_defs)


subsection \<open>Role detection\<close>

definition answer_status :: "fetch_result \<Rightarrow> int" where
  "answer_status res = (case res of NetFail \<Rightarrow> 0 | Resp r \<Rightarrow> rs_status r)"

definition accepted :: "int \<Rightarrow> bool" where
  "accepted st \<longleftrightarrow> 200 \<le> st \<and> st < 300"

lemma probe_simps:
  "fst (fst (probe path b)) = answer_status (next_answer b)"
  "snd (probe path b) = b\<lparr>sent := sent b @ [\<lparr>rq_method = ''GET'', rq_url = API_BASE b @ path,
     rq_headers = [], rq_include = True, rq_body = None\<rparr>]\<rparr>"
  by (simp_all add: probe_def fetch_def next_answer_def answer_status_def split: fetch_result.splits)

text \<open>The status of the \<open>i\<close>-th of the next answers.\<close>

definition nth_status :: "browser \<Rightarrow> nat \<Rightarrow> int" where
  "nth_status b i = answer_status (net b (length (sent b) + i))"

lemma try_roles_result:
  "fst (try_roles as saw b) =
     (case find (\<lambda>i. accepted (nth_status b i)) [0 ..< length as] of
        Some i \<Rightarrow> Inr (snd (as ! i))
      | None \<Rightarrow> if saw \<or> (\<exists>i < length as. nth_status b i = 401)
                then Inl (PlainError ''Session expired'') else Inr Customer)"
proof (induction as arbitrary: saw b)
  case Nil
  then show ?case by simp
next
  case (Cons a as)
  obtain path role where a: "a = (path, role)" by (cases a)
  obtain st body b' where p: "probe path b = ((st, body), b')" by (metis surj_pair)
  have st: "st = nth_status b 0"
    using probe_simps(1) [of path b] by (simp add: p nth_status_def next_answer_def)
  have b': "nth_status b' i = nth_status b (Suc i)" for i
    using probe_simps(2) [of path b] by (simp add: p nth_status_def)
  have upt: "[0 ..< length (a # as)] = 0 # map Suc [0 ..< length as]"
    by (simp add: upt_conv_Cons map_Suc_upt del: upt_Suc)
  have find: "find (\<lambda>i. accepted (nth_status b i)) (map Suc xs)
      = map_option Suc (find (\<lambda>i. accepted (nth_status b' i)) xs)" for xs
    by (induction xs) (simp_all add: b')
  show ?case
  proof (cases "accepted st")
    case True
    with a p st show ?thesis
      unfolding upt by (simp add: accepted_def)
  next
    case False
    then have "fst (try_roles (a # as) saw b) = fst (try_roles as (saw \<or> st = 401) b')"
      by (auto simp: a p accepted_def isAuthFailure_def)
    also have "\<dots> = (case map_option Suc (find (\<lambda>i. accepted (nth_status b' i)) [0 ..< length as]) of
        Some i \<Rightarrow> Inr (snd ((a # as) ! i))
      | None \<Rightarrow> if saw \<or> (\<exists>i < length (a # as). nth_status b i = 401)
                then Inl (PlainError ''Session expired'') else Inr Customer)"
      by (simp add: Cons b' st Ex_less_Suc2 split: option.splits)
    finally show ?thesis
      unfolding upt using False st by (simp add: find)
  qed
qed

lemma resolveRole_find:
  "fst (resolveRole b) =
     (case find (\<lambda>i. accepted (nth_status b i)) [0, 1, 2] of
        Some i \<Rightarrow> Inr (snd (role_attempts ! i))
      | None \<Rightarrow> if 401 \<in> {nth_status b 0, nth_status b 1, nth_status b 2}
                then Inl (PlainError ''Session expired'') else Inr Customer)"
proof -
  have ex: "(\<exists>i < 3. nth_status b i = 401) \<longleftrightarrow> 401 \<in> {nth_status b 0, nth_status b 1, nth_status b 2}"
    by (auto simp: numeral_eq_Suc less_Suc_eq)
  have upt: "[0 ..< 3] = [0, 1, 2 :: nat]" by (simp add: upt_rec)
  have len: "length role_attempts = 3" by (simp add: role_attempts_def)
  show ?thesis
    unfolding resolveRole_def try_roles_result len ex upt by simp
qed

text \<open>
  The console role is decided by the staff probes alone, in the order of privilege: it is
  \<open>admin\<close> exactly when the audit log answers 2xx, \<open>finance\<close> when that is refused and the
  finance summary answers 2xx, \<open>noc\<close> when both are refused and the provider list answers 2xx; and
  when none does, an expired session is reported exactly if some probe answered 401, and the role
  is \<open>customer\<close> otherwise.
\<close>

theorem resolveRole_result:
  "fst (resolveRole b) =
     (if accepted (nth_status b 0) then Inr Admin
      else if accepted (nth_status b 1) then Inr Finance
      else if accepted (nth_status b 2) then Inr Noc
      else if 401 \<in> {nth_status b 0, nth_status b 1, nth_status b 2}
      then Inl (PlainError ''Session expired'')
      else Inr Customer)"
  unfolding resolveRole_find by (simp add: role_attempts_def)

text \<open>
  A session whose three staff probes all fail on the network is taken for a customer session,
  in every console, although the probe of the auth console says that a network error must not
  fall back to the customer role.
\<close>

theorem resolveRole_offline:
  assumes "\<forall>i < 3. net b (length (sent b) + i) = NetFail"
  shows "fst (resolveRole b) = Inr Customer"
proof -
  have "nth_status b i = 0" if "i < 3" for i
    using assms that by (simp add: nth_status_def answer_status_def)
  then show ?thesis
    unfolding resolveRole_find by (simp add: accepted_def)
qed

theorem resolveRole_offline_witness: "fst (resolveRole (sample_browser NetFail)) = Inr Customer"
  by (rule resolveRole_offline) (simp add: sample_defs)

text \<open>
  The extra \<open>catch\<close> around \<open>resolveRole\<close> in the user console changes nothing: its mount
  effect does exactly what the admin console's does, whenever it is cancelled and whatever the
  backend answers.
\<close>

theorem user_mount_equiv: "user_mount_session c1 c2 s = mount_session c1 c2 s"
proof -
  have only: "fst (resolveRole b) = Inl e \<Longrightarrow> e = PlainError ''Session expired''" for b e
    unfolding resolveRole_find by (auto split: option.splits if_splits)
  have "user_resolve b = resolveRole b" for b
  proof (cases "fst (resolveRole b)")
    case (Inl e)
    then have "fst (resolveRole b) = Inl (PlainError ''Session expired'')" using only by blast
    then obtain b' where "resolveRole b = (Inl (PlainError ''Session expired''), b')"
      by (cases "resolveRole b") simp
    then show ?thesis by (simp add: user_resolve_def)
  next
    case (Inr role)
    then obtain b' where "resolveRole b = (Inr role, b')" by (cases "resolveRole b") simp
    then show ?thesis by (simp add: user_resolve_def)
  qed
  then have r: "user_resolve = resolveRole" by blast
  have m: "(if c2 then t else mount_end c2 (mount_failed c2 t)) = mount_end c2 (mount_failed c2 t)" for t
    by (simp add: mount_end_def mount_failed_def)
  show ?thesis
    unfolding user_mount_session_def mount_session_def r m ..
qed

text \<open>
  A password alone opens no session when a second factor is required: if the backend answers
  the login with \<open>mfa_required\<close> and a preauth token, \<open>login\<close> returns that token, the
  provider's token, role and profile and the cached session stay what they were, and no request
  but the login itself is sent.
\<close>

theorem login_needs_second_factor:
  assumes post: "apiPost ''/auth/login'' (Some (credentials_body email password)) no_options (br s)
      = (Inr env, b')"
    and mfa: "prop_of (env_data env) ''mfa_required'' = Some m" "truthy m"
    and tok: "prop_of (env_data env) ''preauth_token'' = Some t" "truthy t"
  shows "fst (login email password s) = Inr (MfaRequired t)
    \<and> au (snd (login email password s)) = (au s)\<lparr>au_loading := False\<rparr>
    \<and> storage (br (snd (login email password s))) = storage (br s)
    \<and> length (sent (br (snd (login email password s)))) \<le> Suc (length (sent (br s)))"
proof -
  have b': "b' = snd (apiPost ''/auth/login'' (Some (credentials_body email password)) no_options (br s))"
    by (simp add: post)
  have run: "login email password s = (Inr (MfaRequired t), setLoading False ((setLoading True s)\<lparr>br := b'\<rparr>))"
    using mfa tok post
    by (cases "env_data env") (auto simp: login_def io_finally_def io_bind_def on_br_def)
  have st: "storage b' = storage (br s)"
    unfolding b' by (rule auth_path_unexpired) simp
  have sent: "length (sent b') \<le> Suc (length (sent (br s)))"
    unfolding b' apiPost_def by (rule cookie_client.req_length)
  show ?thesis
    unfolding run using st sent by (simp add: setLoading_def set_au_def)
qed

definition mfa_answer :: fetch_result where
  "mfa_answer = Resp \<lparr>rs_status = 200, rs_text = Some ''x'', rs_json = Some (JObj [(''data'',
     JObj [(''mfa_required'', JBool True), (''preauth_token'', JStr ''p1'')])])\<rparr>"

theorem login_needs_second_factor_witness:
  "fst (login ''a@b.c'' ''pw'' (start_console (sample_browser mfa_answer))) = Inr (MfaRequired (JStr ''p1''))"
proof -
  let ?b = "sample_browser mfa_answer"
  let ?env = "\<lparr>env_data = JObj [(''mfa_required'', JBool True), (''preauth_token'', JStr ''p1'')],
     env_meta = None\<rparr>"
  obtain rq where rq: "request ''POST'' ''/auth/login'' (Some (credentials_body ''a@b.c'' ''pw'')) no_options ?b
      = handle_response ''/auth/login'' mfa_answer (with_request rq ?b)"
    using sample_request by blast
  have "fst (apiPost ''/auth/login'' (Some (credentials_body ''a@b.c'' ''pw'')) no_options ?b) = Inr ?env"
    unfolding apiPost_def rq
    by (simp add: handle_response_def mfa_answer_def response_ok_def payload_of_def envelope_of_def Let_def)
  then obtain b' where "apiPost ''/auth/login'' (Some (credentials_body ''a@b.c'' ''pw'')) no_options
      (br (start_console ?b)) = (Inr ?env, b')"
    by (metis console.select_convs(1) prod.collapse start_console_def)
  from login_needs_second_factor [OF this, of "JBool True" "JStr ''p1''"] show ?thesis by simp
qed

end
