(* ===== verification/Resource_Hooks.thy ===== *)
theory Resource_Hooks
  imports Api_Client
begin

text \<open>
  The data-loading hooks: \<open>useApiDetail\<close> (\<open>features/admin/billing/pages/use-api-detail.ts\<close>),
  \<open>useInfraGet\<close> (\<open>features/admin/pages/providers/infra.ts\<close>), \<open>useUpstream\<close>
  (\<open>features/admin/pages/dokploy/app/shared.ts\<close>), \<open>useRawResource\<close>
  (\<open>features/noc/components/rawResourceUtils.ts\<close>), \<open>useTyped\<close> and \<open>useNocProvider\<close>
  (\<open>features/noc/pages/providers/pve-utils.ts\<close>).

  A mounted hook is its state cells and the effect that is alive. React runs an effect again when
  its dependencies change (a new path or query, \<open>reload\<close>, the interval of \<open>useInfraGet\<close>): the
  cleanup of the previous run sets that run's \<open>cancelled\<close>, so a run is alive exactly when it
  is the last one started and the component is still mounted. Runs are numbered; \<open>Settled i r\<close>
  is the answer of run \<open>i\<close>, in any order and possibly long after the run was cancelled;
  \<open>Deferred i\<close> is the microtask or zero timeout that run \<open>i\<close> queued.
\<close>

datatype ('r, 'e) outcome = Fulfilled 'r | Rejected 'e

record ('d, 'e) fetch_cells =
  c_data :: "'d option"
  c_loading :: bool
  c_error :: "'e option"

record ('d, 'e) hook = "('d, 'e) fetch_cells" +
  alive :: "nat option"
  runs :: nat
  requesting :: bool

text \<open>
  \<open>Start has\<close> runs the effect, \<open>has\<close> telling whether there is something to request (a path, an
  id, \<open>enabled\<close>).
\<close>

datatype ('r, 'e) hook_event = Start bool | Deferred nat | Settled nat "('r, 'e) outcome" | Unmount

definition next_run :: "bool \<Rightarrow> ('d, 'e) hook \<Rightarrow> ('d, 'e) hook" where
  "next_run has s = s\<lparr>alive := Some (runs s), runs := Suc (runs s), requesting := has\<rparr>"

definition unmount :: "('d, 'e) hook \<Rightarrow> ('d, 'e) hook" where
  "unmount s = s\<lparr>alive := None\<rparr>"

definition answered :: "nat \<Rightarrow> ('d, 'e) hook \<Rightarrow> bool" where
  "answered i s \<longleftrightarrow> alive s = Some i \<and> requesting s"

definition fresh_hook :: "bool \<Rightarrow> ('d, 'e) hook" where
  "fresh_hook loading = \<lparr>c_data = None, c_loading = loading, c_error = None, alive = None,
     runs = 0, requesting = False\<rparr>"

subsection \<open>useApiDetail\<close>

definition no_identifier :: js_error where
  "no_identifier = PlainError ''No identifier in route.''"

definition apiDetail_init :: "bool \<Rightarrow> ('d, js_error) hook" where
  "apiDetail_init has_path = fresh_hook has_path"

fun apiDetail_step :: "('d, js_error) hook_event \<Rightarrow> ('d, js_error) hook \<Rightarrow> ('d, js_error) hook" where
  "apiDetail_step (Start has) s = next_run has s"
| "apiDetail_step (Deferred i) s =
     (if alive s \<noteq> Some i then s
      else if requesting s then s\<lparr>c_loading := True, c_error := None\<rparr>
      else s\<lparr>c_loading := False, c_error := Some no_identifier\<rparr>)"
| "apiDetail_step (Settled i (Fulfilled d)) s =
     (if answered i s then s\<lparr>c_data := Some d, c_loading := False\<rparr> else s)"
| "apiDetail_step (Settled i (Rejected e)) s =
     (if answered i s then s\<lparr>c_error := Some e, c_loading := False\<rparr> else s)"
| "apiDetail_step Unmount s = unmount s"

subsection \<open>useInfraGet\<close>

definition infraGet_init :: "bool \<Rightarrow> ('d, 'e) hook" where
  "infraGet_init has_path = fresh_hook has_path"

fun infraGet_step :: "('d, 'e) hook_event \<Rightarrow> ('d, 'e) hook \<Rightarrow> ('d, 'e) hook" where
  "infraGet_step (Start has) s = next_run has s"
| "infraGet_step (Deferred i) s =
     (if alive s = Some i \<and> \<not> requesting s
      then s\<lparr>c_data := None, c_loading := False, c_error := None\<rparr> else s)"
| "infraGet_step (Settled i (Fulfilled d)) s =
     (if answered i s then s\<lparr>c_data := Some d, c_loading := False, c_error := None\<rparr> else s)"
| "infraGet_step (Settled i (Rejected e)) s =
     (if answered i s then s\<lparr>c_data := None, c_loading := False, c_error := Some e\<rparr> else s)"
| "infraGet_step Unmount s = unmount s"

text \<open>The polling effect: a run of the interval only when there is a path and a positive period.\<close>

definition infra_polls :: "bool \<Rightarrow> int option \<Rightarrow> bool" where
  "infra_polls has_path intervalMs \<longleftrightarrow> has_path \<and> (\<exists>n. intervalMs = Some n \<and> n > 0)"

subsection \<open>useUpstream\<close>

definition upstream_init :: "('d, 'e) hook" where
  "upstream_init = fresh_hook True"

fun upstream_step :: "('d, 'e) hook_event \<Rightarrow> ('d, 'e) hook \<Rightarrow> ('d, 'e) hook" where
  "upstream_step (Start has) s = (next_run True s)\<lparr>c_loading := True\<rparr>"
| "upstream_step (Deferred i) s = s"
| "upstream_step (Settled i (Fulfilled d)) s =
     (if answered i s then s\<lparr>c_data := Some d, c_error := None, c_loading := False\<rparr> else s)"
| "upstream_step (Settled i (Rejected e)) s =
     (if answered i s then s\<lparr>c_error := Some e, c_loading := False\<rparr> else s)"
| "upstream_step Unmount s = unmount s"

subsection \<open>useRawResource and useTyped\<close>

definition rawResource_init :: "bool \<Rightarrow> ('d, 'e) hook" where
  "rawResource_init enabled = fresh_hook enabled"

definition typed_init :: "('d, 'e) hook" where
  "typed_init = fresh_hook True"

text \<open>Both have the same effect; a disabled run does nothing.\<close>

fun rawResource_step :: "('d, 'e) hook_event \<Rightarrow> ('d, 'e) hook \<Rightarrow> ('d, 'e) hook" where
  "rawResource_step (Start has) s = next_run has s"
| "rawResource_step (Deferred i) s = s"
| "rawResource_step (Settled i (Fulfilled d)) s =
     (if answered i s then s\<lparr>c_data := Some d, c_loading := False\<rparr> else s)"
| "rawResource_step (Settled i (Rejected e)) s =
     (if answered i s then s\<lparr>c_error := Some e, c_loading := False\<rparr> else s)"
| "rawResource_step Unmount s = unmount s"

fun typed_step :: "('d, 'e) hook_event \<Rightarrow> ('d, 'e) hook \<Rightarrow> ('d, 'e) hook" where
  "typed_step (Start has) s = next_run has s"
| "typed_step (Deferred i) s = s"
| "typed_step (Settled i (Fulfilled d)) s =
     (if answered i s then s\<lparr>c_data := Some d, c_loading := False\<rparr> else s)"
| "typed_step (Settled i (Rejected e)) s =
     (if answered i s then s\<lparr>c_error := Some e, c_loading := False\<rparr> else s)"
| "typed_step Unmount s = unmount s"

subsection \<open>useNocProvider\<close>

record noc_provider =
  np_id :: string
  np_code :: string
  np_name :: string
  np_kind :: string
  np_api_base_url :: string
  np_enabled :: bool
  np_health_status :: string
  np_has_credentials :: bool
  np_created_at :: string

definition nocProvider_init :: "(noc_provider, 'e) hook" where
  "nocProvider_init = fresh_hook True"

fun nocProvider_step ::
  "string \<Rightarrow> (noc_provider list, 'e) hook_event \<Rightarrow> (noc_provider, 'e) hook \<Rightarrow> (noc_provider, 'e) hook" where
  "nocProvider_step pid (Start has) s = next_run has s"
| "nocProvider_step pid (Deferred i) s = s"
| "nocProvider_step pid (Settled i (Fulfilled rows)) s =
     (if answered i s
      then s\<lparr>c_data := find (\<lambda>row. np_id row = pid) rows, c_loading := False\<rparr> else s)"
| "nocProvider_step pid (Settled i (Rejected e)) s =
     (if answered i s then s\<lparr>c_error := Some e, c_loading := False\<rparr> else s)"
| "nocProvider_step pid Unmount s = unmount s"

subsection \<open>The contract of a loading hook\<close>

text \<open>The live run is always the last one started.\<close>

definition runs_ok :: "('d, 'e) hook \<Rightarrow> bool" where
  "runs_ok s \<longleftrightarrow> (\<forall>i. alive s = Some i \<longrightarrow> Suc i = runs s)"

text \<open>
  \<open>view\<close> is what the hook stores of a fulfilled answer. The laws: an answer of a run that is
  not alive changes nothing, an answer of the live run is stored and ends the loading state, and
  only a new run or an unmount changes which run is alive.
\<close>

locale loading_hook =
  fixes step :: "('r, 'e) hook_event \<Rightarrow> ('d, 'e) hook \<Rightarrow> ('d, 'e) hook"
    and view :: "'r \<Rightarrow> 'd option"
  assumes dead_settled: "\<not> answered i s \<Longrightarrow> step (Settled i r) s = s"
    and dead_deferred: "alive s \<noteq> Some i \<Longrightarrow> step (Deferred i) s = s"
    and settled_ok: "answered i s \<Longrightarrow>
      c_data (step (Settled i (Fulfilled d)) s) = view d \<and> \<not> c_loading (step (Settled i (Fulfilled d)) s)"
    and settled_err: "answered i s \<Longrightarrow>
      c_error (step (Settled i (Rejected e)) s) = Some e \<and> \<not> c_loading (step (Settled i (Rejected e)) s)"
    and start_alive: "alive (step (Start has) s) = Some (runs s) \<and> runs (step (Start has) s) = Suc (runs s)"
    and unmount_alive: "step Unmount s = unmount s"
    and keeps_alive: "alive (step (Settled i r) s) = alive s \<and> alive (step (Deferred i) s) = alive s
      \<and> runs (step (Settled i r) s) = runs s \<and> runs (step (Deferred i) s) = runs s
      \<and> requesting (step (Settled i r) s) = requesting s
      \<and> requesting (step (Deferred i) s) = requesting s"
begin

lemma step_runs_ok: "runs_ok s \<Longrightarrow> runs_ok (step e s)"
  by (cases e) (auto simp: runs_ok_def start_alive unmount_alive unmount_def keeps_alive)

lemma runs_mono: "runs s \<le> runs (step e s)"
  by (cases e) (auto simp: start_alive unmount_alive unmount_def keeps_alive)

lemma fold_runs_ok: "runs_ok s \<Longrightarrow> runs_ok (fold step es s)"
  by (induction es arbitrary: s) (simp_all add: step_runs_ok)

lemma fold_runs_mono: "runs s \<le> runs (fold step es s)"
  by (induction es arbitrary: s) (simp_all, meson order_trans runs_mono)

text \<open>Once a later run has started, or the component is gone, an earlier run never lives again.\<close>

lemma superseded_step:
  assumes "runs_ok s" and "i < runs s" and "alive s \<noteq> Some i"
  shows "alive (step e s) \<noteq> Some i"
  using assms by (cases e) (auto simp: start_alive unmount_alive unmount_def keeps_alive)

lemma superseded_fold:
  assumes "runs_ok s" and "i < runs s" and "alive s \<noteq> Some i"
  shows "alive (fold step es s) \<noteq> Some i"
  using assms
proof (induction es arbitrary: s)
  case (Cons e es)
  then show ?case
    using step_runs_ok superseded_step runs_mono [of s e] by (simp add: less_le_trans)
qed simp

theorem stale_answer_ignored:
  assumes "runs_ok s" and "i < runs s" and "alive s \<noteq> Some i"
  shows "step (Settled i r) (fold step es s) = fold step es s"
  using superseded_fold [OF assms, of es] by (simp add: dead_settled answered_def)

end

interpretation apiDetail: loading_hook apiDetail_step Some
proof unfold_locales
  show "\<not> answered i s \<Longrightarrow> apiDetail_step (Settled i r) s = s" for i s r
    by (cases r) simp_all
  show "alive (apiDetail_step (Settled i r) s) = alive s \<and> alive (apiDetail_step (Deferred i) s) = alive s
      \<and> runs (apiDetail_step (Settled i r) s) = runs s \<and> runs (apiDetail_step (Deferred i) s) = runs s
      \<and> requesting (apiDetail_step (Settled i r) s) = requesting s
      \<and> requesting (apiDetail_step (Deferred i) s) = requesting s" for i s r
    by (cases r) simp_all
qed (simp_all add: next_run_def)

interpretation infraGet: loading_hook infraGet_step Some
proof unfold_locales
  show "\<not> answered i s \<Longrightarrow> infraGet_step (Settled i r) s = s" for i s r
    by (cases r) simp_all
  show "alive (infraGet_step (Settled i r) s) = alive s \<and> alive (infraGet_step (Deferred i) s) = alive s
      \<and> runs (infraGet_step (Settled i r) s) = runs s \<and> runs (infraGet_step (Deferred i) s) = runs s
      \<and> requesting (infraGet_step (Settled i r) s) = requesting s
      \<and> requesting (infraGet_step (Deferred i) s) = requesting s" for i s r
    by (cases r) simp_all
qed (simp_all add: next_run_def)

interpretation upstreamHook: loading_hook upstream_step Some
proof unfold_locales
  show "\<not> answered i s \<Longrightarrow> upstream_step (Settled i r) s = s" for i s r
    by (cases r) simp_all
  show "alive (upstream_step (Settled i r) s) = alive s \<and> alive (upstream_step (Deferred i) s) = alive s
      \<and> runs (upstream_step (Settled i r) s) = runs s \<and> runs (upstream_step (Deferred i) s) = runs s
      \<and> requesting (upstream_step (Settled i r) s) = requesting s
      \<and> requesting (upstream_step (Deferred i) s) = requesting s" for i s r
    by (cases r) simp_all
qed (simp_all add: next_run_def)

interpretation rawResource: loading_hook rawResource_step Some
proof unfold_locales
  show "\<not> answered i s \<Longrightarrow> rawResource_step (Settled i r) s = s" for i s r
    by (cases r) simp_all
  show "alive (rawResource_step (Settled i r) s) = alive s \<and> alive (rawResource_step (Deferred i) s) = alive s
      \<and> runs (rawResource_step (Settled i r) s) = runs s \<and> runs (rawResource_step (Deferred i) s) = runs s
      \<and> requesting (rawResource_step (Settled i r) s) = requesting s
      \<and> requesting (rawResource_step (Deferred i) s) = requesting s" for i s r
    by (cases r) simp_all
qed (simp_all add: next_run_def)

interpretation typed: loading_hook typed_step Some
proof unfold_locales
  show "\<not> answered i s \<Longrightarrow> typed_step (Settled i r) s = s" for i s r
    by (cases r) simp_all
  show "alive (typed_step (Settled i r) s) = alive s \<and> alive (typed_step (Deferred i) s) = alive s
      \<and> runs (typed_step (Settled i r) s) = runs s \<and> runs (typed_step (Deferred i) s) = runs s
      \<and> requesting (typed_step (Settled i r) s) = requesting s
      \<and> requesting (typed_step (Deferred i) s) = requesting s" for i s r
    by (cases r) simp_all
qed (simp_all add: next_run_def)

interpretation nocProvider: loading_hook "nocProvider_step pid" "find (\<lambda>row. np_id row = pid)" for pid
proof unfold_locales
  show "\<not> answered i s \<Longrightarrow> nocProvider_step pid (Settled i r) s = s" for i s r
    by (cases r) simp_all
  show "alive (nocProvider_step pid (Settled i r) s) = alive s
      \<and> alive (nocProvider_step pid (Deferred i) s) = alive s
      \<and> runs (nocProvider_step pid (Settled i r) s) = runs s
      \<and> runs (nocProvider_step pid (Deferred i) s) = runs s
      \<and> requesting (nocProvider_step pid (Settled i r) s) = requesting s
      \<and> requesting (nocProvider_step pid (Deferred i) s) = requesting s" for i s r
    by (cases r) simp_all
qed (simp_all add: next_run_def)


subsection \<open>Properties of the hooks\<close>

definition data_hooks :: "(('d, js_error) hook_event \<Rightarrow> ('d, js_error) hook \<Rightarrow> ('d, js_error) hook) set" where
  "data_hooks = {apiDetail_step, infraGet_step, upstream_step, rawResource_step, typed_step}"

lemma data_hook_contract: "step \<in> data_hooks \<Longrightarrow> loading_hook step Some"
  unfolding data_hooks_def
  using apiDetail.loading_hook_axioms infraGet.loading_hook_axioms upstreamHook.loading_hook_axioms
    rawResource.loading_hook_axioms typed.loading_hook_axioms
  by blast

lemma fresh_runs_ok: "runs_ok (fresh_hook l)"
  by (simp add: runs_ok_def fresh_hook_def)

text \<open>
  C21: a page never shows the answer of a superseded request. In every hook, once a newer run of the
  effect has started (another path, a reload) or the page has been left, the answer of an older
  request changes nothing, whenever it arrives and whatever happened in between.
\<close>

theorem stale_answers_ignored:
  assumes hook: "step \<in> data_hooks"
    and s: "s = fold step es (fresh_hook l)"
    and old: "i < runs s" "alive s \<noteq> Some i"
  shows "step (Settled i r) (fold step es' s) = fold step es' s"
proof -
  have h: "loading_hook step Some" using hook by (rule data_hook_contract)
  have "runs_ok s"
    unfolding s by (rule loading_hook.fold_runs_ok [OF h fresh_runs_ok])
  from loading_hook.stale_answer_ignored [OF h this old] show ?thesis .
qed

theorem stale_answers_ignored_witness:
  "infraGet_step (Settled 0 (Fulfilled (1::nat))) (fold infraGet_step [Settled 1 (Fulfilled 2)]
      (fold infraGet_step [Start True, Start True] (fresh_hook True :: (nat, js_error) hook)))
   = fold infraGet_step [Settled 1 (Fulfilled 2)]
      (fold infraGet_step [Start True, Start True] (fresh_hook True))"
  by (rule stale_answers_ignored [OF _ refl])
     (simp_all add: data_hooks_def fresh_hook_def next_run_def)

text \<open>
  The answer of the latest request is shown and ends the loading state, and late answers of
  older requests do not disturb it: after the live run is answered, any further answers of other
  runs leave the data, and the page stays out of the loading state.
\<close>

theorem latest_answer_shown:
  assumes hook: "step \<in> data_hooks" and live: "answered i s"
    and late: "\<forall>e \<in> set es. \<exists>j r. e = Settled j r \<and> j \<noteq> i"
  shows "c_data (fold step es (step (Settled i (Fulfilled d)) s)) = Some d
    \<and> \<not> c_loading (fold step es (step (Settled i (Fulfilled d)) s))"
proof -
  have h: "loading_hook step Some" using hook by (rule data_hook_contract)
  let ?t = "step (Settled i (Fulfilled d)) s"
  have al: "alive ?t = Some i"
    using loading_hook.keeps_alive [OF h, of i "Fulfilled d" s] live by (simp add: answered_def)
  have "fold step es ?t = ?t"
    using late
  proof (induction es)
    case (Cons e es)
    then obtain j r where "e = Settled j r" and "j \<noteq> i" by auto
    then have "step e ?t = ?t"
      using loading_hook.dead_settled [OF h, of j ?t r] al by (simp add: answered_def)
    with Cons show ?case by simp
  qed simp
  with loading_hook.settled_ok [OF h live, of d] show ?thesis by simp
qed

theorem latest_answer_shown_witness:
  "c_data (fold typed_step [Settled 0 (Rejected no_identifier)]
      (typed_step (Settled 1 (Fulfilled (7::nat))) (fold typed_step [Start True, Start True] typed_init))) = Some 7
    \<and> \<not> c_loading (fold typed_step [Settled 0 (Rejected no_identifier)]
      (typed_step (Settled 1 (Fulfilled (7::nat))) (fold typed_step [Start True, Start True] typed_init)))"
  by (rule latest_answer_shown)
     (simp_all add: data_hooks_def answered_def next_run_def typed_init_def fresh_hook_def)

interpretation typed_error: event_machine typed_step "\<lambda>s. c_error s \<noteq> None"
proof unfold_locales
  show "c_error s \<noteq> None \<Longrightarrow> c_error (typed_step e s) \<noteq> None" for e :: "('a, 'b) hook_event" and s
    by (cases "(e, s)" rule: typed_step.cases) (auto simp: next_run_def unmount_def)
qed

interpretation raw_error: event_machine rawResource_step "\<lambda>s. c_error s \<noteq> None"
proof unfold_locales
  show "c_error s \<noteq> None \<Longrightarrow> c_error (rawResource_step e s) \<noteq> None" for e :: "('a, 'b) hook_event" and s
    by (cases "(e, s)" rule: rawResource_step.cases) (auto simp: next_run_def unmount_def)
qed

interpretation noc_error: event_machine "nocProvider_step pid" "\<lambda>s. c_error s \<noteq> None" for pid
proof unfold_locales
  show "c_error s \<noteq> None \<Longrightarrow> c_error (nocProvider_step pid e s) \<noteq> None"
    for e :: "(noc_provider list, 'b) hook_event" and s
    by (cases "(pid, e, s)" rule: nocProvider_step.cases) (auto simp: next_run_def unmount_def)
qed

text \<open>
  \<open>useTyped\<close>, \<open>useRawResource\<close> and \<open>useNocProvider\<close> never clear an error: once a load has
  failed, \<open>error\<close> stays set through every later event, a successful reload included, so a page that
  renders the error first never shows the reloaded data.
\<close>

theorem failed_load_sticks:
  assumes "c_error s \<noteq> None" and "c_error p \<noteq> None"
  shows "c_error (fold typed_step es s) \<noteq> None
    \<and> c_error (fold rawResource_step es s) \<noteq> None
    \<and> c_error (fold (nocProvider_step pid) es' p) \<noteq> None"
  using typed_error.run_inv [OF assms(1)] raw_error.run_inv [OF assms(1)]
    noc_error.run_inv [OF assms(2)]
  by blast

theorem failed_load_sticks_witness:
  "let s = fold typed_step [Start True, Settled 0 (Rejected no_identifier)] (typed_init :: (nat, js_error) hook);
       p = fold (nocProvider_step ''p1'') [Start True, Settled 0 (Rejected no_identifier)] nocProvider_init in
    c_error (fold typed_step [Start True, Settled 1 (Fulfilled 7)] s) \<noteq> None
    \<and> c_error (fold rawResource_step [Start True, Settled 1 (Fulfilled 7)] s) \<noteq> None
    \<and> c_error (fold (nocProvider_step ''p1'') [Start True, Settled 1 (Fulfilled [])] p) \<noteq> None"
  unfolding Let_def
  by (rule failed_load_sticks)
     (simp_all add: typed_init_def nocProvider_init_def fresh_hook_def next_run_def answered_def)

end
