(* ===== verification/Identity_Lookup.thy ===== *)
theory Identity_Lookup
  imports Api_Client
begin

text \<open>
  \<open>features/admin/pages/identityLookup.ts\<close>: the admin detail pages find a user, an organisation
  or a ticket by walking the paginated list endpoint. Rows are the JSON objects of the list;
  \<open>get\<close> is the client's \<open>apiGet\<close>.
\<close>

type_synonym getter = "string \<Rightarrow> api_options \<Rightarrow> (browser, js_error, envelope) io"

definition page_rows :: "envelope \<Rightarrow> json list" where
  "page_rows env = (case env_data env of JArr rows \<Rightarrow> rows | _ \<Rightarrow> [])"

definition page_query :: "nat \<Rightarrow> nat \<Rightarrow> api_options" where
  "page_query page perPage = \<lparr>ao_headers = None,
     ao_query = Some [(''page'', QNum (of_nat page)), (''per_page'', QNum (of_nat perPage))]\<rparr>"

text \<open>The row \<open>rows.find(match)\<close>, when there is one and it is truthy.\<close>

definition find_row :: "(json \<Rightarrow> bool) \<Rightarrow> json list \<Rightarrow> json option" where
  "find_row match rows = (case find match rows of Some r \<Rightarrow> if truthy r then Some r else None | None \<Rightarrow> None)"

definition last_page :: "envelope \<Rightarrow> nat \<Rightarrow> nat \<Rightarrow> bool" where
  "last_page env page perPage \<longleftrightarrow>
     length (page_rows env) < perPage
     \<or> (case opt_prop (env_meta env) ''total'' of
          Some (JNum t) \<Rightarrow> of_nat (page * perPage) \<ge> t
        | _ \<Rightarrow> False)"

text \<open>The loop \<open>for (let page = 1; page <= maxPages; page++)\<close>, by the number of pages left.\<close>

fun scan_from ::
  "getter \<Rightarrow> string \<Rightarrow> (json \<Rightarrow> bool) \<Rightarrow> nat \<Rightarrow> nat \<Rightarrow> nat \<Rightarrow> (browser, js_error, json option) io" where
  "scan_from get path match perPage page 0 b = (Inr None, b)"
| "scan_from get path match perPage page (Suc left) b =
     (case get path (page_query page perPage) b of
        (Inl e, b') \<Rightarrow> (Inl e, b')
      | (Inr env, b') \<Rightarrow>
          (case find_row match (page_rows env) of
             Some found \<Rightarrow> (Inr (Some found), b')
           | None \<Rightarrow>
               if last_page env page perPage then (Inr None, b')
               else scan_from get path match perPage (Suc page) left b'))"

record scan_options =
  so_perPage :: "nat option"
  so_maxPages :: "nat option"

definition no_scan_options :: scan_options where
  "no_scan_options = \<lparr>so_perPage = None, so_maxPages = None\<rparr>"

definition scanAdminList ::
  "getter \<Rightarrow> string \<Rightarrow> (json \<Rightarrow> bool) \<Rightarrow> scan_options \<Rightarrow> (browser, js_error, json option) io" where
  "scanAdminList get path match opts =
     (let perPage = (case so_perPage opts of None \<Rightarrow> 100 | Some n \<Rightarrow> n);
          maxPages = (case so_maxPages opts of None \<Rightarrow> 10 | Some n \<Rightarrow> n)
      in scan_from get path match perPage 1 maxPages)"

definition has_prop :: "string \<Rightarrow> string \<Rightarrow> json \<Rightarrow> bool" where
  "has_prop k v row \<longleftrightarrow> prop_of row k = Some (JStr v)"

definition is_target :: "string \<Rightarrow> json \<Rightarrow> bool" where
  "is_target ident row \<longleftrightarrow> has_prop ''id'' ident row \<or> has_prop ''public_id'' ident row"

definition findAdminUser :: "getter \<Rightarrow> string \<Rightarrow> (browser, js_error, json option) io" where
  "findAdminUser get userIdParam b =
     (case get ''/admin/users'' \<lparr>ao_headers = None,
             ao_query = Some [(''page'', QNum 1), (''per_page'', QNum 20), (''search'', QStr userIdParam)]\<rparr> b of
        (Inl e, b') \<Rightarrow> (Inl e, b')
      | (Inr env, b') \<Rightarrow>
          (case find_row (is_target userIdParam) (page_rows env) of
             Some hit \<Rightarrow> (Inr (Some hit), b')
           | None \<Rightarrow> scanAdminList get ''/admin/users'' (is_target userIdParam) no_scan_options b'))"

definition findAdminOrg :: "getter \<Rightarrow> string \<Rightarrow> (browser, js_error, json option) io" where
  "findAdminOrg get orgIdParam =
     scanAdminList get ''/admin/organizations'' (is_target orgIdParam) no_scan_options"

definition findAdminTicket :: "getter \<Rightarrow> string \<Rightarrow> (browser, js_error, json option) io" where
  "findAdminTicket get ticketIdParam =
     scanAdminList get ''/admin/tickets'' (has_prop ''id'' ticketIdParam) no_scan_options"

subsection \<open>Lookups through any API client\<close>

lemma find_row_sound: "find_row m rows = Some r \<Longrightarrow> m r \<and> r \<in> set rows"
  by (auto simp: find_row_def find_Some_iff split: option.splits if_splits)

lemma scan_from_sound:
  "fst (scan_from get path m pp page left b) = Inr (Some r) \<Longrightarrow> m r"
  by (induction get path m pp page left b rule: scan_from.induct)
     (auto dest: find_row_sound split: prod.splits sum.splits option.splits if_splits)

lemmas scan_sound = scan_from_sound [of get path m _ "1"] for get path m

context api_client
begin

lemma scan_from_requests:
  "length (sent (snd (scan_from (\<lambda>p. req ''GET'' p None) path m pp page left b)))
     \<le> length (sent b) + left"
proof (induction left arbitrary: page b)
  case (Suc left)
  let ?g = "req ''GET'' path None (page_query page pp) b"
  have one: "length (sent (snd ?g)) \<le> Suc (length (sent b))" by (rule req_length)
  have more: "length (sent (snd (scan_from (\<lambda>p. req ''GET'' p None) path m pp (Suc page) left (snd ?g))))
      \<le> Suc (length (sent b)) + left"
    using Suc [of "Suc page" "snd ?g"] one by linarith
  show ?case
    using one more by (auto split: prod.splits sum.splits option.splits)
qed simp

lemma findAdminUser_requests:
  "length (sent (snd (findAdminUser (\<lambda>p. req ''GET'' p None) u b))) \<le> length (sent b) + 11"
proof -
  let ?o = "\<lparr>ao_headers = None, ao_query = Some [(''page'', QNum 1), (''per_page'', QNum 20), (''search'', QStr u)]\<rparr>"
  let ?g = "req ''GET'' ''/admin/users'' None ?o b"
  have one: "length (sent (snd ?g)) \<le> Suc (length (sent b))" by (rule req_length)
  have more: "length (sent (snd (scan_from (\<lambda>p. req ''GET'' p None) ''/admin/users'' (is_target u) 100 1 10 (snd ?g))))
      \<le> Suc (length (sent b)) + 10"
    using scan_from_requests [of "''/admin/users''" "is_target u" 100 1 10 "snd ?g"] one by linarith
  show ?thesis
    using one more
    by (auto simp: findAdminUser_def scanAdminList_def no_scan_options_def
        split: prod.splits sum.splits option.splits)
qed

end

lemma apiGet_eta: "apiGet = (\<lambda>p. request ''GET'' p None)"
  by (simp add: fun_eq_iff apiGet_def)

text \<open>
  C38: a user lookup ends after at most eleven requests (one search and ten pages of a hundred),
  whatever the backend answers, and the row it finds is the requested user: its internal or public
  id is the route parameter.
\<close>

theorem findAdminUser_bounded_sound:
  "length (sent (snd (findAdminUser apiGet u b))) \<le> length (sent b) + 11
   \<and> (case fst (findAdminUser apiGet u b) of Inr (Some row) \<Rightarrow> is_target u row | _ \<Rightarrow> True)"
proof -
  have "fst (findAdminUser apiGet u b) = Inr (Some row) \<Longrightarrow> is_target u row" for row
    by (auto simp: findAdminUser_def scanAdminList_def no_scan_options_def
        dest: find_row_sound scan_from_sound split: prod.splits sum.splits option.splits)
  with cookie_client.findAdminUser_requests [of u b] show ?thesis
    by (auto simp: apiGet_eta split: sum.splits option.splits)
qed

subsection \<open>Completeness against a paginating backend\<close>

definition page_slice :: "json list \<Rightarrow> nat \<Rightarrow> nat \<Rightarrow> json list" where
  "page_slice rows perPage page = take perPage (drop ((page - 1) * perPage) rows)"

text \<open>The answer of a list endpoint that holds \<open>rows\<close>.\<close>

definition page_answer :: "json list \<Rightarrow> nat \<Rightarrow> nat \<Rightarrow> fetch_result" where
  "page_answer rows perPage page = Resp \<lparr>rs_status = 200, rs_text = Some ''json'',
     rs_json = Some (JObj [(''data'', JArr (page_slice rows perPage page)),
       (''meta'', JObj [(''total'', JNum (of_nat (length rows)))])])\<rparr>"

lemma apiGet_page:
  assumes "next_answer b = page_answer rows pp page"
  shows "\<exists>rq. apiGet path opts b =
    (Inr \<lparr>env_data = JArr (page_slice rows pp page),
          env_meta = Some (JObj [(''total'', JNum (of_nat (length rows)))])\<rparr>, with_request rq b)"
proof -
  have "request_headers ''GET'' b None opts = Inr (base_headers b None opts)"
    by (simp add: request_headers_def is_safe_method_def)
  from request_unfold [OF this] assms show ?thesis
    by (auto simp: apiGet_def handle_response_def page_answer_def response_ok_def payload_of_def
        envelope_of_def with_request_def Let_def)
qed

lemma find_row_append:
  "find_row m (xs @ ys) = (if \<exists>x \<in> set xs. m x then find_row m xs else find_row m ys)"
  by (induction xs) (auto simp: find_row_def)

lemma find_row_none:
  "\<forall>r \<in> set xs. truthy r \<Longrightarrow> find_row m xs = None \<longleftrightarrow> \<not> (\<exists>x \<in> set xs. m x)"
  by (induction xs) (auto simp: find_row_def)

lemma find_row_truthy: "\<forall>r \<in> set xs. truthy r \<Longrightarrow> find_row m xs = find m xs"
  by (induction xs) (auto simp: find_row_def)

lemma scan_from_complete:
  assumes pp: "0 < pp" and tr: "\<forall>r \<in> set rows. truthy r"
    and srv: "\<And>k. net b (length (sent b) + k) = page_answer rows pp (Suc (q + k))"
  shows "fst (scan_from apiGet path m pp (Suc q) left b) =
    Inr (find_row m (take (left * pp) (drop (q * pp) rows)))"
  using srv
proof (induction left arbitrary: q b)
  case 0
  then show ?case by (simp add: find_row_def)
next
  case (Suc left)
  let ?rows = "take pp (drop (q * pp) rows)"
  have na: "next_answer b = page_answer rows pp (Suc q)"
    using Suc.prems [of 0] by (simp add: next_answer_def)
  obtain rq where get: "apiGet path (page_query (Suc q) pp) b =
    (Inr \<lparr>env_data = JArr ?rows, env_meta = Some (JObj [(''total'', JNum (of_nat (length rows)))])\<rparr>,
     with_request rq b)" (is "_ = (Inr ?env, ?b1)")
    using apiGet_page [OF na, of path "page_query (Suc q) pp"] by (auto simp: page_slice_def)
  have split: "take (Suc left * pp) (drop (q * pp) rows) = ?rows @ take (left * pp) (drop (Suc q * pp) rows)"
    by (simp add: take_add)
  have rows: "page_rows ?env = ?rows" by (simp add: page_rows_def)
  have trp: "\<forall>r \<in> set ?rows. truthy r"
    using tr by (meson in_set_dropD in_set_takeD)
  show ?case
  proof (cases "find_row m ?rows")
    case (Some found)
    then have "\<exists>x \<in> set ?rows. m x" using find_row_sound by blast
    with Some show ?thesis by (simp add: get rows split find_row_append del: mult_Suc)
  next
    case None
    then have nm: "\<not> (\<exists>x \<in> set ?rows. m x)" using find_row_none [OF trp] by blast
    show ?thesis
    proof (cases "last_page ?env (Suc q) pp")
      case True
      then have "length ?rows < pp \<or> length rows \<le> Suc q * pp"
        unfolding last_page_def rows by (simp add: opt_prop_def flip: of_nat_mult of_nat_add)
      then have "drop (Suc q * pp) rows = []" by auto
      with None nm True show ?thesis
        by (simp add: get rows split find_row_append find_row_def del: mult_Suc)
    next
      case False
      have srv1: "net ?b1 (length (sent ?b1) + k) = page_answer rows pp (Suc (Suc q + k))" for k
        using Suc.prems [of "Suc k"] by (simp add: with_request_def)
      have "fst (scan_from apiGet path m pp (Suc q) (Suc left) b)
          = fst (scan_from apiGet path m pp (Suc (Suc q)) left ?b1)"
        using None False by (simp add: get rows)
      also have "\<dots> = Inr (find_row m (take (left * pp) (drop (Suc q * pp) rows)))"
        by (rule Suc.IH [OF srv1])
      finally show ?thesis
        using nm by (simp add: split find_row_append del: mult_Suc)
    qed
  qed
qed


definition sample_rows :: "json list" where
  "sample_rows = map (\<lambda>i. JObj [(''id'', JStr (show_nat i))]) [0 ..< 5]"


end
