(* ===== verification/Dokploy_Upstream.thy ===== *)
theory Dokploy_Upstream
  imports Api_Client
begin

text \<open>
  The relay to the Dokploy server: the raw upstream client and the option loaders of the manager
  consoles (\<open>features/admin/pages/dokploy/manager/upstream.ts\<close>), the client of the application
  section (\<open>dokploy/app/shared.ts\<close>) and the mirror contracts (\<open>dokploy/entities.ts\<close>).

  Relay answers have no envelope. The elapsed time of the \<open>n\<close>-th request, which the source reads
  from \<open>performance.now()\<close>, is the argument \<open>elapsed\<close>.
\<close>

subsection \<open>Results and errors (upstream.ts)\<close>

record upstream_result =
  ur_status :: int
  ur_ok :: bool
  ur_durationMs :: int
  ur_body :: json
  ur_text :: string

text \<open>What a relay call may throw: an \<open>UpstreamError\<close> or the error of \<open>fetch\<close> itself.\<close>

datatype relay_error =
    UpstreamError (ue_status: int) (ue_text: string) (ue_body: json)
  | FetchError (fe_message: string)

definition isRecord :: "json \<Rightarrow> bool" where
  "isRecord v \<longleftrightarrow> is_object v \<and> \<not> is_JArr v"

fun nonempty_string :: "json option \<Rightarrow> string option" where
  "nonempty_string (Some (JStr s)) = (if s \<noteq> [] then Some s else None)"
| "nonempty_string _ = None"

definition upstreamMessage :: "int \<Rightarrow> json \<Rightarrow> string \<Rightarrow> string" where
  "upstreamMessage status body txt =
     (let fallback =
        (let trimmed = trim txt in
         if trimmed \<noteq> []
         then (if js_length trimmed > 300 then js_take 300 trimmed @ ellipsis else trimmed)
         else ''Upstream returned HTTP '' @ show_int status)
      in if isRecord body
         then (case nonempty_string (prop_of body ''message'') of
                 Some m \<Rightarrow> m
               | None \<Rightarrow> (case nonempty_string (prop_of body ''error'') of
                           Some e \<Rightarrow> e
                         | None \<Rightarrow> fallback))
         else fallback)"

subsection \<open>dokployCall\<close>

datatype dokploy_method = GET | POST

fun method_name :: "dokploy_method \<Rightarrow> string" where
  "method_name GET = ''GET''"
| "method_name POST = ''POST''"

record call_options =
  co_query :: "string js_record option"
  co_body :: "json option"

fun relay_params :: "string js_record \<Rightarrow> string js_record \<Rightarrow> string js_record" where
  "relay_params [] ps = ps"
| "relay_params ((k, v) # q) ps =
     relay_params q (if v \<noteq> [] then AList.update k v ps else ps)"

definition relay_url :: "browser \<Rightarrow> string \<Rightarrow> string js_record option \<Rightarrow> string" where
  "relay_url b opPath query =
     (let url = API_BASE b @ ''/dokploy/'' @ dropWhile (\<lambda>c. c = CHR ''/'') opPath
      in case query of
           None \<Rightarrow> url
         | Some q \<Rightarrow> (let qs = params_toString (relay_params q [])
                     in if qs \<noteq> [] then url @ ''?'' @ qs else url))"

definition relay_headers :: "browser \<Rightarrow> json option \<Rightarrow> string js_record" where
  "relay_headers b body =
     obj_spread
       (obj_spread [(''Accept'', ''application/json'')]
         (case getToken b of
            Some t \<Rightarrow> if t \<noteq> [] then [(''Authorization'', ''Bearer '' @ t)] else []
          | None \<Rightarrow> []))
       (if body \<noteq> None then [(''Content-Type'', ''application/json'')] else [])"

definition dokployCall ::
  "(nat \<Rightarrow> rat) \<Rightarrow> dokploy_method \<Rightarrow> string \<Rightarrow> call_options \<Rightarrow> (browser, relay_error, upstream_result) io"
where
  "dokployCall elapsed m opPath opts b =
     (let ms = js_round (elapsed (length (sent b)))
      in case fetch \<lparr>rq_method = method_name m, rq_url = relay_url b opPath (co_query opts),
                     rq_headers = relay_headers b (co_body opts), rq_include = False,
                     rq_body = co_body opts\<rparr> b of
           (NetFail, b') \<Rightarrow> (Inl (FetchError ''Failed to fetch''), b')
         | (Resp r, b') \<Rightarrow>
             (case rs_text r of
                None \<Rightarrow> (Inl (FetchError ''body stream failed''), b')
              | Some txt \<Rightarrow>
                  (let parsed = (case rs_json r of Some v \<Rightarrow> v | None \<Rightarrow> JNull);
                       result = \<lparr>ur_status = rs_status r, ur_ok = response_ok r,
                         ur_durationMs = ms, ur_body = parsed, ur_text = txt\<rparr>
                   in if \<not> response_ok r
                      then (Inl (UpstreamError (ur_status result) (ur_text result) (ur_body result)), b')
                      else (Inr result, b'))))"

subsection \<open>Rows and option loaders\<close>

type_synonym row = "json js_record"

fun record_of :: "json \<Rightarrow> row option" where
  "record_of (JObj kvs) = Some kvs"
| "record_of _ = None"

definition extractRows :: "json \<Rightarrow> row list" where
  "extractRows body =
     (case body of
        JArr vs \<Rightarrow> List.map_filter record_of vs
      | JObj kvs \<Rightarrow>
          (case map_of kvs ''items'' of
             Some (JArr vs) \<Rightarrow> List.map_filter record_of vs
           | _ \<Rightarrow> [])
      | _ \<Rightarrow> [])"

text \<open>
  The module keeps one promise of \<open>loadDokployDefaults\<close>; \<open>relay\<close> is the browser with that
  promise, \<open>Some r\<close> once it has been created (\<open>r\<close> the organization it resolves to).
\<close>

record relay =
  rl_browser :: browser
  rl_defaults :: "string option option"

definition no_call_options :: call_options where
  "no_call_options = \<lparr>co_query = None, co_body = None\<rparr>"

fun first_organization :: "row list \<Rightarrow> string option" where
  "first_organization [] = None"
| "first_organization (r # rs) =
     (case nonempty_string (map_of r ''organizationId'') of
        Some org \<Rightarrow> Some org
      | None \<Rightarrow> first_organization rs)"

definition loadDokployDefaults :: "(nat \<Rightarrow> rat) \<Rightarrow> relay \<Rightarrow> string option \<times> relay" where
  "loadDokployDefaults elapsed s =
     (case rl_defaults s of
        Some d \<Rightarrow> (d, s)
      | None \<Rightarrow>
          (case dokployCall elapsed GET ''project.all'' no_call_options (rl_browser s) of
             (Inr res, b) \<Rightarrow>
               (let d = first_organization (extractRows (ur_body res))
                in (d, s\<lparr>rl_browser := b, rl_defaults := Some d\<rparr>))
           | (Inl e, b) \<Rightarrow> (None, s\<lparr>rl_browser := b, rl_defaults := Some None\<rparr>)))"

record dyn_option =
  do_label :: string
  do_value :: string

definition environment_option :: "string \<Rightarrow> json \<Rightarrow> dyn_option option" where
  "environment_option projectName env =
     (if \<not> isRecord env then None
      else case nonempty_string (prop_of env ''environmentId'') of
             None \<Rightarrow> None
           | Some i \<Rightarrow>
               (let envName = (case prop_of env ''name'' of Some (JStr n) \<Rightarrow> n | _ \<Rightarrow> i)
                in Some \<lparr>do_label = projectName @ '' / '' @ envName, do_value = i\<rparr>))"

definition project_options :: "row \<Rightarrow> dyn_option list" where
  "project_options project =
     (case map_of project ''environments'' of
        Some (JArr envs) \<Rightarrow>
          (let projectName = (case map_of project ''name'' of Some (JStr n) \<Rightarrow> n | _ \<Rightarrow> ''project'')
           in List.map_filter (environment_option projectName) envs)
      | _ \<Rightarrow> [])"

definition loadEnvironmentOptions :: "(nat \<Rightarrow> rat) \<Rightarrow> (browser, relay_error, dyn_option list) io" where
  "loadEnvironmentOptions elapsed =
     io_bind (dokployCall elapsed GET ''project.all'' no_call_options)
       (\<lambda>res. io_ret (concat (map project_options (extractRows (ur_body res)))))"

definition application_option :: "row \<Rightarrow> dyn_option" where
  "application_option r =
     \<lparr>do_label =
        (case nonempty_string (map_of r ''name'') of
           Some n \<Rightarrow> n
         | None \<Rightarrow>
             (case map_of r ''appName'' of
                Some (JStr n) \<Rightarrow> n
              | _ \<Rightarrow> js_String (coalesce (map_of r ''applicationId'') (JStr [])))),
      do_value = (case map_of r ''applicationId'' of Some (JStr i) \<Rightarrow> i | _ \<Rightarrow> [])\<rparr>"

definition loadApplicationOptions :: "(nat \<Rightarrow> rat) \<Rightarrow> (browser, relay_error, dyn_option list) io" where
  "loadApplicationOptions elapsed =
     io_bind (dokployCall elapsed GET ''application.search'' no_call_options)
       (\<lambda>res. io_ret (filter (\<lambda>opt. do_value opt \<noteq> [])
          (map application_option (extractRows (ur_body res)))))"

subsection \<open>The client of the application section (app/shared.ts)\<close>

record app_error =
  ae_status :: int
  ae_message :: string
  ae_body :: "string option"

datatype app_failure = AppUpstream app_error | AppError string

datatype app_method = AppGET | AppPOST | AppPUT | AppDELETE

fun app_method_name :: "app_method \<Rightarrow> string" where
  "app_method_name AppGET = ''GET''"
| "app_method_name AppPOST = ''POST''"
| "app_method_name AppPUT = ''PUT''"
| "app_method_name AppDELETE = ''DELETE''"

text \<open>
  \<open>new URL(base, origin)\<close>: an API base that starts with a slash is resolved against the origin.
  The operation paths of the section are plain names, so nothing else is normalised.
\<close>

definition resolve_url :: "string \<Rightarrow> string \<Rightarrow> string" where
  "resolve_url origin u = (if startsWith u ''/'' then origin @ u else u)"

definition app_url :: "string \<Rightarrow> browser \<Rightarrow> string \<Rightarrow> query_value js_record option \<Rightarrow> string" where
  "app_url origin b opPath query =
     (let url = resolve_url origin (API_BASE b @ ''/dokploy/'' @ opPath)
      in case query of
           None \<Rightarrow> url
         | Some q \<Rightarrow> (let qs = params_toString (fill_params q [])
                     in if qs \<noteq> [] then url @ ''?'' @ qs else url))"

definition app_headers :: "browser \<Rightarrow> json option \<Rightarrow> string js_record" where
  "app_headers b body =
     obj_spread
       [(''Authorization'', ''Bearer '' @ (case getToken b of Some t \<Rightarrow> t | None \<Rightarrow> []))]
       (if body \<noteq> None then [(''Content-Type'', ''application/json'')] else [])"

text \<open>\<open>parsed\<close>: \<open>None\<close> is \<open>undefined\<close>.\<close>

definition app_parsed :: "http_response \<Rightarrow> string \<Rightarrow> json option" where
  "app_parsed r txt =
     (if txt = [] then None
      else Some (case rs_json r of Some v \<Rightarrow> v | None \<Rightarrow> JStr txt))"

definition app_message :: "int \<Rightarrow> json option \<Rightarrow> string" where
  "app_message status parsed =
     (case parsed of
        Some (JStr s) \<Rightarrow> if s \<noteq> [] then js_take 300 s else ''Upstream '' @ show_int status
      | Some v \<Rightarrow>
          (case prop_of v ''message'' of
             Some (JStr m) \<Rightarrow> m
           | Some (JArr ms) \<Rightarrow> join ''; '' (map (\<lambda>x. if x = JNull then [] else js_String x) ms)
           | _ \<Rightarrow> ''Upstream '' @ show_int status)
      | None \<Rightarrow> ''Upstream '' @ show_int status)"

definition app_error_body :: "json option \<Rightarrow> string option" where
  "app_error_body parsed =
     (case parsed of Some (JStr s) \<Rightarrow> Some s | Some v \<Rightarrow> Some (JSON_stringify v) | None \<Rightarrow> None)"

definition dokploy ::
  "string \<Rightarrow> app_method \<Rightarrow> string \<Rightarrow> json option \<Rightarrow> query_value js_record option
   \<Rightarrow> (browser, app_failure, json option) io" where
  "dokploy origin m opPath body query b =
     (case fetch \<lparr>rq_method = app_method_name m, rq_url = app_url origin b opPath query,
                  rq_headers = app_headers b body, rq_include = False, rq_body = body\<rparr> b of
        (NetFail, b') \<Rightarrow> (Inl (AppError ''Failed to fetch''), b')
      | (Resp r, b') \<Rightarrow>
          (case rs_text r of
             None \<Rightarrow> (Inl (AppError ''body stream failed''), b')
           | Some txt \<Rightarrow>
               (let parsed = app_parsed r txt
                in if \<not> response_ok r
                   then (Inl (AppUpstream \<lparr>ae_status = rs_status r,
                           ae_message = app_message (rs_status r) parsed,
                           ae_body = app_error_body parsed\<rparr>), b')
                   else (Inr parsed, b'))))"

fun toErrorMessage :: "app_failure \<Rightarrow> string" where
  "toErrorMessage (AppUpstream e) = show_int (ae_status e) @ '': '' @ ae_message e"
| "toErrorMessage (AppError m) = m"

subsection \<open>The mirror (entities.ts)\<close>

record mirror_entity =
  me_name :: string
  me_description :: string
  me_syncable :: bool

definition entity :: "string \<Rightarrow> string \<Rightarrow> bool \<Rightarrow> mirror_entity" where
  "entity n d s = \<lparr>me_name = n, me_description = d, me_syncable = s\<rparr>"

definition DOKPLOY_MIRROR_ENTITIES :: "mirror_entity list" where
  "DOKPLOY_MIRROR_ENTITIES =
    [entity ''projects'' ''Upstream projects.'' True,
     entity ''environments'' ''Project environments.'' True,
     entity ''applications'' ''Deployed applications.'' True,
     entity ''composes'' ''Docker compose stacks.'' True,
     entity ''databases'' ''Managed databases, all engine types.'' True,
     entity ''domains'' ''Domains attached to apps and composes.'' True,
     entity ''deployments'' (''Deployment history '' @ em_dash @ '' targeted sync only.'') False,
     entity ''backups'' ''Database backup schedules.'' True,
     entity ''servers'' ''Registered remote/build servers.'' True,
     entity ''registries'' ''Docker registries.'' True,
     entity ''sshkeys'' ''SSH keys.'' True,
     entity ''certificates'' ''TLS certificates.'' True]"

definition findDokployEntity :: "string option \<Rightarrow> mirror_entity option" where
  "findDokployEntity name = find (\<lambda>e. Some (me_name e) = name) DOKPLOY_MIRROR_ENTITIES"

record sync_result =
  sr_entity :: string
  sr_targeted :: "bool option"
  sr_synced :: nat
  sr_failed :: nat
  sr_removed :: nat
  sr_skipped_types :: "string list option"

definition sync_body :: "string \<Rightarrow> string option \<Rightarrow> string js_record option \<Rightarrow> json" where
  "sync_body name opPath query =
     JObj ([(''entity'', JStr name)]
       @ (case opPath of Some p \<Rightarrow> if p \<noteq> [] then [(''op_path'', JStr p)] else [] | None \<Rightarrow> [])
       @ (case query of Some q \<Rightarrow> [(''query'', JObj (map (\<lambda>(k, v). (k, JStr v)) q))] | None \<Rightarrow> []))"

definition syncDokployEntity ::
  "string \<Rightarrow> string option \<Rightarrow> string js_record option \<Rightarrow> (browser, js_error, json) io" where
  "syncDokployEntity name opPath query =
     io_catch
       (io_bind (apiPost ''/admin/dokploy/sync'' (Some (sync_body name opPath query)) no_options)
          (\<lambda>env. io_ret (env_data env)))
       (\<lambda>_. io_throw (PlainError ''sync failed''))"

definition describeSyncResult :: "sync_result \<Rightarrow> string" where
  "describeSyncResult r =
     join ('' '' @ middle_dot @ '' '')
       ([show_nat (sr_synced r) @ '' synced'', show_nat (sr_failed r) @ '' failed'',
         show_nat (sr_removed r) @ '' removed'']
        @ (case sr_skipped_types r of
             Some ts \<Rightarrow> if ts \<noteq> [] then [''skipped: '' @ join '', '' ts] else []
           | None \<Rightarrow> []))"

subsection \<open>What a relay request carries\<close>

lemma relay_headers_eq:
  "relay_headers b body =
     (''Accept'', ''application/json'') # (if body \<noteq> None then [(''Content-Type'', ''application/json'')] else [])"
  by (simp add: relay_headers_def getToken_def obj_spread_def)

lemma app_headers_eq:
  "app_headers b body =
     (''Authorization'', ''Bearer '') # (if body \<noteq> None then [(''Content-Type'', ''application/json'')] else [])"
  by (simp add: app_headers_def getToken_def obj_spread_def)

lemma dokployCall_sent:
  "sent (snd (dokployCall el m p opts b)) = sent b @ [\<lparr>rq_method = method_name m,
     rq_url = relay_url b p (co_query opts), rq_headers = relay_headers b (co_body opts),
     rq_include = False, rq_body = co_body opts\<rparr>]"
  by (simp add: dokployCall_def fetch_def Let_def split: fetch_result.splits option.splits)

lemma dokploy_sent:
  "sent (snd (dokploy origin m p body q b)) = sent b @ [\<lparr>rq_method = app_method_name m,
     rq_url = app_url origin b p q, rq_headers = app_headers b body,
     rq_include = False, rq_body = body\<rparr>]"
  by (simp add: dokploy_def fetch_def Let_def split: fetch_result.splits option.splits)

text \<open>A request that names nobody: no cookies for another origin, no token, no CSRF token.\<close>

definition anonymous_request :: "http_request \<Rightarrow> bool" where
  "anonymous_request rq \<longleftrightarrow> \<not> rq_include rq
     \<and> map_of (rq_headers rq) ''Authorization'' \<in> {None, Some ''Bearer ''}
     \<and> map_of (rq_headers rq) ''X-CSRF-Token'' = None"

text \<open>
  Every call of the two relay clients sends exactly one request, and that request is
  anonymous: \<open>getToken\<close> never has a token, \<open>fetch\<close> is not told to include the session
  cookie, and no CSRF token is attached, not even to a POST.
\<close>

theorem relay_unauthenticated:
  "(\<exists>rq. sent (snd (dokployCall el m p opts b)) = sent b @ [rq] \<and> anonymous_request rq)
   \<and> (\<exists>rq. sent (snd (dokploy origin m' p body q b)) = sent b @ [rq] \<and> anonymous_request rq)"
  by (simp add: dokployCall_sent dokploy_sent anonymous_request_def relay_headers_eq app_headers_eq)

subsection \<open>The outcome of a relay call\<close>

lemma dokployCall_cases:
  obtains (Net) "next_answer b = NetFail" "fst (dokployCall el m p opts b) = Inl (FetchError ''Failed to fetch'')"
  | (Body) r where "next_answer b = Resp r" "rs_text r = None"
      "fst (dokployCall el m p opts b) = Inl (FetchError ''body stream failed'')"
  | (Bad) r body_text where "next_answer b = Resp r" "rs_text r = Some body_text" "\<not> response_ok r"
      "fst (dokployCall el m p opts b) =
         Inl (UpstreamError (rs_status r) body_text (case rs_json r of Some v \<Rightarrow> v | None \<Rightarrow> JNull))"
  | (Good) r body_text where "next_answer b = Resp r" "rs_text r = Some body_text" "response_ok r"
      "fst (dokployCall el m p opts b) = Inr \<lparr>ur_status = rs_status r, ur_ok = True,
         ur_durationMs = js_round (el (length (sent b))),
         ur_body = (case rs_json r of Some v \<Rightarrow> v | None \<Rightarrow> JNull), ur_text = body_text\<rparr>"
proof (cases "next_answer b")
  case NetFail
  then show thesis
    by (intro Net) (simp_all add: dokployCall_def fetch_def next_answer_def)
next
  case (Resp r)
  show thesis
  proof (cases "rs_text r")
    case None
    with Resp show thesis
      by (intro Body [of r]) (simp_all add: dokployCall_def fetch_def next_answer_def)
  next
    case (Some body_text)
    note facts = Resp Some
    show thesis
    proof (cases "response_ok r")
      case True
      with facts show thesis
        by (intro Good [of r body_text]) (simp_all add: dokployCall_def fetch_def next_answer_def)
    next
      case False
      with facts show thesis
        by (intro Bad [of r body_text]) (simp_all add: dokployCall_def fetch_def next_answer_def)
    qed
  qed
qed

lemma upstreamMessage_nonempty: "upstreamMessage status body txt \<noteq> []"
proof -
  have "nonempty_string v = Some s \<Longrightarrow> s \<noteq> []" for v s
    by (cases v rule: nonempty_string.cases) (auto split: if_splits)
  then show ?thesis
    by (auto simp: upstreamMessage_def ellipsis_def Let_def split: option.splits)
qed

lemma relay_params_entries:
  "distinct (map fst q) \<Longrightarrow> fst ` set q \<inter> fst ` set ps = {} \<Longrightarrow>
   relay_params q ps = ps @ filter (\<lambda>kv. snd kv \<noteq> []) q"
proof (induction q ps rule: relay_params.induct)
  case (2 k v q ps)
  then have "relay_params q (if v \<noteq> [] then ps @ [(k, v)] else ps)
      = (if v \<noteq> [] then ps @ [(k, v)] else ps) @ filter (\<lambda>kv. snd kv \<noteq> []) q"
    by (auto simp: update_new split: if_splits)
  with 2 show ?case by (auto simp: update_new)
qed simp

lemma relay_url_query:
  assumes "distinct (map fst q)" and "CHR ''?'' \<notin> set (relay_url b p None)"
  shows "parse_query (url_query (relay_url b p (Some q))) = filter (\<lambda>kv. snd kv \<noteq> []) q"
    and "url_path (relay_url b p (Some q)) = relay_url b p None"
proof -
  let ?ps = "filter (\<lambda>kv. snd kv \<noteq> []) q"
  have f: "relay_params q [] = ?ps"
    using relay_params_entries [OF assms(1), of "[]"] by simp
  have u: "relay_url b p (Some q) =
      (if ?ps = [] then relay_url b p None else relay_url b p None @ CHR ''?'' # params_toString ?ps)"
    by (simp add: relay_url_def Let_def f params_toString_empty_iff)
  show "parse_query (url_query (relay_url b p (Some q))) = ?ps"
    using url_split(2,4) [OF assms(2)]
    by (simp only: u split: if_split) (simp add: parse_params_toString, simp add: parse_query_def)
  show "url_path (relay_url b p (Some q)) = relay_url b p None"
    using url_split(1,3) [OF assms(2)] by (simp only: u split: if_split) simp
qed

subsection \<open>Loaders\<close>

text \<open>
  The defaults of the relay are loaded once. The first call sends at most one request and
  stores its result; from then on every call answers that result and sends nothing, whatever
  the network would answer by then. A first call that failed has stored \<open>null\<close>, so the
  organization stays unknown for the life of the page.
\<close>

theorem defaults_loaded_once:
  "let (d, t) = loadDokployDefaults el s in
     (\<forall>b. loadDokployDefaults el' (t\<lparr>rl_browser := b\<rparr>) = (d, t\<lparr>rl_browser := b\<rparr>))
     \<and> length (sent (rl_browser t)) \<le> Suc (length (sent (rl_browser s)))
     \<and> (rl_defaults s = None \<and> next_answer (rl_browser s) = NetFail \<longrightarrow> d = None)"
proof (cases "rl_defaults s")
  case None
  let ?c = "dokployCall el GET ''project.all'' no_call_options (rl_browser s)"
  obtain r b where c: "?c = (r, b)" by fastforce
  have len: "length (sent b) = Suc (length (sent (rl_browser s)))"
    using dokployCall_sent [of el GET "''project.all''" no_call_options "rl_browser s"] c by simp
  have "next_answer (rl_browser s) = NetFail \<Longrightarrow> \<exists>e. r = Inl e"
    using c by (auto simp: dokployCall_def fetch_def next_answer_def)
  with None c len show ?thesis
    by (cases r) (auto simp: loadDokployDefaults_def Let_def)
qed (simp add: loadDokployDefaults_def)

theorem defaults_loaded_once_witness:
  "let s = \<lparr>rl_browser = sample_browser NetFail, rl_defaults = None\<rparr>; (d, t) = loadDokployDefaults (\<lambda>_. 5) s in
     (\<forall>b. loadDokployDefaults (\<lambda>_. 5) (t\<lparr>rl_browser := b\<rparr>) = (d, t\<lparr>rl_browser := b\<rparr>)) \<and> d = None"
  using defaults_loaded_once [of "\<lambda>_. 5" "\<lparr>rl_browser = sample_browser NetFail, rl_defaults = None\<rparr>" "\<lambda>_. 5"]
  by (auto simp: next_answer_def sample_browser_def split: prod.splits)

lemma set_map_filter: "set (List.map_filter f xs) = {y. \<exists>x \<in> set xs. f x = Some y}"
  by (induction xs) (auto simp: List.map_filter_simps split: option.splits)

lemma nonempty_string_Some: "nonempty_string v = Some s \<longleftrightarrow> v = Some (JStr s) \<and> s \<noteq> []"
  by (cases v rule: nonempty_string.cases) auto

lemma prop_of_isRecord: "prop_of v k = Some x \<Longrightarrow> isRecord v"
  by (cases v) (auto simp: isRecord_def)

lemma environment_option_value:
  "(\<exists>opt. environment_option n env = Some opt \<and> do_value opt = i)
     \<longleftrightarrow> prop_of env ''environmentId'' = Some (JStr i) \<and> i \<noteq> []"
proof
  assume "\<exists>opt. environment_option n env = Some opt \<and> do_value opt = i"
  then show "prop_of env ''environmentId'' = Some (JStr i) \<and> i \<noteq> []"
    by (auto simp: environment_option_def nonempty_string_Some split: if_splits option.splits)
next
  assume r: "prop_of env ''environmentId'' = Some (JStr i) \<and> i \<noteq> []"
  then have "nonempty_string (prop_of env ''environmentId'') = Some i" by simp
  with r prop_of_isRecord show "\<exists>opt. environment_option n env = Some opt \<and> do_value opt = i"
    by (auto simp: environment_option_def Let_def)
qed

lemma project_options_values:
  "do_value ` set (project_options p) =
     {i. \<exists>envs. map_of p ''environments'' = Some (JArr envs)
        \<and> (\<exists>env \<in> set envs. prop_of env ''environmentId'' = Some (JStr i) \<and> i \<noteq> [])}"
proof (cases "\<exists>envs. map_of p ''environments'' = Some (JArr envs)")
  case True
  then obtain envs where e: "map_of p ''environments'' = Some (JArr envs)" by blast
  define n where "n = (case map_of p ''name'' of Some (JStr n) \<Rightarrow> n | _ \<Rightarrow> ''project'')"
  have "project_options p = List.map_filter (environment_option n) envs"
    by (simp add: project_options_def e n_def)
  then have "do_value ` set (project_options p)
      = {i. \<exists>env \<in> set envs. \<exists>opt. environment_option n env = Some opt \<and> do_value opt = i}"
    by (auto simp: set_map_filter)
  with e show ?thesis by (simp add: environment_option_value)
next
  case False
  then have "project_options p = []"
    by (simp add: project_options_def split: option.splits json.splits)
  with False show ?thesis by auto
qed

text \<open>
  When the relay answers the project list, the environment picker offers exactly the
  environments of that list: the option values are the non-empty environment ids of the
  environments of its projects, none missing and none made up.
\<close>

theorem environment_options_exact:
  assumes "next_answer b = Resp r" and "rs_text r = Some txt" and "response_ok r" and "rs_json r = Some body"
  shows "\<exists>opts. fst (loadEnvironmentOptions el b) = Inr opts
    \<and> do_value ` set opts = {i. i \<noteq> [] \<and> (\<exists>project \<in> set (extractRows body). \<exists>envs.
         map_of project ''environments'' = Some (JArr envs)
         \<and> (\<exists>env \<in> set envs. prop_of env ''environmentId'' = Some (JStr i)))}"
proof -
  obtain res where "fst (dokployCall el GET ''project.all'' no_call_options b) = Inr res" "ur_body res = body"
    using assms by (cases rule: dokployCall_cases [of b el GET "''project.all''" no_call_options]) auto
  then have "fst (loadEnvironmentOptions el b) = Inr (concat (map project_options (extractRows body)))"
    by (cases "dokployCall el GET ''project.all'' no_call_options b")
      (simp add: loadEnvironmentOptions_def io_bind_def)
  moreover have "do_value ` set (concat (map project_options (extractRows body)))
      = (\<Union>p \<in> set (extractRows body). do_value ` set (project_options p))"
    by auto
  ultimately show ?thesis
    by (auto simp: project_options_values)
qed

definition sample_projects :: json where
  "sample_projects = JArr [JObj [(''name'', JStr ''shop''),
     (''environments'', JArr [JObj [(''environmentId'', JStr ''e1''), (''name'', JStr ''prod'')], JNull])],
     JStr ''noise'']"

theorem environment_options_exact_witness:
  "\<exists>opts. fst (loadEnvironmentOptions (\<lambda>_. 0) (sample_browser (Resp \<lparr>rs_status = 200,
       rs_text = Some ''[...]'', rs_json = Some sample_projects\<rparr>))) = Inr opts
    \<and> do_value ` set opts = {''e1''}"
proof -
  let ?r = "\<lparr>rs_status = 200, rs_text = Some ''[...]'', rs_json = Some sample_projects\<rparr>"
  let ?b = "sample_browser (Resp ?r)"
  have "next_answer ?b = Resp ?r" "rs_text ?r = Some ''[...]''" "response_ok ?r" "rs_json ?r = Some sample_projects"
    by (simp_all add: next_answer_def sample_browser_def response_ok_def)
  then obtain opts where "fst (loadEnvironmentOptions (\<lambda>_. 0) ?b) = Inr opts"
    and "do_value ` set opts = {i. i \<noteq> [] \<and> (\<exists>project \<in> set (extractRows sample_projects). \<exists>envs.
         map_of project ''environments'' = Some (JArr envs)
         \<and> (\<exists>env \<in> set envs. prop_of env ''environmentId'' = Some (JStr i)))}"
    using environment_options_exact [of ?b ?r "''[...]''" sample_projects "\<lambda>_. 0"] by blast
  moreover have "extractRows sample_projects = [[(''name'', JStr ''shop''),
     (''environments'', JArr [JObj [(''environmentId'', JStr ''e1''), (''name'', JStr ''prod'')], JNull])]]"
    by (simp add: sample_projects_def extractRows_def List.map_filter_simps)
  ultimately show ?thesis by (intro exI [of _ opts]) auto
qed

end
