(* ===== verification/Js_Number.thy ===== *)
theory Js_Number
  imports Js_Prelude
begin

text \<open>
  \<open>Number(text)\<close>: the numeric literals the language accepts (decimals with fraction and exponent,
  \<open>Infinity\<close>, and \<open>0x\<close>, \<open>0o\<close>, \<open>0b\<close> integers), with blank text read as zero and everything
  else as \<open>NaN\<close>. A finite number is the rational the literal denotes; literals that round to
  \<open>Infinity\<close> are recognised at the bound of the double format.
\<close>

datatype js_num = NaN | Infinite bool | Fin rat

definition isFinite :: "js_num \<Rightarrow> bool" where
  "isFinite x \<longleftrightarrow> (case x of Fin _ \<Rightarrow> True | _ \<Rightarrow> False)"

text \<open>The least number that rounds to \<open>Infinity\<close>.\<close>

definition double_limit :: rat where
  "double_limit = 2 ^ 1024 - 2 ^ 970"

definition to_double :: "rat \<Rightarrow> js_num" where
  "to_double q = (if \<bar>q\<bar> < double_limit then Fin q else Infinite (q > 0))"

definition all_digits :: "string \<Rightarrow> bool" where
  "all_digits s \<longleftrightarrow> s \<noteq> [] \<and> list_all is_digit s"

text \<open>The exponent part \<open>e+12\<close>, without its \<open>e\<close>.\<close>

definition scale_by :: "rat \<Rightarrow> string \<Rightarrow> rat option" where
  "scale_by m s =
     (let minus = (s \<noteq> [] \<and> hd s = CHR ''-'');
          ds = (if s \<noteq> [] \<and> hd s \<in> {CHR ''-'', CHR ''+''} then tl s else s)
      in if all_digits ds
         then Some (if minus then m / 10 ^ read_nat ds else m * 10 ^ read_nat ds)
         else None)"

definition unsigned_decimal :: "string \<Rightarrow> rat option" where
  "unsigned_decimal s =
     (let i = takeWhile is_digit s;
          r = dropWhile is_digit s;
          dot = (r \<noteq> [] \<and> hd r = CHR ''.'');
          f = (if dot then takeWhile is_digit (tl r) else []);
          r' = (if dot then dropWhile is_digit (tl r) else r);
          m = of_nat (read_nat (i @ f)) / 10 ^ length f
      in if i = [] \<and> f = [] then None
         else case r' of
                [] \<Rightarrow> Some m
              | c # e \<Rightarrow> if c \<in> {CHR ''e'', CHR ''E''} then scale_by m e else None)"

definition radix_digit :: "nat \<Rightarrow> char \<Rightarrow> nat option" where
  "radix_digit base c =
     (let n = of_char c :: nat;
          d = (if 48 \<le> n \<and> n \<le> 57 then n - 48
               else if 65 \<le> n \<and> n \<le> 70 then n - 55
               else if 97 \<le> n \<and> n \<le> 102 then n - 87 else base)
      in if d < base then Some d else None)"

fun radix_value :: "nat \<Rightarrow> nat \<Rightarrow> string \<Rightarrow> nat option" where
  "radix_value base acc [] = Some acc"
| "radix_value base acc (c # s) =
     (case radix_digit base c of None \<Rightarrow> None | Some d \<Rightarrow> radix_value base (base * acc + d) s)"

definition radix_of :: "char \<Rightarrow> nat" where
  "radix_of c = (if c \<in> {CHR ''x'', CHR ''X''} then 16 else if c \<in> {CHR ''o'', CHR ''O''} then 8
                 else if c \<in> {CHR ''b'', CHR ''B''} then 2 else 0)"

definition js_Number :: "string \<Rightarrow> js_num" where
  "js_Number s =
     (let t = trim s;
          minus = startsWith t ''-'';
          body = (if startsWith t ''-'' \<or> startsWith t ''+'' then tl t else t);
          signed = (\<lambda>q. if minus then - q else q)
      in if t = [] then Fin 0
         else if length t > 2 \<and> hd t = CHR ''0'' \<and> radix_of (t ! 1) > 0
         then (case radix_value (radix_of (t ! 1)) 0 (drop 2 t) of
                 Some n \<Rightarrow> to_double (of_nat n) | None \<Rightarrow> NaN)
         else if body = ''Infinity'' then Infinite (\<not> minus)
         else case unsigned_decimal body of Some q \<Rightarrow> to_double (signed q) | None \<Rightarrow> NaN)"

text \<open>Comparisons, and the number in a JSON body: what is not finite is written as \<open>null\<close>.\<close>

definition num_greater :: "js_num \<Rightarrow> rat \<Rightarrow> bool" where
  "num_greater n b = (case n of Fin q \<Rightarrow> q > b | Infinite pos \<Rightarrow> pos | NaN \<Rightarrow> False)"

definition num_negative :: "js_num \<Rightarrow> bool" where
  "num_negative n = (case n of Fin q \<Rightarrow> q < 0 | Infinite pos \<Rightarrow> \<not> pos | NaN \<Rightarrow> False)"

definition js_num_json :: "js_num \<Rightarrow> json" where
  "js_num_json n = (case n of Fin q \<Rightarrow> JNum q | _ \<Rightarrow> JNull)"

subsection \<open>Reading what was printed\<close>

lemma list_all_digits_show [simp]: "list_all is_digit (show_nat n)"
  by (auto simp: list_all_iff show_nat_digits)

lemma takeWhile_show_nat [simp]:
  "takeWhile is_digit (show_nat n) = show_nat n" "dropWhile is_digit (show_nat n) = []"
  using list_all_digits_show [of n] by (auto simp: list_all_iff)

lemma unsigned_decimal_show_nat: "unsigned_decimal (show_nat n) = Some (of_nat n)"
  by (simp add: unsigned_decimal_def)

lemma digit_facts:
  assumes "is_digit c"
  shows "\<not> is_ws c" and "c \<noteq> CHR ''-''" and "c \<noteq> CHR ''+''" and "radix_of c = 0" and "c \<noteq> CHR ''I''"
  using assms by (auto simp: is_digit_def is_ws_def radix_of_def)

lemma trim_no_ws: "(\<And>c. c \<in> set s \<Longrightarrow> \<not> is_ws c) \<Longrightarrow> trim s = s"
  unfolding trim_def by (metis dropWhile_eq_self_iff hd_in_set rev_rev_ident set_rev)

lemma trim_show_nat [simp]: "trim (show_nat n) = show_nat n"
  using show_nat_digits digit_facts(1) by (blast intro: trim_no_ws)

lemma js_Number_show_nat:
  assumes "(of_nat n :: rat) < double_limit"
  shows "js_Number (show_nat n) = Fin (of_nat n)"
proof -
  obtain c s where cs: "show_nat n = c # s" by (cases "show_nat n") auto
  have d: "is_digit c" using show_nat_digits [of c n] cs by simp
  have r: "radix_of (show_nat n ! 1) = 0" if "length (show_nat n) > 2"
    using that by (intro digit_facts(4) show_nat_digits [of _ n]) simp
  have i: "c # s \<noteq> ''Infinity''" using digit_facts(5) [OF d] by simp
  have b: "\<not> startsWith (c # s) ''-''" "\<not> startsWith (c # s) ''+''"
    using digit_facts(2,3) [OF d] by simp_all
  have u: "unsigned_decimal (c # s) = Some (of_nat n)"
    using unsigned_decimal_show_nat [of n] cs by simp
  have t: "trim (c # s) = c # s" using trim_show_nat [of n] cs by simp
  have r': "\<not> (length (c # s) > 2 \<and> hd (c # s) = CHR ''0'' \<and> radix_of ((c # s) ! 1) > 0)"
    using r cs by auto
  show ?thesis
    unfolding cs js_Number_def Let_def t
    using i b u r' assms by (auto simp add: to_double_def simp del: startsWith.simps)
qed

lemma decimal_places_of_int [simp]: "decimal_places (of_int i) = 0"
proof -
  have "[0 ..< 18] = 0 # [1 ..< (18 :: nat)]" by (simp add: upt_rec)
  then show ?thesis by (simp add: decimal_places_def)
qed

lemma show_num_of_nat [simp]: "show_num (of_nat n) = show_nat n"
proof -
  have "decimal_places (of_nat n) = 0" using decimal_places_of_int [of "int n"] by simp
  moreover have "\<lfloor>(of_nat n :: rat) + 1 / 2\<rfloor> = int n"
    by (rule floor_unique) simp_all
  ultimately show ?thesis by (simp add: show_num_def toFixed_def Let_def)
qed

end
