(* ===== verification/Dokploy_Engine.thy ===== *)
theory Dokploy_Engine
  imports Dokploy_Upstream Js_Number
begin

text \<open>
  The engine behind the nine Dokploy manager consoles
  (\<open>features/admin/pages/dokploy/manager/engine.tsx\<close>): the console specifications, the forms
  (initial values, validation, request bodies), and \<open>DokployEngine\<close> with its operation and
  confirm dialogs as a state machine.

  The engine's state is its React cells, the browser, and the asynchronous calls it has started.
  A call is issued by one event and settles in a later one, in any order; its answer is whatever
  the network gives. The requests of the option loaders are made by \<open>Dokploy_Upstream\<close>; here
  their results arrive as events.
\<close>

subsection \<open>Console specifications\<close>

datatype field_kind = KText | KNumber | KPassword | KMultiline | KSelect | KSwitch

datatype option_loader = LoadEnvironments | LoadApplications

record field_spec =
  f_key :: string
  f_label :: string
  f_kind :: field_kind
  f_required :: bool
  f_options :: "string list option"
  f_dynamicOptions :: "option_loader option"
  f_placeholder :: "string option"
  f_hint :: "string option"
  f_sendEmpty :: bool
  f_defaultValue :: "string option"
  f_fromRow :: bool

definition field :: "string \<Rightarrow> string \<Rightarrow> field_kind \<Rightarrow> field_spec" where
  "field k l kind = \<lparr>f_key = k, f_label = l, f_kind = kind, f_required = False, f_options = None,
     f_dynamicOptions = None, f_placeholder = None, f_hint = None, f_sendEmpty = False,
     f_defaultValue = None, f_fromRow = False\<rparr>"

datatype op_role = RList | RCreate | RUpdate | RAction

record op_spec =
  o_key :: string
  o_label :: string
  o_method :: dokploy_method
  o_path :: string
  o_role :: op_role
  o_fields :: "field_spec list"
  o_confirm :: bool
  o_destructive :: bool
  o_successMessage :: "string option"
  o_queryFields :: "field_spec list"

definition op :: "string \<Rightarrow> string \<Rightarrow> dokploy_method \<Rightarrow> string \<Rightarrow> op_role \<Rightarrow> op_spec" where
  "op k l m p r = \<lparr>o_key = k, o_label = l, o_method = m, o_path = p, o_role = r, o_fields = [],
     o_confirm = False, o_destructive = False, o_successMessage = None, o_queryFields = []\<rparr>"

text \<open>The cell renderers the consoles declare; \<open>Plain\<close> is a column without one.\<close>

datatype cell_render = Plain | StatusOf string | OnOff string | OnOffUnset string
  | EnabledOf string | TextOf string | EnvironmentNames

record console_column =
  cc_key :: string
  cc_label :: string
  cc_mono :: bool
  cc_render :: cell_render

definition column :: "string \<Rightarrow> string \<Rightarrow> console_column" where
  "column k l = \<lparr>cc_key = k, cc_label = l, cc_mono = False, cc_render = Plain\<rparr>"

record console_spec =
  cs_title :: string
  cs_description :: "string option"
  cs_entityLabel :: string
  cs_rowIdKey :: string
  cs_columns :: "console_column list"
  cs_searchKeys :: "string list"
  cs_listOp :: op_spec
  cs_createOp :: "op_spec option"
  cs_updateOp :: "op_spec option"
  cs_rowActions :: "op_spec list"
  cs_emptyHint :: "string option"

subsection \<open>Errors and cells\<close>

definition zod_errors :: "json \<Rightarrow> string js_record" where
  "zod_errors body =
     (case prop_of body ''zodError'' of
        Some zod \<Rightarrow>
          (case (if isRecord zod then prop_of zod ''fieldErrors'' else None) of
             Some (JObj nested) \<Rightarrow>
               fold (\<lambda>(k, messages) out.
                 case messages of
                   JArr ms \<Rightarrow> if ms \<noteq> [] then AList.update k (join ''; '' (map js_String ms)) out else out
                 | _ \<Rightarrow> out) nested []
           | _ \<Rightarrow> [])
      | None \<Rightarrow> [])"

definition issue_key :: "json \<Rightarrow> string" where
  "issue_key issue =
     (case prop_of issue ''path'' of
        Some (JArr (p # _)) \<Rightarrow> js_String p
      | _ \<Rightarrow> [])"

definition add_issue :: "json \<Rightarrow> string js_record \<Rightarrow> string js_record" where
  "add_issue issue out =
     (if \<not> isRecord issue then out
      else let k = issue_key issue in
        case prop_of issue ''message'' of
          Some (JStr m) \<Rightarrow> if k \<noteq> [] \<and> map_of out k = None then AList.update k m out else out
        | _ \<Rightarrow> out)"

definition extractFieldErrors :: "json \<Rightarrow> string js_record" where
  "extractFieldErrors body =
     (if \<not> isRecord body then []
      else let out = zod_errors body in
        case prop_of body ''issues'' of
          Some (JArr issues) \<Rightarrow> fold add_issue issues out
        | _ \<Rightarrow> out)"

definition formatCell :: "json option \<Rightarrow> string" where
  "formatCell v =
     (case v of
        None \<Rightarrow> em_dash
      | Some JNull \<Rightarrow> em_dash
      | Some (JStr s) \<Rightarrow>
          if s = [] then em_dash
          else if js_length s > 80 then js_take 77 s @ ellipsis else s
      | Some (JNum q) \<Rightarrow> show_num q
      | Some (JBool t) \<Rightarrow> js_String (JBool t)
      | Some w \<Rightarrow>
          (let js = JSON_stringify w
           in if js_length js > 60 then js_take 57 js @ ellipsis else js))"

text \<open>\<open>date_text\<close> stands for \<open>new Date(value)\<close> with \<open>toLocaleString\<close>: \<open>None\<close> on an invalid date.\<close>

definition formatTimestamp :: "(string \<Rightarrow> string option) \<Rightarrow> json option \<Rightarrow> string" where
  "formatTimestamp date_text v =
     (case v of
        Some (JStr s) \<Rightarrow>
          if s = [] then em_dash
          else (case date_text s of Some t \<Rightarrow> t | None \<Rightarrow> formatCell v)
      | _ \<Rightarrow> em_dash)"

datatype badge_tone = Emerald | Destructive | Muted

definition StatusBadge :: "json option \<Rightarrow> (badge_tone \<times> string) option" where
  "StatusBadge v =
     (case nonempty_string v of
        None \<Rightarrow> None
      | Some s \<Rightarrow>
          Some (if s = ''running'' \<or> s = ''done'' then Emerald
                else if s = ''error'' then Destructive else Muted, s))"

definition badge_text :: "(badge_tone \<times> string) option \<Rightarrow> string" where
  "badge_text b = (case b of None \<Rightarrow> em_dash | Some (_, s) \<Rightarrow> s)"

definition environment_names :: "json option \<Rightarrow> string" where
  "environment_names v =
     (case v of
        Some (JArr envs) \<Rightarrow>
          if envs \<noteq> []
          then concat (List.map_filter
                 (\<lambda>e. case prop_of e ''name'' of Some (JStr n) \<Rightarrow> Some n | _ \<Rightarrow> None) envs)
          else em_dash
      | _ \<Rightarrow> em_dash)"

text \<open>The text of a table cell.\<close>

definition cell_text :: "(string \<Rightarrow> string option) \<Rightarrow> console_column \<Rightarrow> row \<Rightarrow> string" where
  "cell_text date_text c r =
     (case cc_render c of
        Plain \<Rightarrow> if endsWith (cc_key c) ''At'' then formatTimestamp date_text (map_of r (cc_key c))
                 else formatCell (map_of r (cc_key c))
      | StatusOf k \<Rightarrow> badge_text (StatusBadge (map_of r k))
      | OnOff k \<Rightarrow> if map_of r k = Some (JBool True) then ''on'' else ''off''
      | OnOffUnset k \<Rightarrow> if map_of r k = None then em_dash
                       else if map_of r k = Some (JBool True) then ''on'' else ''off''
      | EnabledOf k \<Rightarrow> (case map_of r k of
                         None \<Rightarrow> em_dash
                       | Some v \<Rightarrow> badge_text (StatusBadge (Some (JStr (if truthy v then ''done'' else ''idle'')))))
      | TextOf k \<Rightarrow> js_String (coalesce (map_of r k) (JStr em_dash))
      | EnvironmentNames \<Rightarrow> environment_names (map_of r ''environments''))"

subsection \<open>Forms\<close>

type_synonym form_values = "string js_record"

datatype dialog_mode = Create | Update

definition form_value :: "form_values \<Rightarrow> string \<Rightarrow> string" where
  "form_value values k = (case map_of values k of Some v \<Rightarrow> v | None \<Rightarrow> [])"

definition initial_value :: "dialog_mode \<Rightarrow> row option \<Rightarrow> field_spec \<Rightarrow> string" where
  "initial_value mode r f =
     (case (mode, r) of
        (Update, Some row') \<Rightarrow>
          (let raw = map_of row' (f_key f) in
           if f_kind f = KSwitch
           then (if raw = Some (JBool True) \<or> raw = Some (JStr ''true'') then ''true'' else ''false'')
           else (case raw of
                   None \<Rightarrow> []
                 | Some v \<Rightarrow> if v \<noteq> JNull \<and> \<not> is_object v then js_String v else []))
      | _ \<Rightarrow>
          if f_kind f = KSwitch
          then (case f_defaultValue f of Some d \<Rightarrow> d | None \<Rightarrow> ''false'')
          else (case f_defaultValue f of Some d \<Rightarrow> d | None \<Rightarrow> []))"

definition initialValuesFor :: "op_spec \<Rightarrow> dialog_mode \<Rightarrow> row option \<Rightarrow> form_values" where
  "initialValuesFor o' mode r =
     fold (\<lambda>f values. if f_fromRow f then values
                      else AList.update (f_key f) (initial_value mode r f) values)
       (o_fields o') []"

definition field_error :: "field_spec \<Rightarrow> form_values \<Rightarrow> string option" where
  "field_error f values =
     (let raw = trim (form_value values (f_key f)) in
      if f_fromRow f \<or> f_kind f = KSwitch then None
      else if f_required f \<and> raw = [] then Some (f_label f @ '' is required.'')
      else if f_kind f = KNumber \<and> raw \<noteq> [] \<and> \<not> isFinite (js_Number raw)
      then Some (f_label f @ '' must be a number.'')
      else None)"

definition validateValues :: "op_spec \<Rightarrow> form_values \<Rightarrow> string js_record" where
  "validateValues o' values =
     fold (\<lambda>f errors. case field_error f values of
                        Some e \<Rightarrow> AList.update (f_key f) e errors
                      | None \<Rightarrow> errors)
       (o_fields o') []"

text \<open>\<open>JSON.stringify\<close> writes \<open>NaN\<close> and \<open>Infinity\<close> as \<open>null\<close>.\<close>

definition num_json :: "js_num \<Rightarrow> json" where
  "num_json x = (case x of Fin q \<Rightarrow> JNum q | _ \<Rightarrow> JNull)"

text \<open>What one field puts into the body: \<open>None\<close> leaves the key out.\<close>

definition body_value :: "field_spec \<Rightarrow> form_values \<Rightarrow> row option \<Rightarrow> json option" where
  "body_value f values r =
     (let value = form_value values (f_key f) in
      if f_fromRow f
      then (case r of
              None \<Rightarrow> None
            | Some row' \<Rightarrow>
                (case map_of row' (f_key f) of
                   Some v \<Rightarrow> if v \<noteq> JNull then Some (JStr (js_String v)) else None
                 | None \<Rightarrow> None))
      else case f_kind f of
             KSwitch \<Rightarrow> Some (JBool (value = ''true''))
           | KNumber \<Rightarrow> if trim value \<noteq> [] then Some (num_json (js_Number (trim value))) else None
           | KSelect \<Rightarrow> if value \<noteq> [] then Some (JStr value) else None
           | KMultiline \<Rightarrow> if value \<noteq> [] then Some (JStr value)
                          else if f_sendEmpty f then Some (JStr []) else None
           | _ \<Rightarrow> if trim value \<noteq> [] then Some (JStr (trim value))
                  else if f_sendEmpty f then Some (JStr []) else None)"

definition buildBody :: "op_spec \<Rightarrow> form_values \<Rightarrow> row option \<Rightarrow> json js_record" where
  "buildBody o' values r =
     fold (\<lambda>f body. case body_value f values r of
                      Some v \<Rightarrow>
                        if \<not> f_fromRow f \<and> f_kind f = KMultiline \<and> form_value values (f_key f) = []
                           \<and> map_of body (f_key f) \<noteq> None
                        then body
                        else AList.update (f_key f) v body
                    | None \<Rightarrow> body)
       (o_fields o') []"

definition buildQueryString :: "op_spec \<Rightarrow> form_values \<Rightarrow> row option \<Rightarrow> string js_record" where
  "buildQueryString o' values r =
     fold (\<lambda>(k, v) query. if v \<noteq> [] then AList.update k v query else query) values
       (fold (\<lambda>f query.
          if \<not> f_fromRow f then query
          else case r of
                 None \<Rightarrow> query
               | Some row' \<Rightarrow>
                   (case map_of row' (f_key f) of
                      Some v \<Rightarrow> if v \<noteq> JNull then AList.update (f_key f) (js_String v) query else query
                    | None \<Rightarrow> query))
          (o_fields o') [])"

subsection \<open>State\<close>

record op_dialog =
  dg_op :: op_spec
  dg_mode :: dialog_mode
  dg_row :: "row option"
  dg_values :: form_values
  dg_localErrors :: "string js_record"
  dg_dynOptions :: "(string \<times> dyn_option list) list"

record confirm_state =
  cf_op :: op_spec
  cf_values :: form_values
  cf_row :: "row option"

text \<open>Who called \<open>executeOp\<close>: \<open>runDialog\<close>, \<open>runConfirmed\<close> or \<open>triggerAction\<close>.\<close>

datatype run_kind = DialogRun | ConfirmRun | ActionRun

record op_run =
  or_op :: op_spec
  or_values :: form_values
  or_row :: "row option"
  or_kind :: run_kind
  or_request :: nat
  or_result :: "relay_error + upstream_result"
  or_settled :: bool

record load_run =
  lr_query :: form_values
  lr_result :: "relay_error + upstream_result"
  lr_settled :: bool

datatype toast = ToastSuccess string | ToastError string

record engine =
  en_browser :: browser
  en_rows :: "row list"
  en_loading :: bool
  en_listError :: "string option"
  en_search :: string
  en_page :: nat
  en_queryValues :: form_values
  en_queryOptions :: "(string \<times> dyn_option list) list"
  en_reloadTick :: nat
  en_dialog :: "op_dialog option"
  en_confirm :: "confirm_state option"
  en_running :: bool
  en_formErrors :: "string js_record"
  en_actionError :: "(string \<times> upstream_result) option"
  en_drawer :: "(string \<times> upstream_result) option"
  en_toasts :: "toast list"
  en_runs :: "op_run list"
  en_loads :: "load_run list"

definition initial_query :: "console_spec \<Rightarrow> form_values" where
  "initial_query spec =
     fold (\<lambda>f initial. AList.update (f_key f) (if f_kind f = KSwitch then ''false'' else []) initial)
       (o_queryFields (cs_listOp spec)) []"

definition engine_init :: "console_spec \<Rightarrow> browser \<Rightarrow> engine" where
  "engine_init spec b = \<lparr>en_browser = b, en_rows = [], en_loading = True, en_listError = None,
     en_search = [], en_page = 1, en_queryValues = initial_query spec, en_queryOptions = [],
     en_reloadTick = 0, en_dialog = None, en_confirm = None, en_running = False, en_formErrors = [],
     en_actionError = None, en_drawer = None, en_toasts = [], en_runs = [], en_loads = []\<rparr>"

subsection \<open>List, filter and pages\<close>

definition requiredQueryMissing :: "console_spec \<Rightarrow> engine \<Rightarrow> string list" where
  "requiredQueryMissing spec s =
     map f_label (filter (\<lambda>f. f_required f \<and> form_value (en_queryValues s) (f_key f) = [])
       (o_queryFields (cs_listOp spec)))"

definition relay_error_text :: "relay_error \<Rightarrow> string" where
  "relay_error_text e =
     (case e of
        UpstreamError st t body \<Rightarrow> ''HTTP '' @ show_int st @ '': '' @ upstreamMessage st body t
      | FetchError m \<Rightarrow> m)"

text \<open>\<open>load\<close> up to its \<open>await\<close>, and after it.\<close>

definition load_start :: "(nat \<Rightarrow> rat) \<Rightarrow> console_spec \<Rightarrow> engine \<Rightarrow> engine" where
  "load_start elapsed spec s =
     (if requiredQueryMissing spec s \<noteq> []
      then s\<lparr>en_rows := [], en_listError := None, en_loading := False\<rparr>
      else case dokployCall elapsed (o_method (cs_listOp spec)) (o_path (cs_listOp spec))
                  \<lparr>co_query = Some (en_queryValues s), co_body = None\<rparr> (en_browser s) of
             (res, b) \<Rightarrow>
               s\<lparr>en_loading := True, en_listError := None, en_browser := b,
                 en_loads := en_loads s @ [\<lparr>lr_query = en_queryValues s, lr_result = res, lr_settled = False\<rparr>]\<rparr>)"

definition load_settled :: "nat \<Rightarrow> engine \<Rightarrow> engine" where
  "load_settled i s =
     (if i < length (en_loads s) \<and> \<not> lr_settled (en_loads s ! i)
      then (let l = en_loads s ! i;
                t = s\<lparr>en_loads := (en_loads s)[i := l\<lparr>lr_settled := True\<rparr>]\<rparr>
            in case lr_result l of
                 Inr res \<Rightarrow> t\<lparr>en_rows := extractRows (ur_body res), en_loading := False\<rparr>
               | Inl e \<Rightarrow> t\<lparr>en_listError := Some (relay_error_text e), en_rows := [], en_loading := False\<rparr>)
      else s)"

definition PAGE_SIZE :: nat where
  "PAGE_SIZE = 10"

definition filtered :: "console_spec \<Rightarrow> engine \<Rightarrow> row list" where
  "filtered spec s =
     (let needle = toLowerCase (trim (en_search s))
      in if needle = [] then en_rows s
         else filter (\<lambda>r. list_ex (\<lambda>k. str_includes (toLowerCase (formatCell (map_of r k))) needle)
                (cs_searchKeys spec)) (en_rows s))"

definition page_count :: "nat \<Rightarrow> nat" where
  "page_count n = max 1 ((n + PAGE_SIZE - 1) div PAGE_SIZE)"

definition pageCount :: "console_spec \<Rightarrow> engine \<Rightarrow> nat" where
  "pageCount spec s = page_count (length (filtered spec s))"

definition safePage :: "console_spec \<Rightarrow> engine \<Rightarrow> nat" where
  "safePage spec s = min (en_page s) (pageCount spec s)"

definition page_slice_of :: "nat \<Rightarrow> 'a list \<Rightarrow> 'a list" where
  "page_slice_of p xs = take (p * PAGE_SIZE - (p - 1) * PAGE_SIZE) (drop ((p - 1) * PAGE_SIZE) xs)"

definition pageRows :: "console_spec \<Rightarrow> engine \<Rightarrow> row list" where
  "pageRows spec s = page_slice_of (safePage spec s) (filtered spec s)"

subsection \<open>Operations\<close>

text \<open>\<open>executeOp\<close> up to its \<open>await\<close>.\<close>

definition op_options :: "op_spec \<Rightarrow> form_values \<Rightarrow> row option \<Rightarrow> call_options" where
  "op_options o' values r =
     (case o_method o' of
        POST \<Rightarrow> \<lparr>co_query = None, co_body = Some (JObj (buildBody o' values r))\<rparr>
      | GET \<Rightarrow> \<lparr>co_query = Some (buildQueryString o' values r), co_body = None\<rparr>)"

definition executeOp_start ::
  "(nat \<Rightarrow> rat) \<Rightarrow> run_kind \<Rightarrow> op_spec \<Rightarrow> form_values \<Rightarrow> row option \<Rightarrow> engine \<Rightarrow> engine" where
  "executeOp_start elapsed kind o' values r s =
     (case dokployCall elapsed (o_method o') (o_path o') (op_options o' values r) (en_browser s) of
        (res, b) \<Rightarrow>
          s\<lparr>en_running := True, en_browser := b,
            en_runs := en_runs s @ [\<lparr>or_op = o', or_values = values, or_row = r, or_kind = kind,
              or_request = length (sent (en_browser s)), or_result = res, or_settled = False\<rparr>]\<rparr>)"

text \<open>\<open>executeOp\<close> after it, with \<open>refreshAfter\<close>, which every caller sets.\<close>

definition executeOp_end :: "op_run \<Rightarrow> engine \<Rightarrow> engine" where
  "executeOp_end r s =
     (case or_result r of
        Inr res \<Rightarrow>
          s\<lparr>en_drawer := Some (o_label (or_op r) @ '' '' @ em_dash @ '' HTTP '' @ show_int (ur_status res), res),
            en_toasts := en_toasts s @ [ToastSuccess (case o_successMessage (or_op r) of
                Some m \<Rightarrow> m | None \<Rightarrow> o_label (or_op r) @ '' succeeded'')],
            en_reloadTick := Suc (en_reloadTick s), en_running := False\<rparr>
      | Inl (UpstreamError st t body) \<Rightarrow>
          s\<lparr>en_actionError := Some (o_label (or_op r) @ '' failed'',
              \<lparr>ur_status = st, ur_ok = False, ur_durationMs = 0, ur_body = body, ur_text = t\<rparr>),
            en_formErrors := (if extractFieldErrors body \<noteq> [] then extractFieldErrors body else en_formErrors s),
            en_toasts := en_toasts s @ [ToastError (''HTTP '' @ show_int st @ '': '' @ upstreamMessage st body t)],
            en_running := False\<rparr>
      | Inl (FetchError m) \<Rightarrow>
          s\<lparr>en_toasts := en_toasts s @ [ToastError m], en_running := False\<rparr>)"

text \<open>What the callers do with the result: \<open>runDialog\<close> and \<open>runConfirmed\<close> close their dialog.\<close>

definition run_continue :: "op_run \<Rightarrow> engine \<Rightarrow> engine" where
  "run_continue r s =
     (case or_result r of
        Inl _ \<Rightarrow> s
      | Inr _ \<Rightarrow>
          (case or_kind r of
             DialogRun \<Rightarrow> s\<lparr>en_dialog := None, en_formErrors := []\<rparr>
           | ConfirmRun \<Rightarrow> s\<lparr>en_confirm := None\<rparr>
           | ActionRun \<Rightarrow> s))"

definition op_settled :: "nat \<Rightarrow> engine \<Rightarrow> engine" where
  "op_settled i s =
     (if i < length (en_runs s) \<and> \<not> or_settled (en_runs s ! i)
      then (let r = en_runs s ! i
            in run_continue r (executeOp_end r
                 (s\<lparr>en_runs := (en_runs s)[i := r\<lparr>or_settled := True\<rparr>]\<rparr>)))
      else s)"

definition runDialog :: "(nat \<Rightarrow> rat) \<Rightarrow> form_values \<Rightarrow> engine \<Rightarrow> engine" where
  "runDialog elapsed values s =
     (case en_dialog s of
        None \<Rightarrow> s
      | Some d \<Rightarrow> executeOp_start elapsed DialogRun (dg_op d) values (dg_row d) s)"

definition runConfirmed :: "(nat \<Rightarrow> rat) \<Rightarrow> engine \<Rightarrow> engine" where
  "runConfirmed elapsed s =
     (case en_confirm s of
        None \<Rightarrow> s
      | Some c \<Rightarrow> executeOp_start elapsed ConfirmRun (cf_op c) (cf_values c) (cf_row c) s)"

definition triggerAction :: "(nat \<Rightarrow> rat) \<Rightarrow> op_spec \<Rightarrow> row \<Rightarrow> engine \<Rightarrow> engine" where
  "triggerAction elapsed o' r s =
     (let values = initialValuesFor o' Update (Some r)
      in if o_confirm o'
         then s\<lparr>en_confirm := Some \<lparr>cf_op = o', cf_values = values, cf_row = Some r\<rparr>\<rparr>
         else executeOp_start elapsed ActionRun o' values (Some r) s)"

text \<open>What the confirm dialog shows: the request it is about to send.\<close>

datatype preview = PreviewBody json | PreviewQuery string

definition confirm_preview :: "confirm_state \<Rightarrow> preview" where
  "confirm_preview c =
     (case o_method (cf_op c) of
        POST \<Rightarrow> PreviewBody (JObj (buildBody (cf_op c) (cf_values c) (cf_row c)))
      | GET \<Rightarrow> PreviewQuery (params_toString (buildQueryString (cf_op c) (cf_values c) (cf_row c))))"

subsection \<open>The operation dialog\<close>

definition open_dialog :: "op_spec \<Rightarrow> dialog_mode \<Rightarrow> row option \<Rightarrow> form_values \<Rightarrow> op_dialog" where
  "open_dialog o' mode r seeds =
     \<lparr>dg_op = o', dg_mode = mode, dg_row = r,
      dg_values = obj_spread (initialValuesFor o' mode r)
        (filter (\<lambda>kv. list_ex (\<lambda>f. f_key f = fst kv) (o_fields o')) seeds),
      dg_localErrors = [], dg_dynOptions = []\<rparr>"

definition setValue :: "string \<Rightarrow> string \<Rightarrow> op_dialog \<Rightarrow> op_dialog" where
  "setValue k v d = d\<lparr>dg_values := AList.update k v (dg_values d),
     dg_localErrors := AList.delete k (dg_localErrors d)\<rparr>"

definition options_loaded :: "string \<Rightarrow> dyn_option list \<Rightarrow> op_dialog \<Rightarrow> op_dialog" where
  "options_loaded k opts d = d\<lparr>dg_dynOptions := AList.update k opts (dg_dynOptions d)\<rparr>"

text \<open>The prefill once \<open>loadDokployDefaults\<close> has answered \<open>org\<close>.\<close>

definition defaults_loaded :: "string \<Rightarrow> dyn_option list \<Rightarrow> string option \<Rightarrow> op_dialog \<Rightarrow> op_dialog" where
  "defaults_loaded k opts org d =
     (let prev = dg_values d;
          next1 = (if k = ''environmentId'' \<and> map_of prev ''environmentId'' = Some [] \<and> opts \<noteq> []
                   then AList.update ''environmentId'' (do_value (hd opts)) prev else prev);
          next2 = (if k = ''organizationId'' \<and> map_of prev ''organizationId'' = Some []
                   then AList.update ''organizationId'' (case org of Some x \<Rightarrow> x | None \<Rightarrow> []) next1 else next1)
      in d\<lparr>dg_values := next2\<rparr>)"

definition submit :: "(nat \<Rightarrow> rat) \<Rightarrow> engine \<Rightarrow> engine" where
  "submit elapsed s =
     (case en_dialog s of
        None \<Rightarrow> s
      | Some d \<Rightarrow>
          (let errors = validateValues (dg_op d) (dg_values d)
           in if errors \<noteq> []
              then s\<lparr>en_dialog := Some (d\<lparr>dg_localErrors := errors\<rparr>),
                     en_toasts := en_toasts s @ [ToastError ''Please fix the highlighted fields.'']\<rparr>
              else runDialog elapsed (dg_values d) s))"

text \<open>The choices of a select field: its own options and the loaded ones it does not have.\<close>

definition merged_options :: "field_spec \<Rightarrow> (string \<times> dyn_option list) list \<Rightarrow> string list" where
  "merged_options f dyn =
     (let own = (case f_options f of Some xs \<Rightarrow> xs | None \<Rightarrow> [])
      in own @ (case map_of dyn (f_key f) of
                  Some opts \<Rightarrow> filter (\<lambda>v. v \<notin> set own) (map do_value opts)
                | None \<Rightarrow> []))"

definition visibleFields :: "op_spec \<Rightarrow> field_spec list" where
  "visibleFields o' = filter (\<lambda>f. \<not> f_fromRow f) (o_fields o')"

subsection \<open>What the page shows\<close>

definition left_quote :: string where
  "left_quote = [CHR 0xE2, CHR 0x80, CHR 0x9C]"

definition right_quote :: string where
  "right_quote = [CHR 0xE2, CHR 0x80, CHR 0x9D]"

datatype list_panel = ChooseQuery string | ListFailed string | ListLoading
  | ListEmpty "string option" | ListTable "row list"

definition panel :: "console_spec \<Rightarrow> engine \<Rightarrow> list_panel" where
  "panel spec s =
     (if requiredQueryMissing spec s \<noteq> []
      then ChooseQuery (''Choose '' @ toLowerCase (join '' and '' (requiredQueryMissing spec s))
             @ '' to list '' @ cs_entityLabel spec @ ''s.'')
      else if en_listError s \<noteq> None \<and> en_listError s \<noteq> Some [] then ListFailed (the (en_listError s))
      else if en_loading s then ListLoading
      else if filtered spec s = []
      then ListEmpty (if en_rows s \<noteq> [] then Some ''Nothing matches the current filter.''
             else case cs_emptyHint spec of
                    Some h \<Rightarrow> Some h
                  | None \<Rightarrow> map_option (\<lambda>c. ''Create the first one with '' @ left_quote @ o_label c @ right_quote @ ''.'') (cs_createOp spec))
      else ListTable (pageRows spec s))"

definition rowLabel :: "console_spec \<Rightarrow> row \<Rightarrow> string" where
  "rowLabel spec r =
     (case nonempty_string (map_of r (cs_rowIdKey spec)) of Some i \<Rightarrow> i | None \<Rightarrow> ''selected row'')"

definition table_rows :: "console_spec \<Rightarrow> engine \<Rightarrow> row list" where
  "table_rows spec s = (case panel spec s of ListTable rs \<Rightarrow> rs | _ \<Rightarrow> [])"

text \<open>The page links: at most seven.\<close>

definition pager_links :: "console_spec \<Rightarrow> engine \<Rightarrow> nat list" where
  "pager_links spec s =
     (case panel spec s of
        ListTable _ \<Rightarrow> if pageCount spec s > 1 then map Suc (take 7 [0 ..< pageCount spec s]) else []
      | _ \<Rightarrow> [])"

subsection \<open>Events\<close>

text \<open>
  What can happen to a mounted engine: its two zero timeouts, the answers of its calls, the results
  of its option loaders, and the user. A control that the page does not show or has disabled takes
  no events: the table's menu acts on the rows of the current page, the two dialogs are modal, and
  their buttons are disabled while a call is running.
\<close>

datatype engine_event =
    LoadTimer | LoadSettled nat | PageTimer
  | SearchInput string | PrevPage | NextPage | GoPage nat
  | QueryPick string string | QueryOptions string "dyn_option list" | Refresh
  | OpenCreate | OpenEdit row | TriggerAction op_spec row
  | DialogInput string string | DialogOptions string "dyn_option list"
  | DialogDefaults string "dyn_option list" "string option" | DialogSubmit | DialogCancel
  | ConfirmClick | ConfirmCancel | OpSettled nat | DismissError | CloseDrawer

definition no_modal :: "engine \<Rightarrow> bool" where
  "no_modal s \<longleftrightarrow> en_dialog s = None \<and> en_confirm s = None"

definition has_loader :: "field_spec list \<Rightarrow> string \<Rightarrow> bool" where
  "has_loader fs k \<longleftrightarrow> list_ex (\<lambda>f. f_key f = k \<and> f_dynamicOptions f \<noteq> None) fs"

fun event_enabled :: "console_spec \<Rightarrow> engine_event \<Rightarrow> engine \<Rightarrow> bool" where
  "event_enabled spec (GoPage n) s = (n \<in> set (pager_links spec s))"
| "event_enabled spec PrevPage s = (pager_links spec s \<noteq> [])"
| "event_enabled spec NextPage s = (pager_links spec s \<noteq> [])"
| "event_enabled spec (QueryPick k v) s = list_ex (\<lambda>f. f_key f = k) (o_queryFields (cs_listOp spec))"
| "event_enabled spec (QueryOptions k opts) s = has_loader (o_queryFields (cs_listOp spec)) k"
| "event_enabled spec Refresh s = (no_modal s \<and> \<not> en_loading s)"
| "event_enabled spec OpenCreate s = (no_modal s \<and> cs_createOp spec \<noteq> None)"
| "event_enabled spec (OpenEdit r) s = (no_modal s \<and> cs_updateOp spec \<noteq> None \<and> r \<in> set (table_rows spec s))"
| "event_enabled spec (TriggerAction o' r) s =
     (no_modal s \<and> o' \<in> set (cs_rowActions spec) \<and> r \<in> set (table_rows spec s))"
| "event_enabled spec (DialogInput k v) s =
     (case en_dialog s of Some d \<Rightarrow> list_ex (\<lambda>f. f_key f = k) (visibleFields (dg_op d)) | None \<Rightarrow> False)"
| "event_enabled spec (DialogOptions k opts) s =
     (case en_dialog s of Some d \<Rightarrow> has_loader (o_fields (dg_op d)) k | None \<Rightarrow> False)"
| "event_enabled spec (DialogDefaults k opts org) s =
     (case en_dialog s of Some d \<Rightarrow> has_loader (o_fields (dg_op d)) k | None \<Rightarrow> False)"
| "event_enabled spec DialogSubmit s = (\<not> en_running s)"
| "event_enabled spec ConfirmClick s = (\<not> en_running s)"
| "event_enabled spec _ s = True"

definition with_dialog :: "(op_dialog \<Rightarrow> op_dialog) \<Rightarrow> engine \<Rightarrow> engine" where
  "with_dialog f s = s\<lparr>en_dialog := map_option f (en_dialog s)\<rparr>"

fun engine_do :: "(nat \<Rightarrow> rat) \<Rightarrow> console_spec \<Rightarrow> engine_event \<Rightarrow> engine \<Rightarrow> engine" where
  "engine_do el spec LoadTimer s = load_start el spec s"
| "engine_do el spec (LoadSettled i) s = load_settled i s"
| "engine_do el spec PageTimer s = s\<lparr>en_page := 1\<rparr>"
| "engine_do el spec (SearchInput t) s = s\<lparr>en_search := t\<rparr>"
| "engine_do el spec PrevPage s = s\<lparr>en_page := max 1 (safePage spec s - 1)\<rparr>"
| "engine_do el spec NextPage s = s\<lparr>en_page := min (pageCount spec s) (safePage spec s + 1)\<rparr>"
| "engine_do el spec (GoPage n) s = s\<lparr>en_page := n\<rparr>"
| "engine_do el spec (QueryPick k v) s = s\<lparr>en_queryValues := AList.update k v (en_queryValues s)\<rparr>"
| "engine_do el spec (QueryOptions k opts) s =
     s\<lparr>en_queryOptions := AList.update k opts (en_queryOptions s),
       en_queryValues := (if form_value (en_queryValues s) k \<noteq> [] \<or> opts = [] then en_queryValues s
                          else AList.update k (do_value (hd opts)) (en_queryValues s))\<rparr>"
| "engine_do el spec Refresh s = s\<lparr>en_reloadTick := Suc (en_reloadTick s)\<rparr>"
| "engine_do el spec OpenCreate s =
     (case cs_createOp spec of
        Some o' \<Rightarrow> s\<lparr>en_formErrors := [], en_dialog := Some (open_dialog o' Create None (en_queryValues s))\<rparr>
      | None \<Rightarrow> s)"
| "engine_do el spec (OpenEdit r) s =
     (case cs_updateOp spec of
        Some o' \<Rightarrow> s\<lparr>en_formErrors := [], en_dialog := Some (open_dialog o' Update (Some r) (en_queryValues s))\<rparr>
      | None \<Rightarrow> s)"
| "engine_do el spec (TriggerAction o' r) s = triggerAction el o' r s"
| "engine_do el spec (DialogInput k v) s = with_dialog (setValue k v) s"
| "engine_do el spec (DialogOptions k opts) s = with_dialog (options_loaded k opts) s"
| "engine_do el spec (DialogDefaults k opts org) s = with_dialog (defaults_loaded k opts org) s"
| "engine_do el spec DialogSubmit s = submit el s"
| "engine_do el spec DialogCancel s = s\<lparr>en_dialog := None, en_formErrors := []\<rparr>"
| "engine_do el spec ConfirmClick s = runConfirmed el s"
| "engine_do el spec ConfirmCancel s = s\<lparr>en_confirm := None\<rparr>"
| "engine_do el spec (OpSettled i) s = op_settled i s"
| "engine_do el spec DismissError s = s\<lparr>en_actionError := None\<rparr>"
| "engine_do el spec CloseDrawer s = s\<lparr>en_drawer := None\<rparr>"

definition engine_step :: "(nat \<Rightarrow> rat) \<Rightarrow> console_spec \<Rightarrow> engine_event \<Rightarrow> engine \<Rightarrow> engine" where
  "engine_step el spec e s = (if event_enabled spec e s then engine_do el spec e s else s)"

subsection \<open>Records built by folding\<close>

text \<open>
  \<open>initialValuesFor\<close>, \<open>validateValues\<close> and \<open>buildBody\<close> fill a record field by field; with
  distinct keys the entry of a field is what that field contributed.
\<close>

lemma map_of_fold_update_other:
  "k \<notin> key ` set fs \<Longrightarrow>
   map_of (fold (\<lambda>f acc. case g f of Some v \<Rightarrow> AList.update (key f) v acc | None \<Rightarrow> acc) fs acc) k = map_of acc k"
  by (induction fs arbitrary: acc) (auto simp: update_conv' split: option.splits)

lemma fresh_after_update:
  assumes "k0 \<notin> key ` set fs" and "\<forall>f \<in> set fs. map_of acc (key f) = None"
  shows "\<forall>f \<in> set fs. map_of (case w of Some v \<Rightarrow> AList.update k0 v acc | None \<Rightarrow> acc) (key f) = None"
proof
  fix f assume "f \<in> set fs"
  with assms have "key f \<noteq> k0" and "map_of acc (key f) = None" by auto
  then show "map_of (case w of Some v \<Rightarrow> AList.update k0 v acc | None \<Rightarrow> acc) (key f) = None"
    by (simp add: update_conv' split: option.splits)
qed

lemma map_of_fold_update:
  "distinct (map key fs) \<Longrightarrow> f \<in> set fs \<Longrightarrow> (\<forall>f \<in> set fs. map_of acc (key f) = None) \<Longrightarrow>
   map_of (fold (\<lambda>f acc. case g f of Some v \<Rightarrow> AList.update (key f) v acc | None \<Rightarrow> acc) fs acc) (key f) = g f"
proof (induction fs arbitrary: acc)
  case (Cons f0 fs)
  let ?acc = "case g f0 of Some v \<Rightarrow> AList.update (key f0) v acc | None \<Rightarrow> acc"
  have other: "\<forall>f \<in> set fs. map_of ?acc (key f) = None"
    using fresh_after_update [of "key f0" key fs acc "g f0"] Cons.prems by simp
  show ?case
  proof (cases "f = f0")
    case True
    then have "key f \<notin> key ` set fs" using Cons.prems(1) by auto
    from map_of_fold_update_other [OF this, of g ?acc] True Cons.prems(3) show ?thesis
      by (auto simp: update_conv' split: option.splits)
  next
    case False
    with Cons.prems Cons.IH [of ?acc] other show ?thesis by simp
  qed
qed simp

lemma fold_update_Nil:
  "fold (\<lambda>f acc. case g f of Some v \<Rightarrow> AList.update (key f) v acc | None \<Rightarrow> acc) fs acc = [] \<Longrightarrow>
   acc = [] \<and> (\<forall>f \<in> set fs. g f = None)"
proof (induction fs arbitrary: acc)
  case (Cons f fs)
  let ?acc = "case g f of Some v \<Rightarrow> AList.update (key f) v acc | None \<Rightarrow> acc"
  have "fold (\<lambda>f acc. case g f of Some v \<Rightarrow> AList.update (key f) v acc | None \<Rightarrow> acc) fs ?acc = []"
    using Cons.prems by simp
  from Cons.IH [OF this] have *: "?acc = []" "\<forall>f \<in> set fs. g f = None" by blast+
  have u: "AList.update k v acc \<noteq> []" for k v by (cases acc) auto
  show ?case using * u by (cases "g f") simp_all
qed simp

definition distinct_fields :: "op_spec \<Rightarrow> bool" where
  "distinct_fields o' \<longleftrightarrow> distinct (map f_key (o_fields o'))"

lemma initialValuesFor_eq:
  "initialValuesFor o' mode r = fold (\<lambda>f acc. case (if f_fromRow f then None else Some (initial_value mode r f))
     of Some v \<Rightarrow> AList.update (f_key f) v acc | None \<Rightarrow> acc) (o_fields o') []"
  unfolding initialValuesFor_def by (rule arg_cong [of _ _ "\<lambda>g. fold g _ _"]) (auto simp: fun_eq_iff)

lemma initialValuesFor_value:
  assumes "distinct_fields o'" and "f \<in> set (o_fields o')" and "\<not> f_fromRow f"
  shows "form_value (initialValuesFor o' mode r) (f_key f) = initial_value mode r f"
  using map_of_fold_update [of f_key "o_fields o'" f "[]" "\<lambda>f. if f_fromRow f then None else Some (initial_value mode r f)"] assms
  by (simp add: form_value_def initialValuesFor_eq distinct_fields_def)

lemma buildBody_step:
  "(case body_value f values r of
      Some v \<Rightarrow> if \<not> f_fromRow f \<and> f_kind f = KMultiline \<and> form_value values (f_key f) = []
                    \<and> map_of body (f_key f) \<noteq> None then body
                else AList.update (f_key f) v body
    | None \<Rightarrow> body)
   = (case body_value f values r of Some v \<Rightarrow> AList.update (f_key f) v body | None \<Rightarrow> body)"
  if "map_of body (f_key f) = None"
  using that by (simp split: option.splits)

lemma buildBody_fold:
  "distinct (map f_key fs) \<Longrightarrow> (\<forall>f \<in> set fs. map_of acc (f_key f) = None) \<Longrightarrow>
   fold (\<lambda>f body. case body_value f values r of
      Some v \<Rightarrow> if \<not> f_fromRow f \<and> f_kind f = KMultiline \<and> form_value values (f_key f) = []
                    \<and> map_of body (f_key f) \<noteq> None then body
                else AList.update (f_key f) v body
    | None \<Rightarrow> body) fs acc
   = fold (\<lambda>f body. case body_value f values r of Some v \<Rightarrow> AList.update (f_key f) v body | None \<Rightarrow> body) fs acc"
proof (induction fs arbitrary: acc)
  case (Cons f fs)
  then have "\<forall>f' \<in> set fs. map_of (case body_value f values r of
      Some v \<Rightarrow> AList.update (f_key f) v acc | None \<Rightarrow> acc) (f_key f') = None"
    using fresh_after_update [of "f_key f" f_key fs acc "body_value f values r"] by simp
  with Cons show ?case by (simp add: buildBody_step)
qed simp

lemma buildBody_value:
  assumes "distinct_fields o'" and "f \<in> set (o_fields o')"
  shows "map_of (buildBody o' values r) (f_key f) = body_value f values r"
  using buildBody_fold [of "o_fields o'" "[]" "values" r]
    map_of_fold_update [of f_key "o_fields o'" f "[]" "\<lambda>f. body_value f values r"] assms
  by (simp add: buildBody_def distinct_fields_def)

lemma validateValues_ok: "validateValues o' values = [] \<Longrightarrow> f \<in> set (o_fields o') \<Longrightarrow> field_error f values = None"
  unfolding validateValues_def by (drule fold_update_Nil) blast

text \<open>A field that validation accepted and that is required has a usable value in the body.\<close>

definition usable :: "json option \<Rightarrow> bool" where
  "usable v \<longleftrightarrow> (\<exists>w. v = Some w \<and> w \<noteq> JNull \<and> w \<noteq> JStr [])"

lemma required_field_sent:
  assumes "field_error f values = None" and "f_required f" and "\<not> f_fromRow f"
  shows "usable (body_value f values r)"
proof (cases "f_kind f = KSwitch")
  case True
  with assms(3) show ?thesis by (simp add: usable_def body_value_def Let_def)
next
  case False
  define v where "v = form_value values (f_key f)"
  have t: "trim v \<noteq> []"
    using assms False by (auto simp: field_error_def Let_def v_def split: if_splits)
  have n: "f_kind f = KNumber \<Longrightarrow> \<exists>q. js_Number (trim v) = Fin q"
    using assms t by (auto simp: field_error_def Let_def v_def isFinite_def split: if_splits js_num.splits)
  from t have "v \<noteq> []" by auto
  with n t False assms(3) show ?thesis
    unfolding body_value_def v_def [symmetric] Let_def usable_def
    by (cases "f_kind f") (auto simp: num_json_def simp del: js_Number_def)
qed

subsection \<open>The engine's invariant\<close>

definition dialog_ops :: "console_spec \<Rightarrow> op_spec set" where
  "dialog_ops spec = set_option (cs_createOp spec) \<union> set_option (cs_updateOp spec)"

text \<open>The request a run has sent.\<close>

definition run_request :: "browser \<Rightarrow> op_run \<Rightarrow> http_request" where
  "run_request b r =
     (let opts = op_options (or_op r) (or_values r) (or_row r) in
      \<lparr>rq_method = method_name (o_method (or_op r)), rq_url = relay_url b (o_path (or_op r)) (co_query opts),
       rq_headers = relay_headers b (co_body opts), rq_include = False, rq_body = co_body opts\<rparr>)"

definition kind_ok :: "console_spec \<Rightarrow> run_kind \<Rightarrow> op_spec \<Rightarrow> form_values \<Rightarrow> bool" where
  "kind_ok spec kind o' values \<longleftrightarrow>
     (case kind of
        DialogRun \<Rightarrow> o' \<in> dialog_ops spec \<and> validateValues o' values = []
      | ConfirmRun \<Rightarrow> o' \<in> set (cs_rowActions spec) \<and> o_confirm o'
      | ActionRun \<Rightarrow> o' \<in> set (cs_rowActions spec) \<and> \<not> o_confirm o')"

definition run_ok :: "console_spec \<Rightarrow> browser \<Rightarrow> op_run \<Rightarrow> bool" where
  "run_ok spec b r \<longleftrightarrow> kind_ok spec (or_kind r) (or_op r) (or_values r)
     \<and> or_request r < length (sent b) \<and> sent b ! or_request r = run_request b r"

definition engine_ok :: "console_spec \<Rightarrow> engine \<Rightarrow> bool" where
  "engine_ok spec s \<longleftrightarrow>
     1 \<le> en_page s
     \<and> (\<forall>d. en_dialog s = Some d \<longrightarrow> dg_op d \<in> dialog_ops spec)
     \<and> (\<forall>c. en_confirm s = Some c \<longrightarrow> cf_op c \<in> set (cs_rowActions spec) \<and> o_confirm (cf_op c))
     \<and> (\<forall>r \<in> set (en_runs s). run_ok spec (en_browser s) r)
     \<and> (en_running s \<longrightarrow> (\<exists>r \<in> set (en_runs s). \<not> or_settled r))
     \<and> (en_loading s \<longrightarrow> en_loads s = [] \<or> (\<exists>l \<in> set (en_loads s). \<not> lr_settled l))"

lemma engine_init_ok: "engine_ok spec (engine_init spec b)"
  by (simp add: engine_ok_def engine_init_def)

lemma dokployCall_config: "config (snd (dokployCall el m p opts b)) = config b"
  by (simp add: dokployCall_def fetch_def Let_def split: fetch_result.splits option.splits)

lemma run_request_config: "config b = config b' \<Longrightarrow> run_request b r = run_request b' r"
  by (simp add: run_request_def relay_url_def API_BASE_def relay_headers_def getToken_def)

text \<open>Sending another request keeps the earlier runs right.\<close>

lemma run_ok_sent:
  assumes "run_ok spec b r" and "sent b' = sent b @ rqs" and "config b' = config b"
  shows "run_ok spec b' r"
  using assms run_request_config [of b' b r] by (auto simp: run_ok_def nth_append)

lemma run_ok_settled [simp]: "run_ok spec b (r\<lparr>or_settled := t\<rparr>) = run_ok spec b r"
  by (simp add: run_ok_def run_request_def)

lemma executeOp_start_ok:
  assumes "engine_ok spec s" and k: "kind_ok spec kind o' values"
  shows "engine_ok spec (executeOp_start el kind o' values r s)"
proof -
  obtain res b where c: "dokployCall el (o_method o') (o_path o') (op_options o' values r) (en_browser s) = (res, b)"
    by fastforce
  have sent: "sent b = sent (en_browser s) @ [\<lparr>rq_method = method_name (o_method o'),
      rq_url = relay_url (en_browser s) (o_path o') (co_query (op_options o' values r)),
      rq_headers = relay_headers (en_browser s) (co_body (op_options o' values r)),
      rq_include = False, rq_body = co_body (op_options o' values r)\<rparr>]"
    using dokployCall_sent [of el "o_method o'" "o_path o'" "op_options o' values r" "en_browser s"] c by simp
  have conf: "config b = config (en_browser s)"
    using dokployCall_config [of el "o_method o'" "o_path o'" "op_options o' values r" "en_browser s"] c by simp
  let ?run = "\<lparr>or_op = o', or_values = values, or_row = r, or_kind = kind,
      or_request = length (sent (en_browser s)), or_result = res, or_settled = False\<rparr>"
  have "run_ok spec b ?run"
    using k run_request_config [OF conf, of ?run]
    by (simp add: run_ok_def sent) (simp add: run_request_def Let_def)
  moreover have "\<forall>r \<in> set (en_runs s). run_ok spec b r"
    using assms(1) run_ok_sent [OF _ sent conf] by (simp add: engine_ok_def)
  ultimately show ?thesis
    using assms(1) by (auto simp: executeOp_start_def c engine_ok_def)
qed

lemma load_start_ok:
  assumes "engine_ok spec s"
  shows "engine_ok spec (load_start el spec s)"
proof -
  let ?opts = "\<lparr>co_query = Some (en_queryValues s), co_body = None\<rparr>"
  obtain res b where c: "dokployCall el (o_method (cs_listOp spec)) (o_path (cs_listOp spec)) ?opts (en_browser s) = (res, b)"
    by fastforce
  obtain rq where sent: "sent b = sent (en_browser s) @ [rq]"
    using dokployCall_sent [of el "o_method (cs_listOp spec)" "o_path (cs_listOp spec)" ?opts "en_browser s"] c by auto
  have conf: "config b = config (en_browser s)"
    using dokployCall_config [of el "o_method (cs_listOp spec)" "o_path (cs_listOp spec)" ?opts "en_browser s"] c by simp
  have "\<forall>r \<in> set (en_runs s). run_ok spec b r"
    using assms run_ok_sent [OF _ sent conf] by (simp add: engine_ok_def)
  with assms show ?thesis
    by (auto simp: load_start_def c engine_ok_def)
qed

lemma load_settled_ok: "engine_ok spec s \<Longrightarrow> engine_ok spec (load_settled i s)"
  by (auto simp: engine_ok_def load_settled_def Let_def split: sum.splits)

lemma set_update_settled:
  assumes "i < length rs" and "\<forall>r \<in> set rs. run_ok spec b r"
  shows "\<forall>r \<in> set (rs[i := (rs ! i)\<lparr>or_settled := True\<rparr>]). run_ok spec b r"
proof
  fix r assume "r \<in> set (rs[i := (rs ! i)\<lparr>or_settled := True\<rparr>])"
  then have "r = (rs ! i)\<lparr>or_settled := True\<rparr> \<or> r \<in> set rs"
    using set_update_subset_insert by fastforce
  with assms show "run_ok spec b r" by auto
qed

lemma op_settled_ok:
  assumes "engine_ok spec s"
  shows "engine_ok spec (op_settled i s)"
proof (cases "i < length (en_runs s) \<and> \<not> or_settled (en_runs s ! i)")
  case True
  let ?r = "en_runs s ! i"
  let ?t = "s\<lparr>en_runs := (en_runs s)[i := ?r\<lparr>or_settled := True\<rparr>]\<rparr>"
  have "engine_ok spec (executeOp_end ?r ?t) \<and> \<not> en_running (executeOp_end ?r ?t)"
    using assms True set_update_settled [of i "en_runs s" spec "en_browser s"]
    by (simp add: engine_ok_def executeOp_end_def split: sum.splits relay_error.splits)
  then have "engine_ok spec (run_continue ?r (executeOp_end ?r ?t))"
    by (simp add: engine_ok_def run_continue_def split: sum.splits run_kind.splits)
  with True show ?thesis by (simp add: op_settled_def Let_def)
qed (auto simp: op_settled_def assms)

lemma engine_frame_ok:
  assumes "engine_ok spec s" and "1 \<le> en_page t"
    and "en_dialog t = en_dialog s" and "en_confirm t = en_confirm s" and "en_runs t = en_runs s"
    and "en_browser t = en_browser s" and "en_running t = en_running s" and "en_loading t = en_loading s"
    and "en_loads t = en_loads s"
  shows "engine_ok spec t"
  using assms by (simp add: engine_ok_def)

lemma with_dialog_ok:
  assumes "engine_ok spec s" and "\<And>d. dg_op (f d) = dg_op d"
  shows "engine_ok spec (with_dialog f s)"
  using assms by (auto simp: engine_ok_def with_dialog_def)

lemma dialog_edits_keep_op [simp]:
  "dg_op (setValue k v d) = dg_op d" "dg_op (options_loaded k opts d) = dg_op d"
  "dg_op (defaults_loaded k opts org d) = dg_op d"
  by (simp_all add: setValue_def options_loaded_def defaults_loaded_def Let_def)

lemma submit_ok:
  assumes "engine_ok spec s"
  shows "engine_ok spec (submit el s)"
proof (cases "en_dialog s")
  case (Some d)
  with assms have d: "dg_op d \<in> dialog_ops spec" by (simp add: engine_ok_def)
  show ?thesis
  proof (cases "validateValues (dg_op d) (dg_values d) = []")
    case True
    then have "kind_ok spec DialogRun (dg_op d) (dg_values d)" using d by (simp add: kind_ok_def)
    from executeOp_start_ok [OF assms this] Some True show ?thesis
      by (simp add: submit_def runDialog_def Let_def)
  next
    case False
    with assms Some d show ?thesis by (simp add: submit_def Let_def engine_ok_def)
  qed
qed (simp add: submit_def assms)

lemma runConfirmed_ok: "engine_ok spec s \<Longrightarrow> engine_ok spec (runConfirmed el s)"
  by (cases "en_confirm s")
    (auto simp: runConfirmed_def engine_ok_def [of spec s] kind_ok_def intro!: executeOp_start_ok)

lemma triggerAction_ok:
  assumes "engine_ok spec s" and "o' \<in> set (cs_rowActions spec)"
  shows "engine_ok spec (triggerAction el o' r s)"
proof (cases "o_confirm o'")
  case True
  with assms show ?thesis by (simp add: triggerAction_def Let_def engine_ok_def)
next
  case False
  with assms have "kind_ok spec ActionRun o' (initialValuesFor o' Update (Some r))" by (simp add: kind_ok_def)
  from executeOp_start_ok [OF assms(1) this] False show ?thesis by (simp add: triggerAction_def Let_def)
qed

lemma page_count_pos: "1 \<le> page_count n"
  by (simp add: page_count_def)

lemma engine_step_ok:
  assumes "engine_ok spec s"
  shows "engine_ok spec (engine_step el spec e s)"
proof (cases "event_enabled spec e s")
  case True
  have "engine_ok spec (engine_do el spec e s)"
  proof (cases e)
    case (TriggerAction o' r)
    with True assms show ?thesis by (simp add: triggerAction_ok)
  next
    case (GoPage n)
    with True have "1 \<le> n" by (auto simp: pager_links_def split: list_panel.splits if_splits)
    with GoPage assms show ?thesis by (simp add: engine_ok_def)
  next
    case NextPage
    with assms page_count_pos show ?thesis by (simp add: engine_ok_def pageCount_def)
  next
    case OpenCreate
    with assms show ?thesis
      by (auto simp: engine_ok_def open_dialog_def dialog_ops_def split: option.splits)
  next
    case (OpenEdit r)
    with assms show ?thesis
      by (auto simp: engine_ok_def open_dialog_def dialog_ops_def split: option.splits)
  qed (use assms in \<open>simp_all add: load_start_ok load_settled_ok op_settled_ok submit_ok runConfirmed_ok
        with_dialog_ok engine_frame_ok\<close>, simp_all add: engine_ok_def)
  with True show ?thesis by (simp add: engine_step_def)
qed (simp add: engine_step_def assms)

interpretation manager: event_machine "engine_step el spec" "engine_ok spec" for el spec
  by unfold_locales (rule engine_step_ok)

definition engine_after :: "(nat \<Rightarrow> rat) \<Rightarrow> console_spec \<Rightarrow> browser \<Rightarrow> engine_event list \<Rightarrow> engine" where
  "engine_after el spec b es = fold (engine_step el spec) es (engine_init spec b)"

lemma engine_after_ok: "engine_ok spec (engine_after el spec b es)"
  unfolding engine_after_def by (rule manager.run_inv) (rule engine_init_ok)

subsection \<open>Where a call comes from\<close>

lemma executeOp_start_runs:
  "\<exists>r. en_runs (executeOp_start el kind o' values row' s) = en_runs s @ [r]
     \<and> or_op r = o' \<and> or_values r = values \<and> or_row r = row' \<and> or_kind r = kind"
  by (simp add: executeOp_start_def split: prod.splits)

lemma executeOp_start_sent:
  "sent (en_browser (executeOp_start el kind o' values r s)) = sent (en_browser s) @
     [\<lparr>rq_method = method_name (o_method o'),
       rq_url = relay_url (en_browser s) (o_path o') (co_query (op_options o' values r)),
       rq_headers = relay_headers (en_browser s) (co_body (op_options o' values r)),
       rq_include = False, rq_body = co_body (op_options o' values r)\<rparr>]"
  using dokployCall_sent [of el "o_method o'" "o_path o'" "op_options o' values r" "en_browser s"]
  by (cases "dokployCall el (o_method o') (o_path o') (op_options o' values r) (en_browser s)")
    (simp add: executeOp_start_def)

lemma quiet_runs [simp]:
  "length (en_runs (load_start el spec s)) = length (en_runs s)"
  "length (en_runs (load_settled i s)) = length (en_runs s)"
  "length (en_runs (op_settled i s)) = length (en_runs s)"
  "length (en_runs (with_dialog g s)) = length (en_runs s)"
  by (simp_all add: load_start_def load_settled_def op_settled_def with_dialog_def Let_def run_continue_def
      executeOp_end_def split: prod.splits sum.splits relay_error.splits run_kind.splits)

text \<open>Only three events start a call: submitting the dialog, confirming, and an action without a confirm step.\<close>

lemma new_run_cases:
  assumes "en_runs (engine_step el spec e s) = en_runs s @ [r]"
  obtains (Submit) d where "e = DialogSubmit" "en_dialog s = Some d"
      "validateValues (dg_op d) (dg_values d) = []"
      "engine_step el spec e s = executeOp_start el DialogRun (dg_op d) (dg_values d) (dg_row d) s"
  | (Confirm) c where "e = ConfirmClick" "en_confirm s = Some c"
      "engine_step el spec e s = executeOp_start el ConfirmRun (cf_op c) (cf_values c) (cf_row c) s"
  | (Action) o' r' where "e = TriggerAction o' r'" "o' \<in> set (cs_rowActions spec)" "\<not> o_confirm o'"
      "engine_step el spec e s = executeOp_start el ActionRun o' (initialValuesFor o' Update (Some r')) (Some r') s"
proof -
  have len: "length (en_runs (engine_step el spec e s)) = Suc (length (en_runs s))"
    using assms by simp
  then have en: "event_enabled spec e s"
    by (auto simp: engine_step_def split: if_splits)
  with len have do: "length (en_runs (engine_do el spec e s)) = Suc (length (en_runs s))"
    and step: "engine_step el spec e s = engine_do el spec e s"
    by (simp_all add: engine_step_def)
  show thesis
  proof (cases e)
    case DialogSubmit
    with do obtain d where "en_dialog s = Some d" "validateValues (dg_op d) (dg_values d) = []"
      by (auto simp: submit_def Let_def split: option.splits if_splits)
    with DialogSubmit step show thesis by (intro Submit) (simp_all add: submit_def runDialog_def Let_def)
  next
    case ConfirmClick
    with do obtain c where "en_confirm s = Some c"
      by (auto simp: runConfirmed_def split: option.splits)
    with ConfirmClick step show thesis by (intro Confirm) (simp_all add: runConfirmed_def)
  next
    case (TriggerAction o' r')
    with do have "\<not> o_confirm o'"
      by (auto simp: triggerAction_def Let_def split: if_splits)
    with TriggerAction step en show thesis
      by (intro Action) (simp_all add: triggerAction_def Let_def)
  qed (use do in \<open>simp_all split: option.splits\<close>)
qed

subsection \<open>The contract of a console\<close>

text \<open>
  What a console specification promises the engine: create and update are POST operations with
  distinct fields that delete nothing, every destructive row action asks first, and the operations
  on a row take the row's identifier from the row.
\<close>

locale console_contract =
  fixes spec :: console_spec
  assumes destructive_asks: "\<And>o'. o' \<in> set (cs_rowActions spec) \<Longrightarrow> o_destructive o' \<Longrightarrow> o_confirm o'"
    and dialogs_keep: "\<And>o'. o' \<in> dialog_ops spec \<Longrightarrow> \<not> o_destructive o'"
    and dialogs_post: "\<And>o'. o' \<in> dialog_ops spec \<Longrightarrow> o_method o' = POST"
    and dialogs_distinct: "\<And>o'. o' \<in> dialog_ops spec \<Longrightarrow> distinct_fields o'"
    and actions_distinct: "\<And>o'. o' \<in> set (cs_rowActions spec) \<Longrightarrow> distinct_fields o'"
    and row_ops_identify: "\<And>o'. o' \<in> set_option (cs_updateOp spec) \<union> set (cs_rowActions spec) \<Longrightarrow>
      \<exists>f \<in> set (o_fields o'). f_key f = cs_rowIdKey spec \<and> f_fromRow f"
begin

lemma destructive_confirmed:
  assumes new: "en_runs (engine_step el spec e (engine_after el spec b es)) = en_runs (engine_after el spec b es) @ [r]"
    and d: "o_destructive (or_op r)"
  shows "\<exists>c rq. e = ConfirmClick \<and> en_confirm (engine_after el spec b es) = Some c
    \<and> or_op r = cf_op c \<and> or_row r = cf_row c
    \<and> sent (en_browser (engine_step el spec e (engine_after el spec b es)))
        = sent (en_browser (engine_after el spec b es)) @ [rq]
    \<and> (\<forall>body. confirm_preview c = PreviewBody body \<longrightarrow> rq_body rq = Some body)"
  using new
proof (cases rule: new_run_cases)
  case (Submit dg)
  then have "or_op r = dg_op dg"
    using new executeOp_start_runs [of el DialogRun "dg_op dg" "dg_values dg" "dg_row dg" "engine_after el spec b es"]
    by auto
  moreover have "dg_op dg \<in> dialog_ops spec"
    using engine_after_ok [of spec el b es] Submit(2) by (simp add: engine_ok_def)
  ultimately show ?thesis using d dialogs_keep by simp
next
  case (Action o' r')
  then have "or_op r = o'"
    using new executeOp_start_runs [of el ActionRun o' "initialValuesFor o' Update (Some r')" "Some r'" "engine_after el spec b es"]
    by auto
  with Action d destructive_asks show ?thesis by blast
next
  case (Confirm c)
  have "or_op r = cf_op c" "or_row r = cf_row c"
    using new Confirm executeOp_start_runs [of el ConfirmRun "cf_op c" "cf_values c" "cf_row c" "engine_after el spec b es"]
    by auto
  moreover have "confirm_preview c = PreviewBody body \<Longrightarrow>
      co_body (op_options (cf_op c) (cf_values c) (cf_row c)) = Some body" for body
    by (auto simp: confirm_preview_def op_options_def split: dokploy_method.splits)
  ultimately show ?thesis
    using Confirm executeOp_start_sent [of el ConfirmRun "cf_op c" "cf_values c" "cf_row c" "engine_after el spec b es"]
    by auto
qed

lemma submitted_complete:
  assumes r: "r \<in> set (en_runs (engine_after el spec b es))" and k: "or_kind r = DialogRun"
    and f: "f \<in> set (o_fields (or_op r))" "f_required f" "\<not> f_fromRow f"
  shows "\<exists>kvs. rq_body (sent (en_browser (engine_after el spec b es)) ! or_request r) = Some (JObj kvs)
    \<and> usable (map_of kvs (f_key f))"
proof -
  let ?s = "engine_after el spec b es"
  have ok: "run_ok spec (en_browser ?s) r" using engine_after_ok r by (simp add: engine_ok_def)
  then have o: "or_op r \<in> dialog_ops spec" and v: "validateValues (or_op r) (or_values r) = []"
    and rq: "sent (en_browser ?s) ! or_request r = run_request (en_browser ?s) r"
    using k by (simp_all add: run_ok_def kind_ok_def)
  have "usable (map_of (buildBody (or_op r) (or_values r) (or_row r)) (f_key f))"
    using required_field_sent [OF validateValues_ok [OF v f(1)] f(2,3)]
    by (simp add: buildBody_value [OF dialogs_distinct [OF o] f(1)])
  then show ?thesis
    using rq dialogs_post [OF o] by (simp add: run_request_def op_options_def Let_def)
qed

lemma row_id_sent:
  assumes r: "r \<in> set (en_runs (engine_after el spec b es))"
    and o: "or_op r \<in> set_option (cs_updateOp spec) \<union> set (cs_rowActions spec)" "o_method (or_op r) = POST"
    and i: "or_row r = Some rw" "map_of rw (cs_rowIdKey spec) = Some (JStr i)"
  shows "\<exists>kvs. rq_body (sent (en_browser (engine_after el spec b es)) ! or_request r) = Some (JObj kvs)
    \<and> map_of kvs (cs_rowIdKey spec) = Some (JStr i)"
proof -
  let ?s = "engine_after el spec b es"
  have "run_ok spec (en_browser ?s) r" using engine_after_ok r by (simp add: engine_ok_def)
  then have rq: "sent (en_browser ?s) ! or_request r = run_request (en_browser ?s) r"
    by (simp add: run_ok_def)
  have d: "distinct_fields (or_op r)"
    using o(1) dialogs_distinct actions_distinct by (auto simp: dialog_ops_def)
  from row_ops_identify [OF o(1)] obtain f where f: "f \<in> set (o_fields (or_op r))"
    "f_key f = cs_rowIdKey spec" "f_fromRow f" by blast
  have "map_of (buildBody (or_op r) (or_values r) (or_row r)) (cs_rowIdKey spec) = Some (JStr i)"
    using buildBody_value [OF d f(1), of "or_values r" "or_row r"] f i by (simp add: body_value_def Let_def)
  then show ?thesis
    using rq o(2) by (simp add: run_request_def op_options_def Let_def)
qed

end

text \<open>The contract as a check that computes.\<close>

definition console_check :: "console_spec \<Rightarrow> bool" where
  "console_check spec \<longleftrightarrow>
     (let dialogs = (case cs_createOp spec of Some o' \<Rightarrow> [o'] | None \<Rightarrow> [])
            @ (case cs_updateOp spec of Some o' \<Rightarrow> [o'] | None \<Rightarrow> []);
          row_ops = (case cs_updateOp spec of Some o' \<Rightarrow> [o'] | None \<Rightarrow> []) @ cs_rowActions spec
      in list_all (\<lambda>o'. o_destructive o' \<longrightarrow> o_confirm o') (cs_rowActions spec)
         \<and> list_all (\<lambda>o'. \<not> o_destructive o' \<and> o_method o' = POST) dialogs
         \<and> list_all (\<lambda>o'. distinct (map f_key (o_fields o'))) (dialogs @ cs_rowActions spec)
         \<and> list_all (\<lambda>o'. list_ex (\<lambda>f. f_key f = cs_rowIdKey spec \<and> f_fromRow f) (o_fields o')) row_ops)"

lemma console_contractI: "console_check spec \<Longrightarrow> console_contract spec"
  by unfold_locales
    (auto simp: console_check_def Let_def list_all_iff list_ex_iff dialog_ops_def distinct_fields_def
      split: option.splits)

subsection \<open>Pages\<close>

lemma page_slice_of_eq: "1 \<le> p \<Longrightarrow> page_slice_of p xs = take PAGE_SIZE (drop ((p - 1) * PAGE_SIZE) xs)"
  by (simp add: page_slice_of_def flip: diff_mult_distrib)

lemma pages_take:
  "concat (map (\<lambda>p. page_slice_of p xs) [1 ..< Suc n]) = take (n * PAGE_SIZE) xs"
proof (induction n)
  case (Suc n)
  have "take (Suc n * PAGE_SIZE) xs = take (n * PAGE_SIZE) xs @ take PAGE_SIZE (drop (n * PAGE_SIZE) xs)"
    by (metis add.commute mult_Suc take_add)
  with Suc show ?case by (simp add: page_slice_of_eq)
qed simp

lemma page_count_enough: "n \<le> page_count n * PAGE_SIZE"
proof -
  have "n \<le> (n + 9) div 10 * 10" by presburger
  then show ?thesis by (auto simp: page_count_def PAGE_SIZE_def max_def)
qed

lemma page_count_tight: "0 < n \<Longrightarrow> (page_count n - 1) * PAGE_SIZE < n"
proof -
  assume "0 < n"
  then have "((n + 9) div 10 - 1) * 10 < n" by presburger
  then show ?thesis using \<open>0 < n\<close> by (auto simp: page_count_def PAGE_SIZE_def max_def)
qed

text \<open>
  C39: the pages of a manager console cut the filtered rows into consecutive pieces of at most ten:
  put together in order they are exactly the filtered rows, none lost and none repeated; the page
  shown is always one of them, and it is only empty when nothing matches the filter.
\<close>

theorem pages_partition:
  "let s = engine_after el spec b es; n = pageCount spec s in
     concat (map (\<lambda>p. page_slice_of p (filtered spec s)) [1 ..< Suc n]) = filtered spec s
     \<and> 1 \<le> safePage spec s \<and> safePage spec s \<le> n \<and> length (pageRows spec s) \<le> 10
     \<and> (pageRows spec s = [] \<longleftrightarrow> filtered spec s = [])"
proof -
  define s where "s = engine_after el spec b es"
  define xs where "xs = filtered spec s"
  have n: "pageCount spec s = page_count (length xs)" by (simp add: pageCount_def xs_def)
  have "1 \<le> en_page s" using engine_after_ok [of spec el b es] by (simp add: engine_ok_def s_def)
  then have p: "1 \<le> safePage spec s" "safePage spec s \<le> pageCount spec s"
    using page_count_pos [of "length xs"] by (auto simp: safePage_def n)
  have rows: "pageRows spec s = take PAGE_SIZE (drop ((safePage spec s - 1) * PAGE_SIZE) xs)"
    using p by (simp add: pageRows_def page_slice_of_eq xs_def)
  have lt: "(safePage spec s - 1) * PAGE_SIZE < length xs" if "xs \<noteq> []"
  proof -
    have "(safePage spec s - 1) * PAGE_SIZE \<le> (page_count (length xs) - 1) * PAGE_SIZE"
      using p by (auto simp: n intro: mult_le_mono1 diff_le_mono)
    also have "\<dots> < length xs" using page_count_tight [of "length xs"] that by simp
    finally show ?thesis .
  qed
  have e: "pageRows spec s = [] \<longleftrightarrow> xs = []"
    using lt by (cases "xs = []") (auto simp: rows PAGE_SIZE_def)
  have l: "length (pageRows spec s) \<le> 10" by (simp add: rows PAGE_SIZE_def)
  have "concat (map (\<lambda>p. page_slice_of p xs) [1 ..< Suc (pageCount spec s)]) = xs"
    using page_count_enough [of "length xs"] by (simp only: pages_take n take_all)
  with p e l show ?thesis by (simp only: Let_def s_def xs_def conj_assoc)
qed

subsection \<open>Answers free the page\<close>

lemma engine_step_settled [simp]:
  "engine_step el spec (OpSettled i) s = op_settled i s"
  "engine_step el spec (LoadSettled i) s = load_settled i s"
  "engine_step el spec LoadTimer s = load_start el spec s"
  by (simp_all add: engine_step_def)

lemma op_settled_loads [simp]:
  "en_loads (op_settled i s) = en_loads s" "en_loading (op_settled i s) = en_loading s"
  by (simp_all add: op_settled_def Let_def run_continue_def executeOp_end_def
      split: sum.splits relay_error.splits run_kind.splits)

lemma already_settled [simp]:
  "or_settled r \<Longrightarrow> r\<lparr>or_settled := True\<rparr> = r" "lr_settled l \<Longrightarrow> l\<lparr>lr_settled := True\<rparr> = l"
  by (cases r, simp) (cases l, simp)

lemma op_settled_runs:
  "en_runs (op_settled i s) =
     (if i < length (en_runs s) then (en_runs s)[i := (en_runs s ! i)\<lparr>or_settled := True\<rparr>] else en_runs s)"
  by (cases "i < length (en_runs s)"; cases "or_settled (en_runs s ! i)")
    (simp_all add: op_settled_def Let_def run_continue_def executeOp_end_def
      split: sum.splits relay_error.splits run_kind.splits)

lemma load_settled_runs [simp]:
  "en_runs (load_settled i s) = en_runs s" "en_running (load_settled i s) = en_running s"
  by (simp_all add: load_settled_def Let_def split: sum.splits)

lemma load_settled_loads:
  "en_loads (load_settled i s) =
     (if i < length (en_loads s) then (en_loads s)[i := (en_loads s ! i)\<lparr>lr_settled := True\<rparr>] else en_loads s)"
  by (cases "i < length (en_loads s)"; cases "lr_settled (en_loads s ! i)")
    (simp_all add: load_settled_def Let_def split: sum.splits)

lemma load_settled_not_loading: "\<not> en_loading s \<Longrightarrow> \<not> en_loading (load_settled i s)"
  by (simp add: load_settled_def Let_def split: sum.splits)

lemma settle_ops:
  fixes el spec
  defines "t \<equiv> \<lambda>n s. fold (engine_step el spec) (map OpSettled [0 ..< n]) s"
  shows "length (en_runs (t n s)) = length (en_runs s)
    \<and> (\<forall>i < min n (length (en_runs s)). or_settled (en_runs (t n s) ! i))
    \<and> en_loads (t n s) = en_loads s \<and> en_loading (t n s) = en_loading s"
proof (induction n)
  case (Suc n)
  have "t (Suc n) s = op_settled n (t n s)" by (simp add: t_def)
  with Suc show ?case by (auto simp: op_settled_runs nth_list_update less_Suc_eq)
qed (simp add: t_def)

lemma settle_loads:
  fixes el spec
  defines "t \<equiv> \<lambda>n s. fold (engine_step el spec) (map LoadSettled [0 ..< n]) s"
  shows "length (en_loads (t n s)) = length (en_loads s)
    \<and> (\<forall>i < min n (length (en_loads s)). lr_settled (en_loads (t n s) ! i))
    \<and> en_runs (t n s) = en_runs s \<and> (\<not> en_loading s \<longrightarrow> \<not> en_loading (t n s))"
proof (induction n)
  case (Suc n)
  have "t (Suc n) s = load_settled n (t n s)" by (simp add: t_def)
  with Suc show ?case
    by (auto simp: load_settled_loads nth_list_update less_Suc_eq load_settled_not_loading)
qed (simp add: t_def)

lemma load_start_loads: "en_loads (load_start el spec s) \<noteq> [] \<or> \<not> en_loading (load_start el spec s)"
  by (simp add: load_start_def split: prod.splits)

text \<open>
  C40: a manager console never hangs by itself. From every state it can reach, the load timer and
  the answers to the calls it has made, whatever they are, bring it back to a state that is
  neither loading nor running, with all its buttons enabled.
\<close>

theorem engine_comes_to_rest:
  "\<exists>as. set as \<subseteq> insert LoadTimer (range OpSettled \<union> range LoadSettled)
     \<and> \<not> en_running (engine_after el spec b (es @ as)) \<and> \<not> en_loading (engine_after el spec b (es @ as))"
proof -
  define s1 where "s1 = load_start el spec (engine_after el spec b es)"
  define n where "n = length (en_runs s1)"
  define s2 where "s2 = fold (engine_step el spec) (map OpSettled [0 ..< n]) s1"
  define m where "m = length (en_loads s2)"
  define s3 where "s3 = fold (engine_step el spec) (map LoadSettled [0 ..< m]) s2"
  define as where "as = LoadTimer # map OpSettled [0 ..< n] @ map LoadSettled [0 ..< m]"
  have s3: "s3 = engine_after el spec b (es @ as)"
    by (simp add: s3_def s2_def s1_def as_def engine_after_def)
  have ops: "length (en_runs s2) = n" "\<forall>i < n. or_settled (en_runs s2 ! i)"
      "en_loads s2 = en_loads s1" "en_loading s2 = en_loading s1"
    using settle_ops [of el spec n s1] by (simp_all add: s2_def n_def)
  have loads: "length (en_loads s3) = m" "\<forall>i < m. lr_settled (en_loads s3 ! i)" "en_runs s3 = en_runs s2"
      "\<not> en_loading s2 \<longrightarrow> \<not> en_loading s3"
    using settle_loads [of el spec m s2] by (simp_all add: s3_def m_def)
  have ok: "engine_ok spec s3" unfolding s3 by (rule engine_after_ok)
  have "\<forall>r \<in> set (en_runs s3). or_settled r" using ops loads by (auto simp: in_set_conv_nth)
  with ok have r: "\<not> en_running s3" by (auto simp: engine_ok_def)
  have "\<forall>l \<in> set (en_loads s3). lr_settled l" using loads by (auto simp: in_set_conv_nth)
  with ok have "en_loading s3 \<Longrightarrow> en_loads s3 = []" by (auto simp: engine_ok_def)
  moreover have "en_loads s3 = [] \<Longrightarrow> \<not> en_loading s3"
    using load_start_loads [of el spec "engine_after el spec b es"] ops loads
    by (auto simp: m_def simp flip: s1_def)
  ultimately have "\<not> en_loading s3" by blast
  with r s3 have "\<not> en_running (engine_after el spec b (es @ as))" "\<not> en_loading (engine_after el spec b (es @ as))"
    by simp_all
  moreover have "set as \<subseteq> insert LoadTimer (range OpSettled \<union> range LoadSettled)" by (auto simp: as_def)
  ultimately show ?thesis by blast
qed

subsection \<open>An edit nobody touched\<close>

text \<open>A row value that the form of \<open>f\<close> can hold as it is.\<close>

definition editable_value :: "field_spec \<Rightarrow> json \<Rightarrow> bool" where
  "editable_value f v \<longleftrightarrow>
     (if f_fromRow f then (\<exists>t. v = JStr t)
      else case f_kind f of
             KSwitch \<Rightarrow> (\<exists>t. v = JBool t)
           | KNumber \<Rightarrow> (\<exists>n. v = JNum (of_nat n) \<and> (of_nat n :: rat) < double_limit)
           | KText \<Rightarrow> (\<exists>t. v = JStr t \<and> t \<noteq> [] \<and> trim t = t)
           | KPassword \<Rightarrow> (\<exists>t. v = JStr t \<and> t \<noteq> [] \<and> trim t = t)
           | _ \<Rightarrow> (\<exists>t. v = JStr t \<and> t \<noteq> []))"

lemma untouched_field:
  assumes f: "f \<in> set (o_fields o')" and o: "distinct_fields o'"
    and v: "map_of r (f_key f) = Some v" "editable_value f v"
    and seeds: "\<forall>kv \<in> set seeds. fst kv \<notin> f_key ` set (o_fields o')"
  shows "map_of (buildBody o' (dg_values (open_dialog o' Update (Some r) seeds)) (Some r)) (f_key f) = Some v"
proof -
  have "filter (\<lambda>kv. list_ex (\<lambda>f. f_key f = fst kv) (o_fields o')) seeds = []"
    using seeds unfolding filter_empty_conv list_ex_iff by (metis image_eqI)
  then have d: "dg_values (open_dialog o' Update (Some r) seeds) = initialValuesFor o' Update (Some r)"
    by (simp add: open_dialog_def)
  have b: "map_of (buildBody o' (dg_values (open_dialog o' Update (Some r) seeds)) (Some r)) (f_key f)
      = body_value f (initialValuesFor o' Update (Some r)) (Some r)"
    unfolding d by (rule buildBody_value [OF o f])
  show ?thesis
  proof (cases "f_fromRow f")
    case True
    with v show ?thesis unfolding b by (auto simp: editable_value_def body_value_def Let_def)
  next
    case False
    have i: "form_value (initialValuesFor o' Update (Some r)) (f_key f) = initial_value Update (Some r) f"
      by (rule initialValuesFor_value [OF o f False])
    show ?thesis
      using v False unfolding b body_value_def i Let_def
      by (cases "f_kind f") (auto simp: editable_value_def initial_value_def Let_def js_Number_show_nat num_json_def)
  qed
qed

end
