(* ===== verification/Console_Routes.thy ===== *)
theory Console_Routes
  imports Auth_Session
begin

text \<open>
  Routing of the admin and customer consoles: the guards and route trees of
  \<open>console-admin/src/routes.tsx\<close> and \<open>console-user/src/routes.tsx\<close>, the redirects of the old
  provider URLs, the sidebar of \<open>components/shared/ConsoleLayout.tsx\<close> and the four navigation
  tables (\<open>features/*/nav.tsx\<close>).

  A route tree is data: the public routes and, per console, a guarded parent with its child
  routes. Of the router only what the property needs is used: a location whose path is the full
  path of a route without parameters shows that route.
\<close>

subsection \<open>Guards\<close>

text \<open>What a location shows: the spinner, a page component, a client-side redirect, a hard
  redirect to the auth console, the provider lookup, or the 404 page.\<close>

datatype shown = Spinner | Page string | NavigateTo string | Leave string | ProviderLookup | NotFound

definition has_session :: "auth_state \<Rightarrow> bool" where
  "has_session a \<longleftrightarrow> (\<exists>t. au_token a = Some t \<and> t \<noteq> []) \<and> au_role a \<noteq> None"

definition RequireRole ::
  "(app_role option \<Rightarrow> string) \<Rightarrow> app_role option \<Rightarrow> auth_state \<Rightarrow> shown \<Rightarrow> shown" where
  "RequireRole home allow a children =
     (if au_loading a then Spinner
      else if \<not> has_session a then NavigateTo ''/login''
      else if allow \<noteq> None \<and> au_role a \<noteq> allow then NavigateTo (home (au_role a))
      else children)"

definition RootRedirect :: "(app_role option \<Rightarrow> string) \<Rightarrow> auth_state \<Rightarrow> shown" where
  "RootRedirect home a =
     (if au_loading a then Spinner
      else if has_session a then NavigateTo (home (au_role a))
      else NavigateTo ''/login'')"

definition AUTH_BASE :: "env \<Rightarrow> string" where
  "AUTH_BASE e = or_default (env_AUTH_CONSOLE_URL e) ''https://auth.kilat-cloud.com''"

definition AuthRedirect :: "browser \<Rightarrow> string \<Rightarrow> shown" where
  "AuthRedirect b path = Leave (AUTH_BASE (config b) @ path @ search b)"

subsection \<open>Old provider URLs\<close>

definition is_root_suffix :: "string \<Rightarrow> bool" where
  "is_root_suffix s \<longleftrightarrow> s = [] \<or> s = ''/''"

text \<open>One rule of the table: which suffixes it takes and the path it builds.\<close>

datatype legacy_rule = ExactRoot | KeepUnder string | KeepHa | ToInventory | ToOnidel

definition LEGACY_SUFFIX_TO_NEW :: "legacy_rule list" where
  "LEGACY_SUFFIX_TO_NEW =
     [ExactRoot, KeepUnder ''/nodes'', KeepUnder ''/storages'', KeepUnder ''/backup-jobs'', KeepHa,
      KeepUnder ''/firewall'', KeepUnder ''/sdn'', KeepUnder ''/ceph'', KeepUnder ''/containers'',
      KeepUnder ''/pools'', KeepUnder ''/access'', ToInventory, ToOnidel, KeepUnder ''/perf'']"

fun rule_match :: "legacy_rule \<Rightarrow> string \<Rightarrow> bool" where
  "rule_match ExactRoot s = is_root_suffix s"
| "rule_match (KeepUnder p) s = startsWith s p"
| "rule_match KeepHa s = (s = ''/ha'' \<or> startsWith s ''/ha/'')"
| "rule_match ToInventory s = startsWith s ''/inventory''"
| "rule_match ToOnidel s = startsWith s ''/onidel''"

fun rule_build :: "legacy_rule \<Rightarrow> string \<Rightarrow> string \<Rightarrow> string" where
  "rule_build ExactRoot i s = ''/admin/proxmox/'' @ i"
| "rule_build (KeepUnder p) i s = ''/admin/proxmox/'' @ i @ s"
| "rule_build KeepHa i s = ''/admin/proxmox/'' @ i @ s"
| "rule_build ToInventory i s = ''/admin/vmware/'' @ i @ ''/inventory''"
| "rule_build ToOnidel i s = ''/admin/onidel/'' @ i @ ''/onidel''"

definition legacyTarget :: "string \<Rightarrow> string \<Rightarrow> string option \<Rightarrow> string" where
  "legacyTarget i suffix kind =
     (if kind = Some ''onidel''
      then (if is_root_suffix suffix then ''/admin/onidel/'' @ i @ ''/onidel'' else ''/admin/onidel/'' @ i @ suffix)
      else if kind = Some ''vmware''
      then (if is_root_suffix suffix then ''/admin/vmware/'' @ i @ ''/inventory'' else ''/admin/vmware/'' @ i @ suffix)
      else if kind = Some ''dokploy''
      then (if is_root_suffix suffix then ''/admin/dokploy'' else ''/admin/dokploy'' @ suffix)
      else if kind = Some ''proxmox''
      then (if is_root_suffix suffix then ''/admin/proxmox/'' @ i else ''/admin/proxmox/'' @ i @ suffix)
      else (case find (\<lambda>r. rule_match r suffix) LEGACY_SUFFIX_TO_NEW of
              Some r \<Rightarrow> rule_build r i suffix
            | None \<Rightarrow> ''/admin/proxmox/'' @ i))"

text \<open>\<open>LegacyProviderRedirect\<close>: the lookup of the provider's kind, then the redirect.\<close>

definition legacy_suffix :: "string \<Rightarrow> string \<Rightarrow> string" where
  "legacy_suffix i path =
     (let prefix = ''/admin/providers/'' @ i;
          s = (if startsWith path prefix then drop (length prefix) path else [])
      in if s = [] then ''/'' else s)"

definition provider_kind :: "string \<Rightarrow> envelope \<Rightarrow> string option" where
  "provider_kind i env =
     (case env_data env of
        JArr rows \<Rightarrow>
          (case find (\<lambda>r. prop_of r ''id'' = Some (JStr i)) rows of
             Some r \<Rightarrow> (case prop_of r ''kind'' of
                          Some (JStr k) \<Rightarrow> if k \<noteq> [] then Some k else None
                        | _ \<Rightarrow> None)
           | None \<Rightarrow> None)
      | _ \<Rightarrow> None)"

definition LegacyProviderRedirect :: "string \<Rightarrow> browser \<Rightarrow> shown \<times> browser" where
  "LegacyProviderRedirect i b =
     (case apiGet ''/admin/providers'' no_options b of
        (Inr env, b') \<Rightarrow>
          (NavigateTo (legacyTarget i (legacy_suffix i (pathname b)) (provider_kind i env) @ search b), b')
      | (Inl e, b') \<Rightarrow>
          (NavigateTo (legacyTarget i (legacy_suffix i (pathname b)) None @ search b), b'))"

subsection \<open>Route trees\<close>

datatype element = Root | Component string | AuthPage string | Redirect string | LegacyProvider | Missing

definition public_routes :: "(string \<times> element) list" where
  "public_routes =
    [(''/'', Root),
     (''/login'', AuthPage ''/login''),
     (''/signup'', AuthPage ''/signup''),
     (''/forgot-password'', AuthPage ''/forgot-password''),
     (''/reset-password'', AuthPage ''/reset-password''),
     (''/verify-email'', AuthPage ''/verify-email''),
     (''/oauth/callback'', Component ''OAuthCallbackPage''),
     (''/terms'', AuthPage ''/terms''),
     (''/privacy'', AuthPage ''/privacy'')]"

definition identity_routes :: "(string \<times> element) list" where
  "identity_routes =
    [([], Component ''AdminDashboard''),
     (''users'', Component ''AdminUsers''),
     (''users/:userId'', Component ''UserDetail''),
     (''organizations'', Component ''Organizations''),
     (''organizations/:orgId'', Component ''OrganizationDetail''),
     (''orphans'', Component ''Orphans''),
     (''tickets'', Component ''AdminTickets''),
     (''tickets/:ticketId'', Component ''TicketThread''),
     (''audit-logs'', Component ''AuditLogs''),
     (''landing'', Component ''LandingContent''),
     (''docs'', Component ''DocsPage''),
     (''blog'', Component ''BlogPage''),
     (''security'', Component ''Security''),
     (''security/incidents'', Component ''SecurityIncidents''),
     (''security/blocked-networks'', Component ''BlockedNetworks''),
     (''security/feature-flags'', Component ''FeatureFlags''),
     (''security/app-settings'', Component ''AppSettings''),
     (''instances'', Component ''AdminInstances''),
     (''instances/:instanceId'', Component ''AdminInstanceDetail''),
     (''jobs'', Component ''AdminJobs''),
     (''jobs/:jobId'', Component ''AdminJobDetail''),
     (''providers'', Component ''Providers''),
     (''providers/:providerId/*'', LegacyProvider)]"

definition proxmox_routes :: "(string \<times> element) list" where
  "proxmox_routes =
    [(''proxmox/:providerId'', Component ''ProviderDetail''),
     (''proxmox/:providerId/nodes'', Component ''ProviderNodes''),
     (''proxmox/:providerId/nodes/:node'', Component ''ProviderNodeDetail''),
     (''proxmox/:providerId/nodes/:node/report'', Component ''ProxmoxNodeReportPage''),
     (''proxmox/:providerId/nodes/:node/time'', Component ''ProxmoxNodeTimePage''),
     (''proxmox/:providerId/nodes/:node/certs'', Component ''ProxmoxCertsUploadPage''),
     (''proxmox/:providerId/nodes/:node/prune'', Component ''ProxmoxPrunePage''),
     (''proxmox/:providerId/nodes/:node/qemu'', Component ''ProxmoxQemuPerNodePage''),
     (''proxmox/:providerId/nodes/:node/disks'', Component ''ProxmoxDisksPage''),
     (''proxmox/:providerId/storages'', Component ''ProviderStorages''),
     (''proxmox/:providerId/backup-jobs'', Component ''ProviderBackupJobs''),
     (''proxmox/:providerId/ha'', Component ''ProviderHa''),
     (''proxmox/:providerId/firewall'', Component ''ProviderFirewall''),
     (''proxmox/:providerId/sdn'', Component ''ProviderSdn''),
     (''proxmox/:providerId/ceph'', Component ''ProviderCeph''),
     (''proxmox/:providerId/containers'', Component ''ProviderContainers''),
     (''proxmox/:providerId/containers/new'', Component ''CreateLxcPage''),
     (''proxmox/:providerId/vms/new'', Component ''CreateVmPage''),
     (''proxmox/:providerId/pools'', Component ''ProviderPools''),
     (''proxmox/:providerId/pools/:pool'', Component ''ProxmoxPoolsPage''),
     (''proxmox/:providerId/perf'', Component ''GuestPerf''),
     (''proxmox/:providerId/nodes/:node/rrd'', Component ''ProxmoxRrdPage''),
     (''proxmox/:providerId/nodes/:node/qemu/:vmid/rrd'', Component ''ProxmoxRrdPerVmPage''),
     (''proxmox/:providerId/clone'', Component ''ProxmoxClonePage''),
     (''proxmox/:providerId/nodes/:node/qemu/:vmid/cloud-init'', Component ''ProxmoxCloudInitPage''),
     (''proxmox/:providerId/diagnostics'', Component ''ProxmoxDiagnosticsPage''),
     (''proxmox/:providerId/access'', Component ''ProxmoxAccessPage''),
     (''proxmox/:providerId/templates'', Component ''ProxmoxTemplatesPage''),
     (''proxmox/:providerId/snapshots'', Component ''ProxmoxSnapshotsPage''),
     (''proxmox/:providerId/nodes/:node/qemu/:vmid/snapshot'', Component ''ProxmoxQemuSnapshotPage''),
     (''proxmox/:providerId/nodes/:node/lxc/:vmid/migrate'', Component ''LxcMigratePage''),
     (''proxmox/:providerId/nodes/:node/serial-proxy'', Component ''ProxmoxSerialProxyPage''),
     (''proxmox/:providerId/nodes/:node/qemu/:vmid/config'', Component ''ProxmoxQemuConfigPage''),
     (''proxmox/:providerId/nodes/:node/qemu/:vmid/tags'', Component ''ProxmoxQemuTagsPage''),
     (''proxmox/:providerId/nodes/:node/qemu/:vmid/notes'', Component ''ProxmoxQemuNotesPage''),
     (''proxmox/:providerId/nodes/:node/qemu/:vmid/reset'', Component ''ProxmoxQemuResetPage''),
     (''proxmox/:providerId/nodes/:node/qemu/:vmid/resume'', Component ''ProxmoxQemuResumePage''),
     (''proxmox/:providerId/nodes/:node/qemu/:vmid/pause'', Component ''ProxmoxQemuPausePage''),
     (''proxmox/:providerId/nodes/:node/qemu/:vmid/hibernate'', Component ''ProxmoxQemuHibernatePage''),
     (''proxmox/:providerId/nodes/:node/qemu/:vmid/migrate'', Component ''ProxmoxQemuMigratePage''),
     (''proxmox/:providerId/nodes/:node/qemu/:vmid/firewall'', Component ''ProxmoxQemuFirewallPage''),
     (''proxmox/:providerId/nodes/:node/qemu/:vmid/agent'', Component ''ProxmoxQemuAgentPage''),
     (''proxmox/:providerId/nodes/:node/qemu/:vmid/agent/*'', Component ''ProxmoxQemuAgentPage''),
     (''proxmox/:providerId/replication'', Component ''ProxmoxReplicationPage''),
     (''proxmox/:providerId/ha-resources/:sid/migrate'', Component ''ProxmoxHaMigratePage''),
     (''proxmox/:providerId/ha/manager-status'', Component ''ProxmoxHaManagerStatusPage''),
     (''proxmox/:providerId/fw-aliases'', Component ''ProxmoxFwAliasesPage''),
     (''proxmox/:providerId/access/acl'', Component ''ProxmoxAclPage''),
     (''proxmox/:providerId/ceph/pools/:pool'', Component ''ProxmoxCephPoolDetailPage'')]"

definition onidel_routes :: "(string \<times> element) list" where
  "onidel_routes =
    [(''onidel/:providerId/onidel'', Component ''OnidelCatalog''),
     (''onidel/:providerId/jobs'', Component ''OnidelJobs''),
     (''onidel/:providerId/wallets'', Component ''OnidelWallet''),
     (''onidel/:providerId/create'', Component ''CreateOnidelVmPage''),
     (''onidel/:providerId/create-choices'', Component ''OnidelCreateChoices''),
     (''onidel/:providerId/health/detail'', Component ''OnidelHealthDetail''),
     (''onidel/:providerId/instances'', Component ''OnidelInstances''),
     (''onidel/:providerId/instances/:instanceId'', Component ''OnidelInstanceDetail''),
     (''onidel/:providerId/orders'', Component ''OnidelOrders''),
     (''onidel/:providerId/invoices'', Component ''OnidelInvoices''),
     (''onidel/:providerId/regions/sync'', Component ''OnidelBillingSync'')]"

definition vmware_routes :: "(string \<times> element) list" where
  "vmware_routes =
    [(''vmware/:providerId/inventory'', Component ''VmwareInventory''),
     (''vmware/:providerId/datastores'', Component ''VmwareDatastoresPage''),
     (''vmware/:providerId/datastores/:ds/browse'', Component ''VmwareDatastoreBrowsePage''),
     (''vmware/:providerId/datastores/:ds'', Component ''VmwareDatastoreDetailPage''),
     (''vmware/:providerId/hosts'', Component ''VmwareHostsPage''),
     (''vmware/:providerId/hosts/:host'', Component ''VmwareHostDetailPage''),
     (''vmware/:providerId/clusters/:cluster'', Component ''VmwareClusterDetailPage''),
     (''vmware/:providerId/pools/:pool'', Component ''VmwarePoolDetailPage''),
     (''vmware/:providerId/perf'', Component ''VmwarePerfPage''),
     (''vmware/:providerId/perf/:vmid'', Component ''VmwarePerfDetailPage''),
     (''vmware/:providerId/snapshots'', Component ''VmwareSnapshotPage''),
     (''vmware/:providerId/snapshots/revert'', Component ''VmwareSnapshotRevertPage''),
     (''vmware/:providerId/snapshots/:snap/revert'', Component ''VmwareSnapshotRevertPage''),
     (''vmware/:providerId/migrate'', Component ''VmwareMigratePage''),
     (''vmware/:providerId/networks'', Component ''VmwareNetworksPage''),
     (''vmware/:providerId/create'', Component ''CreateVmwarePage'')]"

definition backend_routes :: "(string \<times> element) list" where
  "backend_routes =
    [(''regions-pools'', Component ''RegionsPools''),
     (''storage-backends'', Component ''StorageBackends''),
     (''storage-backends/:code'', Component ''StorageBackendDetail'')]"

definition dokploy_routes :: "(string \<times> element) list" where
  "dokploy_routes =
    [(''dokploy'', Component ''DokployHub''),
     (''dokploy/status'', Component ''DokployStatusPage''),
     (''dokploy/logs'', Component ''DokployLogsPage''),
     (''dokploy/logs-realtime'', Component ''DokployLogsRealtimePage''),
     (''dokploy/projects/:id'', Component ''DokployProjectDetailPage''),
     (''dokploy/:providerId/status'', Component ''DokployStatusPage''),
     (''dokploy/:entity'', Component ''DokployEntity''),
     (''dokploy/app'', Component ''DokployHome''),
     (''dokploy/app/home'', Component ''DokployHome''),
     (''dokploy/app/projects'', Component ''DokployProjects''),
     (''dokploy/app/p/:projectId/e/:environmentId'', Component ''DokployEnvironmentBoard''),
     (''dokploy/app/overview'', Component ''DokployOverview''),
     (''dokploy/app/deployments'', Redirect ''/admin/dokploy/app/overview?tab=deployments''),
     (''dokploy/app/docker'', Component ''DokployDockerPage''),
     (''dokploy/app/networks'', Redirect ''/admin/dokploy/app/docker?tab=networks''),
     (''dokploy/app/swarm'', Redirect ''/admin/dokploy/app/docker?tab=swarm''),
     (''dokploy/app/monitoring'', Component ''DokployMonitoring''),
     (''dokploy/app/requests'', Component ''DokployRequests''),
     (''dokploy/app/schedules'', Component ''DokploySchedules''),
     (''dokploy/app/traefik'', Component ''DokployTraefik''),
     (''dokploy/app/p/:projectId/e/:environmentId/services/application/:applicationId'', Component ''DokployApplicationService''),
     (''dokploy/app/p/:projectId/e/:environmentId/services/compose/:composeId'', Component ''DokployComposeService''),
     (''dokploy/app/p/:projectId/e/:environmentId/services/postgres/:serviceId'', Component ''DokployPostgresService''),
     (''dokploy/app/p/:projectId/e/:environmentId/services/mysql/:serviceId'', Component ''DokployMysqlService''),
     (''dokploy/app/p/:projectId/e/:environmentId/services/mariadb/:serviceId'', Component ''DokployMariadbService''),
     (''dokploy/app/p/:projectId/e/:environmentId/services/mongo/:serviceId'', Component ''DokployMongoService''),
     (''dokploy/app/p/:projectId/e/:environmentId/services/redis/:serviceId'', Component ''DokployRedisService''),
     (''dokploy/app/p/:projectId/e/:environmentId/services/libsql/:serviceId'', Component ''DokployLibsqlService'')]"

definition dokploy_settings_routes :: "(string \<times> element) list" where
  "dokploy_settings_routes =
    [(''dokploy/app/settings/profile'', Component ''DokploySettingsProfile''),
     (''dokploy/app/settings/users'', Component ''DokploySettingsUsers''),
     (''dokploy/app/settings/sessions'', Component ''DokploySettingsSessions''),
     (''dokploy/app/settings/ssh-keys'', Component ''DokploySettingsSshKeys''),
     (''dokploy/app/settings/git-providers'', Component ''DokploySettingsGitProviders''),
     (''dokploy/app/settings/registry'', Component ''DokploySettingsRegistry''),
     (''dokploy/app/settings/notifications'', Component ''DokploySettingsNotifications''),
     (''dokploy/app/settings/destinations'', Component ''DokploySettingsDestinations''),
     (''dokploy/app/settings/certificates'', Component ''DokploySettingsCertificates''),
     (''dokploy/app/settings/tags'', Component ''DokploySettingsTags''),
     (''dokploy/app/settings/server'', Component ''DokploySettingsServerLocal''),
     (''dokploy/app/settings/servers'', Component ''DokploySettingsServers''),
     (''dokploy/app/settings/deployments'', Component ''DokploySettingsDeploymentsCfg''),
     (''dokploy/app/settings/secrets'', Component ''DokploySettingsSecrets''),
     (''dokploy/app/settings/dns'', Component ''DokploySettingsDns''),
     (''dokploy/app/settings/audit-logs'', Component ''DokploySettingsAuditLogs''),
     (''dokploy/app/settings/ai'', Component ''DokploySettingsAi''),
     (''dokploy/app/cloud/billing'', Component ''DokployCloudOnly''),
     (''dokploy/app/cloud/invoices'', Component ''DokployCloudOnly''),
     (''dokploy/app/cloud/license'', Component ''DokployCloudOnly''),
     (''dokploy/app/cloud/sso'', Component ''DokployCloudOnly''),
     (''dokploy/app/cloud/whitelabeling'', Component ''DokployCloudOnly'')]"

definition billing_routes :: "(string \<times> element) list" where
  "billing_routes =
    [(''billing/summary'', Component ''BillingFinanceSummary''),
     (''billing/reports'', Component ''BillingReports''),
     (''billing/orders'', Component ''BillingOrders''),
     (''billing/orders/:orderId'', Component ''BillingOrderDetail''),
     (''billing/invoices'', Component ''BillingInvoices''),
     (''billing/invoices/:invoiceId'', Component ''BillingInvoiceDetail''),
     (''billing/payments'', Component ''BillingPayments''),
     (''billing/wallets'', Component ''BillingWallets''),
     (''billing/wallets/:orgId'', Component ''BillingOrgWallet''),
     (''billing/coupons'', Component ''BillingCoupons''),
     (''billing/coupons/:couponId'', Component ''BillingCouponDetail''),
     (''billing/products-plans'', Component ''BillingProductsPlans''),
     (''billing/products/:productId'', Component ''BillingProductDetail''),
     (''billing/plans/:planId'', Component ''PlanPricesPage''),
     (''billing/custom-rates'', Component ''BillingCustomRates''),
     (''billing/affiliate-config'', Component ''AffiliateConfig''),
     (''affiliate/settings'', Component ''AffiliateSettings''),
     (''affiliate/earnings'', Component ''AffiliateEarnings'')]"

definition staff_account_routes :: "(string \<times> element) list" where
  "staff_account_routes =
    [(''account/profile'', Component ''StaffProfile''),
     (''account/security'', Component ''StaffSecurity''),
     (''account/api-keys'', Component ''StaffApiKeys''),
     (''account/notifications'', Component ''StaffNotifications'')]"

definition manager_routes :: "(string \<times> element) list" where
  "manager_routes =
    [(''dokploy/manager/project'', Component ''DokployProjectConsole''),
     (''dokploy/manager/application'', Component ''DokployApplicationConsole''),
     (''dokploy/manager/database'', Component ''DokployDatabaseConsole''),
     (''dokploy/manager/domain'', Component ''DokployDomainConsole''),
     (''dokploy/manager/deployment'', Component ''DokployDeploymentConsole''),
     (''dokploy/manager/certificate'', Component ''DokployCertificateConsole''),
     (''dokploy/manager/registry'', Component ''DokployRegistryConsole''),
     (''dokploy/manager/server'', Component ''DokployServerConsole''),
     (''dokploy/manager/sshkey'', Component ''DokploySshKeyConsole''),
     (''jobs/queue/:queue'', Component ''JobsQueueBoard''),
     (''instances/state/:state'', Component ''InstancesStateBoard'')]"

definition noc_routes :: "(string \<times> element) list" where
  "noc_routes =
    [([], Component ''NocDashboard''),
     (''instances'', Component ''NocInstances''),
     (''instances/:instanceId'', Component ''NocInstanceDetail''),
     (''jobs'', Component ''NocJobs''),
     (''jobs/:jobId'', Component ''NocJobDetail''),
     (''account/profile'', Component ''StaffProfile''),
     (''account/security'', Component ''StaffSecurity''),
     (''account/api-keys'', Component ''StaffApiKeys''),
     (''account/notifications'', Component ''StaffNotifications''),
     (''providers'', Component ''NocProviders''),
     (''providers/:providerId'', Component ''NocProviderDetail''),
     (''providers/:providerId/cluster'', Component ''NocProviderCluster''),
     (''providers/:providerId/nodes'', Component ''NocProviderNodes''),
     (''providers/:providerId/nodes/:node'', Component ''NocProviderNodeDetail''),
     (''providers/:providerId/storages'', Component ''NocProviderStorages''),
     (''providers/:providerId/backup-jobs'', Component ''NocProviderBackupJobs''),
     (''providers/:providerId/firewall'', Component ''NocProviderFirewall''),
     (''providers/:providerId/services'', Component ''NocProviderServices''),
     (''tickets'', Component ''NocTickets''),
     (''tickets/:ticketId'', Component ''NocTicketThread''),
     (''security'', Component ''NocSecurity''),
     (''landing'', Component ''LandingContent''),
     (''docs'', Component ''DocsPage''),
     (''blog'', Component ''BlogPage'')]"

definition finance_routes :: "(string \<times> element) list" where
  "finance_routes =
    [([], Component ''FinanceSummary''),
     (''reports'', Component ''FinanceReports''),
     (''account/profile'', Component ''StaffProfile''),
     (''account/security'', Component ''StaffSecurity''),
     (''account/api-keys'', Component ''StaffApiKeys''),
     (''account/notifications'', Component ''StaffNotifications''),
     (''orders'', Component ''FinanceOrders''),
     (''orders/:orderId'', Component ''FinanceOrderDetail''),
     (''invoices'', Component ''FinanceInvoices''),
     (''invoices/:invoiceId'', Component ''FinanceInvoiceDetail''),
     (''payments'', Component ''FinancePayments''),
     (''wallets'', Component ''FinanceWallets''),
     (''wallets/:orgId'', Component ''FinanceOrgWallet''),
     (''coupons'', Component ''FinanceCoupons''),
     (''coupons/:couponId'', Component ''FinanceCouponDetail''),
     (''catalog'', Component ''FinanceCatalog''),
     (''rates'', Component ''FinanceRates''),
     (''rates/history'', Component ''FinanceCustomRatesHistory''),
     (''regions'', Component ''FinanceRegions''),
     (''affiliate'', Component ''FinanceAffiliate''),
     (''affiliate/settings'', Component ''FinanceAffiliateSettings''),
     (''affiliate/earnings'', Component ''FinanceAffiliateEarnings'')]"

definition customer_public_routes :: "(string \<times> element) list" where
  "customer_public_routes =
    [(''/'', Root),
     (''/login'', AuthPage ''/login''),
     (''/signup'', AuthPage ''/signup''),
     (''/forgot-password'', AuthPage ''/forgot-password''),
     (''/reset-password'', AuthPage ''/reset-password''),
     (''/verify-email'', AuthPage ''/verify-email''),
     (''/oauth/callback'', Component ''OAuthCallbackPage''),
     (''/terms'', AuthPage ''/terms''),
     (''/privacy'', AuthPage ''/privacy'')]"

definition customer_routes :: "(string \<times> element) list" where
  "customer_routes =
    [([], Component ''CustomerOverview''),
     (''instances'', Component ''CustomerInstances''),
     (''instances/new'', Component ''CreateInstance''),
     (''instances/:instanceId'', Component ''InstanceOverview''),
     (''instances/:instanceId/metrics'', Component ''InstanceMetrics''),
     (''instances/:instanceId/console'', Component ''InstanceConsole''),
     (''instances/:instanceId/firewall'', Component ''InstanceFirewall''),
     (''instances/:instanceId/agent'', Component ''InstanceAgent''),
     (''instances/:instanceId/network'', Component ''InstanceNetworkPage''),
     (''instances/:instanceId/notes-tags'', Component ''InstanceNotesTags''),
     (''instances/:instanceId/snapshots'', Component ''InstanceSnapshots''),
     (''instances/:instanceId/resize'', Component ''InstanceResize''),
     (''iso'', Component ''CustomerIso''),
     (''iso/:isoId'', Component ''IsoDetail''),
     (''backups'', Component ''CustomerBackups''),
     (''network'', Component ''CustomerNetwork''),
     (''storage'', Component ''ObjectStorage''),
     (''catalog'', Component ''CatalogPage''),
     (''wallet'', Component ''CustomerWallet''),
     (''wallet/topup'', Component ''Topup''),
     (''wallet/transactions'', Component ''WalletTransactionsPage''),
     (''measured-boot'', Component ''MeasuredBootPage''),
     (''network/firewall/:firewallId'', Component ''FirewallGroupDetail''),
     (''ip-lists/:listId'', Component ''IpListDetail''),
     (''orders'', Component ''CustomerOrders''),
     (''orders/:orderId'', Component ''CustomerOrderDetail''),
     (''invoices'', Component ''CustomerInvoices''),
     (''invoices/:invoiceId'', Component ''CustomerInvoiceDetail''),
     (''subscriptions'', Component ''Subscriptions''),
     (''affiliate'', Component ''CustomerAffiliate''),
     (''tickets'', Component ''CustomerTickets''),
     (''tickets/:ticketId'', Component ''CustomerTicketThread''),
     (''organizations'', Component ''CustomerOrganizations''),
     (''account/notifications'', Component ''NotificationsCenter''),
     (''profile'', Component ''AccountProfileHub''),
     (''account/profile'', Component ''AccountProfile''),
     (''account/security'', Component ''AccountSecurity''),
     (''account/addresses'', Component ''AccountAddresses''),
     (''account/api-keys'', Component ''ApiKeysPage''),
     (''account/ssh-keys'', Component ''SshKeysPage''),
     (''startup-scripts'', Component ''StartupScripts''),
     (''account/webhooks'', Component ''Webhooks''),
     (''account/audit-logs'', Component ''MyAuditLogs'')]"

record guarded_section =
  gs_path :: string
  gs_allow :: app_role
  gs_routes :: "(string \<times> element) list"

record route_tree =
  tr_public :: "(string \<times> element) list"
  tr_sections :: "guarded_section list"

definition admin_routes :: "(string \<times> element) list" where
  "admin_routes = identity_routes @ proxmox_routes @ onidel_routes @ vmware_routes @ backend_routes
     @ dokploy_routes @ dokploy_settings_routes @ billing_routes @ staff_account_routes @ manager_routes"

definition admin_tree :: route_tree where
  "admin_tree = \<lparr>tr_public = public_routes, tr_sections =
     [\<lparr>gs_path = ''/admin'', gs_allow = Admin, gs_routes = admin_routes\<rparr>,
      \<lparr>gs_path = ''/noc'', gs_allow = Noc, gs_routes = noc_routes\<rparr>,
      \<lparr>gs_path = ''/finance'', gs_allow = Finance, gs_routes = finance_routes\<rparr>]\<rparr>"

definition customer_tree :: route_tree where
  "customer_tree = \<lparr>tr_public = customer_public_routes, tr_sections =
     [\<lparr>gs_path = ''/app'', gs_allow = Customer, gs_routes = customer_routes\<rparr>]\<rparr>"

text \<open>The full path of a child route; the index route has the path of its parent.\<close>

definition full_route_path :: "string \<Rightarrow> string \<Rightarrow> string" where
  "full_route_path parent p = (if p = [] then parent else parent @ ''/'' @ p)"

definition route_table :: "route_tree \<Rightarrow> (string \<times> app_role option \<times> element) list" where
  "route_table t =
     map (\<lambda>(p, e). (p, None, e)) (tr_public t)
     @ concat (map (\<lambda>sn. map (\<lambda>(p, e). (full_route_path (gs_path sn) p, Some (gs_allow sn), e)) (gs_routes sn))
         (tr_sections t))"

definition show_element :: "(app_role option \<Rightarrow> string) \<Rightarrow> browser \<Rightarrow> auth_state \<Rightarrow> element \<Rightarrow> shown" where
  "show_element home b a e =
     (case e of
        Root \<Rightarrow> RootRedirect home a
      | Component c \<Rightarrow> Page c
      | AuthPage p \<Rightarrow> AuthRedirect b p
      | Redirect u \<Rightarrow> NavigateTo u
      | LegacyProvider \<Rightarrow> ProviderLookup
      | Missing \<Rightarrow> NotFound)"

definition show_route ::
  "(app_role option \<Rightarrow> string) \<Rightarrow> browser \<Rightarrow> auth_state \<Rightarrow> app_role option \<times> element \<Rightarrow> shown" where
  "show_route home b a r =
     (case r of
        (None, e) \<Rightarrow> show_element home b a e
      | (Some allow, e) \<Rightarrow> RequireRole home (Some allow) a (show_element home b a e))"

subsection \<open>Sidebar\<close>

record nav_item =
  ni_title :: string
  ni_url :: string

record nav_section =
  ns_title :: string
  ns_items :: "nav_item list"

definition item :: "string \<Rightarrow> string \<Rightarrow> nav_item" where
  "item t u = \<lparr>ni_title = t, ni_url = u\<rparr>"

definition adminNav :: "nav_section list" where
  "adminNav =
    [\<lparr>ns_title = ''Platform'', ns_items =
       [item ''Dashboard'' ''/admin'',
        item ''Users'' ''/admin/users'',
        item ''Organizations'' ''/admin/organizations'',
        item ''Orphan resources'' ''/admin/orphans'',
        item ''Tickets'' ''/admin/tickets'',
        item ''Audit logs'' ''/admin/audit-logs'',
        item ''Landing content'' ''/admin/landing'',
        item ''Documentation'' ''/admin/docs'',
        item ''Blog'' ''/admin/blog'']\<rparr>,
     \<lparr>ns_title = ''Security'', ns_items =
       [item ''Security hub'' ''/admin/security'',
        item ''Incidents'' ''/admin/security/incidents'',
        item ''Blocked networks'' ''/admin/security/blocked-networks'',
        item ''Feature flags'' ''/admin/security/feature-flags'',
        item ''App settings'' ''/admin/security/app-settings'']\<rparr>,
     \<lparr>ns_title = ''Proxmox'', ns_items =
       [item ''Providers'' ''/admin/providers?kind=proxmox'',
        item ''Nodes'' ''/admin/providers?kind=proxmox&section=nodes'',
        item ''Storages'' ''/admin/providers?kind=proxmox&section=storages'',
        item ''Containers'' ''/admin/providers?kind=proxmox&section=containers'',
        item ''Backup jobs'' ''/admin/providers?kind=proxmox&section=backup-jobs'',
        item ''HA'' ''/admin/providers?kind=proxmox&section=ha'',
        item ''Firewall'' ''/admin/providers?kind=proxmox&section=firewall'',
        item ''SDN'' ''/admin/providers?kind=proxmox&section=sdn'',
        item ''Ceph'' ''/admin/providers?kind=proxmox&section=ceph'',
        item ''Pools'' ''/admin/providers?kind=proxmox&section=pools'',
        item ''Clone (VM+LXC)'' ''/admin/providers?kind=proxmox&section=clone'',
        item ''Templates'' ''/admin/providers?kind=proxmox&section=templates'',
        item ''Snapshots'' ''/admin/providers?kind=proxmox&section=snapshots'',
        item ''Diagnostics'' ''/admin/providers?kind=proxmox&section=diagnostics'',
        item ''Performance'' ''/admin/providers?kind=proxmox&section=perf'']\<rparr>,
     \<lparr>ns_title = ''Onidel'', ns_items =
       [item ''Providers'' ''/admin/providers?kind=onidel'',
        item ''Catalog'' ''/admin/providers?kind=onidel&section=catalog'',
        item ''Health'' ''/admin/providers?kind=onidel&section=health'',
        item ''Health detail'' ''/admin/providers?kind=onidel&section=health-detail'',
        item ''Instances (realtime)'' ''/admin/providers?kind=onidel&section=instances'',
        item ''Orders history'' ''/admin/providers?kind=onidel&section=orders'',
        item ''Invoices'' ''/admin/providers?kind=onidel&section=invoices'',
        item ''Billing sync'' ''/admin/providers?kind=onidel&section=billing-sync'']\<rparr>,
     \<lparr>ns_title = ''VMware'', ns_items =
       [item ''Providers'' ''/admin/providers?kind=vmware'',
        item ''Hosts'' ''/admin/providers?kind=vmware&section=hosts'',
        item ''Datastores'' ''/admin/providers?kind=vmware&section=datastores'',
        item ''Networks'' ''/admin/providers?kind=vmware&section=networks'',
        item ''Inventory'' ''/admin/providers?kind=vmware&section=inventory'',
        item ''Snapshots'' ''/admin/providers?kind=vmware&section=snapshots'',
        item ''Snapshot revert'' ''/admin/providers?kind=vmware&section=snapshots-revert'',
        item ''Migrate (vMotion)'' ''/admin/providers?kind=vmware&section=migrate'',
        item ''Performance'' ''/admin/providers?kind=vmware&section=perf'']\<rparr>,
     \<lparr>ns_title = ''Dokploy'', ns_items =
       [item ''Dokploy hub'' ''/admin/dokploy'',
        item ''Logs (realtime)'' ''/admin/dokploy/logs'',
        item ''Projects'' ''/admin/dokploy/app/projects'',
        item ''Overview'' ''/admin/dokploy/app/overview'',
        item ''Docker'' ''/admin/dokploy/app/docker'',
        item ''Monitoring'' ''/admin/dokploy/app/monitoring'',
        item ''Requests'' ''/admin/dokploy/app/requests'',
        item ''Schedules'' ''/admin/dokploy/app/schedules'',
        item ''Traefik files'' ''/admin/dokploy/app/traefik'',
        item ''Settings (Dokploy)'' ''/admin/dokploy/app/settings/profile'']\<rparr>,
     \<lparr>ns_title = ''Billing'', ns_items =
       [item ''Summary'' ''/admin/billing/summary'',
        item ''Reports'' ''/admin/billing/reports'',
        item ''Orders'' ''/admin/billing/orders'',
        item ''Invoices'' ''/admin/billing/invoices'',
        item ''Payments'' ''/admin/billing/payments'',
        item ''Wallets'' ''/admin/billing/wallets'',
        item ''Coupons'' ''/admin/billing/coupons'',
        item ''Products & plans'' ''/admin/billing/products-plans'',
        item ''Custom rates'' ''/admin/billing/custom-rates'']\<rparr>,
     \<lparr>ns_title = ''Affiliate program'', ns_items =
       [item ''Configuration'' ''/admin/billing/affiliate-config'',
        item ''Settings'' ''/admin/affiliate/settings'',
        item ''Earnings'' ''/admin/affiliate/earnings'']\<rparr>]"

definition nocNav :: "nav_section list" where
  "nocNav =
    [\<lparr>ns_title = ''Monitoring'', ns_items =
       [item ''Dashboard'' ''/noc'']\<rparr>,
     \<lparr>ns_title = ''Compute'', ns_items =
       [item ''Instances'' ''/noc/instances'',
        item ''Jobs'' ''/noc/jobs'']\<rparr>,
     \<lparr>ns_title = ''Providers'', ns_items =
       [item ''Providers'' ''/noc/providers'']\<rparr>,
     \<lparr>ns_title = ''Operations'', ns_items =
       [item ''Tickets'' ''/noc/tickets'',
        item ''Security'' ''/noc/security'',
        item ''Landing content'' ''/noc/landing'',
        item ''Documentation'' ''/noc/docs'',
        item ''Blog'' ''/noc/blog'']\<rparr>]"

definition financeNav :: "nav_section list" where
  "financeNav =
    [\<lparr>ns_title = ''Billing'', ns_items =
       [item ''Summary'' ''/finance'',
        item ''Reports'' ''/finance/reports'',
        item ''Orders'' ''/finance/orders'',
        item ''Invoices'' ''/finance/invoices'',
        item ''Payments'' ''/finance/payments'',
        item ''Wallets'' ''/finance/wallets'',
        item ''Coupons'' ''/finance/coupons'',
        item ''Products plans'' ''/finance/catalog'',
        item ''Custom rates'' ''/finance/rates'',
        item ''Custom rates history'' ''/finance/rates/history'',
        item ''Regions'' ''/finance/regions'']\<rparr>,
     \<lparr>ns_title = ''Affiliate program'', ns_items =
       [item ''Overview'' ''/finance/affiliate'',
        item ''Settings'' ''/finance/affiliate/settings'',
        item ''Earnings'' ''/finance/affiliate/earnings'']\<rparr>]"

definition customerNav :: "nav_section list" where
  "customerNav =
    [\<lparr>ns_title = ''Cloud'', ns_items =
       [item ''Overview'' ''/app'',
        item ''Instances'' ''/app/instances'',
        item ''Catalog & pricing'' ''/app/catalog'',
        item ''ISO images'' ''/app/iso'',
        item ''Backups'' ''/app/backups'',
        item ''Network'' ''/app/network'',
        item ''Object storage'' ''/app/storage'']\<rparr>,
     \<lparr>ns_title = ''Billing'', ns_items =
       [item ''Wallet'' ''/app/wallet'',
        item ''Orders'' ''/app/orders'',
        item ''Invoices'' ''/app/invoices'',
        item ''Subscriptions'' ''/app/subscriptions'']\<rparr>,
     \<lparr>ns_title = ''Growth'', ns_items =
       [item ''Affiliate'' ''/app/affiliate'']\<rparr>,
     \<lparr>ns_title = ''Account'', ns_items =
       [item ''Tickets'' ''/app/tickets'',
        item ''Organizations'' ''/app/organizations'',
        item ''Notifications'' ''/app/account/notifications'',
        item ''Profile'' ''/app/profile'',
        item ''Security'' ''/app/account/security'',
        item ''API keys'' ''/app/account/api-keys'',
        item ''SSH keys'' ''/app/account/ssh-keys'',
        item ''Webhooks'' ''/app/account/webhooks'',
        item ''Audit logs'' ''/app/account/audit-logs'']\<rparr>]"

definition flatItems :: "nav_section list \<Rightarrow> nav_item list" where
  "flatItems secs = concat (map ns_items secs)"

definition nav_matches :: "string \<Rightarrow> nav_item \<Rightarrow> bool" where
  "nav_matches path i \<longleftrightarrow> path = ni_url i \<or> (ni_url i \<noteq> ''/'' \<and> startsWith path (ni_url i @ ''/''))"

definition activeItem :: "string \<Rightarrow> nav_section list \<Rightarrow> nav_item option" where
  "activeItem path secs =
     (case sort_key (\<lambda>i. - int (length (ni_url i))) (filter (nav_matches path) (flatItems secs)) of
        [] \<Rightarrow> None
      | i # _ \<Rightarrow> Some i)"

definition initialsFor :: "string option \<Rightarrow> string" where
  "initialsFor email =
     (case email of
        None \<Rightarrow> ''?''
      | Some e \<Rightarrow> if e = [] then ''?''
                  else toUpperCase (js_take 2 (takeWhile (\<lambda>c. c \<noteq> CHR ''@'') e)))"

definition roleLabel :: "app_role option \<Rightarrow> string" where
  "roleLabel r =
     (case r of
        Some Admin \<Rightarrow> ''Platform admin''
      | Some Noc \<Rightarrow> ''NOC engineer''
      | Some Finance \<Rightarrow> ''Finance''
      | Some Customer \<Rightarrow> ''Customer''
      | None \<Rightarrow> ''user'')"

text \<open>\<open>handleLogout\<close>: the session ends, then the router goes to the login route.\<close>

definition handleLogout :: "console \<Rightarrow> shown \<times> console" where
  "handleLogout s = (NavigateTo ''/login'', snd (logout s))"

subsection \<open>Following redirects\<close>

fun section_lookup :: "guarded_section list \<Rightarrow> string \<Rightarrow> (app_role option \<times> element) option" where
  "section_lookup [] p = None"
| "section_lookup (sn # sns) p =
     (let found = (if p = gs_path sn then map_of (gs_routes sn) []
                   else if startsWith p (gs_path sn @ ''/'')
                   then map_of (gs_routes sn) (drop (Suc (length (gs_path sn))) p) else None)
      in case found of Some e \<Rightarrow> Some (Some (gs_allow sn), e) | None \<Rightarrow> section_lookup sns p)"

definition route_lookup :: "route_tree \<Rightarrow> string \<Rightarrow> (app_role option \<times> element) option" where
  "route_lookup t p =
     (case map_of (tr_public t) p of
        Some e \<Rightarrow> Some (None, e)
      | None \<Rightarrow> section_lookup (tr_sections t) p)"

fun follow ::
  "route_tree \<Rightarrow> (app_role option \<Rightarrow> string) \<Rightarrow> browser \<Rightarrow> auth_state \<Rightarrow> nat \<Rightarrow> shown \<Rightarrow> shown" where
  "follow t home b a 0 x = x"
| "follow t home b a (Suc n) x =
     (case x of
        NavigateTo u \<Rightarrow>
          (case route_lookup t (url_path u) of
             Some r \<Rightarrow> follow t home b a n (show_route home b a r)
           | None \<Rightarrow> NotFound)
      | _ \<Rightarrow> x)"

text \<open>Where a visitor can end: a page, the auth console, or the lookup of a provider.\<close>

fun final :: "shown \<Rightarrow> bool" where
  "final (Page _) = True"
| "final (Leave _) = True"
| "final ProviderLookup = True"
| "final _ = False"

lemma follow_final [simp]: "final x \<Longrightarrow> follow t home b a n x = x"
  by (cases n; cases x) auto

text \<open>
  What a route tree promises: \<open>/login\<close> leaves for the auth console; the home of a role is
  \<open>/login\<close> or a page that this role may see; redirects go to pages behind the same guard; the
  only page outside the guards is the OAuth callback, and a guarded section lies at the home of
  the role that its guard admits.
\<close>

fun public_route :: "string \<times> element \<Rightarrow> bool" where
  "public_route (p, Component _) = (p = ''/oauth/callback'')"
| "public_route (p, Redirect _) = False"
| "public_route (p, Missing) = False"
| "public_route (p, _) = True"

definition page_behind :: "(app_role option \<times> element) option \<Rightarrow> app_role \<Rightarrow> bool" where
  "page_behind r allow = (case r of Some (Some allow', Component _) \<Rightarrow> allow' = allow | _ \<Rightarrow> False)"

fun guarded_route :: "route_tree \<Rightarrow> app_role \<Rightarrow> element \<Rightarrow> bool" where
  "guarded_route t allow Root = False"
| "guarded_route t allow Missing = False"
| "guarded_route t allow (Redirect u) = page_behind (route_lookup t (url_path u)) allow"
| "guarded_route t allow _ = True"

definition good_section :: "route_tree \<Rightarrow> (app_role option \<Rightarrow> string) \<Rightarrow> guarded_section \<Rightarrow> bool" where
  "good_section t home sn \<longleftrightarrow> home (Some (gs_allow sn)) = gs_path sn
     \<and> list_all (guarded_route t (gs_allow sn)) (map snd (gs_routes sn))"

definition good_home :: "route_tree \<Rightarrow> (app_role option \<Rightarrow> string) \<Rightarrow> app_role \<Rightarrow> bool" where
  "good_home t home r \<longleftrightarrow> home (Some r) = ''/login'' \<or> page_behind (route_lookup t (url_path (home (Some r)))) r"

lemma page_behindE:
  assumes "page_behind r allow"
  obtains c where "r = Some (Some allow, Component c)"
proof -
  obtain g e where r: "r = Some (g, e)" using assms by (cases r) (auto simp: page_behind_def)
  with assms obtain c where "e = Component c" "g = Some allow"
    by (cases g; cases e) (auto simp: page_behind_def)
  with r that show thesis by blast
qed

locale routed_console =
  fixes t :: route_tree and home :: "app_role option \<Rightarrow> string"
  assumes login: "route_lookup t ''/login'' = Some (None, AuthPage ''/login'')"
    and homes: "good_home t home r"
    and publics: "list_all public_route (tr_public t)"
    and sections: "list_all (good_section t home) (tr_sections t)"
begin

lemma public_cases: "(p, None, e) \<in> set (route_table t) \<Longrightarrow> public_route (p, e)"
  using publics by (auto simp: route_table_def list_all_iff)

lemma guarded_cases:
  assumes "(p, Some r, e) \<in> set (route_table t)"
  shows "guarded_route t r e" and "startsWith p (home (Some r))"
proof -
  from assms obtain sn q where sn: "sn \<in> set (tr_sections t)" "(q, e) \<in> set (gs_routes sn)"
    "r = gs_allow sn" "p = full_route_path (gs_path sn) q"
    by (auto simp: route_table_def)
  with sections have "good_section t home sn" by (simp add: list_all_iff)
  with sn show "guarded_route t r e" "startsWith p (home (Some r))"
    by (auto simp: good_section_def list_all_iff full_route_path_def startsWith_iff)
qed

lemma to_login: "0 < n \<Longrightarrow> final (follow t home b a n (NavigateTo ''/login''))"
  by (cases n) (simp_all add: login url_path_def show_route_def show_element_def AuthRedirect_def)

lemma to_home:
  assumes "0 < n" and "\<not> au_loading a" and "has_session a" and "au_role a = Some r"
  shows "final (follow t home b a n (NavigateTo (home (Some r))))"
proof (cases "home (Some r) = ''/login''")
  case True
  with to_login [OF assms(1)] show ?thesis by simp
next
  case False
  with homes [of r] obtain c where "route_lookup t (url_path (home (Some r))) = Some (Some r, Component c)"
    by (auto simp: good_home_def elim: page_behindE)
  with assms show ?thesis
    by (cases n) (simp_all add: show_route_def show_element_def RequireRole_def)
qed

lemma guarded_final:
  assumes "\<not> au_loading a" and "final (show_element home b a e) \<or> (\<exists>u c. e = Redirect u
      \<and> route_lookup t (url_path u) = Some (Some r, Component c))"
  shows "final (follow t home b a 2 (show_route home b a (Some r, e)))"
proof (cases "has_session a")
  case False
  with assms(1) to_login [of 2] show ?thesis by (simp add: show_route_def RequireRole_def)
next
  case True
  then obtain r' where r': "au_role a = Some r'" by (auto simp: has_session_def)
  show ?thesis
  proof (cases "r' = r")
    case False
    with True r' assms(1) to_home [of 2 a r'] show ?thesis by (simp add: show_route_def RequireRole_def)
  next
    case same: True
    then have here: "show_route home b a (Some r, e') = show_element home b a e'" for e'
      using assms(1) True r' by (simp add: show_route_def RequireRole_def)
    from assms(2) show ?thesis
    proof
      assume "final (show_element home b a e)"
      then show ?thesis by (simp add: here)
    next
      assume "\<exists>u c. e = Redirect u \<and> route_lookup t (url_path u) = Some (Some r, Component c)"
      then obtain u c where u: "e = Redirect u" "route_lookup t (url_path u) = Some (Some r, Component c)"
        by blast
      then have "follow t home b a 2 (show_element home b a e) = Page c"
        using here [of "Component c"] by (simp add: show_element_def numeral_2_eq_2)
      then show ?thesis by (simp add: here)
    qed
  qed
qed

lemma redirects_end:
  assumes "(p, g, e) \<in> set (route_table t)" and "\<not> au_loading a"
  shows "final (follow t home b a 2 (show_route home b a (g, e)))"
proof (cases g)
  case (Some r)
  with assms(1) have "guarded_route t r e" by (simp add: guarded_cases)
  then have "final (show_element home b a e) \<or> (\<exists>u c. e = Redirect u
      \<and> route_lookup t (url_path u) = Some (Some r, Component c))"
    by (cases e) (auto simp: show_element_def AuthRedirect_def elim: page_behindE)
  from guarded_final [OF assms(2) this] Some show ?thesis by simp
next
  case None
  with assms(1) have pub: "public_route (p, e)" by (simp add: public_cases)
  show ?thesis
  proof (cases e)
    case Root
    show ?thesis
    proof (cases "has_session a")
      case True
      then obtain r where "au_role a = Some r" by (auto simp: has_session_def)
      with True Root None assms(2) to_home [of 2 a r] show ?thesis
        by (simp add: show_route_def show_element_def RootRedirect_def)
    next
      case False
      with Root None assms(2) to_login [of 2] show ?thesis
        by (simp add: show_route_def show_element_def RootRedirect_def)
    qed
  qed (use pub None in \<open>simp_all add: show_route_def show_element_def AuthRedirect_def\<close>)
qed

lemma page_guarded:
  assumes "(p, g, e) \<in> set (route_table t)" and "show_route home b a (g, e) = Page c"
  shows "p = ''/oauth/callback''
    \<or> (\<not> au_loading a \<and> has_session a \<and> startsWith p (home (au_role a)))"
proof (cases g)
  case None
  with assms have "e = Component c"
    by (auto simp: show_route_def show_element_def RootRedirect_def AuthRedirect_def split: element.splits if_splits)
  with assms(1) None public_cases [of p e] show ?thesis by simp
next
  case (Some r)
  with assms have *: "\<not> au_loading a" "has_session a" "au_role a = Some r"
    by (auto simp: show_route_def RequireRole_def split: if_splits)
  with assms(1) Some guarded_cases(2) [of p r e] show ?thesis by simp
qed

end

lemmas route_data = public_routes_def identity_routes_def proxmox_routes_def onidel_routes_def vmware_routes_def
  backend_routes_def dokploy_routes_def dokploy_settings_routes_def billing_routes_def
  staff_account_routes_def manager_routes_def noc_routes_def finance_routes_def
  customer_public_routes_def customer_routes_def

lemma logins: "route_lookup admin_tree ''/login'' = Some (None, AuthPage ''/login'')"
  "route_lookup customer_tree ''/login'' = Some (None, AuthPage ''/login'')"
  by (simp_all add: route_lookup_def admin_tree_def customer_tree_def public_routes_def customer_public_routes_def)

lemma home_pages:
  "route_lookup admin_tree ''/admin'' = Some (Some Admin, Component ''AdminDashboard'')"
  "route_lookup admin_tree ''/noc'' = Some (Some Noc, Component ''NocDashboard'')"
  "route_lookup admin_tree ''/finance'' = Some (Some Finance, Component ''FinanceSummary'')"
  "route_lookup customer_tree ''/app'' = Some (Some Customer, Component ''CustomerOverview'')"
  by (simp_all add: route_lookup_def admin_tree_def customer_tree_def route_data admin_routes_def)

lemma redirect_targets:
  "route_lookup admin_tree ''/admin/dokploy/app/overview'' = Some (Some Admin, Component ''DokployOverview'')"
  "route_lookup admin_tree ''/admin/dokploy/app/docker'' = Some (Some Admin, Component ''DokployDockerPage'')"
  by code_simp+

lemma admin_sections_good: "list_all (good_section admin_tree homePathFor) (tr_sections admin_tree)"
proof -
  have "list_all (guarded_route admin_tree Admin) (map snd admin_routes)"
    by (simp add: admin_routes_def route_data url_path_def redirect_targets page_behind_def)
  moreover have "list_all (guarded_route admin_tree Noc) (map snd noc_routes)"
    "list_all (guarded_route admin_tree Finance) (map snd finance_routes)"
    by (simp_all add: noc_routes_def finance_routes_def)
  ultimately show ?thesis
    by (simp add: good_section_def admin_tree_def homePathFor_def)
qed

interpretation staff: routed_console admin_tree homePathFor
proof
  show "good_home admin_tree homePathFor r" for r
    by (cases r) (simp_all add: good_home_def homePathFor_def url_path_def home_pages page_behind_def)
  show "list_all public_route (tr_public admin_tree)"
    by (simp add: admin_tree_def public_routes_def)
qed (simp_all only: logins admin_sections_good)

interpretation customers: routed_console customer_tree user_homePathFor
proof
  show "good_home customer_tree user_homePathFor r" for r
    by (cases r) (simp_all add: good_home_def user_homePathFor_def url_path_def home_pages page_behind_def)
  show "list_all public_route (tr_public customer_tree)"
    by (simp add: customer_tree_def customer_public_routes_def)
  show "list_all (good_section customer_tree user_homePathFor) (tr_sections customer_tree)"
    by (simp add: customer_tree_def good_section_def user_homePathFor_def customer_routes_def)
qed (simp_all only: logins)

subsection \<open>Guards and redirects of the two consoles\<close>

definition consoles :: "(route_tree \<times> (app_role option \<Rightarrow> string)) set" where
  "consoles = {(admin_tree, homePathFor), (customer_tree, user_homePathFor)}"

lemma consoles_routed: "(t, home) \<in> consoles \<Longrightarrow> routed_console t home"
  using staff.routed_console_axioms customers.routed_console_axioms by (auto simp: consoles_def)

text \<open>
  C5: no page of the consoles is shown to a visitor who may not see it. Apart from the OAuth
  callback, a route shows its page only when the session has been checked and holds a token and
  a role, and the page lies under the home of that very role.
\<close>

theorem pages_need_their_role:
  assumes "(t, home) \<in> consoles" and "(p, g, e) \<in> set (route_table t)"
    and "show_route home b a (g, e) = Page c"
  shows "p = ''/oauth/callback''
    \<or> (\<not> au_loading a \<and> has_session a \<and> startsWith p (home (au_role a)))"
  by (rule routed_console.page_guarded [OF consoles_routed [OF assms(1)] assms(2,3)])

definition noc_session :: auth_state where
  "noc_session = \<lparr>au_token = Some ''cookie'', au_claims = Some (JObj []), au_role = Some Noc,
     au_profile = None, au_loading = False\<rparr>"

theorem pages_need_their_role_witness:
  "show_route homePathFor (sample_browser NetFail) noc_session (Some Noc, Component ''NocJobs'') = Page ''NocJobs''
   \<and> (''/noc/jobs'' = ''/oauth/callback''
    \<or> (\<not> au_loading noc_session \<and> has_session noc_session \<and> startsWith ''/noc/jobs'' (homePathFor (au_role noc_session))))"
proof -
  have "(''/noc/jobs'', Some Noc, Component ''NocJobs'') \<in> set (route_table admin_tree)"
    by (simp add: route_table_def admin_tree_def noc_routes_def full_route_path_def)
  moreover have "show_route homePathFor (sample_browser NetFail) noc_session (Some Noc, Component ''NocJobs'') = Page ''NocJobs''"
    by (simp add: show_route_def RequireRole_def noc_session_def has_session_def show_element_def)
  moreover have "(admin_tree, homePathFor) \<in> consoles" by (simp add: consoles_def)
  ultimately show ?thesis
    using pages_need_their_role [of admin_tree homePathFor "''/noc/jobs''" "Some Noc" "Component ''NocJobs''"
        "sample_browser NetFail" noc_session "''NocJobs''"] by blast
qed

text \<open>
  C20: redirects end. Once the session has been checked, whoever visits any route of the consoles is
  after at most two redirects on a page, on the auth console, or at the provider lookup: there is
  no redirect loop between the guards, and no redirect leads to a missing page.
\<close>

theorem redirects_terminate:
  assumes "(t, home) \<in> consoles" and "(p, g, e) \<in> set (route_table t)" and "\<not> au_loading a"
  shows "final (follow t home b a 2 (show_route home b a (g, e)))"
  by (rule routed_console.redirects_end [OF consoles_routed [OF assms(1)] assms(2,3)])

theorem redirects_terminate_witness:
  "final (follow admin_tree homePathFor (sample_browser NetFail) noc_session 2
     (show_route homePathFor (sample_browser NetFail) noc_session (None, Root)))"
  by (rule redirects_terminate [of _ _ "''/''"])
    (simp_all add: consoles_def route_table_def admin_tree_def public_routes_def noc_session_def)

subsection \<open>Navigation tables\<close>

fun is_page :: "element \<Rightarrow> bool" where
  "is_page (Component _) = True"
| "is_page _ = False"

text \<open>Every entry of the sidebar links to the full path of a page of the section.\<close>

definition nav_declared :: "string \<Rightarrow> (string \<times> element) list \<Rightarrow> nav_section list \<Rightarrow> bool" where
  "nav_declared parent rs secs \<longleftrightarrow>
     list_all (\<lambda>i. list_ex (\<lambda>(q, e). is_page e \<and> url_path (ni_url i) = full_route_path parent q) rs) (flatItems secs)"

definition declared_at :: "string \<Rightarrow> (string \<times> element) list \<Rightarrow> nav_item \<Rightarrow> nat \<Rightarrow> bool" where
  "declared_at parent rs i n \<longleftrightarrow> n < length rs \<and> is_page (snd (rs ! n))
     \<and> url_path (ni_url i) = full_route_path parent (fst (rs ! n))"

lemma nav_declaredI:
  assumes "list_all2 (declared_at parent rs) (flatItems secs) ns"
  shows "nav_declared parent rs secs"
proof -
  have "\<exists>r \<in> set rs. is_page (snd r) \<and> url_path (ni_url i) = full_route_path parent (fst r)"
    if "i \<in> set (flatItems secs)" for i
  proof -
    obtain k where k: "k < length (flatItems secs)" "i = flatItems secs ! k"
      using \<open>i \<in> set (flatItems secs)\<close> by (auto simp: in_set_conv_nth)
    then have "declared_at parent rs i (ns ! k)" using assms by (simp add: list_all2_conv_all_nth)
    then show ?thesis unfolding declared_at_def by (metis nth_mem)
  qed
  then show ?thesis by (fastforce simp: nav_declared_def list_all_iff list_ex_iff)
qed

text \<open>The admin table lists its entries in the order of the routes: one walk over both finds them.\<close>

fun declared_in_order :: "string \<Rightarrow> (string \<times> element) list \<Rightarrow> nav_item list \<Rightarrow> bool" where
  "declared_in_order parent rs [] = True"
| "declared_in_order parent [] (i # is) = False"
| "declared_in_order parent ((q, e) # rs) (i # is) =
     (if is_page e \<and> url_path (ni_url i) = full_route_path parent q
      then declared_in_order parent ((q, e) # rs) is
      else declared_in_order parent rs (i # is))"

lemma declared_in_order_sound:
  "declared_in_order parent rs is \<Longrightarrow>
   list_all (\<lambda>i. list_ex (\<lambda>(q, e). is_page e \<and> url_path (ni_url i) = full_route_path parent q) rs) is"
  by (induction parent rs "is" rule: declared_in_order.induct)
    (auto simp: list_all_iff list_ex_iff split: if_splits)

lemma admin_nav_declared: "nav_declared ''/admin'' admin_routes adminNav"
  unfolding nav_declared_def by (rule declared_in_order_sound) code_simp

lemma noc_nav_positions:
  "list_all2 (declared_at ''/noc'' noc_routes) (flatItems nocNav) [0, 1, 3, 9, 18, 20, 21, 22, 23]"
  by code_simp

lemma finance_nav_positions:
  "list_all2 (declared_at ''/finance'' finance_routes) (flatItems financeNav)
      [0, 1, 6, 8, 10, 11, 13, 15, 16, 17, 18, 19, 20, 21]"
  by code_simp

lemma customer_nav_positions:
  "list_all2 (declared_at ''/app'' customer_routes) (flatItems customerNav)
      [0, 1, 17, 12, 14, 15, 16, 18, 24, 26, 28, 29, 30, 32, 33, 34, 36, 38, 39, 41, 42]"
  by code_simp

text \<open>
  No sidebar entry is a dead link: the path of every entry of the four navigation tables is
  the path of a page declared in the section of that console.
\<close>

theorem nav_entries_declared:
  "nav_declared ''/admin'' admin_routes adminNav \<and> nav_declared ''/noc'' noc_routes nocNav
   \<and> nav_declared ''/finance'' finance_routes financeNav \<and> nav_declared ''/app'' customer_routes customerNav"
  using admin_nav_declared nav_declaredI [OF noc_nav_positions]
    nav_declaredI [OF finance_nav_positions] nav_declaredI [OF customer_nav_positions] by blast

subsection \<open>The highlighted entry\<close>

lemma sort_key_hd_max:
  assumes "sort_key f xs = x # ys"
  shows "x \<in> set xs" and "\<And>y. y \<in> set xs \<Longrightarrow> f x \<le> f y"
proof -
  have s: "set (x # ys) = set xs" using assms by (metis set_sort)
  then show "x \<in> set xs" by auto
  have "sorted (map f (x # ys))" using assms by (metis sorted_sort_key)
  with s show "f x \<le> f y" if "y \<in> set xs" for y using that by auto
qed

lemma active_is_longest:
  assumes "activeItem path secs = Some i"
  shows "i \<in> set (flatItems secs) \<and> nav_matches path i
    \<and> (\<forall>j \<in> set (flatItems secs). nav_matches path j \<longrightarrow> length (ni_url j) \<le> length (ni_url i))"
proof -
  obtain xs where "sort_key (\<lambda>i. - int (length (ni_url i))) (filter (nav_matches path) (flatItems secs)) = i # xs"
    using assms by (auto simp: activeItem_def split: list.splits)
  from sort_key_hd_max [OF this] show ?thesis by auto
qed

lemma providers_active: "activeItem ''/admin/providers'' adminNav = Some (item ''Dashboard'' ''/admin'')"
  by code_simp

text \<open>
  At most one sidebar entry is highlighted: an entry that matches the location, with the
  longest URL of all entries that match; nothing is highlighted exactly when no entry matches.
\<close>

theorem active_is_longest_match:
  "(case activeItem path secs of
      None \<Rightarrow> filter (nav_matches path) (flatItems secs) = []
    | Some i \<Rightarrow> i \<in> set (flatItems secs) \<and> nav_matches path i
        \<and> length (ni_url i) = Max (length ` ni_url ` set (filter (nav_matches path) (flatItems secs))))"
proof (cases "activeItem path secs")
  case None
  then have "sort_key (\<lambda>i. - int (length (ni_url i))) (filter (nav_matches path) (flatItems secs)) = []"
    by (simp add: activeItem_def split: list.splits)
  then have "filter (nav_matches path) (flatItems secs) = []" by (metis set_sort set_empty)
  with None show ?thesis by simp
next
  case (Some i)
  note best = active_is_longest [OF Some]
  have "length (ni_url i) = Max (length ` ni_url ` set (filter (nav_matches path) (flatItems secs)))"
    by (rule Max_eqI [symmetric]) (use best in auto)
  with best Some show ?thesis by simp
qed

text \<open>
  An entry whose URL has a query string is never highlighted, because a location's path has
  no question mark; so none of the Proxmox, Onidel and VMware entries of the admin sidebar ever
  is, and on the provider list they link to the dashboard entry is highlighted instead.
\<close>

theorem query_entries_never_active:
  assumes "CHR ''?'' \<notin> set path" and "activeItem path secs = Some i"
  shows "CHR ''?'' \<notin> set (ni_url i)
    \<and> activeItem ''/admin/providers'' adminNav = Some (item ''Dashboard'' ''/admin'')"
proof
  have "nav_matches path i"
    using assms(2) active_is_longest by simp
  with assms(1) show "CHR ''?'' \<notin> set (ni_url i)"
    by (auto simp: nav_matches_def startsWith_iff)
qed (rule providers_active)

theorem query_entries_never_active_witness:
  "CHR ''?'' \<notin> set (ni_url (item ''Tickets'' ''/noc/tickets''))
    \<and> activeItem ''/admin/providers'' adminNav = Some (item ''Dashboard'' ''/admin'')"
proof -
  have "CHR ''?'' \<notin> set ''/noc/tickets/7''" by simp
  moreover have "activeItem ''/noc/tickets/7'' nocNav = Some (item ''Tickets'' ''/noc/tickets'')" by code_simp
  ultimately show ?thesis by (rule query_entries_never_active)
qed

subsection \<open>Leaving the old provider URLs\<close>

definition provider_trees :: "string set" where
  "provider_trees = {''proxmox'', ''onidel'', ''vmware'', ''dokploy''}"

lemma legacyTarget_tree:
  "\<exists>k \<in> provider_trees. startsWith (legacyTarget i s kind) (''/admin/'' @ k)"
proof -
  have "\<exists>k \<in> provider_trees. startsWith (rule_build r i s) (''/admin/'' @ k)" for r
    by (cases r) (simp_all add: provider_trees_def)
  then show ?thesis
    by (simp add: legacyTarget_def split: option.splits) (simp add: provider_trees_def)
qed

lemma legacyTarget_kind: "k \<in> provider_trees \<Longrightarrow> startsWith (legacyTarget i s (Some k)) (''/admin/'' @ k)"
  by (auto simp: legacyTarget_def provider_trees_def)

lemma trees_apart: "k \<in> provider_trees \<Longrightarrow> startsWith u (''/admin/'' @ k) \<Longrightarrow> \<not> startsWith u ''/admin/providers''"
  by (auto simp: provider_trees_def startsWith_iff)

text \<open>
  An old provider URL is redirected once and for all: the redirect keeps the query string and
  leaves the old tree for that of a known kind of provider; when the backend knows the
  provider, for the tree of its own kind.
\<close>

theorem legacy_redirect_leaves:
  "\<exists>u. fst (LegacyProviderRedirect i b) = NavigateTo (u @ search b)
     \<and> \<not> startsWith u ''/admin/providers''
     \<and> (\<exists>k \<in> provider_trees. startsWith u (''/admin/'' @ k))
     \<and> (case fst (apiGet ''/admin/providers'' no_options b) of
          Inr env \<Rightarrow> (case provider_kind i env of
                       Some k \<Rightarrow> if k \<in> provider_trees then startsWith u (''/admin/'' @ k) else True
                     | None \<Rightarrow> True)
        | Inl e \<Rightarrow> True)"
proof -
  obtain r b' where g: "apiGet ''/admin/providers'' no_options b = (r, b')" by fastforce
  define kind where "kind = (case r of Inr env \<Rightarrow> provider_kind i env | Inl e \<Rightarrow> None)"
  define u where "u = legacyTarget i (legacy_suffix i (pathname b)) kind"
  have "fst (LegacyProviderRedirect i b) = NavigateTo (u @ search b)"
    by (cases r) (simp_all add: LegacyProviderRedirect_def g u_def kind_def)
  moreover obtain k where k: "k \<in> provider_trees" "startsWith u (''/admin/'' @ k)"
    using legacyTarget_tree [of i "legacy_suffix i (pathname b)" kind] u_def by blast
  moreover have "\<not> startsWith u ''/admin/providers''" by (rule trees_apart [OF k])
  moreover have "case r of Inr env \<Rightarrow> (case provider_kind i env of
      Some k \<Rightarrow> if k \<in> provider_trees then startsWith u (''/admin/'' @ k) else True | None \<Rightarrow> True)
    | Inl e \<Rightarrow> True"
    using legacyTarget_kind [of _ i "legacy_suffix i (pathname b)"]
    by (cases r) (auto simp: u_def kind_def simp del: startsWith.simps split: option.splits)
  ultimately show ?thesis by (auto simp: g simp del: startsWith.simps)
qed

end
