(* ===== verification/Formatting.thy ===== *)
theory Formatting
  imports Browser Js_Number
begin

text \<open>
  The formatting helpers of the consoles: money, byte sizes, uptimes, percentages and status badges
  (\<open>features/customer/format.ts\<close>, \<open>features/admin/pages/format.ts\<close>,
  \<open>features/finance/lib-utils.ts\<close>, \<open>features/noc/lib-utils.ts\<close>,
  \<open>features/admin/pages/providers/infra.ts\<close>, \<open>features/noc/pages/providers/pve-utils.ts\<close>,
  \<open>features/admin/pages/attachmentUpload.ts\<close>, \<open>features/noc/components/rawResourceUtils.ts\<close>).

  A \<open>number | null | undefined\<close> argument is \<open>js_num option\<close>, \<open>None\<close> for the two absent values.
  \<open>Intl.NumberFormat\<close> is an argument: a formatter is the options it is built with, \<open>intl_ok\<close>
  says which options the constructor accepts (it throws on others) and \<open>intl\<close> is the text of
  an amount.
\<close>

subsection \<open>Byte sizes\<close>

text \<open>The loop all byte formatters share: divide by 1024 until the value is small or the units end.\<close>

function scale_bytes :: "nat \<Rightarrow> rat \<Rightarrow> nat \<Rightarrow> rat \<times> nat" where
  "scale_bytes n v u = (if v \<ge> 1024 \<and> u < n then scale_bytes n (v / 1024) (Suc u) else (v, u))"
  by auto
termination by (relation "measure (\<lambda>(n, v, u). n - u)") auto

declare scale_bytes.simps [simp del]

definition iec_units :: "string list" where
  "iec_units = [''B'', ''KiB'', ''MiB'', ''GiB'', ''TiB'']"

definition BYTE_UNITS :: "string list" where
  "BYTE_UNITS = [''B'', ''KB'', ''MB'', ''GB'', ''TB'', ''PB'']"

text \<open>A number in a template string.\<close>

definition num_text :: "js_num \<Rightarrow> string" where
  "num_text x = (case x of Fin q \<Rightarrow> show_num q | NaN \<Rightarrow> ''NaN'' | Infinite p \<Rightarrow> if p then ''Infinity'' else ''-Infinity'')"

definition scaled_text :: "string list \<Rightarrow> rat \<Rightarrow> string" where
  "scaled_text units q =
     (case scale_bytes (length units - 1) q 0 of
        (v, u) \<Rightarrow> toFixed (if u = 0 then 0 else 1) v @ '' '' @ units ! u)"

definition customer_formatBytes :: "js_num option \<Rightarrow> string" where
  "customer_formatBytes bytes =
     (case bytes of
        None \<Rightarrow> em_dash
      | Some NaN \<Rightarrow> em_dash
      | Some (Infinite _) \<Rightarrow> ''0 B''
      | Some (Fin q) \<Rightarrow> if q \<le> 0 then ''0 B'' else scaled_text iec_units q)"

text \<open>\<open>Infinity\<close> runs through all the units and prints as itself.\<close>

definition noc_formatBytes :: "js_num option \<Rightarrow> string" where
  "noc_formatBytes bytes =
     (case bytes of
        None \<Rightarrow> em_dash
      | Some NaN \<Rightarrow> em_dash
      | Some (Infinite p) \<Rightarrow> if p then ''Infinity TiB'' else ''-Infinity B''
      | Some (Fin q) \<Rightarrow> scaled_text iec_units q)"

definition attachment_formatBytes :: "js_num option \<Rightarrow> string" where
  "attachment_formatBytes bytes =
     (case bytes of
        None \<Rightarrow> em_dash
      | Some NaN \<Rightarrow> em_dash
      | Some (Infinite p) \<Rightarrow> if p then ''Infinity TiB'' else ''-Infinity B''
      | Some (Fin q) \<Rightarrow> scaled_text iec_units q)"

definition infra_formatBytes :: "js_num option \<Rightarrow> string" where
  "infra_formatBytes bytes =
     (case bytes of
        None \<Rightarrow> em_dash
      | Some NaN \<Rightarrow> em_dash
      | Some (Infinite p) \<Rightarrow> if p then ''Infinity PB'' else ''-Infinity B''
      | Some (Fin q) \<Rightarrow>
          (case scale_bytes (length BYTE_UNITS - 1) q 0 of
             (v, u) \<Rightarrow> (if u = 0 then show_num v else toFixed 1 v) @ '' '' @ BYTE_UNITS ! u))"

subsection \<open>Uptime, fractions and flags\<close>

definition uptime_text :: "rat \<Rightarrow> string" where
  "uptime_text s =
     (let days = \<lfloor>s / 86400\<rfloor>;
          hours = \<lfloor>(s - 86400 * of_int \<lfloor>s / 86400\<rfloor>) / 3600\<rfloor>;
          minutes = \<lfloor>(s - 3600 * of_int \<lfloor>s / 3600\<rfloor>) / 60\<rfloor>
      in if days > 0 then show_int days @ ''d '' @ show_int hours @ ''h''
         else if hours > 0 then show_int hours @ ''h '' @ show_int minutes @ ''m''
         else show_int minutes @ ''m'')"

definition formatUptime :: "rat option \<Rightarrow> string" where
  "formatUptime seconds = (case seconds of None \<Rightarrow> em_dash | Some s \<Rightarrow> if s \<le> 0 then em_dash else uptime_text s)"

definition fmtUptime :: "rat option \<Rightarrow> string" where
  "fmtUptime seconds = (case seconds of None \<Rightarrow> em_dash | Some s \<Rightarrow> if s \<le> 0 then em_dash else uptime_text s)"

definition formatPercent :: "rat option \<Rightarrow> string" where
  "formatPercent fraction = (case fraction of None \<Rightarrow> em_dash | Some q \<Rightarrow> toFixed 1 (q * 100) @ ''%'')"

definition fmtFraction :: "rat option \<Rightarrow> string" where
  "fmtFraction v = (case v of None \<Rightarrow> em_dash | Some q \<Rightarrow> show_int (js_round (q * 100)) @ ''%'')"

definition flagLabel :: "json option \<Rightarrow> string \<Rightarrow> string \<Rightarrow> string" where
  "flagLabel v on off =
     (if v = Some (JBool True) \<or> v = Some (JNum 1) \<or> v = Some (JStr ''1'') then on else off)"

subsection \<open>Money\<close>

record number_format =
  nf_locale :: "string option"
  nf_currency :: "string option"
  nf_digits :: nat

definition three_letters :: "string option \<Rightarrow> string option" where
  "three_letters currency = (case currency of Some c \<Rightarrow> if js_length c = 3 then Some c else None | None \<Rightarrow> None)"

definition ledger_digits :: "string \<Rightarrow> nat" where
  "ledger_digits code = (if code = ''IDR'' \<or> code = ''VND'' then 0 else 2)"

definition currency_code :: "string option \<Rightarrow> string" where
  "currency_code currency = (case three_letters currency of Some c \<Rightarrow> c | None \<Rightarrow> ''IDR'')"

text \<open>The customer console; \<open>plain\<close> is \<open>toLocaleString\<close> of the fallback.\<close>

definition customer_formatMoney ::
  "(number_format \<Rightarrow> bool) \<Rightarrow> (number_format \<Rightarrow> rat \<Rightarrow> string) \<Rightarrow> (rat \<Rightarrow> string)
   \<Rightarrow> js_num option \<Rightarrow> string option \<Rightarrow> string" where
  "customer_formatMoney intl_ok intl plain amount currency =
     (let v = (case amount of Some (Fin q) \<Rightarrow> q | _ \<Rightarrow> 0);
          code = currency_code currency;
          nf = \<lparr>nf_locale = Some ''id-ID'', nf_currency = Some code, nf_digits = ledger_digits code\<rparr>
      in if intl_ok nf then intl nf v else trim (plain v @ '' '' @ code))"

text \<open>The NOC console.\<close>

definition noc_formatMoney ::
  "(number_format \<Rightarrow> bool) \<Rightarrow> (number_format \<Rightarrow> rat \<Rightarrow> string) \<Rightarrow> rat option \<Rightarrow> string option \<Rightarrow> string" where
  "noc_formatMoney intl_ok intl amount currency =
     (case amount of
        None \<Rightarrow> em_dash
      | Some v \<Rightarrow>
          (let code = currency_code currency;
               nf = \<lparr>nf_locale = Some ''id-ID'', nf_currency = Some code, nf_digits = ledger_digits code\<rparr>
           in if intl_ok nf then intl nf v else trim (show_num v @ '' '' @ code)))"

text \<open>The admin and finance consoles keep the formatters they have built, by currency code.\<close>

type_synonym format_cache = "string \<rightharpoonup> number_format"

definition admin_money_format :: "(number_format \<Rightarrow> bool) \<Rightarrow> string \<Rightarrow> number_format" where
  "admin_money_format intl_ok code =
     (let nf = \<lparr>nf_locale = None, nf_currency = Some (if code \<noteq> [] then code else ''IDR''),
                nf_digits = (if code = ''IDR'' then 0 else 2)\<rparr>
      in if intl_ok nf then nf else \<lparr>nf_locale = None, nf_currency = None, nf_digits = 2\<rparr>)"

definition admin_code :: "string option \<Rightarrow> string" where
  "admin_code currency = toUpperCase (trim (case currency of Some c \<Rightarrow> c | None \<Rightarrow> []))"

definition admin_formatMoney ::
  "(number_format \<Rightarrow> bool) \<Rightarrow> (number_format \<Rightarrow> rat \<Rightarrow> string) \<Rightarrow> rat option \<Rightarrow> string option
   \<Rightarrow> format_cache \<Rightarrow> string \<times> format_cache" where
  "admin_formatMoney intl_ok intl amount currency cache =
     (case amount of
        None \<Rightarrow> (em_dash, cache)
      | Some v \<Rightarrow>
          (let code = admin_code currency
           in case cache code of
                Some nf \<Rightarrow> (intl nf v, cache)
              | None \<Rightarrow> (let nf = admin_money_format intl_ok code in (intl nf v, cache(code \<mapsto> nf)))))"

text \<open>The finance console: \<open>Inl\<close> is the \<open>RangeError\<close> of a code the constructor rejects.\<close>

definition finance_code :: "string option \<Rightarrow> string" where
  "finance_code currency = (case three_letters currency of Some c \<Rightarrow> toUpperCase c | None \<Rightarrow> ''IDR'')"

definition finance_money_format :: "string \<Rightarrow> number_format" where
  "finance_money_format code = \<lparr>nf_locale = Some ''id-ID'', nf_currency = Some code, nf_digits = 0\<rparr>"

datatype amount = Number rat | Text string

definition amount_num :: "amount option \<Rightarrow> js_num option" where
  "amount_num a = (case a of None \<Rightarrow> None | Some (Number q) \<Rightarrow> Some (Fin q) | Some (Text t) \<Rightarrow> Some (js_Number t))"

definition finance_formatMoney ::
  "(number_format \<Rightarrow> bool) \<Rightarrow> (number_format \<Rightarrow> js_num \<Rightarrow> string) \<Rightarrow> amount option \<Rightarrow> string option
   \<Rightarrow> format_cache \<Rightarrow> (js_error + string) \<times> format_cache" where
  "finance_formatMoney intl_ok intl a currency cache =
     (case amount_num a of
        None \<Rightarrow> (Inr em_dash, cache)
      | Some NaN \<Rightarrow> (Inr em_dash, cache)
      | Some v \<Rightarrow>
          (let code = finance_code currency
           in case cache code of
                Some nf \<Rightarrow> (Inr (intl nf v), cache)
              | None \<Rightarrow>
                  (let nf = finance_money_format code
                   in if intl_ok nf then (Inr (intl nf v), cache(code \<mapsto> nf))
                      else (Inl (PlainError ''Invalid currency code''), cache))))"

subsection \<open>Status badges, toasts and previews (noc/lib-utils.ts)\<close>

definition BAD_STATUSES :: "string list" where
  "BAD_STATUSES = [''failed'', ''cancelled'', ''dead'', ''error'', ''disabled'', ''unavailable'', ''deleted'', ''deleting'']"

definition BUSY_STATUSES :: "string list" where
  "BUSY_STATUSES = [''queued'', ''running'', ''retry'', ''provisioning'', ''pending'', ''pending_payment'',
     ''waiting_customer'', ''waiting_staff'', ''investigating'', ''unknown'']"

datatype badge_variant = Default | Secondary | DestructiveBadge | Outline

definition statusBadgeVariant :: "string \<Rightarrow> badge_variant" where
  "statusBadgeVariant status =
     (let s = toLowerCase status in
      if s \<in> set BAD_STATUSES then DestructiveBadge
      else if s \<in> set BUSY_STATUSES then Secondary
      else if s = [] \<or> s = em_dash then Outline
      else Default)"

text \<open>The toast of a failed mutation: title and description.\<close>

definition toastApiError :: "js_error option \<Rightarrow> string \<Rightarrow> string \<times> string option" where
  "toastApiError error fallback =
     (case error of
        Some (ApiError code msg status _) \<Rightarrow>
          ((if msg \<noteq> [] then msg else fallback)
             @ (if status = 403 then '' '' @ em_dash @ '' not permitted for the NOC role'' else []),
           Some (js_String code @ '' '' @ middle_dot @ '' HTTP '' @ show_int status))
      | _ \<Rightarrow> (fallback, None))"

definition previewValue :: "json option \<Rightarrow> string" where
  "previewValue v =
     (case v of
        None \<Rightarrow> em_dash
      | Some JNull \<Rightarrow> em_dash
      | Some (JStr s) \<Rightarrow> if s = [] then em_dash else s
      | Some (JNum q) \<Rightarrow> show_num q
      | Some (JBool t) \<Rightarrow> js_String (JBool t)
      | Some w \<Rightarrow> JSON_stringify w)"

fun is_primitive :: "json \<Rightarrow> bool" where
  "is_primitive (JStr _) = True"
| "is_primitive (JNum _) = True"
| "is_primitive (JBool _) = True"
| "is_primitive _ = False"

text \<open>Columns are their key and header; a cell is \<open>previewValue\<close> of the row's entry.\<close>

definition autoColumns :: "json js_record list \<Rightarrow> (string \<times> string) list" where
  "autoColumns rows =
     (case rows of
        [] \<Rightarrow> []
      | first # _ \<Rightarrow>
          (let prim = map fst (filter (\<lambda>kv. is_primitive (snd kv)) first);
               keys = (if prim = [] then map fst first else prim)
           in map (\<lambda>k. (k, map (\<lambda>c. if c = CHR ''_'' then CHR '' '' else c) k)) (take 8 keys)))"

subsection \<open>Scaling is exact\<close>

lemma scale_bytes_spec:
  assumes "scale_bytes n v u = (w, k)" and "u \<le> n"
  shows "v = w * 1024 ^ (k - u)" and "u \<le> k" and "k \<le> n" and "k < n \<Longrightarrow> w < 1024" and "u < k \<Longrightarrow> 1 \<le> w"
proof -
  have "v = w * 1024 ^ (k - u) \<and> u \<le> k \<and> k \<le> n \<and> (k < n \<longrightarrow> w < 1024) \<and> (u < k \<longrightarrow> 1 \<le> w)"
    using assms
  proof (induction n v u rule: scale_bytes.induct)
    case (1 n v u)
    show ?case
    proof (cases "v \<ge> 1024 \<and> u < n")
      case True
      then have "scale_bytes n (v / 1024) (Suc u) = (w, k)"
        using "1.prems"(1) by (simp add: scale_bytes.simps [of n v u])
      with 1 True have IH: "v / 1024 = w * 1024 ^ (k - Suc u)" "Suc u \<le> k" "k \<le> n"
          "k < n \<longrightarrow> w < 1024" "Suc u < k \<longrightarrow> 1 \<le> w"
        by simp_all
      have "k - u = Suc (k - Suc u)" using IH(2) by simp
      then have "v = w * 1024 ^ (k - u)" using IH(1) by simp
      moreover have "1 \<le> w" if "\<not> Suc u < k"
      proof -
        have "w = v / 1024" using IH(1,2) that by simp
        with True show ?thesis by simp
      qed
      ultimately show ?thesis using IH by auto
    next
      case False
      then have "scale_bytes n v u = (v, u)" by (subst scale_bytes.simps) (simp only: if_False)
      with "1.prems" False show ?thesis by auto
    qed
  qed
  then show "v = w * 1024 ^ (k - u)" and "u \<le> k" and "k \<le> n" and "k < n \<Longrightarrow> w < 1024" and "u < k \<Longrightarrow> 1 \<le> w"
    by blast+
qed

text \<open>
  What a byte formatter promises: a non-negative size is shown as a number and a unit that multiply
  to it exactly (up to the printed decimals), with the number below 1024 unless the unit is
  the largest, and at least 1 unless the unit is the byte.
\<close>

locale byte_formatter =
  fixes fmt :: "js_num option \<Rightarrow> string" and units :: "string list" and shown_as :: "nat \<Rightarrow> rat \<Rightarrow> string"
  assumes units_ne: "units \<noteq> []"
    and fmt_finite: "0 < q \<Longrightarrow> fmt (Some (Fin q)) =
      (case scale_bytes (length units - 1) q 0 of (v, u) \<Rightarrow> shown_as u v @ '' '' @ units ! u)"
begin

lemma fmt_exact:
  assumes "0 < q"
  shows "\<exists>v u. fmt (Some (Fin q)) = shown_as u v @ '' '' @ units ! u \<and> u < length units
    \<and> q = v * 1024 ^ u \<and> (u = length units - 1 \<or> v < 1024) \<and> (u = 0 \<or> 1 \<le> v)"
proof -
  obtain v u where s: "scale_bytes (length units - 1) q 0 = (v, u)" by fastforce
  have le: "u \<le> length units - 1" using scale_bytes_spec(3) [OF s] by simp
  then have "u < length units" using units_ne by (cases units) auto
  moreover have "q = v * 1024 ^ u" using scale_bytes_spec(1) [OF s] by simp
  moreover have "u = length units - 1 \<or> v < 1024" using scale_bytes_spec(4) [OF s] le by linarith
  moreover have "u = 0 \<or> 1 \<le> v" using scale_bytes_spec(5) [OF s] by auto
  moreover have "fmt (Some (Fin q)) = shown_as u v @ '' '' @ units ! u" using fmt_finite [OF assms] s by simp
  ultimately show ?thesis by blast
qed

end

definition fixed_one :: "nat \<Rightarrow> rat \<Rightarrow> string" where
  "fixed_one u v = toFixed (if u = 0 then 0 else 1) v"

definition plain_or_fixed :: "nat \<Rightarrow> rat \<Rightarrow> string" where
  "plain_or_fixed u v = (if u = 0 then show_num v else toFixed 1 v)"

interpretation customer_bytes: byte_formatter customer_formatBytes iec_units fixed_one
  by unfold_locales (simp_all add: customer_formatBytes_def iec_units_def scaled_text_def fixed_one_def split: prod.splits)

interpretation noc_bytes: byte_formatter noc_formatBytes iec_units fixed_one
  by unfold_locales (simp_all add: noc_formatBytes_def iec_units_def scaled_text_def fixed_one_def split: prod.splits)

interpretation attachment_bytes: byte_formatter attachment_formatBytes iec_units fixed_one
  by unfold_locales (simp_all add: attachment_formatBytes_def iec_units_def scaled_text_def fixed_one_def split: prod.splits)

interpretation infra_bytes: byte_formatter infra_formatBytes BYTE_UNITS plain_or_fixed
  by unfold_locales (simp_all add: infra_formatBytes_def BYTE_UNITS_def plain_or_fixed_def split: prod.splits)

text \<open>
  Every byte formatter of the consoles shows a positive size exactly: the number before rounding
  times the power of 1024 of the unit is the size, the number is below 1024 unless the unit is
  the largest, and at least 1 unless the unit is the byte.
\<close>

theorem byte_sizes_exact:
  assumes "(fmt, units, shown_as) \<in> {(customer_formatBytes, iec_units, fixed_one),
      (noc_formatBytes, iec_units, fixed_one), (attachment_formatBytes, iec_units, fixed_one),
      (infra_formatBytes, BYTE_UNITS, plain_or_fixed)}" and "0 < q"
  shows "\<exists>v u. fmt (Some (Fin q)) = shown_as u v @ '' '' @ units ! u \<and> u < length units
    \<and> q = v * 1024 ^ u \<and> (u = length units - 1 \<or> v < 1024) \<and> (u = 0 \<or> 1 \<le> v)"
  using assms(1) customer_bytes.fmt_exact [OF assms(2)] noc_bytes.fmt_exact [OF assms(2)]
    attachment_bytes.fmt_exact [OF assms(2)] infra_bytes.fmt_exact [OF assms(2)]
  by blast

theorem byte_sizes_exact_witness:
  "\<exists>v u. noc_formatBytes (Some (Fin 1048575)) = fixed_one u v @ '' '' @ iec_units ! u \<and> u < length iec_units
    \<and> 1048575 = v * 1024 ^ u \<and> (u = length iec_units - 1 \<or> v < 1024) \<and> (u = 0 \<or> 1 \<le> v)"
  by (rule byte_sizes_exact) simp_all

subsection \<open>Uptime\<close>

lemma floor_of_nat_div: "\<lfloor>(of_nat n :: rat) / of_nat k\<rfloor> = int (n div k)"
  using floor_divide_of_nat_eq [of n k, where ?'a = rat] by simp

lemma uptime_parts:
  "\<lfloor>(of_nat n :: rat) / 86400\<rfloor> = int (n div 86400)"
  "\<lfloor>((of_nat n :: rat) - 86400 * of_int \<lfloor>(of_nat n :: rat) / 86400\<rfloor>) / 3600\<rfloor> = int (n mod 86400 div 3600)"
  "\<lfloor>((of_nat n :: rat) - 3600 * of_int \<lfloor>(of_nat n :: rat) / 3600\<rfloor>) / 60\<rfloor> = int (n mod 3600 div 60)"
proof -
  have d: "\<lfloor>(of_nat n :: rat) / of_nat k\<rfloor> = int (n div k)" for n k by (rule floor_of_nat_div)
  have m: "(of_nat n :: rat) - of_nat k * of_nat (n div k) = of_nat (n mod k)" for n k :: nat
  proof -
    have "(of_nat n :: rat) = of_nat (k * (n div k) + n mod k)" by simp
    also have "\<dots> = of_nat k * of_nat (n div k) + of_nat (n mod k)" by (simp only: of_nat_add of_nat_mult)
    finally show ?thesis by simp
  qed
  show a: "\<lfloor>(of_nat n :: rat) / 86400\<rfloor> = int (n div 86400)" using d [of n 86400] by simp
  have h: "\<lfloor>(of_nat n :: rat) / 3600\<rfloor> = int (n div 3600)" using d [of n 3600] by simp
  show "\<lfloor>((of_nat n :: rat) - 86400 * of_int \<lfloor>(of_nat n :: rat) / 86400\<rfloor>) / 3600\<rfloor> = int (n mod 86400 div 3600)"
    using d [of "n mod 86400" 3600] m [of n 86400] by (simp add: a)
  show "\<lfloor>((of_nat n :: rat) - 3600 * of_int \<lfloor>(of_nat n :: rat) / 3600\<rfloor>) / 60\<rfloor> = int (n mod 3600 div 60)"
    using d [of "n mod 3600" 60] m [of n 3600] by (simp add: h)
qed

lemma uptime_text_nat:
  "uptime_text (of_nat n) =
     (if n \<ge> 86400 then show_nat (n div 86400) @ ''d '' @ show_nat (n mod 86400 div 3600) @ ''h''
      else if n \<ge> 3600 then show_nat (n div 3600) @ ''h '' @ show_nat (n mod 3600 div 60) @ ''m''
      else show_nat (n div 60) @ ''m'')"
proof -
  have [simp]: "show_int (int k) = show_nat k" for k by (simp add: show_int_def)
  have "n < 86400 \<Longrightarrow> n mod 86400 = n" "n < 3600 \<Longrightarrow> n mod 3600 = n" by simp_all
  then show ?thesis
    unfolding uptime_text_def Let_def unfolding uptime_parts(2,3) unfolding uptime_parts(1)
    by (auto simp: div_greater_zero_iff not_le)
qed

text \<open>
  The two uptime formatters agree and truncate: for a whole number of seconds the text names
  the days and the hours, or the hours and the minutes, or the minutes, and adding those up
  gives the uptime up to the smallest unit shown.
\<close>

theorem uptime_truncates:
  assumes "0 < n"
  shows "formatUptime (Some (of_nat n)) = fmtUptime (Some (of_nat n))
    \<and> (\<exists>big small unit_big unit_small rest.
         (unit_big, unit_small) \<in> {(86400, 3600), (3600, 60), (60, 1 :: nat)}
         \<and> n = big * unit_big + small * unit_small + rest
         \<and> rest < (if unit_small = 1 then 60 else unit_small) \<and> small * unit_small < unit_big
         \<and> formatUptime (Some (of_nat n)) =
             (if unit_big = 86400 then show_nat big @ ''d '' @ show_nat small @ ''h''
              else if unit_big = 3600 then show_nat big @ ''h '' @ show_nat small @ ''m''
              else show_nat big @ ''m''))"
proof
  show "formatUptime (Some (of_nat n)) = fmtUptime (Some (of_nat n))"
    by (simp add: formatUptime_def fmtUptime_def)
  have f: "formatUptime (Some (of_nat n)) = uptime_text (of_nat n)"
    using assms by (simp add: formatUptime_def)
  have parts: "n = n div b * b + n mod b div s * s + n mod b mod s" "n mod b mod s < s" "n mod b div s * s < b"
    if "0 < b" "0 < s" for b s :: nat
  proof -
    show "n = n div b * b + n mod b div s * s + n mod b mod s"
      by (metis add.assoc div_mult_mod_eq)
    show "n mod b mod s < s" using that by simp
    have "n mod b div s * s \<le> n mod b" by simp
    also have "\<dots> < b" using that by simp
    finally show "n mod b div s * s < b" .
  qed
  consider "n \<ge> 86400" | "n < 86400" "n \<ge> 3600" | "n < 3600" by linarith
  then show "\<exists>big small unit_big unit_small rest.
         (unit_big, unit_small) \<in> {(86400, 3600), (3600, 60), (60, 1 :: nat)}
         \<and> n = big * unit_big + small * unit_small + rest
         \<and> rest < (if unit_small = 1 then 60 else unit_small) \<and> small * unit_small < unit_big
         \<and> formatUptime (Some (of_nat n)) =
             (if unit_big = 86400 then show_nat big @ ''d '' @ show_nat small @ ''h''
              else if unit_big = 3600 then show_nat big @ ''h '' @ show_nat small @ ''m''
              else show_nat big @ ''m'')"
  proof cases
    case 1
    show ?thesis
    proof (intro exI conjI)
      show "(86400, 3600) \<in> {(86400, 3600), (3600, 60), (60, 1 :: nat)}" by simp
      show "n = n div 86400 * 86400 + n mod 86400 div 3600 * 3600 + n mod 86400 mod 3600" by (rule parts(1)) simp_all
      show "n mod 86400 mod 3600 < (if (3600 :: nat) = 1 then 60 else 3600)" using parts(2) [of 86400 3600] by simp
      show "n mod 86400 div 3600 * 3600 < 86400" by (rule parts(3)) simp_all
    qed (use 1 in \<open>simp add: f uptime_text_nat\<close>)
  next
    case 2
    show ?thesis
    proof (intro exI conjI)
      show "(3600, 60) \<in> {(86400, 3600), (3600, 60), (60, 1 :: nat)}" by simp
      show "n = n div 3600 * 3600 + n mod 3600 div 60 * 60 + n mod 3600 mod 60" by (rule parts(1)) simp_all
      show "n mod 3600 mod 60 < (if (60 :: nat) = 1 then 60 else 60)" using parts(2) [of 3600 60] by simp
      show "n mod 3600 div 60 * 60 < 3600" by (rule parts(3)) simp_all
    qed (use 2 in \<open>simp add: f uptime_text_nat\<close>)
  next
    case 3
    then show ?thesis
      unfolding f uptime_text_nat
      by (intro exI [of _ "n div 60"] exI [of _ 0] exI [of _ 60] exI [of _ 1] exI [of _ "n mod 60"]) simp
  qed
qed

theorem uptime_truncates_witness:
  "formatUptime (Some (of_nat 90061)) = fmtUptime (Some (of_nat 90061))
   \<and> fmtUptime (Some (of_nat 90061)) = ''1d 1h''"
proof
  have "(0 :: nat) < 90061" by simp
  from uptime_truncates [OF this] show "formatUptime (Some (of_nat 90061)) = fmtUptime (Some (of_nat 90061))"
    by (rule conjunct1)
  show "fmtUptime (Some (of_nat 90061)) = ''1d 1h''"
    using uptime_text_nat [of 90061] by (simp add: fmtUptime_def show_nat.simps)
qed

subsection \<open>The formatter caches\<close>

text \<open>A cache that holds, under each code, the formatter that would be built for it.\<close>

definition cache_fits :: "(string \<Rightarrow> number_format) \<Rightarrow> format_cache \<Rightarrow> bool" where
  "cache_fits build cache \<longleftrightarrow> (\<forall>code nf. cache code = Some nf \<longrightarrow> nf = build code)"

fun admin_call :: "(number_format \<Rightarrow> bool) \<Rightarrow> (number_format \<Rightarrow> rat \<Rightarrow> string) \<Rightarrow> rat option \<times> string option \<Rightarrow> format_cache \<Rightarrow> format_cache" where
  "admin_call ok intl (a, c) cache = snd (admin_formatMoney ok intl a c cache)"

fun finance_call :: "(number_format \<Rightarrow> bool) \<Rightarrow> (number_format \<Rightarrow> js_num \<Rightarrow> string) \<Rightarrow> amount option \<times> string option \<Rightarrow> format_cache \<Rightarrow> format_cache" where
  "finance_call ok intl (a, c) cache = snd (finance_formatMoney ok intl a c cache)"

definition finance_fits :: "(number_format \<Rightarrow> bool) \<Rightarrow> format_cache \<Rightarrow> bool" where
  "finance_fits ok cache \<longleftrightarrow>
     (\<forall>code nf. cache code = Some nf \<longrightarrow> nf = finance_money_format code \<and> ok nf)"

interpretation admin_cache: event_machine "admin_call ok intl" "cache_fits (admin_money_format ok)" for ok intl
proof
  fix e cache assume "cache_fits (admin_money_format ok) cache"
  then show "cache_fits (admin_money_format ok) (admin_call ok intl e cache)"
    by (cases e) (auto simp: cache_fits_def admin_formatMoney_def Let_def split: option.splits)
qed

interpretation finance_cache: event_machine "finance_call ok intl" "finance_fits ok" for ok intl
proof
  fix e cache assume "finance_fits ok cache"
  then show "finance_fits ok (finance_call ok intl e cache)"
    by (cases e)
      (auto simp: finance_fits_def finance_formatMoney_def Let_def split: option.splits js_num.splits)
qed

lemma admin_cached:
  "cache_fits (admin_money_format ok) cache \<Longrightarrow>
   fst (admin_formatMoney ok intl a c cache) = fst (admin_formatMoney ok intl a c Map.empty)"
  by (auto simp: cache_fits_def admin_formatMoney_def Let_def split: option.splits)

lemma finance_cached:
  "finance_fits ok cache \<Longrightarrow>
   fst (finance_formatMoney ok intl a c cache) = fst (finance_formatMoney ok intl a c Map.empty)"
  by (auto simp: finance_fits_def finance_formatMoney_def Let_def split: option.splits js_num.splits)

text \<open>
  The formatter caches of the admin and finance consoles are invisible: after any sequence of
  earlier calls, whatever currencies they used and whichever of them the constructor rejected,
  a call gives the result it would give with an empty cache.
\<close>

theorem money_caches_transparent:
  "fst (admin_formatMoney ok intl a c (fold (admin_call ok intl) calls Map.empty))
     = fst (admin_formatMoney ok intl a c Map.empty)
   \<and> fst (finance_formatMoney ok intl' x c (fold (finance_call ok intl') calls' Map.empty))
     = fst (finance_formatMoney ok intl' x c Map.empty)"
proof
  have "cache_fits (admin_money_format ok) (fold (admin_call ok intl) calls Map.empty)"
    by (rule admin_cache.run_inv) (simp add: cache_fits_def)
  then show "fst (admin_formatMoney ok intl a c (fold (admin_call ok intl) calls Map.empty))
      = fst (admin_formatMoney ok intl a c Map.empty)"
    by (rule admin_cached)
  have "finance_fits ok (fold (finance_call ok intl') calls' Map.empty)"
    by (rule finance_cache.run_inv) (simp add: finance_fits_def)
  then show "fst (finance_formatMoney ok intl' x c (fold (finance_call ok intl') calls' Map.empty))
      = fst (finance_formatMoney ok intl' x c Map.empty)"
    by (rule finance_cached)
qed

text \<open>
  In the admin console an amount without a currency is printed as rupiah with up to two decimals,
  while the same amount with the currency \<open>IDR\<close> is printed with none: the default is
  chosen after the number of decimals.
\<close>

theorem missing_currency_keeps_decimals:
  assumes "\<And>nf. ok nf"
  shows "fst (admin_formatMoney ok intl (Some v) None Map.empty)
      = intl \<lparr>nf_locale = None, nf_currency = Some ''IDR'', nf_digits = 2\<rparr> v
    \<and> fst (admin_formatMoney ok intl (Some v) (Some '' idr '') Map.empty)
      = intl \<lparr>nf_locale = None, nf_currency = Some ''IDR'', nf_digits = 0\<rparr> v"
proof -
  have "admin_code None = []" "admin_code (Some '' idr '') = ''IDR''" by code_simp+
  with assms show ?thesis by (simp add: admin_formatMoney_def admin_money_format_def Let_def)
qed

theorem missing_currency_keeps_decimals_witness:
  "fst (admin_formatMoney (\<lambda>_. True) (\<lambda>nf v. show_nat (nf_digits nf)) (Some (5 / 2)) None Map.empty) = show_nat 2
   \<and> fst (admin_formatMoney (\<lambda>_. True) (\<lambda>nf v. show_nat (nf_digits nf)) (Some (5 / 2)) (Some '' idr '') Map.empty) = show_nat 0"
  using missing_currency_keeps_decimals [of "\<lambda>_. True" "\<lambda>nf v. show_nat (nf_digits nf)" "5 / 2"] by simp

end
