(* ===== verification/Timestamps.thy ===== *)
theory Timestamps
  imports Js_Number
begin

text \<open>
  The timestamp parsers: \<open>parseApiDate\<close> (\<open>features/admin/pages/format.ts\<close>, with an identical copy
  in \<open>features/customer/format.ts\<close>), which normalises the backend's text to ISO and hands it to
  \<open>new Date\<close>, and \<open>parseTimestamp\<close> (\<open>features/finance/lib-utils.ts\<close>), which computes the instant
  itself with \<open>Date.UTC\<close>.

  A date is its time value, the milliseconds since 1970 UTC. \<open>new Date(text)\<close> reads the ISO
  format of the language standard (\<open>iso_date\<close>); what it makes of other texts depends on the
  engine and is the argument \<open>other\<close>. \<open>toLocaleString\<close> is an argument too.
\<close>

subsection \<open>Date arithmetic of the language\<close>

text \<open>Days from 1970-01-01 to the first of a month, months counted from 0 and carried into years.\<close>

definition leap :: "int \<Rightarrow> bool" where
  "leap y \<longleftrightarrow> y mod 4 = 0 \<and> (y mod 100 \<noteq> 0 \<or> y mod 400 = 0)"

definition days_before_year :: "int \<Rightarrow> int" where
  "days_before_year y = 365 * (y - 1970) + (y - 1969) div 4 - (y - 1901) div 100 + (y - 1601) div 400"

definition month_offset :: "nat \<Rightarrow> int" where
  "month_offset m = [0, 31, 59, 90, 120, 151, 181, 212, 243, 273, 304, 334] ! m"

definition MakeDay :: "int \<Rightarrow> int \<Rightarrow> int \<Rightarrow> int" where
  "MakeDay y m d =
     (let ym = y + m div 12; mn = nat (m mod 12)
      in days_before_year ym + month_offset mn + (if leap ym \<and> mn \<ge> 2 then 1 else 0) + d - 1)"

definition MakeDate :: "int \<Rightarrow> int \<Rightarrow> int \<Rightarrow> int \<Rightarrow> int \<Rightarrow> int \<Rightarrow> int \<Rightarrow> int" where
  "MakeDate y m d h mi s ms = MakeDay y m d * 86400000 + h * 3600000 + mi * 60000 + s * 1000 + ms"

text \<open>\<open>Date.UTC\<close> reads the years 0 to 99 as 1900 to 1999.\<close>

definition Date_UTC :: "int \<Rightarrow> int \<Rightarrow> int \<Rightarrow> int \<Rightarrow> int \<Rightarrow> int \<Rightarrow> int \<Rightarrow> int" where
  "Date_UTC y = MakeDate (if 0 \<le> y \<and> y \<le> 99 then 1900 + y else y)"

definition days_in_month :: "int \<Rightarrow> int \<Rightarrow> int" where
  "days_in_month y m =
     (if m = 2 then (if leap y then 29 else 28) else if m \<in> {4, 6, 9, 11} then 30 else 31)"

subsection \<open>Reading digits\<close>

definition digits :: "nat \<Rightarrow> string \<Rightarrow> (string \<times> string) option" where
  "digits n s = (let d = take n s in if length d = n \<and> list_all is_digit d then Some (d, drop n s) else None)"

definition expect :: "char set \<Rightarrow> string \<Rightarrow> string option" where
  "expect cs s = (case s of c # t \<Rightarrow> if c \<in> cs then Some t else None | [] \<Rightarrow> None)"

record clock_text =
  ct_year :: string
  ct_month :: string
  ct_day :: string
  ct_hour :: string
  ct_minute :: string
  ct_second :: string
  ct_fraction :: string

text \<open>\<open>(\d{4})-(\d{2})-(\d{2})[ T](\d{2}):(\d{2}):(\d{2})(?:\.(\d+))?\<close> and the rest of the text; an empty
  fraction is an absent one.\<close>

definition fraction_of :: "string \<Rightarrow> string \<times> string" where
  "fraction_of s =
     (case s of
        c # t \<Rightarrow> if c = CHR ''.'' \<and> takeWhile is_digit t \<noteq> []
                 then (takeWhile is_digit t, dropWhile is_digit t) else ([], s)
      | [] \<Rightarrow> ([], s))"

definition read_clock :: "char set \<Rightarrow> string \<Rightarrow> (clock_text \<times> string) option" where
  "read_clock seps s =
     Option.bind (digits 4 s) (\<lambda>(y, s).
     Option.bind (expect {CHR ''-''} s) (\<lambda>s.
     Option.bind (digits 2 s) (\<lambda>(mo, s).
     Option.bind (expect {CHR ''-''} s) (\<lambda>s.
     Option.bind (digits 2 s) (\<lambda>(d, s).
     Option.bind (expect seps s) (\<lambda>s.
     Option.bind (digits 2 s) (\<lambda>(h, s).
     Option.bind (expect {CHR '':''} s) (\<lambda>s.
     Option.bind (digits 2 s) (\<lambda>(mi, s).
     Option.bind (expect {CHR '':''} s) (\<lambda>s.
     Option.bind (digits 2 s) (\<lambda>(sec, s).
       case fraction_of s of (f, r) \<Rightarrow>
         Some (\<lparr>ct_year = y, ct_month = mo, ct_day = d, ct_hour = h, ct_minute = mi,
                ct_second = sec, ct_fraction = f\<rparr>, r))))))))))))"

text \<open>\<open>[+-]\d{2}(?::?\d{2})?\<close>: sign, hours, and the minutes if there are any.\<close>

record offset_text =
  of_minus :: bool
  of_hours :: string
  of_minutes :: string

definition read_offset :: "string \<Rightarrow> offset_text option" where
  "read_offset s =
     Option.bind (expect {CHR ''+'', CHR ''-''} s) (\<lambda>t.
     Option.bind (digits 2 t) (\<lambda>(hh, r).
       let m = (if r \<noteq> [] \<and> hd r = CHR '':'' then tl r else r)
       in if r = [] then Some \<lparr>of_minus = (hd s = CHR ''-''), of_hours = hh, of_minutes = []\<rparr>
          else case digits 2 m of
                 Some (mm, []) \<Rightarrow> Some \<lparr>of_minus = (hd s = CHR ''-''), of_hours = hh, of_minutes = mm\<rparr>
               | _ \<Rightarrow> None))"

subsection \<open>new Date on ISO text\<close>

definition clock_valid :: "clock_text \<Rightarrow> bool" where
  "clock_valid c \<longleftrightarrow>
     1 \<le> read_nat (ct_month c) \<and> read_nat (ct_month c) \<le> 12 \<and> 1 \<le> read_nat (ct_day c)
     \<and> int (read_nat (ct_day c)) \<le> days_in_month (int (read_nat (ct_year c))) (int (read_nat (ct_month c)))
     \<and> read_nat (ct_hour c) \<le> 23 \<and> read_nat (ct_minute c) \<le> 59 \<and> read_nat (ct_second c) \<le> 59"

definition clock_ms :: "(int \<Rightarrow> int \<Rightarrow> int \<Rightarrow> int \<Rightarrow> int \<Rightarrow> int \<Rightarrow> int \<Rightarrow> int) \<Rightarrow> clock_text \<Rightarrow> int \<Rightarrow> int" where
  "clock_ms instant c ms = instant (int (read_nat (ct_year c))) (int (read_nat (ct_month c)) - 1)
     (int (read_nat (ct_day c))) (int (read_nat (ct_hour c))) (int (read_nat (ct_minute c)))
     (int (read_nat (ct_second c))) ms"

definition offset_minutes :: "offset_text \<Rightarrow> int" where
  "offset_minutes o' = (if of_minus o' then -1 else 1)
     * (int (read_nat (of_hours o')) * 60 + int (read_nat (of_minutes o')))"

text \<open>\<open>YYYY-MM-DDTHH:mm:ss\<close>, optional \<open>.sss\<close>, then \<open>Z\<close> or \<open>+HH:mm\<close>.\<close>

definition iso_date :: "string \<Rightarrow> int option" where
  "iso_date s =
     (case read_clock {CHR ''T''} s of
        None \<Rightarrow> None
      | Some (c, r) \<Rightarrow>
          if \<not> clock_valid c \<or> length (ct_fraction c) \<notin> {0, 3} then None
          else if r = ''Z'' then Some (clock_ms MakeDate c (int (read_nat (ct_fraction c))))
          else if length r = 6 \<and> r ! 3 = CHR '':''
          then (case read_offset r of
                  Some o' \<Rightarrow>
                    if read_nat (of_hours o') \<le> 23 \<and> read_nat (of_minutes o') \<le> 59
                    then Some (clock_ms MakeDate c (int (read_nat (ct_fraction c))) - offset_minutes o' * 60000)
                    else None
                | None \<Rightarrow> None)
          else None)"

definition new_Date :: "(string \<Rightarrow> int option) \<Rightarrow> string \<Rightarrow> int option" where
  "new_Date other s = (case iso_date s of Some ms \<Rightarrow> Some ms | None \<Rightarrow> other s)"

subsection \<open>parseApiDate\<close>

definition pad3 :: "string \<Rightarrow> string" where
  "pad3 f = (let t = take 3 f in t @ replicate (3 - length t) CHR ''0'')"

definition iso_offset :: "offset_text \<Rightarrow> string" where
  "iso_offset o' = (if of_minus o' then ''-'' else ''+'') @ of_hours o' @ '':''
     @ (if of_minutes o' \<noteq> [] then of_minutes o' else ''00'')"

definition clock_iso :: "clock_text \<Rightarrow> string" where
  "clock_iso c = ct_year c @ ''-'' @ ct_month c @ ''-'' @ ct_day c @ ''T'' @ ct_hour c @ '':'' @ ct_minute c
     @ '':'' @ ct_second c @ (if ct_fraction c \<noteq> [] then ''.'' @ pad3 (ct_fraction c) else [])"

text \<open>The regular expression of \<open>parseApiDate\<close>: the ISO text it rewrites a match to.\<close>

definition api_iso :: "string \<Rightarrow> string option" where
  "api_iso s =
     (case read_clock {CHR '' '', CHR ''T''} s of
        None \<Rightarrow> None
      | Some (c, r) \<Rightarrow>
          if r = [] \<or> r = ''Z'' then Some (clock_iso c @ ''Z'')
          else (case read_offset r of Some o' \<Rightarrow> Some (clock_iso c @ iso_offset o') | None \<Rightarrow> None))"

definition parseApiDate :: "(string \<Rightarrow> int option) \<Rightarrow> string option \<Rightarrow> int option" where
  "parseApiDate other raw =
     (case raw of
        None \<Rightarrow> None
      | Some s \<Rightarrow>
          if s = [] then None
          else (case api_iso (trim s) of
                  Some t \<Rightarrow> new_Date other t
                | None \<Rightarrow> new_Date other (trim s)))"

definition admin_formatDateTime :: "(string \<Rightarrow> int option) \<Rightarrow> (int \<Rightarrow> string) \<Rightarrow> string option \<Rightarrow> string" where
  "admin_formatDateTime other locale raw =
     (case parseApiDate other raw of Some ms \<Rightarrow> locale ms | None \<Rightarrow> em_dash)"

definition customer_formatDateTime :: "(string \<Rightarrow> int option) \<Rightarrow> (int \<Rightarrow> string) \<Rightarrow> string option \<Rightarrow> string" where
  "customer_formatDateTime other locale value' =
     (case parseApiDate other value' of
        Some ms \<Rightarrow> locale ms
      | None \<Rightarrow>
          (case value' of
             None \<Rightarrow> em_dash
           | Some s \<Rightarrow> if s = [] then em_dash
                       else (case new_Date other s of Some ms \<Rightarrow> locale ms | None \<Rightarrow> s)))"

subsection \<open>parseTimestamp\<close>

definition millis_of :: "string \<Rightarrow> int" where
  "millis_of f = (if f \<noteq> [] then int (read_nat (pad3 f)) else 0)"

definition parseTimestamp :: "(string \<Rightarrow> int option) \<Rightarrow> string option \<Rightarrow> int option" where
  "parseTimestamp other value' =
     (case value' of
        None \<Rightarrow> None
      | Some s \<Rightarrow>
          if s = [] then None
          else (case read_clock {CHR ''T'', CHR '' ''} s of
                  Some (c, r) \<Rightarrow>
                    (let o' = dropWhile is_ws r in
                     if o' = [] then Some (clock_ms Date_UTC c (millis_of (ct_fraction c)))
                     else (case read_offset o' of
                             Some off \<Rightarrow>
                               Some (clock_ms Date_UTC c (millis_of (ct_fraction c)) - offset_minutes off * 60000)
                           | None \<Rightarrow> new_Date other s))
                | None \<Rightarrow> new_Date other s))"

definition finance_formatDateTime :: "(string \<Rightarrow> int option) \<Rightarrow> (int \<Rightarrow> string) \<Rightarrow> string option \<Rightarrow> string" where
  "finance_formatDateTime other locale value' =
     (case parseTimestamp other value' of Some ms \<Rightarrow> locale ms | None \<Rightarrow> em_dash)"

definition noc_fmtDateTime :: "(string \<Rightarrow> int option) \<Rightarrow> (int \<Rightarrow> string) \<Rightarrow> string option \<Rightarrow> string" where
  "noc_fmtDateTime other locale value' =
     (case value' of
        None \<Rightarrow> em_dash
      | Some s \<Rightarrow> if s = [] then em_dash
                  else (case new_Date other s of Some ms \<Rightarrow> locale ms | None \<Rightarrow> em_dash))"

subsection \<open>The text of a timestamp\<close>

definition two_digits :: "string \<Rightarrow> bool" where
  "two_digits d \<longleftrightarrow> length d = 2 \<and> list_all is_digit d"

definition clock_wf :: "clock_text \<Rightarrow> bool" where
  "clock_wf c \<longleftrightarrow> length (ct_year c) = 4 \<and> list_all is_digit (ct_year c)
     \<and> two_digits (ct_month c) \<and> two_digits (ct_day c) \<and> two_digits (ct_hour c)
     \<and> two_digits (ct_minute c) \<and> two_digits (ct_second c) \<and> list_all is_digit (ct_fraction c)"

definition clock_string :: "char \<Rightarrow> clock_text \<Rightarrow> string" where
  "clock_string sep c = ct_year c @ ''-'' @ ct_month c @ ''-'' @ ct_day c @ [sep] @ ct_hour c @ '':''
     @ ct_minute c @ '':'' @ ct_second c @ (if ct_fraction c \<noteq> [] then ''.'' @ ct_fraction c else [])"

definition offset_wf :: "offset_text \<Rightarrow> bool" where
  "offset_wf o' \<longleftrightarrow> two_digits (of_hours o') \<and> (of_minutes o' = [] \<or> two_digits (of_minutes o'))"

text \<open>\<open>+07\<close>, \<open>+0730\<close> or, with a colon, \<open>+07:30\<close>; no offset at all is UTC.\<close>

definition offset_string :: "bool \<Rightarrow> offset_text option \<Rightarrow> string" where
  "offset_string colon off =
     (case off of
        None \<Rightarrow> []
      | Some o' \<Rightarrow> (if of_minus o' then ''-'' else ''+'') @ of_hours o'
          @ (if of_minutes o' \<noteq> [] then (if colon then '':'' else []) @ of_minutes o' else []))"

lemma digits_append: "length d = n \<Longrightarrow> list_all is_digit d \<Longrightarrow> digits n (d @ s) = Some (d, s)"
  by (auto simp: digits_def)

lemma expect_Cons [simp]: "expect cs (c # s) = (if c \<in> cs then Some s else None)"
  by (simp add: expect_def)

text \<open>A rest that the fraction cannot swallow.\<close>

definition stops :: "string \<Rightarrow> bool" where
  "stops r \<longleftrightarrow> (case r of [] \<Rightarrow> True | c # _ \<Rightarrow> \<not> is_digit c \<and> c \<noteq> CHR ''.'')"

lemma fraction_of_text:
  assumes "list_all is_digit f" and "stops r"
  shows "fraction_of ((if f \<noteq> [] then ''.'' @ f else []) @ r) = (f, r)"
proof (cases "f = []")
  case True
  with assms show ?thesis by (auto simp: fraction_of_def stops_def split: list.splits)
next
  case False
  have f: "\<forall>c \<in> set f. is_digit c" using assms(1) by (simp add: list_all_iff)
  have t: "takeWhile is_digit (f @ r) = f" and d: "dropWhile is_digit (f @ r) = r"
    using f assms(2) by (cases r; simp add: stops_def)+
  show ?thesis using False by (simp add: fraction_of_def t d)
qed

lemma read_clock_text:
  assumes "clock_wf c" and "sep \<in> seps" and "stops r"
  shows "read_clock seps (clock_string sep c @ r) = Some (c, r)"
proof -
  have d: "digits 4 (ct_year c @ s) = Some (ct_year c, s)" "digits 2 (ct_month c @ s) = Some (ct_month c, s)"
    "digits 2 (ct_day c @ s) = Some (ct_day c, s)" "digits 2 (ct_hour c @ s) = Some (ct_hour c, s)"
    "digits 2 (ct_minute c @ s) = Some (ct_minute c, s)" "digits 2 (ct_second c @ s) = Some (ct_second c, s)" for s
    using assms(1) by (simp_all add: clock_wf_def two_digits_def digits_append)
  have f: "fraction_of ((if ct_fraction c \<noteq> [] then ''.'' @ ct_fraction c else []) @ r) = (ct_fraction c, r)"
    using assms by (intro fraction_of_text) (simp_all add: clock_wf_def)
  have tx: "clock_string sep c @ r = ct_year c @ CHR ''-'' # ct_month c @ CHR ''-'' # ct_day c @ sep # ct_hour c
      @ CHR '':'' # ct_minute c @ CHR '':'' # ct_second c @ (if ct_fraction c \<noteq> [] then ''.'' @ ct_fraction c else []) @ r"
    by (simp add: clock_string_def)
  show ?thesis
    unfolding read_clock_def tx using assms(2) by (simp add: d f)
qed

lemma read_offset_text:
  assumes "offset_wf o'"
  shows "read_offset (offset_string colon (Some o')) = Some o'"
proof -
  have h: "digits 2 (of_hours o' @ s) = Some (of_hours o', s)" for s
    using assms by (simp add: offset_wf_def two_digits_def digits_append)
  show ?thesis
  proof (cases "of_minutes o' = []")
    case True
    with h [of "[]"] show ?thesis
      by (cases o') (simp add: read_offset_def offset_string_def Let_def)
  next
    case False
    with assms have m: "two_digits (of_minutes o')" by (simp add: offset_wf_def)
    then have m': "digits 2 (of_minutes o') = Some (of_minutes o', [])"
      using digits_append [of "of_minutes o'" 2 "[]"] by (simp add: two_digits_def)
    obtain x y where xy: "of_minutes o' = x # y" using False by (cases "of_minutes o'") auto
    have "is_digit x" using m xy by (simp add: two_digits_def)
    then have "x \<noteq> CHR '':''" by (auto simp: is_digit_def)
    with h m' xy show ?thesis
      by (cases o') (simp add: read_offset_def offset_string_def Let_def)
  qed
qed

lemma offset_stops: "stops (offset_string colon off)"
  by (auto simp: stops_def offset_string_def is_digit_def split: option.splits)

subsection \<open>The two parsers agree\<close>

lemma pad3_digits:
  assumes "list_all is_digit f"
  shows "length (pad3 f) = 3" and "list_all is_digit (pad3 f)"
proof -
  show "length (pad3 f) = 3" by (simp add: pad3_def Let_def)
  have "is_digit CHR ''0''" by (simp add: is_digit_def)
  then show "list_all is_digit (pad3 f)"
    using assms by (auto simp: pad3_def Let_def list_all_iff dest: in_set_takeD)
qed

definition iso_clock :: "clock_text \<Rightarrow> clock_text" where
  "iso_clock c = (if ct_fraction c \<noteq> [] then c\<lparr>ct_fraction := pad3 (ct_fraction c)\<rparr> else c)"

lemma clock_iso_string: "clock_iso c = clock_string CHR ''T'' (iso_clock c)"
proof -
  have "pad3 f \<noteq> []" for f by (cases f) (simp_all add: pad3_def Let_def)
  then show ?thesis by (simp add: clock_iso_def clock_string_def iso_clock_def)
qed

lemma iso_clock_facts:
  assumes "clock_wf c"
  shows "clock_wf (iso_clock c)" and "clock_valid (iso_clock c) = clock_valid c"
    and "length (ct_fraction (iso_clock c)) \<in> {0, 3}"
    and "clock_ms instant (iso_clock c) (int (read_nat (ct_fraction (iso_clock c)))) = clock_ms instant c (millis_of (ct_fraction c))"
proof -
  have f: "list_all is_digit (ct_fraction c)" using assms by (simp add: clock_wf_def)
  show "clock_wf (iso_clock c)" "clock_valid (iso_clock c) = clock_valid c"
    using assms pad3_digits [OF f] by (simp_all add: iso_clock_def clock_wf_def clock_valid_def)
  show "length (ct_fraction (iso_clock c)) \<in> {0, 3}" using pad3_digits [OF f] by (simp add: iso_clock_def)
  have "read_nat [] = 0" by (simp add: read_nat_def)
  then show "clock_ms instant (iso_clock c) (int (read_nat (ct_fraction (iso_clock c)))) = clock_ms instant c (millis_of (ct_fraction c))"
    by (simp add: iso_clock_def clock_ms_def millis_of_def)
qed

definition full_offset :: "offset_text \<Rightarrow> offset_text" where
  "full_offset o' = (if of_minutes o' \<noteq> [] then o' else o'\<lparr>of_minutes := ''00''\<rparr>)"

lemma full_offset_facts:
  assumes "offset_wf o'"
  shows "offset_wf (full_offset o')" and "offset_minutes (full_offset o') = offset_minutes o'"
    and "iso_offset o' = offset_string True (Some (full_offset o'))"
    and "read_nat (of_hours (full_offset o')) = read_nat (of_hours o')"
    and "read_nat (of_minutes (full_offset o')) = read_nat (of_minutes o')"
proof -
  have z: "read_nat ''00'' = 0" "read_nat [] = 0" by (simp_all add: read_nat_def digit_val_def)
  show "offset_wf (full_offset o')"
    using assms by (auto simp: full_offset_def offset_wf_def two_digits_def is_digit_def)
  show "iso_offset o' = offset_string True (Some (full_offset o'))"
    by (simp add: iso_offset_def offset_string_def full_offset_def)
  show "offset_minutes (full_offset o') = offset_minutes o'"
    "read_nat (of_hours (full_offset o')) = read_nat (of_hours o')"
    "read_nat (of_minutes (full_offset o')) = read_nat (of_minutes o')"
    by (simp_all add: full_offset_def offset_minutes_def z)
qed

lemma two_digits_nth: "two_digits d \<Longrightarrow> \<exists>a b. d = [a, b]"
  by (auto simp: two_digits_def numeral_2_eq_2 length_Suc_conv)

definition instant_of :: "clock_text \<Rightarrow> offset_text option \<Rightarrow> int" where
  "instant_of c off = clock_ms MakeDate c (millis_of (ct_fraction c))
     - (case off of None \<Rightarrow> 0 | Some o' \<Rightarrow> offset_minutes o' * 60000)"

definition offset_valid :: "offset_text option \<Rightarrow> bool" where
  "offset_valid off \<longleftrightarrow> (case off of None \<Rightarrow> True
     | Some o' \<Rightarrow> offset_wf o' \<and> read_nat (of_hours o') \<le> 23 \<and> read_nat (of_minutes o') \<le> 59)"

lemma iso_date_normalised:
  assumes "clock_wf c" and "clock_valid c" and "offset_valid off"
  shows "iso_date (clock_iso c @ (case off of None \<Rightarrow> ''Z'' | Some o' \<Rightarrow> iso_offset o')) = Some (instant_of c off)"
proof -
  note ic = iso_clock_facts [OF assms(1)]
  show ?thesis
  proof (cases off)
    case None
    have "read_clock {CHR ''T''} (clock_iso c @ ''Z'') = Some (iso_clock c, ''Z'')"
      unfolding clock_iso_string by (rule read_clock_text [OF ic(1)]) (simp_all add: stops_def is_digit_def)
    with None assms(2) ic show ?thesis by (simp add: iso_date_def instant_of_def)
  next
    case (Some o')
    with assms(3) have o: "offset_wf o'" "read_nat (of_hours o') \<le> 23" "read_nat (of_minutes o') \<le> 59"
      by (simp_all add: offset_valid_def)
    note fo = full_offset_facts [OF o(1)]
    let ?r = "offset_string True (Some (full_offset o'))"
    have "read_clock {CHR ''T''} (clock_iso c @ ?r) = Some (iso_clock c, ?r)"
      unfolding clock_iso_string by (rule read_clock_text [OF ic(1)]) (simp_all add: offset_stops)
    moreover have "length ?r = 6 \<and> ?r ! 3 = CHR '':'' \<and> ?r \<noteq> ''Z''"
    proof -
      have "of_minutes (full_offset o') \<noteq> []" by (simp add: full_offset_def)
      with fo(1) obtain a b x y where "of_hours (full_offset o') = [a, b]" "of_minutes (full_offset o') = [x, y]"
        unfolding offset_wf_def by (meson two_digits_nth)
      then show ?thesis by (simp add: offset_string_def)
    qed
    moreover have "read_offset ?r = Some (full_offset o')" by (rule read_offset_text [OF fo(1)])
    ultimately show ?thesis
      using Some assms(2) ic o fo by (simp add: iso_date_def instant_of_def)
  qed
qed

lemma trim_ends: "s \<noteq> [] \<Longrightarrow> \<not> is_ws (hd s) \<Longrightarrow> \<not> is_ws (last s) \<Longrightarrow> trim s = s"
  by (metis dropWhile_eq_self_iff hd_rev rev_rev_ident trim_def)

definition stamp_text :: "char \<Rightarrow> bool \<Rightarrow> clock_text \<Rightarrow> offset_text option \<Rightarrow> string" where
  "stamp_text sep colon c off = clock_string sep c @ offset_string colon off"

lemma last_two_digits: "two_digits d \<Longrightarrow> d \<noteq> [] \<and> \<not> is_ws (last d)"
  by (frule two_digits_nth) (auto simp: two_digits_def digit_facts(1))

lemma stamp_ends:
  assumes "clock_wf c" and "offset_valid off"
  shows "stamp_text sep colon c off \<noteq> []" and "\<not> is_ws (hd (stamp_text sep colon c off))"
    and "\<not> is_ws (last (stamp_text sep colon c off))"
proof -
  obtain y ys where y: "ct_year c = y # ys" "is_digit y"
    using assms(1) by (cases "ct_year c") (auto simp: clock_wf_def)
  then show "stamp_text sep colon c off \<noteq> []" "\<not> is_ws (hd (stamp_text sep colon c off))"
    using digit_facts(1) by (simp_all add: stamp_text_def clock_string_def)
  have clock: "clock_string sep c \<noteq> [] \<and> \<not> is_ws (last (clock_string sep c))"
  proof (cases "ct_fraction c = []")
    case True
    with assms(1) show ?thesis
      using last_two_digits [of "ct_second c"] by (simp add: clock_string_def clock_wf_def)
  next
    case False
    then have "is_digit (last (ct_fraction c))" using assms(1) by (simp add: clock_wf_def list_all_iff)
    with False digit_facts(1) show ?thesis by (simp add: clock_string_def)
  qed
  show "\<not> is_ws (last (stamp_text sep colon c off))"
  proof (cases off)
    case None
    with clock show ?thesis by (simp add: stamp_text_def offset_string_def)
  next
    case (Some o')
    with assms(2) have "offset_wf o'" by (simp add: offset_valid_def)
    then show ?thesis
      using Some last_two_digits [of "of_hours o'"] last_two_digits [of "of_minutes o'"]
      by (auto simp: stamp_text_def offset_string_def offset_wf_def)
  qed
qed

lemma offset_no_ws: "dropWhile is_ws (offset_string colon off) = offset_string colon off"
  by (simp add: dropWhile_eq_self_iff offset_string_def is_ws_def split: option.splits)

lemma clock_ms_UTC: "100 \<le> read_nat (ct_year c) \<Longrightarrow> clock_ms Date_UTC c ms = clock_ms MakeDate c ms"
  by (simp add: clock_ms_def Date_UTC_def)

lemma offset_string_shape: "offset_string colon (Some o') \<noteq> []" "offset_string colon (Some o') \<noteq> ''Z''"
  by (simp_all add: offset_string_def)


definition sample_clock :: clock_text where
  "sample_clock = \<lparr>ct_year = ''2026'', ct_month = ''08'', ct_day = ''26'', ct_hour = ''11'', ct_minute = ''21'',
     ct_second = ''09'', ct_fraction = ''466271''\<rparr>"

definition jakarta :: "offset_text option" where
  "jakarta = Some \<lparr>of_minus = False, of_hours = ''07'', of_minutes = []\<rparr>"

lemma sample_stamp: "stamp_text CHR '' '' False sample_clock jakarta = ''2026-08-26 11:21:09.466271+07''"
  by code_simp

lemma sample_clock_valid: "clock_wf sample_clock" "clock_valid sample_clock" "100 \<le> read_nat (ct_year sample_clock)"
  "offset_valid jakarta" "instant_of sample_clock jakarta = 1787718069466"
  by code_simp+


end
