(* ===== verification/Page_Kit.thy ===== *)
theory Page_Kit
  imports Api_Client
begin

text \<open>
  What the pages of the consoles share. A page is a React component: a record of \<open>useState\<close> cells
  and asynchronous handlers. A handler is a \<open>script\<close>: it updates cells, awaits requests and
  continues with their results. A handler reads the cells of the render it was created in, so it is a
  function from that state to a script; what it does after an \<open>await\<close> sees only that state and
  the results, and writes through the setters.

  Scripts of several handlers run interleaved: a script runs up to its first \<open>await\<close>, and the
  scheduler resumes any waiting script next. \<open>Resume i n\<close> continues the \<open>i\<close>-th waiting
  script; \<open>n\<close> says which rejection of a \<open>Promise.all\<close> was the first.
\<close>

subsection \<open>Scripts\<close>

datatype ('s, 'c, 'r, 'e) script =
    Done
  | Throw 'e
  | Set "'s \<Rightarrow> 's" "('s, 'c, 'r, 'e) script"
  | Await "'c list" "'r list \<Rightarrow> nat \<Rightarrow> ('s, 'c, 'r, 'e) script"
  | Fork "('s, 'c, 'r, 'e) script" "('s, 'c, 'r, 'e) script"

primrec and_then :: "('s, 'c, 'r, 'e) script \<Rightarrow> ('s, 'c, 'r, 'e) script \<Rightarrow> ('s, 'c, 'r, 'e) script" where
  "and_then Done k = k"
| "and_then (Throw e) k = Throw e"
| "and_then (Set f s) k = Set f (and_then s k)"
| "and_then (Await cs g) k = Await cs (\<lambda>rs n. and_then (g rs n) k)"
| "and_then (Fork a s) k = Fork a (and_then s k)"

primrec try_catch :: "('s, 'c, 'r, 'e) script \<Rightarrow> ('e \<Rightarrow> ('s, 'c, 'r, 'e) script) \<Rightarrow> ('s, 'c, 'r, 'e) script" where
  "try_catch Done h = Done"
| "try_catch (Throw e) h = h e"
| "try_catch (Set f s) h = Set f (try_catch s h)"
| "try_catch (Await cs g) h = Await cs (\<lambda>rs n. try_catch (g rs n) h)"
| "try_catch (Fork a s) h = Fork a (try_catch s h)"

primrec finally_set :: "('s, 'c, 'r, 'e) script \<Rightarrow> ('s \<Rightarrow> 's) \<Rightarrow> ('s, 'c, 'r, 'e) script" where
  "finally_set Done f = Set f Done"
| "finally_set (Throw e) f = Set f (Throw e)"
| "finally_set (Set g s) f = Set g (finally_set s f)"
| "finally_set (Await cs g) f = Await cs (\<lambda>rs n. finally_set (g rs n) f)"
| "finally_set (Fork a s) f = Fork a (finally_set s f)"

text \<open>\<open>setFlag(true); try { ... } finally { setFlag(false) }\<close>.\<close>

definition with_flag :: "((bool \<Rightarrow> bool) \<Rightarrow> 's \<Rightarrow> 's) \<Rightarrow> ('s, 'c, 'r, 'e) script \<Rightarrow> ('s, 'c, 'r, 'e) script" where
  "with_flag flag s = Set (flag (\<lambda>_. True)) (finally_set s (flag (\<lambda>_. False)))"

text \<open>The same script over a bigger state, through a setter of the part.\<close>

primrec lift_script :: "(('t \<Rightarrow> 't) \<Rightarrow> 's \<Rightarrow> 's) \<Rightarrow> ('t, 'c, 'r, 'e) script \<Rightarrow> ('s, 'c, 'r, 'e) script" where
  "lift_script u Done = Done"
| "lift_script u (Throw e) = Throw e"
| "lift_script u (Set f s) = Set (u f) (lift_script u s)"
| "lift_script u (Await cs g) = Await cs (\<lambda>rs n. lift_script u (g rs n))"
| "lift_script u (Fork a s) = Fork (lift_script u a) (lift_script u s)"

subsection \<open>Running\<close>

record ('s, 'c, 'r, 'e) page =
  pg_state :: 's
  pg_browser :: browser
  pg_calls :: "'c list"
  pg_waiting :: "('r list \<times> ('r list \<Rightarrow> nat \<Rightarrow> ('s, 'c, 'r, 'e) script)) list"

fun perform_all :: "('c \<Rightarrow> browser \<Rightarrow> 'r \<times> browser) \<Rightarrow> 'c list \<Rightarrow> browser \<Rightarrow> 'r list \<times> browser" where
  "perform_all perform [] b = ([], b)"
| "perform_all perform (c # cs) b =
     (case perform c b of (r, b') \<Rightarrow> case perform_all perform cs b' of (rs, b'') \<Rightarrow> (r # rs, b''))"

primrec run_script ::
  "('c \<Rightarrow> browser \<Rightarrow> 'r \<times> browser) \<Rightarrow> ('s, 'c, 'r, 'e) script \<Rightarrow> ('s, 'c, 'r, 'e) page \<Rightarrow> ('s, 'c, 'r, 'e) page" where
  "run_script perform Done = id"
| "run_script perform (Throw e) = id"
| "run_script perform (Set f s) = (\<lambda>p. run_script perform s (p\<lparr>pg_state := f (pg_state p)\<rparr>))"
| "run_script perform (Await cs k) =
     (\<lambda>p. case perform_all perform cs (pg_browser p) of
            (rs, b) \<Rightarrow> p\<lparr>pg_browser := b, pg_calls := pg_calls p @ cs, pg_waiting := pg_waiting p @ [(rs, k)]\<rparr>)"
| "run_script perform (Fork a s) = (\<lambda>p. run_script perform s (run_script perform a p))"

datatype 'e page_event = User 'e | Resume nat nat

definition drop_nth :: "nat \<Rightarrow> 'a list \<Rightarrow> 'a list" where
  "drop_nth i xs = take i xs @ drop (Suc i) xs"

fun page_step ::
  "('c \<Rightarrow> browser \<Rightarrow> 'r \<times> browser) \<Rightarrow> ('u \<Rightarrow> 's \<Rightarrow> ('s, 'c, 'r, 'e) script) \<Rightarrow> 'u page_event
   \<Rightarrow> ('s, 'c, 'r, 'e) page \<Rightarrow> ('s, 'c, 'r, 'e) page" where
  "page_step perform handler (User u) p = run_script perform (handler u (pg_state p)) p"
| "page_step perform handler (Resume i n) p =
     (if i < length (pg_waiting p)
      then run_script perform (snd (pg_waiting p ! i) (fst (pg_waiting p ! i)) n)
             (p\<lparr>pg_waiting := drop_nth i (pg_waiting p)\<rparr>)
      else p)"

definition open_page :: "'s \<Rightarrow> browser \<Rightarrow> ('s, 'c, 'r, 'e) page" where
  "open_page s b = \<lparr>pg_state = s, pg_browser = b, pg_calls = [], pg_waiting = []\<rparr>"

subsection \<open>Calls of the API client\<close>

record api_call =
  ac_method :: string
  ac_path :: string
  ac_body :: "json option"
  ac_opts :: api_options

type_synonym api_result = "js_error + envelope"
type_synonym 's api_script = "('s, api_call, api_result, js_error) script"
type_synonym 's api_page = "('s, api_call, api_result, js_error) page"

definition perform_api :: "api_call \<Rightarrow> browser \<Rightarrow> api_result \<times> browser" where
  "perform_api c = request (ac_method c) (ac_path c) (ac_body c) (ac_opts c)"

definition api_get :: "string \<Rightarrow> api_options \<Rightarrow> api_call" where
  "api_get path opts = \<lparr>ac_method = ''GET'', ac_path = path, ac_body = None, ac_opts = opts\<rparr>"

definition api_post :: "string \<Rightarrow> json option \<Rightarrow> api_options \<Rightarrow> api_call" where
  "api_post path body opts = \<lparr>ac_method = ''POST'', ac_path = path, ac_body = body, ac_opts = opts\<rparr>"

definition api_put :: "string \<Rightarrow> json option \<Rightarrow> api_options \<Rightarrow> api_call" where
  "api_put path body opts = \<lparr>ac_method = ''PUT'', ac_path = path, ac_body = body, ac_opts = opts\<rparr>"

definition api_patch :: "string \<Rightarrow> json option \<Rightarrow> api_options \<Rightarrow> api_call" where
  "api_patch path body opts = \<lparr>ac_method = ''PATCH'', ac_path = path, ac_body = body, ac_opts = opts\<rparr>"

definition api_delete :: "string \<Rightarrow> api_options \<Rightarrow> api_call" where
  "api_delete path opts = \<lparr>ac_method = ''DELETE'', ac_path = path, ac_body = None, ac_opts = opts\<rparr>"

lemmas api_call_defs = api_get_def api_post_def api_put_def api_patch_def api_delete_def

lemma perform_api_verbs:
  "perform_api (api_get path opts) = apiGet path opts"
  "perform_api (api_post path body opts) = apiPost path body opts"
  "perform_api (api_put path body opts) = apiPut path body opts"
  "perform_api (api_patch path body opts) = apiPatch path body opts"
  "perform_api (api_delete path opts) = apiDelete path opts"
  by (simp_all add: perform_api_def api_call_defs apiGet_def apiPost_def apiPut_def apiPatch_def apiDelete_def fun_eq_iff)

text \<open>The calls that only read.\<close>

definition is_get :: "api_call \<Rightarrow> bool" where
  "is_get c \<longleftrightarrow> ac_method c = ''GET''"

lemma is_get_simps [simp]:
  "is_get (api_get p opts)" "\<not> is_get (api_post p b opts)" "\<not> is_get (api_put p b opts)" "\<not> is_get (api_patch p b opts)"
  "\<not> is_get (api_delete p opts)"
  by (simp_all add: is_get_def api_call_defs)

text \<open>\<open>await\<close> of one call: a rejection is thrown.\<close>

definition await :: "'c \<Rightarrow> ('a \<Rightarrow> ('s, 'c, 'e + 'a, 'e) script) \<Rightarrow> ('s, 'c, 'e + 'a, 'e) script" where
  "await c k = Await [c] (\<lambda>rs n. case hd rs of Inl e \<Rightarrow> Throw e | Inr x \<Rightarrow> k x)"

text \<open>\<open>await Promise.all\<close>: all results, or one of the rejections.\<close>

definition failures :: "('e + 'a) list \<Rightarrow> 'e list" where
  "failures rs = List.map_filter (\<lambda>r. case r of Inl e \<Rightarrow> Some e | Inr _ \<Rightarrow> None) rs"

definition await_all :: "'c list \<Rightarrow> ('a list \<Rightarrow> ('s, 'c, 'e + 'a, 'e) script) \<Rightarrow> ('s, 'c, 'e + 'a, 'e) script" where
  "await_all cs k = Await cs (\<lambda>rs n. if failures rs = [] then k (map projr rs)
     else Throw (failures rs ! (n mod length (failures rs))))"

subsection \<open>Toasts and common options\<close>

datatype toast = Success string | Failure string | Info string

record ui =
  toasts :: "toast list"

definition toast_success :: "string \<Rightarrow> 'a ui_scheme \<Rightarrow> 'a ui_scheme" where
  "toast_success m s = s\<lparr>toasts := toasts s @ [Success m]\<rparr>"

definition toast_error :: "string \<Rightarrow> 'a ui_scheme \<Rightarrow> 'a ui_scheme" where
  "toast_error m s = s\<lparr>toasts := toasts s @ [Failure m]\<rparr>"

definition toast_info :: "string \<Rightarrow> 'a ui_scheme \<Rightarrow> 'a ui_scheme" where
  "toast_info m s = s\<lparr>toasts := toasts s @ [Info m]\<rparr>"

text \<open>\<open>cause instanceof ApiError ? cause.message : fallback\<close>.\<close>

definition api_message :: "string \<Rightarrow> js_error \<Rightarrow> string" where
  "api_message fallback cause = (case cause of ApiError _ m _ _ \<Rightarrow> m | PlainError _ \<Rightarrow> fallback)"

text \<open>\<open>cause instanceof Error ? cause.message : fallback\<close>: every error of the model is one.\<close>

definition error_message :: "string \<Rightarrow> js_error \<Rightarrow> string" where
  "error_message fallback cause = err_message cause"

subsection \<open>Reading answers\<close>

text \<open>\<open>data ?? []\<close> of a declared array.\<close>

definition array_or_empty :: "json option \<Rightarrow> json list" where
  "array_or_empty v = (case v of Some (JArr xs) \<Rightarrow> xs | _ \<Rightarrow> [])"

text \<open>The value a setter stores for an answer: \<open>null\<close> is the empty cell.\<close>

definition non_null :: "json \<Rightarrow> json option" where
  "non_null v = (if v = JNull then None else Some v)"

text \<open>A route parameter that is absent or empty.\<close>

definition missing :: "string option \<Rightarrow> bool" where
  "missing v \<longleftrightarrow> v = None \<or> v = Some []"

text \<open>\<open>String(v)\<close> and the same in a template literal, of a property that may be absent.\<close>

definition undefined_String :: "json option \<Rightarrow> string" where
  "undefined_String v = (case v of None \<Rightarrow> ''undefined'' | Some j \<Rightarrow> js_String j)"

text \<open>A property used as a condition.\<close>

definition flag_prop :: "string \<Rightarrow> json \<Rightarrow> bool" where
  "flag_prop k row = (case prop_of row k of Some v \<Rightarrow> truthy v | None \<Rightarrow> False)"

text \<open>Properties of declared type number and string.\<close>

definition num_prop :: "string \<Rightarrow> json \<Rightarrow> rat" where
  "num_prop k row = (case prop_of row k of Some (JNum q) \<Rightarrow> q | _ \<Rightarrow> 0)"

definition str_prop :: "string \<Rightarrow> json \<Rightarrow> string" where
  "str_prop k row = (case prop_of row k of Some (JStr s) \<Rightarrow> s | _ \<Rightarrow> [])"

text \<open>What a request body holds: a text that is trimmed and not blank.\<close>

definition trimmed_text :: "string \<Rightarrow> json \<Rightarrow> bool" where
  "trimmed_text k body \<longleftrightarrow> (\<exists>t. prop_of body k = Some (JStr t) \<and> t \<noteq> [] \<and> trim t = t)"

text \<open>A number the field may have, or \<open>null\<close> for one that is not finite.\<close>

definition number_where :: "(rat \<Rightarrow> bool) \<Rightarrow> string \<Rightarrow> json \<Rightarrow> bool" where
  "number_where P k body \<longleftrightarrow> prop_of body k \<in> {Some JNull} \<union> {Some (JNum q) |q. P q}"

definition finite_where :: "(rat \<Rightarrow> bool) \<Rightarrow> string \<Rightarrow> json \<Rightarrow> bool" where
  "finite_where P k body \<longleftrightarrow> (\<exists>q. prop_of body k = Some (JNum q) \<and> P q)"

text \<open>The identifier of a row in a path.\<close>

definition row_id :: "json \<Rightarrow> string" where
  "row_id row = undefined_String (prop_of row ''id'')"

text \<open>Induction with one hypothesis per continuation.\<close>

lemma script_induct [case_names Done Throw Set Await Fork, induct type: script]:
  assumes "P Done" and "\<And>e. P (Throw e)" and "\<And>f s. P s \<Longrightarrow> P (Set f s)"
    and "\<And>cs k. (\<And>rs n. P (k rs n)) \<Longrightarrow> P (Await cs k)" and "\<And>a s. P a \<Longrightarrow> P s \<Longrightarrow> P (Fork a s)"
  shows "P s"
proof (induction s rule: script.induct)
  case (Await cs k)
  show ?case by (rule assms(4)) (rule Await [OF rangeI rangeI])
qed (use assms in auto)

subsection \<open>What a script may do\<close>

text \<open>Every setter keeps \<open>I\<close> and every call is \<open>allowed\<close>, whatever the answers.\<close>

primrec script_ok :: "('s \<Rightarrow> bool) \<Rightarrow> ('c \<Rightarrow> bool) \<Rightarrow> ('s, 'c, 'r, 'e) script \<Rightarrow> bool" where
  "script_ok I allowed Done = True"
| "script_ok I allowed (Throw e) = True"
| "script_ok I allowed (Set f s) = ((\<forall>x. I x \<longrightarrow> I (f x)) \<and> script_ok I allowed s)"
| "script_ok I allowed (Await cs k) = (list_all allowed cs \<and> (\<forall>rs n. script_ok I allowed (k rs n)))"
| "script_ok I allowed (Fork a s) = (script_ok I allowed a \<and> script_ok I allowed s)"

text \<open>Every path ends with the flag \<open>busy\<close> lowered: \<open>low\<close> says whether it is known to be
  lowered at the start. A forked script must lower what it raises itself.\<close>

primrec ends_low :: "('s \<Rightarrow> bool) \<Rightarrow> ('s, 'c, 'r, 'e) script \<Rightarrow> bool \<Rightarrow> bool" where
  "ends_low busy Done low = low"
| "ends_low busy (Throw e) low = low"
| "ends_low busy (Set f s) low =
     ends_low busy s ((\<forall>x. \<not> busy (f x)) \<or> low \<and> (\<forall>x. busy (f x) \<longrightarrow> busy x))"
| "ends_low busy (Await cs k) low = (\<forall>rs n. ends_low busy (k rs n) low)"
| "ends_low busy (Fork a s) low = (ends_low busy a True \<and> ends_low busy s low)"

lemma ends_low_mono: "ends_low busy s low \<Longrightarrow> (low \<Longrightarrow> low') \<Longrightarrow> ends_low busy s low'"
proof (induction s arbitrary: low low')
  case (Set f s)
  show ?case unfolding ends_low.simps
    by (rule Set.IH [OF Set.prems(1) [unfolded ends_low.simps]]) (use Set.prems(2) in blast)
next
  case (Await cs k)
  show ?case unfolding ends_low.simps
    by (intro allI, rule Await.IH [of _ _ low]) (use Await.prems in auto)
qed auto

named_theorems script_intros \<open>how the predicates on scripts pass through the combinators\<close>

lemma script_ok_and_then [script_intros]:
  "script_ok I allowed s \<Longrightarrow> script_ok I allowed k \<Longrightarrow> script_ok I allowed (and_then s k)"
  by (induction s) auto

lemma script_ok_try_catch [script_intros]:
  "script_ok I allowed s \<Longrightarrow> (\<And>e. script_ok I allowed (h e)) \<Longrightarrow> script_ok I allowed (try_catch s h)"
  by (induction s) auto

lemma script_ok_finally [script_intros]:
  "script_ok I allowed s \<Longrightarrow> (\<And>x. I x \<Longrightarrow> I (f x)) \<Longrightarrow> script_ok I allowed (finally_set s f)"
  by (induction s) auto

lemma script_ok_await [script_intros]:
  "allowed c \<Longrightarrow> (\<And>x. script_ok I allowed (k x)) \<Longrightarrow> script_ok I allowed (await c k)"
  by (simp add: await_def split: sum.splits)

lemma script_ok_await_all [script_intros]:
  "list_all allowed cs \<Longrightarrow> (\<And>xs. script_ok I allowed (k xs)) \<Longrightarrow> script_ok I allowed (await_all cs k)"
  by (simp add: await_all_def)

lemma script_ok_mono:
  "script_ok I allowed s \<Longrightarrow> (\<And>c. allowed c \<Longrightarrow> allowed' c) \<Longrightarrow> script_ok I allowed' s"
  by (induction s) (auto simp: list_all_iff)

lemma script_ok_lift [script_intros]:
  "script_ok (\<lambda>_. True) allowed s \<Longrightarrow> (\<And>f x. I x \<Longrightarrow> I (u f x)) \<Longrightarrow> script_ok I allowed (lift_script u s)"
  by (induction s) auto

lemma ends_low_lift [script_intros]:
  "(\<And>f x. busy (u f x) = busy x) \<Longrightarrow> low \<Longrightarrow> ends_low busy (lift_script u s) low"
  by (induction s arbitrary: low) auto

lemma ends_low_and_then [script_intros]:
  "ends_low busy s low \<Longrightarrow> ends_low busy k True \<Longrightarrow> ends_low busy (and_then s k) low"
  by (induction s arbitrary: low) (auto intro: ends_low_mono)

lemma ends_low_try_catch [script_intros]:
  "ends_low busy s low \<Longrightarrow> (\<And>e. ends_low busy (h e) True) \<Longrightarrow> ends_low busy (try_catch s h) low"
  by (induction s arbitrary: low) (auto intro: ends_low_mono)

lemma ends_low_finally:
  assumes "\<And>x. \<not> busy (f x)"
  shows "ends_low busy s True \<Longrightarrow> ends_low busy (finally_set s f) low"
proof (induction s arbitrary: low)
  case (Set g s)
  show ?case
  proof (cases "\<forall>x. busy (g x) \<longrightarrow> busy x")
    case True
    with Set show ?thesis by simp
  next
    case False
    with Set have "ends_low busy s True" by (auto intro: ends_low_mono)
    with Set show ?thesis by simp
  qed
qed (use assms in auto)

lemma ends_low_await [script_intros]:
  "low \<Longrightarrow> (\<And>x. ends_low busy (k x) low) \<Longrightarrow> ends_low busy (await c k) low"
  by (simp add: await_def split: sum.splits)

lemma ends_low_await_all [script_intros]:
  "low \<Longrightarrow> (\<And>xs. ends_low busy (k xs) low) \<Longrightarrow> ends_low busy (await_all cs k) low"
  by (simp add: await_all_def)

lemma ends_low_finally_keep [script_intros]:
  "ends_low busy s low \<Longrightarrow> (\<And>x. busy (f x) \<Longrightarrow> busy x) \<Longrightarrow> ends_low busy (finally_set s f) low"
  by (induction s arbitrary: low) auto

lemma script_ok_with_flag [script_intros]:
  "script_ok I allowed s \<Longrightarrow> (\<And>g x. I x \<Longrightarrow> I (flag g x)) \<Longrightarrow> script_ok I allowed (with_flag flag s)"
  by (simp add: with_flag_def script_ok_finally)

text \<open>The flag a handler raises is lowered in the end; another flag is not its business.\<close>

lemma ends_low_with_flag [script_intros]:
  assumes "ends_low busy s True" and "(\<forall>x. \<not> busy (flag (\<lambda>_. False) x)) \<or> (\<forall>g x. busy (flag g x) = busy x)"
  shows "ends_low busy (with_flag flag s) True"
  using assms(2)
proof
  assume "\<forall>x. \<not> busy (flag (\<lambda>_. False) x)"
  then show ?thesis unfolding with_flag_def ends_low.simps by (intro ends_low_finally [OF _ assms(1)]) simp
next
  assume keeps: "\<forall>g x. busy (flag g x) = busy x"
  have "ends_low busy (finally_set s (flag (\<lambda>_. False))) True"
    by (rule ends_low_finally_keep [OF assms(1)]) (use keeps in blast)
  with keeps show ?thesis by (simp add: with_flag_def)
qed

subsection \<open>Runs of a page\<close>

definition run_page ::
  "('c \<Rightarrow> browser \<Rightarrow> 'r \<times> browser) \<Rightarrow> ('u \<Rightarrow> 's \<Rightarrow> ('s, 'c, 'r, 'e) script) \<Rightarrow> 'u page_event list
   \<Rightarrow> ('s, 'c, 'r, 'e) page \<Rightarrow> ('s, 'c, 'r, 'e) page" where
  "run_page perform handler es p = fold (page_step perform handler) es p"

definition waiting_ok :: "('s \<Rightarrow> bool) \<Rightarrow> ('c \<Rightarrow> bool) \<Rightarrow> ('s, 'c, 'r, 'e) page \<Rightarrow> bool" where
  "waiting_ok I allowed p \<longleftrightarrow> (\<forall>w \<in> set (pg_waiting p). \<forall>rs n. script_ok I allowed (snd w rs n))"

definition page_ok :: "('s \<Rightarrow> bool) \<Rightarrow> ('c \<Rightarrow> bool) \<Rightarrow> ('s, 'c, 'r, 'e) page \<Rightarrow> bool" where
  "page_ok I allowed p \<longleftrightarrow> I (pg_state p) \<and> list_all allowed (pg_calls p) \<and> waiting_ok I allowed p"

lemma run_script_ok: "script_ok I allowed s \<Longrightarrow> page_ok I allowed p \<Longrightarrow> page_ok I allowed (run_script perform s p)"
proof (induction s arbitrary: p)
  case (Set f s)
  show ?case using Set.IH [of "p\<lparr>pg_state := f (pg_state p)\<rparr>"] Set.prems
    by (simp add: page_ok_def waiting_ok_def)
next
  case (Await cs k)
  then show ?case by (auto simp: page_ok_def waiting_ok_def split: prod.splits)
qed simp_all

text \<open>The flag is down, or a waiting script will lower it.\<close>

definition promises :: "('s \<Rightarrow> bool) \<Rightarrow> 'r list \<times> ('r list \<Rightarrow> nat \<Rightarrow> ('s, 'c, 'r, 'e) script) \<Rightarrow> bool" where
  "promises busy w \<longleftrightarrow> (\<forall>rs n. ends_low busy (snd w rs n) False)"

definition attended :: "('s \<Rightarrow> bool) \<Rightarrow> ('s, 'c, 'r, 'e) page \<Rightarrow> bool" where
  "attended busy p \<longleftrightarrow> busy (pg_state p) \<longrightarrow> (\<exists>w \<in> set (pg_waiting p). promises busy w)"

definition entries_low :: "('s \<Rightarrow> bool) \<Rightarrow> ('s, 'c, 'r, 'e) page \<Rightarrow> bool" where
  "entries_low busy p \<longleftrightarrow> (\<forall>w \<in> set (pg_waiting p). \<forall>rs n. ends_low busy (snd w rs n) True)"

lemma run_script_low:
  "ends_low busy s low \<Longrightarrow> entries_low busy p \<Longrightarrow>
   entries_low busy (run_script perform s p) \<and> ((low \<longrightarrow> attended busy p) \<longrightarrow> attended busy (run_script perform s p))"
proof (induction s arbitrary: p low)
  case (Set f s)
  let ?low = "(\<forall>x. \<not> busy (f x)) \<or> low \<and> (\<forall>x. busy (f x) \<longrightarrow> busy x)"
  let ?p = "p\<lparr>pg_state := f (pg_state p)\<rparr>"
  have "entries_low busy ?p" using Set.prems(2) by (simp add: entries_low_def)
  with Set.IH [of ?low ?p] Set.prems(1)
  have "entries_low busy (run_script perform s ?p) \<and> ((?low \<longrightarrow> attended busy ?p) \<longrightarrow> attended busy (run_script perform s ?p))"
    by simp
  moreover have "(low \<longrightarrow> attended busy p) \<longrightarrow> ?low \<longrightarrow> attended busy ?p" by (auto simp: attended_def)
  ultimately show ?case by auto
next
  case (Await cs k)
  have "ends_low busy (k rs n) True" for rs n using Await.prems(1) by (auto intro: ends_low_mono)
  with Await.prems show ?case
    by (auto simp: entries_low_def attended_def promises_def split: prod.splits)
next
  case (Fork a s)
  then have a: "entries_low busy (run_script perform a p)"
    "attended busy p \<Longrightarrow> attended busy (run_script perform a p)"
    using Fork.IH(1) [of True p] by simp_all
  with Fork.IH(2) [of low "run_script perform a p"] Fork.prems show ?case by auto
qed simp_all

lemma drop_nth_set: "set (drop_nth i xs) \<subseteq> set xs"
  unfolding drop_nth_def by (auto dest: in_set_takeD in_set_dropD)

lemma drop_nth_rest: "i < length xs \<Longrightarrow> w \<in> set xs \<Longrightarrow> w \<noteq> xs ! i \<Longrightarrow> w \<in> set (drop_nth i xs)"
  using id_take_nth_drop [of i xs] unfolding drop_nth_def
  by (metis Un_iff set_ConsD set_append)

text \<open>The same, for a script that starts in a known state: the setters before its first
  \<open>await\<close> act on that state.\<close>

primrec script_ok_at :: "('s \<Rightarrow> bool) \<Rightarrow> ('c \<Rightarrow> bool) \<Rightarrow> ('s, 'c, 'r, 'e) script \<Rightarrow> 's \<Rightarrow> bool" where
  "script_ok_at I allowed Done x = True"
| "script_ok_at I allowed (Throw e) x = True"
| "script_ok_at I allowed (Set f s) x = (I (f x) \<and> script_ok_at I allowed s (f x))"
| "script_ok_at I allowed (Await cs k) x = script_ok I allowed (Await cs k)"
| "script_ok_at I allowed (Fork a s) x = script_ok I allowed (Fork a s)"

lemma script_ok_imp_at: "script_ok I allowed s \<Longrightarrow> I x \<Longrightarrow> script_ok_at I allowed s x"
  by (induction s arbitrary: x) auto

lemma run_script_ok_at:
  "script_ok_at I allowed s (pg_state p) \<Longrightarrow> page_ok I allowed p \<Longrightarrow> page_ok I allowed (run_script perform s p)"
proof (induction s arbitrary: p)
  case (Set f s)
  show ?case using Set.IH [of "p\<lparr>pg_state := f (pg_state p)\<rparr>"] Set.prems
    by (simp add: page_ok_def waiting_ok_def)
next
  case (Await cs k)
  then show ?case using run_script_ok [of I allowed "Await cs k" p] by simp
next
  case (Fork a s)
  then show ?case using run_script_ok [of I allowed "Fork a s" p] by simp
qed simp_all

text \<open>
  The contract of a page: from a state with the invariant every handler is a script that keeps it
  and makes only allowed calls. Then every run keeps both, in every interleaving.
\<close>

locale page_machine =
  fixes perform :: "'c \<Rightarrow> browser \<Rightarrow> 'r \<times> browser"
    and handler :: "'u \<Rightarrow> 's \<Rightarrow> ('s, 'c, 'r, 'e) script"
    and I :: "'s \<Rightarrow> bool"
    and allowed :: "'c \<Rightarrow> bool"
  assumes handler_ok_at: "I s \<Longrightarrow> script_ok_at I allowed (handler u s) s"
begin

lemma step_ok: "page_ok I allowed p \<Longrightarrow> page_ok I allowed (page_step perform handler e p)"
proof (cases e)
  case (User u)
  assume p: "page_ok I allowed p"
  then have "script_ok_at I allowed (handler u (pg_state p)) (pg_state p)" by (simp add: handler_ok_at page_ok_def)
  with p User show ?thesis by (simp add: run_script_ok_at)
next
  case (Resume i n)
  assume p: "page_ok I allowed p"
  have "page_ok I allowed (p\<lparr>pg_waiting := drop_nth i (pg_waiting p)\<rparr>)"
    using p drop_nth_set [of i "pg_waiting p"] by (auto simp: page_ok_def waiting_ok_def)
  moreover have "script_ok I allowed (snd (pg_waiting p ! i) (fst (pg_waiting p ! i)) n)"
    if "i < length (pg_waiting p)"
    using p that by (simp add: page_ok_def waiting_ok_def)
  ultimately show ?thesis using p Resume by (auto intro: run_script_ok)
qed

lemma run_ok: "page_ok I allowed p \<Longrightarrow> page_ok I allowed (run_page perform handler es p)"
  unfolding run_page_def by (induction es arbitrary: p) (simp_all add: step_ok)

lemma opened_ok: "I s \<Longrightarrow> page_ok I allowed (open_page s b)"
  by (simp add: page_ok_def waiting_ok_def open_page_def)

lemma runs_keep: "I s \<Longrightarrow> I (pg_state (run_page perform handler es (open_page s b)))"
  and runs_call: "I s \<Longrightarrow> list_all allowed (pg_calls (run_page perform handler es (open_page s b)))"
  using run_ok [OF opened_ok] unfolding page_ok_def by blast+

end

text \<open>The usual case: the setters keep the invariant from every state.\<close>

locale page_contract =
  fixes perform :: "'c \<Rightarrow> browser \<Rightarrow> 'r \<times> browser"
    and handler :: "'u \<Rightarrow> 's \<Rightarrow> ('s, 'c, 'r, 'e) script"
    and I :: "'s \<Rightarrow> bool"
    and allowed :: "'c \<Rightarrow> bool"
  assumes handler_ok: "I s \<Longrightarrow> script_ok I allowed (handler u s)"

sublocale page_contract \<subseteq> page_machine
  by unfold_locales (simp add: script_ok_imp_at handler_ok)

text \<open>A page whose handlers lower the busy flag they raise.\<close>

locale page_flag =
  fixes perform :: "'c \<Rightarrow> browser \<Rightarrow> 'r \<times> browser"
    and handler :: "'u \<Rightarrow> 's \<Rightarrow> ('s, 'c, 'r, 'e) script"
    and busy :: "'s \<Rightarrow> bool"
  assumes handler_low: "ends_low busy (handler u s) True"
begin

definition flag_ok :: "('s, 'c, 'r, 'e) page \<Rightarrow> bool" where
  "flag_ok p \<longleftrightarrow> entries_low busy p \<and> attended busy p"

lemma step_flag: "flag_ok p \<Longrightarrow> flag_ok (page_step perform handler e p)"
proof (cases e)
  case (User u)
  then show "flag_ok p \<Longrightarrow> ?thesis"
    using run_script_low [OF handler_low] by (auto simp: flag_ok_def)
next
  case (Resume i n)
  assume p: "flag_ok p"
  show ?thesis
  proof (cases "i < length (pg_waiting p)")
    case True
    let ?w = "pg_waiting p ! i" and ?p = "p\<lparr>pg_waiting := drop_nth i (pg_waiting p)\<rparr>"
    have e: "entries_low busy ?p"
      using p drop_nth_set [of i "pg_waiting p"] by (auto simp: flag_ok_def entries_low_def)
    have w: "ends_low busy (snd ?w (fst ?w) n) True" using p True by (simp add: flag_ok_def entries_low_def)
    have "promises busy ?w \<Longrightarrow> ends_low busy (snd ?w (fst ?w) n) False" by (simp add: promises_def)
    moreover have "\<not> promises busy ?w \<Longrightarrow> attended busy ?p"
      using p drop_nth_rest [OF True] unfolding flag_ok_def attended_def by simp metis
    ultimately show ?thesis
      using run_script_low [OF _ e] w True Resume by (auto simp: flag_ok_def)
  next
    case False
    with p Resume show ?thesis by simp
  qed
qed

lemma runs_flag: "flag_ok p \<Longrightarrow> flag_ok (run_page perform handler es p)"
  unfolding run_page_def by (induction es arbitrary: p) (simp_all add: step_flag)

text \<open>When nothing is in flight the flag is down.\<close>

lemma idle_not_busy:
  assumes "\<not> busy s" and "pg_waiting (run_page perform handler es (open_page s b)) = []"
  shows "\<not> busy (pg_state (run_page perform handler es (open_page s b)))"
proof -
  have "flag_ok (open_page s b)" using assms(1) by (simp add: flag_ok_def entries_low_def attended_def open_page_def)
  then have "flag_ok (run_page perform handler es (open_page s b))" by (rule runs_flag)
  with assms(2) show ?thesis by (simp add: flag_ok_def attended_def)
qed

end

text \<open>Every page comes to rest: resuming the newest waiting script again and again empties the queue.
  \<open>answers\<close> are events of the network alone.\<close>

definition answers :: "(nat \<times> nat) list \<Rightarrow> 'u page_event list" where
  "answers ins = map (\<lambda>(i, n). Resume i n) ins"

definition drains ::
  "('c \<Rightarrow> browser \<Rightarrow> 'r \<times> browser) \<Rightarrow> ('u \<Rightarrow> 's \<Rightarrow> ('s, 'c, 'r, 'e) script)
   \<Rightarrow> ('r list \<times> ('r list \<Rightarrow> nat \<Rightarrow> ('s, 'c, 'r, 'e) script)) list \<Rightarrow> bool" where
  "drains perform handler A \<longleftrightarrow>
     (\<forall>q ws. pg_waiting q = ws @ A \<longrightarrow> (\<exists>ins. pg_waiting (run_page perform handler (answers ins) q) = ws))"

lemma run_page_append:
  "run_page perform handler (es @ es') p = run_page perform handler es' (run_page perform handler es p)"
  by (simp add: run_page_def)

lemma answers_append: "answers (ins @ ins') = answers ins @ answers ins'"
  by (simp add: answers_def)

lemma drains_Nil: "drains perform handler []"
  unfolding drains_def by (auto simp: run_page_def answers_def intro: exI [of _ "[]"])

lemma drains_append:
  fixes handler :: "'u \<Rightarrow> 's \<Rightarrow> ('s, 'c, 'r, 'e) script"
  assumes "drains perform handler A" and "drains perform handler B"
  shows "drains perform handler (A @ B)"
  unfolding drains_def
proof (intro allI impI)
  fix q :: "('s, 'c, 'r, 'e) page" and ws assume "pg_waiting q = ws @ A @ B"
  with assms(2) obtain ins where "pg_waiting (run_page perform handler (answers ins) q) = ws @ A"
    unfolding drains_def by (metis append_assoc)
  with assms(1) obtain ins' where "pg_waiting (run_page perform handler (answers ins') (run_page perform handler (answers ins) q)) = ws"
    unfolding drains_def by blast
  then show "\<exists>ins. pg_waiting (run_page perform handler (answers ins) q) = ws" by (metis run_page_append answers_append)
qed

lemma drains_entry:
  fixes handler :: "'u \<Rightarrow> 's \<Rightarrow> ('s, 'c, 'r, 'e) script"
  assumes "\<And>p. \<exists>A. pg_waiting (run_script perform (k rs 0) p) = pg_waiting p @ A \<and> drains perform handler A"
  shows "drains perform handler [(rs, k)]"
  unfolding drains_def
proof (intro allI impI)
  fix q :: "('s, 'c, 'r, 'e) page" and ws assume q: "pg_waiting q = ws @ [(rs, k)]"
  let ?e = "Resume (length ws) 0" and ?q = "q\<lparr>pg_waiting := ws\<rparr>"
  have step: "page_step perform handler ?e q = run_script perform (k rs 0) ?q"
    using q by (simp add: drop_nth_def)
  obtain A where "pg_waiting (run_script perform (k rs 0) ?q) = ws @ A" "drains perform handler A"
    using assms [of ?q] by auto
  then obtain ins where "pg_waiting (run_page perform handler (answers ins) (page_step perform handler ?e q)) = ws"
    unfolding step drains_def by blast
  then have "pg_waiting (run_page perform handler (answers ((length ws, 0) # ins)) q) = ws"
    by (simp add: run_page_def answers_def)
  then show "\<exists>ins. pg_waiting (run_page perform handler (answers ins) q) = ws" by blast
qed

lemma run_script_drains:
  "\<exists>A. pg_waiting (run_script perform s p) = pg_waiting p @ A \<and> drains perform handler A"
proof (induction s arbitrary: p)
  case (Set f s)
  show ?case using Set.IH [of "p\<lparr>pg_state := f (pg_state p)\<rparr>"] by simp
next
  case (Await cs k)
  obtain rs b where "perform_all perform cs (pg_browser p) = (rs, b)" by fastforce
  with drains_entry [of perform k rs handler] Await.IH show ?case by auto
next
  case (Fork a s)
  then show ?case by (metis append_assoc drains_append run_script.simps(5))
qed (simp_all add: drains_Nil)

lemma comes_to_rest: "\<exists>ins. pg_waiting (run_page perform handler (answers ins) p) = []"
proof -
  have "drains perform handler ws" for ws
  proof (induction ws)
    case (Cons w ws)
    have "drains perform handler [w]"
      using drains_entry [of perform "snd w" "fst w" handler, OF run_script_drains] by simp
    with Cons drains_append [of perform handler "[w]" ws] show ?case by simp
  qed (rule drains_Nil)
  then show ?thesis unfolding drains_def by (metis append_Nil)
qed

text \<open>After any run, the answers still to come lower the flag for good.\<close>

definition releases ::
  "('c \<Rightarrow> browser \<Rightarrow> 'r \<times> browser) \<Rightarrow> ('u \<Rightarrow> 's \<Rightarrow> ('s, 'c, 'r, 'e) script) \<Rightarrow> ('s \<Rightarrow> bool)
   \<Rightarrow> ('s, 'c, 'r, 'e) page \<Rightarrow> bool" where
  "releases perform handler busy p \<longleftrightarrow>
     (\<exists>ins. pg_waiting (run_page perform handler (answers ins) p) = []
        \<and> \<not> busy (pg_state (run_page perform handler (answers ins) p)))"

text \<open>The page frees the flag: it does so from every state in which the page is opened with the flag down.\<close>

definition frees ::
  "('c \<Rightarrow> browser \<Rightarrow> 'r \<times> browser) \<Rightarrow> ('u \<Rightarrow> 's \<Rightarrow> ('s, 'c, 'r, 'e) script) \<Rightarrow> ('s \<Rightarrow> bool) \<Rightarrow> bool" where
  "frees perform handler busy \<longleftrightarrow>
     (\<forall>s b es. \<not> busy s \<longrightarrow> releases perform handler busy (run_page perform handler es (open_page s b)))"

context page_flag
begin

lemma run_releases: "\<not> busy s \<Longrightarrow> releases perform handler busy (run_page perform handler es (open_page s b))"
proof -
  assume s: "\<not> busy s"
  obtain ins where "pg_waiting (run_page perform handler (answers ins) (run_page perform handler es (open_page s b))) = []"
    using comes_to_rest by blast
  with idle_not_busy [OF s, of "es @ answers ins" b] show ?thesis
    unfolding releases_def by (auto simp: run_page_append)
qed

lemma page_frees: "frees perform handler busy"
  unfolding frees_def using run_releases by blast

end

subsection \<open>Runs without answers\<close>

text \<open>What a script does before its first \<open>await\<close>, and what a sequence of user events does before
  any answer arrives.\<close>

primrec lead_state :: "('s, 'c, 'r, 'e) script \<Rightarrow> 's \<Rightarrow> 's" where
  "lead_state Done x = x"
| "lead_state (Throw e) x = x"
| "lead_state (Set f s) x = lead_state s (f x)"
| "lead_state (Await cs k) x = x"
| "lead_state (Fork a s) x = lead_state s (lead_state a x)"

primrec lead_calls :: "('s, 'c, 'r, 'e) script \<Rightarrow> 'c list" where
  "lead_calls Done = []"
| "lead_calls (Throw e) = []"
| "lead_calls (Set f s) = lead_calls s"
| "lead_calls (Await cs k) = cs"
| "lead_calls (Fork a s) = lead_calls a @ lead_calls s"

lemma lead_finally [simp]: "lead_calls (finally_set s f) = lead_calls s"
  by (induction s) simp_all

lemma lead_try [simp]: "(\<And>e. lead_calls (h e) = []) \<Longrightarrow> lead_calls (try_catch s h) = lead_calls s"
  by (induction s) simp_all

lemma lead_step [simp]: "lead_calls (await c k) = [c]" "lead_calls (await_all cs h) = cs" "lead_calls (with_flag flag s) = lead_calls s"
  by (simp_all add: await_def await_all_def with_flag_def)

lemma lead_lift [simp]: "lead_calls (lift_script u s) = lead_calls s"
  by (induction s) simp_all

fun user_run :: "('u \<Rightarrow> 's \<Rightarrow> ('s, 'c, 'r, 'e) script) \<Rightarrow> 'u list \<Rightarrow> 's \<Rightarrow> 's \<times> 'c list" where
  "user_run handler [] x = (x, [])"
| "user_run handler (u # us) x =
     (case user_run handler us (lead_state (handler u x) x) of (y, cs) \<Rightarrow> (y, lead_calls (handler u x) @ cs))"

lemma run_script_lead:
  "pg_state (run_script perform s p) = lead_state s (pg_state p)
   \<and> pg_calls (run_script perform s p) = pg_calls p @ lead_calls s"
proof (induction s arbitrary: p)
  case (Set f s)
  show ?case using Set.IH [of "p\<lparr>pg_state := f (pg_state p)\<rparr>"] by simp
next
  case (Await cs k)
  show ?case by (simp split: prod.splits)
qed simp_all

lemma run_page_user:
  "pg_state (run_page perform handler (map User us) p) = fst (user_run handler us (pg_state p))
   \<and> pg_calls (run_page perform handler (map User us) p) = pg_calls p @ snd (user_run handler us (pg_state p))"
proof (induction us arbitrary: p)
  case (Cons u us)
  have "run_page perform handler (map User (u # us)) p
      = run_page perform handler (map User us) (run_script perform (handler u (pg_state p)) p)"
    by (simp add: run_page_def)
  with Cons.IH [of "run_script perform (handler u (pg_state p)) p"] run_script_lead [of perform "handler u (pg_state p)" p]
  show ?case by (simp split: prod.splits)
qed (simp add: run_page_def)

subsection \<open>Pages whose handlers call once\<close>

text \<open>A handler that makes its calls before its first \<open>await\<close> and none after it.\<close>

primrec calls_once :: "('s, 'c, 'r, 'e) script \<Rightarrow> bool" where
  "calls_once Done = True"
| "calls_once (Throw e) = True"
| "calls_once (Set f s) = calls_once s"
| "calls_once (Await cs k) = (\<forall>rs n. script_ok (\<lambda>_. True) (\<lambda>_. False) (k rs n))"
| "calls_once (Fork a s) = (calls_once a \<and> calls_once s)"

lemma quiet_calls_once: "script_ok (\<lambda>_. True) (\<lambda>_. False) s \<Longrightarrow> calls_once s"
  by (induction s) auto

lemma calls_once_await [script_intros]:
  "(\<And>x. script_ok (\<lambda>_. True) (\<lambda>_. False) (k x)) \<Longrightarrow> calls_once (await c k)"
  by (simp add: await_def split: sum.splits)

lemma calls_once_try [script_intros]:
  "calls_once s \<Longrightarrow> (\<And>e. script_ok (\<lambda>_. True) (\<lambda>_. False) (h e)) \<Longrightarrow> calls_once (try_catch s h)"
  by (induction s) (auto intro: script_ok_try_catch quiet_calls_once)

lemma calls_once_finally [script_intros]: "calls_once s \<Longrightarrow> calls_once (finally_set s f)"
  by (induction s) (auto intro: script_ok_finally)

lemma calls_once_flag [script_intros]: "calls_once s \<Longrightarrow> calls_once (with_flag flag s)"
  by (simp add: with_flag_def calls_once_finally)

lemma quiet_lead: "script_ok (\<lambda>_. True) (\<lambda>_. False) s \<Longrightarrow> lead_calls s = []"
proof (induction s)
  case (Await cs k)
  then show ?case by (cases cs) simp_all
qed simp_all

definition quiet_page :: "('s, 'c, 'r, 'e) page \<Rightarrow> bool" where
  "quiet_page p \<longleftrightarrow> (\<forall>w \<in> set (pg_waiting p). \<forall>rs n. script_ok (\<lambda>_. True) (\<lambda>_. False) (snd w rs n))"

lemma run_script_quiet: "calls_once s \<Longrightarrow> quiet_page p \<Longrightarrow> quiet_page (run_script perform s p)"
proof (induction s arbitrary: p)
  case (Set f s)
  have "quiet_page (p\<lparr>pg_state := f (pg_state p)\<rparr>)" using Set.prems(2) by (simp add: quiet_page_def)
  with Set show ?case by simp
next
  case (Await cs k)
  then show ?case by (auto simp: quiet_page_def split: prod.splits)
qed simp_all

text \<open>The calls one event makes.\<close>

fun event_calls :: "('u \<Rightarrow> 's \<Rightarrow> ('s, 'c, 'r, 'e) script) \<Rightarrow> 'u page_event \<Rightarrow> 's \<Rightarrow> 'c list" where
  "event_calls handler (User u) s = lead_calls (handler u s)"
| "event_calls handler (Resume i n) s = []"

locale page_once =
  fixes perform :: "'c \<Rightarrow> browser \<Rightarrow> 'r \<times> browser"
    and handler :: "'u \<Rightarrow> 's \<Rightarrow> ('s, 'c, 'r, 'e) script"
  assumes handler_once: "calls_once (handler u s)"
begin

lemma resumed_quiet:
  assumes "quiet_page p" and "i < length (pg_waiting p)"
  shows "script_ok (\<lambda>_. True) (\<lambda>_. False) (snd (pg_waiting p ! i) (fst (pg_waiting p ! i)) n)"
  using assms by (simp add: quiet_page_def)

lemma step_quiet: "quiet_page p \<Longrightarrow> quiet_page (page_step perform handler e p)"
proof (cases e)
  case (Resume i n)
  assume p: "quiet_page p"
  have "quiet_page (p\<lparr>pg_waiting := drop_nth i (pg_waiting p)\<rparr>)"
    using p drop_nth_set [of i "pg_waiting p"] by (auto simp: quiet_page_def)
  with p Resume resumed_quiet [OF p] show ?thesis by (simp add: quiet_calls_once run_script_quiet)
qed (simp add: run_script_quiet handler_once)

lemma run_quiet: "quiet_page (run_page perform handler es (open_page s b))"
proof -
  have "quiet_page p \<Longrightarrow> quiet_page (run_page perform handler es p)" for p
    unfolding run_page_def by (induction es arbitrary: p) (simp_all add: step_quiet)
  moreover have "quiet_page (open_page s b)" by (simp add: quiet_page_def open_page_def)
  ultimately show ?thesis by blast
qed

lemma step_calls:
  "quiet_page p \<Longrightarrow> pg_calls (page_step perform handler e p) = pg_calls p @ event_calls handler e (pg_state p)"
  by (cases e) (simp_all add: run_script_lead resumed_quiet quiet_lead)

text \<open>Every call of a run is made by one of its user events, in the state the event finds.\<close>

lemma run_calls:
  "pg_calls (run_page perform handler (es @ [e]) (open_page s b))
   = pg_calls (run_page perform handler es (open_page s b))
     @ event_calls handler e (pg_state (run_page perform handler es (open_page s b)))"
  using step_calls [OF run_quiet] by (simp add: run_page_def)

end

text \<open>Every call of every run is made by a user event, in a state and with an event that \<open>guard\<close> allows.\<close>

definition calls_guarded ::
  "('c \<Rightarrow> browser \<Rightarrow> 'r \<times> browser) \<Rightarrow> ('u \<Rightarrow> 's \<Rightarrow> ('s, 'c, 'r, 'e) script) \<Rightarrow> ('u \<Rightarrow> 's \<Rightarrow> 'c \<Rightarrow> bool) \<Rightarrow> bool" where
  "calls_guarded perform handler guard \<longleftrightarrow>
     (\<forall>s b es e. let p = run_page perform handler es (open_page s b) in
        \<exists>cs. pg_calls (page_step perform handler e p) = pg_calls p @ cs
          \<and> (\<forall>c \<in> set cs. \<exists>u. e = User u \<and> guard u (pg_state p) c))"

context page_once
begin

lemma guarded:
  assumes "\<And>u s c. c \<in> set (lead_calls (handler u s)) \<Longrightarrow> guard u s c"
  shows "calls_guarded perform handler guard"
  unfolding calls_guarded_def Let_def
proof (intro allI)
  fix s b es e
  let ?p = "run_page perform handler es (open_page s b)"
  show "\<exists>cs. pg_calls (page_step perform handler e ?p) = pg_calls ?p @ cs
      \<and> (\<forall>c \<in> set cs. \<exists>u. e = User u \<and> guard u (pg_state ?p) c)"
    using step_calls [OF run_quiet, of e es s b] assms
    by (intro exI [of _ "event_calls handler e (pg_state ?p)"]) (cases e; auto)
qed

end

text \<open>Every call a page makes is \<open>allowed\<close>.\<close>

definition calls_only ::
  "('c \<Rightarrow> browser \<Rightarrow> 'r \<times> browser) \<Rightarrow> ('u \<Rightarrow> 's \<Rightarrow> ('s, 'c, 'r, 'e) script) \<Rightarrow> ('c \<Rightarrow> bool) \<Rightarrow> bool" where
  "calls_only perform handler allowed \<longleftrightarrow>
     (\<forall>s b es. list_all allowed (pg_calls (run_page perform handler es (open_page s b))))"

context page_once
begin

lemma only:
  assumes "\<And>u s c. c \<in> set (lead_calls (handler u s)) \<Longrightarrow> allowed c"
  shows "calls_only perform handler allowed"
  unfolding calls_only_def
proof (intro allI)
  fix s b es
  show "list_all allowed (pg_calls (run_page perform handler es (open_page s b)))"
  proof (induction es rule: rev_induct)
    case Nil
    show ?case by (simp add: run_page_def open_page_def)
  next
    case (snoc e es)
    then show ?case using assms by (cases e) (auto simp: run_calls list_all_iff)
  qed
qed

end

subsection \<open>What a script may do once a fact is known\<close>

text \<open>As \<open>script_ok\<close>, where \<open>known\<close> says that the fact \<open>P\<close> holds of the state at the start, and a setter
  may rely on it until the next \<open>await\<close>.\<close>

primrec script_when ::
  "('s \<Rightarrow> bool) \<Rightarrow> ('s \<Rightarrow> bool) \<Rightarrow> ('c \<Rightarrow> bool) \<Rightarrow> ('s, 'c, 'r, 'e) script \<Rightarrow> bool \<Rightarrow> bool" where
  "script_when P I allowed Done known = True"
| "script_when P I allowed (Throw e) known = True"
| "script_when P I allowed (Set f s) known =
     ((\<forall>x. I x \<and> (known \<longrightarrow> P x) \<longrightarrow> I (f x))
      \<and> script_when P I allowed s ((\<forall>x. P (f x)) \<or> known \<and> (\<forall>x. P x \<longrightarrow> P (f x))))"
| "script_when P I allowed (Await cs k) known = (list_all allowed cs \<and> (\<forall>rs n. script_when P I allowed (k rs n) False))"
| "script_when P I allowed (Fork a s) known = (script_when P I allowed a False \<and> script_when P I allowed s False)"

lemma script_when_mono: "script_when P I allowed s known \<Longrightarrow> (known \<Longrightarrow> known') \<Longrightarrow> script_when P I allowed s known'"
proof (induction s arbitrary: known known')
  case (Set f s)
  have "script_when P I allowed s ((\<forall>x. P (f x)) \<or> known' \<and> (\<forall>x. P x \<longrightarrow> P (f x)))"
    by (rule Set.IH [OF Set.prems(1) [unfolded script_when.simps, THEN conjunct2]]) (use Set.prems(2) in blast)
  with Set.prems show ?case by auto
qed auto

lemma script_when_try [script_intros]:
  "script_when P I allowed s known \<Longrightarrow> (\<And>e. script_when P I allowed (h e) False)
   \<Longrightarrow> script_when P I allowed (try_catch s h) known"
  by (induction s arbitrary: known) (auto intro: script_when_mono)

lemma script_when_finally [script_intros]:
  "script_when P I allowed s known \<Longrightarrow> (\<And>x. I x \<Longrightarrow> I (f x)) \<Longrightarrow> script_when P I allowed (finally_set s f) known"
  by (induction s arbitrary: known) auto

lemma script_when_flag [script_intros]:
  assumes "script_when P I allowed s False" and "\<And>g x. I x \<Longrightarrow> I (flag g x)"
  shows "script_when P I allowed (with_flag flag s) known"
  using script_when_finally [OF script_when_mono [OF assms(1)]] assms(2) by (simp add: with_flag_def)

definition waiting_when :: "('s \<Rightarrow> bool) \<Rightarrow> ('s \<Rightarrow> bool) \<Rightarrow> ('c \<Rightarrow> bool) \<Rightarrow> ('s, 'c, 'r, 'e) page \<Rightarrow> bool" where
  "waiting_when P I allowed p \<longleftrightarrow>
     I (pg_state p) \<and> list_all allowed (pg_calls p)
     \<and> (\<forall>w \<in> set (pg_waiting p). \<forall>rs n. script_when P I allowed (snd w rs n) False)"

lemma run_script_when:
  "script_when P I allowed s known \<Longrightarrow> (known \<Longrightarrow> P (pg_state p)) \<Longrightarrow> waiting_when P I allowed p
   \<Longrightarrow> waiting_when P I allowed (run_script perform s p)"
proof (induction s arbitrary: p known)
  case (Set f s)
  have "waiting_when P I allowed (p\<lparr>pg_state := f (pg_state p)\<rparr>)"
    using Set.prems by (auto simp: waiting_when_def)
  then show ?case using Set.IH [of _ "p\<lparr>pg_state := f (pg_state p)\<rparr>"] Set.prems by auto
next
  case (Await cs k)
  then show ?case by (auto simp: waiting_when_def split: prod.splits)
next
  case (Fork a s)
  have "waiting_when P I allowed (run_script perform a p)"
    by (rule Fork.IH(1) [of False]) (use Fork.prems in auto)
  then show ?case using Fork.IH(2) [of False] Fork.prems by auto
qed simp_all

text \<open>A page whose handlers may rely on \<open>P\<close> when it holds at the event or since an answer.\<close>

locale page_when =
  fixes perform :: "'c \<Rightarrow> browser \<Rightarrow> 'r \<times> browser"
    and handler :: "'u \<Rightarrow> 's \<Rightarrow> ('s, 'c, 'r, 'e) script"
    and P :: "'s \<Rightarrow> bool"
    and I :: "'s \<Rightarrow> bool"
    and allowed :: "'c \<Rightarrow> bool"
  assumes handler_when: "I s \<Longrightarrow> script_when P I allowed (handler u s) (P s)"
begin

lemma step_when: "waiting_when P I allowed p \<Longrightarrow> waiting_when P I allowed (page_step perform handler e p)"
proof (cases e)
  case (User u)
  assume p: "waiting_when P I allowed p"
  then have "script_when P I allowed (handler u (pg_state p)) (P (pg_state p))" by (simp add: handler_when waiting_when_def)
  with p User show ?thesis by (simp add: run_script_when)
next
  case (Resume i n)
  assume p: "waiting_when P I allowed p"
  let ?p = "p\<lparr>pg_waiting := drop_nth i (pg_waiting p)\<rparr>"
  have q: "waiting_when P I allowed ?p"
    using p drop_nth_set [of i "pg_waiting p"] by (auto simp: waiting_when_def)
  have "script_when P I allowed (snd (pg_waiting p ! i) (fst (pg_waiting p ! i)) n) False" if "i < length (pg_waiting p)"
    using p that by (simp add: waiting_when_def)
  with q p Resume show ?thesis by (auto intro: run_script_when)
qed

lemma run_when: "I s \<Longrightarrow> waiting_when P I allowed (run_page perform handler es (open_page s b))"
proof -
  have run: "waiting_when P I allowed p \<Longrightarrow> waiting_when P I allowed (run_page perform handler es p)" for p
    unfolding run_page_def by (induction es arbitrary: p) (simp_all add: step_when)
  assume "I s"
  then show ?thesis by (intro run) (simp add: waiting_when_def open_page_def)
qed

lemma when_keeps: "I s \<Longrightarrow> I (pg_state (run_page perform handler es (open_page s b)))"
  and when_calls: "I s \<Longrightarrow> list_all allowed (pg_calls (run_page perform handler es (open_page s b)))"
  using run_when unfolding waiting_when_def by blast+

end

subsection \<open>Pages that call at most once\<close>

lemma run_script_waiting:
  "script_ok I allowed s \<Longrightarrow> waiting_ok I allowed p \<Longrightarrow> waiting_ok I allowed (run_script perform s p)"
proof (induction s arbitrary: p)
  case (Set f s)
  show ?case using Set.IH [of "p\<lparr>pg_state := f (pg_state p)\<rparr>"] Set.prems by (simp add: waiting_ok_def)
next
  case (Await cs k)
  then show ?case by (auto simp: waiting_ok_def split: prod.splits)
qed simp_all

lemma lead_state_ok: "script_ok I allowed s \<Longrightarrow> I x \<Longrightarrow> I (lead_state s x)"
  by (induction s arbitrary: x) auto

text \<open>A page makes one call at most if a call disarms it, an unarmed page makes none, and nothing arms it again.\<close>

context page_once
begin

lemma run_waiting:
  assumes "\<And>u s. script_ok I allowed (handler u s)"
  shows "waiting_ok I allowed (run_page perform handler es (open_page s b))"
proof (induction es rule: rev_induct)
  case Nil
  show ?case by (simp add: run_page_def open_page_def waiting_ok_def)
next
  case (snoc e es)
  let ?p = "run_page perform handler es (open_page s b)"
  have "waiting_ok I allowed (?p\<lparr>pg_waiting := drop_nth i (pg_waiting ?p)\<rparr>)" for i
    using snoc drop_nth_set [of i "pg_waiting ?p"] by (auto simp: waiting_ok_def)
  moreover have "i < length (pg_waiting ?p) \<Longrightarrow> script_ok I allowed (snd (pg_waiting ?p ! i) (fst (pg_waiting ?p ! i)) n)" for i n
    using snoc by (simp add: waiting_ok_def)
  ultimately have "waiting_ok I allowed (page_step perform handler e ?p)"
    using snoc assms by (cases e) (auto intro: run_script_waiting)
  then show ?case by (simp add: run_page_def)
qed

lemma one_call:
  assumes unarmed: "\<And>u s. \<not> armed s \<Longrightarrow> lead_calls (handler u s) = []"
    and stays: "\<And>u s. script_ok (\<lambda>x. \<not> armed x) (\<lambda>_. True) (handler u s)"
    and disarms: "\<And>u s. lead_calls (handler u s) \<noteq> [] \<Longrightarrow>
      \<exists>c. lead_calls (handler u s) = [c] \<and> allowed c \<and> \<not> armed (lead_state (handler u s) s)"
  shows "pg_calls (run_page perform handler es (open_page s b)) = []
    \<or> (\<exists>c. pg_calls (run_page perform handler es (open_page s b)) = [c] \<and> allowed c)"
proof -
  let ?p = "\<lambda>es. run_page perform handler es (open_page s b)"
  have "pg_calls (?p es) = [] \<or> (\<exists>c. pg_calls (?p es) = [c] \<and> allowed c) \<and> \<not> armed (pg_state (?p es))"
  proof (induction es rule: rev_induct)
    case Nil
    show ?case by (simp add: run_page_def open_page_def)
  next
    case (snoc e es)
    have calls: "pg_calls (?p (es @ [e])) = pg_calls (?p es) @ event_calls handler e (pg_state (?p es))" by (rule run_calls)
    show ?case
    proof (cases e)
      case (User u)
      have st: "pg_state (?p (es @ [e])) = lead_state (handler u (pg_state (?p es))) (pg_state (?p es))"
        by (simp add: run_page_def User run_script_lead)
      show ?thesis
      proof (cases "armed (pg_state (?p es))")
        case True
        with snoc have "pg_calls (?p es) = []" by blast
        with calls st disarms [of u "pg_state (?p es)"] show ?thesis by (cases "lead_calls (handler u (pg_state (?p es)))") (auto simp: User)
      next
        case False
        with lead_state_ok [OF stays] have "\<not> armed (pg_state (?p (es @ [e])))" unfolding st by blast
        with calls unarmed [OF False] snoc show ?thesis by (auto simp: User)
      qed
    next
      case (Resume i n)
      have "armed (pg_state (?p (es @ [e]))) \<Longrightarrow> armed (pg_state (?p es))"
        using run_waiting [OF stays, of es s b] lead_state_ok [of "\<lambda>x. \<not> armed x" "\<lambda>_. True"]
        by (auto simp: Resume run_page_def run_script_lead waiting_ok_def split: if_splits dest!: bspec [OF _ nth_mem])
      with calls snoc show ?thesis by (auto simp: Resume)
    qed
  qed
  then show ?thesis by blast
qed

end

subsection \<open>Pages that load again after a call\<close>

text \<open>A handler whose calls after its first \<open>await\<close> are all of the kind \<open>later\<close> (a list loaded again).\<close>

primrec calls_lead :: "('c \<Rightarrow> bool) \<Rightarrow> ('s, 'c, 'r, 'e) script \<Rightarrow> bool" where
  "calls_lead later Done = True"
| "calls_lead later (Throw e) = True"
| "calls_lead later (Set f s) = calls_lead later s"
| "calls_lead later (Await cs k) = (\<forall>rs n. script_ok (\<lambda>_. True) later (k rs n))"
| "calls_lead later (Fork a s) = (calls_lead later a \<and> calls_lead later s)"

lemma script_ok_lead: "script_ok (\<lambda>_. True) later s \<Longrightarrow> calls_lead later s"
  by (induction s) auto

lemma calls_lead_await [script_intros]:
  "(\<And>x. script_ok (\<lambda>_. True) later (k x)) \<Longrightarrow> calls_lead later (await c k)"
  by (simp add: await_def split: sum.splits)

lemma calls_lead_await_all [script_intros]:
  "(\<And>x. script_ok (\<lambda>_. True) later (k x)) \<Longrightarrow> calls_lead later (await_all cs k)"
  by (simp add: await_all_def)

lemma calls_lead_try [script_intros]:
  "calls_lead later s \<Longrightarrow> (\<And>e. script_ok (\<lambda>_. True) later (h e)) \<Longrightarrow> calls_lead later (try_catch s h)"
  by (induction s) (auto intro: script_ok_try_catch script_ok_lead)

lemma calls_lead_finally [script_intros]: "calls_lead later s \<Longrightarrow> calls_lead later (finally_set s f)"
  by (induction s) (auto intro: script_ok_finally)

lemma calls_lead_flag [script_intros]: "calls_lead later s \<Longrightarrow> calls_lead later (with_flag flag s)"
  by (simp add: with_flag_def calls_lead_finally)

lemma calls_lead_lift [script_intros]: "calls_lead later s \<Longrightarrow> calls_lead later (lift_script u s)"
  by (induction s) (auto intro: script_ok_lift)

lemma lead_calls_ok: "script_ok I allowed s \<Longrightarrow> list_all allowed (lead_calls s)"
  by (induction s) auto

lemma run_script_leads:
  "calls_lead later s \<Longrightarrow> waiting_ok (\<lambda>_. True) later p \<Longrightarrow> waiting_ok (\<lambda>_. True) later (run_script perform s p)"
proof (induction s arbitrary: p)
  case (Set f s)
  show ?case using Set.IH [of "p\<lparr>pg_state := f (pg_state p)\<rparr>"] Set.prems by (simp add: waiting_ok_def)
next
  case (Await cs k)
  then show ?case by (auto simp: waiting_ok_def split: prod.splits)
qed simp_all

text \<open>Every call of every run is of the kind \<open>later\<close>, or made by a user event in a state that \<open>guard\<close> allows.\<close>

definition changes_guarded ::
  "('c \<Rightarrow> browser \<Rightarrow> 'r \<times> browser) \<Rightarrow> ('u \<Rightarrow> 's \<Rightarrow> ('s, 'c, 'r, 'e) script) \<Rightarrow> ('c \<Rightarrow> bool) \<Rightarrow> ('u \<Rightarrow> 's \<Rightarrow> 'c \<Rightarrow> bool) \<Rightarrow> bool" where
  "changes_guarded perform handler later guard \<longleftrightarrow>
     (\<forall>s b es e. let p = run_page perform handler es (open_page s b) in
        \<exists>cs. pg_calls (page_step perform handler e p) = pg_calls p @ cs
          \<and> (\<forall>c \<in> set cs. later c \<or> (\<exists>u. e = User u \<and> guard u (pg_state p) c)))"

locale page_lead =
  fixes perform :: "'c \<Rightarrow> browser \<Rightarrow> 'r \<times> browser"
    and handler :: "'u \<Rightarrow> 's \<Rightarrow> ('s, 'c, 'r, 'e) script"
    and later :: "'c \<Rightarrow> bool"
  assumes handler_leads: "calls_lead later (handler u s)"
begin

lemma resumed_later:
  "waiting_ok (\<lambda>_. True) later p \<Longrightarrow> i < length (pg_waiting p) \<Longrightarrow>
   script_ok (\<lambda>_. True) later (snd (pg_waiting p ! i) (fst (pg_waiting p ! i)) n)"
  by (simp add: waiting_ok_def)

lemma run_leads: "waiting_ok (\<lambda>_. True) later (run_page perform handler es (open_page s b))"
proof (induction es rule: rev_induct)
  case Nil
  show ?case by (simp add: run_page_def open_page_def waiting_ok_def)
next
  case (snoc e es)
  let ?p = "run_page perform handler es (open_page s b)"
  have "waiting_ok (\<lambda>_. True) later (?p\<lparr>pg_waiting := drop_nth i (pg_waiting ?p)\<rparr>)" for i
    using snoc drop_nth_set [of i "pg_waiting ?p"] by (auto simp: waiting_ok_def)
  then have "waiting_ok (\<lambda>_. True) later (page_step perform handler e ?p)"
    using snoc by (cases e) (auto intro: run_script_leads handler_leads script_ok_lead resumed_later)
  then show ?case by (simp add: run_page_def)
qed

lemma guarded_changes:
  assumes "\<And>u s c. c \<in> set (lead_calls (handler u s)) \<Longrightarrow> later c \<or> guard u s c"
  shows "changes_guarded perform handler later guard"
  unfolding changes_guarded_def Let_def
proof (intro allI)
  fix s b es e
  let ?p = "run_page perform handler es (open_page s b)"
  show "\<exists>cs. pg_calls (page_step perform handler e ?p) = pg_calls ?p @ cs
      \<and> (\<forall>c \<in> set cs. later c \<or> (\<exists>u. e = User u \<and> guard u (pg_state ?p) c))"
  proof (cases e)
    case (User u)
    then show ?thesis using assms by (auto simp: run_script_lead)
  next
    case (Resume i n)
    then show ?thesis
      using lead_calls_ok [OF resumed_later [OF run_leads, of i es s b n]] by (auto simp: run_script_lead list_all_iff)
  qed
qed

end

end
