(* ===== verification/Customer_Org.thy ===== *)
theory Customer_Org
  imports Page_Kit
begin

text \<open>
  The organisation context of the customer console (\<open>features/customer/useOrg.tsx\<close>) and the helpers
  of the instance pages (\<open>pages/instances/shared.tsx\<close>). The active organisation is the one every
  customer request names in \<open>X-Organization-ID\<close>.

  The provider's \<open>load\<close> is split at its \<open>await\<close>: \<open>load_orgs\<close> sends the request and
  \<open>orgs_loaded\<close> is the continuation; \<open>oc_logouts\<close> counts the calls of \<open>logout\<close>.
\<close>

definition ORG_KEY :: string where
  "ORG_KEY = ''kilat_org_id''"

record org_context =
  oc_organizations :: "json list"
  oc_orgId :: string
  oc_loading :: bool
  oc_error :: "js_error option"
  oc_logouts :: nat
  oc_browser :: browser

definition readStoredOrgId :: "browser \<Rightarrow> string" where
  "readStoredOrgId b = (if storage_ok b then case storage b ORG_KEY of Some s \<Rightarrow> s | None \<Rightarrow> [] else [])"

text \<open>\<open>org.id\<close>, a string by the declared type.\<close>

definition org_id :: "json \<Rightarrow> string" where
  "org_id org = (case prop_of org ''id'' of Some (JStr s) \<Rightarrow> s | _ \<Rightarrow> [])"

definition active_org :: "string \<Rightarrow> json list \<Rightarrow> string" where
  "active_org stored orgs =
     (if list_ex (\<lambda>org. org_id org = stored) orgs then stored
      else case orgs of org # _ \<Rightarrow> org_id org | [] \<Rightarrow> [])"

definition load_orgs :: "bool \<Rightarrow> org_context \<Rightarrow> api_result option \<times> org_context" where
  "load_orgs token s =
     (if \<not> token then (None, s)
      else case apiGet ''/organizations'' no_options (oc_browser s) of
             (r, b) \<Rightarrow> (Some r, s\<lparr>oc_browser := b\<rparr>))"

definition set_stored_org :: "string \<Rightarrow> browser \<Rightarrow> browser" where
  "set_stored_org i b = b\<lparr>storage := (storage b)(ORG_KEY \<mapsto> i)\<rparr>"

text \<open>\<open>localStorage.setItem\<close> throws when storage is unavailable; here the \<open>catch\<close> shows that error.\<close>

definition orgs_loaded :: "api_result \<Rightarrow> org_context \<Rightarrow> org_context" where
  "orgs_loaded r s =
     (case r of
        Inr e \<Rightarrow>
          (let orgs = array_or_empty (Some (env_data e));
               active = active_org (readStoredOrgId (oc_browser s)) orgs;
               s1 = s\<lparr>oc_organizations := orgs, oc_error := None, oc_orgId := active, oc_loading := False\<rparr>
           in if active = [] then s1
              else if storage_ok (oc_browser s) then s1\<lparr>oc_browser := set_stored_org active (oc_browser s)\<rparr>
              else s1\<lparr>oc_error := Some (PlainError ''storage unavailable'')\<rparr>)
      | Inl (ApiError c m st d) \<Rightarrow>
          if st = 401 then s\<lparr>oc_logouts := Suc (oc_logouts s), oc_loading := False\<rparr>
          else s\<lparr>oc_error := Some (ApiError c m st d), oc_loading := False\<rparr>
      | Inl e \<Rightarrow> s\<lparr>oc_error := Some e, oc_loading := False\<rparr>)"

definition selectOrg :: "string \<Rightarrow> org_context \<Rightarrow> org_context" where
  "selectOrg i s =
     (let s1 = s\<lparr>oc_orgId := i\<rparr>
      in if storage_ok (oc_browser s) then s1\<lparr>oc_browser := set_stored_org i (oc_browser s)\<rparr> else s1)"

definition organization_of :: "org_context \<Rightarrow> json option" where
  "organization_of s = find (\<lambda>org. org_id org = oc_orgId s) (oc_organizations s)"

definition orgHeaders :: "string \<Rightarrow> string js_record" where
  "orgHeaders orgId = (if orgId \<noteq> [] then [(''X-Organization-ID'', orgId)] else [])"

definition org_opts :: "string \<Rightarrow> api_options" where
  "org_opts orgId = \<lparr>ao_headers = Some (orgHeaders orgId), ao_query = None\<rparr>"

definition org_query :: "string \<Rightarrow> query_value js_record \<Rightarrow> api_options" where
  "org_query orgId q = \<lparr>ao_headers = Some (orgHeaders orgId), ao_query = Some q\<rparr>"

datatype org_event = LoadOrgs bool | OrgsLoaded api_result | SelectOrg nat

text \<open>The menu of the layout offers the loaded organisations.\<close>

fun org_step :: "org_event \<Rightarrow> org_context \<Rightarrow> org_context" where
  "org_step (LoadOrgs token) s = snd (load_orgs token s)"
| "org_step (OrgsLoaded r) s = orgs_loaded r s"
| "org_step (SelectOrg i) s =
     (if i < length (oc_organizations s) then selectOrg (org_id (oc_organizations s ! i)) s else s)"

definition member_org :: "org_context \<Rightarrow> bool" where
  "member_org s \<longleftrightarrow> oc_orgId s = [] \<or> oc_orgId s \<in> org_id ` set (oc_organizations s)"

lemma active_org_member: "active_org st orgs = [] \<or> active_org st orgs \<in> org_id ` set orgs"
  by (auto simp: active_org_def list_ex_iff split: list.splits)

lemma load_orgs_keeps:
  "oc_orgId (snd (load_orgs t s)) = oc_orgId s" "oc_organizations (snd (load_orgs t s)) = oc_organizations s"
  by (simp_all add: load_orgs_def split: prod.splits)

interpretation org_machine: event_machine org_step member_org
proof
  fix s e assume s: "member_org s"
  show "member_org (org_step e s)"
  proof (cases e)
    case (OrgsLoaded r)
    with s show ?thesis
      using active_org_member
      by (auto simp: member_org_def orgs_loaded_def Let_def split: sum.splits js_error.splits if_splits)
  qed (use s in \<open>auto simp: member_org_def load_orgs_keeps selectOrg_def Let_def\<close>)
qed

lemma member_org_found:
  "member_org s \<Longrightarrow> oc_orgId s = [] \<or> (\<exists>org. organization_of s = Some org \<and> org_id org = oc_orgId s)"
proof -
  assume s: "member_org s"
  have "organization_of s = Some org \<Longrightarrow> org_id org = oc_orgId s" for org
    by (auto simp: organization_of_def find_Some_iff)
  moreover have "oc_orgId s \<in> org_id ` set (oc_organizations s) \<Longrightarrow> \<exists>org. organization_of s = Some org"
    by (auto simp: organization_of_def find_None_iff simp flip: not_None_eq)
  ultimately show ?thesis using s by (auto simp: member_org_def)
qed

text \<open>
  The organisation every customer request names is one of the user's organisations. However loads,
  failed loads and selections follow each other, the active id is empty or the id of the organisation the
  context hands to the pages, which is one of those loaded.
\<close>

theorem active_org_is_member:
  "let s' = fold org_step es (s\<lparr>oc_orgId := []\<rparr>)
   in oc_orgId s' = [] \<or> (\<exists>org. organization_of s' = Some org \<and> org_id org = oc_orgId s')"
proof -
  have "member_org (s\<lparr>oc_orgId := []\<rparr>)" by (simp add: member_org_def)
  then show ?thesis unfolding Let_def by (intro member_org_found org_machine.run_inv)
qed

lemma stored_org_kept:
  assumes "list_ex (\<lambda>org. org_id org = readStoredOrgId (oc_browser s)) orgs" and "env_data e = JArr orgs"
  shows "oc_orgId (orgs_loaded (Inr e) s) = readStoredOrgId (oc_browser s)"
proof -
  have "active_org (readStoredOrgId (oc_browser s)) orgs = readStoredOrgId (oc_browser s)"
    using assms(1) by (simp only: active_org_def if_True)
  with assms(2) show ?thesis by (auto simp: orgs_loaded_def array_or_empty_def Let_def)
qed

subsection \<open>The instance pages\<close>

text \<open>\<open>[a-z]\<close>.\<close>

definition is_lower :: "char \<Rightarrow> bool" where
  "is_lower c \<longleftrightarrow> 97 \<le> (of_char c :: nat) \<and> (of_char c :: nat) \<le> 122"

definition isUnsupportedFeature :: "js_error \<Rightarrow> bool" where
  "isUnsupportedFeature e = (case e of ApiError _ _ st _ \<Rightarrow> st = 501 \<or> st = 409 \<or> st = 404 | PlainError _ \<Rightarrow> False)"

record instance_detail =
  id_instance :: "json option"
  id_loading :: bool
  id_error :: "js_error option"

definition load_instance :: "string option \<Rightarrow> string \<Rightarrow> instance_detail api_script" where
  "load_instance iid orgId =
     (if missing iid \<or> orgId = [] then Done
      else with_flag id_loading_update (Set (id_error_update (\<lambda>_. None))
        (try_catch
          (await (api_get (''/instances/'' @ the iid) (org_opts orgId))
            (\<lambda>e. Set (id_instance_update (\<lambda>_. if env_data e = JNull then None else Some (env_data e))) Done))
          (\<lambda>c. Set (id_error_update (\<lambda>_. Some c)) Done))))"

definition formatCountdown :: "int \<Rightarrow> string" where
  "formatCountdown secondsLeft =
     (if secondsLeft \<le> 0 then ''expired''
      else if secondsLeft div 60 \<le> 0 then show_int (secondsLeft mod 60) @ ''s''
      else show_int (secondsLeft div 60) @ ''m '' @ pad_nat 2 (nat (secondsLeft mod 60)) @ ''s'')"

end
