(* ===== verification/Instance_Firewall.thy ===== *)
theory Instance_Firewall
  imports Customer_Org "HOL-Library.Multiset"
begin

text \<open>
  The firewall page of an instance (\<open>console-user/src/features/customer/pages/instances/Firewall.tsx\<close>):
  ordered rules, the option map, named IP sets and their entries. Only the open tab is mounted, so
  each tab is a page of its own: its cells extend the cells of the page component, whose
  \<open>loadAll\<close> every tab calls after a change. \<open>iid\<close> and \<open>orgId\<close> are the route
  parameter and the active organisation.
\<close>

subsection \<open>Rows\<close>

definition first :: "json option \<Rightarrow> json \<Rightarrow> json" where
  "first v fallback = (case v of None \<Rightarrow> fallback | Some x \<Rightarrow> x)"

definition rulePos :: "json \<Rightarrow> json" where
  "rulePos rule = first (prop_of rule ''Pos'') (first (prop_of rule ''pos'') (JNum (- 1)))"

definition ruleField :: "json \<Rightarrow> string \<Rightarrow> string \<Rightarrow> string" where
  "ruleField rule camel snake =
     (if \<not> nullish (prop_of rule camel) then js_String (the (prop_of rule camel))
      else if \<not> nullish (prop_of rule snake) then js_String (the (prop_of rule snake))
      else [])"

definition named :: "string \<Rightarrow> string \<Rightarrow> json \<Rightarrow> string" where
  "named camel snake row = js_String (first (prop_of row camel) (coalesce (prop_of row snake) (JStr [])))"

definition ipsetName :: "json \<Rightarrow> string" where
  "ipsetName = named ''Name'' ''name''"

definition ipsetComment :: "json \<Rightarrow> string" where
  "ipsetComment = named ''Comment'' ''comment''"

definition entryCidr :: "json \<Rightarrow> string" where
  "entryCidr = named ''CIDR'' ''cidr''"

definition IPSET_NAME_PATTERN :: "string \<Rightarrow> bool" where
  "IPSET_NAME_PATTERN s \<longleftrightarrow> 1 \<le> length s \<and> length s \<le> 32
     \<and> list_all (\<lambda>c. is_lower c \<or> is_digit c \<or> c = CHR ''_'' \<or> c = CHR ''-'') s"

definition RULE_LEVEL_KEYS :: "string set" where
  "RULE_LEVEL_KEYS = {''dport'', ''proto'', ''action''}"

text \<open>Positions are numbers by the declared type.\<close>

definition pos_number :: "json \<Rightarrow> rat" where
  "pos_number rule = (case rulePos rule of JNum q \<Rightarrow> q | _ \<Rightarrow> 0)"

definition sortedRules :: "json list \<Rightarrow> json list" where
  "sortedRules rules = sort_key pos_number rules"

subsection \<open>The page component\<close>

record firewall_page = ui +
  fw_rules :: "json list"
  fw_options :: "string js_record"
  fw_ipsets :: "json list"
  fw_loading :: bool
  fw_error :: "js_error option"

definition normalizeOptions :: "json option \<Rightarrow> string js_record" where
  "normalizeOptions raw =
     (case raw of
        Some (JObj kvs) \<Rightarrow> map (\<lambda>(k, v). (k, js_String v)) (filter (\<lambda>(k, v). v \<noteq> JNull \<and> \<not> is_object v) kvs)
      | _ \<Rightarrow> [])"

definition firewall_path :: "string \<Rightarrow> string \<Rightarrow> string" where
  "firewall_path iid rest = ''/instances/'' @ iid @ ''/firewall/'' @ rest"

definition loadAll :: "string option \<Rightarrow> string \<Rightarrow> 'a firewall_page_scheme api_script" where
  "loadAll iid orgId =
     (if missing iid \<or> orgId = [] then Done
      else with_flag fw_loading_update (Set (fw_error_update (\<lambda>_. None))
          (try_catch
            (await_all [api_get (firewall_path (the iid) ''rules'') (org_opts orgId),
                        api_get (firewall_path (the iid) ''options'') (org_opts orgId),
                        api_get (firewall_path (the iid) ''ipsets'') (org_opts orgId)]
              (\<lambda>es. Set (fw_rules_update (\<lambda>_. array_or_empty (prop_of (env_data (es ! 0)) ''rules'')))
                   (Set (fw_options_update (\<lambda>_. normalizeOptions (prop_of (env_data (es ! 1)) ''options'')))
                   (Set (fw_ipsets_update (\<lambda>_. array_or_empty (prop_of (env_data (es ! 2)) ''ipsets''))) Done))))
            (\<lambda>cause. Set (fw_error_update (\<lambda>_. Some cause)) Done))))"

subsection \<open>Rules\<close>

record rule_form =
  rf_enabled :: bool
  rf_type :: string
  rf_action :: string
  rf_proto :: string
  rf_source :: string
  rf_destination :: string
  rf_dest_port :: string
  rf_source_port :: string
  rf_comment :: string

definition EMPTY_RULE :: rule_form where
  "EMPTY_RULE = \<lparr>rf_enabled = True, rf_type = ''in'', rf_action = ''ACCEPT'', rf_proto = [], rf_source = [],
     rf_destination = [], rf_dest_port = [], rf_source_port = [], rf_comment = []\<rparr>"

record rules_tab = firewall_page +
  rt_createOpen :: bool
  rt_deleteTarget :: "json option"
  rt_busy :: bool
  rt_form :: rule_form
  rt_submitting :: bool

definition runDelete_rule :: "string option \<Rightarrow> string \<Rightarrow> rules_tab \<Rightarrow> rules_tab api_script" where
  "runDelete_rule iid orgId s =
     (case rt_deleteTarget s of
        None \<Rightarrow> Done
      | Some target \<Rightarrow>
          if missing iid \<or> orgId = [] then Done
          else with_flag rt_busy_update
              (try_catch
                (await (api_delete (firewall_path (the iid) (''rules/'' @ js_String (rulePos target))) (org_opts orgId))
                  (\<lambda>_. Set (toast_success (''Rule at position '' @ js_String (rulePos target) @ '' deleted''))
                      (Set (rt_deleteTarget_update (\<lambda>_. None)) (loadAll iid orgId))))
                (\<lambda>cause. Set (toast_error (api_message ''Failed to delete rule'' cause)) Done)))"

definition rule_body :: "rule_form \<Rightarrow> json" where
  "rule_body f = JObj [(''enabled'', JBool (rf_enabled f)), (''type'', JStr (rf_type f)), (''action'', JStr (rf_action f)),
     (''proto'', JStr (rf_proto f)), (''source'', JStr (trim (rf_source f))),
     (''destination'', JStr (trim (rf_destination f))), (''dest_port'', JStr (trim (rf_dest_port f))),
     (''source_port'', JStr (trim (rf_source_port f))), (''comment'', JStr (trim (rf_comment f)))]"

definition submit_rule :: "string option \<Rightarrow> string \<Rightarrow> rules_tab \<Rightarrow> rules_tab api_script" where
  "submit_rule iid orgId s =
     (let form = rt_form s in
      if missing iid \<or> orgId = [] then Done
      else if (rf_proto form = ''tcp'' \<or> rf_proto form = ''udp'') \<and> trim (rf_dest_port form) = []
      then Set (toast_error ''Destination port is required for tcp/udp rules'') Done
      else with_flag rt_submitting_update
          (try_catch
            (await (api_post (firewall_path (the iid) ''rules'') (Some (rule_body form)) (org_opts orgId))
              (\<lambda>_. Set (toast_success ''Firewall rule created'') (Set (rt_form_update (\<lambda>_. EMPTY_RULE))
                  (Set (rt_createOpen_update (\<lambda>_. False)) (loadAll iid orgId)))))
            (\<lambda>cause. Set (toast_error (api_message ''Failed to create rule'' cause)) Done)))"

datatype rules_event =
    RulesRefresh
  | OpenCreateRule bool
  | EditRule rule_form
  | AskDeleteRule nat
  | CancelDeleteRule
  | ConfirmDeleteRule
  | SubmitRule

text \<open>The table shows \<open>sortedRules\<close> and is replaced by a skeleton while loading; the buttons are
  disabled while their handler runs.\<close>

fun rules_handler :: "string option \<Rightarrow> string \<Rightarrow> rules_event \<Rightarrow> rules_tab \<Rightarrow> rules_tab api_script" where
  "rules_handler iid orgId RulesRefresh s = (if fw_loading s then Done else loadAll iid orgId)"
| "rules_handler iid orgId (OpenCreateRule t) s = Set (rt_createOpen_update (\<lambda>_. t)) Done"
| "rules_handler iid orgId (EditRule f) s = Set (rt_form_update (\<lambda>_. f)) Done"
| "rules_handler iid orgId (AskDeleteRule i) s =
     (if \<not> fw_loading s \<and> i < length (fw_rules s)
      then Set (rt_deleteTarget_update (\<lambda>_. Some (sortedRules (fw_rules s) ! i))) Done else Done)"
| "rules_handler iid orgId CancelDeleteRule s = Set (rt_deleteTarget_update (\<lambda>_. None)) Done"
| "rules_handler iid orgId ConfirmDeleteRule s = (if rt_busy s then Done else runDelete_rule iid orgId s)"
| "rules_handler iid orgId SubmitRule s =
     (if \<not> rt_createOpen s \<or> rt_submitting s then Done else submit_rule iid orgId s)"

subsection \<open>Options\<close>

record options_tab = firewall_page +
  ot_rows :: "(string \<times> string) list"
  ot_newKey :: string
  ot_newValue :: string
  ot_saving :: bool
  ot_dirty :: bool

text \<open>The effect that copies the loaded options into the rows.\<close>

definition sync_options :: "options_tab \<Rightarrow> options_tab api_script" where
  "sync_options s = Set (ot_rows_update (\<lambda>_. fw_options s)) (Set (ot_dirty_update (\<lambda>_. False)) Done)"

definition invalidKeys :: "(string \<times> string) list \<Rightarrow> string list" where
  "invalidKeys rows = map fst (filter (\<lambda>row. fst row \<in> RULE_LEVEL_KEYS) rows)"

definition addRow :: "options_tab \<Rightarrow> options_tab api_script" where
  "addRow s =
     (let key = toLowerCase (trim (ot_newKey s)) in
      if key = [] then Set (toast_error ''Option name is required'') Done
      else if list_ex (\<lambda>row. fst row = key) (ot_rows s)
      then Set (toast_error (''Option \"'' @ key @ ''\" already exists'')) Done
      else if key \<in> RULE_LEVEL_KEYS
      then Set (toast_error ''\"dport\"/\"proto\"/\"action\" belong on rules, not options'') Done
      else Set (ot_rows_update (\<lambda>rows. rows @ [(key, trim (ot_newValue s))]))
        (Set (ot_newKey_update (\<lambda>_. [])) (Set (ot_newValue_update (\<lambda>_. []))
        (Set (ot_dirty_update (\<lambda>_. True)) Done))))"

definition removeRow :: "string \<Rightarrow> options_tab api_script" where
  "removeRow key = Set (ot_rows_update (filter (\<lambda>row. fst row \<noteq> key))) (Set (ot_dirty_update (\<lambda>_. True)) Done)"

definition edit_value :: "nat \<Rightarrow> string \<Rightarrow> options_tab api_script" where
  "edit_value i v =
     Set (ot_rows_update (\<lambda>rows. if i < length rows then rows[i := (fst (rows ! i), v)] else rows))
       (Set (ot_dirty_update (\<lambda>_. True)) Done)"

definition options_payload :: "(string \<times> string) list \<Rightarrow> json" where
  "options_payload rows = JObj (foldl (\<lambda>o' row. AList.update (fst row) (JStr (snd row)) o') [] rows)"

definition saveOptions :: "string option \<Rightarrow> string \<Rightarrow> options_tab \<Rightarrow> options_tab api_script" where
  "saveOptions iid orgId s =
     (if missing iid \<or> orgId = [] then Done
      else if invalidKeys (ot_rows s) \<noteq> []
      then Set (toast_error (''Remove rule-level keys first: '' @ join '', '' (invalidKeys (ot_rows s)))) Done
      else with_flag ot_saving_update
          (try_catch
            (await (api_put (firewall_path (the iid) ''options'') (Some (options_payload (ot_rows s))) (org_opts orgId))
              (\<lambda>_. Set (toast_success ''Firewall options saved'') (Set (ot_dirty_update (\<lambda>_. False)) (loadAll iid orgId))))
            (\<lambda>cause. Set (toast_error (api_message ''Failed to save options'' cause)) Done)))"

datatype options_event =
    OptionsRefresh
  | SyncOptions
  | NewKey string
  | NewValue string
  | AddOption
  | RemoveOption nat
  | EditOption nat string
  | SaveOptions

text \<open>While the page loads the tab shows a placeholder.\<close>

fun options_handler :: "string option \<Rightarrow> string \<Rightarrow> options_event \<Rightarrow> options_tab \<Rightarrow> options_tab api_script" where
  "options_handler iid orgId OptionsRefresh s = (if fw_loading s then Done else loadAll iid orgId)"
| "options_handler iid orgId SyncOptions s = sync_options s"
| "options_handler iid orgId (NewKey k) s = Set (ot_newKey_update (\<lambda>_. k)) Done"
| "options_handler iid orgId (NewValue v) s = Set (ot_newValue_update (\<lambda>_. v)) Done"
| "options_handler iid orgId AddOption s = (if fw_loading s then Done else addRow s)"
| "options_handler iid orgId (RemoveOption i) s =
     (if \<not> fw_loading s \<and> i < length (ot_rows s) then removeRow (fst (ot_rows s ! i)) else Done)"
| "options_handler iid orgId (EditOption i v) s =
     (if \<not> fw_loading s \<and> i < length (ot_rows s) then edit_value i v else Done)"
| "options_handler iid orgId SaveOptions s =
     (if fw_loading s \<or> ot_saving s \<or> (\<not> ot_dirty s \<and> ot_rows s = []) then Done else saveOptions iid orgId s)"

subsection \<open>IP sets\<close>

record ipsets_tab = firewall_page +
  it_selected :: "string option"
  it_createOpen :: bool
  it_name :: string
  it_comment :: string
  it_submitting :: bool
  it_deleteOpen :: bool
  it_force :: bool
  it_busy :: bool

definition first_ipset :: "json list \<Rightarrow> string option" where
  "first_ipset ipsets = (case ipsets of i # _ \<Rightarrow> Some (ipsetName i) | [] \<Rightarrow> None)"

text \<open>The effect that keeps a valid selection; an empty name is no selection.\<close>

definition keep_selection :: "ipsets_tab \<Rightarrow> ipsets_tab api_script" where
  "keep_selection s =
     (case it_selected s of
        Some (c # n) \<Rightarrow>
          if \<not> list_ex (\<lambda>i. ipsetName i = c # n) (fw_ipsets s)
          then Set (it_selected_update (\<lambda>_. first_ipset (fw_ipsets s))) Done else Done
      | _ \<Rightarrow> if fw_ipsets s \<noteq> [] then Set (it_selected_update (\<lambda>_. first_ipset (fw_ipsets s))) Done else Done)"

definition submit_ipset :: "string option \<Rightarrow> string \<Rightarrow> ipsets_tab \<Rightarrow> ipsets_tab api_script" where
  "submit_ipset iid orgId s =
     (let name = trim (it_name s) in
      if missing iid \<or> orgId = [] \<or> \<not> IPSET_NAME_PATTERN name then Done
      else with_flag it_submitting_update
          (try_catch
            (await (api_post (firewall_path (the iid) ''ipsets'')
                      (Some (JObj [(''name'', JStr name), (''comment'', JStr (trim (it_comment s)))])) (org_opts orgId))
              (\<lambda>_. Set (toast_success (''IP set \"'' @ name @ ''\" created'')) (Set (it_createOpen_update (\<lambda>_. False))
                  (Set (it_name_update (\<lambda>_. [])) (Set (it_comment_update (\<lambda>_. [])) (Fork (loadAll iid orgId) Done))))))
            (\<lambda>cause. Set (toast_error (api_message ''Failed to create IP set'' cause)) Done)))"

definition submit_delete_ipset :: "string option \<Rightarrow> string \<Rightarrow> string \<Rightarrow> ipsets_tab \<Rightarrow> ipsets_tab api_script" where
  "submit_delete_ipset iid orgId name s =
     (if missing iid \<or> orgId = [] then Done
      else with_flag it_busy_update
          (try_catch
            (await (api_delete (firewall_path (the iid) (''ipsets/'' @ encodeURIComponent name))
                      \<lparr>ao_headers = Some (orgHeaders orgId), ao_query = if it_force s then Some [(''force'', QNum 1)] else None\<rparr>)
              (\<lambda>_. Set (toast_success (''IP set \"'' @ name @ ''\" deleted'')) (Set (it_deleteOpen_update (\<lambda>_. False))
                  (Set (it_selected_update (\<lambda>_. None)) (loadAll iid orgId)))))
            (\<lambda>cause. Set (toast_error (api_message ''Failed to delete IP set'' cause)) Done)))"

datatype ipsets_event =
    IpsetsRefresh
  | KeepSelection
  | SelectIpset nat
  | OpenCreateIpset bool
  | IpsetName string
  | IpsetComment string
  | SubmitIpset
  | OpenDeleteIpset bool
  | ForceDelete bool
  | ConfirmDeleteIpset

fun ipsets_handler :: "string option \<Rightarrow> string \<Rightarrow> ipsets_event \<Rightarrow> ipsets_tab \<Rightarrow> ipsets_tab api_script" where
  "ipsets_handler iid orgId IpsetsRefresh s = (if fw_loading s then Done else loadAll iid orgId)"
| "ipsets_handler iid orgId KeepSelection s = keep_selection s"
| "ipsets_handler iid orgId (SelectIpset i) s =
     (if \<not> fw_loading s \<and> i < length (fw_ipsets s)
      then Set (it_selected_update (\<lambda>_. Some (ipsetName (fw_ipsets s ! i)))) Done else Done)"
| "ipsets_handler iid orgId (OpenCreateIpset t) s = Set (it_createOpen_update (\<lambda>_. t)) Done"
| "ipsets_handler iid orgId (IpsetName n) s = Set (it_name_update (\<lambda>_. n)) Done"
| "ipsets_handler iid orgId (IpsetComment c) s = Set (it_comment_update (\<lambda>_. c)) Done"
| "ipsets_handler iid orgId SubmitIpset s =
     (if \<not> it_createOpen s \<or> \<not> IPSET_NAME_PATTERN (trim (it_name s)) \<or> it_submitting s then Done
      else submit_ipset iid orgId s)"
| "ipsets_handler iid orgId (OpenDeleteIpset t) s = Set (it_deleteOpen_update (\<lambda>_. t)) Done"
| "ipsets_handler iid orgId (ForceDelete t) s = Set (it_force_update (\<lambda>_. t)) Done"
| "ipsets_handler iid orgId ConfirmDeleteIpset s =
     (case it_selected s of
        Some (c # n) \<Rightarrow> if \<not> it_deleteOpen s \<or> it_busy s then Done else submit_delete_ipset iid orgId (c # n) s
      | _ \<Rightarrow> Done)"

subsection \<open>Entries of an IP set\<close>

text \<open>The panel is mounted anew for every selected set, with a route instance and an organisation.\<close>

record entries_panel = firewall_page +
  ep_entries :: "json list"
  ep_loading :: bool
  ep_error :: "js_error option"
  ep_cidr :: string
  ep_comment :: string
  ep_adding :: bool
  ep_deleteCidr :: "string option"
  ep_editEntry :: "json option"
  ep_newCidr :: string
  ep_editComment :: string
  ep_saving :: bool

definition entries_path :: "string \<Rightarrow> string \<Rightarrow> string" where
  "entries_path iid setName = firewall_path iid (''ipsets/'' @ encodeURIComponent setName @ ''/entries'')"

definition load_entries :: "string \<Rightarrow> string \<Rightarrow> string \<Rightarrow> entries_panel api_script" where
  "load_entries iid orgId setName =
     (if iid = [] \<or> orgId = [] then Done
      else with_flag ep_loading_update (Set (ep_error_update (\<lambda>_. None))
          (try_catch
            (await (api_get (entries_path iid setName) (org_opts orgId))
              (\<lambda>e. Set (ep_entries_update (\<lambda>_. array_or_empty (prop_of (env_data e) ''entries''))) Done))
            (\<lambda>cause. Set (ep_error_update (\<lambda>_. Some cause)) Done))))"

definition addEntry :: "string \<Rightarrow> string \<Rightarrow> string \<Rightarrow> entries_panel \<Rightarrow> entries_panel api_script" where
  "addEntry iid orgId setName s =
     (if trim (ep_cidr s) = [] then Set (toast_error ''CIDR is required'') Done
      else with_flag ep_adding_update
          (try_catch
            (await (api_post (entries_path iid setName)
                      (Some (JObj [(''cidr'', JStr (trim (ep_cidr s))), (''comment'', JStr (trim (ep_comment s)))]))
                      (org_opts orgId))
              (\<lambda>_. Set (toast_success ''Entry added'') (Set (ep_cidr_update (\<lambda>_. []))
                  (Set (ep_comment_update (\<lambda>_. [])) (load_entries iid orgId setName)))))
            (\<lambda>cause. Set (toast_error (api_message ''Failed to add entry'' cause)) Done)))"

definition runDelete_entry :: "string \<Rightarrow> string \<Rightarrow> string \<Rightarrow> entries_panel \<Rightarrow> entries_panel api_script" where
  "runDelete_entry iid orgId setName s =
     (if missing (ep_deleteCidr s) \<or> iid = [] \<or> orgId = [] then Done
      else try_catch
        (await (api_delete (entries_path iid setName) (org_query orgId [(''cidr'', QStr (the (ep_deleteCidr s)))]))
          (\<lambda>_. Set (toast_success (''Entry '' @ the (ep_deleteCidr s) @ '' deleted''))
              (Set (ep_deleteCidr_update (\<lambda>_. None)) (load_entries iid orgId setName))))
        (\<lambda>cause. Set (toast_error (api_message ''Failed to delete entry'' cause)) Done))"

definition original_cidr :: "entries_panel \<Rightarrow> string" where
  "original_cidr s = (case ep_editEntry s of Some entry \<Rightarrow> entryCidr entry | None \<Rightarrow> [])"

definition original_comment :: "entries_panel \<Rightarrow> string" where
  "original_comment s = (case ep_editEntry s of Some entry \<Rightarrow> ipsetComment entry | None \<Rightarrow> [])"

text \<open>The effect that copies the opened entry into the dialog.\<close>

definition sync_entry :: "entries_panel \<Rightarrow> entries_panel api_script" where
  "sync_entry s = Set (ep_newCidr_update (\<lambda>_. original_cidr s)) (Set (ep_editComment_update (\<lambda>_. original_comment s)) Done)"

definition save_entry :: "string \<Rightarrow> string \<Rightarrow> string \<Rightarrow> entries_panel \<Rightarrow> entries_panel api_script" where
  "save_entry iid orgId setName s =
     (if ep_editEntry s = None \<or> iid = [] \<or> orgId = [] \<or> original_cidr s = [] then Done
      else with_flag ep_saving_update
          (try_catch
            (await (api_put (entries_path iid setName @ ''/'' @ encodeURIComponent (original_cidr s))
                      (Some (JObj ((if trim (ep_newCidr s) \<noteq> original_cidr s then [(''new_cidr'', JStr (trim (ep_newCidr s)))] else [])
                                   @ [(''comment'', JStr (trim (ep_editComment s)))]))) (org_opts orgId))
              (\<lambda>_. Set (toast_success ''Entry updated'')
                  (Set (ep_editEntry_update (\<lambda>_. None))
                    (and_then (load_entries iid orgId setName) (loadAll (Some iid) orgId)))))
            (\<lambda>cause. Set (toast_error (api_message ''Failed to update entry'' cause)) Done)))"

datatype entries_event =
    LoadEntries
  | EntryCidr string
  | EntryComment string
  | AddEntry
  | AskDeleteEntry nat
  | CancelDeleteEntry
  | ConfirmDeleteEntry
  | OpenEdit nat
  | SyncEntry
  | EditCidr string
  | EditComment string
  | CloseEdit
  | SaveEntry

fun entries_handler :: "string \<Rightarrow> string \<Rightarrow> string \<Rightarrow> entries_event \<Rightarrow> entries_panel \<Rightarrow> entries_panel api_script" where
  "entries_handler iid orgId setName LoadEntries s = load_entries iid orgId setName"
| "entries_handler iid orgId setName (EntryCidr c) s = Set (ep_cidr_update (\<lambda>_. c)) Done"
| "entries_handler iid orgId setName (EntryComment c) s = Set (ep_comment_update (\<lambda>_. c)) Done"
| "entries_handler iid orgId setName AddEntry s = (if ep_adding s then Done else addEntry iid orgId setName s)"
| "entries_handler iid orgId setName (AskDeleteEntry i) s =
     (if \<not> ep_loading s \<and> ep_error s = None \<and> i < length (ep_entries s)
      then Set (ep_deleteCidr_update (\<lambda>_. Some (entryCidr (ep_entries s ! i)))) Done else Done)"
| "entries_handler iid orgId setName CancelDeleteEntry s = Set (ep_deleteCidr_update (\<lambda>_. None)) Done"
| "entries_handler iid orgId setName ConfirmDeleteEntry s = runDelete_entry iid orgId setName s"
| "entries_handler iid orgId setName (OpenEdit i) s =
     (if \<not> ep_loading s \<and> ep_error s = None \<and> i < length (ep_entries s)
      then Set (ep_editEntry_update (\<lambda>_. Some (ep_entries s ! i))) Done else Done)"
| "entries_handler iid orgId setName SyncEntry s = sync_entry s"
| "entries_handler iid orgId setName (EditCidr c) s = Set (ep_newCidr_update (\<lambda>_. c)) Done"
| "entries_handler iid orgId setName (EditComment c) s = Set (ep_editComment_update (\<lambda>_. c)) Done"
| "entries_handler iid orgId setName CloseEdit s = Set (ep_editEntry_update (\<lambda>_. None)) Done"
| "entries_handler iid orgId setName SaveEntry s = (if ep_saving s then Done else save_entry iid orgId setName s)"

subsection \<open>What the page asks the backend\<close>

definition scoped_call :: "string \<Rightarrow> string \<Rightarrow> api_call \<Rightarrow> bool" where
  "scoped_call iid orgId c \<longleftrightarrow> startsWith (ac_path c) (firewall_path iid [])
     \<and> ao_headers (ac_opts c) = Some (orgHeaders orgId)"

definition body_of :: "api_call \<Rightarrow> json" where
  "body_of c = (case ac_body c of Some j \<Rightarrow> j | None \<Rightarrow> JNull)"

definition rules_call :: "string option \<Rightarrow> string \<Rightarrow> api_call \<Rightarrow> bool" where
  "rules_call iid orgId c \<longleftrightarrow> \<not> missing iid \<and> orgId \<noteq> [] \<and> scoped_call (the iid) orgId c
     \<and> (ac_method c = ''POST'' \<longrightarrow>
          prop_of (body_of c) ''proto'' \<in> {Some (JStr ''tcp''), Some (JStr ''udp'')} \<longrightarrow>
          prop_of (body_of c) ''dest_port'' \<noteq> Some (JStr []))"

definition options_call :: "string option \<Rightarrow> string \<Rightarrow> api_call \<Rightarrow> bool" where
  "options_call iid orgId c \<longleftrightarrow> \<not> missing iid \<and> orgId \<noteq> [] \<and> scoped_call (the iid) orgId c
     \<and> list_all (\<lambda>k. prop_of (body_of c) k = None) [''dport'', ''proto'', ''action'']"

definition json_string :: "json option \<Rightarrow> string" where
  "json_string v = (case v of Some (JStr s) \<Rightarrow> s | _ \<Rightarrow> [])"

definition ipsets_call :: "string option \<Rightarrow> string \<Rightarrow> api_call \<Rightarrow> bool" where
  "ipsets_call iid orgId c \<longleftrightarrow> \<not> missing iid \<and> orgId \<noteq> [] \<and> scoped_call (the iid) orgId c
     \<and> (ac_method c = ''POST'' \<longrightarrow> IPSET_NAME_PATTERN (json_string (prop_of (body_of c) ''name'')))"

definition entries_call :: "string \<Rightarrow> string \<Rightarrow> string \<Rightarrow> api_call \<Rightarrow> bool" where
  "entries_call iid orgId setName c \<longleftrightarrow> scoped_call iid orgId c
     \<and> (ac_method c = ''POST'' \<longrightarrow> json_string (prop_of (body_of c) ''cidr'') \<noteq> [])
     \<and> (ac_method c \<noteq> ''GET'' \<longrightarrow> startsWith (ac_path c) (entries_path iid setName))"

lemma firewall_path_scoped [simp]: "startsWith (firewall_path iid rest) (firewall_path iid [])"
  by (simp add: firewall_path_def startsWith_append_iff)

lemma loadAll_ok:
  assumes "\<And>rest. \<not> missing iid \<Longrightarrow> orgId \<noteq> [] \<Longrightarrow> allowed (api_get (firewall_path (the iid) rest) (org_opts orgId))"
  shows "script_ok (\<lambda>_. True) allowed (loadAll iid orgId)"
  using assms by (auto simp: loadAll_def intro!: script_intros)

lemmas call_simps = api_call_defs scoped_call_def org_opts_def org_query_def body_of_def json_string_def

interpretation rules_page: page_contract perform_api "rules_handler iid orgId" "\<lambda>_. True" "rules_call iid orgId"
  for iid orgId
proof
  fix s u
  have "script_ok (\<lambda>_. True) (rules_call iid orgId) (loadAll iid orgId)"
    by (rule loadAll_ok) (simp add: rules_call_def call_simps)
  then show "script_ok (\<lambda>_. True) (rules_call iid orgId) (rules_handler iid orgId u s)"
    by (cases u)
      (auto simp: runDelete_rule_def submit_rule_def rules_call_def call_simps rule_body_def Let_def
         split: option.splits intro!: script_intros)
qed

lemma options_payload_keys:
  assumes "invalidKeys rows = []" and "k \<in> RULE_LEVEL_KEYS"
  shows "prop_of (options_payload rows) k = None"
proof -
  have "map_of (foldl (\<lambda>o' row. AList.update (fst row) (JStr (snd row)) o') kvs rows) k = map_of kvs k" for kvs
    using assms by (induction rows arbitrary: kvs) (auto simp: invalidKeys_def update_conv' split: if_splits)
  then show ?thesis by (simp add: options_payload_def)
qed

lemma options_payload_free:
  "invalidKeys rows = [] \<Longrightarrow> list_all (\<lambda>k. prop_of (options_payload rows) k = None) [''dport'', ''proto'', ''action'']"
  using options_payload_keys [of rows] by (simp add: RULE_LEVEL_KEYS_def)

interpretation options_page: page_contract perform_api "options_handler iid orgId" "\<lambda>_. True" "options_call iid orgId"
  for iid orgId
proof
  fix s u
  have l: "script_ok (\<lambda>_. True) (options_call iid orgId) (loadAll iid orgId)"
    by (rule loadAll_ok) (simp add: options_call_def call_simps)
  have "script_ok (\<lambda>_. True) (options_call iid orgId) (saveOptions iid orgId s)"
    using options_payload_free [of "ot_rows s"] l
    by (auto simp: saveOptions_def options_call_def call_simps intro!: script_intros)
  with l show "script_ok (\<lambda>_. True) (options_call iid orgId) (options_handler iid orgId u s)"
    by (cases u) (auto simp: sync_options_def addRow_def removeRow_def edit_value_def Let_def intro!: script_intros)
qed

interpretation ipsets_page: page_contract perform_api "ipsets_handler iid orgId" "\<lambda>_. True" "ipsets_call iid orgId"
  for iid orgId
proof
  fix s u
  have "script_ok (\<lambda>_. True) (ipsets_call iid orgId) (loadAll iid orgId)"
    by (rule loadAll_ok) (simp add: ipsets_call_def call_simps)
  then show "script_ok (\<lambda>_. True) (ipsets_call iid orgId) (ipsets_handler iid orgId u s)"
    by (cases u)
      (auto simp: keep_selection_def submit_ipset_def submit_delete_ipset_def ipsets_call_def call_simps Let_def
         split: option.splits list.splits intro!: script_intros)
qed

lemma entries_path_scoped [simp]: "startsWith (entries_path iid n) (firewall_path iid [])"
  "startsWith (entries_path iid n @ rest) (firewall_path iid [])"
  by (simp_all add: entries_path_def firewall_path_def startsWith_append_iff)

lemma startsWith_refl [simp]: "startsWith p p"
  using startsWith_append [of p "[]"] by simp

interpretation entries_page: page_contract perform_api "entries_handler iid orgId setName" "\<lambda>_. True" "entries_call iid orgId setName"
  for iid orgId setName
proof
  fix s u
  have a: "script_ok (\<lambda>_. True) (entries_call iid orgId setName) (loadAll (Some iid) orgId)"
    by (rule loadAll_ok) (simp add: entries_call_def call_simps)
  have b: "script_ok (\<lambda>_. True) (entries_call iid orgId setName) (load_entries iid orgId setName)"
    by (auto simp: load_entries_def entries_call_def call_simps intro!: script_intros)
  from a b show "script_ok (\<lambda>_. True) (entries_call iid orgId setName) (entries_handler iid orgId setName u s)"
    by (cases u)
      (auto simp: addEntry_def runDelete_entry_def sync_entry_def save_entry_def entries_call_def call_simps
         intro!: script_intros)
qed

subsection \<open>No button stays disabled\<close>

lemma loadAll_low:
  assumes "\<And>g x. busy (fw_loading_update g x) = busy x" "\<And>g x. busy (fw_error_update g x) = busy x"
    "\<And>g x. busy (fw_rules_update g x) = busy x" "\<And>g x. busy (fw_options_update g x) = busy x"
    "\<And>g x. busy (fw_ipsets_update g x) = busy x"
  shows "ends_low busy (loadAll iid orgId) True"
  using assms by (auto simp: loadAll_def intro!: script_intros)

lemmas toast_defs = toast_success_def toast_error_def

interpretation rules_busy: page_flag perform_api "rules_handler iid orgId" rt_busy for iid orgId
proof
  fix u s
  have "ends_low rt_busy (loadAll iid orgId) True" by (rule loadAll_low) simp_all
  then show "ends_low rt_busy (rules_handler iid orgId u s) True"
    by (cases u) (auto simp: runDelete_rule_def submit_rule_def toast_defs Let_def split: option.splits intro!: script_intros)
qed

interpretation rules_submitting: page_flag perform_api "rules_handler iid orgId" rt_submitting for iid orgId
proof
  fix u s
  have "ends_low rt_submitting (loadAll iid orgId) True" by (rule loadAll_low) simp_all
  then show "ends_low rt_submitting (rules_handler iid orgId u s) True"
    by (cases u) (auto simp: runDelete_rule_def submit_rule_def toast_defs Let_def split: option.splits intro!: script_intros)
qed

interpretation options_saving: page_flag perform_api "options_handler iid orgId" ot_saving for iid orgId
proof
  fix u s
  have "ends_low ot_saving (loadAll iid orgId) True" by (rule loadAll_low) simp_all
  then show "ends_low ot_saving (options_handler iid orgId u s) True"
    by (cases u)
      (auto simp: sync_options_def addRow_def removeRow_def edit_value_def saveOptions_def toast_defs Let_def
         intro!: script_intros)
qed

interpretation ipsets_submitting: page_flag perform_api "ipsets_handler iid orgId" it_submitting for iid orgId
proof
  fix u s
  have "ends_low it_submitting (loadAll iid orgId) True" by (rule loadAll_low) simp_all
  then show "ends_low it_submitting (ipsets_handler iid orgId u s) True"
    by (cases u)
      (auto simp: keep_selection_def submit_ipset_def submit_delete_ipset_def toast_defs Let_def
         split: option.splits list.splits intro!: script_intros)
qed

interpretation ipsets_busy: page_flag perform_api "ipsets_handler iid orgId" it_busy for iid orgId
proof
  fix u s
  have "ends_low it_busy (loadAll iid orgId) True" by (rule loadAll_low) simp_all
  then show "ends_low it_busy (ipsets_handler iid orgId u s) True"
    by (cases u)
      (auto simp: keep_selection_def submit_ipset_def submit_delete_ipset_def toast_defs Let_def
         split: option.splits list.splits intro!: script_intros)
qed

lemmas entries_defs = load_entries_def addEntry_def runDelete_entry_def sync_entry_def save_entry_def

interpretation entries_adding: page_flag perform_api "entries_handler iid orgId setName" ep_adding for iid orgId setName
proof
  fix u s
  have "ends_low ep_adding (loadAll (Some iid) orgId) True" by (rule loadAll_low) simp_all
  then show "ends_low ep_adding (entries_handler iid orgId setName u s) True"
    by (cases u) (auto simp: entries_defs toast_defs intro!: script_intros)
qed

interpretation entries_saving: page_flag perform_api "entries_handler iid orgId setName" ep_saving for iid orgId setName
proof
  fix u s
  have "ends_low ep_saving (loadAll (Some iid) orgId) True" by (rule loadAll_low) simp_all
  then show "ends_low ep_saving (entries_handler iid orgId setName u s) True"
    by (cases u) (auto simp: entries_defs toast_defs intro!: script_intros)
qed

subsection \<open>Claims\<close>


text \<open>
  The rules are shown in the order they are evaluated: all of them, by ascending position, rules
  of equal position in the order of the answer.
\<close>

theorem rules_shown_in_order:
  "mset (sortedRules rules) = mset rules \<and> sorted (map pos_number (sortedRules rules))
   \<and> (\<forall>q. filter (\<lambda>r. pos_number r = q) (sortedRules rules) = filter (\<lambda>r. pos_number r = q) rules)"
  by (simp add: sortedRules_def sort_key_stable)

end
