(* ===== verification/Transfers.thy ===== *)
theory Transfers
  imports Page_Kit Js_Number
begin

text \<open>
  File transfers: the multipart upload of the customer console (\<open>features/customer/upload.ts\<close>), the
  staff reply upload with per-file progress and the attachment download
  (\<open>features/admin/pages/attachmentUpload.ts\<close>).

  An upload is an \<open>XMLHttpRequest\<close> that fires progress events and then \<open>error\<close> or \<open>load\<close>.
  A promise keeps its first settlement. A loaded response carries its status, its text and what
  \<open>JSON.parse\<close> makes of the text (\<open>None\<close> when it throws).
\<close>

record js_file =
  fl_name :: string
  fl_size :: nat

datatype form_field = TextField string string | FileField string js_file

record transfer_error =
  te_message :: string
  te_status :: int
  te_code :: json

datatype xhr_event = Progress bool nat nat | NetworkError | Loaded int string "json option"

record ('p, 'a) transfer =
  tr_settled :: "(transfer_error + 'a) option"
  tr_reports :: "'p list"

definition settle :: "transfer_error + 'a \<Rightarrow> ('p, 'a) transfer \<Rightarrow> ('p, 'a) transfer" where
  "settle v t = (case tr_settled t of None \<Rightarrow> t\<lparr>tr_settled := Some v\<rparr> | Some _ \<Rightarrow> t)"

definition started :: "('p, 'a) transfer" where
  "started = \<lparr>tr_settled = None, tr_reports = []\<rparr>"

definition bearer_headers :: "browser \<Rightarrow> string js_record" where
  "bearer_headers b = (case getToken b of Some (c # t) \<Rightarrow> [(''Authorization'', ''Bearer '' @ c # t)] | _ \<Rightarrow> [])"

definition is_2xx :: "int \<Rightarrow> bool" where
  "is_2xx st \<longleftrightarrow> 200 \<le> st \<and> st < 300"

subsection \<open>Customer uploads\<close>

definition upload_url :: "browser \<Rightarrow> string \<Rightarrow> string" where
  "upload_url b path = API_BASE b @ (if startsWith path ''/'' then path else ''/'' @ path)"

definition UploadError :: "string \<Rightarrow> int \<Rightarrow> transfer_error" where
  "UploadError m st = \<lparr>te_message = m, te_status = st, te_code = JStr ''upload_error''\<rparr>"

definition upload_percent :: "nat \<Rightarrow> nat \<Rightarrow> js_num" where
  "upload_percent loaded bytes =
     (if bytes = 0 then (if loaded = 0 then NaN else Infinite True)
      else Fin (of_int (js_round (of_nat loaded / of_nat bytes * 100))))"

record upload_result =
  ur_status :: int
  ur_body :: json

definition upload_payload :: "string \<Rightarrow> json option \<Rightarrow> json" where
  "upload_payload txt parsed = (if txt = [] then JNull else case parsed of Some j \<Rightarrow> j | None \<Rightarrow> JStr txt)"

definition upload_loaded :: "int \<Rightarrow> string \<Rightarrow> json option \<Rightarrow> transfer_error + upload_result" where
  "upload_loaded st txt parsed =
     (let payload = upload_payload txt parsed
      in if is_2xx st then Inr \<lparr>ur_status = st, ur_body = payload\<rparr>
         else let err = prop_of payload ''error''
              in Inl \<lparr>te_message = js_String (coalesce (opt_prop err ''message'')
                        (JStr (''Upload failed with status '' @ show_int st))),
                      te_status = st, te_code = coalesce (opt_prop err ''code'') (JStr ''upload_error'')\<rparr>)"

fun uploadMultipart_step :: "xhr_event \<Rightarrow> (js_num, upload_result) transfer \<Rightarrow> (js_num, upload_result) transfer" where
  "uploadMultipart_step (Progress computable loaded bytes) t =
     (if computable then t\<lparr>tr_reports := tr_reports t @ [upload_percent loaded bytes]\<rparr> else t)"
| "uploadMultipart_step NetworkError t = settle (Inl (UploadError ''Network error during upload'' 0)) t"
| "uploadMultipart_step (Loaded st txt parsed) t = settle (upload_loaded st txt parsed) t"

subsection \<open>Staff reply uploads\<close>

definition MAX_REPLY_FILES :: nat where
  "MAX_REPLY_FILES = 10"

definition MAX_TOTAL_BYTES :: nat where
  "MAX_TOTAL_BYTES = 100 * 1024 * 1024"

definition PART_OVERHEAD_BYTES :: nat where
  "PART_OVERHEAD_BYTES = 256"

definition reply_form :: "string \<Rightarrow> bool \<Rightarrow> js_file list \<Rightarrow> form_field list" where
  "reply_form body internalNote files =
     [TextField ''body'' body, TextField ''internal_note'' (if internalNote then ''true'' else ''false'')]
     @ map (FileField ''files'') files"

text \<open>Start and size of every file in the encoded body.\<close>

fun spans_from :: "nat \<Rightarrow> js_file list \<Rightarrow> (nat \<times> nat) list" where
  "spans_from consumed [] = []"
| "spans_from consumed (f # fs) =
     (let len = fl_size f + PART_OVERHEAD_BYTES in (consumed, len) # spans_from (consumed + len) fs)"

definition reply_spans :: "string \<Rightarrow> js_file list \<Rightarrow> (nat \<times> nat) list" where
  "reply_spans body files = spans_from (js_length body + PART_OVERHEAD_BYTES) files"

definition span_percent :: "nat \<Rightarrow> nat \<times> nat \<Rightarrow> int" where
  "span_percent loaded sp =
     (case sp of (start, len) \<Rightarrow>
        if loaded \<ge> start + len then 100
        else if loaded \<le> start \<or> len \<le> PART_OVERHEAD_BYTES then 0
        else min 100 (js_round ((of_nat loaded - of_nat start) / of_nat len * 100)))"

definition reportProgress :: "string \<Rightarrow> js_file list \<Rightarrow> nat \<Rightarrow> int list" where
  "reportProgress body files loaded = map (span_percent loaded) (reply_spans body files)"

definition AttachmentTransferError :: "string \<Rightarrow> int \<Rightarrow> transfer_error" where
  "AttachmentTransferError m st = \<lparr>te_message = m, te_status = st, te_code = JStr ''attachment_error''\<rparr>"

definition reply_url :: "browser \<Rightarrow> string \<Rightarrow> string" where
  "reply_url b ticketId = API_BASE b @ ''/admin/tickets/'' @ encodeURIComponent ticketId @ ''/reply/attachments''"

definition reply_loaded :: "int \<Rightarrow> string \<Rightarrow> json option \<Rightarrow> transfer_error + json" where
  "reply_loaded st txt parsed =
     (let payload = (if txt = [] then JNull else case parsed of Some j \<Rightarrow> j | None \<Rightarrow> JNull)
      in if is_2xx st
         then (case prop_of payload ''data'' of
                 Some data \<Rightarrow>
                   (case prop_of data ''message_id'' of
                      Some (JStr _) \<Rightarrow> Inr data
                    | _ \<Rightarrow> Inl (AttachmentTransferError ''Unexpected reply-attachment response'' st))
               | None \<Rightarrow> Inl (AttachmentTransferError ''Unexpected reply-attachment response'' st))
         else let err = prop_of payload ''error''
              in Inl \<lparr>te_message = js_String (coalesce (opt_prop err ''message'')
                        (JStr (''Attachment upload failed with status '' @ show_int st))),
                      te_status = st, te_code = coalesce (opt_prop err ''code'') (JStr ''attachment_error'')\<rparr>)"

fun uploadStaffTicketReply_step ::
  "string \<Rightarrow> js_file list \<Rightarrow> xhr_event \<Rightarrow> (int list, json) transfer \<Rightarrow> (int list, json) transfer" where
  "uploadStaffTicketReply_step body files (Progress computable loaded bytes) t =
     (if computable then t\<lparr>tr_reports := tr_reports t @ [reportProgress body files loaded]\<rparr> else t)"
| "uploadStaffTicketReply_step body files NetworkError t =
     settle (Inl (AttachmentTransferError ''Network error during upload'' 0)) t"
| "uploadStaffTicketReply_step body files (Loaded st txt parsed) t = settle (reply_loaded st txt parsed) t"

subsection \<open>Attachment download\<close>

record download_target =
  dt_messageId :: string
  dt_attachmentId :: string
  dt_filename :: string

record download_answer =
  da_status :: int
  da_content_type :: "string option"
  da_disposition :: "string option"
  da_json :: "json option"

datatype download_effect = OpenTab string | SaveAs string

definition download_url :: "browser \<Rightarrow> string \<Rightarrow> download_target \<Rightarrow> string" where
  "download_url b ticketId target = API_BASE b @ ''/admin/tickets/'' @ encodeURIComponent ticketId
     @ ''/messages/'' @ encodeURIComponent (dt_messageId target)
     @ ''/attachments/'' @ encodeURIComponent (dt_attachmentId target)"

definition download_headers :: "browser \<Rightarrow> string js_record" where
  "download_headers b = [(''Authorization'', ''Bearer '' @ (case getToken b of Some t \<Rightarrow> t | None \<Rightarrow> []))]"

text \<open>\<open>/filename="?([^";]+)"?/.exec(disposition)\<close>: the first occurrence with a name.\<close>

definition filename_at :: "string \<Rightarrow> string option" where
  "filename_at s =
     (if startsWith s ''filename=''
      then (let t = drop 9 s;
                u = (case t of CHR 0x22 # r \<Rightarrow> r | _ \<Rightarrow> t);
                n = takeWhile (\<lambda>c. c \<noteq> CHR 0x22 \<and> c \<noteq> CHR '';'') u
            in if n = [] then None else Some n)
      else None)"

fun disposition_filename :: "string \<Rightarrow> string option" where
  "disposition_filename [] = None"
| "disposition_filename (c # s) =
     (case filename_at (c # s) of Some n \<Rightarrow> Some n | None \<Rightarrow> disposition_filename s)"

text \<open>\<open>response.json()\<close> throws on a body that is no JSON, and reading \<open>data\<close> of \<open>null\<close> throws.\<close>

definition downloadStaffTicketAttachment ::
  "download_target \<Rightarrow> download_answer \<Rightarrow> (transfer_error + string) + download_effect" where
  "downloadStaffTicketAttachment target r =
     (if \<not> is_2xx (da_status r)
      then Inl (Inl (AttachmentTransferError (''Attachment download failed ('' @ show_int (da_status r) @ '')'') (da_status r)))
      else if str_includes (case da_content_type r of Some t \<Rightarrow> t | None \<Rightarrow> []) ''application/json''
      then (case da_json r of
              None \<Rightarrow> Inl (Inr ''SyntaxError'')
            | Some JNull \<Rightarrow> Inl (Inr ''TypeError'')
            | Some payload \<Rightarrow>
                (let url = coalesce (opt_prop (prop_of payload ''data'') ''url'') (coalesce (prop_of payload ''url'') JNull)
                 in if \<not> truthy url then Inl (Inl (AttachmentTransferError ''No download link returned'' (da_status r)))
                    else Inr (OpenTab (js_String url))))
      else Inr (SaveAs (case disposition_filename (case da_disposition r of Some d \<Rightarrow> d | None \<Rightarrow> []) of
                          Some n \<Rightarrow> n
                        | None \<Rightarrow> dt_filename target)))"

subsection \<open>Progress\<close>

lemma span_percent_bounds: "0 \<le> span_percent loaded sp \<and> span_percent loaded sp \<le> 100"
proof (cases sp)
  case (Pair start len)
  have "0 \<le> js_round ((of_nat loaded - of_nat start) / of_nat len * 100)" if "\<not> loaded \<le> start"
  proof -
    have "js_round (of_int 0) \<le> js_round ((of_nat loaded - of_nat start) / of_nat len * 100)"
      using that by (intro js_round_mono) simp
    then show ?thesis using js_round_of_int [of 0] by (simp del: js_round_of_int)
  qed
  with Pair show ?thesis by (auto simp: span_percent_def)
qed

lemma span_percent_mono:
  assumes "l \<le> l'"
  shows "span_percent l sp \<le> span_percent l' sp"
proof (cases sp)
  case (Pair start len)
  have "js_round ((of_nat l - of_nat start) / of_nat len * 100) \<le> js_round ((of_nat l' - of_nat start) / of_nat len * 100)"
    using assms by (intro js_round_mono mult_right_mono divide_right_mono) simp_all
  moreover have "0 \<le> span_percent l' sp" "span_percent l' sp \<le> 100" using span_percent_bounds by auto
  ultimately show ?thesis using assms Pair by (auto simp: span_percent_def)
qed

lemma span_percent_done: "fst sp + snd sp \<le> loaded \<Longrightarrow> span_percent loaded sp = 100"
  by (cases sp) (simp add: span_percent_def)

lemma span_percent_started: "span_percent loaded sp > 0 \<Longrightarrow> 0 < snd sp \<Longrightarrow> fst sp < loaded"
  by (cases sp) (auto simp: span_percent_def split: if_splits)

text \<open>Where the files lie: one after the other, without gaps.\<close>

definition body_end :: "string \<Rightarrow> js_file list \<Rightarrow> nat" where
  "body_end body files = js_length body + PART_OVERHEAD_BYTES + sum_list (map (\<lambda>f. fl_size f + PART_OVERHEAD_BYTES) files)"

lemma spans_from_nth:
  "i < length fs \<Longrightarrow>
   spans_from c fs ! i = (c + sum_list (map (\<lambda>f. fl_size f + PART_OVERHEAD_BYTES) (take i fs)), fl_size (fs ! i) + PART_OVERHEAD_BYTES)"
proof (induction fs arbitrary: c i)
  case (Cons f fs)
  then show ?case by (cases i) (simp_all add: Let_def)
qed simp

lemma spans_from_length [simp]: "length (spans_from c fs) = length fs"
  by (induction fs arbitrary: c) (simp_all add: Let_def)

lemma sum_take_Suc:
  fixes g :: "'a \<Rightarrow> nat"
  assumes "i < length xs"
  shows "sum_list (map g (take (Suc i) xs)) = sum_list (map g (take i xs)) + g (xs ! i)"
  using assms by (simp add: take_Suc_conv_app_nth)

lemma sum_take_mono:
  fixes g :: "'a \<Rightarrow> nat"
  assumes "i \<le> j"
  shows "sum_list (map g (take i xs)) \<le> sum_list (map g (take j xs))"
proof -
  have "take j xs = take i xs @ take (j - i) (drop i xs)"
    using assms by (metis le_add_diff_inverse take_add)
  then show ?thesis by simp
qed

lemma span_end_le:
  assumes "i < j" and "j < length fs"
  shows "fst (spans_from c fs ! i) + snd (spans_from c fs ! i) \<le> fst (spans_from c fs ! j)"
  using assms sum_take_mono [of "Suc i" j "\<lambda>f. fl_size f + PART_OVERHEAD_BYTES" fs]
  by (simp add: spans_from_nth sum_take_Suc)

lemma span_end_total:
  assumes "i < length fs"
  shows "fst (spans_from c fs ! i) + snd (spans_from c fs ! i)
    \<le> c + sum_list (map (\<lambda>f. fl_size f + PART_OVERHEAD_BYTES) fs)"
  using assms sum_take_mono [of "Suc i" "length fs" "\<lambda>f. fl_size f + PART_OVERHEAD_BYTES" fs]
  by (simp add: spans_from_nth sum_take_Suc)

text \<open>
  The progress of a staff reply. With more bytes sent no file's percentage falls, every
  percentage is between 0 and 100, files progress in order (a file has begun only when all earlier ones
  are at 100), and once the whole encoded body is sent every file is at 100.
\<close>

theorem reply_progress_sound:
  assumes "l \<le> l'"
  shows "length (reportProgress body files l) = length files
    \<and> list_all2 (\<le>) (reportProgress body files l) (reportProgress body files l')
    \<and> list_all (\<lambda>p. 0 \<le> p \<and> p \<le> 100) (reportProgress body files l)
    \<and> (\<forall>i j. i < j \<and> j < length files \<and> reportProgress body files l ! j > 0 \<longrightarrow> reportProgress body files l ! i = 100)
    \<and> (body_end body files \<le> l \<longrightarrow> reportProgress body files l = replicate (length files) 100)"
proof (intro conjI)
  let ?c = "js_length body + PART_OVERHEAD_BYTES"
  let ?sp = "spans_from ?c files"
  show "length (reportProgress body files l) = length files" by (simp add: reportProgress_def reply_spans_def)
  show "list_all2 (\<le>) (reportProgress body files l) (reportProgress body files l')"
    using span_percent_mono [OF assms] by (simp add: reportProgress_def list_all2_conv_all_nth)
  show "list_all (\<lambda>p. 0 \<le> p \<and> p \<le> 100) (reportProgress body files l)"
    using span_percent_bounds by (simp add: reportProgress_def list_all_iff)
  have nth: "i < length files \<Longrightarrow> reportProgress body files l ! i = span_percent l (?sp ! i)" for i
    by (simp add: reportProgress_def reply_spans_def)
  show "\<forall>i j. i < j \<and> j < length files \<and> reportProgress body files l ! j > 0 \<longrightarrow> reportProgress body files l ! i = 100"
  proof (intro allI impI)
    fix i j assume a: "i < j \<and> j < length files \<and> reportProgress body files l ! j > 0"
    then have "fst (?sp ! j) < l"
      using span_percent_started [of l "?sp ! j"] nth [of j]
      by (simp add: spans_from_nth PART_OVERHEAD_BYTES_def)
    with a have "fst (?sp ! i) + snd (?sp ! i) \<le> l" using span_end_le [of i j files ?c] by simp
    with a nth [of i] show "reportProgress body files l ! i = 100" by (simp add: span_percent_done)
  qed
  show "body_end body files \<le> l \<longrightarrow> reportProgress body files l = replicate (length files) 100"
  proof
    assume e: "body_end body files \<le> l"
    have "reportProgress body files l ! i = 100" if "i < length files" for i
      using that e span_end_total [OF that, of ?c] nth [OF that] by (simp add: body_end_def span_percent_done)
    then show "reportProgress body files l = replicate (length files) 100"
      by (intro nth_equalityI) (simp_all add: reportProgress_def reply_spans_def)
  qed
qed

definition sample_files :: "js_file list" where
  "sample_files = [\<lparr>fl_name = ''a.log'', fl_size = 744\<rparr>, \<lparr>fl_name = ''b.log'', fl_size = 1744\<rparr>]"

theorem reply_progress_sound_witness:
  "list_all2 (\<le>) (reportProgress ''hello'' sample_files 1200) (reportProgress ''hello'' sample_files 2000)
   \<and> reportProgress ''hello'' sample_files 1200 = [94, 0] \<and> reportProgress ''hello'' sample_files 2000 = [100, 37]"
proof (intro conjI)
  show "list_all2 (\<le>) (reportProgress ''hello'' sample_files 1200) (reportProgress ''hello'' sample_files 2000)"
    using reply_progress_sound [of 1200 2000 "''hello''" sample_files] by simp
  have sp: "reply_spans ''hello'' sample_files = [(261, 1000), (1261, 2000)]"
    by (simp add: reply_spans_def sample_files_def js_length_def code_units_def PART_OVERHEAD_BYTES_def Let_def)
  show "reportProgress ''hello'' sample_files 1200 = [94, 0]" "reportProgress ''hello'' sample_files 2000 = [100, 37]"
    by (simp_all add: reportProgress_def sp span_percent_def PART_OVERHEAD_BYTES_def js_round_def floor_eq_iff)
qed

subsection \<open>Settling\<close>

text \<open>The promise of an upload, as a function of the events: decided by the first final event.\<close>

fun final_event :: "xhr_event \<Rightarrow> bool" where
  "final_event (Progress _ _ _) = False"
| "final_event _ = True"

fun customer_outcome :: "xhr_event \<Rightarrow> transfer_error + upload_result" where
  "customer_outcome (Loaded st txt parsed) = upload_loaded st txt parsed"
| "customer_outcome _ = Inl (UploadError ''Network error during upload'' 0)"

fun staff_outcome :: "xhr_event \<Rightarrow> transfer_error + json" where
  "staff_outcome (Loaded st txt parsed) = reply_loaded st txt parsed"
| "staff_outcome _ = Inl (AttachmentTransferError ''Network error during upload'' 0)"

locale settles_once =
  fixes step :: "xhr_event \<Rightarrow> ('p, 'a) transfer \<Rightarrow> ('p, 'a) transfer"
    and outcome :: "xhr_event \<Rightarrow> transfer_error + 'a"
  assumes progress_keeps: "\<not> final_event e \<Longrightarrow> tr_settled (step e t) = tr_settled t"
    and final_settles: "final_event e \<Longrightarrow> step e t = settle (outcome e) t"
begin

lemma settled_stays: "tr_settled t = Some v \<Longrightarrow> tr_settled (fold step es t) = Some v"
proof (induction es arbitrary: t)
  case (Cons e es)
  then have "tr_settled (step e t) = Some v"
    by (cases "final_event e") (simp_all add: progress_keeps final_settles settle_def)
  with Cons.IH show ?case by simp
qed simp

lemma first_final_decides:
  "tr_settled t = None \<Longrightarrow> tr_settled (fold step es t) = map_option outcome (find final_event es)"
proof (induction es arbitrary: t)
  case (Cons e es)
  show ?case
  proof (cases "final_event e")
    case True
    with Cons.prems have "tr_settled (step e t) = Some (outcome e)" by (simp add: final_settles settle_def)
    with True settled_stays show ?thesis by simp
  next
    case False
    with Cons show ?thesis by (simp add: progress_keeps)
  qed
qed simp

end

interpretation customer_upload: settles_once uploadMultipart_step customer_outcome
proof
  fix e t
  show "\<not> final_event e \<Longrightarrow> tr_settled (uploadMultipart_step e t) = tr_settled t" by (cases e) simp_all
  show "final_event e \<Longrightarrow> uploadMultipart_step e t = settle (customer_outcome e) t" by (cases e) simp_all
qed

interpretation staff_upload: settles_once "uploadStaffTicketReply_step body files" staff_outcome for body files
proof
  fix e t
  show "\<not> final_event e \<Longrightarrow> tr_settled (uploadStaffTicketReply_step body files e t) = tr_settled t" by (cases e) simp_all
  show "final_event e \<Longrightarrow> uploadStaffTicketReply_step body files e t = settle (staff_outcome e) t" by (cases e) simp_all
qed

lemma staff_outcome_ok: "staff_outcome e = Inr d \<Longrightarrow>
  \<exists>st txt parsed i. e = Loaded st txt parsed \<and> is_2xx st \<and> prop_of d ''message_id'' = Some (JStr i)"
  by (cases e) (auto simp: reply_loaded_def Let_def split: if_splits option.splits json.splits)

text \<open>
  The promise of an upload settles exactly once, with the first network error or loaded response,
  and no later event changes it; it is pending as long as there was none. The customer upload resolves
  exactly on a 2xx status; the staff upload resolves only on a 2xx status with the id of the stored
  message.
\<close>

theorem uploads_settle_once:
  "tr_settled (fold uploadMultipart_step es started) = map_option customer_outcome (find final_event es)
   \<and> tr_settled (fold (uploadStaffTicketReply_step body files) es started) = map_option staff_outcome (find final_event es)
   \<and> isl (customer_outcome (Loaded st txt parsed)) = (\<not> is_2xx st)
   \<and> (staff_outcome (Loaded st txt parsed) = Inr d \<longrightarrow> is_2xx st \<and> (\<exists>i. prop_of d ''message_id'' = Some (JStr i)))"
  using staff_outcome_ok [of "Loaded st txt parsed" d]
  by (auto simp: customer_upload.first_final_decides staff_upload.first_final_decides started_def upload_loaded_def Let_def)

theorem uploads_settle_once_witness:
  "staff_outcome (Loaded 201 ''x'' (Some (JObj [(''data'', JObj [(''message_id'', JStr ''m1'')])]))) = Inr (JObj [(''message_id'', JStr ''m1'')])
   \<and> is_2xx 201 \<and> (\<exists>i. prop_of (JObj [(''message_id'', JStr ''m1'')]) ''message_id'' = Some (JStr i))"
proof -
  have o: "staff_outcome (Loaded 201 ''x'' (Some (JObj [(''data'', JObj [(''message_id'', JStr ''m1'')])]))) = Inr (JObj [(''message_id'', JStr ''m1'')])"
    by (simp add: reply_loaded_def is_2xx_def)
  with uploads_settle_once [of "[]" "[]" "[]" 201 "''x''" "Some (JObj [(''data'', JObj [(''message_id'', JStr ''m1'')])])"
      "JObj [(''message_id'', JStr ''m1'')]"]
  show ?thesis by blast
qed

text \<open>A quoted file name comes back from the disposition header.\<close>

lemma disposition_roundtrip:
  assumes "n \<noteq> []" and "list_all (\<lambda>c. c \<noteq> CHR 0x22 \<and> c \<noteq> CHR '';'') n"
  shows "disposition_filename (''attachment; filename='' @ [CHR 0x22] @ n @ [CHR 0x22]) = Some n"
proof -
  have "takeWhile (\<lambda>c. c \<noteq> CHR 0x22 \<and> c \<noteq> CHR '';'') (n @ [CHR 0x22]) = n"
    using assms(2) by (induction n) auto
  with assms(1) have "filename_at (''filename='' @ [CHR 0x22] @ n @ [CHR 0x22]) = Some n"
    by (simp add: filename_at_def Let_def)
  then show ?thesis by (simp add: filename_at_def)
qed

end
