(* ===== verification/Ticket_Threads.thy ===== *)
theory Ticket_Threads
  imports Transfers Customer_Org Formatting Timestamps
begin

text \<open>
  The three ticket threads: the admin console (\<open>features/admin/pages/TicketThread.tsx\<close>), the NOC console
  (\<open>features/noc/pages/TicketThread.tsx\<close>) and the customer console
  (\<open>features/customer/pages/TicketDetail.tsx\<close>). A reply without files is a JSON request of the API
  client, a reply with files is an upload; both are calls of a script.

  Progress events of a running upload are events of the page: \<open>xhr\<close> cells hold the body and the
  files the upload was started with.
\<close>

subsection \<open>How a message is shown\<close>

definition messageVariantClass :: "string \<Rightarrow> string" where
  "messageVariantClass authorType =
     (let t = toLowerCase authorType in
      if t = ''internal_note'' then ''border-amber-500/30 bg-amber-500/5''
      else if t = ''staff'' \<or> t = ''support'' then ''border-primary/20 bg-primary/5''
      else if t = ''customer'' then ''bg-muted/50''
      else [])"

definition or_dash :: "string \<Rightarrow> string" where
  "or_dash s = (if s = [] then em_dash else s)"

definition authorLabel :: "string \<Rightarrow> string" where
  "authorLabel authorType =
     (let t = toLowerCase authorType in
      if t = ''internal_note'' then ''internal note''
      else if t = ''customer'' then ''customer''
      else if t = ''staff'' then ''staff''
      else if t = ''support'' then ''Support''
      else or_dash authorType)"

definition customer_authorLabel :: "string \<Rightarrow> string" where
  "customer_authorLabel authorType =
     (let t = toLowerCase authorType in
      if t = ''customer'' then ''You''
      else if t = ''staff'' \<or> t = ''support'' then ''Support''
      else if t = ''internal_note'' then ''internal note''
      else or_dash authorType)"

definition formatChatBytes :: "js_num option \<Rightarrow> string" where
  "formatChatBytes bytes =
     (case bytes of
        None \<Rightarrow> em_dash
      | Some NaN \<Rightarrow> em_dash
      | Some (Infinite p) \<Rightarrow> if p then ''Infinity TiB'' else ''0 B''
      | Some (Fin q) \<Rightarrow> if q \<le> 0 then ''0 B'' else scaled_text iec_units q)"

definition formatChatDateTime :: "(string \<Rightarrow> int option) \<Rightarrow> (int \<Rightarrow> string) \<Rightarrow> string option \<Rightarrow> string" where
  "formatChatDateTime other locale raw =
     (case parseApiDate other raw of
        Some ms \<Rightarrow> locale ms
      | None \<Rightarrow>
          if missing raw then em_dash
          else (case new_Date other (the raw) of Some ms \<Rightarrow> locale ms | None \<Rightarrow> the raw))"

subsection \<open>Picking files\<close>

definition MAX_FILE_BYTES :: nat where
  "MAX_FILE_BYTES = 100 * 1024 * 1024"

definition bytes_of :: "js_file list \<Rightarrow> nat" where
  "bytes_of files = sum_list (map fl_size files)"

definition first_too_big :: "js_file list \<Rightarrow> js_file option" where
  "first_too_big files = find (\<lambda>f. fl_size f > MAX_FILE_BYTES) files"

text \<open>The picked files and the messages shown; \<open>unit\<close> is the word for the thing sent.\<close>

definition pickFiles :: "string \<Rightarrow> js_file list \<Rightarrow> js_file list \<Rightarrow> toast list \<times> js_file list" where
  "pickFiles unit current selected =
     (if selected = [] then ([], current)
      else let merged = take MAX_REPLY_FILES (current @ selected);
               many = (if length current + length selected > MAX_REPLY_FILES
                       then [Failure (''At most '' @ show_nat MAX_REPLY_FILES @ '' files per '' @ unit)] else [])
           in case first_too_big merged of
                Some f \<Rightarrow> (many @ [Failure (''\"'' @ fl_name f @ ''\" exceeds the 100 MB per-file cap'')], current)
              | None \<Rightarrow> if bytes_of merged > MAX_TOTAL_BYTES
                        then (many @ [Failure ''Attachments exceed the 100 MB total size cap''], current)
                        else (many, merged))"

definition within_limits :: "js_file list \<Rightarrow> bool" where
  "within_limits files \<longleftrightarrow> length files \<le> MAX_REPLY_FILES \<and> list_all (\<lambda>f. fl_size f \<le> MAX_FILE_BYTES) files
     \<and> bytes_of files \<le> MAX_TOTAL_BYTES"

definition say :: "toast list \<Rightarrow> 'a ui_scheme \<Rightarrow> 'a ui_scheme" where
  "say ts s = s\<lparr>toasts := toasts s @ ts\<rparr>"

subsection \<open>Calls\<close>

datatype ticket_call =
    Json api_call
  | StaffReply string string bool "js_file list"
  | CustomerForm string "form_field list"

definition transfer_result :: "transfer_error + json \<Rightarrow> api_result" where
  "transfer_result r = (case r of Inl e \<Rightarrow> Inl (PlainError (te_message e)) | Inr d \<Rightarrow> Inr \<lparr>env_data = d, env_meta = None\<rparr>)"

text \<open>The request of an upload: the form is not a JSON body, and no header beside the bearer token is set.\<close>

definition post_form :: "string \<Rightarrow> browser \<Rightarrow> xhr_event \<times> browser" where
  "post_form url b =
     (case fetch \<lparr>rq_method = ''POST'', rq_url = url, rq_headers = bearer_headers b, rq_include = False, rq_body = None\<rparr> b of
        (NetFail, b') \<Rightarrow> (NetworkError, b')
      | (Resp r, b') \<Rightarrow> (case rs_text r of
                            None \<Rightarrow> (NetworkError, b')
                          | Some t \<Rightarrow> (Loaded (rs_status r) t (rs_json r), b')))"

fun perform_ticket :: "ticket_call \<Rightarrow> browser \<Rightarrow> api_result \<times> browser" where
  "perform_ticket (Json c) b = perform_api c b"
| "perform_ticket (StaffReply tid body note files) b =
     (case post_form (reply_url b tid) b of (e, b') \<Rightarrow> (transfer_result (staff_outcome e), b'))"
| "perform_ticket (CustomerForm path form) b =
     (case post_form (upload_url b path) b of (e, b') \<Rightarrow> (transfer_result (map_sum id ur_body (customer_outcome e)), b'))"

type_synonym 's ticket_script = "('s, ticket_call, api_result, js_error) script"

definition plain_org :: "string \<Rightarrow> api_options" where
  "plain_org org = \<lparr>ao_headers = Some [(''X-Organization-ID'', org)], ao_query = None\<rparr>"

definition reply_path :: "string \<Rightarrow> string \<Rightarrow> string" where
  "reply_path tid rest = ''/admin/tickets/'' @ tid @ rest"

definition reply_json :: "string \<Rightarrow> bool \<Rightarrow> json" where
  "reply_json body note = JObj [(''body'', JStr body), (''internal_note'', JBool note)]"

subsection \<open>Admin console\<close>

record staff_thread = ui +
  st_messages :: "json list option"
  st_messagesError :: "js_error option"
  st_replyBody :: string
  st_internalNote :: bool
  st_sending :: bool
  st_files :: "js_file list"
  st_filePercents :: "int list option"
  st_xhr :: "(string \<times> js_file list) option"
  st_assignTo :: string
  st_mutations :: nat

definition admin_loadMessages :: "string \<Rightarrow> string \<Rightarrow> 'a staff_thread_scheme ticket_script" where
  "admin_loadMessages tid org =
     Set (st_messages_update (\<lambda>_. None)) (Set (st_messagesError_update (\<lambda>_. None))
       (try_catch
         (await (Json (api_get (''/tickets/'' @ tid @ ''/messages'') (plain_org org)))
           (\<lambda>e. Set (st_messages_update (\<lambda>_. Some (array_or_empty (Some (env_data e))))) Done))
         (\<lambda>cause. Set (st_messagesError_update (\<lambda>_. Some cause)) Done)))"

definition clearFiles :: "'a staff_thread_scheme \<Rightarrow> 'a staff_thread_scheme" where
  "clearFiles s = s\<lparr>st_files := [], st_filePercents := None\<rparr>"

definition end_upload :: "'a staff_thread_scheme \<Rightarrow> 'a staff_thread_scheme" where
  "end_upload s = s\<lparr>st_filePercents := None, st_xhr := None\<rparr>"

definition upload_reply :: "string \<Rightarrow> 'a staff_thread_scheme \<Rightarrow> 'a staff_thread_scheme ticket_script \<Rightarrow> 'a staff_thread_scheme ticket_script" where
  "upload_reply tid s k =
     Set (\<lambda>x. x\<lparr>st_filePercents := Some (map (\<lambda>_. 0) (st_files s)), st_xhr := Some (trim (st_replyBody s), st_files s)\<rparr>)
       (await (StaffReply tid (trim (st_replyBody s)) (st_internalNote s) (st_files s)) (\<lambda>_. Set clearFiles k))"

definition sent_message :: "bool \<Rightarrow> string" where
  "sent_message note = (if note then ''Internal note added'' else ''Reply sent'')"

definition admin_sendReply :: "string \<Rightarrow> string \<Rightarrow> staff_thread \<Rightarrow> staff_thread ticket_script" where
  "admin_sendReply tid org s =
     (let body = trim (st_replyBody s);
          after = Set (toast_success (sent_message (st_internalNote s))) (Set (st_replyBody_update (\<lambda>_. []))
                    (Fork (admin_loadMessages tid org) (Set (st_mutations_update Suc) Done)))
      in if body = [] then Set (toast_error ''Reply text is required'') Done
         else with_flag st_sending_update
           (finally_set
             (try_catch
               (if st_files s \<noteq> [] then upload_reply tid s after
                else await (Json (api_post (reply_path tid ''/reply'') (Some (reply_json body (st_internalNote s))) no_options))
                       (\<lambda>_. after))
               (\<lambda>cause. Set (toast_error (error_message ''Failed to send reply'' cause)) Done))
             end_upload))"

definition admin_closeTicket :: "string \<Rightarrow> staff_thread ticket_script" where
  "admin_closeTicket tid =
     try_catch
       (await (Json (api_post (reply_path tid ''/close'') None no_options))
         (\<lambda>_. Set (toast_success ''Ticket closed'') (Set (st_mutations_update Suc) Done)))
       (\<lambda>cause. Set (toast_error (api_message ''Failed to close ticket'' cause)) Done)"

definition admin_assignTicket :: "string \<Rightarrow> staff_thread \<Rightarrow> staff_thread ticket_script" where
  "admin_assignTicket tid s =
     (if st_assignTo s = [] then Set (toast_error ''Pick a staff member first'') Done
      else try_catch
        (await (Json (api_post (reply_path tid ''/assign'') (Some (JObj [(''assign_to'', JStr (st_assignTo s))])) no_options))
          (\<lambda>_. Set (toast_success ''Ticket assigned'') (Set (st_mutations_update Suc) Done)))
        (\<lambda>cause. Set (toast_error (api_message ''Failed to assign'' cause)) Done))"

datatype thread_event =
    LoadMessages
  | TypeReply string
  | ToggleNote bool
  | PickFiles "js_file list"
  | RemoveFile nat
  | UploadProgress nat
  | SendReply
  | CloseTicket
  | TypeAssignee string
  | AssignTicket

definition show_progress :: "nat \<Rightarrow> 'a staff_thread_scheme \<Rightarrow> 'a staff_thread_scheme ticket_script" where
  "show_progress loaded s =
     (case st_xhr s of
        Some (body, files) \<Rightarrow> Set (st_filePercents_update (\<lambda>_. Some (reportProgress body files loaded))) Done
      | None \<Rightarrow> Done)"

fun admin_thread_handler :: "string \<Rightarrow> string \<Rightarrow> thread_event \<Rightarrow> staff_thread \<Rightarrow> staff_thread ticket_script" where
  "admin_thread_handler tid org LoadMessages s = admin_loadMessages tid org"
| "admin_thread_handler tid org (TypeReply t) s = Set (st_replyBody_update (\<lambda>_. t)) Done"
| "admin_thread_handler tid org (ToggleNote t) s = Set (st_internalNote_update (\<lambda>_. t)) Done"
| "admin_thread_handler tid org (PickFiles fs) s =
     (case pickFiles ''reply'' (st_files s) fs of (ts, picked) \<Rightarrow> Set (say ts) (Set (st_files_update (\<lambda>_. picked)) Done))"
| "admin_thread_handler tid org (RemoveFile i) s =
     (if st_sending s then Done else Set (st_files_update (\<lambda>_. drop_nth i (st_files s))) Done)"
| "admin_thread_handler tid org (UploadProgress n) s = show_progress n s"
| "admin_thread_handler tid org SendReply s =
     (if st_sending s \<or> trim (st_replyBody s) = [] then Done else admin_sendReply tid org s)"
| "admin_thread_handler tid org CloseTicket s = admin_closeTicket tid"
| "admin_thread_handler tid org (TypeAssignee t) s = Set (st_assignTo_update (\<lambda>_. t)) Done"
| "admin_thread_handler tid org AssignTicket s = admin_assignTicket tid s"

subsection \<open>NOC console\<close>

definition RESOLVE_PAGE_SIZE :: nat where
  "RESOLVE_PAGE_SIZE = 100"

definition RESOLVE_MAX_PAGES :: nat where
  "RESOLVE_MAX_PAGES = 5"

record noc_thread = staff_thread +
  nt_ticket :: "json option"
  nt_resolving :: bool
  nt_resolveError :: "js_error option"
  nt_loadingMessages :: bool
  nt_confirmClose :: bool
  nt_closing :: bool
  nt_assigning :: bool

definition row_string :: "string \<Rightarrow> json \<Rightarrow> string" where
  "row_string k row = (case prop_of row k of Some (JStr s) \<Rightarrow> s | _ \<Rightarrow> [])"

definition find_ticket :: "string \<Rightarrow> envelope \<Rightarrow> json option" where
  "find_ticket tid e = find (\<lambda>row. prop_of row ''id'' = Some (JStr tid)) (array_or_empty (Some (env_data e)))"

definition resolve_query :: "nat \<Rightarrow> api_options" where
  "resolve_query page = \<lparr>ao_headers = None,
     ao_query = Some [(''page'', QNum (of_nat page)), (''per_page'', QNum (of_nat RESOLVE_PAGE_SIZE))]\<rparr>"

definition meta_total :: "envelope \<Rightarrow> rat" where
  "meta_total e = (case opt_prop (env_meta e) ''total'' of Some (JNum q) \<Rightarrow> q | _ \<Rightarrow> 0)"

definition no_meta :: "envelope \<Rightarrow> bool" where
  "no_meta e = (case env_meta e of None \<Rightarrow> True | Some m \<Rightarrow> \<not> truthy m)"

text \<open>The loop over the pages; \<open>left\<close> counts the pages still allowed.\<close>

fun resolve_from :: "string \<Rightarrow> nat \<Rightarrow> nat \<Rightarrow> noc_thread ticket_script" where
  "resolve_from tid page 0 = Set (nt_ticket_update (\<lambda>_. None)) Done"
| "resolve_from tid page (Suc left) =
     await (Json (api_get ''/admin/tickets'' (resolve_query page)))
       (\<lambda>e. case find_ticket tid e of
              Some row \<Rightarrow> Set (nt_ticket_update (\<lambda>_. Some row)) Done
            | None \<Rightarrow> if no_meta e \<or> of_nat (page * RESOLVE_PAGE_SIZE) \<ge> meta_total e
                      then Set (nt_ticket_update (\<lambda>_. None)) Done
                      else resolve_from tid (Suc page) left)"

definition noc_resolve :: "string \<Rightarrow> noc_thread ticket_script" where
  "noc_resolve tid =
     with_flag nt_resolving_update (Set (nt_resolveError_update (\<lambda>_. None))
       (try_catch (resolve_from tid 1 RESOLVE_MAX_PAGES)
         (\<lambda>cause. Set (nt_resolveError_update (\<lambda>_. Some cause)) Done)))"

definition noc_toast :: "string \<Rightarrow> js_error \<Rightarrow> 'a ui_scheme \<Rightarrow> 'a ui_scheme" where
  "noc_toast fallback cause = toast_error (fst (toastApiError (Some cause) fallback))"

definition noc_loadMessages :: "noc_thread \<Rightarrow> noc_thread ticket_script" where
  "noc_loadMessages s =
     (case nt_ticket s of
        None \<Rightarrow> Done
      | Some ticket \<Rightarrow>
          with_flag nt_loadingMessages_update
            (try_catch
              (await (Json (api_get (''/tickets/'' @ row_string ''id'' ticket @ ''/messages'')
                              (plain_org (row_string ''organization_id'' ticket))))
                (\<lambda>e. Set (st_messages_update (\<lambda>_. Some (array_or_empty (Some (env_data e)))))
                     (Set (st_messagesError_update (\<lambda>_. None)) Done)))
              (\<lambda>cause. Set (st_messagesError_update (\<lambda>_. Some cause)) Done)))"

definition noc_sendReply :: "noc_thread \<Rightarrow> noc_thread ticket_script" where
  "noc_sendReply s =
     (let body = trim (st_replyBody s);
          after = Set (toast_success (sent_message (st_internalNote s))) (Set (st_replyBody_update (\<lambda>_. []))
                    (Set (st_internalNote_update (\<lambda>_. False)) (noc_loadMessages s)))
      in case nt_ticket s of
           None \<Rightarrow> Done
         | Some ticket \<Rightarrow>
             if body = [] then Done
             else with_flag st_sending_update
               (finally_set
                 (try_catch
                   (if st_files s \<noteq> [] then upload_reply (row_string ''id'' ticket) s after
                    else await (Json (api_post (reply_path (row_string ''id'' ticket) ''/reply'')
                                        (Some (reply_json body (st_internalNote s))) no_options))
                           (\<lambda>_. after))
                   (\<lambda>cause. Set (noc_toast ''Could not send the reply'' cause) Done))
                 end_upload))"

definition noc_closeTicket :: "noc_thread \<Rightarrow> noc_thread ticket_script" where
  "noc_closeTicket s =
     (case nt_ticket s of
        None \<Rightarrow> Done
      | Some ticket \<Rightarrow>
          with_flag nt_closing_update
            (try_catch
              (await (Json (api_post (reply_path (row_string ''id'' ticket) ''/close'') None no_options))
                (\<lambda>_. Set (toast_success (row_string ''ticket_number'' ticket @ '' closed''))
                    (Set (nt_confirmClose_update (\<lambda>_. False))
                      (await (Json (api_get ''/admin/tickets'' (resolve_query 1)))
                        (\<lambda>e. case find_ticket (row_string ''id'' ticket) e of
                               Some row \<Rightarrow> Set (nt_ticket_update (\<lambda>_. Some row)) Done
                             | None \<Rightarrow> Done)))))
              (\<lambda>cause. Set (noc_toast ''Could not close the ticket'' cause) Done)))"

definition noc_assignTicket :: "noc_thread \<Rightarrow> noc_thread ticket_script" where
  "noc_assignTicket s =
     (case nt_ticket s of
        None \<Rightarrow> Done
      | Some ticket \<Rightarrow>
          if trim (st_assignTo s) = [] then Done
          else with_flag nt_assigning_update
            (try_catch
              (await (Json (api_post (reply_path (row_string ''id'' ticket) ''/assign'')
                              (Some (JObj [(''assign_to'', JStr (trim (st_assignTo s)))])) no_options))
                (\<lambda>_. Set (toast_success ''Ticket assigned'') (Set (st_assignTo_update (\<lambda>_. [])) Done)))
              (\<lambda>cause. Set (noc_toast ''Could not assign the ticket'' cause) Done)))"

datatype noc_thread_event = Thread thread_event | Resolve | AskClose bool

fun noc_thread_handler :: "string \<Rightarrow> noc_thread_event \<Rightarrow> noc_thread \<Rightarrow> noc_thread ticket_script" where
  "noc_thread_handler tid Resolve s = noc_resolve tid"
| "noc_thread_handler tid (AskClose t) s = Set (nt_confirmClose_update (\<lambda>_. t)) Done"
| "noc_thread_handler tid (Thread LoadMessages) s = noc_loadMessages s"
| "noc_thread_handler tid (Thread (TypeReply t)) s = Set (st_replyBody_update (\<lambda>_. t)) Done"
| "noc_thread_handler tid (Thread (ToggleNote t)) s = Set (st_internalNote_update (\<lambda>_. t)) Done"
| "noc_thread_handler tid (Thread (PickFiles fs)) s =
     Set (\<lambda>x. case pickFiles ''reply'' (st_files x) fs of (ts, picked) \<Rightarrow> say ts (x\<lparr>st_files := picked\<rparr>)) Done"
| "noc_thread_handler tid (Thread (RemoveFile i)) s =
     (if st_sending s then Done else Set (st_files_update (\<lambda>_. drop_nth i (st_files s))) Done)"
| "noc_thread_handler tid (Thread (UploadProgress n)) s = show_progress n s"
| "noc_thread_handler tid (Thread SendReply) s =
     (if st_sending s \<or> trim (st_replyBody s) = [] then Done else noc_sendReply s)"
| "noc_thread_handler tid (Thread CloseTicket) s =
     (if nt_closing s \<or> \<not> nt_confirmClose s then Done else noc_closeTicket s)"
| "noc_thread_handler tid (Thread (TypeAssignee t)) s = Set (st_assignTo_update (\<lambda>_. t)) Done"
| "noc_thread_handler tid (Thread AssignTicket) s =
     (if nt_assigning s \<or> trim (st_assignTo s) = [] then Done else noc_assignTicket s)"

subsection \<open>Customer console\<close>

record customer_thread = ui +
  ct_ticket :: "json option"
  ct_messages :: "json list"
  ct_loading :: bool
  ct_error :: "js_error option"
  ct_body :: string
  ct_files :: "js_file list"
  ct_percent :: "js_num option"

definition not_found :: js_error where
  "not_found = ApiError (JStr ''not_found'') ''Ticket not found in this organization'' 404 NoDetails"

definition customer_load :: "string \<Rightarrow> string \<Rightarrow> customer_thread ticket_script" where
  "customer_load orgId tid =
     (if orgId = [] \<or> tid = [] then Done
      else finally_set
        (try_catch
          (await_all [Json (api_get ''/tickets'' (org_opts orgId)),
                      Json (api_get (''/tickets/'' @ tid @ ''/messages'') (org_opts orgId))]
            (\<lambda>es. case find_ticket tid (es ! 0) of
                    None \<Rightarrow> Throw not_found
                  | Some row \<Rightarrow> Set (ct_ticket_update (\<lambda>_. Some row))
                      (Set (ct_messages_update (\<lambda>_. array_or_empty (Some (env_data (es ! 1))))) Done)))
          (\<lambda>cause. Set (ct_error_update (\<lambda>_. Some cause)) Done))
        (ct_loading_update (\<lambda>_. False)))"

definition customer_form :: "string \<Rightarrow> js_file list \<Rightarrow> form_field list" where
  "customer_form body files = TextField ''body'' body # map (FileField ''files'') files"

definition customer_send :: "string \<Rightarrow> string \<Rightarrow> customer_thread \<Rightarrow> customer_thread ticket_script" where
  "customer_send orgId tid s =
     (let body = trim (ct_body s);
          after = Set (ct_body_update (\<lambda>_. [])) (Set (ct_files_update (\<lambda>_. []))
                    (Set (toast_success ''Reply sent'') (customer_load orgId tid)))
      in if body = [] then Set (toast_error ''Write a reply first'') Done
         else if length (ct_files s) > MAX_REPLY_FILES then Set (toast_error ''At most 10 files per message'') Done
         else case first_too_big (ct_files s) of
           Some f \<Rightarrow> Set (toast_error (''\"'' @ fl_name f @ ''\" exceeds the 100 MB per-file cap'')) Done
         | None \<Rightarrow>
             if bytes_of (ct_files s) > MAX_TOTAL_BYTES
             then Set (toast_error ''Attachments exceed the 100 MB total size cap'') Done
             else Set (ct_percent_update (\<lambda>_. Some (Fin 0)))
               (finally_set
                 (try_catch
                   (if ct_files s \<noteq> []
                    then await (CustomerForm (''/tickets/'' @ tid @ ''/messages/attachments'') (customer_form body (ct_files s)))
                           (\<lambda>_. after)
                    else await (Json (api_post (''/tickets/'' @ tid @ ''/messages'') (Some (JObj [(''body'', JStr body)])) (org_opts orgId)))
                           (\<lambda>_. after))
                   (\<lambda>cause. Set (toast_error (error_message ''Failed to send reply'' cause)) Done))
                 (ct_percent_update (\<lambda>_. None))))"

definition customer_closeTicket :: "string \<Rightarrow> string \<Rightarrow> customer_thread ticket_script" where
  "customer_closeTicket orgId tid =
     try_catch
       (await (Json (api_post (''/tickets/'' @ tid @ ''/close'') (Some (JObj [])) (org_opts orgId)))
         (\<lambda>_. Set (toast_success ''Ticket closed'') (customer_load orgId tid)))
       (\<lambda>cause. Set (toast_error (api_message ''Failed to close ticket'' cause)) Done)"

definition is_closed :: "customer_thread \<Rightarrow> bool" where
  "is_closed s \<longleftrightarrow> opt_prop (ct_ticket s) ''status'' = Some (JStr ''closed'')"

datatype customer_event =
    LoadThread
  | TypeBody string
  | PickCustomerFiles "js_file list"
  | RemoveCustomerFile nat
  | CustomerProgress nat nat
  | SendCustomer
  | CloseCustomer

fun customer_thread_handler :: "string \<Rightarrow> string \<Rightarrow> customer_event \<Rightarrow> customer_thread \<Rightarrow> customer_thread ticket_script" where
  "customer_thread_handler orgId tid LoadThread s = customer_load orgId tid"
| "customer_thread_handler orgId tid (TypeBody t) s = Set (ct_body_update (\<lambda>_. t)) Done"
| "customer_thread_handler orgId tid (PickCustomerFiles fs) s =
     Set (\<lambda>x. case pickFiles ''message'' (ct_files x) fs of (ts, picked) \<Rightarrow> say ts (x\<lparr>ct_files := picked\<rparr>)) Done"
| "customer_thread_handler orgId tid (RemoveCustomerFile i) s =
     (if ct_percent s \<noteq> None then Done else Set (ct_files_update (\<lambda>_. drop_nth i (ct_files s))) Done)"
| "customer_thread_handler orgId tid (CustomerProgress l t) s =
     Set (ct_percent_update (\<lambda>p. if p = None then None else Some (upload_percent l t))) Done"
| "customer_thread_handler orgId tid SendCustomer s =
     (if ct_percent s \<noteq> None \<or> trim (ct_body s) = [] \<or> is_closed s then Done else customer_send orgId tid s)"
| "customer_thread_handler orgId tid CloseCustomer s =
     (if ct_ticket s = None \<or> is_closed s then Done else customer_closeTicket orgId tid)"

subsection \<open>Limits\<close>

lemma pickFiles_limits:
  assumes "within_limits current"
  shows "within_limits (snd (pickFiles u current selected))"
proof -
  let ?m = "take MAX_REPLY_FILES (current @ selected)"
  have "within_limits ?m" if "first_too_big ?m = None" "\<not> bytes_of ?m > MAX_TOTAL_BYTES"
    using that by (auto simp: within_limits_def first_too_big_def find_None_iff list_all_iff MAX_REPLY_FILES_def)
  with assms show ?thesis by (auto simp: pickFiles_def Let_def split: option.splits)
qed

lemma drop_nth_limits:
  assumes "within_limits files"
  shows "within_limits (drop_nth i files)"
proof (cases "i < length files")
  case True
  have "bytes_of (take i files @ files ! i # drop (Suc i) files) = bytes_of (drop_nth i files) + fl_size (files ! i)"
    by (simp add: bytes_of_def drop_nth_def)
  then have "bytes_of files = bytes_of (drop_nth i files) + fl_size (files ! i)"
    using id_take_nth_drop [OF True] by simp
  moreover have "length (drop_nth i files) \<le> length files" by (simp add: drop_nth_def)
  moreover have "set (drop_nth i files) \<subseteq> set files" by (rule drop_nth_set)
  ultimately show ?thesis using assms by (auto simp: within_limits_def list_all_iff)
qed (use assms in \<open>simp add: drop_nth_def\<close>)

lemma within_limits_Nil [simp]: "within_limits []"
  by (simp add: within_limits_def bytes_of_def)

definition form_files :: "form_field list \<Rightarrow> js_file list" where
  "form_files form = List.map_filter (\<lambda>f. case f of FileField _ x \<Rightarrow> Some x | TextField _ _ \<Rightarrow> None) form"

lemma form_files_customer [simp]: "form_files (customer_form body files) = files"
  by (induction files) (simp_all add: form_files_def customer_form_def map_filter_simps)

text \<open>A reply that may be sent: it has text, and its files respect the limits of the backend.\<close>

definition reply_call :: "ticket_call \<Rightarrow> bool" where
  "reply_call c \<longleftrightarrow>
     (case c of
        StaffReply _ body _ files \<Rightarrow> body \<noteq> [] \<and> files \<noteq> [] \<and> within_limits files
      | CustomerForm _ form \<Rightarrow>
          (\<exists>body. body \<noteq> [] \<and> hd form = TextField ''body'' body) \<and> form_files form \<noteq> [] \<and> within_limits (form_files form)
      | Json a \<Rightarrow> (case ac_body a of Some j \<Rightarrow> prop_of j ''body'' \<noteq> Some (JStr []) | None \<Rightarrow> True))"

lemma reply_call_simps [simp]:
  "reply_call (StaffReply t body n files) = (body \<noteq> [] \<and> files \<noteq> [] \<and> within_limits files)"
  "reply_call (CustomerForm p (customer_form body files)) = (body \<noteq> [] \<and> files \<noteq> [] \<and> within_limits files)"
  "reply_call (Json (api_get p o')) = True"
  "reply_call (Json (api_post p None o')) = True"
  "reply_call (Json (api_post p (Some j) o')) = (prop_of j ''body'' \<noteq> Some (JStr []))"
  by (simp_all add: reply_call_def api_call_defs) (simp add: customer_form_def)

lemmas ui_defs = toast_success_def toast_error_def noc_toast_def say_def clearFiles_def end_upload_def

interpretation admin_thread: page_contract perform_ticket "admin_thread_handler tid org" "\<lambda>s. within_limits (st_files s)" reply_call
  for tid org
proof
  fix u :: thread_event and s :: staff_thread assume s: "within_limits (st_files s)"
  show "script_ok (\<lambda>s. within_limits (st_files s)) reply_call (admin_thread_handler tid org u s)"
  proof (cases u)
    case (PickFiles fs)
    with pickFiles_limits [OF s, of "''reply''" fs] show ?thesis by (auto simp: ui_defs split: prod.splits)
  next
    case (RemoveFile i)
    with drop_nth_limits [OF s] show ?thesis by simp
  next
    case SendReply
    with s show ?thesis
      by (auto simp: admin_sendReply_def upload_reply_def admin_loadMessages_def reply_json_def ui_defs Let_def
          intro!: script_intros)
  qed (auto simp: admin_loadMessages_def admin_closeTicket_def admin_assignTicket_def show_progress_def ui_defs
      split: option.splits intro!: script_intros)
qed

lemma resolve_from_ok:
  "(\<And>g x. I (nt_ticket_update g x) = I x) \<Longrightarrow> script_ok I reply_call (resolve_from tid page n)"
  by (induction tid page n rule: resolve_from.induct) (auto split: option.splits intro!: script_intros)

interpretation noc_thread: page_contract perform_ticket "noc_thread_handler tid" "\<lambda>s. within_limits (st_files s)" reply_call
  for tid
proof
  fix u :: noc_thread_event and s :: noc_thread assume s: "within_limits (st_files s)"
  have load: "script_ok (\<lambda>s. within_limits (st_files s)) reply_call (noc_loadMessages s)"
    by (auto simp: noc_loadMessages_def split: option.splits intro!: script_intros)
  show "script_ok (\<lambda>s. within_limits (st_files s)) reply_call (noc_thread_handler tid u s)"
  proof (cases "(tid, u, s)" rule: noc_thread_handler.cases)
    case 1
    with resolve_from_ok [of "\<lambda>s. within_limits (st_files s)" tid] show ?thesis
      by (auto simp: noc_resolve_def intro!: script_intros)
  next
    case (6 _ fs)
    with pickFiles_limits show ?thesis by (auto simp: ui_defs split: prod.splits) (metis snd_conv)
  next
    case (7 _ i)
    with drop_nth_limits [OF s] show ?thesis by simp
  next
    case 9
    with s load show ?thesis
      by (auto simp: noc_sendReply_def upload_reply_def reply_json_def ui_defs Let_def split: option.splits
          intro!: script_intros)
  qed (use load in \<open>auto simp: noc_closeTicket_def noc_assignTicket_def show_progress_def ui_defs
      split: option.splits intro!: script_intros\<close>)
qed

interpretation customer_thread: page_contract perform_ticket "customer_thread_handler orgId tid" "\<lambda>s. within_limits (ct_files s)" reply_call
  for orgId tid
proof
  fix u :: customer_event and s :: customer_thread assume s: "within_limits (ct_files s)"
  have load: "script_ok (\<lambda>s. within_limits (ct_files s)) reply_call (customer_load orgId tid)"
    by (auto simp: customer_load_def split: option.splits intro!: script_intros)
  show "script_ok (\<lambda>s. within_limits (ct_files s)) reply_call (customer_thread_handler orgId tid u s)"
  proof (cases u)
    case (PickCustomerFiles fs)
    with pickFiles_limits show ?thesis by (auto simp: ui_defs split: prod.splits) (metis snd_conv)
  next
    case (RemoveCustomerFile i)
    with drop_nth_limits [OF s] show ?thesis by simp
  next
    case SendCustomer
    with s load show ?thesis
      by (auto simp: customer_send_def ui_defs Let_def split: option.splits intro!: script_intros)
  qed (use load in \<open>auto simp: customer_closeTicket_def ui_defs split: option.splits intro!: script_intros\<close>)
qed

text \<open>Whether a reply is being sent, and that every send ends.\<close>

interpretation admin_sending: page_flag perform_ticket "admin_thread_handler tid org" st_sending for tid org
proof
  fix u s
  show "ends_low st_sending (admin_thread_handler tid org u s) True"
    by (cases u)
      (auto simp: admin_sendReply_def upload_reply_def admin_loadMessages_def admin_closeTicket_def admin_assignTicket_def
        show_progress_def ui_defs Let_def split: option.splits prod.splits intro!: script_intros)
qed

lemma resolve_from_low:
  "(\<And>g x. busy (nt_ticket_update g x) = busy x) \<Longrightarrow> ends_low busy (resolve_from tid page n) True"
  by (induction tid page n rule: resolve_from.induct) (auto split: option.splits intro!: script_intros)

lemmas noc_defs = noc_resolve_def noc_loadMessages_def noc_sendReply_def upload_reply_def noc_closeTicket_def
  noc_assignTicket_def show_progress_def ui_defs Let_def

interpretation noc_sending: page_flag perform_ticket "noc_thread_handler tid" st_sending for tid
proof
  fix u s
  show "ends_low st_sending (noc_thread_handler tid u s) True"
    by (cases "(tid, u, s)" rule: noc_thread_handler.cases)
      (auto simp: noc_defs split: option.splits prod.splits intro!: script_intros resolve_from_low)
qed

interpretation noc_closing: page_flag perform_ticket "noc_thread_handler tid" nt_closing for tid
proof
  fix u s
  show "ends_low nt_closing (noc_thread_handler tid u s) True"
    by (cases "(tid, u, s)" rule: noc_thread_handler.cases)
      (auto simp: noc_defs split: option.splits prod.splits intro!: script_intros resolve_from_low)
qed

interpretation customer_sending: page_flag perform_ticket "customer_thread_handler orgId tid" "\<lambda>s. ct_percent s \<noteq> None" for orgId tid
proof
  fix u s
  have load: "ends_low (\<lambda>s. ct_percent s \<noteq> None) (customer_load orgId tid) True"
    by (auto simp: customer_load_def split: option.splits intro!: script_intros)
  show "ends_low (\<lambda>s. ct_percent s \<noteq> None) (customer_thread_handler orgId tid u s) True"
  proof (cases u)
    case SendCustomer
    with load show ?thesis
      by (auto simp: customer_send_def ui_defs Let_def split: option.splits
          intro!: ends_low_finally ends_low_try_catch ends_low_await)
  next
    case CloseCustomer
    with load show ?thesis by (auto simp: customer_closeTicket_def ui_defs intro!: script_intros)
  qed (use load in \<open>auto simp: ui_defs split: prod.splits\<close>)
qed


end
