(* ===== verification/Instance_Sizing.thy ===== *)
theory Instance_Sizing
  imports Customer_Org Js_Number
begin

text \<open>
  The provisioning wizard (\<open>pages/CreateInstance.tsx\<close>) and the resize page
  (\<open>pages/instances/Resize.tsx\<close>) of the customer console, with the live price quote they share.

  The quote effect runs again whenever one of its dependencies changed: it cancels the previous run,
  and when the selection can be priced it starts a timer that posts the request. \<open>qt_run\<close> numbers
  the runs, \<open>qt_timer\<close> is the request body of a running timer; an answer is dropped when its run
  is no longer the current one.
\<close>

definition BILLING_PERIODS :: "string list" where
  "BILLING_PERIODS = [''hourly'', ''monthly'', ''quarterly'', ''semiannual'', ''annual'']"

datatype size_mode = FromPlan | Custom

text \<open>\<open>Number(text) || d\<close> on the text of a number input, which is a finite number or empty.\<close>

definition number_or :: "rat \<Rightarrow> string \<Rightarrow> rat" where
  "number_or d txt = (case js_Number txt of Fin q \<Rightarrow> if q = 0 then d else q | _ \<Rightarrow> d)"

subsection \<open>Selection and quote\<close>

record sizing = ui +
  sz_plans :: "json list"
  sz_mode :: size_mode
  sz_planId :: string
  sz_cpu :: rat
  sz_ram :: rat
  sz_disk :: rat
  sz_currency :: string
  sz_billingPeriod :: string
  sz_submitting :: bool
  qt_quote :: "json option"
  qt_loading :: bool
  qt_error :: "string option"
  qt_run :: nat
  qt_timer :: "json option"

definition sz_plan :: "'a sizing_scheme \<Rightarrow> json option" where
  "sz_plan s = find (\<lambda>p. str_prop ''id'' p = sz_planId s) (sz_plans s)"

definition custom_resources :: "'a sizing_scheme \<Rightarrow> json" where
  "custom_resources s = JObj [(''vcpu'', JNum (sz_cpu s)),
     (''ram_gb'', JNum (of_int (js_round (sz_ram s / 1024 * 100)) / 100)), (''nvme_gb'', JNum (sz_disk s))]"

definition priceable :: "'a sizing_scheme \<Rightarrow> bool" where
  "priceable s \<longleftrightarrow> sz_mode s \<noteq> FromPlan \<or> sz_plan s \<noteq> None"

definition quote_fields :: "json js_record \<Rightarrow> 'a sizing_scheme \<Rightarrow> json" where
  "quote_fields region s =
     (let period = [(''currency'', JStr (sz_currency s)), (''billing_period'', JStr (sz_billingPeriod s))]
      in case sz_mode s of
           FromPlan \<Rightarrow> JObj (case sz_plan s of
                               Some p \<Rightarrow> (''plan_id'', JStr (str_prop ''id'' p)) # region @ period
                             | None \<Rightarrow> region @ period)
         | Custom \<Rightarrow> JObj (region @ period @ [(''custom_resources'', custom_resources s)]))"

definition quote_run :: "json option \<Rightarrow> 'a sizing_scheme \<Rightarrow> 'a sizing_scheme" where
  "quote_run body s = s\<lparr>qt_run := Suc (qt_run s), qt_loading := False, qt_timer := body\<rparr>"

definition in_run :: "nat \<Rightarrow> ('a sizing_scheme \<Rightarrow> 'a sizing_scheme) \<Rightarrow> 'a sizing_scheme \<Rightarrow> 'a sizing_scheme" where
  "in_run r f s = (if qt_run s = r then f s else s)"

definition quote_timer :: "string \<Rightarrow> 'a sizing_scheme \<Rightarrow> 'a sizing_scheme api_script" where
  "quote_timer orgId s =
     (case qt_timer s of
        None \<Rightarrow> Done
      | Some body \<Rightarrow>
          Set (\<lambda>x. x\<lparr>qt_loading := True, qt_timer := None\<rparr>)
            (finally_set
              (try_catch
                (await (api_post ''/pricing/quote'' (Some body) (org_opts orgId))
                  (\<lambda>e. Set (in_run (qt_run s) (\<lambda>x. x\<lparr>qt_quote := if env_data e = JNull then None else Some (env_data e),
                                                qt_error := None\<rparr>)) Done))
                (\<lambda>cause. Set (in_run (qt_run s) (\<lambda>x. x\<lparr>qt_quote := None,
                                 qt_error := Some (api_message ''Pricing unavailable'' cause)\<rparr>)) Done))
              (in_run (qt_run s) (\<lambda>x. x\<lparr>qt_loading := False\<rparr>))))"

subsection \<open>The wizard\<close>

record wizard = sizing +
  wz_step :: nat
  wz_regions :: "json list"
  wz_templates :: "json list"
  wz_catalogLoading :: bool
  wz_catalogError :: "js_error option"
  wz_regionId :: string
  wz_templateId :: string
  wz_name :: string
  wz_navigated :: "string option"

definition wizard_quote :: "wizard \<Rightarrow> json option" where
  "wizard_quote s =
     (if wz_regionId s = [] \<or> wz_step s < 3 \<or> \<not> priceable s then None
      else Some (quote_fields [(''region_id'', JStr (wz_regionId s))] s))"

definition wizard_deps :: "wizard \<Rightarrow> _" where
  "wizard_deps s = (wz_regionId s, sz_mode s, sz_plan s, sz_cpu s, sz_ram s, sz_disk s, sz_currency s, sz_billingPeriod s, wz_step s)"

text \<open>A change of the selection, and the quote effect if it is affected.\<close>

definition change :: "(wizard \<Rightarrow> wizard) \<Rightarrow> wizard api_script" where
  "change f = Set (\<lambda>s. if wizard_deps (f s) = wizard_deps s then f s else quote_run (wizard_quote (f s)) (f s)) Done"

definition load_catalog :: "wizard api_script" where
  "load_catalog =
     finally_set
       (try_catch
         (await_all [api_get ''/regions'' no_options, api_get ''/os-templates'' no_options, api_get ''/plans'' no_options]
           (\<lambda>es. and_then (change (\<lambda>s. s\<lparr>wz_regions := filter (\<lambda>r. case prop_of r ''enabled'' of Some v \<Rightarrow> truthy v | None \<Rightarrow> False)
                                              (array_or_empty (Some (env_data (es ! 0)))),
                                     wz_templates := array_or_empty (Some (env_data (es ! 1))),
                                     sz_plans := array_or_empty (Some (env_data (es ! 2)))\<rparr>)) Done))
         (\<lambda>cause. Set (wz_catalogError_update (\<lambda>_. Some cause)) Done))
       (wz_catalogLoading_update (\<lambda>_. False))"

definition canAdvance :: "wizard \<Rightarrow> bool" where
  "canAdvance s =
     (if wz_step s = 0 then wz_regionId s \<noteq> []
      else if wz_step s = 1 then wz_templateId s \<noteq> []
      else if wz_step s = 2 then (case sz_mode s of FromPlan \<Rightarrow> sz_planId s \<noteq> []
                                  | Custom \<Rightarrow> sz_cpu s > 0 \<and> sz_ram s > 0 \<and> sz_disk s > 0)
      else if wz_step s = 3 then True
      else trim (wz_name s) \<noteq> [])"

definition plan_or :: "string \<Rightarrow> rat \<Rightarrow> wizard \<Rightarrow> rat" where
  "plan_or k own s =
     (case sz_mode s of
        FromPlan \<Rightarrow> (case sz_plan s of Some p \<Rightarrow> num_prop k p | None \<Rightarrow> own)
      | Custom \<Rightarrow> own)"

definition quote_total :: "json option \<Rightarrow> json" where
  "quote_total q = coalesce (opt_prop q ''total'') (JNum 0)"

definition create_body :: "wizard \<Rightarrow> json" where
  "create_body s = JObj
     ([(''name'', JStr (trim (wz_name s))), (''region_id'', JStr (wz_regionId s))]
      @ (if wz_templateId s \<noteq> [] then [(''os_template_id'', JStr (wz_templateId s))] else [])
      @ (case sz_mode s of
           FromPlan \<Rightarrow> (case sz_plan s of Some p \<Rightarrow> [(''plan_id'', JStr (str_prop ''id'' p))] | None \<Rightarrow> [])
         | Custom \<Rightarrow> [])
      @ [(''cpu'', JNum (plan_or ''vcpu'' (sz_cpu s) s)), (''ram'', JNum (plan_or ''ram_mb'' (sz_ram s) s)),
         (''disk'', JNum (plan_or ''disk_gb'' (sz_disk s) s)), (''currency'', JStr (sz_currency s)),
         (''billing_period'', JStr (sz_billingPeriod s)), (''recurring_amount'', quote_total (qt_quote s))])"

definition submit_wizard :: "string \<Rightarrow> wizard \<Rightarrow> wizard api_script" where
  "submit_wizard orgId s =
     (if trim (wz_name s) = [] \<or> wz_regionId s = [] \<or> orgId = [] then Done
      else with_flag sz_submitting_update
        (try_catch
          (await (api_post ''/instances'' (Some (create_body s)) (org_opts orgId))
            (\<lambda>e. Set (toast_success (''Instance \"'' @ trim (wz_name s) @ ''\" provisioning started''))
                (Set (wz_navigated_update (\<lambda>_. Some (case prop_of (env_data e) ''id'' of
                        Some v \<Rightarrow> if truthy v then ''/app/instances/'' @ js_String v else ''/app/instances''
                      | None \<Rightarrow> ''/app/instances''))) Done)))
          (\<lambda>cause. Set (toast_error (api_message ''Failed to create instance'' cause)) Done)))"

datatype wizard_event =
    LoadCatalog
  | GoStep nat
  | Back
  | Next
  | PickRegion nat
  | PickTemplate nat
  | PickMode size_mode
  | PickPlan nat
  | TypeCpu string
  | TypeRam string
  | TypeDisk string
  | PickCurrency
  | PickPeriod nat
  | TypeName string
  | QuoteTimer
  | Create

text \<open>Each step shows only its own controls, and nothing while the catalog loads.\<close>

fun wizard_handler :: "string \<Rightarrow> wizard_event \<Rightarrow> wizard \<Rightarrow> wizard api_script" where
  "wizard_handler orgId LoadCatalog s = load_catalog"
| "wizard_handler orgId (GoStep i) s = (if i \<le> wz_step s then change (wz_step_update (\<lambda>_. i)) else Done)"
| "wizard_handler orgId Back s =
     (if wz_catalogLoading s then Done else change (wz_step_update (\<lambda>n. n - 1)))"
| "wizard_handler orgId Next s =
     (if \<not> wz_catalogLoading s \<and> wz_step s < 4 \<and> canAdvance s then change (wz_step_update (\<lambda>_. Suc (wz_step s))) else Done)"
| "wizard_handler orgId (PickRegion i) s =
     (if \<not> wz_catalogLoading s \<and> wz_step s = 0 \<and> i < length (wz_regions s)
      then change (wz_regionId_update (\<lambda>_. str_prop ''id'' (wz_regions s ! i))) else Done)"
| "wizard_handler orgId (PickTemplate i) s =
     (if \<not> wz_catalogLoading s \<and> wz_step s = 1 \<and> i < length (wz_templates s)
      then change (wz_templateId_update (\<lambda>_. str_prop ''id'' (wz_templates s ! i))) else Done)"
| "wizard_handler orgId (PickMode m) s =
     (if \<not> wz_catalogLoading s \<and> wz_step s = 2 then change (sz_mode_update (\<lambda>_. m)) else Done)"
| "wizard_handler orgId (PickPlan i) s =
     (if \<not> wz_catalogLoading s \<and> wz_step s = 2 \<and> sz_mode s = FromPlan \<and> i < length (sz_plans s)
      then change (sz_planId_update (\<lambda>_. str_prop ''id'' (sz_plans s ! i))) else Done)"
| "wizard_handler orgId (TypeCpu t) s =
     (if \<not> wz_catalogLoading s \<and> wz_step s = 2 \<and> sz_mode s = Custom
      then change (sz_cpu_update (\<lambda>_. max 1 (number_or 1 t))) else Done)"
| "wizard_handler orgId (TypeRam t) s =
     (if \<not> wz_catalogLoading s \<and> wz_step s = 2 \<and> sz_mode s = Custom
      then change (sz_ram_update (\<lambda>_. max 128 (number_or 128 t))) else Done)"
| "wizard_handler orgId (TypeDisk t) s =
     (if \<not> wz_catalogLoading s \<and> wz_step s = 2 \<and> sz_mode s = Custom
      then change (sz_disk_update (\<lambda>_. max 5 (number_or 5 t))) else Done)"
| "wizard_handler orgId PickCurrency s =
     (if \<not> wz_catalogLoading s \<and> wz_step s = 3 then change (sz_currency_update (\<lambda>_. ''IDR'')) else Done)"
| "wizard_handler orgId (PickPeriod i) s =
     (if \<not> wz_catalogLoading s \<and> wz_step s = 3 \<and> i < length BILLING_PERIODS
      then change (sz_billingPeriod_update (\<lambda>_. BILLING_PERIODS ! i)) else Done)"
| "wizard_handler orgId (TypeName t) s =
     (if \<not> wz_catalogLoading s \<and> wz_step s = 4 then Set (wz_name_update (\<lambda>_. t)) Done else Done)"
| "wizard_handler orgId QuoteTimer s = quote_timer orgId s"
| "wizard_handler orgId Create s =
     (if \<not> wz_catalogLoading s \<and> wz_step s = 4 \<and> trim (wz_name s) \<noteq> [] \<and> \<not> sz_submitting s then submit_wizard orgId s else Done)"

definition fresh_wizard :: wizard where
  "fresh_wizard = \<lparr>toasts = [], sz_plans = [], sz_mode = FromPlan, sz_planId = [], sz_cpu = 1, sz_ram = 1024, sz_disk = 20,
     sz_currency = ''IDR'', sz_billingPeriod = ''monthly'', sz_submitting = False, qt_quote = None, qt_loading = False,
     qt_error = None, qt_run = 0, qt_timer = None, wz_step = 0, wz_regions = [], wz_templates = [],
     wz_catalogLoading = True, wz_catalogError = None, wz_regionId = [], wz_templateId = [], wz_name = [], wz_navigated = None\<rparr>"

subsection \<open>Resizing\<close>

record resize = sizing +
  rz_plansLoading :: bool
  rz_plansError :: "js_error option"
  rz_confirmOpen :: bool

text \<open>The loaded instance; the page is modelled between two loads of it.\<close>

definition inst_cpu :: "json \<Rightarrow> rat" where "inst_cpu = num_prop ''vcpu''"
definition inst_ram :: "json \<Rightarrow> rat" where "inst_ram = num_prop ''ram_mb''"
definition inst_disk :: "json \<Rightarrow> rat" where "inst_disk = num_prop ''disk_gb''"

definition planIsUpgrade :: "json \<Rightarrow> rat \<Rightarrow> rat \<Rightarrow> rat \<Rightarrow> bool" where
  "planIsUpgrade plan vcpu ramMb diskGb \<longleftrightarrow>
     num_prop ''vcpu'' plan \<ge> vcpu \<and> num_prop ''ram_mb'' plan \<ge> ramMb \<and> num_prop ''disk_gb'' plan \<ge> diskGb"

definition resize_quote :: "string \<Rightarrow> resize \<Rightarrow> json option" where
  "resize_quote orgId s = (if orgId = [] \<or> \<not> priceable s then None else Some (quote_fields [] s))"

definition resize_deps :: "resize \<Rightarrow> _" where
  "resize_deps s = (sz_mode s, sz_plan s, sz_cpu s, sz_ram s, sz_disk s, sz_currency s, sz_billingPeriod s)"

definition rechange :: "string \<Rightarrow> (resize \<Rightarrow> resize) \<Rightarrow> resize api_script" where
  "rechange orgId f = Set (\<lambda>s. if resize_deps (f s) = resize_deps s then f s else quote_run (resize_quote orgId (f s)) (f s)) Done"

definition load_plans :: "string \<Rightarrow> resize api_script" where
  "load_plans orgId =
     finally_set
       (try_catch
         (await (api_get ''/plans'' no_options)
           (\<lambda>e. rechange orgId (sz_plans_update (\<lambda>_. array_or_empty (Some (env_data e))))))
         (\<lambda>cause. Set (rz_plansError_update (\<lambda>_. Some cause)) Done))
       (rz_plansLoading_update (\<lambda>_. False))"

definition seed :: "json \<Rightarrow> resize \<Rightarrow> resize" where
  "seed inst s = s\<lparr>sz_cpu := inst_cpu inst, sz_ram := inst_ram inst, sz_disk := inst_disk inst,
     sz_currency := (if js_length (str_prop ''currency'' inst) = 3 then str_prop ''currency'' inst else sz_currency s),
     sz_billingPeriod := (if str_prop ''billing_period'' inst \<in> set BILLING_PERIODS then str_prop ''billing_period'' inst
                          else sz_billingPeriod s)\<rparr>"

definition selectPlan :: "string \<Rightarrow> json \<Rightarrow> json \<Rightarrow> resize \<Rightarrow> resize api_script" where
  "selectPlan orgId inst plan s =
     (if \<not> planIsUpgrade plan (inst_cpu inst) (inst_ram inst) (inst_disk inst) then Done
      else rechange orgId (\<lambda>x. x\<lparr>sz_mode := FromPlan, sz_planId := str_prop ''id'' plan,
        sz_cpu := max (sz_cpu s) (num_prop ''vcpu'' plan), sz_ram := max (sz_ram s) (num_prop ''ram_mb'' plan),
        sz_disk := max (sz_disk s) (num_prop ''disk_gb'' plan)\<rparr>))"

definition increased :: "json \<Rightarrow> resize \<Rightarrow> bool" where
  "increased inst s \<longleftrightarrow> sz_cpu s > inst_cpu inst \<or> sz_ram s > inst_ram inst \<or> sz_disk s > inst_disk inst"

definition resize_body :: "resize \<Rightarrow> json" where
  "resize_body s = JObj [(''cpu'', JNum (sz_cpu s)), (''ram'', JNum (sz_ram s)), (''disk'', JNum (sz_disk s))]"

definition spec_text :: "resize \<Rightarrow> string" where
  "spec_text s = show_num (sz_cpu s) @ '' vCPU '' @ middle_dot @ '' '' @ show_num (sz_ram s) @ '' MB '' @ middle_dot
     @ '' '' @ show_num (sz_disk s) @ '' GB''"

definition applyResize :: "string \<Rightarrow> json \<Rightarrow> resize \<Rightarrow> resize api_script" where
  "applyResize orgId inst s =
     (if orgId = [] then Done
      else with_flag sz_submitting_update
        (try_catch
          (await (api_post (''/instances/'' @ str_prop ''id'' inst @ ''/resize'') (Some (resize_body s)) (org_opts orgId))
            (\<lambda>_. Set (toast_success (''Resize request for \"'' @ str_prop ''name'' inst @ ''\" accepted '' @ em_dash
                        @ '' new spec '' @ spec_text s))
                (Set (rz_confirmOpen_update (\<lambda>_. False))
                  (Fork (await (api_get (''/instances/'' @ str_prop ''id'' inst) (org_opts orgId)) (\<lambda>_. Done)) Done))))
          (\<lambda>cause. Set (toast_error (api_message ''Resize failed'' cause)) Done)))"

datatype resize_event =
    LoadPlans
  | Seed
  | ResizeMode size_mode
  | ResizePlan nat
  | ResizeCpu string
  | ResizeRam string
  | ResizeDisk string
  | ResizeCurrency
  | ResizePeriod nat
  | ResizeTimer
  | OpenConfirm
  | CloseConfirm
  | ApplyResize

fun resize_handler :: "string \<Rightarrow> json \<Rightarrow> resize_event \<Rightarrow> resize \<Rightarrow> resize api_script" where
  "resize_handler orgId inst LoadPlans s = load_plans orgId"
| "resize_handler orgId inst Seed s = rechange orgId (seed inst)"
| "resize_handler orgId inst (ResizeMode m) s = rechange orgId (sz_mode_update (\<lambda>_. m))"
| "resize_handler orgId inst (ResizePlan i) s =
     (if sz_mode s = FromPlan \<and> i < length (sz_plans s) then selectPlan orgId inst (sz_plans s ! i) s else Done)"
| "resize_handler orgId inst (ResizeCpu t) s =
     (if sz_mode s = Custom then rechange orgId (sz_cpu_update (\<lambda>_. max (inst_cpu inst) (number_or (inst_cpu inst) t))) else Done)"
| "resize_handler orgId inst (ResizeRam t) s =
     (if sz_mode s = Custom then rechange orgId (sz_ram_update (\<lambda>_. max (inst_ram inst) (number_or (inst_ram inst) t))) else Done)"
| "resize_handler orgId inst (ResizeDisk t) s =
     (if sz_mode s = Custom then rechange orgId (sz_disk_update (\<lambda>_. max (inst_disk inst) (number_or (inst_disk inst) t))) else Done)"
| "resize_handler orgId inst ResizeCurrency s = rechange orgId (sz_currency_update (\<lambda>_. ''IDR''))"
| "resize_handler orgId inst (ResizePeriod i) s =
     (if i < length BILLING_PERIODS then rechange orgId (sz_billingPeriod_update (\<lambda>_. BILLING_PERIODS ! i)) else Done)"
| "resize_handler orgId inst ResizeTimer s = quote_timer orgId s"
| "resize_handler orgId inst OpenConfirm s =
     (if increased inst s \<and> \<not> sz_submitting s then Set (rz_confirmOpen_update (\<lambda>_. True)) Done else Done)"
| "resize_handler orgId inst CloseConfirm s = Set (rz_confirmOpen_update (\<lambda>_. False)) Done"
| "resize_handler orgId inst ApplyResize s =
     (if rz_confirmOpen s \<and> \<not> sz_submitting s then applyResize orgId inst s else Done)"

subsection \<open>The wizard's requests\<close>

definition wizard_ok :: "wizard \<Rightarrow> bool" where
  "wizard_ok s \<longleftrightarrow> wz_step s \<le> 4 \<and> (wz_step s \<ge> 1 \<longrightarrow> wz_regionId s \<noteq> []) \<and> (wz_step s \<ge> 2 \<longrightarrow> wz_templateId s \<noteq> [])
     \<and> (wz_step s \<ge> 3 \<longrightarrow> sz_mode s = FromPlan \<longrightarrow> sz_planId s \<noteq> [])
     \<and> sz_cpu s \<ge> 1 \<and> sz_ram s \<ge> 128 \<and> sz_disk s \<ge> 5 \<and> sz_currency s = ''IDR'' \<and> sz_billingPeriod s \<in> set BILLING_PERIODS"

definition num_field :: "string \<Rightarrow> json \<Rightarrow> rat" where
  "num_field k j = (case prop_of j k of Some (JNum q) \<Rightarrow> q | _ \<Rightarrow> 0)"

definition str_field :: "string \<Rightarrow> json \<Rightarrow> string" where
  "str_field k j = (case prop_of j k of Some (JStr t) \<Rightarrow> t | _ \<Rightarrow> [])"

definition create_call :: "string \<Rightarrow> api_call \<Rightarrow> bool" where
  "create_call orgId c \<longleftrightarrow> ac_path c = ''/instances'' \<longrightarrow>
     (case ac_body c of
        None \<Rightarrow> False
      | Some j \<Rightarrow>
          orgId \<noteq> [] \<and> ac_opts c = org_opts orgId
          \<and> str_field ''name'' j \<noteq> [] \<and> str_field ''region_id'' j \<noteq> [] \<and> str_field ''os_template_id'' j \<noteq> []
          \<and> str_field ''currency'' j = ''IDR'' \<and> str_field ''billing_period'' j \<in> set BILLING_PERIODS
          \<and> (prop_of j ''plan_id'' = None \<longrightarrow> num_field ''cpu'' j \<ge> 1 \<and> num_field ''ram'' j \<ge> 128 \<and> num_field ''disk'' j \<ge> 5))"

lemma wizard_ok_run [simp]: "wizard_ok (quote_run body s) = wizard_ok s"
  by (simp add: wizard_ok_def quote_run_def)

lemma wizard_ok_in_run: "(\<And>x. wizard_ok (f x) = wizard_ok x) \<Longrightarrow> wizard_ok (in_run r f s) = wizard_ok s"
  by (simp add: in_run_def)

lemma change_ok_at: "wizard_ok (f s) \<Longrightarrow> script_ok_at wizard_ok allowed (change f) s"
  by (simp add: change_def)

lemma change_ok: "(\<And>x. wizard_ok x \<Longrightarrow> wizard_ok (f x)) \<Longrightarrow> script_ok wizard_ok allowed (change f)"
  by (simp add: change_def)

lemma create_body_fields:
  "str_field ''name'' (create_body s) = trim (wz_name s)" "str_field ''region_id'' (create_body s) = wz_regionId s"
  "str_field ''os_template_id'' (create_body s) = wz_templateId s" "str_field ''currency'' (create_body s) = sz_currency s"
  "str_field ''billing_period'' (create_body s) = sz_billingPeriod s"
  by (simp_all add: create_body_def str_field_def split: size_mode.splits option.splits)

lemma create_body_size:
  "prop_of (create_body s) ''plan_id'' = None \<Longrightarrow> num_field ''cpu'' (create_body s) = sz_cpu s
     \<and> num_field ''ram'' (create_body s) = sz_ram s \<and> num_field ''disk'' (create_body s) = sz_disk s"
  by (auto simp: create_body_def num_field_def plan_or_def split: size_mode.splits option.splits)

lemma create_body_call:
  assumes "wizard_ok s" and "wz_step s = 4" and "trim (wz_name s) \<noteq> []" and "orgId \<noteq> []"
  shows "create_call orgId (api_post ''/instances'' (Some (create_body s)) (org_opts orgId))"
  using assms create_body_size [of s]
  by (auto simp: create_call_def api_call_defs create_body_fields wizard_ok_def)

lemma quote_timer_ok:
  assumes "\<And>g x. I (qt_loading_update g x) = I x" "\<And>g x. I (qt_timer_update g x) = I x"
    "\<And>g x. I (qt_quote_update g x) = I x" "\<And>g x. I (qt_error_update g x) = I x"
    "\<And>body. allowed (api_post ''/pricing/quote'' (Some body) (org_opts orgId))"
  shows "script_ok I allowed (quote_timer orgId s)"
  using assms by (auto simp: quote_timer_def in_run_def split: option.splits if_splits intro!: script_intros)

interpretation wizard_page: page_machine perform_api "wizard_handler orgId" wizard_ok "create_call orgId" for orgId
proof
  fix s u assume s: "wizard_ok s"
  show "script_ok_at wizard_ok (create_call orgId) (wizard_handler orgId u s) s"
  proof (cases u)
    case LoadCatalog
    have "script_ok wizard_ok (create_call orgId) load_catalog"
      unfolding load_catalog_def
      by (intro script_intros change_ok) (simp_all add: create_call_def api_call_defs wizard_ok_def)
    with LoadCatalog s show ?thesis by (simp add: script_ok_imp_at)
  next
    case Create
    have "script_ok wizard_ok (create_call orgId) (submit_wizard orgId s)"
      if "wz_step s = 4" "trim (wz_name s) \<noteq> []"
      using create_body_call [OF s that]
      by (auto simp: submit_wizard_def wizard_ok_def toast_success_def toast_error_def intro!: script_intros)
    with Create s show ?thesis by (auto intro: script_ok_imp_at)
  next
    case QuoteTimer
    have "script_ok wizard_ok (create_call orgId) (quote_timer orgId s)"
      by (rule quote_timer_ok) (simp_all add: wizard_ok_def create_call_def api_call_defs)
    with QuoteTimer s show ?thesis by (simp add: script_ok_imp_at)
  next
    case Next
    with s show ?thesis by (auto simp: wizard_ok_def canAdvance_def intro!: change_ok_at)
  qed (use s in \<open>auto simp: wizard_ok_def intro!: change_ok_at\<close>)
qed

lemma quote_timer_low:
  "(\<And>f x. busy (qt_loading_update f x) = busy x) \<Longrightarrow> (\<And>f x. busy (qt_timer_update f x) = busy x)
   \<Longrightarrow> (\<And>f x. busy (qt_quote_update f x) = busy x) \<Longrightarrow> (\<And>f x. busy (qt_error_update f x) = busy x)
   \<Longrightarrow> ends_low busy (quote_timer orgId s) True"
  by (auto simp: quote_timer_def in_run_def split: option.splits if_splits intro!: script_intros)

interpretation wizard_submitting: page_flag perform_api "wizard_handler orgId" sz_submitting for orgId
proof
  fix u s
  show "ends_low sz_submitting (wizard_handler orgId u s) True"
    by (cases u) (auto simp: load_catalog_def change_def quote_run_def submit_wizard_def toast_success_def toast_error_def
      intro!: script_intros quote_timer_low)
qed


subsection \<open>Upgrades only\<close>

definition covers :: "json \<Rightarrow> resize \<Rightarrow> bool" where
  "covers inst s \<longleftrightarrow> inst_cpu inst \<le> sz_cpu s \<and> inst_ram inst \<le> sz_ram s \<and> inst_disk inst \<le> sz_disk s"

definition upgrade_call :: "json \<Rightarrow> api_call \<Rightarrow> bool" where
  "upgrade_call inst c \<longleftrightarrow> ac_method c = ''POST'' \<and> ac_path c \<noteq> ''/pricing/quote'' \<longrightarrow>
     ac_path c = ''/instances/'' @ str_prop ''id'' inst @ ''/resize''
     \<and> (case ac_body c of
          None \<Rightarrow> False
        | Some j \<Rightarrow> inst_cpu inst \<le> num_field ''cpu'' j \<and> inst_ram inst \<le> num_field ''ram'' j \<and> inst_disk inst \<le> num_field ''disk'' j)"

lemma covers_run [simp]: "covers inst (quote_run body s) = covers inst s"
  by (simp add: covers_def quote_run_def)

lemma rechange_ok: "(\<And>x. covers inst x \<Longrightarrow> covers inst (f x)) \<Longrightarrow> script_ok (covers inst) allowed (rechange orgId f)"
  by (simp add: rechange_def)

interpretation resize_page: page_contract perform_api "resize_handler orgId inst" "covers inst" "upgrade_call inst" for orgId inst
proof
  fix s u assume s: "covers inst s"
  show "script_ok (covers inst) (upgrade_call inst) (resize_handler orgId inst u s)"
  proof (cases u)
    case LoadPlans
    then show ?thesis
      by (auto simp: load_plans_def upgrade_call_def api_call_defs covers_def intro!: script_intros rechange_ok)
  next
    case (ResizePlan i)
    with s show ?thesis
      by (auto simp: selectPlan_def planIsUpgrade_def covers_def intro!: rechange_ok)
  next
    case ResizeTimer
    then show ?thesis by (simp, intro quote_timer_ok) (simp_all add: covers_def upgrade_call_def api_call_defs)
  next
    case ApplyResize
    with s show ?thesis
      by (auto simp: applyResize_def upgrade_call_def api_call_defs resize_body_def num_field_def covers_def
          toast_success_def toast_error_def intro!: script_intros)
  qed (auto simp: covers_def seed_def intro!: rechange_ok)
qed

interpretation resize_submitting: page_flag perform_api "resize_handler orgId inst" sz_submitting for orgId inst
proof
  fix u s
  show "ends_low sz_submitting (resize_handler orgId inst u s) True"
    by (cases u) (auto simp: load_plans_def rechange_def quote_run_def seed_def selectPlan_def applyResize_def
      toast_success_def toast_error_def intro!: script_intros quote_timer_low)
qed


subsection \<open>Quotes and what is ordered\<close>

text \<open>The plans of the examples, and a backend that answers every request with the same quote.\<close>

definition small_plan :: json where
  "small_plan = JObj [(''id'', JStr ''small''), (''vcpu'', JNum 2), (''ram_mb'', JNum 2048), (''disk_gb'', JNum 40)]"

definition big_plan :: json where
  "big_plan = JObj [(''id'', JStr ''big''), (''vcpu'', JNum 8), (''ram_mb'', JNum 16384), (''disk_gb'', JNum 320)]"

definition tiny_instance :: json where
  "tiny_instance = JObj [(''id'', JStr ''i1''), (''vcpu'', JNum 1), (''ram_mb'', JNum 1024), (''disk_gb'', JNum 20)]"

definition resize_start :: resize where
  "resize_start = seed tiny_instance \<lparr>toasts = [], sz_plans = [small_plan, big_plan], sz_mode = FromPlan, sz_planId = [],
     sz_cpu = 0, sz_ram = 0, sz_disk = 0, sz_currency = ''IDR'', sz_billingPeriod = ''monthly'', sz_submitting = False,
     qt_quote = None, qt_loading = False, qt_error = None, qt_run = 0, qt_timer = None, rz_plansLoading = False,
     rz_plansError = None, rz_confirmOpen = False\<rparr>"

definition plan_clicks :: "resize_event list" where
  "plan_clicks = [ResizePlan 1, ResizePlan 0, ResizeTimer, OpenConfirm, ApplyResize]"

lemma lead_quote_timer:
  "lead_calls (quote_timer orgId s) = (case qt_timer s of None \<Rightarrow> [] | Some body \<Rightarrow> [api_post ''/pricing/quote'' (Some body) (org_opts orgId)])"
  "lead_state (quote_timer orgId s) x = (case qt_timer s of None \<Rightarrow> x | Some body \<Rightarrow> x\<lparr>qt_loading := True, qt_timer := None\<rparr>)"
  by (simp_all add: quote_timer_def await_def split: option.splits)

lemma lead_applyResize:
  "lead_calls (applyResize orgId inst s) = (if orgId = [] then [] else
     [api_post (''/instances/'' @ str_prop ''id'' inst @ ''/resize'') (Some (resize_body s)) (org_opts orgId)])"
  "lead_state (applyResize orgId inst s) x = (if orgId = [] then x else x\<lparr>sz_submitting := True\<rparr>)"
  by (simp_all add: applyResize_def with_flag_def await_def)

lemma lead_rechange:
  "lead_calls (rechange orgId f) = []"
  "lead_state (rechange orgId f) x = (if resize_deps (f x) = resize_deps x then f x else quote_run (resize_quote orgId (f x)) (f x))"
  by (simp_all add: rechange_def)

lemmas sizing_defs = resize_deps_def resize_quote_def priceable_def sz_plan_def quote_fields_def quote_run_def
  selectPlan_def planIsUpgrade_def increased_def inst_cpu_def inst_ram_def inst_disk_def num_prop_def str_prop_def
  resize_body_def Let_def

lemmas sample_sizing_defs = resize_start_def seed_def tiny_instance_def small_plan_def big_plan_def plan_clicks_def

text \<open>
  Picking a plan after a bigger one keeps the bigger size. On an instance with one vCPU, clicking
  the big plan and then the small one, the page quotes the price of the small plan and then asks for the
  size of the big one.
\<close>

theorem resize_quotes_another_size:
  "map (\<lambda>c. (ac_path c, ac_body c))
     (pg_calls (run_page perform_api (resize_handler ''org'' tiny_instance) (map User plan_clicks) (open_page resize_start b)))
   = [(''/pricing/quote'', Some (JObj [(''plan_id'', JStr ''small''), (''currency'', JStr ''IDR''), (''billing_period'', JStr ''monthly'')])),
      (''/instances/i1/resize'', Some (JObj [(''cpu'', JNum 8), (''ram'', JNum 16384), (''disk'', JNum 320)]))]"
proof -
  have "map (\<lambda>c. (ac_path c, ac_body c)) (snd (user_run (resize_handler ''org'' tiny_instance) plan_clicks resize_start))
   = [(''/pricing/quote'', Some (JObj [(''plan_id'', JStr ''small''), (''currency'', JStr ''IDR''), (''billing_period'', JStr ''monthly'')])),
      (''/instances/i1/resize'', Some (JObj [(''cpu'', JNum 8), (''ram'', JNum 16384), (''disk'', JNum 320)]))]"
    by (simp add: sample_sizing_defs lead_quote_timer lead_applyResize lead_rechange sizing_defs api_post_def max_def
        js_length_def BILLING_PERIODS_def)
  then show ?thesis by (simp add: run_page_user open_page_def)
qed

definition priced :: fetch_result where
  "priced = Resp \<lparr>rs_status = 200, rs_text = Some ''x'', rs_json = Some (JObj [(''data'', JObj [(''total'', JNum 800)])])\<rparr>"

lemma priced_csrf: "csrfToken (sample_browser res) = Inr (Some ''a b'')"
proof -
  have "csrf_match ''theme=dark; kc_csrf=a%20b'' = Some ''a%20b''" "decodeURIComponent ''a%20b'' = Some ''a b''"
    by code_simp+
  then show ?thesis by (simp add: csrfToken_def sample_defs)
qed

lemma priced_answer:
  "fst (perform_api (api_post path body opts) (sample_browser priced)) = Inr \<lparr>env_data = JObj [(''total'', JNum 800)], env_meta = None\<rparr>"
proof -
  have "next_answer (sample_browser priced) = priced" by (simp add: next_answer_def sample_defs)
  then show ?thesis
    by (simp add: perform_api_def api_post_def request_unfold request_headers_def is_safe_method_def priced_csrf handle_response_def
      priced_def response_ok_def payload_of_def envelope_of_def Let_def)
qed

text \<open>The wizard on its billing step with the big plan chosen.\<close>

definition wizard_start :: wizard where
  "wizard_start = fresh_wizard\<lparr>sz_plans := [small_plan, big_plan], sz_planId := ''big'', wz_catalogLoading := False, wz_step := 3,
     wz_regionId := ''r1'', wz_templateId := ''t1'', qt_run := 1,
     qt_timer := wizard_quote (fresh_wizard\<lparr>sz_plans := [small_plan, big_plan], sz_planId := ''big'', wz_step := 3, wz_regionId := ''r1''\<rparr>)\<rparr>"

definition change_of_mind :: "wizard_event list" where
  "change_of_mind = [Next, TypeName ''web'', GoStep 2, PickPlan 0, Next, Next, Create]"

text \<open>The answer of a quote that nothing has superseded.\<close>

lemma quote_arrives:
  assumes "qt_timer s = Some body" and "handler q s = quote_timer orgId s"
    and "fst (perform_api (api_post ''/pricing/quote'' (Some body) (org_opts orgId)) b) = Inr e" and "env_data e \<noteq> JNull"
  shows "pg_state (run_page perform_api handler [User q, Resume 0 0] (open_page s b))
      = s\<lparr>qt_loading := False, qt_timer := None, qt_quote := Some (env_data e), qt_error := None\<rparr>
    \<and> pg_calls (run_page perform_api handler [User q, Resume 0 0] (open_page s b))
      = [api_post ''/pricing/quote'' (Some body) (org_opts orgId)]"
proof -
  obtain b' where "perform_api (api_post ''/pricing/quote'' (Some body) (org_opts orgId)) b = (Inr e, b')"
    using assms(3) by (metis eq_fst_iff)
  with assms(1,2,4) show ?thesis
    by (simp add: run_page_def quote_timer_def await_def open_page_def in_run_def drop_nth_def)
qed

lemma lead_change:
  "lead_calls (change f) = []"
  "lead_state (change f) x = (if wizard_deps (f x) = wizard_deps x then f x else quote_run (wizard_quote (f x)) (f x))"
  by (simp_all add: change_def)

lemma lead_submit_wizard:
  "lead_calls (submit_wizard orgId s) = (if trim (wz_name s) = [] \<or> wz_regionId s = [] \<or> orgId = [] then []
     else [api_post ''/instances'' (Some (create_body s)) (org_opts orgId)])"
  "lead_state (submit_wizard orgId s) x = (if trim (wz_name s) = [] \<or> wz_regionId s = [] \<or> orgId = [] then x
     else x\<lparr>sz_submitting := True\<rparr>)"
  by (simp_all add: submit_wizard_def with_flag_def await_def)

definition order_of :: "api_call \<Rightarrow> json option \<times> json option" where
  "order_of c = (opt_prop (ac_body c) ''plan_id'', opt_prop (ac_body c) ''recurring_amount'')"

text \<open>
  The wizard can order one plan at the price of another. It receives the quote of the big plan,
  the user goes back, picks the small plan and creates the instance before the new quote arrives: the
  request names the small plan with the amount quoted for the big one, the only quote ever asked for.
\<close>

theorem wizard_orders_stale_quote:
  "map order_of (pg_calls (run_page perform_api (wizard_handler ''org'') ([User QuoteTimer, Resume 0 0] @ map User change_of_mind)
     (open_page wizard_start (sample_browser priced))))
   = [(Some (JStr ''big''), None), (Some (JStr ''small''), Some (JNum 800))]"
proof -
  let ?body = "JObj [(''plan_id'', JStr ''big''), (''region_id'', JStr ''r1''), (''currency'', JStr ''IDR''), (''billing_period'', JStr ''monthly'')]"
  let ?p = "run_page perform_api (wizard_handler ''org'') [User QuoteTimer, Resume 0 0] (open_page wizard_start (sample_browser priced))"
  let ?s = "wizard_start\<lparr>qt_loading := False, qt_timer := None, qt_quote := Some (JObj [(''total'', JNum 800)]), qt_error := None\<rparr>"
  have t: "qt_timer wizard_start = Some ?body"
    by (simp add: wizard_start_def wizard_quote_def fresh_wizard_def priceable_def sz_plan_def quote_fields_def
        small_plan_def big_plan_def str_prop_def Let_def)
  have p: "pg_state ?p = ?s" "pg_calls ?p = [api_post ''/pricing/quote'' (Some ?body) (org_opts ''org'')]"
    using quote_arrives [of wizard_start ?body "wizard_handler ''org''" QuoteTimer "''org''", OF t _ priced_answer] by simp_all
  have trim: "trim ''web'' = ''web''" by code_simp
  have "map order_of (snd (user_run (wizard_handler ''org'') change_of_mind ?s)) = [(Some (JStr ''small''), Some (JNum 800))]"
    by (simp add: change_of_mind_def lead_change lead_submit_wizard wizard_start_def fresh_wizard_def wizard_deps_def
        wizard_quote_def canAdvance_def create_body_def quote_total_def sizing_defs small_plan_def big_plan_def trim
        order_of_def api_post_def opt_prop_def)
  then show ?thesis
    unfolding run_page_append conjunct2 [OF run_page_user] p by (simp add: order_of_def api_post_def opt_prop_def)
qed

end
