(* ===== verification/Base64url.thy ===== *)
theory Base64url
  imports Js_Prelude "HOL-Library.Word"
begin

text \<open>
  The byte encoding of the passkey registration (\<open>base64UrlToBytes\<close> and \<open>bytesToBase64Url\<close> of
  \<open>console-user/src/features/customer/pages/account/Security.tsx\<close>), over the browser's \<open>btoa\<close> and
  \<open>atob\<close>. Bytes are \<open>8 word\<close>; the four six-bit groups of three bytes are numbers below 64.
\<close>

subsection \<open>btoa and atob\<close>

type_synonym byte = "8 word"

text \<open>\<open>A\<close> to \<open>Z\<close>, \<open>a\<close> to \<open>z\<close>, the digits, \<open>+\<close> and \<open>/\<close>.\<close>

definition b64_char :: "nat \<Rightarrow> char" where
  "b64_char n =
     (if n < 26 then char_of (n + 65)
      else if n < 52 then char_of (n + 71)
      else if n < 62 then char_of (n - 4)
      else if n = 62 then CHR ''+'' else CHR ''/'')"

definition b64_val :: "char \<Rightarrow> nat option" where
  "b64_val c =
     (let n = of_char c :: nat in
      if 65 \<le> n \<and> n \<le> 90 then Some (n - 65)
      else if 97 \<le> n \<and> n \<le> 122 then Some (n - 71)
      else if 48 \<le> n \<and> n \<le> 57 then Some (n + 4)
      else if c = CHR ''+'' then Some 62
      else if c = CHR ''/'' then Some 63
      else None)"

fun sextets :: "byte list \<Rightarrow> nat list" where
  "sextets [] = []"
| "sextets [a] = [unat a div 4, unat a mod 4 * 16]"
| "sextets [a, b] = [unat a div 4, unat a mod 4 * 16 + unat b div 16, unat b mod 16 * 4]"
| "sextets (a # b # c # r) =
     unat a div 4 # (unat a mod 4 * 16 + unat b div 16) # (unat b mod 16 * 4 + unat c div 64) # unat c mod 64 # sextets r"

definition btoa :: "byte list \<Rightarrow> string" where
  "btoa bs = map b64_char (sextets bs) @ replicate ((3 - length bs mod 3) mod 3) CHR ''=''"

fun unsextets :: "nat list \<Rightarrow> byte list" where
  "unsextets (p # q # r # s # t) =
     word_of_nat (p * 4 + q div 16) # word_of_nat (q mod 16 * 16 + r div 4) # word_of_nat (r mod 4 * 64 + s) # unsextets t"
| "unsextets [p, q, r] = [word_of_nat (p * 4 + q div 16), word_of_nat (q mod 16 * 16 + r div 4)]"
| "unsextets [p, q] = [word_of_nat (p * 4 + q div 16)]"
| "unsextets [p] = []"
| "unsextets [] = []"

text \<open>ASCII whitespace is dropped, then at most two padding characters of a text of full length.\<close>

definition b64_space :: "char \<Rightarrow> bool" where
  "b64_space c \<longleftrightarrow> (of_char c :: nat) \<in> {9, 10, 12, 13, 32}"

definition unpad :: "string \<Rightarrow> string" where
  "unpad s =
     (if length s mod 4 \<noteq> 0 then s
      else if endsWith s ''=='' then take (length s - 2) s
      else if endsWith s ''='' then take (length s - 1) s
      else s)"

definition atob :: "string \<Rightarrow> byte list option" where
  "atob txt =
     (let s = unpad (filter (\<lambda>c. \<not> b64_space c) txt)
      in if length s mod 4 = 1 \<or> list_ex (\<lambda>c. b64_val c = None) s then None
         else Some (unsextets (map (\<lambda>c. the (b64_val c)) s)))"

subsection \<open>The URL alphabet\<close>

definition swap_char :: "char \<Rightarrow> char \<Rightarrow> char \<Rightarrow> char" where
  "swap_char x y c = (if c = x then y else c)"

definition base64UrlToBytes :: "string \<Rightarrow> byte list option" where
  "base64UrlToBytes value' =
     (let s = map (swap_char CHR ''_'' CHR ''/'') (map (swap_char CHR ''-'' CHR ''+'') value')
      in atob (s @ replicate ((4 - length value' mod 4) mod 4) CHR ''=''))"

definition bytesToBase64Url :: "byte list \<Rightarrow> string" where
  "bytesToBase64Url bytes =
     (let s = map (swap_char CHR ''/'' CHR ''_'') (map (swap_char CHR ''+'' CHR ''-'') (btoa bytes))
      in rev (dropWhile (\<lambda>c. c = CHR ''='') (rev s)))"

subsection \<open>Round trip\<close>

lemma byte_bound: "unat (a :: byte) < 256"
  using unsigned_less [of a] by simp

lemma byte_parts:
  fixes a :: byte
  shows "unat a div 4 < 64" "unat a div 16 < 16" "unat a div 64 < 4"
  using byte_bound [of a] by (simp_all add: less_mult_imp_div_less)

lemma byte_joins:
  fixes a b :: byte
  shows "unat a mod 4 * 16 + unat b div 16 < 64" "unat a mod 16 * 4 + unat b div 64 < 64"
proof -
  have "unat a mod 4 < 4" "unat a mod 16 < 16" by simp_all
  then show "unat a mod 4 * 16 + unat b div 16 < 64" "unat a mod 16 * 4 + unat b div 64 < 64"
    using byte_parts [of b] by linarith+
qed

lemma sextets_bound: "n \<in> set (sextets bs) \<Longrightarrow> n < 64"
proof (induction bs rule: sextets.induct)
  case (2 a)
  then show ?case using byte_parts [of a] byte_joins(1) [of a 0] by auto
next
  case (3 a b)
  then show ?case using byte_parts [of a] byte_joins(1) [of a b] byte_joins(2) [of b 0] by auto
next
  case (4 a b c r)
  then show ?case using byte_parts [of a] byte_joins(1) [of a b] byte_joins(2) [of b c] by auto
qed simp

lemma sextet_join:
  fixes a b c :: byte
  shows "word_of_nat (unat a div 4 * 4 + (unat a mod 4 * 16 + unat b div 16) div 16) = a"
    and "word_of_nat ((unat a mod 4 * 16 + unat b div 16) mod 16 * 16 + (unat b mod 16 * 4 + unat c div 64) div 4) = b"
    and "word_of_nat ((unat b mod 16 * 4 + unat c div 64) mod 4 * 64 + unat c mod 64) = c"
proof -
  have d: "unat b div 16 < 16" "unat c div 64 < 4" by (rule byte_parts)+
  have "unat a div 4 * 4 + (unat a mod 4 * 16 + unat b div 16) div 16 = unat a" using d(1) by simp
  then show "word_of_nat (unat a div 4 * 4 + (unat a mod 4 * 16 + unat b div 16) div 16) = a" by simp
  have "(unat a mod 4 * 16 + unat b div 16) mod 16 * 16 + (unat b mod 16 * 4 + unat c div 64) div 4 = unat b" using d by simp
  then show "word_of_nat ((unat a mod 4 * 16 + unat b div 16) mod 16 * 16 + (unat b mod 16 * 4 + unat c div 64) div 4) = b"
    by simp
  have "(unat b mod 16 * 4 + unat c div 64) mod 4 * 64 + unat c mod 64 = unat c" using d by simp
  then show "word_of_nat ((unat b mod 16 * 4 + unat c div 64) mod 4 * 64 + unat c mod 64) = c" by simp
qed

lemma unsextets_sextets [simp]: "unsextets (sextets bs) = bs"
proof (induction bs rule: sextets.induct)
  case (2 a)
  show ?case using sextet_join(1) [of a 0] by simp
next
  case (3 a b)
  show ?case using sextet_join(1) [of a b] sextet_join(2) [of a b 0] by simp
next
  case (4 a b c r)
  then show ?case using sextet_join(1) [of a b] sextet_join(2) [of a b c] sextet_join(3) [of b c] by simp
qed simp

lemma b64_char_facts:
  assumes "n < 64"
  shows "b64_val (b64_char n) = Some n" "\<not> b64_space (b64_char n)"
    "b64_char n \<noteq> CHR ''=''" "b64_char n \<noteq> CHR ''-''" "b64_char n \<noteq> CHR ''_''"
proof -
  have c: "(of_char (b64_char n) :: nat) = (if n < 26 then n + 65 else if n < 52 then n + 71 else if n < 62 then n - 4
      else if n = 62 then 43 else 47)"
    using assms by (simp add: b64_char_def)
  show "b64_val (b64_char n) = Some n"
  proof (cases "n < 62")
    case True
    then show ?thesis by (auto simp: b64_val_def Let_def c)
  next
    case False
    with assms have "n = 62 \<or> n = 63" by auto
    then show ?thesis by (auto simp: b64_val_def b64_char_def)
  qed
  show "\<not> b64_space (b64_char n)" using assms by (auto simp: b64_space_def c)
  have "(of_char (b64_char n) :: nat) \<notin> {61, 45, 95}" using assms by (auto simp: c)
  then show "b64_char n \<noteq> CHR ''=''" "b64_char n \<noteq> CHR ''-''" "b64_char n \<noteq> CHR ''_''" by auto
qed

lemma to_url_char:
  "n < 64 \<Longrightarrow> swap_char CHR ''_'' CHR ''/'' (swap_char CHR ''-'' CHR ''+''
     (swap_char CHR ''/'' CHR ''_'' (swap_char CHR ''+'' CHR ''-'' (b64_char n)))) = b64_char n"
  using b64_char_facts [of n] by (auto simp: swap_char_def)

lemma strip_padding:
  assumes "\<And>c. c \<in> set s \<Longrightarrow> c \<noteq> CHR ''=''"
  shows "rev (dropWhile (\<lambda>c. c = CHR ''='') (rev (s @ replicate k CHR ''=''))) = s"
proof -
  have "dropWhile (\<lambda>c. c = CHR ''='') (replicate k CHR ''='' @ rev s) = dropWhile (\<lambda>c. c = CHR ''='') (rev s)"
    by (simp add: dropWhile_append)
  also have "\<dots> = rev s"
    using assms by (cases s rule: rev_cases) simp_all
  finally show ?thesis by simp
qed

lemma sextets_mod: "(length bs mod 3, length (sextets bs) mod 4) \<in> {(0, 0), (1, 2), (2, 3)}"
proof (induction bs rule: sextets.induct)
  case (4 a b c r)
  have "Suc (Suc (Suc n)) mod 3 = n mod 3" "Suc (Suc (Suc (Suc n))) mod 4 = n mod 4" for n by presburger+
  with 4 show ?case by simp
qed simp_all

lemma padding_agrees: "(4 - length (sextets bs) mod 4) mod 4 = (3 - length bs mod 3) mod 3"
  using sextets_mod [of bs] by auto

definition url_chars :: "byte list \<Rightarrow> string" where
  "url_chars bs = map (swap_char CHR ''/'' CHR ''_'') (map (swap_char CHR ''+'' CHR ''-'') (map b64_char (sextets bs)))"

lemma url_chars_unpadded: "c \<in> set (url_chars bs) \<Longrightarrow> c \<noteq> CHR ''=''"
  using b64_char_facts(3) sextets_bound by (fastforce simp: url_chars_def swap_char_def)

lemma bytesToBase64Url_eq: "bytesToBase64Url bs = url_chars bs"
proof -
  have "rev (dropWhile (\<lambda>c. c = CHR ''='') (rev (url_chars bs @ replicate k CHR ''=''))) = url_chars bs" for k
    by (rule strip_padding) (rule url_chars_unpadded)
  moreover have "map (swap_char CHR ''/'' CHR ''_'') (map (swap_char CHR ''+'' CHR ''-'') (btoa bs))
      = url_chars bs @ replicate ((3 - length bs mod 3) mod 3) CHR ''=''"
    by (simp add: btoa_def url_chars_def swap_char_def)
  ultimately show ?thesis by (simp add: bytesToBase64Url_def Let_def)
qed

lemma unpad_padded:
  assumes s: "\<And>c. c \<in> set s \<Longrightarrow> c \<noteq> CHR ''=''" and "(length s + k) mod 4 = 0" and "k \<le> 2"
  shows "unpad (s @ replicate k CHR ''='') = s"
proof -
  have e: "\<not> startsWith (rev s) ''=''"
    using s by (cases s rule: rev_cases) simp_all
  then have e': "\<not> startsWith (rev s) ''==''" "\<not> startsWith (CHR ''='' # rev s) ''==''"
    by (cases "rev s"; simp)+
  consider "k = 0" | "k = 1" | "k = 2" using assms(3) by linarith
  then show ?thesis
    using assms(2) e e' by cases (simp_all add: unpad_def endsWith_def numeral_2_eq_2)
qed

lemma base64url_decodes: "base64UrlToBytes (bytesToBase64Url bs) = Some bs"
proof -
  let ?s = "map b64_char (sextets bs)"
  have c: "n \<in> set (sextets bs) \<Longrightarrow> n < 64" for n by (rule sextets_bound)
  have inverse: "map (swap_char CHR ''_'' CHR ''/'') (map (swap_char CHR ''-'' CHR ''+'') (url_chars bs)) = ?s"
    using c by (simp add: url_chars_def to_url_char)
  let ?k = "(4 - length (sextets bs) mod 4) mod 4"
  have k: "?k \<le> 2" and l: "length ?s mod 4 \<noteq> 1" using sextets_mod [of bs] by auto
  have "(length ?s mod 4 + ?k) mod 4 = 0" using sextets_mod [of bs] by auto
  then have m: "(length ?s + ?k) mod 4 = 0" by (simp only: mod_add_left_eq)
  have fl: "filter (\<lambda>c. \<not> b64_space c) (?s @ replicate ?k CHR ''='') = ?s @ replicate ?k CHR ''=''"
    using c b64_char_facts(2) by (auto simp: filter_id_conv b64_space_def)
  have u: "unpad (?s @ replicate ?k CHR ''='') = ?s"
    by (rule unpad_padded [OF _ m k]) (use c b64_char_facts(3) in auto)
  have v: "\<not> list_ex (\<lambda>c. b64_val c = None) ?s" "map (\<lambda>c. the (b64_val c)) ?s = sextets bs"
    using c b64_char_facts(1) by (auto simp: list_ex_iff intro: map_idI)
  have len: "length (url_chars bs) = length (sextets bs)" by (simp add: url_chars_def)
  show ?thesis
    unfolding bytesToBase64Url_eq base64UrlToBytes_def Let_def inverse len atob_def fl u
    using l v by simp
qed

text \<open>
  C31: the passkey encoding loses nothing. Every sequence of bytes, encoded by \<open>bytesToBase64Url\<close>
  with the URL alphabet and without padding, is decoded by \<open>base64UrlToBytes\<close> to the same bytes;
  the encoded text contains none of the characters \<open>+\<close>, \<open>/\<close> and \<open>=\<close>.
\<close>

theorem base64url_roundtrip:
  "base64UrlToBytes (bytesToBase64Url bs) = Some bs
   \<and> set (bytesToBase64Url bs) \<inter> {CHR ''+'', CHR ''/'', CHR ''=''} = {}"
proof (intro conjI base64url_decodes)
  have "CHR ''='' \<notin> set (url_chars bs)" using url_chars_unpadded by blast
  moreover have "CHR ''+'' \<notin> set (url_chars bs)" "CHR ''/'' \<notin> set (url_chars bs)"
    by (auto simp: url_chars_def swap_char_def)
  ultimately show "set (bytesToBase64Url bs) \<inter> {CHR ''+'', CHR ''/'', CHR ''=''} = {}"
    by (simp add: bytesToBase64Url_eq)
qed

end
