(* ===== verification/Account_Security.thy ===== *)
theory Account_Security
  imports Page_Kit Customer_Org Base64url Js_Number
begin

text \<open>
  The account security page of the customer console (\<open>pages/account/Security.tsx\<close>): password, TOTP and
  recovery codes, passkeys, sessions and security events. Each card is a component with its own cells.
  \<open>navigator.credentials.create\<close> is a call beside those of the API client; what the authenticator
  answers is the argument \<open>authenticator\<close>.
\<close>

subsection \<open>Password\<close>

record password_card = ui +
  pw_current :: string
  pw_next :: string
  pw_confirm :: string
  pw_busy :: bool

definition submit_password :: "password_card \<Rightarrow> password_card api_script" where
  "submit_password s =
     (if pw_current s = [] \<or> pw_next s = [] \<or> pw_confirm s = []
      then Set (toast_error ''All password fields are required'') Done
      else if pw_next s \<noteq> pw_confirm s then Set (toast_error ''New passwords do not match'') Done
      else if js_length (pw_next s) < 10 then Set (toast_error ''New password must be at least 10 characters'') Done
      else with_flag pw_busy_update
        (try_catch
          (await (api_post ''/me/password/change''
                    (Some (JObj [(''current_password'', JStr (pw_current s)), (''new_password'', JStr (pw_next s))])) no_options)
            (\<lambda>_. Set (toast_success ''Password changed'') (Set (pw_current_update (\<lambda>_. []))
                (Set (pw_next_update (\<lambda>_. [])) (Set (pw_confirm_update (\<lambda>_. [])) Done)))))
          (\<lambda>cause. Set (toast_error (api_message ''Failed to change password'' cause)) Done)))"

datatype password_event = PwCurrent string | PwNext string | PwConfirm string | PwSubmit

fun password_handler :: "password_event \<Rightarrow> password_card \<Rightarrow> password_card api_script" where
  "password_handler (PwCurrent t) s = Set (pw_current_update (\<lambda>_. t)) Done"
| "password_handler (PwNext t) s = Set (pw_next_update (\<lambda>_. t)) Done"
| "password_handler (PwConfirm t) s = Set (pw_confirm_update (\<lambda>_. t)) Done"
| "password_handler PwSubmit s = (if pw_busy s then Done else submit_password s)"

subsection \<open>Two-factor authentication\<close>

record mfa_card = ui +
  mf_status :: "json option"
  mf_error :: "js_error option"
  mf_setup :: "json option"
  mf_code :: string
  mf_disableCode :: string
  mf_busy :: bool
  mf_revealedCodes :: "json list option"
  mf_codesCopied :: bool

definition mfa_enabled :: "mfa_card \<Rightarrow> bool" where
  "mfa_enabled s = (case opt_prop (mf_status s) ''enabled'' of Some v \<Rightarrow> truthy v | None \<Rightarrow> False)"

definition mfa_load :: "mfa_card api_script" where
  "mfa_load =
     try_catch
       (await (api_get ''/me/mfa'' no_options)
         (\<lambda>e. Set (mf_error_update (\<lambda>_. None)) (Set (mf_status_update (\<lambda>_. non_null (env_data e))) Done)))
       (\<lambda>cause. Set (mf_error_update (\<lambda>_. Some cause)) Done)"

definition beginSetup :: "mfa_card api_script" where
  "beginSetup =
     with_flag mf_busy_update
       (try_catch
         (await (api_post ''/me/mfa/totp/setup'' None no_options) (\<lambda>e. Set (mf_setup_update (\<lambda>_. non_null (env_data e))) Done))
         (\<lambda>cause. Set (toast_error (api_message ''Failed to start TOTP setup'' cause)) Done))"

definition confirmSetup :: "mfa_card \<Rightarrow> mfa_card api_script" where
  "confirmSetup s =
     (if trim (mf_code s) = [] then Set (toast_error ''Enter the 6-digit code from your authenticator'') Done
      else with_flag mf_busy_update
        (try_catch
          (await (api_post ''/me/mfa/totp/confirm''
                    (Some (JObj [(''code'', JStr (filter (\<lambda>c. \<not> is_ws c) (trim (mf_code s))))])) no_options)
            (\<lambda>_. Set (toast_success ''Two-factor authentication enabled'') (Set (mf_setup_update (\<lambda>_. None))
                (Set (mf_code_update (\<lambda>_. [])) mfa_load))))
          (\<lambda>cause. Set (toast_error (api_message ''Invalid code'' cause)) Done)))"

definition disable_mfa :: "mfa_card \<Rightarrow> mfa_card api_script" where
  "disable_mfa s =
     (if trim (mf_disableCode s) = [] then Set (toast_error ''Enter your current 6-digit code'') Done
      else with_flag mf_busy_update
        (try_catch
          (await (api_post ''/me/mfa/totp/disable'' (Some (JObj [(''code'', JStr (trim (mf_disableCode s)))])) no_options)
            (\<lambda>_. Set (toast_success ''Two-factor authentication disabled'') (Set (mf_disableCode_update (\<lambda>_. []))
                (Set (mf_revealedCodes_update (\<lambda>_. None)) mfa_load))))
          (\<lambda>cause. Set (toast_error (api_message ''Failed to disable MFA'' cause)) Done)))"

text \<open>\<open>data.recovery_codes\<close> of a \<open>null\<close> answer throws a plain error.\<close>

definition regenerateCodes :: "mfa_card api_script" where
  "regenerateCodes =
     with_flag mf_busy_update
       (try_catch
         (await (api_post ''/me/mfa/recovery-codes'' None no_options)
           (\<lambda>e. if env_data e = JNull then Throw (PlainError ''TypeError'')
                else Set (mf_revealedCodes_update (\<lambda>_. Some (array_or_empty (prop_of (env_data e) ''recovery_codes''))))
                  (Set (mf_codesCopied_update (\<lambda>_. False)) mfa_load)))
         (\<lambda>cause. Set (toast_error (api_message ''Failed to generate recovery codes'' cause)) Done))"

definition mfa_shown :: "mfa_card \<Rightarrow> bool" where
  "mfa_shown s \<longleftrightarrow> mf_error s = None \<and> mf_status s \<noteq> None"

datatype mfa_event =
    MfaLoad
  | BeginSetup
  | TypeCode string
  | ConfirmSetup
  | CancelSetup
  | TypeDisableCode string
  | DisableMfa
  | Regenerate
  | CopyCodes
  | SavedCodes

text \<open>The card is shown once the status is loaded; the code to disable is reduced to its digits, at
  most six of them.\<close>

fun mfa_handler :: "mfa_event \<Rightarrow> mfa_card \<Rightarrow> mfa_card api_script" where
  "mfa_handler MfaLoad s = mfa_load"
| "mfa_handler BeginSetup s = (if mfa_shown s \<and> \<not> mfa_enabled s \<and> mf_setup s = None \<and> \<not> mf_busy s then beginSetup else Done)"
| "mfa_handler (TypeCode t) s = (if mfa_shown s \<and> mf_setup s \<noteq> None then Set (mf_code_update (\<lambda>_. t)) Done else Done)"
| "mfa_handler ConfirmSetup s = (if mfa_shown s \<and> mf_setup s \<noteq> None \<and> \<not> mf_busy s then confirmSetup s else Done)"
| "mfa_handler CancelSetup s =
     (if mfa_shown s \<and> mf_setup s \<noteq> None \<and> \<not> mf_busy s then Set (mf_setup_update (\<lambda>_. None)) Done else Done)"
| "mfa_handler (TypeDisableCode t) s =
     (if mfa_shown s \<and> mfa_enabled s then Set (mf_disableCode_update (\<lambda>_. filter is_digit (js_take 6 t))) Done else Done)"
| "mfa_handler DisableMfa s =
     (if mfa_shown s \<and> mfa_enabled s \<and> \<not> mf_busy s \<and> length (mf_disableCode s) = 6 then disable_mfa s else Done)"
| "mfa_handler Regenerate s = (if mfa_shown s \<and> \<not> mf_busy s then regenerateCodes else Done)"
| "mfa_handler CopyCodes s = 
     (if mfa_shown s \<and> mf_revealedCodes s \<noteq> None then Set (mf_codesCopied_update (\<lambda>_. True)) Done else Done)"
| "mfa_handler SavedCodes s =
     (if mfa_shown s \<and> mf_revealedCodes s \<noteq> None then Set (mf_revealedCodes_update (\<lambda>_. None)) Done else Done)"

subsection \<open>Passkeys\<close>

record creation_options =
  co_challenge :: "byte list"
  co_rp :: "json option"
  co_user_id :: "byte list"
  co_user_name :: string
  co_displayName :: string
  co_pubKeyCredParams :: json
  co_timeout :: rat
  co_excludeCredentials :: "byte list list option"
  co_authenticatorSelection :: "json option"
  co_attestation :: json

fun decode_all :: "json list \<Rightarrow> byte list list option" where
  "decode_all [] = Some []"
| "decode_all (d # ds) =
     (case base64UrlToBytes (undefined_String (prop_of d ''id'')) of
        None \<Rightarrow> None
      | Some b \<Rightarrow> map_option (Cons b) (decode_all ds))"

definition default_params :: json where
  "default_params = JArr [JObj [(''type'', JStr ''public-key''), (''alg'', JNum (- 7))]]"

text \<open>\<open>None\<close> when it throws: a missing \<open>user\<close> or a text \<open>atob\<close> rejects.\<close>

definition toCreationOptions :: "json \<Rightarrow> creation_options option" where
  "toCreationOptions raw =
     (let options = coalesce (prop_of raw ''publicKey'') raw
      in case prop_of options ''user'' of
           None \<Rightarrow> None
         | Some JNull \<Rightarrow> None
         | Some user \<Rightarrow>
             Option.bind (base64UrlToBytes (undefined_String (prop_of options ''challenge''))) (\<lambda>challenge.
             Option.bind (base64UrlToBytes (undefined_String (prop_of user ''id''))) (\<lambda>uid.
             Option.bind (case prop_of options ''excludeCredentials'' of
                            Some (JArr ds) \<Rightarrow> map_option Some (decode_all ds)
                          | _ \<Rightarrow> Some None) (\<lambda>excluded.
               Some \<lparr>co_challenge = challenge, co_rp = prop_of options ''rp'', co_user_id = uid,
                     co_user_name = js_String (coalesce (prop_of user ''name'') (JStr [])),
                     co_displayName = js_String (coalesce (prop_of user ''displayName'') (coalesce (prop_of user ''name'') (JStr []))),
                     co_pubKeyCredParams = coalesce (prop_of options ''pubKeyCredParams'') default_params,
                     co_timeout = (case prop_of options ''timeout'' of Some (JNum q) \<Rightarrow> q | _ \<Rightarrow> 60000),
                     co_excludeCredentials = excluded,
                     co_authenticatorSelection = prop_of options ''authenticatorSelection'',
                     co_attestation = coalesce (prop_of options ''attestation'') (JStr ''none'')\<rparr>))))"

record credential =
  cr_id :: string
  cr_rawId :: "byte list"
  cr_type :: string
  cr_clientDataJSON :: "byte list"
  cr_attestationObject :: "byte list"

datatype passkey_call = PkApi api_call | CreateCredential creation_options

datatype passkey_result = ApiResult api_result | Created "js_error + credential option"

definition perform_passkey ::
  "(creation_options \<Rightarrow> js_error + credential option) \<Rightarrow> passkey_call \<Rightarrow> browser \<Rightarrow> passkey_result \<times> browser" where
  "perform_passkey authenticator c b =
     (case c of
        PkApi a \<Rightarrow> (case perform_api a b of (r, b') \<Rightarrow> (ApiResult r, b'))
      | CreateCredential o' \<Rightarrow> (Created (authenticator o'), b))"

type_synonym 's passkey_script = "('s, passkey_call, passkey_result, js_error) script"

definition pk_api :: "api_call \<Rightarrow> (envelope \<Rightarrow> 's passkey_script) \<Rightarrow> 's passkey_script" where
  "pk_api c k = Await [PkApi c] (\<lambda>rs n. case hd rs of
      ApiResult (Inr e) \<Rightarrow> k e
    | ApiResult (Inl e) \<Rightarrow> Throw e
    | Created _ \<Rightarrow> Done)"

definition credential_json :: "credential \<Rightarrow> json" where
  "credential_json c = JObj [(''id'', JStr (cr_id c)), (''rawId'', JStr (bytesToBase64Url (cr_rawId c))), (''type'', JStr (cr_type c)),
     (''response'', JObj [(''clientDataJSON'', JStr (bytesToBase64Url (cr_clientDataJSON c))),
                         (''attestationObject'', JStr (bytesToBase64Url (cr_attestationObject c)))])]"

text \<open>\<open>supported\<close> says whether the browser has \<open>PublicKeyCredential\<close>.\<close>

definition runWebAuthnCeremony :: "bool \<Rightarrow> json \<Rightarrow> (json \<Rightarrow> 's passkey_script) \<Rightarrow> 's passkey_script" where
  "runWebAuthnCeremony supported raw k =
     (if \<not> supported then Throw (PlainError ''This browser does not support WebAuthn/passkeys'')
      else case toCreationOptions raw of
             None \<Rightarrow> Throw (PlainError ''TypeError'')
           | Some o' \<Rightarrow> Await [CreateCredential o'] (\<lambda>rs n. case hd rs of
                 Created (Inl e) \<Rightarrow> Throw e
               | Created (Inr None) \<Rightarrow> Throw (PlainError ''Passkey creation was cancelled'')
               | Created (Inr (Some c)) \<Rightarrow> k (credential_json c)
               | ApiResult _ \<Rightarrow> Done))"

record passkeys_card = ui +
  pk_passkeys :: "json list option"
  pk_error :: "js_error option"
  pk_label :: string
  pk_registerOpen :: bool
  pk_busy :: bool

definition passkeys_load :: "passkeys_card passkey_script" where
  "passkeys_load =
     try_catch
       (pk_api (api_get ''/me/mfa/passkeys'' no_options)
         (\<lambda>e. Set (pk_error_update (\<lambda>_. None))
              (Set (pk_passkeys_update (\<lambda>_. Some (array_or_empty (prop_of (env_data e) ''passkeys'')))) Done)))
       (\<lambda>cause. Set (pk_error_update (\<lambda>_. Some cause)) Done)"

definition raw_options :: "json \<Rightarrow> json" where
  "raw_options data = (let v = coalesce (prop_of data ''options'') data in if v = JNull then JObj [] else v)"

definition register_passkey :: "bool \<Rightarrow> passkeys_card \<Rightarrow> passkeys_card passkey_script" where
  "register_passkey supported s =
     with_flag pk_busy_update
       (try_catch
         (pk_api (api_post ''/me/mfa/passkeys/begin-registration'' None no_options)
           (\<lambda>e. runWebAuthnCeremony supported (raw_options (env_data e))
             (\<lambda>credential. pk_api (api_post ''/me/mfa/passkeys/register''
                 (Some (JObj [(''credential'', credential), (''label'', JStr (trim (pk_label s)))])) no_options)
               (\<lambda>_. Set (toast_success ''Passkey registered'') (Set (pk_registerOpen_update (\<lambda>_. False))
                   (Set (pk_label_update (\<lambda>_. [])) passkeys_load))))))
         (\<lambda>cause. Set (toast_error (err_message cause)) Done))"

definition remove_passkey :: "json \<Rightarrow> passkeys_card passkey_script" where
  "remove_passkey row =
     try_catch
       (pk_api (api_delete (''/me/mfa/passkeys/'' @ undefined_String (prop_of row ''id'')) no_options)
         (\<lambda>_. Set (toast_success ''Passkey removed'') passkeys_load))
       (\<lambda>cause. Set (toast_error (api_message ''Failed to remove passkey'' cause)) Done)"

datatype passkey_event = PkLoad | PkLabel string | PkOpen bool | PkRegister | PkRemove nat

fun passkey_handler :: "bool \<Rightarrow> passkey_event \<Rightarrow> passkeys_card \<Rightarrow> passkeys_card passkey_script" where
  "passkey_handler supported PkLoad s = passkeys_load"
| "passkey_handler supported (PkLabel t) s = Set (pk_label_update (\<lambda>_. t)) Done"
| "passkey_handler supported (PkOpen t) s = Set (pk_registerOpen_update (\<lambda>_. t)) Done"
| "passkey_handler supported PkRegister s = (if pk_busy s \<or> \<not> pk_registerOpen s then Done else register_passkey supported s)"
| "passkey_handler supported (PkRemove i) s =
     (case pk_passkeys s of
        Some rows \<Rightarrow> if pk_error s = None \<and> i < length rows then remove_passkey (rows ! i) else Done
      | None \<Rightarrow> Done)"

subsection \<open>Sessions\<close>

record sessions_card = ui +
  se_sessions :: "json list option"
  se_error :: "js_error option"

definition sessions_load :: "sessions_card api_script" where
  "sessions_load =
     try_catch
       (await (api_get ''/me/sessions'' no_options)
         (\<lambda>e. Set (se_error_update (\<lambda>_. None)) (Set (se_sessions_update (\<lambda>_. Some (array_or_empty (Some (env_data e))))) Done)))
       (\<lambda>cause. Set (se_error_update (\<lambda>_. Some cause)) Done)"

definition session_rows :: "sessions_card \<Rightarrow> json list" where
  "session_rows s = filter (\<lambda>row. \<not> flag_prop ''revoked'' row) (case se_sessions s of Some rows \<Rightarrow> rows | None \<Rightarrow> [])"

definition revoke :: "json \<Rightarrow> sessions_card api_script" where
  "revoke row =
     try_catch
       (await (api_delete (''/me/sessions/'' @ undefined_String (prop_of row ''id'')) no_options)
         (\<lambda>_. Set (toast_success (if flag_prop ''is_current'' row then ''Signed out everywhere (this session)'' else ''Session revoked''))
             sessions_load))
       (\<lambda>cause. Set (toast_error (api_message ''Failed to revoke session'' cause)) Done)"

datatype session_event = SeLoad | Revoke nat

fun session_handler :: "session_event \<Rightarrow> sessions_card \<Rightarrow> sessions_card api_script" where
  "session_handler SeLoad s = sessions_load"
| "session_handler (Revoke i) s =
     (if se_error s = None \<and> i < length (session_rows s) then revoke (session_rows s ! i) else Done)"

subsection \<open>Security events\<close>

text \<open>The effect runs in a zero-delay timer; its cleanup cancels the timer and the request of an
  earlier page, whose answer is then ignored. \<open>ev_epoch\<close> numbers the effects.\<close>

record events_card =
  ev_events :: "json list"
  ev_meta :: "json option"
  ev_page :: nat
  ev_loading :: bool
  ev_error :: "js_error option"
  ev_epoch :: nat
  ev_timer :: bool

definition unless_cancelled :: "nat \<Rightarrow> (events_card \<Rightarrow> events_card) \<Rightarrow> events_card \<Rightarrow> events_card" where
  "unless_cancelled n f s = (if ev_epoch s = n then f s else s)"

definition load_events :: "events_card \<Rightarrow> events_card api_script" where
  "load_events s =
     Set (ev_timer_update (\<lambda>_. False)) (Set (ev_loading_update (\<lambda>_. True)) (Set (ev_error_update (\<lambda>_. None))
       (finally_set
         (try_catch
           (await (api_get ''/me/security/events'' \<lparr>ao_headers = None,
                      ao_query = Some [(''page'', QNum (of_nat (ev_page s))), (''limit'', QNum 10)]\<rparr>)
             (\<lambda>e. Set (unless_cancelled (ev_epoch s) (\<lambda>x. x\<lparr>ev_events := array_or_empty (Some (env_data e)),
                   ev_meta := Option.bind (env_meta e) non_null\<rparr>)) Done))
           (\<lambda>cause. Set (unless_cancelled (ev_epoch s) (\<lambda>x. x\<lparr>ev_error := Some cause\<rparr>)) Done))
         (unless_cancelled (ev_epoch s) (\<lambda>x. x\<lparr>ev_loading := False\<rparr>)))))"

definition event_pages :: "json option \<Rightarrow> int" where
  "event_pages m =
     (case (opt_prop m ''per_page'', opt_prop m ''total'') of
        (Some (JNum per), Some (JNum t)) \<Rightarrow> if per > 0 then \<lceil>t / per\<rceil> else 1
      | _ \<Rightarrow> 1)"

definition set_event_page :: "nat \<Rightarrow> events_card \<Rightarrow> events_card" where
  "set_event_page p s = s\<lparr>ev_page := p, ev_epoch := Suc (ev_epoch s), ev_timer := True\<rparr>"

definition pager_shown :: "events_card \<Rightarrow> bool" where
  "pager_shown s \<longleftrightarrow> \<not> ev_loading s \<and> ev_error s = None \<and> ev_events s \<noteq> [] \<and> event_pages (ev_meta s) > 1"

datatype events_event = EvTimer | EvPrevious | EvNext

fun events_handler :: "events_event \<Rightarrow> events_card \<Rightarrow> events_card api_script" where
  "events_handler EvTimer s = (if ev_timer s then load_events s else Done)"
| "events_handler EvPrevious s =
     (if pager_shown s \<and> 1 < ev_page s then Set (set_event_page (ev_page s - 1)) Done else Done)"
| "events_handler EvNext s =
     (if pager_shown s \<and> int (ev_page s) < event_pages (ev_meta s) then Set (set_event_page (ev_page s + 1)) Done else Done)"

definition first_events :: events_card where
  "first_events = \<lparr>ev_events = [], ev_meta = None, ev_page = 1, ev_loading = True, ev_error = None, ev_epoch = 0, ev_timer = True\<rparr>"

subsection \<open>What the cards send\<close>

definition password_call :: "api_call \<Rightarrow> bool" where
  "password_call c \<longleftrightarrow>
     (\<exists>cur nw. c = api_post ''/me/password/change''
        (Some (JObj [(''current_password'', JStr cur), (''new_password'', JStr nw)])) no_options
        \<and> cur \<noteq> [] \<and> 10 \<le> js_length nw)"

definition code_call :: "api_call \<Rightarrow> bool" where
  "code_call c \<longleftrightarrow>
     (ac_path c = ''/me/mfa/totp/disable''
        \<longrightarrow> (\<exists>d. ac_body c = Some (JObj [(''code'', JStr d)]) \<and> length d = 6 \<and> list_all is_digit d))
     \<and> (ac_path c = ''/me/mfa/totp/confirm''
        \<longrightarrow> (\<exists>d. ac_body c = Some (JObj [(''code'', JStr d)]) \<and> d \<noteq> [] \<and> list_all (\<lambda>x. \<not> is_ws x) d))"

text \<open>The texts of a registration decode to the bytes of a credential.\<close>

definition decodes_to :: "credential \<Rightarrow> json \<Rightarrow> bool" where
  "decodes_to c j \<longleftrightarrow>
     (\<exists>raw client attest.
        j = JObj [(''id'', JStr (cr_id c)), (''rawId'', JStr raw), (''type'', JStr (cr_type c)),
                  (''response'', JObj [(''clientDataJSON'', JStr client), (''attestationObject'', JStr attest)])]
        \<and> base64UrlToBytes raw = Some (cr_rawId c)
        \<and> base64UrlToBytes client = Some (cr_clientDataJSON c)
        \<and> base64UrlToBytes attest = Some (cr_attestationObject c))"

lemma credential_decodes [simp]: "\<exists>cred. decodes_to cred (credential_json c)"
  by (intro exI [of _ c]) (simp add: decodes_to_def credential_json_def base64url_decodes)

definition passkey_allowed :: "passkey_call \<Rightarrow> bool" where
  "passkey_allowed c \<longleftrightarrow>
     (case c of
        PkApi a \<Rightarrow> ac_method a = ''POST'' \<and> ac_path a = ''/me/mfa/passkeys/register''
          \<longrightarrow> (\<exists>cred j label. ac_body a = Some (JObj [(''credential'', j), (''label'', JStr label)])
                 \<and> decodes_to cred j)
      | CreateCredential _ \<Rightarrow> True)"

lemmas card_defs = toast_success_def toast_error_def

lemma script_ok_pk_api [script_intros]:
  "allowed (PkApi c) \<Longrightarrow> (\<And>e. script_ok I allowed (k e)) \<Longrightarrow> script_ok I allowed (pk_api c k)"
  by (simp add: pk_api_def split: passkey_result.splits sum.splits)

lemma script_ok_ceremony [script_intros]:
  "(\<And>o'. allowed (CreateCredential o')) \<Longrightarrow> (\<And>c. script_ok I allowed (k (credential_json c)))
   \<Longrightarrow> script_ok I allowed (runWebAuthnCeremony supported raw k)"
  by (simp add: runWebAuthnCeremony_def split: option.splits passkey_result.splits sum.splits)

lemma ends_low_pk_api [script_intros]:
  "low \<Longrightarrow> (\<And>e. ends_low busy (k e) low) \<Longrightarrow> ends_low busy (pk_api c k) low"
  by (simp add: pk_api_def split: passkey_result.splits sum.splits)

lemma ends_low_ceremony [script_intros]:
  "low \<Longrightarrow> (\<And>c. ends_low busy (k c) low) \<Longrightarrow> ends_low busy (runWebAuthnCeremony supported raw k) low"
  by (simp add: runWebAuthnCeremony_def split: option.splits passkey_result.splits sum.splits)

interpretation password_contract: page_contract perform_api password_handler "\<lambda>_. True" password_call
proof
  fix u and s :: password_card
  show "script_ok (\<lambda>_. True) password_call (password_handler u s)"
    by (cases u) (auto simp: submit_password_def password_call_def api_call_defs not_less intro!: script_intros)
qed

interpretation password_busy: page_flag perform_api password_handler pw_busy
proof
  fix u s
  show "ends_low pw_busy (password_handler u s) True"
    by (cases u) (auto simp: submit_password_def card_defs intro!: script_intros)
qed

definition code_digits :: "mfa_card \<Rightarrow> bool" where
  "code_digits s \<longleftrightarrow> list_all is_digit (mf_disableCode s)"

lemma trim_digits: "list_all is_digit s \<Longrightarrow> trim s = s"
  by (rule trim_no_ws) (auto simp: list_all_iff dest: digit_facts(1))

lemma trimmed_ends: "trim s \<noteq> [] \<Longrightarrow> filter (\<lambda>c. \<not> is_ws c) (trim s) \<noteq> []"
  using hd_trim [of s] hd_in_set [of "trim s"] by (auto simp: filter_empty_conv)

lemmas mfa_defs = mfa_load_def beginSetup_def confirmSetup_def disable_mfa_def regenerateCodes_def

interpretation mfa_contract: page_contract perform_api mfa_handler code_digits code_call
proof
  fix u and s :: mfa_card assume s: "code_digits s"
  show "script_ok code_digits code_call (mfa_handler u s)"
    using s trimmed_ends [of "mf_code s"]
    by (cases u) (auto simp: mfa_defs code_digits_def code_call_def card_defs api_call_defs trim_digits list_all_iff
      intro!: script_intros)
qed

interpretation mfa_busy: page_flag perform_api mfa_handler mf_busy
proof
  fix u s
  show "ends_low mf_busy (mfa_handler u s) True"
    by (cases u) (auto simp: mfa_defs card_defs intro!: script_intros)
qed

lemmas passkey_defs = passkeys_load_def register_passkey_def remove_passkey_def

interpretation passkey_contract: page_contract "perform_passkey authenticator" "passkey_handler supported" "\<lambda>_. True" passkey_allowed
  for authenticator supported
proof
  fix u and s :: passkeys_card
  show "script_ok (\<lambda>_. True) passkey_allowed (passkey_handler supported u s)"
    by (cases u) (auto simp: passkey_defs passkey_allowed_def api_call_defs
      split: option.splits intro!: script_intros)
qed

interpretation passkey_busy: page_flag "perform_passkey authenticator" "passkey_handler supported" pk_busy
  for authenticator supported
proof
  fix u s
  show "ends_low pk_busy (passkey_handler supported u s) True"
    by (cases u) (auto simp: passkey_defs card_defs split: option.splits intro!: script_intros)
qed

definition events_call :: "api_call \<Rightarrow> bool" where
  "events_call c \<longleftrightarrow>
     (\<exists>p. 1 \<le> p \<and> c = api_get ''/me/security/events''
        \<lparr>ao_headers = None, ao_query = Some [(''page'', QNum (of_nat p)), (''limit'', QNum 10)]\<rparr>)"

interpretation events_contract: page_contract perform_api events_handler "\<lambda>s. 1 \<le> ev_page s" events_call
proof
  fix u and s :: events_card assume s: "1 \<le> ev_page s"
  have "events_call (api_get ''/me/security/events''
        \<lparr>ao_headers = None, ao_query = Some [(''page'', QNum (of_nat (ev_page s))), (''limit'', QNum 10)]\<rparr>)"
    using s unfolding events_call_def by blast
  with s show "script_ok (\<lambda>s. 1 \<le> ev_page s) events_call (events_handler u s)"
    by (cases u) (auto simp: load_events_def unless_cancelled_def set_event_page_def intro!: script_intros)
qed


end
