(* ===== verification/Data_Table.thy ===== *)
theory Data_Table
  imports Page_Kit
begin

text \<open>
  The table of the list pages (\<open>components/shared/SimpleDataTable.tsx\<close>), the bulk selection beside it
  (\<open>components/shared/BulkActionBar.tsx\<close>) and the paginated list of the billing pages
  (\<open>admin/billing/pages/shared.tsx\<close>). A \<open>Set\<close> of the language iterates in insertion
  order: it is a list without duplicates here, and the selection is proved to be a set.
\<close>

subsection \<open>Sets of row keys\<close>

type_synonym js_set = "string list"

definition set_has :: "js_set \<Rightarrow> string \<Rightarrow> bool" where
  "set_has S k \<longleftrightarrow> k \<in> set S"

definition set_add :: "string \<Rightarrow> js_set \<Rightarrow> js_set" where
  "set_add k S = (if set_has S k then S else S @ [k])"

definition set_delete :: "string \<Rightarrow> js_set \<Rightarrow> js_set" where
  "set_delete k S = filter (\<lambda>x. x \<noteq> k) S"

text \<open>What a set of keys promises, through its abstraction and invariant.\<close>

locale key_set =
  fixes empty :: 's
    and add :: "string \<Rightarrow> 's \<Rightarrow> 's"
    and delete :: "string \<Rightarrow> 's \<Rightarrow> 's"
    and has :: "'s \<Rightarrow> string \<Rightarrow> bool"
    and abs :: "'s \<Rightarrow> string set"
    and ok :: "'s \<Rightarrow> bool"
  assumes abs_empty: "abs empty = {}"
    and has_abs: "ok S \<Longrightarrow> has S k \<longleftrightarrow> k \<in> abs S"
    and add_abs: "ok S \<Longrightarrow> abs (add k S) = insert k (abs S)"
    and delete_abs: "ok S \<Longrightarrow> abs (delete k S) = abs S - {k}"
    and ok_empty: "ok empty"
    and ok_add: "ok S \<Longrightarrow> ok (add k S)"
    and ok_delete: "ok S \<Longrightarrow> ok (delete k S)"
begin

lemma fold_add: "ok S \<Longrightarrow> ok (fold add ks S) \<and> abs (fold add ks S) = abs S \<union> set ks"
  by (induction ks arbitrary: S) (auto simp: ok_add add_abs)

lemma fold_delete: "ok S \<Longrightarrow> ok (fold delete ks S) \<and> abs (fold delete ks S) = abs S - set ks"
  by (induction ks arbitrary: S) (auto simp: ok_delete delete_abs)

lemma all_has: "ok S \<Longrightarrow> list_all (has S) ks \<longleftrightarrow> set ks \<subseteq> abs S"
  by (auto simp: list_all_iff has_abs)

end

interpretation row_keys: key_set "[]" set_add set_delete set_has set distinct
  by unfold_locales (auto simp: set_add_def set_delete_def set_has_def)

subsection \<open>The table\<close>

record simple_column =
  cl_key :: string
  cl_render :: "(json \<Rightarrow> string) option"

type_synonym row_key = "json \<Rightarrow> nat \<Rightarrow> string"

definition key_of :: "row_key option \<Rightarrow> json \<Rightarrow> nat \<Rightarrow> string" where
  "key_of getRowKey row index = (case getRowKey of Some f \<Rightarrow> f row index | None \<Rightarrow> show_nat index)"

definition keyed_rows :: "row_key option \<Rightarrow> json list \<Rightarrow> string list" where
  "keyed_rows getRowKey rows = map (\<lambda>(index, row). key_of getRowKey row index) (enumerate 0 rows)"

definition cellFor :: "json \<Rightarrow> simple_column \<Rightarrow> string" where
  "cellFor row column =
     (case cl_render column of
        Some render \<Rightarrow> render row
      | None \<Rightarrow> if nullish (prop_of row (cl_key column)) then em_dash else js_String (the (prop_of row (cl_key column))))"

definition toggleRow :: "string \<Rightarrow> bool \<Rightarrow> js_set \<Rightarrow> js_set" where
  "toggleRow key checked selectedKeys = (if checked then set_add key selectedKeys else set_delete key selectedKeys)"

definition allSelected :: "row_key option \<Rightarrow> json list \<Rightarrow> js_set \<Rightarrow> bool" where
  "allSelected getRowKey rows selectedKeys \<longleftrightarrow>
     rows \<noteq> [] \<and> list_all (set_has selectedKeys) (keyed_rows getRowKey rows)"

definition toggleAll :: "row_key option \<Rightarrow> json list \<Rightarrow> bool \<Rightarrow> js_set \<Rightarrow> js_set" where
  "toggleAll getRowKey rows checked selectedKeys =
     fold (if checked then set_add else set_delete) (keyed_rows getRowKey rows) selectedKeys"

text \<open>What is rendered: an error banner, skeleton rows, the empty message, or the rows with the
  state of their checkboxes and their cells.\<close>

datatype table_view =
    ErrorView
  | LoadingView nat
  | EmptyView string
  | Rows "bool option" "(string \<times> bool option \<times> string list) list"

definition SimpleDataTable ::
  "simple_column list \<Rightarrow> json \<Rightarrow> bool \<Rightarrow> js_error option \<Rightarrow> nat \<Rightarrow> string \<Rightarrow> row_key option \<Rightarrow> bool \<Rightarrow> js_set \<Rightarrow> table_view" where
  "SimpleDataTable columns rows loading error skeletonRows emptyMessage getRowKey selectable selectedKeys =
     (let safeRows = array_or_empty (Some rows)
      in if error \<noteq> None then ErrorView
         else if loading then LoadingView (max skeletonRows 1)
         else if safeRows = [] then EmptyView emptyMessage
         else Rows (if selectable then Some (allSelected getRowKey safeRows selectedKeys) else None)
           (map (\<lambda>(index, row). let key = key_of getRowKey row index in
                   (key, if selectable then Some (set_has selectedKeys key) else None, map (cellFor row) columns))
             (enumerate 0 safeRows)))"

subsection \<open>Bulk selection\<close>

definition resolve :: "row_key \<Rightarrow> js_set \<Rightarrow> json list \<Rightarrow> json list" where
  "resolve getRowKey selectedKeys rows =
     map snd (filter (\<lambda>(index, row). set_has selectedKeys (getRowKey row index)) (enumerate 0 rows))"

text \<open>The bar: hidden without a selection, its buttons disabled while busy.\<close>

definition BulkActionBar :: "nat \<Rightarrow> bool \<Rightarrow> bool option" where
  "BulkActionBar selectedCount busy = (if selectedCount = 0 then None else Some (\<not> busy))"

subsection \<open>Paginated lists\<close>

record paged_list = ui +
  pl_page :: nat
  pl_rows :: "json list"
  pl_meta :: "json option"
  pl_loading :: bool
  pl_error :: "js_error option"
  pl_run :: nat
  pl_due :: bool

text \<open>A change of the page or a reload starts a new run of the effect and cancels the one before;
  the effect's microtask is the event \<open>paged_effect\<close>.\<close>

definition rerun :: "'a paged_list_scheme \<Rightarrow> 'a paged_list_scheme" where
  "rerun s = s\<lparr>pl_run := Suc (pl_run s), pl_due := True\<rparr>"

definition in_list_run :: "nat \<Rightarrow> ('a paged_list_scheme \<Rightarrow> 'a paged_list_scheme) \<Rightarrow> 'a paged_list_scheme \<Rightarrow> 'a paged_list_scheme" where
  "in_list_run r f s = (if pl_run s = r then f s else s)"

definition paged_effect ::
  "string \<Rightarrow> query_value js_record \<Rightarrow> nat \<Rightarrow> 'a paged_list_scheme \<Rightarrow> 'a paged_list_scheme api_script" where
  "paged_effect path query perPage s =
     (if \<not> pl_due s then Done
      else Set (\<lambda>x. x\<lparr>pl_due := False, pl_loading := True, pl_error := None\<rparr>)
        (try_catch
          (await (api_get path \<lparr>ao_headers = None,
                    ao_query = Some (AList.update ''per_page'' (QNum (of_nat perPage))
                                      (AList.update ''page'' (QNum (of_nat (pl_page s))) query))\<rparr>)
            (\<lambda>e. Set (in_list_run (pl_run s) (\<lambda>x. x\<lparr>pl_rows := array_or_empty (Some (env_data e)),
                   pl_meta := Option.bind (env_meta e) non_null, pl_loading := False\<rparr>)) Done))
          (\<lambda>cause. Set (in_list_run (pl_run s) (\<lambda>x. x\<lparr>pl_rows := [], pl_meta := None, pl_error := Some cause,
                   pl_loading := False\<rparr>)) Done)))"

definition setPage :: "nat \<Rightarrow> 'a paged_list_scheme \<Rightarrow> 'a paged_list_scheme" where
  "setPage p s = (if p = pl_page s then s else rerun (s\<lparr>pl_page := p\<rparr>))"

definition meta_num :: "string \<Rightarrow> json option \<Rightarrow> rat option" where
  "meta_num k meta = (case opt_prop meta k of Some (JNum q) \<Rightarrow> Some q | _ \<Rightarrow> None)"

text \<open>\<open>per_page\<close> is a number by the declared type; a division by zero gives \<open>Infinity\<close> or
  \<open>NaN\<close>, which no page reaches.\<close>

definition per_page :: "json option \<Rightarrow> rat" where
  "per_page meta = (case meta_num ''per_page'' meta of Some q \<Rightarrow> q | None \<Rightarrow> 20)"

definition lastPage :: "json option \<Rightarrow> int option" where
  "lastPage meta =
     (case meta_num ''total'' meta of
        None \<Rightarrow> None
      | Some t \<Rightarrow> if per_page meta = 0 \<and> t \<ge> 0 then None else Some (max 1 \<lceil>t / per_page meta\<rceil>))"

definition en_dash :: string where
  "en_dash = [CHR 0xE2, CHR 0x80, CHR 0x93]"

definition rangeLabel :: "nat \<Rightarrow> json option \<Rightarrow> string" where
  "rangeLabel page meta =
     (case meta_num ''total'' meta of
        None \<Rightarrow> ''Page '' @ show_nat page
      | Some t \<Rightarrow>
          if t > 0
          then ''Showing '' @ show_num ((of_nat page - 1) * per_page meta + 1) @ en_dash
               @ show_num (min (of_nat page * per_page meta) t) @ '' of '' @ show_num t
          else ''0 results'')"

definition pager_previous :: "bool \<Rightarrow> nat \<Rightarrow> bool" where
  "pager_previous disabled page \<longleftrightarrow> \<not> disabled \<and> 1 < page"

definition pager_next :: "bool \<Rightarrow> nat \<Rightarrow> json option \<Rightarrow> bool" where
  "pager_next disabled page meta \<longleftrightarrow>
     \<not> disabled \<and> (case lastPage meta of Some l \<Rightarrow> int page < l | None \<Rightarrow> True)"

subsection \<open>The selection is a set\<close>

datatype selection_event =
    CheckRow "json list" nat bool
  | CheckAll "json list" bool
  | ClearSelection

text \<open>The checkboxes act on the rows rendered at that moment.\<close>

fun selection_step :: "row_key \<Rightarrow> selection_event \<Rightarrow> js_set \<Rightarrow> js_set" where
  "selection_step k (CheckRow rows i checked) S = (if i < length rows then toggleRow (k (rows ! i) i) checked S else S)"
| "selection_step k (CheckAll rows checked) S = toggleAll (Some k) rows checked S"
| "selection_step k ClearSelection S = []"

definition row_key_set :: "row_key \<Rightarrow> json list \<Rightarrow> string set" where
  "row_key_set k rows = {k (rows ! i) i |i. i < length rows}"

text \<open>The abstract selection: a mathematical set of keys.\<close>

fun abstract_step :: "row_key \<Rightarrow> selection_event \<Rightarrow> string set \<Rightarrow> string set" where
  "abstract_step k (CheckRow rows i checked) A =
     (if i < length rows then if checked then A \<union> {k (rows ! i) i} else A - {k (rows ! i) i} else A)"
| "abstract_step k (CheckAll rows checked) A = (if checked then A \<union> row_key_set k rows else A - row_key_set k rows)"
| "abstract_step k ClearSelection A = {}"

lemma keyed_rows_set: "set (keyed_rows (Some k) rows) = row_key_set k rows"
  by (auto simp: keyed_rows_def key_of_def row_key_set_def in_set_enumerate_eq image_iff)

lemma selection_step_refines:
  "distinct S \<Longrightarrow> distinct (selection_step k e S) \<and> set (selection_step k e S) = abstract_step k e (set S)"
  using row_keys.fold_add [of S] row_keys.fold_delete [of S]
  by (cases e) (auto simp: toggleRow_def toggleAll_def keyed_rows_set row_keys.ok_add row_keys.ok_delete
    row_keys.add_abs row_keys.delete_abs)

lemma selection_run_refines:
  "distinct S \<Longrightarrow> distinct (fold (selection_step k) es S)
   \<and> set (fold (selection_step k) es S) = fold (abstract_step k) es (set S)"
  by (induction es arbitrary: S) (simp_all add: selection_step_refines)

lemma resolve_set:
  "resolve k S rows = map (\<lambda>i. rows ! i) (filter (\<lambda>i. k (rows ! i) i \<in> set S) [0 ..< length rows])"
proof -
  have "enumerate 0 rows = map (\<lambda>i. (i, rows ! i)) [0 ..< length rows]"
    by (intro nth_equalityI) (simp_all add: nth_enumerate_eq)
  then show ?thesis by (simp add: resolve_def filter_map o_def set_has_def)
qed

text \<open>
  C16: the selection of a table is a set of row keys. However the row checkboxes, the checkbox of the
  header and \<open>clear\<close> are used, over rows that may change in between, the selected keys are the ones
  the set operations give, without duplicates, so that the number the bar shows is their number; the
  header checkbox is on exactly when there are rows and all their keys are selected; a bulk action gets
  exactly the shown rows whose key is selected, in table order.
\<close>

theorem selection_refines_set:
  "let S = fold (selection_step k) es []; A = fold (abstract_step k) es {}
   in set S = A \<and> length S = card A
     \<and> (allSelected (Some k) rows S \<longleftrightarrow> rows \<noteq> [] \<and> row_key_set k rows \<subseteq> A)
     \<and> resolve k S rows = map (\<lambda>i. rows ! i) (filter (\<lambda>i. k (rows ! i) i \<in> A) [0 ..< length rows])"
proof -
  define S A where "S = fold (selection_step k) es []" and "A = fold (abstract_step k) es {}"
  have S: "distinct S" "set S = A" using selection_run_refines [of "[]" k es] by (simp_all add: S_def A_def)
  then have "length S = card A" by (metis distinct_card)
  moreover have "allSelected (Some k) rows S \<longleftrightarrow> rows \<noteq> [] \<and> row_key_set k rows \<subseteq> A"
    using row_keys.all_has [OF S(1)] S(2) by (simp add: allSelected_def keyed_rows_set)
  ultimately have "set S = A \<and> length S = card A
     \<and> (allSelected (Some k) rows S \<longleftrightarrow> rows \<noteq> [] \<and> row_key_set k rows \<subseteq> A)
     \<and> resolve k S rows = map (\<lambda>i. rows ! i) (filter (\<lambda>i. k (rows ! i) i \<in> A) [0 ..< length rows])"
    using S(2) by (simp add: resolve_set)
  then show ?thesis unfolding S_def A_def Let_def .
qed

end
