(* ===== verification/Billing_Coupons.thy ===== *)
theory Billing_Coupons
  imports Data_Table Formatting Timestamps
begin

text \<open>
  The helpers of the admin billing pages (\<open>admin/billing/pages/shared.tsx\<close>) and the coupon page built on
  them (\<open>admin/billing/pages/Coupons.tsx\<close>): a paginated table with row and bulk deletion, a form that
  creates and edits, and a dialog with the redemptions of a coupon.
\<close>

subsection \<open>Money, dates and badges\<close>

definition billing_code :: "string option \<Rightarrow> string" where
  "billing_code currency =
     (let c = toUpperCase (trim (case currency of Some c \<Rightarrow> c | None \<Rightarrow> ''IDR'')) in if c = [] then ''IDR'' else c)"

definition billing_formatMoney ::
  "(number_format \<Rightarrow> bool) \<Rightarrow> (number_format \<Rightarrow> js_num \<Rightarrow> string) \<Rightarrow> (js_num \<Rightarrow> string)
   \<Rightarrow> amount option \<Rightarrow> string option \<Rightarrow> string" where
  "billing_formatMoney intl_ok intl plain a currency =
     (case amount_num a of
        None \<Rightarrow> em_dash
      | Some NaN \<Rightarrow> em_dash
      | Some v \<Rightarrow>
          (let code = billing_code currency;
               nf = \<lparr>nf_locale = Some ''id-ID'', nf_currency = Some code, nf_digits = (if code = ''IDR'' then 0 else 2)\<rparr>
           in if intl_ok nf then intl nf v else code @ '' '' @ plain v))"

text \<open>\<open>replace(" ", "T")\<close>: the first blank only.\<close>

fun blank_to_T :: "string \<Rightarrow> string" where
  "blank_to_T [] = []"
| "blank_to_T (c # s) = (if c = CHR '' '' then CHR ''T'' # s else c # blank_to_T s)"

text \<open>\<open>replace(/([+-]\d{2})$/, "$1:00")\<close>.\<close>

definition full_zone :: "string \<Rightarrow> string" where
  "full_zone s =
     (let t = drop (length s - 3) s in
      if 3 \<le> length s \<and> hd t \<in> {CHR ''+'', CHR ''-''} \<and> list_all is_digit (tl t) then s @ '':00'' else s)"

definition billing_parseApiDate :: "(string \<Rightarrow> int option) \<Rightarrow> string \<Rightarrow> int option" where
  "billing_parseApiDate other v =
     (if trim v = [] then None else new_Date other (full_zone (blank_to_T (trim v))))"

definition billing_formatDateTime :: "(string \<Rightarrow> int option) \<Rightarrow> (int \<Rightarrow> string) \<Rightarrow> string option \<Rightarrow> string" where
  "billing_formatDateTime other locale v =
     (if missing v then em_dash
      else case billing_parseApiDate other (the v) of Some ms \<Rightarrow> locale ms | None \<Rightarrow> em_dash)"

definition POSITIVE_STATUSES :: "string list" where
  "POSITIVE_STATUSES = [''paid'', ''completed'', ''active'', ''approved'', ''enabled'', ''credit'']"

definition WARNING_STATUSES :: "string list" where
  "WARNING_STATUSES = [''pending'', ''pending_payment'', ''processing'', ''draft'', ''unpaid'', ''expired'']"

definition variantFor :: "string \<Rightarrow> badge_variant" where
  "variantFor status =
     (if status \<in> set POSITIVE_STATUSES then Default
      else if status \<in> set WARNING_STATUSES then Secondary
      else if status \<in> {''failed'', ''cancelled'', ''void'', ''reversed'', ''refunded'', ''partially_refunded'', ''overdue''}
      then DestructiveBadge else Outline)"

definition billing_StatusBadge :: "string option \<Rightarrow> (badge_variant \<times> string) option" where
  "billing_StatusBadge status =
     (let label = trim (case status of Some t \<Rightarrow> t | None \<Rightarrow> [])
      in if label = [] then None
         else Some (variantFor label, map (\<lambda>c. if c = CHR ''_'' then CHR '' '' else c) label))"

subsection \<open>The coupon form\<close>

record coupon_form =
  cf_code :: string
  cf_description :: string
  cf_discount_type :: string
  cf_discount_value :: string
  cf_currency :: string
  cf_max_discount :: string
  cf_min_order_amount :: string
  cf_max_redemptions :: string
  cf_per_user_limit :: string
  cf_starts_at :: string
  cf_ends_at :: string
  cf_use_duration :: bool
  cf_duration_value :: string
  cf_duration_unit :: string
  cf_enabled :: bool

definition EMPTY_FORM :: coupon_form where
  "EMPTY_FORM = \<lparr>cf_code = [], cf_description = [], cf_discount_type = ''percent'', cf_discount_value = [],
     cf_currency = ''IDR'', cf_max_discount = [], cf_min_order_amount = [], cf_max_redemptions = [],
     cf_per_user_limit = [], cf_starts_at = [], cf_ends_at = [], cf_use_duration = False, cf_duration_value = [],
     cf_duration_unit = ''months'', cf_enabled = True\<rparr>"

text \<open>A property that is a string by the declared type, and \<open>String(v ?? "")\<close>.\<close>

definition text_prop :: "string \<Rightarrow> json \<Rightarrow> string" where
  "text_prop k row = (case prop_of row k of Some (JStr s) \<Rightarrow> s | _ \<Rightarrow> [])"

definition String_or_empty :: "string \<Rightarrow> json \<Rightarrow> string" where
  "String_or_empty k row = js_String (coalesce (prop_of row k) (JStr []))"

definition formFromCoupon :: "json \<Rightarrow> coupon_form" where
  "formFromCoupon coupon = \<lparr>cf_code = text_prop ''code'' coupon, cf_description = text_prop ''description'' coupon,
     cf_discount_type = (if text_prop ''discount_type'' coupon = ''fixed'' then ''fixed'' else ''percent''),
     cf_discount_value = String_or_empty ''discount_value'' coupon,
     cf_currency = (if text_prop ''currency'' coupon = [] then ''IDR'' else text_prop ''currency'' coupon),
     cf_max_discount = String_or_empty ''max_discount'' coupon,
     cf_min_order_amount = String_or_empty ''min_order_amount'' coupon,
     cf_max_redemptions = String_or_empty ''max_redemptions'' coupon,
     cf_per_user_limit = String_or_empty ''per_user_limit'' coupon,
     cf_starts_at = js_take 16 (text_prop ''starts_at'' coupon), cf_ends_at = js_take 16 (text_prop ''ends_at'' coupon),
     cf_use_duration = flag_prop ''duration_value'' coupon,
     cf_duration_value = String_or_empty ''duration_value'' coupon,
     cf_duration_unit = (if text_prop ''duration_unit'' coupon \<in> {''days'', ''weeks'', ''years''}
                         then text_prop ''duration_unit'' coupon else ''months''),
     cf_enabled = flag_prop ''enabled'' coupon\<rparr>"

definition optionalNumber :: "string \<Rightarrow> js_num option" where
  "optionalNumber v =
     (if trim v = [] then None else case js_Number (trim v) of NaN \<Rightarrow> None | n \<Rightarrow> Some n)"

definition opt_field :: "string \<Rightarrow> js_num option \<Rightarrow> json js_record" where
  "opt_field k v = (case v of Some n \<Rightarrow> [(k, js_num_json n)] | None \<Rightarrow> [])"

definition coupon_code :: "coupon_form \<Rightarrow> string" where
  "coupon_code f = toLowerCase (trim (cf_code f))"

definition coupon_currency :: "coupon_form \<Rightarrow> string" where
  "coupon_currency f = toUpperCase (trim (cf_currency f))"

text \<open>The checks of \<open>submitForm\<close>, in order: the message of the first that fails.\<close>

definition coupon_problem :: "coupon_form \<Rightarrow> string option" where
  "coupon_problem f =
     (if coupon_code f = [] then Some ''Code is required.''
      else if trim (cf_discount_value f) = [] \<or> \<not> num_greater (js_Number (cf_discount_value f)) 0
      then Some ''Discount value must be a number greater than 0.''
      else if cf_discount_type f = ''percent'' \<and> num_greater (js_Number (cf_discount_value f)) 100
      then Some ''Percent discounts cannot exceed 100.''
      else if coupon_currency f \<noteq> [] \<and> js_length (coupon_currency f) \<noteq> 3
      then Some ''Currency must be a 3-letter ISO code (e.g. IDR).''
      else if (case optionalNumber (cf_max_discount f) of Some n \<Rightarrow> num_negative n | None \<Rightarrow> False)
      then Some ''Max discount must be >= 0.''
      else if cf_use_duration f \<and> (case optionalNumber (cf_duration_value f) of Some n \<Rightarrow> \<not> num_greater n 0 | None \<Rightarrow> True)
      then Some ''Duration limit needs a positive number of periods.''
      else None)"

definition coupon_body :: "coupon_form \<Rightarrow> json" where
  "coupon_body f = JObj
     ([(''code'', JStr (coupon_code f)), (''description'', JStr (trim (cf_description f))),
       (''discount_type'', JStr (cf_discount_type f)), (''discount_value'', js_num_json (js_Number (cf_discount_value f)))]
      @ (if coupon_currency f = [] then [] else [(''currency'', JStr (coupon_currency f))])
      @ [(''min_order_amount'', case optionalNumber (cf_min_order_amount f) of Some n \<Rightarrow> js_num_json n | None \<Rightarrow> JNum 0)]
      @ opt_field ''max_redemptions'' (optionalNumber (cf_max_redemptions f))
      @ opt_field ''per_user_limit'' (optionalNumber (cf_per_user_limit f))
      @ [(''starts_at'', JStr (cf_starts_at f)), (''ends_at'', JStr (cf_ends_at f)), (''enabled'', JBool (cf_enabled f))]
      @ opt_field ''max_discount'' (optionalNumber (cf_max_discount f))
      @ (case optionalNumber (cf_duration_value f) of
           Some n \<Rightarrow> if cf_use_duration f
                     then [(''duration_value'', js_num_json n), (''duration_unit'', JStr (cf_duration_unit f))] else []
         | None \<Rightarrow> []))"

text \<open>The fields of the dialog; the selects offer a fixed list.\<close>

datatype coupon_field =
    FCode string
  | FDescription string
  | FType nat
  | FValue string
  | FCurrency string
  | FMaxDiscount string
  | FMinOrder string
  | FMaxRedemptions string
  | FPerUser string
  | FStarts string
  | FEnds string
  | FUseDuration bool
  | FDuration string
  | FUnit nat
  | FEnabled bool

definition pick :: "string list \<Rightarrow> nat \<Rightarrow> string \<Rightarrow> string" where
  "pick options i current = (if i < length options then options ! i else current)"

fun setField :: "coupon_field \<Rightarrow> coupon_form \<Rightarrow> coupon_form" where
  "setField (FCode t) f = f\<lparr>cf_code := t\<rparr>"
| "setField (FDescription t) f = f\<lparr>cf_description := t\<rparr>"
| "setField (FType i) f = f\<lparr>cf_discount_type := pick [''percent'', ''fixed''] i (cf_discount_type f)\<rparr>"
| "setField (FValue t) f = f\<lparr>cf_discount_value := t\<rparr>"
| "setField (FCurrency t) f = f\<lparr>cf_currency := js_take 3 t\<rparr>"
| "setField (FMaxDiscount t) f = f\<lparr>cf_max_discount := t\<rparr>"
| "setField (FMinOrder t) f = f\<lparr>cf_min_order_amount := t\<rparr>"
| "setField (FMaxRedemptions t) f = f\<lparr>cf_max_redemptions := t\<rparr>"
| "setField (FPerUser t) f = f\<lparr>cf_per_user_limit := t\<rparr>"
| "setField (FStarts t) f = f\<lparr>cf_starts_at := t\<rparr>"
| "setField (FEnds t) f = (if cf_use_duration f then f else f\<lparr>cf_ends_at := t\<rparr>)"
| "setField (FUseDuration t) f = f\<lparr>cf_use_duration := t\<rparr>"
| "setField (FDuration t) f = (if cf_use_duration f then f\<lparr>cf_duration_value := t\<rparr> else f)"
| "setField (FUnit i) f =
     (if cf_use_duration f then f\<lparr>cf_duration_unit := pick [''days'', ''weeks'', ''months'', ''years''] i (cf_duration_unit f)\<rparr> else f)"
| "setField (FEnabled t) f = f\<lparr>cf_enabled := t\<rparr>"

subsection \<open>The page\<close>

record coupons_page = paged_list +
  cp_formOpen :: bool
  cp_editing :: "json option"
  cp_form :: coupon_form
  cp_formError :: "string option"
  cp_saving :: bool
  cp_deleteTarget :: "json option"
  cp_deleting :: bool
  cp_detailOpenId :: "string option"
  cp_detailCoupon :: "json option"
  cp_redemptions :: "json list option"
  cp_detailError :: "js_error option"
  cp_selected :: js_set
  cp_bulkConfirm :: bool
  cp_bulkBusy :: bool

definition coupon_id :: "json \<Rightarrow> string" where
  "coupon_id row = undefined_String (prop_of row ''id'')"

definition coupon_path :: "json \<Rightarrow> string" where
  "coupon_path row = ''/admin/coupons/'' @ coupon_id row"

definition bulkDelete :: "coupons_page \<Rightarrow> coupons_page api_script" where
  "bulkDelete s =
     (let targets = resolve (\<lambda>row index. coupon_id row) (cp_selected s) (pl_rows s)
      in if targets = [] then Done
         else with_flag cp_bulkBusy_update
           (try_catch
             (await_all (map (\<lambda>row. api_delete (coupon_path row) no_options) targets)
               (\<lambda>_. Set (toast_success (''Deleted '' @ show_nat (length targets) @ '' coupon'' @ (if length targets = 1 then [] else ''s'')))
                   (Set (cp_bulkConfirm_update (\<lambda>_. False)) (Set (cp_selected_update (\<lambda>_. [])) (Set rerun Done)))))
             (\<lambda>cause. Set (toast_error (api_message ''Failed to delete coupons'' cause)) Done)))"

definition openForm :: "json option \<Rightarrow> coupons_page api_script" where
  "openForm editing =
     Set (\<lambda>s. s\<lparr>cp_editing := editing, cp_form := (case editing of Some c \<Rightarrow> formFromCoupon c | None \<Rightarrow> EMPTY_FORM),
       cp_formError := None, cp_formOpen := True\<rparr>) Done"

definition openDetail :: "json \<Rightarrow> coupons_page api_script" where
  "openDetail coupon =
     Set (\<lambda>s. s\<lparr>cp_detailOpenId := Some (coupon_id coupon), cp_detailCoupon := None, cp_redemptions := None, cp_detailError := None\<rparr>)
       (try_catch
         (await (api_get (coupon_path coupon) no_options)
           (\<lambda>e. Set (cp_detailCoupon_update (\<lambda>_. non_null (env_data e)))
               (if env_data e = JNull then Throw (PlainError ''TypeError'')
                else Set (cp_redemptions_update (\<lambda>_. Some (array_or_empty (prop_of (env_data e) ''redemptions'')))) Done)))
         (\<lambda>cause. Set (cp_detailError_update (\<lambda>_. Some cause)) Done))"

definition submitForm :: "coupons_page \<Rightarrow> coupons_page api_script" where
  "submitForm s =
     (case coupon_problem (cp_form s) of
        Some message \<Rightarrow> Set (cp_formError_update (\<lambda>_. Some message)) Done
      | None \<Rightarrow>
          with_flag cp_saving_update
            (try_catch
              (await (api_post ''/admin/coupons'' (Some (coupon_body (cp_form s))) no_options)
                (\<lambda>_. Set (toast_success (''Coupon '' @ coupon_code (cp_form s)
                            @ (if cp_editing s \<noteq> None then '' updated'' else '' created'')))
                    (Set (cp_formOpen_update (\<lambda>_. False)) (Set rerun Done))))
              (\<lambda>cause. Set (cp_formError_update (\<lambda>_. Some (api_message ''Failed to save coupon.'' cause))) Done)))"

definition confirmDelete :: "coupons_page \<Rightarrow> coupons_page api_script" where
  "confirmDelete s =
     (case cp_deleteTarget s of
        None \<Rightarrow> Done
      | Some target \<Rightarrow>
          with_flag cp_deleting_update
            (try_catch
              (await (api_delete (coupon_path target) no_options)
                (\<lambda>_. Set (toast_success (''Coupon '' @ text_prop ''code'' target @ '' deleted''))
                    (Set (cp_deleteTarget_update (\<lambda>_. None)) (Set rerun Done))))
              (\<lambda>cause. Set (toast_error (api_message ''Failed to delete coupon.'' cause)) Done)))"

datatype coupon_event =
    ListEffect
  | PreviousPage
  | NextPage
  | CheckCoupon nat bool
  | CheckAllCoupons bool
  | OpenCreate
  | OpenEdit nat
  | CloseForm
  | SetCouponField coupon_field
  | SubmitCoupon
  | OpenDetail nat
  | CloseDetail
  | AskDelete nat
  | CancelDelete
  | ConfirmDelete
  | AskBulk
  | CloseBulk bool
  | ConfirmBulk

definition rows_shown :: "'a paged_list_scheme \<Rightarrow> bool" where
  "rows_shown s \<longleftrightarrow> pl_error s = None \<and> \<not> pl_loading s"

definition row_at :: "nat \<Rightarrow> 'a paged_list_scheme \<Rightarrow> json option" where
  "row_at i s = (if rows_shown s \<and> i < length (pl_rows s) then Some (pl_rows s ! i) else None)"

fun coupons_handler :: "coupon_event \<Rightarrow> coupons_page \<Rightarrow> coupons_page api_script" where
  "coupons_handler ListEffect s = paged_effect ''/admin/coupons'' [] 20 s"
| "coupons_handler PreviousPage s =
     (if pager_previous (pl_loading s) (pl_page s) then Set (setPage (pl_page s - 1)) Done else Done)"
| "coupons_handler NextPage s =
     (if pager_next (pl_loading s) (pl_page s) (pl_meta s) then Set (setPage (pl_page s + 1)) Done else Done)"
| "coupons_handler (CheckCoupon i checked) s =
     (case row_at i s of
        Some row \<Rightarrow> Set (cp_selected_update (\<lambda>_. toggleRow (coupon_id row) checked (cp_selected s))) Done
      | None \<Rightarrow> Done)"
| "coupons_handler (CheckAllCoupons checked) s =
     (if rows_shown s
      then Set (cp_selected_update (\<lambda>_. toggleAll (Some (\<lambda>row index. coupon_id row)) (pl_rows s) checked (cp_selected s))) Done
      else Done)"
| "coupons_handler OpenCreate s = openForm None"
| "coupons_handler (OpenEdit i) s = (case row_at i s of Some row \<Rightarrow> openForm (Some row) | None \<Rightarrow> Done)"
| "coupons_handler CloseForm s = (if cp_saving s then Done else Set (cp_formOpen_update (\<lambda>_. False)) Done)"
| "coupons_handler (SetCouponField f) s = (if cp_formOpen s then Set (cp_form_update (setField f)) Done else Done)"
| "coupons_handler SubmitCoupon s = (if cp_formOpen s \<and> \<not> cp_saving s then submitForm s else Done)"
| "coupons_handler (OpenDetail i) s = (case row_at i s of Some row \<Rightarrow> openDetail row | None \<Rightarrow> Done)"
| "coupons_handler CloseDetail s = Set (cp_detailOpenId_update (\<lambda>_. None)) Done"
| "coupons_handler (AskDelete i) s =
     (case row_at i s of Some row \<Rightarrow> Set (cp_deleteTarget_update (\<lambda>_. Some row)) Done | None \<Rightarrow> Done)"
| "coupons_handler CancelDelete s = (if cp_deleting s then Done else Set (cp_deleteTarget_update (\<lambda>_. None)) Done)"
| "coupons_handler ConfirmDelete s = (if cp_deleting s then Done else confirmDelete s)"
| "coupons_handler AskBulk s =
     (if BulkActionBar (length (cp_selected s)) (cp_bulkBusy s) = Some True
      then Set (cp_bulkConfirm_update (\<lambda>_. True)) Done else Done)"
| "coupons_handler (CloseBulk open') s = Set (cp_bulkConfirm_update (\<lambda>_. open')) Done"
| "coupons_handler ConfirmBulk s = (if cp_bulkConfirm s \<and> \<not> cp_bulkBusy s then bulkDelete s else Done)"

definition fresh_coupons :: coupons_page where
  "fresh_coupons = \<lparr>toasts = [], pl_page = 1, pl_rows = [], pl_meta = None, pl_loading = True, pl_error = None, pl_run = 0,
     pl_due = True, cp_formOpen = False, cp_editing = None, cp_form = EMPTY_FORM, cp_formError = None, cp_saving = False,
     cp_deleteTarget = None, cp_deleting = False, cp_detailOpenId = None, cp_detailCoupon = None, cp_redemptions = None,
     cp_detailError = None, cp_selected = [], cp_bulkConfirm = False, cp_bulkBusy = False\<rparr>"

subsection \<open>What is sent\<close>

definition form_typed :: "coupon_form \<Rightarrow> bool" where
  "form_typed f \<longleftrightarrow> cf_discount_type f \<in> {''fixed'', ''percent''}
     \<and> cf_duration_unit f \<in> {''days'', ''weeks'', ''months'', ''years''}"

definition page_typed :: "coupons_page \<Rightarrow> bool" where
  "page_typed s \<longleftrightarrow> form_typed (cp_form s) \<and> 1 \<le> pl_page s \<and> distinct (cp_selected s)"

definition discount_ok :: "json \<Rightarrow> bool" where
  "discount_ok j \<longleftrightarrow>
     (\<exists>v. prop_of j ''discount_value'' = Some v
        \<and> (prop_of j ''discount_type'' = Some (JStr ''percent'') \<and> (\<exists>q. v = JNum q \<and> 0 < q \<and> q \<le> 100)
           \<or> prop_of j ''discount_type'' = Some (JStr ''fixed'') \<and> (v = JNull \<or> (\<exists>q. v = JNum q \<and> 0 < q))))"

definition optional_text :: "string \<Rightarrow> json \<Rightarrow> (string \<Rightarrow> bool) \<Rightarrow> bool" where
  "optional_text k j P = (case prop_of j k of None \<Rightarrow> True | Some (JStr t) \<Rightarrow> P t | _ \<Rightarrow> False)"

definition optional_number :: "string \<Rightarrow> json \<Rightarrow> (rat \<Rightarrow> bool) \<Rightarrow> bool" where
  "optional_number k j P = (case prop_of j k of None \<Rightarrow> True | Some JNull \<Rightarrow> True | Some (JNum q) \<Rightarrow> P q | _ \<Rightarrow> False)"

definition coupon_ok :: "json \<Rightarrow> bool" where
  "coupon_ok j \<longleftrightarrow>
     (\<exists>code. prop_of j ''code'' = Some (JStr code) \<and> code \<noteq> [])
     \<and> discount_ok j
     \<and> optional_text ''currency'' j (\<lambda>c. js_length c = 3)
     \<and> optional_number ''max_discount'' j (\<lambda>q. 0 \<le> q)
     \<and> optional_number ''duration_value'' j (\<lambda>q. 0 < q)
     \<and> optional_text ''duration_unit'' j (\<lambda>u. u \<in> {''days'', ''weeks'', ''months'', ''years''})"

definition coupon_call :: "api_call \<Rightarrow> bool" where
  "coupon_call c \<longleftrightarrow> (ac_method c = ''POST'' \<longrightarrow> ac_path c = ''/admin/coupons'' \<and> (\<exists>j. ac_body c = Some j \<and> coupon_ok j))"

lemma coupon_body_fields:
  "prop_of (coupon_body f) ''code'' = Some (JStr (coupon_code f))"
  "prop_of (coupon_body f) ''discount_type'' = Some (JStr (cf_discount_type f))"
  "prop_of (coupon_body f) ''discount_value'' = Some (js_num_json (js_Number (cf_discount_value f)))"
  "prop_of (coupon_body f) ''currency'' = (if coupon_currency f = [] then None else Some (JStr (coupon_currency f)))"
  "prop_of (coupon_body f) ''max_discount'' = map_option js_num_json (optionalNumber (cf_max_discount f))"
  "prop_of (coupon_body f) ''duration_value''
     = (if cf_use_duration f then map_option js_num_json (optionalNumber (cf_duration_value f)) else None)"
  "prop_of (coupon_body f) ''duration_unit''
     = (if cf_use_duration f \<and> optionalNumber (cf_duration_value f) \<noteq> None then Some (JStr (cf_duration_unit f)) else None)"
  by (simp_all add: coupon_body_def opt_field_def split: option.splits)

lemma problem_free:
  assumes "coupon_problem f = None"
  shows "coupon_code f \<noteq> []" and "num_greater (js_Number (cf_discount_value f)) 0"
    and "cf_discount_type f = ''percent'' \<Longrightarrow> \<not> num_greater (js_Number (cf_discount_value f)) 100"
    and "coupon_currency f \<noteq> [] \<Longrightarrow> js_length (coupon_currency f) = 3"
    and "optionalNumber (cf_max_discount f) = Some n \<Longrightarrow> \<not> num_negative n"
    and "cf_use_duration f \<Longrightarrow> optionalNumber (cf_duration_value f) = Some n \<Longrightarrow> num_greater n 0"
  using assms by (auto simp: coupon_problem_def split: if_splits)

lemma discount_accepted:
  assumes "coupon_problem f = None" and "form_typed f"
  shows "discount_ok (coupon_body f)"
  using problem_free(2,3) [OF assms(1)] assms(2)
  by (cases "js_Number (cf_discount_value f)")
    (auto simp: discount_ok_def coupon_body_fields form_typed_def num_greater_def js_num_json_def)

lemma coupon_body_ok:
  assumes "coupon_problem f = None" and "form_typed f"
  shows "coupon_ok (coupon_body f)"
proof -
  note free = problem_free [OF assms(1)]
  have "optional_number ''max_discount'' (coupon_body f) (\<lambda>q. 0 \<le> q)"
    using free(5) by (auto simp: optional_number_def coupon_body_fields num_negative_def js_num_json_def
        split: option.splits js_num.splits)
  moreover have "optional_number ''duration_value'' (coupon_body f) (\<lambda>q. 0 < q)"
    using free(6) by (auto simp: optional_number_def coupon_body_fields num_greater_def js_num_json_def
        split: option.splits js_num.splits)
  moreover have "optional_text ''currency'' (coupon_body f) (\<lambda>c. js_length c = 3)"
    using free(4) by (simp add: optional_text_def coupon_body_fields)
  moreover have "optional_text ''duration_unit'' (coupon_body f) (\<lambda>u. u \<in> {''days'', ''weeks'', ''months'', ''years''})"
    using assms(2) by (simp add: optional_text_def coupon_body_fields form_typed_def)
  moreover have "\<exists>code. prop_of (coupon_body f) ''code'' = Some (JStr code) \<and> code \<noteq> []"
    using free(1) by (simp add: coupon_body_fields)
  ultimately show ?thesis unfolding coupon_ok_def using discount_accepted [OF assms] by blast
qed

lemma setField_typed: "form_typed f \<Longrightarrow> form_typed (setField x f)"
  by (cases "(x, f)" rule: setField.cases)
    (auto simp: form_typed_def pick_def less_Suc_eq_0_disj numeral_eq_Suc nth_Cons')

lemma openForm_typed: "form_typed (formFromCoupon c)" "form_typed EMPTY_FORM"
  by (auto simp: form_typed_def formFromCoupon_def EMPTY_FORM_def)

lemma paged_effect_ok:
  assumes "\<And>g x. I (pl_rows_update g x) = I x" "\<And>g x. I (pl_meta_update g x) = I x"
    "\<And>g x. I (pl_loading_update g x) = I x" "\<And>g x. I (pl_error_update g x) = I x" "\<And>g x. I (pl_due_update g x) = I x"
    "\<And>o'. allowed (api_get path o')"
  shows "script_ok I allowed (paged_effect path query perPage s)"
  using assms by (auto simp: paged_effect_def in_list_run_def intro!: script_intros)

lemma typed_updates [simp]:
  "page_typed (pl_rows_update g s) = page_typed s" "page_typed (pl_meta_update g1 s) = page_typed s"
  "page_typed (pl_loading_update g2 s) = page_typed s" "page_typed (pl_error_update g3 s) = page_typed s"
  "page_typed (pl_due_update g4 s) = page_typed s" "page_typed (rerun s) = page_typed s"
  "page_typed (toast_success m s) = page_typed s" "page_typed (toast_error m s) = page_typed s"
  "page_typed (cp_formOpen_update h s) = page_typed s" "page_typed (cp_formError_update h1 s) = page_typed s"
  "page_typed (cp_saving_update h2 s) = page_typed s" "page_typed (cp_deleteTarget_update h3 s) = page_typed s"
  "page_typed (cp_deleting_update h4 s) = page_typed s" "page_typed (cp_detailCoupon_update h5 s) = page_typed s"
  "page_typed (cp_redemptions_update h6 s) = page_typed s" "page_typed (cp_detailError_update h7 s) = page_typed s"
  "page_typed (cp_detailOpenId_update h8 s) = page_typed s" "page_typed (cp_bulkConfirm_update h9 s) = page_typed s"
  "page_typed (cp_bulkBusy_update h10 s) = page_typed s"
  by (simp_all add: page_typed_def rerun_def toast_success_def toast_error_def)

lemma typed_selection:
  "distinct S \<Longrightarrow> distinct (toggleRow k b S)" "distinct S \<Longrightarrow> distinct (toggleAll g rows b S)"
  using row_keys.fold_add [of S] row_keys.fold_delete [of S]
  by (auto simp: toggleRow_def toggleAll_def row_keys.ok_add row_keys.ok_delete)

interpretation coupons_contract: page_contract perform_api coupons_handler page_typed coupon_call
proof
  fix u s assume s: "page_typed s"
  have calls: "coupon_call (api_get p o')" "coupon_call (api_delete p o')" for p o'
    by (simp_all add: coupon_call_def api_call_defs)
  show "script_ok page_typed coupon_call (coupons_handler u s)"
  proof (cases u)
    case ListEffect
    then show ?thesis by (simp add: paged_effect_ok calls)
  next
    case SubmitCoupon
    have "coupon_call (api_post ''/admin/coupons'' (Some (coupon_body (cp_form s))) no_options)"
      if "coupon_problem (cp_form s) = None"
      using coupon_body_ok [OF that] s by (simp add: coupon_call_def api_call_defs page_typed_def)
    with SubmitCoupon show ?thesis by (auto simp: submitForm_def split: option.splits intro!: script_intros)
  next
    case (OpenDetail i)
    then show ?thesis by (auto simp: openDetail_def page_typed_def calls split: option.splits intro!: script_intros)
  next
    case ConfirmDelete
    then show ?thesis by (auto simp: confirmDelete_def calls split: option.splits intro!: script_intros)
  next
    case ConfirmBulk
    then show ?thesis
      by (auto simp: bulkDelete_def Let_def calls list_all_iff page_typed_def toast_success_def toast_error_def rerun_def intro!: script_intros)
  qed (use s in \<open>auto simp: page_typed_def setPage_def rerun_def openForm_def openForm_typed setField_typed typed_selection
      pager_previous_def split: option.splits\<close>)
qed

lemmas coupon_scripts = paged_effect_def openForm_def openDetail_def submitForm_def confirmDelete_def bulkDelete_def
  in_list_run_def setPage_def rerun_def toast_success_def toast_error_def Let_def

interpretation coupons_saving: page_flag perform_api coupons_handler cp_saving
proof
  fix u s
  show "ends_low cp_saving (coupons_handler u s) True"
    by (cases u) (auto simp: coupon_scripts split: option.splits intro!: script_intros)
qed

interpretation coupons_deleting: page_flag perform_api coupons_handler cp_deleting
proof
  fix u s
  show "ends_low cp_deleting (coupons_handler u s) True"
    by (cases u) (auto simp: coupon_scripts split: option.splits intro!: script_intros)
qed

interpretation coupons_bulk: page_flag perform_api coupons_handler cp_bulkBusy
proof
  fix u s
  show "ends_low cp_bulkBusy (coupons_handler u s) True"
    by (cases u) (auto simp: coupon_scripts split: option.splits intro!: script_intros)
qed

text \<open>
  C33: the coupon page stays well typed. Whatever is clicked and typed and however the answers arrive,
  the discount type and the duration unit of the form are always one of the values their declared unions
  allow (the values the backend knows), the page number is at least one, and no row key is selected twice.
\<close>

theorem coupon_page_typed:
  "page_typed (pg_state (run_page perform_api coupons_handler es (open_page fresh_coupons b)))"
  by (rule coupons_contract.runs_keep) (simp add: page_typed_def fresh_coupons_def openForm_typed)

text \<open>
  Every coupon the page saves is acceptable: it has a code; a percentage is a number above 0 and at
  most 100, a fixed amount is above 0; a currency has three letters; a maximal discount is not negative;
  a duration is positive and in days, weeks, months or years. A number typed as \<open>Infinity\<close> travels
  as \<open>null\<close>.
\<close>

theorem coupon_requests_valid:
  "list_all coupon_call (pg_calls (run_page perform_api coupons_handler es (open_page fresh_coupons b)))"
  by (rule coupons_contract.runs_call) (simp add: page_typed_def fresh_coupons_def openForm_typed)

subsection \<open>A selection that spans pages\<close>

text \<open>
  The selection survives a change of the page, and the dialog announces all selected coupons; what is
  deleted are the selected rows of the page shown. With a key of another page among them the dialog
  announces more coupons than the confirmation deletes, and the whole selection is cleared afterwards.
\<close>

lemma page_change_keeps_selection:
  "u \<in> {PreviousPage, NextPage, ListEffect} \<Longrightarrow> cp_selected (lead_state (coupons_handler u s) s) = cp_selected s"
  by (auto simp: setPage_def rerun_def paged_effect_def await_def)

lemma lead_calls_bulk:
  assumes "cp_bulkConfirm s" and "\<not> cp_bulkBusy s"
  shows "lead_calls (coupons_handler ConfirmBulk s)
     = map (\<lambda>row. api_delete (coupon_path row) no_options) (resolve (\<lambda>row index. coupon_id row) (cp_selected s) (pl_rows s))"
  using assms by (auto simp: bulkDelete_def with_flag_def await_all_def Let_def)

lemma resolve_ids:
  assumes "distinct (map coupon_id rows)"
  shows "length (resolve (\<lambda>row index. coupon_id row) S rows) = card (coupon_id ` set rows \<inter> set S)"
proof -
  have "resolve (\<lambda>row index. coupon_id row) S rows = filter (\<lambda>row. coupon_id row \<in> set S) rows"
    by (simp add: resolve_def filter_map o_def set_has_def case_prod_unfold)
      (metis (no_types, lifting) comp_apply filter_cong filter_map map_snd_enumerate)
  moreover have "length (filter (\<lambda>row. coupon_id row \<in> set S) rows) = card (set (map coupon_id (filter (\<lambda>row. coupon_id row \<in> set S) rows)))"
    using distinct_card [OF distinct_map_filter [OF assms]] by simp
  moreover have "set (map coupon_id (filter (\<lambda>row. coupon_id row \<in> set S) rows)) = coupon_id ` set rows \<inter> set S" by auto
  ultimately show ?thesis by simp
qed

lemma bulk_dialog_overcounts:
  assumes "cp_bulkConfirm s" and "\<not> cp_bulkBusy s" and "distinct (cp_selected s)"
    and "distinct (map coupon_id (pl_rows s))" and "k \<in> set (cp_selected s)" and "k \<notin> coupon_id ` set (pl_rows s)"
  shows "length (lead_calls (coupons_handler ConfirmBulk s)) < length (cp_selected s)"
proof -
  have "length (lead_calls (coupons_handler ConfirmBulk s)) = card (coupon_id ` set (pl_rows s) \<inter> set (cp_selected s))"
    using lead_calls_bulk [OF assms(1,2)] resolve_ids [OF assms(4)] by simp
  also have "\<dots> < card (set (cp_selected s))" using assms(5,6) by (intro psubset_card_mono) auto
  also have "\<dots> = length (cp_selected s)" using assms(3) by (rule distinct_card)
  finally show ?thesis .
qed

end
