(* ===== verification/Wallet_Topup.thy ===== *)
theory Wallet_Topup
  imports Customer_Org Js_Number
begin

text \<open>
  The top-up page of the customer console (\<open>pages/Topup.tsx\<close>): an amount, a payment order, and a watch
  that polls the balance every five seconds until it rises above the balance the page knew when the order
  was made, or five minutes have passed. The interval of the watch is \<open>tp_elapsed\<close>, present while it
  runs; the effects on \<open>pending\<close> and \<open>balance\<close> run whenever these are set.
\<close>

subsection \<open>State and effects\<close>

record topup = ui +
  tp_balance :: "json option"
  tp_loading :: bool
  tp_error :: "js_error option"
  tp_amount :: string
  tp_method :: string
  tp_creating :: bool
  tp_pending :: "json option"
  tp_balanceAtTopup :: rat
  tp_elapsed :: "nat option"

definition METHODS :: "string list" where
  "METHODS = [''qris'']"

definition known_balance :: "topup \<Rightarrow> rat" where
  "known_balance s = (case opt_prop (tp_balance s) ''balance'' of Some (JNum q) \<Rightarrow> q | _ \<Rightarrow> 0)"

definition topup_currency :: "topup \<Rightarrow> json" where
  "topup_currency s = coalesce (opt_prop (tp_balance s) ''currency'') (JStr ''IDR'')"

definition presets :: "topup \<Rightarrow> string list" where
  "presets s = (if topup_currency s = JStr ''IDR'' then [''50000'', ''100000'', ''500000'', ''1000000'']
                else [''10'', ''25'', ''50'', ''100''])"

definition awaiting :: "topup \<Rightarrow> bool" where
  "awaiting s \<longleftrightarrow> opt_prop (tp_pending s) ''status'' = Some (JStr ''pending'')"

text \<open>The effect that starts and stops the interval.\<close>

definition watch :: "topup \<Rightarrow> topup" where
  "watch s = s\<lparr>tp_elapsed := if awaiting s then Some 0 else None\<rparr>"

text \<open>The effect that notices the credit.\<close>

definition credit :: "topup \<Rightarrow> topup" where
  "credit s =
     (if awaiting s \<and> known_balance s > tp_balanceAtTopup s
      then toast_success ''Top-up credited to your wallet'' (watch (s\<lparr>tp_pending := None\<rparr>)) else s)"

definition set_balance :: "json \<Rightarrow> topup \<Rightarrow> topup" where
  "set_balance data s = credit (s\<lparr>tp_balance := non_null data\<rparr>)"

definition set_pending :: "json option \<Rightarrow> topup \<Rightarrow> topup" where
  "set_pending p s = credit (watch (s\<lparr>tp_pending := p\<rparr>))"

fun timed_out :: "json \<Rightarrow> json" where
  "timed_out (JObj kvs) = JObj (AList.update ''status'' (JStr ''timeout'') kvs)"
| "timed_out v = v"

definition time_out :: "topup \<Rightarrow> topup" where
  "time_out s = (case tp_pending s of Some p \<Rightarrow> set_pending (Some (timed_out p)) s | None \<Rightarrow> s\<lparr>tp_elapsed := None\<rparr>)"

subsection \<open>Handlers\<close>

definition loadBalance :: "string \<Rightarrow> bool \<Rightarrow> topup api_script" where
  "loadBalance orgId showLoading =
     (if orgId = [] then Done
      else finally_set
        (try_catch
          (await (api_get ''/wallet'' (org_opts orgId)) (\<lambda>e. Set (set_balance (env_data e)) Done))
          (\<lambda>cause. Set (tp_error_update (\<lambda>_. Some cause)) Done))
        (if showLoading then tp_loading_update (\<lambda>_. False) else (\<lambda>s. s)))"

text \<open>The callback of the interval; its counter is dropped with the interval.\<close>

definition poll_tick :: "string \<Rightarrow> topup \<Rightarrow> topup api_script" where
  "poll_tick orgId s =
     (case tp_elapsed s of
        None \<Rightarrow> Done
      | Some e \<Rightarrow>
          if e + 5 \<ge> 300 then Fork (loadBalance orgId False) (Set time_out Done)
          else Set (tp_elapsed_update (\<lambda>_. Some (e + 5))) (Fork (loadBalance orgId False) Done))"

text \<open>\<open>replace\<close> of the first occurrence of a text.\<close>

fun replace_first :: "string \<Rightarrow> string \<Rightarrow> string \<Rightarrow> string" where
  "replace_first old new [] = (if old = [] then new else [])"
| "replace_first old new (c # s) =
     (if startsWith (c # s) old then new @ drop (length old) (c # s) else c # replace_first old new s)"

definition normalizeCheckoutUrl :: "string \<Rightarrow> string" where
  "normalizeCheckoutUrl url =
     replace_first ''http://payment.kilat-cloud.com'' ''https://pay.sumopod.com''
       (replace_first ''https://payment.kilat-cloud.com'' ''https://pay.sumopod.com''
         (replace_first ''https://payment.kilat-cloud.com/topup/'' ''https://pay.sumopod.com/pay/'' url))"

definition createTopup :: "string \<Rightarrow> topup \<Rightarrow> topup api_script" where
  "createTopup orgId s =
     (case js_Number (tp_amount s) of
        Fin v \<Rightarrow>
          if v \<le> 0 then Set (toast_error ''Enter an amount greater than zero'') Done
          else with_flag tp_creating_update
            (try_catch
              (await (api_post ''/wallet/topup''
                        (Some (JObj [(''amount'', JNum v), (''currency'', topup_currency s), (''method'', JStr (tp_method s))]))
                        (org_opts orgId))
                (\<lambda>e. Set (toast_success (''Top-up order created '' @ em_dash @ '' complete the payment at the checkout URL''))
                    (Set (tp_balanceAtTopup_update (\<lambda>_. known_balance s)) (Set (set_pending (non_null (env_data e))) Done))))
              (\<lambda>cause. Set (toast_error (api_message ''Failed to create top-up'' cause)) Done))
      | _ \<Rightarrow> Set (toast_error ''Enter an amount greater than zero'') Done)"

datatype topup_event = LoadBalance | TypeAmount string | PickPreset nat | PickMethod nat | CreateTopup | PollTick

definition form_shown :: "topup \<Rightarrow> bool" where
  "form_shown s \<longleftrightarrow> \<not> (tp_loading s \<and> tp_balance s = None)"

fun topup_handler :: "string \<Rightarrow> topup_event \<Rightarrow> topup \<Rightarrow> topup api_script" where
  "topup_handler orgId LoadBalance s = loadBalance orgId True"
| "topup_handler orgId (TypeAmount t) s = (if form_shown s then Set (tp_amount_update (\<lambda>_. t)) Done else Done)"
| "topup_handler orgId (PickPreset i) s =
     (if form_shown s \<and> i < length (presets s) then Set (tp_amount_update (\<lambda>_. presets s ! i)) Done else Done)"
| "topup_handler orgId (PickMethod i) s =
     (if form_shown s \<and> i < length METHODS then Set (tp_method_update (\<lambda>_. METHODS ! i)) Done else Done)"
| "topup_handler orgId CreateTopup s =
     (if form_shown s \<and> \<not> tp_creating s \<and> trim (tp_amount s) \<noteq> [] then createTopup orgId s else Done)"
| "topup_handler orgId PollTick s = poll_tick orgId s"

definition fresh_topup :: topup where
  "fresh_topup = \<lparr>toasts = [], tp_balance = None, tp_loading = True, tp_error = None, tp_amount = [], tp_method = ''qris'',
     tp_creating = False, tp_pending = None, tp_balanceAtTopup = 0, tp_elapsed = None\<rparr>"

subsection \<open>The watch\<close>

definition watching :: "topup \<Rightarrow> bool" where
  "watching s \<longleftrightarrow> (awaiting s \<longleftrightarrow> tp_elapsed s \<noteq> None) \<and> (\<forall>e. tp_elapsed s = Some e \<longrightarrow> e < 300 \<and> 5 dvd e)
     \<and> tp_method s \<in> set METHODS"

definition topup_call :: "api_call \<Rightarrow> bool" where
  "topup_call c \<longleftrightarrow> (ac_method c = ''POST'' \<longrightarrow> ac_path c = ''/wallet/topup''
     \<and> (\<exists>q cur. ac_body c = Some (JObj [(''amount'', JNum q), (''currency'', cur), (''method'', JStr ''qris'')]) \<and> 0 < q))"

lemma awaiting_updates [simp]:
  "awaiting (tp_elapsed_update f s) = awaiting s" "awaiting (tp_balance_update f1 s) = awaiting s"
  "awaiting (toasts_update f2 s) = awaiting s" "\<not> awaiting (s\<lparr>tp_pending := None\<rparr>)"
  by (simp_all add: awaiting_def opt_prop_def)

lemma watch_watching: "tp_method s \<in> set METHODS \<Longrightarrow> watching (watch s)"
  by (simp add: watching_def watch_def)

lemma credit_watching: "watching s \<Longrightarrow> watching (credit s)"
  by (auto simp: credit_def watching_def watch_def toast_success_def)

lemma setters_watching:
  assumes "watching s"
  shows "watching (set_balance d s)" and "watching (set_pending p s)"
proof -
  have "watching (s\<lparr>tp_balance := non_null d\<rparr>)" using assms by (simp add: watching_def)
  then show "watching (set_balance d s)" unfolding set_balance_def by (rule credit_watching)
  have "watching (watch (s\<lparr>tp_pending := p\<rparr>))" using assms by (intro watch_watching) (simp add: watching_def)
  then show "watching (set_pending p s)" unfolding set_pending_def by (rule credit_watching)
qed

lemma time_out_watching: "watching s \<Longrightarrow> watching (time_out s)"
  by (auto simp: time_out_def setters_watching split: option.splits) (simp add: watching_def awaiting_def opt_prop_def)

lemma watching_updates [simp]:
  "watching (tp_error_update f s) = watching s" "watching (tp_loading_update f1 s) = watching s"
  "watching (tp_amount_update f2 s) = watching s" "watching (tp_creating_update f3 s) = watching s"
  "watching (tp_balanceAtTopup_update f4 s) = watching s" "watching (toast_success m s) = watching s"
  "watching (toast_error m s) = watching s"
  by (simp_all add: watching_def awaiting_def toast_success_def toast_error_def)

lemma loadBalance_ok: "script_ok watching topup_call (loadBalance orgId b)"
  by (auto simp: loadBalance_def setters_watching topup_call_def api_call_defs intro!: script_intros)

interpretation topup_page: page_machine perform_api "topup_handler orgId" watching topup_call for orgId
proof
  fix s u assume s: "watching s"
  show "script_ok_at watching topup_call (topup_handler orgId u s) s"
  proof (cases u)
    case LoadBalance
    with s loadBalance_ok show ?thesis by (simp add: script_ok_imp_at)
  next
    case CreateTopup
    have "tp_method s = ''qris''" using s by (simp add: watching_def METHODS_def)
    then have "script_ok watching topup_call (createTopup orgId s)"
      by (auto simp: createTopup_def setters_watching topup_call_def api_call_defs split: js_num.splits intro!: script_intros)
    with CreateTopup s show ?thesis by (simp add: script_ok_imp_at)
  next
    case PollTick
    have "watching (s\<lparr>tp_elapsed := Some (e + 5)\<rparr>)" if "tp_elapsed s = Some e" "e + 5 < 300" for e
      using s that by (auto simp: watching_def)
    with PollTick show ?thesis by (auto simp: poll_tick_def time_out_watching loadBalance_ok split: option.splits)
  qed (use s in \<open>auto simp: watching_def awaiting_def\<close>)
qed

interpretation topup_creating: page_flag perform_api "topup_handler orgId" tp_creating for orgId
proof
  fix u s
  have keeps: "tp_creating (set_balance d x) = tp_creating x" "tp_creating (set_pending p x) = tp_creating x"
    "tp_creating (time_out x) = tp_creating x" for d p x
    by (simp_all add: set_balance_def set_pending_def credit_def watch_def time_out_def toast_success_def split: option.splits)
  show "ends_low tp_creating (topup_handler orgId u s) True"
    by (cases u) (auto simp: loadBalance_def createTopup_def poll_tick_def keeps toast_success_def toast_error_def
      split: option.splits js_num.splits intro!: script_intros)
qed

text \<open>
  C23: the top-up page watches exactly while an order is pending. In every run, with the answers in any
  order, the polling interval runs if and only if there is an order whose status is \<open>pending\<close>, it has
  run for less than 300 seconds in steps of 5 (so there are at most 60 polls), and every order sent asks
  for a finite amount above zero by an offered method.
\<close>

theorem topup_watched:
  "watching (pg_state (run_page perform_api (topup_handler orgId) es (open_page fresh_topup b)))
   \<and> list_all topup_call (pg_calls (run_page perform_api (topup_handler orgId) es (open_page fresh_topup b)))"
proof -
  have "watching fresh_topup" by (simp add: watching_def fresh_topup_def awaiting_def opt_prop_def METHODS_def)
  then show ?thesis using topup_page.runs_keep topup_page.runs_call by blast
qed

text \<open>
  The reference balance is the one on the page when the order is made, and zero when it could not be
  loaded: the first successful poll then reports a credit that has not happened.
\<close>

lemma unknown_balance_credited:
  assumes "tp_balance s = None" and "opt_prop (Some p) ''status'' = Some (JStr ''pending'')"
    and "prop_of w ''balance'' = Some (JNum q)" and "0 < q"
  shows "let s1 = set_pending (Some p) (s\<lparr>tp_balanceAtTopup := known_balance s\<rparr>); s2 = set_balance w s1
         in awaiting s1 \<and> \<not> awaiting s2 \<and> Success ''Top-up credited to your wallet'' \<in> set (toasts s2)"
proof -
  have w: "w \<noteq> JNull" using assms(3) by auto
  define s1 where "s1 = set_pending (Some p) (s\<lparr>tp_balanceAtTopup := known_balance s\<rparr>)"
  have "known_balance s = 0" using assms(1) by (simp add: known_balance_def opt_prop_def)
  then have e: "s1 = watch (s\<lparr>tp_balanceAtTopup := 0, tp_pending := Some p\<rparr>)"
    using assms(1) by (simp add: s1_def set_pending_def credit_def watch_def known_balance_def opt_prop_def)
  then have b: "tp_balanceAtTopup s1 = 0" by (simp add: watch_def)
  have a: "awaiting s1" using assms(2) unfolding e by (simp add: watch_def awaiting_def)
  then have "set_balance w s1 = toast_success ''Top-up credited to your wallet''
      (watch (s1\<lparr>tp_balance := Some w, tp_pending := None\<rparr>))"
    using assms(3,4) w b by (simp add: set_balance_def credit_def known_balance_def opt_prop_def non_null_def)
  with a show ?thesis unfolding s1_def [symmetric]
    by (simp add: toast_success_def watch_def awaiting_def opt_prop_def)
qed

end
