(* ===== verification/Relay_Kit.thy ===== *)
theory Relay_Kit
  imports Page_Kit Dokploy_Upstream
begin

text \<open>
  Scripts over the relay client \<open>dokploy\<close> of \<open>dokploy/app/shared.ts\<close>, for the pages of the Dokploy
  section. A call is what the function is given; an answer is the parsed body (\<open>None\<close> is
  \<open>undefined\<close>) or what it throws.
\<close>

record app_call =
  rc_method :: app_method
  rc_op :: string
  rc_body :: "json option"
  rc_query :: "query_value js_record option"

type_synonym app_result = "app_failure + json option"
type_synonym 's app_script = "('s, app_call, app_result, app_failure) script"

definition perform_relay :: "string \<Rightarrow> app_call \<Rightarrow> browser \<Rightarrow> app_result \<times> browser" where
  "perform_relay origin c = dokploy origin (rc_method c) (rc_op c) (rc_body c) (rc_query c)"

definition relay_post :: "string \<Rightarrow> json js_record \<Rightarrow> app_call" where
  "relay_post opPath body = \<lparr>rc_method = AppPOST, rc_op = opPath, rc_body = Some (JObj body), rc_query = None\<rparr>"

definition relay_get :: "string \<Rightarrow> query_value js_record \<Rightarrow> app_call" where
  "relay_get opPath q = \<lparr>rc_method = AppGET, rc_op = opPath, rc_body = None, rc_query = Some q\<rparr>"

lemmas relay_call_defs = relay_post_def relay_get_def

text \<open>\<open>String(value)\<close> with nothing for the absent values.\<close>

definition str :: "json option \<Rightarrow> string" where
  "str v = (case v of None \<Rightarrow> [] | Some JNull \<Rightarrow> [] | Some x \<Rightarrow> js_String x)"

definition col :: "json \<Rightarrow> string \<Rightarrow> string" where
  "col row k = str (prop_of row k)"

lemma str_simps [simp]: "str None = []" "str (Some JNull) = []" "str (Some (JStr s)) = s"
  by (simp_all add: str_def)

text \<open>\<open>a || b\<close> on texts.\<close>

definition or_text :: "string \<Rightarrow> string \<Rightarrow> string" where
  "or_text a b = (if a = [] then b else a)"

text \<open>\<open>runMutation\<close>: one call, one toast, and the continuation with its success. It never throws.\<close>

definition runMutation :: "app_call \<Rightarrow> string \<Rightarrow> (bool \<Rightarrow> ('s ui_scheme) app_script) \<Rightarrow> ('s ui_scheme) app_script" where
  "runMutation c msg k =
     Await [c] (\<lambda>rs n. case hd rs of
       Inr _ \<Rightarrow> Set (toast_success msg) (k True)
     | Inl cause \<Rightarrow> Set (toast_error (toErrorMessage cause)) (k False))"

lemma script_ok_mutation [script_intros]:
  assumes "allowed c" and "\<And>m x. I x \<Longrightarrow> I (toast_success m x)" and "\<And>m x. I x \<Longrightarrow> I (toast_error m x)"
    and "\<And>ok. script_ok I allowed (k ok)"
  shows "script_ok I allowed (runMutation c msg k)"
  using assms by (simp add: runMutation_def split: sum.splits)

text \<open>\<open>setBusy(true); const ok = await runMutation(...); setBusy(false); ...\<close>: the flag is lowered
  right after the answer, whatever it is.\<close>

lemma ends_low_mutation [script_intros]:
  assumes "\<And>m x. busy (toast_success m x) = busy x" and "\<And>m x. busy (toast_error m x) = busy x"
    and "\<And>ok. ends_low busy (k ok) low"
  shows "ends_low busy (runMutation c msg k) low"
proof -
  have "ends_low busy (k ok) ((\<forall>x. \<not> busy x) \<or> low)" for ok by (rule ends_low_mono [OF assms(3)]) simp
  with assms(1,2) show ?thesis by (auto simp: runMutation_def split: sum.splits)
qed

lemma calls_once_mutation [script_intros]:
  "(\<And>ok. script_ok (\<lambda>_. True) (\<lambda>_. False) (k ok)) \<Longrightarrow> calls_once (runMutation c msg k)"
  by (simp add: runMutation_def split: sum.splits)

lemma lead_mutation [simp]: "lead_calls (runMutation c msg k) = [c]"
  by (simp add: runMutation_def)

text \<open>Cards that ask their page to load the row again: the number of requests.\<close>

record relay_card = ui +
  sv_reloads :: nat

abbreviation reload :: "'a relay_card_scheme \<Rightarrow> 'a relay_card_scheme" where
  "reload \<equiv> sv_reloads_update Suc"

lemmas toast_defs = toast_success_def toast_error_def

end
