(* ===== verification/Json_Text.thy ===== *)
theory Json_Text
  imports Url_Codec Js_Number
begin

text \<open>
  \<open>JSON.parse\<close> and the indented \<open>JSON.stringify(v, null, 2)\<close>, for the pages that let the user edit
  a request body as text. The parser is recursive descent over the grammar of the language standard,
  with fuel; \<open>parse_fuel\<close> shows that the fuel \<open>JSON_parse\<close> starts with never runs out, and
  \<open>parse_stringify\<close> that printing and parsing give the value back.

  A number is the rational its literal denotes. A later member with the same name replaces the
  earlier one in its place, as assignment to a property does.
\<close>

subsection \<open>Printing with indentation\<close>

definition line_break :: "string \<Rightarrow> string \<Rightarrow> string" where
  "line_break gap indent = (if gap = [] then [] else CHR 0x0A # indent)"

fun stringify_gap :: "string \<Rightarrow> string \<Rightarrow> json \<Rightarrow> string" where
  "stringify_gap gap indent (JArr vs) =
     (if vs = [] then ''[]''
      else ''['' @ line_break gap (indent @ gap)
        @ join ('','' @ line_break gap (indent @ gap)) (map (stringify_gap gap (indent @ gap)) vs)
        @ line_break gap indent @ '']'')"
| "stringify_gap gap indent (JObj kvs) =
     (if kvs = [] then ''{}''
      else ''{'' @ line_break gap (indent @ gap)
        @ join ('','' @ line_break gap (indent @ gap))
            (map (\<lambda>kv. stringify_str (fst kv) @ '':'' @ (if gap = [] then [] else '' '')
                    @ stringify_gap gap (indent @ gap) (snd kv)) kvs)
        @ line_break gap indent @ ''}'')"
| "stringify_gap gap indent v = JSON_stringify v"

lemma stringify_gap_compact: "stringify_gap [] indent v = JSON_stringify v"
  by (induction v arbitrary: indent) (auto simp: line_break_def snds.simps cong: map_cong)

subsection \<open>Strings\<close>

text \<open>The UTF-8 bytes of a code point; a surrogate without its partner keeps three bytes of its own.\<close>

definition utf8_bytes :: "nat \<Rightarrow> string" where
  "utf8_bytes n =
     map char_of
      (if n < 128 then [n]
       else if n < 2048 then [192 + n div 64, 128 + n mod 64]
       else if n < 65536 then [224 + n div 4096, 128 + n div 64 mod 64, 128 + n mod 64]
       else [240 + n div 262144, 128 + n div 4096 mod 64, 128 + n div 64 mod 64, 128 + n mod 64])"

fun hex4 :: "string \<Rightarrow> (nat \<times> string) option" where
  "hex4 (a # b # c # d # s) =
     (case (hex_val a, hex_val b, hex_val c, hex_val d) of
        (Some w, Some x, Some y, Some z) \<Rightarrow> Some (((w * 16 + x) * 16 + y) * 16 + z, s)
      | _ \<Rightarrow> None)"
| "hex4 _ = None"

text \<open>After \<open>\u\<close>: one code unit, or a surrogate pair of two escapes.\<close>

definition unicode_escape :: "string \<Rightarrow> (string \<times> string) option" where
  "unicode_escape s =
     (case hex4 s of
        None \<Rightarrow> None
      | Some (n, t) \<Rightarrow>
          (case t of
             CHR 0x5C # CHR ''u'' # t' \<Rightarrow>
               (case hex4 t' of
                  Some (m, t'') \<Rightarrow>
                    if 55296 \<le> n \<and> n < 56320 \<and> 56320 \<le> m \<and> m < 57344
                    then Some (utf8_bytes (65536 + (n - 55296) * 1024 + (m - 56320)), t'')
                    else Some (utf8_bytes n, t)
                | None \<Rightarrow> Some (utf8_bytes n, t))
           | _ \<Rightarrow> Some (utf8_bytes n, t)))"

definition simple_escape :: "char \<Rightarrow> char option" where
  "simple_escape c =
     map_of [(CHR 0x22, CHR 0x22), (CHR 0x5C, CHR 0x5C), (CHR ''/'', CHR ''/''), (CHR ''b'', CHR 0x08),
             (CHR ''f'', CHR 0x0C), (CHR ''n'', CHR 0x0A), (CHR ''r'', CHR 0x0D), (CHR ''t'', CHR 0x09)] c"

lemma hex4_length: "hex4 s = Some (n, t) \<Longrightarrow> length t < length s"
  by (induction s rule: hex4.induct) (auto split: option.splits)

lemma unicode_escape_length: "unicode_escape s = Some (x, t) \<Longrightarrow> length t < length s"
  by (auto simp: unicode_escape_def dest!: hex4_length split: option.splits list.splits char.splits bool.splits if_splits)

text \<open>After the opening quotation mark.\<close>

function parse_string :: "string \<Rightarrow> (string \<times> string) option" where
  "parse_string [] = None"
| "parse_string (c # s) =
     (if c = CHR 0x22 then Some ([], s)
      else if c = CHR 0x5C then
        (case s of
           [] \<Rightarrow> None
         | e # t \<Rightarrow>
             if e = CHR ''u''
             then (case unicode_escape t of
                     None \<Rightarrow> None
                   | Some (x, t') \<Rightarrow> map_option (\<lambda>(y, r). (x @ y, r)) (parse_string t'))
             else (case simple_escape e of
                     None \<Rightarrow> None
                   | Some x \<Rightarrow> map_option (\<lambda>(y, r). (x # y, r)) (parse_string t)))
      else if (of_char c :: nat) < 32 then None
      else map_option (\<lambda>(y, r). (c # y, r)) (parse_string s))"
  by pat_completeness auto
termination
  by (relation "measure length") (auto dest: unicode_escape_length)

subsection \<open>Numbers\<close>

definition json_ws :: "char \<Rightarrow> bool" where
  "json_ws c \<longleftrightarrow> c \<in> {CHR '' '', CHR 0x09, CHR 0x0A, CHR 0x0D}"

abbreviation skip :: "string \<Rightarrow> string" where
  "skip \<equiv> dropWhile json_ws"

text \<open>The characters a number literal is made of: the longest such prefix is the literal.\<close>

definition number_char :: "char \<Rightarrow> bool" where
  "number_char c \<longleftrightarrow> is_digit c \<or> c \<in> {CHR ''-'', CHR ''+'', CHR ''.'', CHR ''e'', CHR ''E''}"

text \<open>No leading zero before another digit, and digits on both sides of the point.\<close>

definition json_decimal :: "string \<Rightarrow> rat option" where
  "json_decimal s =
     (let i = takeWhile is_digit s; r = dropWhile is_digit s
      in if i = [] \<or> length i > 1 \<and> hd i = CHR ''0'' then None
         else if r \<noteq> [] \<and> hd r = CHR ''.'' \<and> takeWhile is_digit (tl r) = [] then None
         else unsigned_decimal s)"

definition json_number :: "string \<Rightarrow> rat option" where
  "json_number s =
     (case s of
        [] \<Rightarrow> None
      | c # t \<Rightarrow> if c = CHR ''-'' then map_option uminus (json_decimal t) else json_decimal s)"

definition parse_number :: "string \<Rightarrow> (json \<times> string) option" where
  "parse_number s = map_option (\<lambda>q. (JNum q, dropWhile number_char s)) (json_number (takeWhile number_char s))"

subsection \<open>Values\<close>

definition parse_literal :: "string \<Rightarrow> (json \<times> string) option" where
  "parse_literal s =
     (if startsWith s ''null'' then Some (JNull, drop 4 s)
      else if startsWith s ''true'' then Some (JBool True, drop 4 s)
      else if startsWith s ''false'' then Some (JBool False, drop 5 s)
      else parse_number s)"

fun expect :: "char \<Rightarrow> string \<Rightarrow> string option" where
  "expect c [] = None"
| "expect c (d # s) = (if c = d then Some s else None)"

fun parse_value :: "nat \<Rightarrow> string \<Rightarrow> (json \<times> string) option"
  and parse_elements :: "nat \<Rightarrow> string \<Rightarrow> (json list \<times> string) option"
  and parse_members :: "nat \<Rightarrow> json js_record \<Rightarrow> string \<Rightarrow> (json js_record \<times> string) option" where
  "parse_value 0 s = None"
| "parse_value (Suc n) s =
     (case skip s of
        [] \<Rightarrow> None
      | c # t \<Rightarrow>
          if c = CHR 0x22 then map_option (\<lambda>(x, r). (JStr x, r)) (parse_string t)
          else if c = CHR ''['' then
            (case expect CHR '']'' (skip t) of
               Some r \<Rightarrow> Some (JArr [], r)
             | None \<Rightarrow> map_option (\<lambda>(vs, r). (JArr vs, r)) (parse_elements n t))
          else if c = CHR ''{'' then
            (case expect CHR ''}'' (skip t) of
               Some r \<Rightarrow> Some (JObj [], r)
             | None \<Rightarrow> map_option (\<lambda>(kvs, r). (JObj kvs, r)) (parse_members n [] t))
          else parse_literal (c # t))"
| "parse_elements 0 s = None"
| "parse_elements (Suc n) s =
     (case parse_value n s of
        None \<Rightarrow> None
      | Some (v, r) \<Rightarrow>
          (case expect CHR '','' (skip r) of
             Some r' \<Rightarrow> map_option (\<lambda>(vs, u). (v # vs, u)) (parse_elements n r')
           | None \<Rightarrow> map_option (\<lambda>u. ([v], u)) (expect CHR '']'' (skip r))))"
| "parse_members 0 acc s = None"
| "parse_members (Suc n) acc s =
     (case Option.bind (expect CHR 0x22 (skip s)) parse_string of
        None \<Rightarrow> None
      | Some (k, r) \<Rightarrow>
          (case Option.bind (expect CHR '':'' (skip r)) (parse_value n) of
             None \<Rightarrow> None
           | Some (v, r') \<Rightarrow>
               (case expect CHR '','' (skip r') of
                  Some u \<Rightarrow> parse_members n (AList.update k v acc) u
                | None \<Rightarrow> map_option (\<lambda>u. (AList.update k v acc, u)) (expect CHR ''}'' (skip r')))))"

definition JSON_parse :: "string \<Rightarrow> json option" where
  "JSON_parse s =
     (case parse_value (2 * length s) s of
        Some (v, r) \<Rightarrow> if skip r = [] then Some v else None
      | None \<Rightarrow> None)"

subsection \<open>The fuel is enough\<close>

lemma expect_Some: "expect c s = Some t \<longleftrightarrow> s = c # t"
  by (cases s) auto

lemma skip_shorter: "length (skip s) \<le> length s"
  by (rule length_dropWhile_le)

lemma parse_string_length: "parse_string s = Some (x, r) \<Longrightarrow> length r < length s"
proof (induction s arbitrary: x r rule: parse_string.induct)
  case (2 c s)
  then show ?case
    by (fastforce dest: unicode_escape_length split: if_splits list.splits option.splits)
qed simp

lemma json_decimal_nonempty: "json_decimal [] = None"
  by (simp add: json_decimal_def)

lemma parse_literal_length:
  assumes "parse_literal s = Some (v, r)"
  shows "length r < length s"
proof -
  have "length (dropWhile number_char s) < length s" if "takeWhile number_char s \<noteq> []"
    using that length_dropWhile_le [of number_char "tl s"] by (cases s) (auto split: if_splits)
  moreover have "s \<noteq> []" if "startsWith s ''null'' \<or> startsWith s ''true'' \<or> startsWith s ''false''"
    using that by (cases s) auto
  ultimately show ?thesis using assms
    by (fastforce simp: parse_literal_def parse_number_def json_number_def split: if_splits list.splits)
qed

text \<open>
  The grammar as a relation: \<open>value_text s v r\<close> when \<open>s\<close> starts with a text of \<open>v\<close> and \<open>r\<close>
  is what follows.
\<close>

inductive value_text :: "string \<Rightarrow> json \<Rightarrow> string \<Rightarrow> bool"
  and elements_text :: "string \<Rightarrow> json list \<Rightarrow> string \<Rightarrow> bool"
  and members_text :: "json js_record \<Rightarrow> string \<Rightarrow> json js_record \<Rightarrow> string \<Rightarrow> bool" where
  text_string: "skip s = CHR 0x22 # t \<Longrightarrow> parse_string t = Some (x, r) \<Longrightarrow> value_text s (JStr x) r"
| text_literal: "skip s = c # t \<Longrightarrow> c \<noteq> CHR 0x22 \<Longrightarrow> c \<noteq> CHR ''['' \<Longrightarrow> c \<noteq> CHR ''{''
    \<Longrightarrow> parse_literal (c # t) = Some (v, r) \<Longrightarrow> value_text s v r"
| text_no_elements: "skip s = CHR ''['' # t \<Longrightarrow> skip t = CHR '']'' # r \<Longrightarrow> value_text s (JArr []) r"
| text_elements: "skip s = CHR ''['' # t \<Longrightarrow> expect CHR '']'' (skip t) = None \<Longrightarrow> elements_text t vs r
    \<Longrightarrow> value_text s (JArr vs) r"
| text_no_members: "skip s = CHR ''{'' # t \<Longrightarrow> skip t = CHR ''}'' # r \<Longrightarrow> value_text s (JObj []) r"
| text_members: "skip s = CHR ''{'' # t \<Longrightarrow> expect CHR ''}'' (skip t) = None \<Longrightarrow> members_text [] t kvs r
    \<Longrightarrow> value_text s (JObj kvs) r"
| element_last: "value_text s v r \<Longrightarrow> skip r = CHR '']'' # u \<Longrightarrow> elements_text s [v] u"
| element_more: "value_text s v r \<Longrightarrow> skip r = CHR '','' # r' \<Longrightarrow> elements_text r' vs u
    \<Longrightarrow> elements_text s (v # vs) u"
| member_last: "skip s = CHR 0x22 # t \<Longrightarrow> parse_string t = Some (k, r) \<Longrightarrow> skip r = CHR '':'' # r'
    \<Longrightarrow> value_text r' v u \<Longrightarrow> skip u = CHR ''}'' # u' \<Longrightarrow> members_text acc s (AList.update k v acc) u'"
| member_more: "skip s = CHR 0x22 # t \<Longrightarrow> parse_string t = Some (k, r) \<Longrightarrow> skip r = CHR '':'' # r'
    \<Longrightarrow> value_text r' v u \<Longrightarrow> skip u = CHR '','' # u' \<Longrightarrow> members_text (AList.update k v acc) u' kvs w
    \<Longrightarrow> members_text acc s kvs w"

lemma skip_length: "skip s = c # t \<Longrightarrow> length t < length s"
  using skip_shorter [of s] by simp

lemma parse_in_grammar:
  "parse_value n s = Some (v, r) \<Longrightarrow> value_text s v r"
  "parse_elements n s = Some (vs, r) \<Longrightarrow> elements_text s vs r"
  "parse_members n acc s = Some (kvs, r) \<Longrightarrow> members_text acc s kvs r"
proof (induction n s and n s and n acc s arbitrary: v r and vs r and kvs r
    rule: parse_value_parse_elements_parse_members.induct)
  case (2 n s)
  obtain c t where ct: "skip s = c # t" using "2.prems" by (auto split: list.splits)
  note ih = "2.IH"(1) [OF ct] "2.IH"(2) [OF ct]
  show ?case using "2.prems" ct ih
    by (auto simp: expect_Some split: if_splits option.splits
      intro: text_string text_literal text_no_elements text_elements text_no_members text_members)
next
  case (4 n s)
  then show ?case
    by (auto simp: expect_Some split: option.splits) (blast intro: element_last element_more)+
next
  case (6 n acc s)
  obtain t k q q' w u where t: "skip s = CHR 0x22 # t" "parse_string t = Some (k, q)" "skip q = CHR '':'' # q'"
    and w: "parse_value n q' = Some (w, u)"
    using "6.prems" by (auto simp: expect_Some bind_eq_Some_conv split: option.splits)
  have b: "Option.bind (expect CHR 0x22 (skip s)) parse_string = Some (k, q)"
    "Option.bind (expect CHR '':'' (skip q)) (parse_value n) = Some (w, u)" using t w by simp_all
  have v: "value_text q' w u" using "6.IH"(1) [OF b(1) refl, of q'] t w by simp
  show ?case
  proof (cases "expect CHR '','' (skip u)")
    case None
    with "6.prems" b show ?thesis by (auto simp: expect_Some intro: member_last [OF t v])
  next
    case (Some u')
    with "6.prems" b have "members_text (AList.update k w acc) u' kvs r" by (intro "6.IH"(2) [OF b(1) refl b(2) refl Some]) simp
    with Some show ?thesis by (auto simp: expect_Some intro: member_more [OF t v])
  qed
qed simp_all

text \<open>A text of the grammar is parsed with any fuel from twice its length.\<close>

lemma value_fuel:
  assumes "length r < length s" and "\<And>n. 2 * (length s - length r) \<le> Suc n \<Longrightarrow> parse_value (Suc n) s = Some (v, r)"
  shows "length r < length s \<and> (\<forall>m. 2 * (length s - length r) \<le> m \<longrightarrow> parse_value m s = Some (v, r))"
proof (intro conjI allI impI assms(1))
  fix m assume "2 * (length s - length r) \<le> m"
  with assms show "parse_value m s = Some (v, r)" by (cases m) auto
qed

lemma list_fuel:
  assumes "length r < length s" and "\<And>n. 2 * (length s - length r) \<le> n \<Longrightarrow> parse (Suc n) s = Some (x, r)"
  shows "length r < length s \<and> (\<forall>m. 2 * (length s - length r) < m \<longrightarrow> parse m s = Some (x, r))"
proof (intro conjI allI impI assms(1))
  fix m assume "2 * (length s - length r) < m"
  with assms show "parse m s = Some (x, r)" by (cases m) auto
qed

lemma grammar_parses:
  "value_text s v r \<Longrightarrow> length r < length s \<and> (\<forall>m. 2 * (length s - length r) \<le> m \<longrightarrow> parse_value m s = Some (v, r))"
  "elements_text s vs r \<Longrightarrow> length r < length s
     \<and> (\<forall>m. 2 * (length s - length r) < m \<longrightarrow> parse_elements m s = Some (vs, r))"
  "members_text acc s kvs r \<Longrightarrow> length r < length s
     \<and> (\<forall>m. 2 * (length s - length r) < m \<longrightarrow> parse_members m acc s = Some (kvs, r))"
proof (induction rule: value_text_elements_text_members_text.inducts)
  case (text_string s t x r)
  with skip_length [of s] parse_string_length [of t] show ?case by (intro value_fuel) fastforce+
next
  case (text_literal s c t v r)
  with skip_shorter [of s] parse_literal_length [of "c # t"] show ?case by (intro value_fuel) fastforce+
next
  case (text_no_elements s t r)
  with skip_length [of s] skip_length [of t] show ?case by (intro value_fuel) fastforce+
next
  case (text_elements s t vs r)
  note len = skip_length [OF text_elements.hyps(1)]
  show ?case
    by (rule value_fuel) (use text_elements len in auto)
next
  case (text_no_members s t r)
  with skip_length [of s] skip_length [of t] show ?case by (intro value_fuel) fastforce+
next
  case (text_members s t kvs r)
  note len = skip_length [OF text_members.hyps(1)]
  show ?case
    by (rule value_fuel) (use text_members len in auto)
next
  case (element_last s v r u)
  note len = skip_length [OF element_last.hyps(2)]
  show ?case
    by (rule list_fuel) (use element_last len in auto)
next
  case (element_more s v r r' vs u)
  note len = skip_length [OF element_more.hyps(2)]
  show ?case
    by (rule list_fuel) (use element_more len in auto)
next
  case (member_last s t k r r' v u u' acc)
  note len = skip_length [OF member_last.hyps(1)] parse_string_length [OF member_last.hyps(2)]
    skip_length [OF member_last.hyps(3)] skip_length [OF member_last.hyps(5)]
  show ?case
    by (rule list_fuel) (use member_last len in auto)
next
  case (member_more s t k r r' v u u' acc kvs w)
  note len = skip_length [OF member_more.hyps(1)] parse_string_length [OF member_more.hyps(2)]
    skip_length [OF member_more.hyps(3)] skip_length [OF member_more.hyps(5)]
  show ?case
    by (rule list_fuel) (use member_more len in auto)
qed

text \<open>So the parser decides the grammar.\<close>

lemma JSON_parse_iff: "JSON_parse s = Some v \<longleftrightarrow> (\<exists>r. value_text s v r \<and> skip r = [])"
proof
  assume "JSON_parse s = Some v"
  then show "\<exists>r. value_text s v r \<and> skip r = []"
    by (auto simp: JSON_parse_def split: option.splits if_splits dest!: parse_in_grammar(1))
next
  assume "\<exists>r. value_text s v r \<and> skip r = []"
  then obtain r where "value_text s v r" "skip r = []" by blast
  with grammar_parses(1) [of s v r] show "JSON_parse s = Some v" by (simp add: JSON_parse_def)
qed

subsection \<open>Printing and parsing\<close>

lemma hex_val_digit [simp]: "n < 10 \<Longrightarrow> hex_val (digit_char n) = Some n"
  by (simp add: hex_val_def)

lemma hex_val_lower [simp]: "n < 16 \<Longrightarrow> hex_val (lower_char (hex_digit n)) = Some n"
  by (auto simp: hex_val_def lower_char_def hex_digit_def Let_def)

lemma unicode_escape_control:
  assumes "(of_char c :: nat) < 32"
  shows "unicode_escape (CHR ''0'' # CHR ''0'' # digit_char (of_char c div 16)
           # lower_char (hex_digit (of_char c mod 16)) # s) = Some ([c], s)"
proof -
  have z: "hex_val CHR ''0'' = Some 0" by (simp add: hex_val_def)
  have d: "hex_val (digit_char (of_char c div 16)) = Some (of_char c div 16)" using assms by simp
  have "hex4 (CHR ''0'' # CHR ''0'' # digit_char (of_char c div 16) # lower_char (hex_digit (of_char c mod 16)) # s)
      = Some (of_char c, s)"
    using z d by simp
  with assms show ?thesis
    by (auto simp: unicode_escape_def utf8_bytes_def split: list.splits char.splits bool.splits option.splits)
qed

lemma parse_string_char:
  "parse_string (stringify_char c @ s) = map_option (\<lambda>(y, r). (c # y, r)) (parse_string s)"
proof (cases "(of_char c :: nat) < 32 \<and> of_char c \<notin> {8, 9, 10, 12, 13 :: nat}")
  case True
  then have "c \<noteq> CHR 0x22" "c \<noteq> CHR 0x5C" by auto
  with True show ?thesis
    using unicode_escape_control [of c s] by (simp add: stringify_char_def Let_def)
next
  case False
  have controls: "char_of (8 :: nat) = CHR 0x08" "char_of (9 :: nat) = CHR 0x09" "char_of (10 :: nat) = CHR 0x0A"
    "char_of (12 :: nat) = CHR 0x0C" "char_of (13 :: nat) = CHR 0x0D" by code_simp+
  have char_back: "c = char_of n" if "of_char c = n" for n :: nat using that by auto
  with False show ?thesis
    by (auto simp: stringify_char_def simple_escape_def Let_def controls dest!: char_back)
qed

lemma parse_string_stringify: "parse_string (concat (map stringify_char x) @ CHR 0x22 # r) = Some (x, r)"
  by (induction x) (simp_all add: parse_string_char)

text \<open>Numbers: exact decimals are read back.\<close>

lemma read_nat_split: "read_nat (s @ t) = read_nat s * 10 ^ length t + read_nat t"
proof (induction t rule: rev_induct)
  case (snoc c t)
  have "read_nat (s @ t @ [c]) = 10 * read_nat (s @ t) + digit_val c"
    using read_nat_append [of "s @ t" c] by simp
  with snoc read_nat_append [of t c] show ?case by simp
qed (simp add: read_nat_def)

lemma length_show_nat: "n < 10 ^ Suc k \<Longrightarrow> length (show_nat n) \<le> Suc k"
proof (induction k arbitrary: n)
  case 0
  then show ?case by (simp add: show_nat.simps [of n])
next
  case (Suc k)
  have "n div 10 < 10 ^ Suc k" using Suc.prems by (simp add: less_mult_imp_div_less mult.commute)
  from Suc.IH [OF this] show ?case by (cases "n < 10") (simp_all add: show_nat.simps [of n])
qed

lemma length_pad_nat: "n < 10 ^ k \<Longrightarrow> 0 < k \<Longrightarrow> length (pad_nat k n) = k"
  using length_show_nat [of n "k - 1"] by (simp add: pad_nat_def Let_def)

lemma show_nat_no_zero: "1 < length (show_nat n) \<Longrightarrow> hd (show_nat n) \<noteq> CHR ''0''"
proof (induction n rule: show_nat.induct)
  case (1 n)
  have n: "\<not> n < 10" using "1.prems" by (auto simp: show_nat.simps [of n])
  show ?case
  proof (cases "n div 10 < 10")
    case True
    have "digit_char (n div 10) \<noteq> CHR ''0''"
      using of_char_digit [OF True] n by (metis add_cancel_right_right digit_char_numerals(1) div_greater_zero_iff gr0I leI
          neq0_conv of_char_digit zero_less_numeral)
    with True n show ?thesis by (simp add: show_nat.simps [of n] show_nat.simps [of "n div 10"])
  next
    case False
    then have "1 < length (show_nat (n div 10))" by (subst show_nat.simps) (simp add: Suc_lessI)
    with "1.IH" n show ?thesis by (simp add: show_nat.simps [of n])
  qed
qed

lemma pad_nat_digits: "list_all is_digit (pad_nat k n)"
proof -
  have "is_digit CHR ''0''" by (simp add: is_digit_def)
  then show ?thesis by (auto simp: pad_nat_def Let_def list_all_iff dest: show_nat_digits)
qed

lemma takeWhile_digits:
  "list_all is_digit ds \<Longrightarrow> r = [] \<or> \<not> is_digit (hd r) \<Longrightarrow> takeWhile is_digit (ds @ r) = ds"
  "list_all is_digit ds \<Longrightarrow> r = [] \<or> \<not> is_digit (hd r) \<Longrightarrow> dropWhile is_digit (ds @ r) = r"
  by (induction ds; cases r; simp)+

lemma json_decimal_int: "json_decimal (show_nat i) = Some (of_nat i)"
  using show_nat_no_zero [of i] by (auto simp: json_decimal_def Let_def unsigned_decimal_show_nat)

lemma json_decimal_point:
  assumes "f < 10 ^ k" and "0 < k"
  shows "json_decimal (show_nat i @ CHR ''.'' # pad_nat k f) = Some (of_nat (i * 10 ^ k + f) / 10 ^ k)"
proof -
  let ?r = "CHR ''.'' # pad_nat k f"
  have dot: "?r = [] \<or> \<not> is_digit (hd ?r)" by (simp add: is_digit_def)
  have i: "takeWhile is_digit (show_nat i @ ?r) = show_nat i" "dropWhile is_digit (show_nat i @ ?r) = ?r"
    by (rule takeWhile_digits [OF list_all_digits_show dot])+
  have p: "takeWhile is_digit (pad_nat k f) = pad_nat k f" "dropWhile is_digit (pad_nat k f) = []"
    using takeWhile_digits [OF pad_nat_digits, of "[]" k f] by simp_all
  have len: "length (pad_nat k f) = k" using assms by (rule length_pad_nat)
  then have "pad_nat k f \<noteq> []" using assms(2) by auto
  with len show_nat_no_zero [of i] show ?thesis
    unfolding json_decimal_def unsigned_decimal_def Let_def i list.sel p by (auto simp: read_nat_split)
qed

lemma toFixed_read:
  assumes "q * 10 ^ k = of_int m"
  shows "json_number (toFixed k q) = Some q"
proof -
  let ?n = "nat \<bar>m\<bar>"
  let ?d = "show_nat (?n div 10 ^ k) @ (if k = 0 then [] else CHR ''.'' # pad_nat k (?n mod 10 ^ k))"
  have a: "\<bar>q\<bar> * 10 ^ k = of_int \<bar>m\<bar>" using assms by (metis abs_mult abs_of_pos of_int_abs zero_less_numeral zero_less_power)
  have "\<lfloor>\<bar>q\<bar> * 10 ^ k + 1 / 2\<rfloor> = \<bar>m\<bar>" unfolding a by (rule floor_unique) simp_all
  then have shown: "toFixed k q = (if q < 0 then ''-'' else []) @ ?d" by (simp add: toFixed_def Let_def)
  have "\<bar>q\<bar> = of_nat ?n / 10 ^ k" using a by (simp add: field_simps)
  then have d: "json_decimal ?d = Some \<bar>q\<bar>"
    using json_decimal_point [of "?n mod 10 ^ k" k "?n div 10 ^ k", unfolded div_mult_mod_eq]
    by (cases "k = 0") (simp_all add: json_decimal_int)
  obtain c t where ct: "?d = c # t" by (cases ?d) auto
  have "is_digit c" using ct show_nat_digits [of c "?n div 10 ^ k"]
    by (metis append_Cons list.set_intros(1) list.exhaust list.sel(1) show_nat_nonempty)
  then have "c \<noteq> CHR ''-''" by (rule digit_facts)
  with d ct show ?thesis unfolding shown json_number_def by (cases "q < 0") auto
qed

text \<open>Values that survive: numbers with a finite decimal expansion of at most 17 places, objects
  without repeated names.\<close>

fun json_ok :: "json \<Rightarrow> bool" where
  "json_ok (JNum q) = (of_int \<lfloor>q * 10 ^ decimal_places q\<rfloor> = q * 10 ^ decimal_places q)"
| "json_ok (JArr vs) = list_all json_ok vs"
| "json_ok (JObj kvs) = (distinct (map fst kvs) \<and> list_all (\<lambda>kv. json_ok (snd kv)) kvs)"
| "json_ok _ = True"

definition delimited :: "string \<Rightarrow> bool" where
  "delimited r \<longleftrightarrow> r = [] \<or> \<not> number_char (hd r)"

abbreviation blank :: "string \<Rightarrow> bool" where
  "blank \<equiv> list_all json_ws"

lemma skip_blank: "blank w \<Longrightarrow> skip (w @ s) = skip s"
  by (induction w) simp_all

lemma skip_start: "\<not> json_ws c \<Longrightarrow> skip (c # s) = c # s"
  by simp

lemma json_ws_marks [simp]:
  "\<not> json_ws CHR 0x22" "\<not> json_ws CHR ''[''" "\<not> json_ws CHR '']''" "\<not> json_ws CHR ''{''" "\<not> json_ws CHR ''}''"
  "\<not> json_ws CHR '',''" "\<not> json_ws CHR '':''" "json_ws CHR 0x0A" "json_ws CHR '' ''"
  "\<not> json_ws CHR ''n''" "\<not> json_ws CHR ''t''" "\<not> json_ws CHR ''f''"
  by (simp_all add: json_ws_def)

lemma delimited_marks [simp]:
  "delimited []" "delimited (CHR '','' # s)" "delimited (CHR '']'' # s)" "delimited (CHR ''}'' # s)" "delimited (CHR 0x0A # s)"
  by (simp_all add: delimited_def number_char_def is_digit_def)

lemma toFixed_chars: "c \<in> set (toFixed k q) \<Longrightarrow> number_char c"
  using pad_nat_digits by (auto simp: toFixed_def Let_def number_char_def list_all_iff dest: show_nat_digits split: if_splits)

lemma toFixed_nonempty: "toFixed k q \<noteq> []"
  by (simp add: toFixed_def Let_def)

lemma number_char_marks:
  assumes "number_char c"
  shows "c \<noteq> CHR 0x22" and "c \<noteq> CHR ''[''" and "c \<noteq> CHR ''{''" and "\<not> json_ws c"
    and "c \<noteq> CHR ''n''" and "c \<noteq> CHR ''t''" and "c \<noteq> CHR ''f''"
  using assms by (auto simp: number_char_def is_digit_def json_ws_def)

lemma number_text:
  assumes "json_ok (JNum q)" and "delimited r" and "blank w"
  shows "value_text (w @ show_num q @ r) (JNum q) r"
proof -
  let ?s = "show_num q"
  have all: "\<forall>c \<in> set ?s. number_char c" using toFixed_chars unfolding show_num_def by blast
  have t: "takeWhile number_char (?s @ r) = ?s" "dropWhile number_char (?s @ r) = r"
    using assms(2) all by (cases r; simp add: delimited_def takeWhile_append2 dropWhile_append2)+
  obtain c u where cu: "?s @ r = c # u" and c: "number_char c"
    using toFixed_nonempty all unfolding show_num_def by (metis append_Cons list.set_intros(1) neq_Nil_conv)
  obtain m where "q * 10 ^ decimal_places q = of_int m" using assms(1) by auto
  then have "json_number ?s = Some q" unfolding show_num_def by (rule toFixed_read)
  then have "parse_literal (?s @ r) = Some (JNum q, r)"
    using t cu number_char_marks [OF c] by (simp add: parse_literal_def parse_number_def)
  moreover have "skip (w @ ?s @ r) = c # u" using assms(3) cu number_char_marks [OF c] by (simp add: skip_blank)
  ultimately show ?thesis using cu number_char_marks [OF c] by (intro text_literal) simp_all
qed

lemma string_text: "blank w \<Longrightarrow> value_text (w @ stringify_str x @ r) (JStr x) r"
  using parse_string_stringify [of x r]
  by (intro text_string [of _ "concat (map stringify_char x) @ CHR 0x22 # r"]) (simp_all add: skip_blank stringify_str_def)

lemma keyword_text:
  "blank w \<Longrightarrow> value_text (w @ ''null'' @ r) JNull r"
  "blank w \<Longrightarrow> value_text (w @ ''true'' @ r) (JBool True) r"
  "blank w \<Longrightarrow> value_text (w @ ''false'' @ r) (JBool False) r"
  subgoal by (rule text_literal [where c = "CHR ''n''" and t = "''ull'' @ r"]) (simp_all add: skip_blank parse_literal_def)
  subgoal by (rule text_literal [where c = "CHR ''t''" and t = "''rue'' @ r"]) (simp_all add: skip_blank parse_literal_def)
  subgoal by (rule text_literal [where c = "CHR ''f''" and t = "''alse'' @ r"]) (simp_all add: skip_blank parse_literal_def)
  done

lemma blank_line_break: "blank gap \<Longrightarrow> blank indent \<Longrightarrow> blank (line_break gap indent)"
  by (simp add: line_break_def)

lemma elements_print:
  assumes "vs \<noteq> []" and "\<And>v w r. v \<in> set vs \<Longrightarrow> blank w \<Longrightarrow> delimited r \<Longrightarrow> value_text (w @ print v @ r) v r"
    and "blank sep" and "blank w" and "blank w'" and "delimited (w' @ CHR '']'' # r)"
  shows "elements_text (w @ join ('','' @ sep) (map print vs) @ w' @ CHR '']'' # r) vs r"
  using assms
proof (induction vs arbitrary: w rule: list_nonempty_induct)
  case (single v)
  show ?case using single.prems
    by (intro element_last [of _ v "w' @ CHR '']'' # r"]) (simp_all add: skip_blank)
next
  case (cons v vs)
  obtain v' vs' where vs: "vs = v' # vs'" using cons.hyps by (cases vs) auto
  let ?rest = "sep @ join ('','' @ sep) (map print vs) @ w' @ CHR '']'' # r"
  have "elements_text ?rest vs r" using cons by simp
  from element_more [OF _ _ this, of "w @ print v @ CHR '','' # ?rest" v "CHR '','' # ?rest"]
  have "elements_text (w @ print v @ CHR '','' # ?rest) (v # vs) r" using cons.prems by simp
  then show ?case by (simp add: vs)
qed

lemma append_member: "k \<notin> fst ` set acc \<Longrightarrow> AList.update k v acc = acc @ [(k, v)]"
  by (induction acc) auto

lemma members_print:
  assumes "kvs \<noteq> []" and "\<And>k v w r. (k, v) \<in> set kvs \<Longrightarrow> blank w \<Longrightarrow> delimited r \<Longrightarrow> value_text (w @ print v @ r) v r"
    and "blank sep" and "blank w" and "blank w'" and "blank colon" and "delimited (w' @ CHR ''}'' # r)"
    and "distinct (map fst (acc @ kvs))"
  shows "members_text acc (w @ join ('','' @ sep) (map (\<lambda>kv. stringify_str (fst kv) @ '':'' @ colon @ print (snd kv)) kvs)
           @ w' @ CHR ''}'' # r) (acc @ kvs) r"
  using assms
proof (induction kvs arbitrary: w acc rule: list_nonempty_induct)
  case (single kv)
  obtain k v where kv: "kv = (k, v)" by fastforce
  have u: "AList.update k v acc = acc @ [(k, v)]" using single.prems(7) by (intro append_member) (auto simp: kv)
  let ?r = "w' @ CHR ''}'' # r" and ?q = "CHR '':'' # colon @ print v @ w' @ CHR ''}'' # r"
  have "value_text (colon @ print v @ ?r) v ?r" using single.prems kv by simp
  from member_last [OF _ parse_string_stringify _ this, of "w @ stringify_str k @ ?q" k ?q r acc]
  show ?case using single.prems by (simp add: skip_blank stringify_str_def kv u)
next
  case (cons kv kvs)
  obtain k v where kv: "kv = (k, v)" by fastforce
  obtain x xs where kvs: "kvs = x # xs" using cons.hyps by (cases kvs) auto
  have u: "AList.update k v acc = acc @ [(k, v)]" using cons.prems(7) by (intro append_member) (auto simp: kv)
  let ?rest = "sep @ join ('','' @ sep) (map (\<lambda>kv. stringify_str (fst kv) @ '':'' @ colon @ print (snd kv)) kvs)
    @ w' @ CHR ''}'' # r"
  let ?q = "CHR '':'' # colon @ print v @ CHR '','' # ?rest"
  have m: "members_text (AList.update k v acc) ?rest ((acc @ [(k, v)]) @ kvs) r"
    unfolding u using cons.prems by (intro cons.IH) (auto simp: kv)
  have v: "value_text (colon @ print v @ CHR '','' # ?rest) v (CHR '','' # ?rest)"
    using cons.prems(5) by (intro cons.prems(1) [of k v]) (simp_all add: kv)
  have "members_text acc (w @ stringify_str k @ ?q) ((acc @ [(k, v)]) @ kvs) r"
    by (rule member_more [OF _ parse_string_stringify skip_start v skip_start m])
      (simp_all add: skip_blank stringify_str_def cons.prems(3))
  then show ?case by (simp add: kv kvs)
qed

text \<open>A list of elements does not start with the closing bracket.\<close>

inductive_cases elements_textE: "elements_text s vs r"
inductive_cases value_textE: "value_text s v r"
inductive_cases members_textE: "members_text acc s kvs r"

lemma no_value_at_bracket: "skip s = CHR '']'' # t \<Longrightarrow> \<not> value_text s v r"
proof
  have n: "parse_literal (CHR '']'' # t) = None"
    by (simp add: parse_literal_def parse_number_def json_number_def number_char_def is_digit_def)
  assume "skip s = CHR '']'' # t" and "value_text s v r"
  then show False by (auto elim: value_textE simp: n)
qed

lemma elements_start: "elements_text s vs r \<Longrightarrow> expect CHR '']'' (skip s) = None"
  by (erule elements_textE) (cases "expect CHR '']'' (skip s)"; simp add: expect_Some no_value_at_bracket)+

lemma members_start: "members_text acc s kvs r \<Longrightarrow> expect CHR ''}'' (skip s) = None"
  by (erule members_textE) simp_all

text \<open>The text of a value, with any blanks before it and anything but a number character after it.\<close>

lemma stringify_text:
  assumes "blank gap"
  shows "json_ok v \<Longrightarrow> blank indent \<Longrightarrow> blank w \<Longrightarrow> delimited r \<Longrightarrow> value_text (w @ stringify_gap gap indent v @ r) v r"
proof (induction v arbitrary: indent w r)
  case JNull
  then show ?case using keyword_text(1) [of w r] by simp
next
  case (JBool b)
  then show ?case using keyword_text(2,3) [of w r] by (cases b) simp_all
next
  case (JNum q)
  then show ?case using number_text [of q r w] by simp
next
  case (JStr x)
  then show ?case using string_text [of w x r] by simp
next
  case (JArr vs)
  let ?i = "indent @ gap"
  have b: "blank ?i" using JArr.prems assms by simp
  show ?case
  proof (cases "vs = []")
    case True
    then show ?thesis using JArr.prems by (auto simp: skip_blank intro: text_no_elements [of _ "CHR '']'' # r"])
  next
    case False
    let ?t = "line_break gap ?i @ join ('','' @ line_break gap ?i) (map (stringify_gap gap ?i) vs) @ line_break gap indent @ CHR '']'' # r"
    have e: "elements_text ?t vs r"
      using False JArr.prems b assms
      by (intro elements_print JArr.IH) (auto simp: list_all_iff [of json_ok] line_break_def)
    then show ?thesis using elements_start [OF e] False JArr.prems by (intro text_elements [of _ ?t]) (simp_all add: skip_blank)
  qed
next
  case (JObj kvs)
  let ?i = "indent @ gap"
  have b: "blank ?i" using JObj.prems assms by simp
  show ?case
  proof (cases "kvs = []")
    case True
    then show ?thesis using JObj.prems by (auto simp: skip_blank intro: text_no_members [of _ "CHR ''}'' # r"])
  next
    case False
    let ?t = "line_break gap ?i @ join ('','' @ line_break gap ?i)
        (map (\<lambda>kv. stringify_str (fst kv) @ '':'' @ (if gap = [] then [] else '' '') @ stringify_gap gap ?i (snd kv)) kvs)
        @ line_break gap indent @ CHR ''}'' # r"
    have e: "members_text [] ?t ([] @ kvs) r"
      using False JObj.prems b assms
      by (intro members_print JObj.IH) (auto simp: list_all_iff [of "\<lambda>kv. json_ok (snd kv)"] line_break_def)
    then show ?thesis using members_start [OF e] False JObj.prems by (intro text_members [of _ ?t]) (simp_all add: skip_blank)
  qed
qed

lemma parse_stringify: "blank gap \<Longrightarrow> json_ok v \<Longrightarrow> JSON_parse (stringify_gap gap [] v) = Some v"
  using stringify_text [of gap v "[]" "[]" "[]"] by (auto simp: JSON_parse_iff)

end
