(* ===== verification/Database_Service.thy ===== *)
theory Database_Service
  imports Relay_Kit Json_Text Resource_Hooks
begin

text \<open>
  The database service pages of the Dokploy section
  (\<open>features/admin/pages/dokploy/app/services/k4-dbEngine.tsx\<close>): the kind configurations, the dialogs and
  cards of the six detail pages, the backup schedules and the create dialog.

  Each card or dialog is a component with its own cells, and \<open>row\<close> is the service it is shown for. The
  page hides its cards while it loads the row again, so a mounted card keeps its \<open>row\<close>; the zero-delay
  timer that copies the row into the cells after mounting is an event, pending while the flag
  \<open>_timer\<close> is set.
\<close>

subsection \<open>Kind configuration\<close>

datatype db_service = PostgresDb | MysqlDb | MariadbDb | MongoDb | RedisDb | LibsqlDb

datatype field_type = FText | FPassword | FTextarea | FSelect | FSwitch

text \<open>The placeholders and hints shown with a field are left out.\<close>

record field_def =
  fd_key :: string
  fd_label :: string
  fd_kind :: field_type
  fd_required :: bool
  fd_options :: "string list"
  fd_sendNull :: bool
  fd_initial :: "string option"

record port_def =
  pd_key :: string
  pd_label :: string
  pd_placeholder :: string

record kind_config =
  kc_kind :: string
  kc_label :: string
  kc_idKey :: string
  kc_defaultImage :: string
  kc_internalPort :: string
  kc_hasChangePassword :: bool
  kc_hasBackups :: bool
  kc_ports :: "port_def list"
  kc_createFields :: "field_def list"
  kc_internalUrl :: "json \<Rightarrow> string"
  kc_replicationUrl :: "(json \<Rightarrow> string) option"
  kc_externalUrl :: "json \<Rightarrow> string \<Rightarrow> string js_record \<Rightarrow> string"
  kc_extraRows :: "json \<Rightarrow> (string \<times> string) list"

definition field :: "string \<Rightarrow> string \<Rightarrow> field_type \<Rightarrow> field_def" where
  "field k l t = \<lparr>fd_key = k, fd_label = l, fd_kind = t, fd_required = False, fd_options = [],
     fd_sendNull = False, fd_initial = None\<rparr>"

definition required_field :: "string \<Rightarrow> string \<Rightarrow> field_type \<Rightarrow> field_def" where
  "required_field k l t = (field k l t)\<lparr>fd_required := True\<rparr>"

definition port_field :: "string \<Rightarrow> string \<Rightarrow> string \<Rightarrow> port_def" where
  "port_field k l p = \<lparr>pd_key = k, pd_label = l, pd_placeholder = p\<rparr>"

definition DESCRIPTION_FIELD :: field_def where
  "DESCRIPTION_FIELD = field ''description'' ''Description'' FTextarea"

definition LIBSQL_IMAGE :: string where
  "LIBSQL_IMAGE = ''ghcr.io/tursodatabase/libsql-server:v0.24.32''"

definition image_field :: "string \<Rightarrow> field_def" where
  "image_field img = (field ''dockerImage'' ''Docker Image'' FText)\<lparr>fd_initial := Some img\<rparr>"

definition sqlCreateFields :: "string \<Rightarrow> field_def list" where
  "sqlCreateFields defaultImage =
    [required_field ''name'' ''Name'' FText,
     field ''appName'' ''App Name'' FText,
     required_field ''databaseName'' ''Database Name'' FText,
     required_field ''databaseUser'' ''Database User'' FText,
     required_field ''databasePassword'' ''Database Password'' FPassword,
     field ''databaseRootPassword'' ''Database Root Password'' FPassword,
     image_field defaultImage,
     DESCRIPTION_FIELD]"

text \<open>\<open>scheme://user:password@\<close>, and the port typed or else stored.\<close>

definition credentials :: "string \<Rightarrow> json \<Rightarrow> string" where
  "credentials scheme r = scheme @ ''://'' @ col r ''databaseUser'' @ '':'' @ col r ''databasePassword'' @ ''@''"

definition shown_port :: "json \<Rightarrow> string js_record \<Rightarrow> string" where
  "shown_port r ports = or_text (case map_of ports ''externalPort'' of Some p \<Rightarrow> p | None \<Rightarrow> []) (col r ''externalPort'')"

definition sql_internal :: "string \<Rightarrow> string \<Rightarrow> json \<Rightarrow> string" where
  "sql_internal scheme port r =
     credentials scheme r @ col r ''appName'' @ '':'' @ port @ ''/'' @ col r ''databaseName''"

definition sql_external :: "string \<Rightarrow> json \<Rightarrow> string \<Rightarrow> string js_record \<Rightarrow> string" where
  "sql_external scheme r ip ports =
     credentials scheme r @ ip @ '':'' @ shown_port r ports @ ''/'' @ col r ''databaseName''"

definition sql_config :: "string \<Rightarrow> string \<Rightarrow> string \<Rightarrow> string \<Rightarrow> string \<Rightarrow> string \<Rightarrow> kind_config" where
  "sql_config kind label idKey img port scheme =
     \<lparr>kc_kind = kind, kc_label = label, kc_idKey = idKey, kc_defaultImage = img, kc_internalPort = port,
      kc_hasChangePassword = True, kc_hasBackups = True,
      kc_ports = [port_field ''externalPort'' ''External Port (Internet)'' port],
      kc_createFields = sqlCreateFields img,
      kc_internalUrl = sql_internal scheme port, kc_replicationUrl = None, kc_externalUrl = sql_external scheme,
      kc_extraRows = (\<lambda>r. [])\<rparr>"

definition mongo_params :: "json \<Rightarrow> string" where
  "mongo_params r =
     (if col r ''replicaSets'' = ''true'' \<or> prop_of r ''replicaSets'' = Some (JBool True)
      then ''authSource=admin'' else ''authSource=admin&directConnection=true'')"

definition mongo_config :: kind_config where
  "mongo_config =
     \<lparr>kc_kind = ''mongo'', kc_label = ''MongoDB'', kc_idKey = ''mongoId'', kc_defaultImage = ''mongo:15'',
      kc_internalPort = ''27017'', kc_hasChangePassword = True, kc_hasBackups = True,
      kc_ports = [port_field ''externalPort'' ''External Port (Internet)'' ''27017''],
      kc_createFields =
        [required_field ''name'' ''Name'' FText,
         field ''appName'' ''App Name'' FText,
         required_field ''databaseUser'' ''Database User'' FText,
         required_field ''databasePassword'' ''Database Password'' FPassword,
         field ''replicaSets'' ''Replica Sets'' FSwitch,
         image_field ''mongo:15'',
         DESCRIPTION_FIELD],
      kc_internalUrl = (\<lambda>r. credentials ''mongodb'' r @ col r ''appName'' @ '':27017/?'' @ mongo_params r),
      kc_replicationUrl = None,
      kc_externalUrl = (\<lambda>r ip ports. credentials ''mongodb'' r @ ip @ '':'' @ shown_port r ports @ ''/?'' @ mongo_params r),
      kc_extraRows = (\<lambda>r. [])\<rparr>"

definition redis_config :: kind_config where
  "redis_config =
     \<lparr>kc_kind = ''redis'', kc_label = ''Redis'', kc_idKey = ''redisId'', kc_defaultImage = ''redis:8'',
      kc_internalPort = ''6379'', kc_hasChangePassword = True, kc_hasBackups = False,
      kc_ports = [port_field ''externalPort'' ''External Port (Internet)'' ''6379''],
      kc_createFields =
        [required_field ''name'' ''Name'' FText,
         field ''appName'' ''App Name'' FText,
         required_field ''databasePassword'' ''Database Password'' FPassword,
         image_field ''redis:8'',
         DESCRIPTION_FIELD],
      kc_internalUrl = (\<lambda>r. ''redis://default:'' @ col r ''databasePassword'' @ ''@'' @ col r ''appName'' @ '':6379''),
      kc_replicationUrl = None,
      kc_externalUrl = (\<lambda>r ip ports. ''redis://default:'' @ col r ''databasePassword'' @ ''@'' @ ip @ '':'' @ shown_port r ports),
      kc_extraRows = (\<lambda>r. [])\<rparr>"

definition libsql_config :: kind_config where
  "libsql_config =
     \<lparr>kc_kind = ''libsql'', kc_label = ''LibSQL'', kc_idKey = ''libsqlId'', kc_defaultImage = LIBSQL_IMAGE,
      kc_internalPort = ''8080'', kc_hasChangePassword = False, kc_hasBackups = True,
      kc_ports = [port_field ''externalPort'' ''External Port (HTTP)'' ''8080'',
                  port_field ''externalGRPCPort'' ''External GRPC Port'' ''5001'',
                  port_field ''externalAdminPort'' ''External Admin Port'' ''5000''],
      kc_createFields =
        [required_field ''name'' ''Name'' FText,
         required_field ''appName'' ''App Name'' FText,
         required_field ''databaseUser'' ''Database User'' FText,
         required_field ''databasePassword'' ''Database Password'' FPassword,
         (required_field ''sqldNode'' ''Sqld Node'' FSelect)\<lparr>fd_options := [''primary'', ''replica''], fd_initial := Some ''primary''\<rparr>,
         (field ''sqldPrimaryUrl'' ''Sqld Primary URL'' FText)\<lparr>fd_sendNull := True\<rparr>,
         (field ''enableNamespaces'' ''Enable Namespaces'' FSwitch)\<lparr>fd_initial := Some ''false''\<rparr>,
         (image_field LIBSQL_IMAGE)\<lparr>fd_required := True\<rparr>,
         DESCRIPTION_FIELD\<lparr>fd_required := True, fd_sendNull := True\<rparr>,
         (field ''serverId'' ''Server ID'' FText)\<lparr>fd_sendNull := True\<rparr>],
      kc_internalUrl = (\<lambda>r. credentials ''http'' r @ col r ''appName'' @ '':8080''),
      kc_replicationUrl = Some (\<lambda>r. credentials ''http'' r @ col r ''appName'' @ '':5001''),
      kc_externalUrl = (\<lambda>r ip ports. credentials ''http'' r @ ip @ '':'' @ shown_port r ports),
      kc_extraRows = (\<lambda>r.
        [(''Sqld Node'', or_text (col r ''sqldNode'') em_dash),
         (''Enable Namespaces'', if prop_of r ''enableNamespaces'' = Some (JBool True) then ''true'' else ''false''),
         (''Internal GRPC Port (Container)'', ''5001''),
         (''Internal Admin Port (Container)'', ''5000'')])\<rparr>"

fun KIND_CONFIGS :: "db_service \<Rightarrow> kind_config" where
  "KIND_CONFIGS PostgresDb = (sql_config ''postgres'' ''PostgreSQL'' ''postgresId'' ''postgres:18'' ''5432'' ''postgresql'')
     \<lparr>kc_createFields := filter (\<lambda>f. fd_key f \<noteq> ''databaseRootPassword'') (sqlCreateFields ''postgres:18'')\<rparr>"
| "KIND_CONFIGS MysqlDb = sql_config ''mysql'' ''MySQL'' ''mysqlId'' ''mysql:8'' ''3306'' ''mysql''"
| "KIND_CONFIGS MariadbDb = sql_config ''mariadb'' ''MariaDB'' ''mariadbId'' ''mariadb:6'' ''3306'' ''mariadb''"
| "KIND_CONFIGS MongoDb = mongo_config"
| "KIND_CONFIGS RedisDb = redis_config"
| "KIND_CONFIGS LibsqlDb = libsql_config"

text \<open>\<open>MANUAL_BACKUP_OP\<close>, by the name of the kind; redis has none.\<close>

definition MANUAL_BACKUP_OP :: "string js_record" where
  "MANUAL_BACKUP_OP =
    [(''postgres'', ''backup.manualBackupPostgres''), (''mysql'', ''backup.manualBackupMySql''),
     (''mariadb'', ''backup.manualBackupMariadb''), (''mongo'', ''backup.manualBackupMongo''),
     (''libsql'', ''backup.manualBackupLibsql'')]"

text \<open>The password rule: letters, digits and some punctuation.\<close>

definition password_char :: "char \<Rightarrow> bool" where
  "password_char c \<longleftrightarrow> is_alnum c \<or> c \<in> set ''@#%^&*()_+-=[]{}|;,.<>?~'' \<or> c = CHR 0x60"

definition DATABASE_PASSWORD_PATTERN :: "string \<Rightarrow> bool" where
  "DATABASE_PASSWORD_PATTERN s \<longleftrightarrow> list_all password_char s"

subsection \<open>Field errors of a rejected form\<close>

text \<open>\<open>Object.entries\<close> of an object or an array.\<close>

fun object_entries :: "json \<Rightarrow> json js_record" where
  "object_entries (JObj kvs) = kvs"
| "object_entries (JArr xs) = map (\<lambda>i. (show_nat i, xs ! i)) [0 ..< length xs]"
| "object_entries _ = []"

text \<open>\<open>v && typeof v === "object" ? v : d\<close> of a property.\<close>

definition object_or :: "json option \<Rightarrow> 'a \<Rightarrow> (json \<Rightarrow> 'a) \<Rightarrow> 'a" where
  "object_or v d f = (case v of Some j \<Rightarrow> if is_object j then f j else d | None \<Rightarrow> d)"

definition error_body :: "app_failure \<Rightarrow> json option" where
  "error_body e = (case e of AppUpstream u \<Rightarrow> Option.bind (ae_body u) JSON_parse | AppError _ \<Rightarrow> None)"

definition service_fieldErrors :: "app_failure \<Rightarrow> string js_record" where
  "service_fieldErrors e =
     (let root = object_or (error_body e) (JObj []) id;
          data = object_or (prop_of root ''data'') root id
      in object_or (prop_of data ''zodError'') [] (\<lambda>zod.
           object_or (prop_of zod ''fieldErrors'') [] (\<lambda>nested.
             List.map_filter (\<lambda>(k, messages).
               case messages of
                 JArr ms \<Rightarrow> if ms \<noteq> [] then Some (k, join ''; '' (map js_String ms)) else None
               | _ \<Rightarrow> None) (object_entries nested))))"

subsection \<open>The service and its name\<close>

definition service_id :: "kind_config \<Rightarrow> json \<Rightarrow> string" where
  "service_id cfg row = col row (kc_idKey cfg)"

text \<open>\<open>dokploy("POST", `${kind}.${op}`, { [idKey]: id, ... })\<close>.\<close>

definition service_post :: "kind_config \<Rightarrow> json \<Rightarrow> string \<Rightarrow> json js_record \<Rightarrow> app_call" where
  "service_post cfg row opName rest =
     relay_post (kc_kind cfg @ ''.'' @ opName) ((kc_idKey cfg, JStr (service_id cfg row)) # rest)"

definition null_or :: "string \<Rightarrow> json" where
  "null_or s = (if s = [] then JNull else JStr s)"

subsection \<open>UpdateServiceDialog\<close>

record update_dialog = relay_card +
  ud_open :: bool
  ud_name :: string
  ud_description :: string
  ud_busy :: bool
  ud_error :: "string option"
  ud_timer :: bool

definition update_close :: "update_dialog \<Rightarrow> update_dialog" where
  "update_close s = s\<lparr>ud_open := False, ud_timer := False\<rparr>"

definition update_submit :: "kind_config \<Rightarrow> json \<Rightarrow> update_dialog \<Rightarrow> update_dialog app_script" where
  "update_submit cfg row s =
     (if trim (ud_name s) = [] then Set (ud_error_update (\<lambda>_. Some ''Name is required.'')) Done
      else Set (ud_busy_update (\<lambda>_. True))
        (runMutation
          (service_post cfg row ''update'' [(''name'', JStr (trim (ud_name s))), (''description'', null_or (ud_description s))])
          (kc_label cfg @ '' updated successfully'')
          (\<lambda>ok. Set (ud_busy_update (\<lambda>_. False)) (if ok then Set update_close (Set reload Done) else Done))))"

datatype update_event = UdOpen | UdClose | UdTimer | UdName string | UdDescription string | UdSubmit

fun update_handler :: "kind_config \<Rightarrow> json \<Rightarrow> update_event \<Rightarrow> update_dialog \<Rightarrow> update_dialog app_script" where
  "update_handler cfg row UdOpen s = (if ud_open s then Done else Set (\<lambda>x. x\<lparr>ud_open := True, ud_timer := True\<rparr>) Done)"
| "update_handler cfg row UdClose s = Set update_close Done"
| "update_handler cfg row UdTimer s =
     (if ud_timer s
      then Set (\<lambda>x. x\<lparr>ud_name := col row ''name'', ud_description := col row ''description'', ud_error := None, ud_timer := False\<rparr>) Done
      else Done)"
| "update_handler cfg row (UdName t) s = (if ud_open s then Set (ud_name_update (\<lambda>_. t)) Done else Done)"
| "update_handler cfg row (UdDescription t) s = (if ud_open s then Set (ud_description_update (\<lambda>_. t)) Done else Done)"
| "update_handler cfg row UdSubmit s = (if ud_open s \<and> \<not> ud_busy s then update_submit cfg row s else Done)"

subsection \<open>DeleteServiceDialog\<close>

record delete_dialog = relay_card +
  dd_open :: bool
  dd_confirmation :: string
  dd_busy :: bool
  dd_navigated :: "string list"

definition delete_expected :: "json \<Rightarrow> string" where
  "delete_expected row = col row ''name'' @ ''/'' @ col row ''appName''"

definition service_running :: "json \<Rightarrow> bool" where
  "service_running row \<longleftrightarrow> col row ''applicationStatus'' = ''running''"

definition environment_board :: "json \<Rightarrow> string" where
  "environment_board row =
     ''/admin/dokploy/app/p/'' @ str (Option.bind (prop_of row ''environment'') (\<lambda>e. prop_of e ''projectId''))
       @ ''/e/'' @ col row ''environmentId''"

definition delete_submit :: "kind_config \<Rightarrow> json \<Rightarrow> delete_dialog \<Rightarrow> delete_dialog app_script" where
  "delete_submit cfg row s =
     (if dd_confirmation s \<noteq> delete_expected row then Done
      else with_flag dd_busy_update
        (try_catch
          (await (service_post cfg row ''remove'' [])
            (\<lambda>_. Set (toast_success ''Service deleted successfully'') (Set (dd_open_update (\<lambda>_. False))
               (Set (dd_navigated_update (\<lambda>h. h @ [environment_board row])) Done))))
          (\<lambda>cause. Set (toast_error (toErrorMessage cause)) Done)))"

datatype delete_event = DdOpen | DdClose | DdType string | DdConfirm

text \<open>\<open>setOpen(false)\<close> after a deletion does not go through \<open>onOpenChange\<close>, so it keeps the text.\<close>

fun delete_handler :: "kind_config \<Rightarrow> json \<Rightarrow> delete_event \<Rightarrow> delete_dialog \<Rightarrow> delete_dialog app_script" where
  "delete_handler cfg row DdOpen s = Set (dd_open_update (\<lambda>_. True)) Done"
| "delete_handler cfg row DdClose s =
     (if dd_open s then Set (\<lambda>x. x\<lparr>dd_open := False, dd_confirmation := []\<rparr>) Done else Done)"
| "delete_handler cfg row (DdType t) s = (if dd_open s then Set (dd_confirmation_update (\<lambda>_. t)) Done else Done)"
| "delete_handler cfg row DdConfirm s =
     (if dd_open s \<and> \<not> dd_busy s \<and> dd_confirmation s = delete_expected row \<and> \<not> service_running row
      then delete_submit cfg row s else Done)"

subsection \<open>DeploySettingsCard\<close>

record deploy_card = relay_card +
  ds_busy :: "string option"
  ds_confirming :: "string option"

text \<open>The buttons with the body each of them sends after the identifier.\<close>

definition deploy_buttons :: "json \<Rightarrow> (string \<times> json js_record) list" where
  "deploy_buttons row =
     [(''deploy'', []), (''reload'', [(''appName'', JStr (col row ''appName''))]), (''rebuild'', [])]
     @ (if col row ''applicationStatus'' = ''idle'' then [(''start'', [])] else [(''stop'', [])])"

definition confirmSpecs :: "string \<Rightarrow> (string \<times> string) js_record" where
  "confirmSpecs label =
    [(''deploy'', (''Deploy '' @ label, ''Downloads and sets up the database service.'')),
     (''reload'', (''Reload '' @ label, ''Restarts the service without rebuilding it.'')),
     (''rebuild'', (''Rebuild '' @ label, ''Stops the service, deletes existing data and volumes, then starts from a clean state.'')),
     (''start'', (''Start '' @ label, ''Starts the database (requires a previous successful setup).'')),
     (''stop'', (''Stop '' @ label, ''Stops the currently running database service.''))]"

text \<open>\<open>buttons.find(...)?.body ?? {}\<close>: an action without a button sends an empty object.\<close>

definition deploy_call :: "kind_config \<Rightarrow> json \<Rightarrow> string \<Rightarrow> app_call" where
  "deploy_call cfg row action =
     (case map_of (deploy_buttons row) action of
        Some rest \<Rightarrow> service_post cfg row action rest
      | None \<Rightarrow> relay_post (kc_kind cfg @ ''.'' @ action) [])"

definition runAction :: "kind_config \<Rightarrow> json \<Rightarrow> string \<Rightarrow> deploy_card app_script" where
  "runAction cfg row action =
     Set (ds_busy_update (\<lambda>_. Some action))
       (runMutation (deploy_call cfg row action) (kc_label cfg @ '' '' @ action @ '' request sent'')
         (\<lambda>_. Set (ds_busy_update (\<lambda>_. None)) (Set (ds_confirming_update (\<lambda>_. None)) (Set reload Done))))"

datatype deploy_event = DsPick string | DsDismiss | DsConfirm

fun deploy_handler :: "kind_config \<Rightarrow> json \<Rightarrow> deploy_event \<Rightarrow> deploy_card \<Rightarrow> deploy_card app_script" where
  "deploy_handler cfg row (DsPick action) s =
     (if ds_busy s = None \<and> map_of (deploy_buttons row) action \<noteq> None
      then Set (ds_confirming_update (\<lambda>_. Some action)) Done else Done)"
| "deploy_handler cfg row DsDismiss s = Set (ds_confirming_update (\<lambda>_. None)) Done"
| "deploy_handler cfg row DsConfirm s =
     (case ds_confirming s of
        Some action \<Rightarrow> if ds_busy s = None then runAction cfg row action else Done
      | None \<Rightarrow> Done)"

subsection \<open>ChangePasswordDialog\<close>

record passwd_dialog = relay_card +
  cw_open :: bool
  cw_password :: string
  cw_error :: "string option"
  cw_busy :: bool

definition PASSWORD_RULE :: string where
  "PASSWORD_RULE = ''Allowed: letters, digits and @#%^&*()_+-=[]{}|;,.<>?~'' @ [CHR 0x60] @ '' (no spaces)''"

definition passwd_submit :: "kind_config \<Rightarrow> json \<Rightarrow> passwd_dialog \<Rightarrow> passwd_dialog app_script" where
  "passwd_submit cfg row s =
     (if cw_password s = [] then Set (cw_error_update (\<lambda>_. Some ''New password is required.'')) Done
      else if \<not> DATABASE_PASSWORD_PATTERN (cw_password s)
      then Set (cw_error_update (\<lambda>_. Some (''Invalid characters in password. '' @ PASSWORD_RULE))) Done
      else Set (cw_busy_update (\<lambda>_. True))
        (runMutation (service_post cfg row ''changePassword'' [(''password'', JStr (cw_password s))])
          ''Password updated successfully''
          (\<lambda>ok. Set (cw_busy_update (\<lambda>_. False))
             (if ok then Set (cw_open_update (\<lambda>_. False)) (Set (cw_password_update (\<lambda>_. [])) (Set reload Done)) else Done))))"

datatype passwd_event = CwOpen | CwClose | CwType string | CwSubmit

text \<open>The dialog is there only for kinds whose password can be changed.\<close>

fun passwd_handler :: "kind_config \<Rightarrow> json \<Rightarrow> passwd_event \<Rightarrow> passwd_dialog \<Rightarrow> passwd_dialog app_script" where
  "passwd_handler cfg row CwOpen s = (if kc_hasChangePassword cfg then Set (cw_open_update (\<lambda>_. True)) Done else Done)"
| "passwd_handler cfg row CwClose s = Set (cw_open_update (\<lambda>_. False)) Done"
| "passwd_handler cfg row (CwType t) s = (if cw_open s then Set (cw_password_update (\<lambda>_. t)) Done else Done)"
| "passwd_handler cfg row CwSubmit s = (if cw_open s \<and> \<not> cw_busy s then passwd_submit cfg row s else Done)"

subsection \<open>Credentials\<close>

text \<open>The rows of \<open>InternalCredentialsCard\<close>, as label and value; the password row is the secret one.\<close>

definition InternalCredentialsCard :: "kind_config \<Rightarrow> json \<Rightarrow> (string \<times> string) list" where
  "InternalCredentialsCard cfg row =
     [(''User'', if kc_kind cfg = ''redis'' then ''default'' else col row ''databaseUser'')]
     @ (if kc_kind cfg \<noteq> ''redis'' then [(''Database Name'', col row ''databaseName'')] else [])
     @ [(''Password'', col row ''databasePassword''),
        (''Internal Port (Container)'', kc_internalPort cfg),
        (''Internal Host'', col row ''appName'')]
     @ kc_extraRows cfg row
     @ [(''Internal Connection URL'', kc_internalUrl cfg row)]
     @ (case kc_replicationUrl cfg of Some u \<Rightarrow> [(''Internal Replication Connection URL'', u row)] | None \<Rightarrow> [])"

definition secret_dots :: "string \<Rightarrow> nat" where
  "secret_dots value = min (if value = [] then 8 else js_length value) 24"

record ports_card = relay_card +
  ep_ports :: "string js_record"
  ep_busy :: bool
  ep_errors :: "string js_record"
  ep_timer :: bool

definition initial_ports :: "kind_config \<Rightarrow> json \<Rightarrow> string js_record" where
  "initial_ports cfg row = map (\<lambda>p. (pd_key p, col row (pd_key p))) (kc_ports cfg)"

definition port_raw :: "string js_record \<Rightarrow> string \<Rightarrow> string" where
  "port_raw ports k = trim (case map_of ports k of Some t \<Rightarrow> t | None \<Rightarrow> [])"

definition port_problem :: "string \<Rightarrow> bool" where
  "port_problem raw \<longleftrightarrow> raw \<noteq> []
     \<and> (\<not> isFinite (js_Number raw) \<or> num_negative (js_Number raw) \<or> num_greater (js_Number raw) 65535)"

definition port_errors :: "kind_config \<Rightarrow> string js_record \<Rightarrow> string js_record" where
  "port_errors cfg ports =
     List.map_filter (\<lambda>p. if port_problem (port_raw ports (pd_key p)) then Some (pd_key p, ''Range must be 0 - 65535.'') else None)
       (kc_ports cfg)"

definition port_body :: "kind_config \<Rightarrow> string js_record \<Rightarrow> json js_record" where
  "port_body cfg ports =
     map (\<lambda>p. (pd_key p, if port_raw ports (pd_key p) = [] then JNull else js_num_json (js_Number (port_raw ports (pd_key p)))))
       (kc_ports cfg)"

definition anyPortSet :: "string js_record \<Rightarrow> bool" where
  "anyPortSet ports \<longleftrightarrow> list_ex (\<lambda>(k, v). trim v \<noteq> []) ports"

definition hostIp :: "json \<Rightarrow> string" where
  "hostIp row = or_text (str (Option.bind (prop_of row ''server'') (\<lambda>v. prop_of v ''ipAddress''))) ''your-server-ip''"

definition ports_op :: "kind_config \<Rightarrow> string" where
  "ports_op cfg = (if kc_kind cfg = ''libsql'' then ''saveExternalPorts'' else ''saveExternalPort'')"

definition external_shown :: "kind_config \<Rightarrow> json \<Rightarrow> ports_card \<Rightarrow> string option" where
  "external_shown cfg row s = (if anyPortSet (ep_ports s) then Some (kc_externalUrl cfg row (hostIp row) (ep_ports s)) else None)"

definition ports_save :: "kind_config \<Rightarrow> json \<Rightarrow> ports_card \<Rightarrow> ports_card app_script" where
  "ports_save cfg row s =
     Set (ep_errors_update (\<lambda>_. port_errors cfg (ep_ports s)))
       (if port_errors cfg (ep_ports s) \<noteq> [] then Done
        else with_flag ep_busy_update
          (try_catch
            (await (service_post cfg row (ports_op cfg) (port_body cfg (ep_ports s)))
              (\<lambda>_. Set (toast_success ''External port updated'') (Set reload Done)))
            (\<lambda>cause. Set (toast_error (toErrorMessage cause)) Done)))"

datatype ports_event = EpTimer | EpType string string | EpSave

fun ports_handler :: "kind_config \<Rightarrow> json \<Rightarrow> ports_event \<Rightarrow> ports_card \<Rightarrow> ports_card app_script" where
  "ports_handler cfg row EpTimer s =
     (if ep_timer s then Set (\<lambda>x. x\<lparr>ep_ports := initial_ports cfg row, ep_timer := False\<rparr>) Done else Done)"
| "ports_handler cfg row (EpType k t) s =
     (if k \<in> pd_key ` set (kc_ports cfg) then Set (ep_ports_update (AList.update k t)) Done else Done)"
| "ports_handler cfg row EpSave s = (if ep_busy s then Done else ports_save cfg row s)"

subsection \<open>GeneralTab\<close>

record general_tab = relay_card +
  gt_status :: string
  gt_timer :: bool

definition STATUSES :: "string list" where
  "STATUSES = [''idle'', ''running'', ''done'', ''error'']"

definition shown_status :: "json \<Rightarrow> string" where
  "shown_status row = or_text (col row ''applicationStatus'') ''idle''"

definition changeStatus :: "kind_config \<Rightarrow> json \<Rightarrow> string \<Rightarrow> general_tab app_script" where
  "changeStatus cfg row value =
     runMutation (service_post cfg row ''changeStatus'' [(''applicationStatus'', JStr value)])
       ''Application status updated'' (\<lambda>_. Set reload Done)"

datatype general_event = GtTimer | GtStatus string

fun general_handler :: "kind_config \<Rightarrow> json \<Rightarrow> general_event \<Rightarrow> general_tab \<Rightarrow> general_tab app_script" where
  "general_handler cfg row GtTimer s =
     (if gt_timer s then Set (\<lambda>x. x\<lparr>gt_status := shown_status row, gt_timer := False\<rparr>) Done else Done)"
| "general_handler cfg row (GtStatus v) s = (if v \<in> set STATUSES then changeStatus cfg row v else Done)"

subsection \<open>EnvironmentTab\<close>

record environment_tab = relay_card +
  et_env :: string
  et_busy :: bool
  et_timer :: bool

definition environment_save :: "kind_config \<Rightarrow> json \<Rightarrow> environment_tab \<Rightarrow> environment_tab app_script" where
  "environment_save cfg row s =
     Set (et_busy_update (\<lambda>_. True))
       (runMutation (service_post cfg row ''saveEnvironment'' [(''env'', JStr (et_env s))])
         ''Environment saved successfully''
         (\<lambda>ok. Set (et_busy_update (\<lambda>_. False)) (if ok then Set reload Done else Done)))"

datatype environment_event = EtTimer | EtType string | EtSave

fun environment_handler :: "kind_config \<Rightarrow> json \<Rightarrow> environment_event \<Rightarrow> environment_tab \<Rightarrow> environment_tab app_script" where
  "environment_handler cfg row EtTimer s =
     (if et_timer s then Set (\<lambda>x. x\<lparr>et_env := col row ''env'', et_timer := False\<rparr>) Done else Done)"
| "environment_handler cfg row (EtType t) s = Set (et_env_update (\<lambda>_. t)) Done"
| "environment_handler cfg row EtSave s =
     (if et_busy s \<or> et_env s = col row ''env'' then Done else environment_save cfg row s)"

subsection \<open>LogsTab\<close>

text \<open>\<open>lg_containers\<close> is what the container hook has loaded; its first answer starts the timer that
  selects the first container.\<close>

record logs_tab =
  lg_containers :: "json list option"
  lg_requested :: bool
  lg_timer :: "string option"
  lg_containerId :: string
  lg_tail :: string
  lg_search :: string
  lg_logs :: "string option"
  lg_loading :: bool
  lg_error :: "app_failure option"

definition containers_call :: "json \<Rightarrow> app_call" where
  "containers_call row = relay_get ''docker.getContainersByAppNameMatch'' [(''appName'', QStr (col row ''appName''))]"

definition containers_loaded :: "json list \<Rightarrow> logs_tab \<Rightarrow> logs_tab" where
  "containers_loaded cs s =
     s\<lparr>lg_containers := Some cs, lg_requested := True,
       lg_timer := (if lg_requested s then None
                    else case cs of c # _ \<Rightarrow> Some (col c ''containerId'') | [] \<Rightarrow> None)\<rparr>"

definition logs_call :: "kind_config \<Rightarrow> json \<Rightarrow> logs_tab \<Rightarrow> app_call" where
  "logs_call cfg row s =
     relay_get (kc_kind cfg @ ''.readLogs'')
       ([(kc_idKey cfg, QStr (service_id cfg row)), (''tail'', QStr (or_text (lg_tail s) ''100''))]
        @ (if lg_search s = [] then [] else [(''search'', QStr (lg_search s))]))"

text \<open>A text is shown as it is; \<open>JSON.stringify(undefined)\<close> is \<open>undefined\<close>, which is shown like the
  empty text.\<close>

definition log_text :: "json option \<Rightarrow> string" where
  "log_text v = (case v of Some (JStr t) \<Rightarrow> t | Some j \<Rightarrow> stringify_gap ''  '' [] j | None \<Rightarrow> [])"

definition fetchLogs :: "kind_config \<Rightarrow> json \<Rightarrow> logs_tab \<Rightarrow> logs_tab app_script" where
  "fetchLogs cfg row s =
     with_flag lg_loading_update (Set (lg_error_update (\<lambda>_. None))
       (try_catch
         (await (logs_call cfg row s) (\<lambda>v. Set (lg_logs_update (\<lambda>_. Some (log_text v))) Done))
         (\<lambda>cause. Set (lg_error_update (\<lambda>_. Some cause)) Done)))"

definition logs_shown :: "logs_tab \<Rightarrow> bool" where
  "logs_shown s \<longleftrightarrow> (case lg_containers s of Some (c # cs) \<Rightarrow> True | _ \<Rightarrow> False)"

datatype logs_event = LgContainers "json list" | LgTimer | LgPick string | LgTail string | LgSearch string | LgFetch

fun logs_handler :: "kind_config \<Rightarrow> json \<Rightarrow> logs_event \<Rightarrow> logs_tab \<Rightarrow> logs_tab app_script" where
  "logs_handler cfg row (LgContainers cs) s = Set (containers_loaded cs) Done"
| "logs_handler cfg row LgTimer s =
     (case lg_timer s of Some c \<Rightarrow> Set (\<lambda>x. x\<lparr>lg_containerId := c, lg_timer := None\<rparr>) Done | None \<Rightarrow> Done)"
| "logs_handler cfg row (LgPick c) s =
     (if logs_shown s \<and> c \<in> set (map (\<lambda>r. col r ''containerId'') (the (lg_containers s)))
      then Set (lg_containerId_update (\<lambda>_. c)) Done else Done)"
| "logs_handler cfg row (LgTail t) s = (if logs_shown s then Set (lg_tail_update (\<lambda>_. t)) Done else Done)"
| "logs_handler cfg row (LgSearch t) s = (if logs_shown s then Set (lg_search_update (\<lambda>_. t)) Done else Done)"
| "logs_handler cfg row LgFetch s = (if logs_shown s \<and> \<not> lg_loading s then fetchLogs cfg row s else Done)"

subsection \<open>MonitoringTab\<close>

definition last_point :: "json option \<Rightarrow> json option" where
  "last_point points = (case points of Some (JArr xs) \<Rightarrow> if xs = [] then None else Some (List.last xs) | _ \<Rightarrow> None)"

text \<open>\<open>formatBytesNumber\<close> of an optional number.\<close>

definition formatBytesNumber :: "json option \<Rightarrow> string \<Rightarrow> string" where
  "formatBytesNumber v unit_name = (case v of Some (JNum q) \<Rightarrow> toFixed 2 q @ unit_name | _ \<Rightarrow> em_dash)"

definition opt_col :: "json option \<Rightarrow> string \<Rightarrow> json option" where
  "opt_col v k = Option.bind v (\<lambda>x. prop_of x k)"

definition metric_empty :: "json option \<Rightarrow> bool" where
  "metric_empty points \<longleftrightarrow> (case points of Some (JArr xs) \<Rightarrow> xs = [] | _ \<Rightarrow> True)"

definition metrics_isEmpty :: "json \<Rightarrow> bool" where
  "metrics_isEmpty data \<longleftrightarrow>
     (case prop_of data ''cpu'' of
        Some (JArr xs) \<Rightarrow> xs = [] \<and> metric_empty (prop_of data ''memory'') \<and> metric_empty (prop_of data ''block'')
          \<and> metric_empty (prop_of data ''network'')
      | _ \<Rightarrow> True)"

definition sample_time :: "json \<Rightarrow> string \<Rightarrow> string" where
  "sample_time data k = or_text (str (opt_col (last_point (prop_of data k)) ''time'')) em_dash"

definition metric_value :: "json \<Rightarrow> string \<Rightarrow> string \<Rightarrow> string" where
  "metric_value data series k = formatBytesNumber (opt_col (opt_col (last_point (prop_of data series)) ''value'') k) ''MB''"

definition down_arrow :: string where
  "down_arrow = [CHR 0xE2, CHR 0x86, CHR 0x93, CHR '' '']"

definition up_arrow :: string where
  "up_arrow = [CHR '' '', CHR 0xE2, CHR 0x86, CHR 0x91, CHR '' '']"

definition dot :: string where
  "dot = '' '' @ middle_dot @ '' ''"

text \<open>The cards shown, as title, text and caption; \<open>None\<close> is the empty state.\<close>

definition MonitoringTab :: "json \<Rightarrow> (string \<times> string \<times> string) list option" where
  "MonitoringTab data =
     (if metrics_isEmpty data then None
      else Some
        ([(''CPU'', case opt_col (last_point (prop_of data ''cpu'')) ''value'' of Some (JStr c) \<Rightarrow> c | _ \<Rightarrow> em_dash,
             ''last sample'' @ dot @ sample_time data ''cpu''),
          (''Memory'', metric_value data ''memory'' ''used'' @ '' / '' @ metric_value data ''memory'' ''total'',
             ''used / total'' @ dot @ sample_time data ''memory''),
          (''Block I/O'', down_arrow @ metric_value data ''block'' ''readMb'' @ up_arrow @ metric_value data ''block'' ''writeMb'',
             ''read / write'' @ dot @ sample_time data ''block''),
          (''Network'', down_arrow @ metric_value data ''network'' ''inputMb'' @ up_arrow @ metric_value data ''network'' ''outputMb'',
             ''input / output'' @ dot @ sample_time data ''network'')]
         @ (case opt_col (last_point (prop_of data ''disk'')) ''value'' of
              Some d \<Rightarrow> if truthy d then
                [(''Disk'', ''total '' @ metric_value data ''disk'' ''diskTotal'' @ dot @ ''used '' @ metric_value data ''disk'' ''diskUsage''
                    @ dot @ ''free '' @ metric_value data ''disk'' ''diskFree'' @ dot
                    @ js_String (coalesce (prop_of d ''diskUsedPercentage'') (JStr em_dash)) @ ''% used'', [])] else []
            | None \<Rightarrow> [])))"

subsection \<open>Backups\<close>

text \<open>The cells of \<open>BackupFormDialog\<close>; \<open>bf_closed\<close> counts calls of \<open>onClose\<close>.\<close>

record backup_form = relay_card +
  bf_schedule :: string
  bf_prefix :: string
  bf_destinationId :: string
  bf_database :: string
  bf_enabled :: bool
  bf_keepLatestCount :: string
  bf_busy :: bool
  bf_errors :: "string js_record"
  bf_closed :: nat

definition text_or :: "json option \<Rightarrow> string \<Rightarrow> string \<Rightarrow> string" where
  "text_or v k d = (if nullish (opt_col v k) then d else str (opt_col v k))"

definition defaultDatabase :: "kind_config \<Rightarrow> json \<Rightarrow> string" where
  "defaultDatabase cfg row =
     (if kc_kind cfg = ''libsql'' then or_text (col row ''databaseName'') ''iku.db'' else col row ''databaseName'')"

definition open_backup_form :: "kind_config \<Rightarrow> json \<Rightarrow> json option \<Rightarrow> backup_form" where
  "open_backup_form cfg row backup =
     \<lparr>toasts = [], sv_reloads = 0, bf_schedule = text_or backup ''schedule'' [], bf_prefix = text_or backup ''prefix'' ''/'',
      bf_destinationId = text_or backup ''destinationId'' [], bf_database = text_or backup ''database'' (defaultDatabase cfg row),
      bf_enabled = truthy (coalesce (opt_col backup ''enabled'') (JBool True)),
      bf_keepLatestCount = text_or backup ''keepLatestCount'' [], bf_busy = False, bf_errors = [], bf_closed = 0\<rparr>"

definition backup_validate :: "backup_form \<Rightarrow> string js_record" where
  "backup_validate s =
     (if trim (bf_schedule s) = [] then [(''schedule'', ''Schedule (Cron) required.'')] else [])
     @ (if trim (bf_prefix s) = [] then [(''prefix'', ''Prefix required.'')] else [])
     @ (if bf_destinationId s = [] then [(''destinationId'', ''Destination required.'')] else [])
     @ (if trim (bf_database s) = [] then [(''database'', ''Database required.'')] else [])
     @ (if trim (bf_keepLatestCount s) \<noteq> [] \<and> \<not> isFinite (js_Number (bf_keepLatestCount s))
        then [(''keepLatestCount'', ''Keep latest count must be a number.'')] else [])"

definition keep_json :: "backup_form \<Rightarrow> json" where
  "keep_json s = (if trim (bf_keepLatestCount s) = [] then JNull else js_num_json (js_Number (bf_keepLatestCount s)))"

definition backup_fields :: "backup_form \<Rightarrow> json js_record" where
  "backup_fields s =
    [(''schedule'', JStr (trim (bf_schedule s))), (''prefix'', JStr (trim (bf_prefix s))),
     (''destinationId'', JStr (bf_destinationId s)), (''database'', JStr (trim (bf_database s))),
     (''enabled'', JBool (bf_enabled s)), (''keepLatestCount'', keep_json s)]"

definition backup_id :: "json \<Rightarrow> json" where
  "backup_id b = coalesce (prop_of b ''backupId'') JNull"

definition backup_call :: "kind_config \<Rightarrow> json \<Rightarrow> json option \<Rightarrow> backup_form \<Rightarrow> app_call" where
  "backup_call cfg row backup s =
     (case backup of
        Some b \<Rightarrow> relay_post ''backup.update''
          ([(''backupId'', backup_id b)] @ backup_fields s
           @ [(''serviceName'', JNull), (''metadata'', JNull), (''databaseType'', JStr (kc_kind cfg)),
              (''includeEncryptionKey'', JBool False)])
      | None \<Rightarrow> relay_post ''backup.create''
          (backup_fields s
           @ [(''databaseType'', JStr (kc_kind cfg)), (''backupType'', JStr ''database''), (''userId'', JNull),
              (''serviceName'', JNull), (''composeId'', JNull), (''includeEncryptionKey'', JBool False), (''metadata'', JNull),
              (kc_idKey cfg, JStr (service_id cfg row))]))"

definition backup_submit :: "kind_config \<Rightarrow> json \<Rightarrow> json option \<Rightarrow> backup_form \<Rightarrow> backup_form app_script" where
  "backup_submit cfg row backup s =
     Set (bf_errors_update (\<lambda>_. backup_validate s))
       (if backup_validate s \<noteq> [] then Done
        else with_flag bf_busy_update
          (try_catch
            (await (backup_call cfg row backup s)
              (\<lambda>_. Set (toast_success (if backup \<noteq> None then ''Backup updated successfully'' else ''Backup created successfully''))
                 (Set reload (Set (bf_closed_update Suc) Done))))
            (\<lambda>cause. if service_fieldErrors cause \<noteq> []
               then Set (bf_errors_update (\<lambda>_. service_fieldErrors cause))
                 (Set (toast_error (''Upstream rejected the backup form '' @ em_dash @ '' fix the highlighted fields.'')) Done)
               else Set (toast_error (toErrorMessage cause)) Done)))"

datatype backup_form_event =
    BfDestination string
  | BfSchedule string
  | BfPrefix string
  | BfDatabase string
  | BfKeep string
  | BfEnabled bool
  | BfCancel
  | BfDismiss
  | BfSubmit

fun backup_form_handler ::
  "kind_config \<Rightarrow> json \<Rightarrow> json option \<Rightarrow> json list \<Rightarrow> backup_form_event \<Rightarrow> backup_form \<Rightarrow> backup_form app_script" where
  "backup_form_handler cfg row backup destinations (BfDestination d) s =
     (if d \<in> set (map (\<lambda>r. col r ''destinationId'') destinations) then Set (bf_destinationId_update (\<lambda>_. d)) Done else Done)"
| "backup_form_handler cfg row backup destinations (BfSchedule t) s = Set (bf_schedule_update (\<lambda>_. t)) Done"
| "backup_form_handler cfg row backup destinations (BfPrefix t) s = Set (bf_prefix_update (\<lambda>_. t)) Done"
| "backup_form_handler cfg row backup destinations (BfDatabase t) s = Set (bf_database_update (\<lambda>_. t)) Done"
| "backup_form_handler cfg row backup destinations (BfKeep t) s = Set (bf_keepLatestCount_update (\<lambda>_. t)) Done"
| "backup_form_handler cfg row backup destinations (BfEnabled b) s = Set (bf_enabled_update (\<lambda>_. b)) Done"
| "backup_form_handler cfg row backup destinations BfCancel s = (if bf_busy s then Done else Set (bf_closed_update Suc) Done)"
| "backup_form_handler cfg row backup destinations BfDismiss s = Set (bf_closed_update Suc) Done"
| "backup_form_handler cfg row backup destinations BfSubmit s = (if bf_busy s then Done else backup_submit cfg row backup s)"

text \<open>\<open>BackupFilesSheet\<close> lists the objects under the prefix.\<close>

definition files_call :: "json \<Rightarrow> string \<Rightarrow> app_call" where
  "files_call backup query =
     relay_get ''backup.listBackupFiles'' [(''destinationId'', QStr (col backup ''destinationId'')), (''search'', QStr query)]"

text \<open>The cells of \<open>BackupsTab\<close>; the destinations are those of its loading hook.\<close>

record backups_tab = relay_card +
  bt_destinations :: "json list"
  bt_loading :: bool
  bt_failed :: bool
  bt_formOpen :: bool
  bt_editTarget :: "json option"
  bt_removeTarget :: "json option"
  bt_runTarget :: "json option"
  bt_filesTarget :: "json option"
  bt_busy :: bool

definition backup_rows :: "json \<Rightarrow> json list" where
  "backup_rows row = array_or_empty (prop_of row ''backups'')"

definition backups_shown :: "backups_tab \<Rightarrow> bool" where
  "backups_shown s \<longleftrightarrow> \<not> bt_failed s \<and> (bt_destinations s \<noteq> [] \<or> bt_loading s)"

definition remove_backup :: "json \<Rightarrow> backups_tab app_script" where
  "remove_backup target =
     Set (bt_busy_update (\<lambda>_. True))
       (runMutation (relay_post ''backup.remove'' [(''backupId'', backup_id target)]) ''Backup deleted successfully''
         (\<lambda>ok. Set (bt_busy_update (\<lambda>_. False)) (Set (bt_removeTarget_update (\<lambda>_. None)) (if ok then Set reload Done else Done))))"

definition manual_op :: "kind_config \<Rightarrow> string" where
  "manual_op cfg = (case map_of MANUAL_BACKUP_OP (kc_kind cfg) of Some p \<Rightarrow> p | None \<Rightarrow> [])"

definition runManual :: "kind_config \<Rightarrow> json \<Rightarrow> backups_tab app_script" where
  "runManual cfg target =
     Set (bt_busy_update (\<lambda>_. True))
       (runMutation (relay_post (manual_op cfg) [(''backupId'', backup_id target)]) ''Manual Backup Successful''
         (\<lambda>ok. Set (bt_busy_update (\<lambda>_. False)) (Set (bt_runTarget_update (\<lambda>_. None)) (if ok then Set reload Done else Done))))"

datatype backups_event =
    BtLoaded "json list"
  | BtFailed
  | BtCreate
  | BtEdit nat
  | BtRemove nat
  | BtRun nat
  | BtFiles nat
  | BtCloseForms
  | BtDismissRemove
  | BtDismissRun
  | BtConfirmRemove
  | BtConfirmRun

definition on_backup :: "json \<Rightarrow> backups_tab \<Rightarrow> nat \<Rightarrow> (json \<Rightarrow> backups_tab \<Rightarrow> backups_tab) \<Rightarrow> backups_tab app_script" where
  "on_backup row s i f =
     (if backups_shown s \<and> i < length (backup_rows row) then Set (f (backup_rows row ! i)) Done else Done)"

fun backups_handler :: "kind_config \<Rightarrow> json \<Rightarrow> backups_event \<Rightarrow> backups_tab \<Rightarrow> backups_tab app_script" where
  "backups_handler cfg row (BtLoaded ds) s =
     Set (\<lambda>x. x\<lparr>bt_destinations := ds, bt_failed := False, bt_loading := False\<rparr>) Done"
| "backups_handler cfg row BtFailed s = Set (\<lambda>x. x\<lparr>bt_failed := True, bt_loading := False\<rparr>) Done"
| "backups_handler cfg row BtCreate s = (if backups_shown s then Set (bt_formOpen_update (\<lambda>_. True)) Done else Done)"
| "backups_handler cfg row (BtEdit i) s = on_backup row s i (\<lambda>b. bt_editTarget_update (\<lambda>_. Some b))"
| "backups_handler cfg row (BtRemove i) s = on_backup row s i (\<lambda>b. bt_removeTarget_update (\<lambda>_. Some b))"
| "backups_handler cfg row (BtRun i) s = on_backup row s i (\<lambda>b. bt_runTarget_update (\<lambda>_. Some b))"
| "backups_handler cfg row (BtFiles i) s = on_backup row s i (\<lambda>b. bt_filesTarget_update (\<lambda>_. Some b))"
| "backups_handler cfg row BtCloseForms s =
     Set (\<lambda>x. x\<lparr>bt_formOpen := False, bt_editTarget := None, bt_filesTarget := None\<rparr>) Done"
| "backups_handler cfg row BtDismissRemove s = Set (bt_removeTarget_update (\<lambda>_. None)) Done"
| "backups_handler cfg row BtDismissRun s = Set (bt_runTarget_update (\<lambda>_. None)) Done"
| "backups_handler cfg row BtConfirmRemove s =
     (case bt_removeTarget s of Some b \<Rightarrow> if backups_shown s \<and> \<not> bt_busy s then remove_backup b else Done | None \<Rightarrow> Done)"
| "backups_handler cfg row BtConfirmRun s =
     (case bt_runTarget s of Some b \<Rightarrow> if backups_shown s \<and> \<not> bt_busy s then runManual cfg b else Done | None \<Rightarrow> Done)"

subsection \<open>AdvancedTab\<close>

record command_card = relay_card +
  cc_dockerImage :: string
  cc_command :: string
  cc_args :: "string list"
  cc_busy :: bool
  cc_error :: "string option"
  cc_timer :: bool

definition row_args :: "json \<Rightarrow> string list" where
  "row_args row = map js_String (array_or_empty (prop_of row ''args''))"

definition command_save :: "kind_config \<Rightarrow> json \<Rightarrow> command_card \<Rightarrow> command_card app_script" where
  "command_save cfg row s =
     (if trim (cc_dockerImage s) = [] then Set (cc_error_update (\<lambda>_. Some ''Docker image is required.'')) Done
      else Set (cc_error_update (\<lambda>_. None)) (Set (cc_busy_update (\<lambda>_. True))
        (runMutation
          (service_post cfg row ''update''
            [(''dockerImage'', JStr (trim (cc_dockerImage s))), (''command'', JStr (cc_command s)),
             (''args'', JArr (map JStr (filter (\<lambda>a. trim a \<noteq> []) (cc_args s))))])
          ''Custom command updated''
          (\<lambda>ok. Set (cc_busy_update (\<lambda>_. False)) (if ok then Set reload Done else Done)))))"

datatype command_event = CcTimer | CcImage string | CcCommand string | CcAdd | CcArg nat string | CcDrop nat | CcSave

fun command_handler :: "kind_config \<Rightarrow> json \<Rightarrow> command_event \<Rightarrow> command_card \<Rightarrow> command_card app_script" where
  "command_handler cfg row CcTimer s =
     (if cc_timer s then Set (\<lambda>x. x\<lparr>cc_dockerImage := col row ''dockerImage'', cc_command := col row ''command'',
        cc_args := row_args row, cc_timer := False\<rparr>) Done else Done)"
| "command_handler cfg row (CcImage t) s = Set (cc_dockerImage_update (\<lambda>_. t)) Done"
| "command_handler cfg row (CcCommand t) s = Set (cc_command_update (\<lambda>_. t)) Done"
| "command_handler cfg row CcAdd s = Set (cc_args_update (\<lambda>as. as @ [[]])) Done"
| "command_handler cfg row (CcArg i t) s = Set (cc_args_update (\<lambda>as. as[i := t])) Done"
| "command_handler cfg row (CcDrop i) s = Set (cc_args_update (drop_nth i)) Done"
| "command_handler cfg row CcSave s = (if cc_busy s then Done else command_save cfg row s)"

record resources_card = relay_card +
  rs_values :: "string js_record"
  rs_replicas :: string
  rs_busy :: bool
  rs_timer :: bool

definition RESOURCE_FIELDS :: "string list" where
  "RESOURCE_FIELDS = [''memoryLimit'', ''memoryReservation'', ''cpuLimit'', ''cpuReservation'']"

definition initial_resources :: "json \<Rightarrow> string js_record" where
  "initial_resources row = map (\<lambda>k. (k, col row k)) RESOURCE_FIELDS"

definition resource_body :: "resources_card \<Rightarrow> json js_record" where
  "resource_body s =
     List.map_filter (\<lambda>k. let raw = port_raw (rs_values s) k in if raw \<noteq> [] then Some (k, JStr raw) else None) RESOURCE_FIELDS
     @ (if trim (rs_replicas s) \<noteq> [] \<and> isFinite (js_Number (rs_replicas s))
        then [(''replicas'', js_num_json (js_Number (rs_replicas s)))] else [])"

definition resources_save :: "kind_config \<Rightarrow> json \<Rightarrow> resources_card \<Rightarrow> resources_card app_script" where
  "resources_save cfg row s =
     Set (rs_busy_update (\<lambda>_. True))
       (runMutation (service_post cfg row ''update'' (resource_body s)) ''Resource limits updated''
         (\<lambda>ok. Set (rs_busy_update (\<lambda>_. False)) (if ok then Set reload Done else Done)))"

datatype resources_event = RsTimer | RsType string string | RsReplicas string | RsSave

fun resources_handler :: "kind_config \<Rightarrow> json \<Rightarrow> resources_event \<Rightarrow> resources_card \<Rightarrow> resources_card app_script" where
  "resources_handler cfg row RsTimer s =
     (if rs_timer s then Set (\<lambda>x. x\<lparr>rs_values := initial_resources row,
        rs_replicas := or_text (col row ''replicas'') ''1'', rs_timer := False\<rparr>) Done else Done)"
| "resources_handler cfg row (RsType k t) s =
     (if k \<in> set RESOURCE_FIELDS then Set (rs_values_update (AList.update k t)) Done else Done)"
| "resources_handler cfg row (RsReplicas t) s = Set (rs_replicas_update (\<lambda>_. t)) Done"
| "resources_handler cfg row RsSave s = (if rs_busy s then Done else resources_save cfg row s)"

record json_card = relay_card +
  jc_payload :: string
  jc_busy :: bool
  jc_error :: "string option"
  jc_timer :: bool

definition default_payload_fields :: "kind_config \<Rightarrow> json \<Rightarrow> json js_record" where
  "default_payload_fields cfg row =
    [(kc_idKey cfg, JStr (service_id cfg row)),
     (''dockerImage'', JStr (col row ''dockerImage'')),
     (''command'', coalesce (prop_of row ''command'') JNull),
     (''args'', JArr (array_or_empty (prop_of row ''args''))),
     (''memoryReservation'', coalesce (prop_of row ''memoryReservation'') JNull),
     (''memoryLimit'', coalesce (prop_of row ''memoryLimit'') JNull),
     (''cpuReservation'', coalesce (prop_of row ''cpuReservation'') JNull),
     (''cpuLimit'', coalesce (prop_of row ''cpuLimit'') JNull),
     (''replicas'', coalesce (prop_of row ''replicas'') (JNum 1))]"

definition defaultPayload :: "kind_config \<Rightarrow> json \<Rightarrow> string" where
  "defaultPayload cfg row = stringify_gap ''  '' [] (JObj (default_payload_fields cfg row))"

text \<open>The identifier is filled in when the text has none; \<open>engine\<close> is the message of the engine's
  \<open>SyntaxError\<close>.\<close>

definition with_id :: "kind_config \<Rightarrow> json \<Rightarrow> json js_record \<Rightarrow> json js_record" where
  "with_id cfg row body =
     (if str (map_of body (kc_idKey cfg)) = [] then AList.update (kc_idKey cfg) (JStr (service_id cfg row)) body else body)"

definition json_save :: "(string \<Rightarrow> string) \<Rightarrow> kind_config \<Rightarrow> json \<Rightarrow> json_card \<Rightarrow> json_card app_script" where
  "json_save engine cfg row s =
     (case JSON_parse (jc_payload s) of
        None \<Rightarrow> Set (jc_error_update (\<lambda>_. Some (engine (jc_payload s)))) Done
      | Some (JObj body) \<Rightarrow>
          Set (jc_busy_update (\<lambda>_. True))
            (runMutation (relay_post (kc_kind cfg @ ''.update'') (with_id cfg row body)) ''Advanced JSON update applied''
              (\<lambda>ok. Set (jc_busy_update (\<lambda>_. False)) (if ok then Set reload Done else Done)))
      | Some _ \<Rightarrow> Set (jc_error_update (\<lambda>_. Some ''Payload must be a JSON object.'')) Done)"

datatype json_event = JcTimer | JcType string | JcSave

fun json_handler :: "(string \<Rightarrow> string) \<Rightarrow> kind_config \<Rightarrow> json \<Rightarrow> json_event \<Rightarrow> json_card \<Rightarrow> json_card app_script" where
  "json_handler engine cfg row JcTimer s =
     (if jc_timer s then Set (\<lambda>x. x\<lparr>jc_payload := defaultPayload cfg row, jc_error := None, jc_timer := False\<rparr>) Done else Done)"
| "json_handler engine cfg row (JcType t) s = Set (\<lambda>x. x\<lparr>jc_payload := t, jc_error := None\<rparr>) Done"
| "json_handler engine cfg row JcSave s = (if jc_busy s then Done else json_save engine cfg row s)"

subsection \<open>DatabaseCreateDialog\<close>

record create_dialog = ui +
  cd_values :: "string js_record"
  cd_busy :: bool
  cd_errors :: "string js_record"
  cd_created :: "json list"
  cd_closed :: nat

definition create_initial :: "field_def \<Rightarrow> string" where
  "create_initial f =
     (case fd_initial f of Some v \<Rightarrow> v | None \<Rightarrow> if fd_kind f = FSwitch then ''false'' else [])"

definition open_create :: "kind_config \<Rightarrow> create_dialog" where
  "open_create cfg = \<lparr>toasts = [], cd_values = map (\<lambda>f. (fd_key f, create_initial f)) (kc_createFields cfg),
     cd_busy = False, cd_errors = [], cd_created = [], cd_closed = 0\<rparr>"

definition create_setValue :: "string \<Rightarrow> string \<Rightarrow> create_dialog \<Rightarrow> create_dialog" where
  "create_setValue k v s = s\<lparr>cd_values := AList.update k v (cd_values s), cd_errors := AList.delete k (cd_errors s)\<rparr>"

definition typed_value :: "string js_record \<Rightarrow> field_def \<Rightarrow> string" where
  "typed_value vals f = (case map_of vals (fd_key f) of Some v \<Rightarrow> v | None \<Rightarrow> [])"

text \<open>One round of the loop of \<open>submit\<close>: an error, a value for the body, or nothing.\<close>

definition create_field :: "string js_record \<Rightarrow> field_def \<Rightarrow> string + json option" where
  "create_field vals f =
     (let raw = trim (typed_value vals f)
      in if fd_kind f = FSwitch then Inr (Some (JBool (raw = ''true'')))
         else if fd_required f \<and> raw = [] then Inl (fd_label f @ '' is required.'')
         else if str_includes (toLowerCase (fd_key f)) ''password'' \<and> raw \<noteq> [] \<and> \<not> DATABASE_PASSWORD_PATTERN raw
         then Inl (''Invalid characters. '' @ PASSWORD_RULE)
         else if raw \<noteq> [] then Inr (Some (JStr (if fd_kind f = FTextarea then typed_value vals f else raw)))
         else if fd_sendNull f then Inr (Some JNull)
         else Inr None)"

definition create_errors :: "kind_config \<Rightarrow> string js_record \<Rightarrow> string js_record" where
  "create_errors cfg vals =
     List.map_filter (\<lambda>f. case create_field vals f of Inl e \<Rightarrow> Some (fd_key f, e) | Inr _ \<Rightarrow> None) (kc_createFields cfg)"

definition service_create_body :: "kind_config \<Rightarrow> string \<Rightarrow> string js_record \<Rightarrow> json js_record" where
  "service_create_body cfg environmentId vals =
     (''environmentId'', JStr environmentId)
     # List.map_filter (\<lambda>f. case create_field vals f of Inr (Some v) \<Rightarrow> Some (fd_key f, v) | _ \<Rightarrow> None) (kc_createFields cfg)"

definition create_submit :: "kind_config \<Rightarrow> string \<Rightarrow> create_dialog \<Rightarrow> create_dialog app_script" where
  "create_submit cfg environmentId s =
     Set (cd_errors_update (\<lambda>_. create_errors cfg (cd_values s)))
       (if create_errors cfg (cd_values s) \<noteq> [] then Set (toast_error ''Please fix the highlighted fields.'') Done
        else with_flag cd_busy_update
          (try_catch
            (await (relay_post (kc_kind cfg @ ''.create'') (service_create_body cfg environmentId (cd_values s)))
              (\<lambda>created. Set (toast_success (kc_label cfg @ '' created successfully''))
                 (Set (cd_created_update (\<lambda>cs. cs @ [coalesce created (JObj [])])) (Set (cd_closed_update Suc) Done))))
            (\<lambda>cause. if service_fieldErrors cause \<noteq> []
               then Set (cd_errors_update (\<lambda>_. service_fieldErrors cause))
                 (Set (toast_error (''Upstream rejected the form '' @ em_dash @ '' fix the highlighted fields.'')) Done)
               else Set (toast_error (toErrorMessage cause)) Done)))"

text \<open>A switch takes two values, a list its options, any other field every text.\<close>

definition field_accepts :: "field_def \<Rightarrow> string \<Rightarrow> bool" where
  "field_accepts f v \<longleftrightarrow>
     (case fd_kind f of FSwitch \<Rightarrow> v \<in> {''true'', ''false''} | FSelect \<Rightarrow> v \<in> set (fd_options f) | _ \<Rightarrow> True)"

datatype create_event = CdType string string | CdCancel | CdDismiss | CdSubmit

fun create_handler :: "kind_config \<Rightarrow> string \<Rightarrow> create_event \<Rightarrow> create_dialog \<Rightarrow> create_dialog app_script" where
  "create_handler cfg environmentId (CdType k v) s =
     (if list_ex (\<lambda>f. fd_key f = k \<and> field_accepts f v) (kc_createFields cfg) then Set (create_setValue k v) Done else Done)"
| "create_handler cfg environmentId CdCancel s = (if cd_busy s then Done else Set (cd_closed_update Suc) Done)"
| "create_handler cfg environmentId CdDismiss s = Set (cd_closed_update Suc) Done"
| "create_handler cfg environmentId CdSubmit s = (if cd_busy s then Done else create_submit cfg environmentId s)"

subsection \<open>The page\<close>

definition service_call :: "kind_config \<Rightarrow> string \<Rightarrow> app_call" where
  "service_call cfg serviceId = relay_get (kc_kind cfg @ ''.one'') [(kc_idKey cfg, QStr serviceId)]"

definition service_tabs :: "kind_config \<Rightarrow> string list" where
  "service_tabs cfg =
     [''general'', ''environment'', ''logs'', ''monitoring''] @ (if kc_hasBackups cfg then [''backups''] else []) @ [''advanced'']"

text \<open>The trail of names above the page, and its title and description.\<close>

definition service_trail :: "kind_config \<Rightarrow> json option \<Rightarrow> string list" where
  "service_trail cfg row =
     (let environment = opt_col row ''environment''
      in [''Projects'', or_text (str (opt_col (opt_col environment ''project'') ''name'')) ''Project'',
          or_text (str (opt_col environment ''name'')) ''Environment'', or_text (str (opt_col row ''name'')) (kc_label cfg)])"

datatype service_view = ViewLoading | ViewError app_failure | ViewService string string "string list" | ViewNothing

definition DatabaseServicePage :: "kind_config \<Rightarrow> (json, app_failure) hook \<Rightarrow> service_view" where
  "DatabaseServicePage cfg h =
     (if c_loading h then ViewLoading
      else case c_error h of
        Some e \<Rightarrow> ViewError e
      | None \<Rightarrow>
          (case c_data h of
             Some row \<Rightarrow>
               if truthy row
               then ViewService (or_text (col row ''name'') (kc_label cfg))
                 (col row ''appName'' @ dot @ col row ''dockerImage'') (service_tabs cfg)
               else ViewNothing
           | None \<Rightarrow> ViewNothing))"

end
