(* ===== verification/Database_Requests.thy ===== *)
theory Database_Requests
  imports Database_Service
begin

text \<open>
  What the database service pages send. Every card makes its calls in a user event and none later, so
  each is an interpretation of \<open>page_once\<close>; the busy flags are interpretations of \<open>page_flag\<close>.
\<close>

subsection \<open>The cards make their calls in user events\<close>

lemmas service_scripts = update_submit_def delete_submit_def runAction_def passwd_submit_def ports_save_def
  changeStatus_def environment_save_def fetchLogs_def backup_submit_def remove_backup_def runManual_def on_backup_def
  command_save_def resources_save_def json_save_def create_submit_def

interpretation update_once: page_once "perform_relay origin" "update_handler cfg row" for origin cfg row
  by (unfold_locales, case_tac u) (auto simp: service_scripts intro!: script_intros split: option.splits json.splits)

interpretation delete_once: page_once "perform_relay origin" "delete_handler cfg row" for origin cfg row
  by (unfold_locales, case_tac u) (auto simp: service_scripts intro!: script_intros split: option.splits json.splits)

interpretation deploy_once: page_once "perform_relay origin" "deploy_handler cfg row" for origin cfg row
  by (unfold_locales, case_tac u) (auto simp: service_scripts intro!: script_intros split: option.splits json.splits)

interpretation passwd_once: page_once "perform_relay origin" "passwd_handler cfg row" for origin cfg row
  by (unfold_locales, case_tac u) (auto simp: service_scripts intro!: script_intros split: option.splits json.splits)

interpretation ports_once: page_once "perform_relay origin" "ports_handler cfg row" for origin cfg row
  by (unfold_locales, case_tac u) (auto simp: service_scripts intro!: script_intros split: option.splits json.splits)

interpretation general_once: page_once "perform_relay origin" "general_handler cfg row" for origin cfg row
  by (unfold_locales, case_tac u) (auto simp: service_scripts intro!: script_intros split: option.splits json.splits)

interpretation environment_once: page_once "perform_relay origin" "environment_handler cfg row" for origin cfg row
  by (unfold_locales, case_tac u) (auto simp: service_scripts intro!: script_intros split: option.splits json.splits)

interpretation backup_form_once: page_once "perform_relay origin" "backup_form_handler cfg row backup dests"
  for origin cfg row backup dests
  by (unfold_locales, case_tac u) (auto simp: service_scripts intro!: script_intros split: option.splits json.splits)

interpretation backups_once: page_once "perform_relay origin" "backups_handler cfg row" for origin cfg row
  by (unfold_locales, case_tac u) (auto simp: service_scripts intro!: script_intros split: option.splits json.splits)

interpretation command_once: page_once "perform_relay origin" "command_handler cfg row" for origin cfg row
  by (unfold_locales, case_tac u) (auto simp: service_scripts intro!: script_intros split: option.splits json.splits)

interpretation resources_once: page_once "perform_relay origin" "resources_handler cfg row" for origin cfg row
  by (unfold_locales, case_tac u) (auto simp: service_scripts intro!: script_intros split: option.splits json.splits)

interpretation json_once: page_once "perform_relay origin" "json_handler msg cfg row" for origin msg cfg row
  by (unfold_locales, case_tac u) (auto simp: service_scripts intro!: script_intros split: option.splits json.splits)

interpretation create_once: page_once "perform_relay origin" "create_handler cfg env" for origin cfg env
  by (unfold_locales, case_tac u) (auto simp: service_scripts intro!: script_intros split: option.splits json.splits)

subsection \<open>The busy flags come down\<close>

interpretation update_busy: page_flag "perform_relay origin" "update_handler cfg row" ud_busy for origin cfg row
  by (unfold_locales, case_tac u) (auto simp: service_scripts update_close_def toast_defs intro!: script_intros)

interpretation delete_busy: page_flag "perform_relay origin" "delete_handler cfg row" dd_busy for origin cfg row
  by (unfold_locales, case_tac u) (auto simp: service_scripts toast_defs intro!: script_intros)

interpretation deploy_busy: page_flag "perform_relay origin" "deploy_handler cfg row" "\<lambda>s. ds_busy s \<noteq> None" for origin cfg row
  by (unfold_locales, case_tac u) (auto simp: service_scripts toast_defs intro!: script_intros split: option.splits)

interpretation passwd_busy: page_flag "perform_relay origin" "passwd_handler cfg row" cw_busy for origin cfg row
  by (unfold_locales, case_tac u) (auto simp: service_scripts toast_defs intro!: script_intros)

interpretation ports_busy: page_flag "perform_relay origin" "ports_handler cfg row" ep_busy for origin cfg row
  by (unfold_locales, case_tac u) (auto simp: service_scripts toast_defs intro!: script_intros)

interpretation environment_busy: page_flag "perform_relay origin" "environment_handler cfg row" et_busy for origin cfg row
  by (unfold_locales, case_tac u) (auto simp: service_scripts toast_defs intro!: script_intros)

interpretation logs_loading: page_flag "perform_relay origin" "logs_handler cfg row" lg_loading for origin cfg row
  by (unfold_locales, case_tac u) (auto simp: service_scripts containers_loaded_def toast_defs intro!: script_intros split: option.splits)

interpretation backup_form_busy: page_flag "perform_relay origin" "backup_form_handler cfg row backup dests" bf_busy
  for origin cfg row backup dests
  by (unfold_locales, case_tac u) (auto simp: service_scripts toast_defs intro!: script_intros)

interpretation backups_busy: page_flag "perform_relay origin" "backups_handler cfg row" bt_busy for origin cfg row
  by (unfold_locales, case_tac u) (auto simp: service_scripts toast_defs intro!: script_intros split: option.splits)

interpretation command_busy: page_flag "perform_relay origin" "command_handler cfg row" cc_busy for origin cfg row
  by (unfold_locales, case_tac u) (auto simp: service_scripts toast_defs intro!: script_intros)

interpretation resources_busy: page_flag "perform_relay origin" "resources_handler cfg row" rs_busy for origin cfg row
  by (unfold_locales, case_tac u) (auto simp: service_scripts toast_defs intro!: script_intros)

interpretation json_busy: page_flag "perform_relay origin" "json_handler msg cfg row" jc_busy for origin msg cfg row
  by (unfold_locales, case_tac u) (auto simp: service_scripts toast_defs intro!: script_intros split: option.splits json.splits)

interpretation create_busy: page_flag "perform_relay origin" "create_handler cfg env" cd_busy for origin cfg env
  by (unfold_locales, case_tac u) (auto simp: service_scripts create_setValue_def toast_defs intro!: script_intros)

subsection \<open>Destructive requests\<close>

text \<open>
  C4: destructive requests of a database service are confirmed. The service is removed only by the
  confirm button of the open dialog, with the text \<open>name/appName\<close> of this service typed in and while it
  is not running; a lifecycle action (a rebuild deletes the data) only by the confirm button of the
  action that was picked; a backup schedule is removed or run only by the confirm button of the dialog for
  that schedule. Nothing else in any run of these cards sends a request.
\<close>

theorem service_destruction_confirmed:
  "calls_guarded (perform_relay origin) (delete_handler cfg row) (\<lambda>u s c. u = DdConfirm \<and> dd_open s
     \<and> dd_confirmation s = col row ''name'' @ ''/'' @ col row ''appName'' \<and> col row ''applicationStatus'' \<noteq> ''running''
     \<and> c = service_post cfg row ''remove'' [])
   \<and> calls_guarded (perform_relay origin) (deploy_handler cfg row) (\<lambda>u s c. u = DsConfirm \<and> ds_busy s = None
     \<and> (\<exists>action. ds_confirming s = Some action \<and> c = deploy_call cfg row action))
   \<and> calls_guarded (perform_relay origin) (backups_handler cfg row) (\<lambda>u s c. \<exists>b.
       u = BtConfirmRemove \<and> bt_removeTarget s = Some b \<and> c = relay_post ''backup.remove'' [(''backupId'', backup_id b)]
     \<or> u = BtConfirmRun \<and> bt_runTarget s = Some b \<and> c = relay_post (manual_op cfg) [(''backupId'', backup_id b)])"
  by (intro conjI; rule delete_once.guarded deploy_once.guarded backups_once.guarded; case_tac u)
    (auto simp: service_scripts delete_expected_def service_running_def split: if_splits option.splits)

subsection \<open>Valid requests\<close>

definition passwd_call :: "kind_config \<Rightarrow> json \<Rightarrow> app_call \<Rightarrow> bool" where
  "passwd_call cfg row c \<longleftrightarrow>
     (\<exists>pw. c = service_post cfg row ''changePassword'' [(''password'', JStr pw)] \<and> pw \<noteq> [] \<and> list_all password_char pw)"

definition port_value :: "json \<Rightarrow> bool" where
  "port_value v \<longleftrightarrow> (case v of JNull \<Rightarrow> True | JNum q \<Rightarrow> 0 \<le> q \<and> q \<le> 65535 | _ \<Rightarrow> False)"

definition ports_call :: "kind_config \<Rightarrow> json \<Rightarrow> app_call \<Rightarrow> bool" where
  "ports_call cfg row c \<longleftrightarrow>
     (\<exists>body. c = service_post cfg row (ports_op cfg) body \<and> map fst body = map pd_key (kc_ports cfg)
        \<and> list_all (\<lambda>kv. port_value (snd kv)) body)"

definition update_call :: "kind_config \<Rightarrow> json \<Rightarrow> app_call \<Rightarrow> bool" where
  "update_call cfg row c \<longleftrightarrow>
     (\<exists>name description. c = service_post cfg row ''update'' [(''name'', JStr name), (''description'', description)]
        \<and> name \<noteq> [] \<and> trim name = name)"

definition backup_valid :: "app_call \<Rightarrow> bool" where
  "backup_valid c \<longleftrightarrow>
     (\<exists>body schedule prefix dest database.
        rc_body c = Some (JObj body) \<and> rc_op c \<in> {''backup.update'', ''backup.create''}
        \<and> map_of body ''schedule'' = Some (JStr schedule) \<and> schedule \<noteq> []
        \<and> map_of body ''prefix'' = Some (JStr prefix) \<and> prefix \<noteq> []
        \<and> map_of body ''destinationId'' = Some (JStr dest) \<and> dest \<noteq> []
        \<and> map_of body ''database'' = Some (JStr database) \<and> database \<noteq> []
        \<and> (map_of body ''keepLatestCount'' = Some JNull \<or> (\<exists>q. map_of body ''keepLatestCount'' = Some (JNum q))))"

lemma map_filter_Nil_iff: "List.map_filter f xs = [] \<longleftrightarrow> (\<forall>x \<in> set xs. f x = None)"
proof -
  have "List.map_filter f xs = [] \<longleftrightarrow> set (List.map_filter f xs) = {}" by simp
  then show ?thesis unfolding set_map_filter by auto (metis option.exhaust)
qed

lemma port_number: "\<not> port_problem raw \<Longrightarrow> raw \<noteq> [] \<Longrightarrow> port_value (js_num_json (js_Number raw))"
  by (cases "js_Number raw") (auto simp: port_problem_def port_value_def js_num_json_def isFinite_def num_negative_def num_greater_def)

lemma port_body_values:
  assumes "port_errors cfg ports = []"
  shows "list_all (\<lambda>kv. port_value (snd kv)) (port_body cfg ports)"
proof -
  have "\<not> port_problem (port_raw ports (pd_key p))" if "p \<in> set (kc_ports cfg)" for p
    using assms that by (auto simp: port_errors_def map_filter_Nil_iff split: if_splits)
  then show ?thesis using port_number by (auto simp: port_body_def list_all_iff port_value_def [of JNull])
qed

lemma port_body_keys: "map fst (port_body cfg ports) = map pd_key (kc_ports cfg)"
  by (simp add: port_body_def)

lemma backup_call_valid: "backup_validate s = [] \<Longrightarrow> backup_valid (backup_call cfg row backup s)"
  by (cases backup) (auto simp: backup_validate_def backup_valid_def backup_call_def relay_post_def backup_fields_def keep_json_def
    js_num_json_def isFinite_def split: if_splits js_num.splits)

text \<open>
  C25: the requests of the service cards are valid. Every password sent is not empty and made of the
  characters the rule allows; every external port is absent or between 0 and 65535, one entry per port of
  the kind; every renamed service has a trimmed name; every backup schedule has a schedule, prefix,
  destination and database, and its count is absent or a number. All but the update of a schedule name
  the service.
\<close>

theorem service_requests_valid:
  "calls_only (perform_relay origin) (passwd_handler cfg row) (passwd_call cfg row)
   \<and> calls_only (perform_relay origin) (ports_handler cfg row) (ports_call cfg row)
   \<and> calls_only (perform_relay origin) (update_handler cfg row) (update_call cfg row)
   \<and> calls_only (perform_relay origin) (backup_form_handler cfg row backup dests) backup_valid"
proof (intro conjI)
  show "calls_only (perform_relay origin) (passwd_handler cfg row) (passwd_call cfg row)"
    by (rule passwd_once.only, case_tac u)
      (auto simp: passwd_submit_def passwd_call_def DATABASE_PASSWORD_PATTERN_def split: if_splits)
  show "calls_only (perform_relay origin) (ports_handler cfg row) (ports_call cfg row)"
    by (rule ports_once.only, case_tac u)
      (auto simp: ports_save_def ports_call_def port_body_values port_body_keys split: if_splits)
  show "calls_only (perform_relay origin) (update_handler cfg row) (update_call cfg row)"
    by (rule update_once.only, case_tac u)
      (auto simp: update_submit_def update_call_def trim_idem split: if_splits)
  show "calls_only (perform_relay origin) (backup_form_handler cfg row backup dests) backup_valid"
    by (rule backup_form_once.only, case_tac u)
      (auto simp: backup_submit_def backup_call_valid split: if_splits)
qed

subsection \<open>Creating a service\<close>

definition password_key :: "field_def \<Rightarrow> bool" where
  "password_key f \<longleftrightarrow> str_includes (toLowerCase (fd_key f)) ''password''"

definition field_sent :: "json js_record \<Rightarrow> field_def \<Rightarrow> bool" where
  "field_sent body f \<longleftrightarrow>
     (fd_kind f = FSwitch \<longrightarrow> (\<exists>b. map_of body (fd_key f) = Some (JBool b)))
     \<and> (fd_kind f \<noteq> FSwitch \<and> fd_required f \<longrightarrow> (\<exists>v. map_of body (fd_key f) = Some (JStr v) \<and> trim v \<noteq> []))
     \<and> (password_key f \<longrightarrow> (\<forall>v. map_of body (fd_key f) = Some (JStr v) \<longrightarrow> list_all password_char v))
     \<and> (fd_sendNull f \<longrightarrow> map_of body (fd_key f) \<noteq> None)"

definition create_call :: "kind_config \<Rightarrow> string \<Rightarrow> app_call \<Rightarrow> bool" where
  "create_call cfg env c \<longleftrightarrow>
     (\<exists>body. c = relay_post (kc_kind cfg @ ''.create'') body \<and> map_of body ''environmentId'' = Some (JStr env)
        \<and> list_all (field_sent body) (kc_createFields cfg))"

text \<open>What the configurations promise: every key once, and no password in a text area.\<close>

definition fields_ok :: "field_def list \<Rightarrow> bool" where
  "fields_ok fs \<longleftrightarrow> distinct (''environmentId'' # map fd_key fs) \<and> list_all (\<lambda>f. password_key f \<longrightarrow> fd_kind f \<noteq> FTextarea) fs"

lemmas config_defs = sql_config_def mongo_config_def redis_config_def libsql_config_def sqlCreateFields_def
  field_def required_field_def image_field_def DESCRIPTION_FIELD_def

lemma kinds_fields_ok: "fields_ok (kc_createFields (KIND_CONFIGS k))"
  by (cases k) (simp_all add: fields_ok_def config_defs password_key_def toLowerCase_def lower_char_def)

lemma map_of_map_filter:
  assumes "distinct (map key fs)" and "f \<in> set fs" and "\<And>g y. h g = Some y \<Longrightarrow> fst y = key g"
  shows "map_of (List.map_filter h fs) (key f) = map_option snd (h f)"
  using assms(1,2)
proof (induction fs)
  case (Cons g fs)
  have none: "map_of (List.map_filter h fs) (key g) = None" if "key g \<notin> key ` set fs"
    using that assms(3) unfolding map_of_eq_None_iff set_map_filter by (auto simp: image_iff)
  show ?case
    using Cons none assms(3) by (cases "h g"; cases "f = g") (auto simp: List.map_filter_simps)
qed simp

lemma service_create_body_field:
  assumes "fields_ok (kc_createFields cfg)" and "f \<in> set (kc_createFields cfg)"
  shows "map_of (service_create_body cfg env vals) (fd_key f) = (case create_field vals f of Inr v \<Rightarrow> v | Inl _ \<Rightarrow> None)"
proof -
  let ?h = "\<lambda>f. case create_field vals f of Inr (Some v) \<Rightarrow> Some (fd_key f, v) | _ \<Rightarrow> None"
  have "map_of (List.map_filter ?h (kc_createFields cfg)) (fd_key f) = map_option snd (?h f)"
  proof (rule map_of_map_filter)
    show "distinct (map fd_key (kc_createFields cfg))" using assms(1) by (simp add: fields_ok_def)
    fix g y assume "?h g = Some y"
    then show "fst y = fd_key g" by (cases "create_field vals g") (auto split: option.splits)
  qed (rule assms(2))
  moreover have "fd_key f \<in> fd_key ` set (kc_createFields cfg)" using assms(2) by (rule imageI)
  then have "fd_key f \<noteq> ''environmentId''" using assms(1) unfolding fields_ok_def by fastforce
  ultimately show ?thesis by (auto simp: service_create_body_def split: sum.splits option.splits)
qed

lemma create_field_sent:
  assumes "fields_ok (kc_createFields cfg)" and "f \<in> set (kc_createFields cfg)" and "create_field vals f = Inr v"
  shows "field_sent (service_create_body cfg env vals) f"
proof -
  have t: "password_key f \<Longrightarrow> fd_kind f \<noteq> FTextarea" using assms(1,2) by (auto simp: fields_ok_def list_all_iff)
  show ?thesis
    using t assms(3) unfolding field_sent_def service_create_body_field [OF assms(1,2)]
    by (auto simp: create_field_def Let_def password_key_def DATABASE_PASSWORD_PATTERN_def trim_idem split: if_splits)
qed

text \<open>
  Created services are complete. For each of the six kinds, every create request names its
  environment, has a boolean for every switch, a text that is not blank for every required field, a
  password of allowed characters wherever it has one, and at least \<open>null\<close> for the keys that must be there.
\<close>

theorem created_services_complete:
  "calls_only (perform_relay origin) (create_handler (KIND_CONFIGS k) env) (create_call (KIND_CONFIGS k) env)"
proof (rule create_once.only)
  fix u s c assume c: "c \<in> set (lead_calls (create_handler (KIND_CONFIGS k) env u s))"
  let ?cfg = "KIND_CONFIGS k" and ?body = "service_create_body (KIND_CONFIGS k) env (cd_values s)"
  have e: "create_errors ?cfg (cd_values s) = []" and c': "c = relay_post (kc_kind ?cfg @ ''.create'') ?body"
    using c by (cases u; auto simp: create_submit_def split: if_splits)+
  have "\<exists>v. create_field (cd_values s) f = Inr v" if "f \<in> set (kc_createFields ?cfg)" for f
    using e that by (cases "create_field (cd_values s) f") (auto simp: create_errors_def map_filter_Nil_iff)
  then have "list_all (field_sent ?body) (kc_createFields ?cfg)"
    unfolding list_all_iff using create_field_sent [OF kinds_fields_ok] by blast
  moreover have "map_of ?body ''environmentId'' = Some (JStr env)" by (simp add: service_create_body_def)
  ultimately show "create_call ?cfg env c" using c' unfolding create_call_def by blast
qed

subsection \<open>The advanced update\<close>

lemma json_ok_prop: "json_ok row \<Longrightarrow> prop_of row k = Some v \<Longrightarrow> json_ok v"
  by (cases row) (auto simp: list_all_iff dest!: map_of_SomeD)

lemma json_ok_coalesce: "json_ok row \<Longrightarrow> json_ok d \<Longrightarrow> json_ok (coalesce (prop_of row k) d)"
  by (cases "prop_of row k") (auto simp: coalesce_def intro: json_ok_prop)

lemma json_ok_array: "json_ok row \<Longrightarrow> list_all json_ok (array_or_empty (prop_of row k))"
  using json_ok_prop [of row k] by (auto simp: array_or_empty_def split: option.splits json.splits)

lemma json_ok_one: "json_ok (JNum 1)"
  using decimal_places_of_int [of 1] by simp

lemma default_payload_ok:
  assumes "json_ok row"
  shows "json_ok (JObj (default_payload_fields (KIND_CONFIGS k) row))"
  by (cases k) (simp_all add: default_payload_fields_def config_defs json_ok_coalesce [OF assms] json_ok_array [OF assms] json_ok_one
    del: json_ok.simps(1))

lemma with_id_default: "with_id cfg row (default_payload_fields cfg row) = default_payload_fields cfg row"
  by (simp add: with_id_def default_payload_fields_def)


definition sample_service :: json where
  "sample_service = JObj [(''redisId'', JStr ''r1''), (''dockerImage'', JStr ''redis:8''), (''cpuLimit'', JStr ''0.5''), (''replicas'', JNum 2)]"

definition fresh_json_card :: json_card where
  "fresh_json_card = \<lparr>toasts = [], sv_reloads = 0, jc_payload = [], jc_busy = False, jc_error = None, jc_timer = True\<rparr>"


subsection \<open>A rejected form\<close>

text \<open>The messages of a relayed validation error, by field.\<close>

definition field_messages :: "json js_record \<Rightarrow> string js_record" where
  "field_messages errs =
     List.map_filter (\<lambda>(k, messages).
       case messages of JArr ms \<Rightarrow> if ms \<noteq> [] then Some (k, join ''; '' (map js_String ms)) else None | _ \<Rightarrow> None) errs"

definition zod_answer :: "http_response \<Rightarrow> json js_record \<Rightarrow> bool" where
  "zod_answer r errs \<longleftrightarrow> \<not> response_ok r \<and> (\<exists>t. rs_text r = Some t \<and> t \<noteq> [])
     \<and> (\<exists>v d z. rs_json r = Some v \<and> json_ok v \<and> prop_of v ''data'' = Some d \<and> prop_of d ''zodError'' = Some z
          \<and> prop_of z ''fieldErrors'' = Some (JObj errs))"

lemma extract_zod:
  assumes "next_answer b = Resp r" and "zod_answer r errs"
  shows "\<exists>e. fst (dokploy origin m p body q b) = Inl e \<and> service_fieldErrors e = field_messages errs"
proof -
  obtain t v d z where r: "\<not> response_ok r" "rs_text r = Some t" "t \<noteq> []" "rs_json r = Some v" "json_ok v"
    and v: "prop_of v ''data'' = Some d" "prop_of d ''zodError'' = Some z" "prop_of z ''fieldErrors'' = Some (JObj errs)"
    using assms(2) unfolding zod_answer_def by blast
  obtain kvs kvs' kvs'' where obj: "v = JObj kvs" "d = JObj kvs'" "z = JObj kvs''"
    using v by (cases v; cases d; cases z) auto
  let ?e = "AppUpstream \<lparr>ae_status = rs_status r, ae_message = app_message (rs_status r) (Some v), ae_body = Some (JSON_stringify v)\<rparr>"
  have "fst (dokploy origin m p body q b) = Inl ?e"
    using assms(1) r obj by (simp add: dokploy_def fetch_def next_answer_def app_parsed_def app_error_body_def Let_def)
  moreover have "JSON_parse (JSON_stringify v) = Some v"
    using parse_stringify [of "[]" v] r(5) by (simp add: stringify_gap_compact)
  then have "service_fieldErrors ?e = field_messages errs"
    using v obj by (simp add: service_fieldErrors_def error_body_def object_or_def Let_def field_messages_def)
  ultimately show ?thesis by blast
qed

text \<open>
  C35: a rejected create form shows the server's messages. When the create request is answered with a
  relayed validation error, the dialog ends with the messages of every field the server names, joined per
  field, one error toast, the busy flag down, and still open with what was typed.
\<close>

theorem rejected_form_shows_messages:
  assumes "create_errors cfg (cd_values s) = []" and "\<not> cd_busy s" and "next_answer b = Resp r"
    and "zod_answer r errs" and "field_messages errs \<noteq> []"
  shows "pg_state (run_page (perform_relay origin) (create_handler cfg env) [User CdSubmit, Resume 0 n] (open_page s b))
     = s\<lparr>cd_errors := field_messages errs, cd_busy := False,
         toasts := toasts s @ [Failure (''Upstream rejected the form '' @ em_dash @ '' fix the highlighted fields.'')]\<rparr>"
proof -
  let ?c = "relay_post (kc_kind cfg @ ''.create'') (service_create_body cfg env (cd_values s))"
  obtain e where e: "fst (perform_relay origin ?c b) = Inl e" "service_fieldErrors e = field_messages errs"
    using extract_zod [OF assms(3,4)] unfolding perform_relay_def by blast
  obtain b' where "perform_relay origin ?c b = (Inl e, b')" using e(1) by (metis prod.collapse)
  then show ?thesis
    using assms(1,2,5) e(2)
    by (cases s) (auto simp: run_page_def open_page_def create_submit_def with_flag_def await_def drop_nth_def toast_error_def)
qed

definition sample_create :: create_dialog where
  "sample_create = (open_create redis_config)\<lparr>cd_values := [(''name'', ''cache''), (''databasePassword'', ''pw'')]\<rparr>"

definition sample_rejection :: http_response where
  "sample_rejection = \<lparr>rs_status = 400, rs_text = Some ''x'', rs_json = Some (JObj [(''data'', JObj [(''zodError'',
     JObj [(''fieldErrors'', JObj [(''name'', JArr [JStr ''too short'', JStr ''taken''])])])])])\<rparr>"

theorem rejected_form_shows_messages_witness:
  "cd_errors (pg_state (run_page (perform_relay []) (create_handler redis_config ''e1'') [User CdSubmit, Resume 0 0]
     (open_page sample_create (sample_browser (Resp sample_rejection))))) = [(''name'', ''too short; taken'')]"
proof -
  let ?errs = "[(''name'', JArr [JStr ''too short'', JStr ''taken''])]"
  have m: "field_messages ?errs = [(''name'', ''too short; taken'')]" by (simp add: field_messages_def List.map_filter_simps)
  have e: "create_errors redis_config (cd_values sample_create) = []"
    by (simp add: create_errors_def sample_create_def config_defs create_field_def typed_value_def Let_def trim_def is_ws_def
      List.map_filter_simps DATABASE_PASSWORD_PATTERN_def password_char_def is_alnum_def)
  show ?thesis
    using rejected_form_shows_messages [where cfg = redis_config and s = sample_create and r = sample_rejection and errs = ?errs
        and origin = "[]" and env = "''e1''" and n = 0 and b = "sample_browser (Resp sample_rejection)"] e m
    by (simp add: sample_create_def open_create_def sample_rejection_def zod_answer_def response_ok_def next_answer_def sample_defs)
qed

subsection \<open>What the cards get wrong\<close>

text \<open>The password rule allows \<open>#\<close>, and the connection URL takes the password as it is: everything after it
  is the fragment of the URL, the host included.\<close>

lemma hash_password_cuts_url:
  "DATABASE_PASSWORD_PATTERN ''p#w''
   \<and> takeWhile (\<lambda>c. c \<noteq> CHR ''#'') (kc_internalUrl (KIND_CONFIGS PostgresDb)
       (JObj [(''databaseUser'', JStr ''u''), (''databasePassword'', JStr ''p#w''), (''appName'', JStr ''db''), (''databaseName'', JStr ''d'')]))
     = ''postgresql://u:p''"
  by (simp add: DATABASE_PASSWORD_PATTERN_def password_char_def is_alnum_def sql_config_def sql_internal_def credentials_def col_def)

text \<open>The container picked in the logs tab is never part of the request.\<close>

lemma picked_container_ignored: "logs_call cfg row (s\<lparr>lg_containerId := c\<rparr>) = logs_call cfg row s"
  by (simp add: logs_call_def)

text \<open>A port need not be a whole number.\<close>

lemma fractional_port_accepted: "\<not> port_problem ''80.5''"
proof -
  have "js_Number ''80.5'' = to_double (161 / 2)"
    by (simp add: js_Number_def Let_def trim_def is_ws_def unsigned_decimal_def is_digit_def read_nat_def digit_val_def radix_of_def)
  also have "to_double (161 / 2) = Fin (161 / 2)" by (simp add: to_double_def double_limit_def)
  finally show ?thesis by (simp add: port_problem_def isFinite_def num_negative_def num_greater_def)
qed

text \<open>Once shown, the error of the password dialog is never taken back, not even by a change that succeeds.\<close>

interpretation passwd_error: page_contract "perform_relay origin" "passwd_handler cfg row" "\<lambda>s. cw_error s \<noteq> None" "\<lambda>_. True"
  for origin cfg row
  by (unfold_locales, case_tac u) (auto simp: passwd_submit_def toast_defs intro!: script_intros)

lemma stale_password_error:
  "cw_error s \<noteq> None \<Longrightarrow> cw_error (pg_state (run_page (perform_relay origin) (passwd_handler cfg row) es (open_page s b))) \<noteq> None"
  by (rule passwd_error.runs_keep)

end
