(* ===== verification/Session_Calls.thy ===== *)
theory Session_Calls
  imports Auth_Session Page_Kit Base64url
begin

text \<open>
  The operations of the session provider as calls a page awaits. A page of the auth console reads the
  provider's cells through \<open>useAuth\<close> and calls \<open>login\<close>, \<open>loginMFA\<close> and \<open>register\<close>. What such a call
  does to the provider is part of its answer (\<open>session_result\<close>): the outcome for the caller, and the
  session it adopted, if any. \<open>session_run_exact\<close> shows that nothing is lost: running the operation on
  any console is the same as applying its \<open>session_result\<close> to the provider's cells.
\<close>

subsection \<open>Answers of the provider\<close>

type_synonym adopted = "(app_role \<times> json option) option"

datatype session_result =
    Adopted app_role "json option"
  | SecondFactor json adopted
  | Rejected js_error adopted

fun session_outcome :: "session_result \<Rightarrow> js_error + login_result" where
  "session_outcome (Adopted role me) = Inr (SessionReady role)"
| "session_outcome (SecondFactor t _) = Inr (MfaRequired t)"
| "session_outcome (Rejected e _) = Inl e"

fun session_adopted :: "session_result \<Rightarrow> adopted" where
  "session_adopted (Adopted role me) = Some (role, me)"
| "session_adopted (SecondFactor t ad) = ad"
| "session_adopted (Rejected e ad) = ad"

definition adopt :: "adopted \<Rightarrow> auth_state \<Rightarrow> auth_state" where
  "adopt ad a = (case ad of None \<Rightarrow> a | Some (role, me) \<Rightarrow> signed_in role me a)"

definition session_update :: "session_result \<Rightarrow> auth_state \<Rightarrow> auth_state" where
  "session_update r a = (adopt (session_adopted r) a)\<lparr>au_loading := False\<rparr>"

definition blank_session :: auth_state where
  "blank_session = \<lparr>au_token = None, au_claims = None, au_role = None, au_profile = None, au_loading = False\<rparr>"

definition session_result_of :: "js_error + login_result \<Rightarrow> auth_state \<Rightarrow> session_result" where
  "session_result_of r a =
     (let ad = map_option (\<lambda>role. (role, au_profile a)) (au_role a)
      in case r of
           Inl e \<Rightarrow> Rejected e ad
         | Inr (MfaRequired t) \<Rightarrow> SecondFactor t ad
         | Inr (SessionReady role) \<Rightarrow> Adopted role (au_profile a))"

definition session_run :: "(console, js_error, login_result) io \<Rightarrow> browser \<Rightarrow> session_result \<times> browser" where
  "session_run m b = (case m \<lparr>br = b, au = blank_session\<rparr> of (r, s) \<Rightarrow> (session_result_of r (au s), br s))"

text \<open>The second factor returns a role.\<close>

definition mfa_session :: "json \<Rightarrow> string \<Rightarrow> (console, js_error, login_result) io" where
  "mfa_session preauthToken code = io_bind (loginMFA preauthToken code) (\<lambda>role. io_ret (SessionReady role))"

subsection \<open>The operations act uniformly\<close>

text \<open>What an operation does to the provider does not depend on the provider: it adopts a session or
  not, and sets the loading flag or not. A value that claims a role (\<open>claims\<close>) comes with its session.\<close>

definition acts :: "adopted \<times> bool option \<Rightarrow> auth_state \<Rightarrow> auth_state" where
  "acts x a = (adopt (fst x) a)\<lparr>au_loading := (case snd x of None \<Rightarrow> au_loading a | Some l \<Rightarrow> l)\<rparr>"

definition uniform :: "('a \<Rightarrow> app_role option) \<Rightarrow> (console, js_error, 'a) io \<Rightarrow> bool" where
  "uniform claims m \<longleftrightarrow>
     (\<forall>b. \<exists>r b' x. (\<forall>a. m \<lparr>br = b, au = a\<rparr> = (r, \<lparr>br = b', au = acts x a\<rparr>))
        \<and> (\<forall>v role. r = Inr v \<longrightarrow> claims v = Some role \<longrightarrow> (\<exists>me. fst x = Some (role, me))))"

text \<open>One effect after another: the later one prevails.\<close>

definition then_acts :: "adopted \<times> bool option \<Rightarrow> adopted \<times> bool option \<Rightarrow> adopted \<times> bool option" where
  "then_acts x y = (if fst y = None then fst x else fst y, if snd y = None then snd x else snd y)"

lemma acts_acts: "acts y (acts x a) = acts (then_acts x y) a"
  by (auto simp: acts_def adopt_def signed_in_def then_acts_def split: option.splits)

lemma then_acts_adopts: "fst y = Some s \<Longrightarrow> fst (then_acts x y) = Some s"
  by (simp add: then_acts_def)

lemma acts_none [simp]: "acts (None, None) a = a"
  by (simp add: acts_def adopt_def)

named_theorems uniform_intros \<open>operations that treat every provider alike\<close>

lemma uniformI:
  assumes "\<And>b. \<exists>r b' x. (\<forall>a. m \<lparr>br = b, au = a\<rparr> = (r, \<lparr>br = b', au = acts x a\<rparr>))
      \<and> (\<forall>v role. r = Inr v \<longrightarrow> claims v = Some role \<longrightarrow> (\<exists>me. fst x = Some (role, me)))"
  shows "uniform claims m"
  using assms by (simp add: uniform_def)

lemma uniformE:
  assumes "uniform claims m"
  obtains r b' x where "\<And>a. m \<lparr>br = b, au = a\<rparr> = (r, \<lparr>br = b', au = acts x a\<rparr>)"
    and "\<And>v role. r = Inr v \<Longrightarrow> claims v = Some role \<Longrightarrow> \<exists>me. fst x = Some (role, me)"
  using assms unfolding uniform_def by metis

lemma uniform_on_br [uniform_intros]: "uniform (\<lambda>_. None) (on_br m)"
proof (rule uniformI)
  fix b
  obtain r b' where "m b = (r, b')" by fastforce
  then show "\<exists>r b' x. (\<forall>a. on_br m \<lparr>br = b, au = a\<rparr> = (r, \<lparr>br = b', au = acts x a\<rparr>))
      \<and> (\<forall>v role. r = Inr v \<longrightarrow> None = Some role \<longrightarrow> (\<exists>me. fst x = Some (role, me)))"
    by (intro exI [of _ r] exI [of _ b'] exI [of _ "(None, None)"]) (simp add: on_br_def)
qed

lemma uniform_pure [uniform_intros]:
  "uniform claims (io_throw e)" "claims v = None \<Longrightarrow> uniform claims (io_ret v)"
  unfolding uniform_def io_throw_def io_ret_def by (force intro: acts_none [symmetric])+

lemma uniform_bind [uniform_intros]:
  assumes "uniform (\<lambda>_. None) m" and "\<And>v. uniform claims (k v)"
  shows "uniform claims (io_bind m k)"
proof (rule uniformI)
  fix b
  obtain r b1 x where m: "\<And>a. m \<lparr>br = b, au = a\<rparr> = (r, \<lparr>br = b1, au = acts x a\<rparr>)"
    using uniformE [OF assms(1)] by metis
  show "\<exists>r b' x. (\<forall>a. io_bind m k \<lparr>br = b, au = a\<rparr> = (r, \<lparr>br = b', au = acts x a\<rparr>))
      \<and> (\<forall>v role. r = Inr v \<longrightarrow> claims v = Some role \<longrightarrow> (\<exists>me. fst x = Some (role, me)))"
  proof (cases r)
    case (Inl e)
    then show ?thesis by (intro exI [of _ "Inl e"] exI [of _ b1] exI [of _ x]) (simp add: io_bind_def m)
  next
    case (Inr v)
    obtain r2 b2 y where k: "\<And>a. k v \<lparr>br = b1, au = a\<rparr> = (r2, \<lparr>br = b2, au = acts y a\<rparr>)"
      and c: "\<And>w role. r2 = Inr w \<Longrightarrow> claims w = Some role \<Longrightarrow> \<exists>me. fst y = Some (role, me)"
      using uniformE [OF assms(2) [of v], of b1] by metis
    show ?thesis
      by (intro exI [of _ r2] exI [of _ b2] exI [of _ "then_acts x y"])
         (use c then_acts_adopts in \<open>auto simp: io_bind_def m Inr k acts_acts, blast\<close>)
  qed
qed

lemma uniform_map [uniform_intros]:
  assumes "uniform claims m" and "\<And>v. claims' (h v) = claims v"
  shows "uniform claims' (io_bind m (\<lambda>v. io_ret (h v)))"
proof (rule uniformI)
  fix b
  obtain r b1 x where m: "\<And>a. m \<lparr>br = b, au = a\<rparr> = (r, \<lparr>br = b1, au = acts x a\<rparr>)"
    and c: "\<And>v role. r = Inr v \<Longrightarrow> claims v = Some role \<Longrightarrow> \<exists>me. fst x = Some (role, me)"
    using uniformE [OF assms(1)] by metis
  show "\<exists>r b' x. (\<forall>a. io_bind m (\<lambda>v. io_ret (h v)) \<lparr>br = b, au = a\<rparr> = (r, \<lparr>br = b', au = acts x a\<rparr>))
      \<and> (\<forall>v role. r = Inr v \<longrightarrow> claims' v = Some role \<longrightarrow> (\<exists>me. fst x = Some (role, me)))"
    by (cases r; intro exI [of _ "map_sum id h r"] exI [of _ b1] exI [of _ x])
       (use c in \<open>auto simp: io_bind_def io_ret_def m assms(2)\<close>)
qed

lemma uniform_catch [uniform_intros]:
  assumes "uniform claims m" and "\<And>e. uniform claims (h e)"
  shows "uniform claims (io_catch m h)"
proof (rule uniformI)
  fix b
  obtain r b1 x where m: "\<And>a. m \<lparr>br = b, au = a\<rparr> = (r, \<lparr>br = b1, au = acts x a\<rparr>)"
    and c: "\<And>v role. r = Inr v \<Longrightarrow> claims v = Some role \<Longrightarrow> \<exists>me. fst x = Some (role, me)"
    using uniformE [OF assms(1)] by metis
  show "\<exists>r b' x. (\<forall>a. io_catch m h \<lparr>br = b, au = a\<rparr> = (r, \<lparr>br = b', au = acts x a\<rparr>))
      \<and> (\<forall>v role. r = Inr v \<longrightarrow> claims v = Some role \<longrightarrow> (\<exists>me. fst x = Some (role, me)))"
  proof (cases r)
    case (Inr v)
    then show ?thesis by (intro exI [of _ r] exI [of _ b1] exI [of _ x]) (use c in \<open>simp add: io_catch_def m\<close>)
  next
    case (Inl e)
    obtain r2 b2 y where k: "\<And>a. h e \<lparr>br = b1, au = a\<rparr> = (r2, \<lparr>br = b2, au = acts y a\<rparr>)"
      and c2: "\<And>w role. r2 = Inr w \<Longrightarrow> claims w = Some role \<Longrightarrow> \<exists>me. fst y = Some (role, me)"
      using uniformE [OF assms(2) [of e], of b1] by metis
    show ?thesis
      by (intro exI [of _ r2] exI [of _ b2] exI [of _ "then_acts x y"])
         (use c2 then_acts_adopts in \<open>auto simp: io_catch_def m Inl k acts_acts, blast\<close>)
  qed
qed

text \<open>\<open>setLoading(true); try { ... } finally { setLoading(false) }\<close>.\<close>

lemma uniform_loading [uniform_intros]:
  assumes "uniform claims m"
  shows "uniform claims (\<lambda>s. io_finally m (setLoading False) (setLoading True s))"
proof (rule uniformI)
  fix b
  obtain r b1 x where m: "\<And>a. m \<lparr>br = b, au = a\<rparr> = (r, \<lparr>br = b1, au = acts x a\<rparr>)"
    and c: "\<And>v role. r = Inr v \<Longrightarrow> claims v = Some role \<Longrightarrow> \<exists>me. fst x = Some (role, me)"
    using uniformE [OF assms] by metis
  have l: "setLoading l \<lparr>br = b', au = a\<rparr> = \<lparr>br = b', au = acts (None, Some l) a\<rparr>" for l b' a
    by (simp add: setLoading_def set_au_def acts_def adopt_def)
  have "io_finally m (setLoading False) (setLoading True \<lparr>br = b, au = a\<rparr>)
      = (r, \<lparr>br = b1, au = acts (fst x, Some False) a\<rparr>)" for a
    by (cases r) (simp_all add: io_finally_def l m acts_acts, simp_all add: then_acts_def)
  then show "\<exists>r b' x. (\<forall>a. io_finally m (setLoading False) (setLoading True \<lparr>br = b, au = a\<rparr>) = (r, \<lparr>br = b', au = acts x a\<rparr>))
      \<and> (\<forall>v role. r = Inr v \<longrightarrow> claims v = Some role \<longrightarrow> (\<exists>me. fst x = Some (role, me)))"
    by (intro exI [of _ r] exI [of _ b1] exI [of _ "(fst x, Some False)"]) (use c in simp)
qed

lemma uniform_adopt [uniform_intros]: "uniform Some adoptSession"
proof (rule uniformI)
  fix b
  obtain r b1 where r: "resolveRole b = (r, b1)" by fastforce
  obtain me b2 where me: "fetch_me b1 = (me, b2)" by fastforce
  have s: "set_au (signed_in role me) \<lparr>br = b', au = a\<rparr> = \<lparr>br = b', au = acts (Some (role, me), None) a\<rparr>" for role b' a
    by (simp add: set_au_def acts_def adopt_def signed_in_def)
  show "\<exists>r b' x. (\<forall>a. adoptSession \<lparr>br = b, au = a\<rparr> = (r, \<lparr>br = b', au = acts x a\<rparr>))
      \<and> (\<forall>v role. r = Inr v \<longrightarrow> Some v = Some role \<longrightarrow> (\<exists>me. fst x = Some (role, me)))"
  proof (cases r)
    case (Inl e)
    then show ?thesis
      by (intro exI [of _ "Inl e"] exI [of _ b1] exI [of _ "(None, None)"]) (simp add: adoptSession_def on_br_def r)
  next
    case (Inr role)
    obtain p b3 where p: "persistSession (Some role) me b2 = (p, b3)" by fastforce
    show ?thesis
      by (cases p; intro exI [of _ "map_sum id (\<lambda>_. role) p"] exI [of _ b3] exI [of _ "(Some (role, me), None)"])
         (simp_all add: adoptSession_def on_br_def r Inr me s p)
  qed
qed

fun ready_role :: "login_result \<Rightarrow> app_role option" where
  "ready_role (SessionReady role) = Some role"
| "ready_role (MfaRequired t) = None"

lemma uniform_ready [uniform_intros]: "uniform ready_role (io_bind adoptSession (\<lambda>role. io_ret (SessionReady role)))"
  by (rule uniform_map [OF uniform_adopt]) simp

lemma uniform_login [uniform_intros]: "uniform ready_role (login email password)"
proof -
  have "uniform ready_role (\<lambda>s. io_finally
       (io_bind (on_br (apiPost ''/auth/login'' (Some (credentials_body email password)) no_options))
          (\<lambda>env. case env_data env of
              JNull \<Rightarrow> io_throw (PlainError ''TypeError'')
            | data \<Rightarrow>
                (case (prop_of data ''mfa_required'', prop_of data ''preauth_token'') of
                   (Some m, Some t) \<Rightarrow>
                     if truthy m \<and> truthy t then io_ret (MfaRequired t)
                     else io_bind adoptSession (\<lambda>role. io_ret (SessionReady role))
                 | _ \<Rightarrow> io_bind adoptSession (\<lambda>role. io_ret (SessionReady role)))))
       (setLoading False) (setLoading True s))"
    by (intro uniform_loading uniform_bind uniform_on_br)
       (auto intro: uniform_pure uniform_ready split: json.split option.split)
  then show ?thesis by (simp add: login_def [abs_def])
qed

lemma uniform_mfa: "uniform ready_role (mfa_session t c)"
proof -
  have "uniform Some (loginMFA t c)"
    unfolding loginMFA_def [abs_def] by (intro uniform_loading uniform_bind uniform_on_br uniform_adopt)
  then show ?thesis unfolding mfa_session_def by (rule uniform_map) simp
qed

lemma uniform_register: "uniform ready_role (auth_register p)"
  unfolding auth_register_def [abs_def]
  by (intro uniform_loading uniform_bind uniform_on_br uniform_catch uniform_ready uniform_login)

text \<open>Running an operation is applying its answer.\<close>

lemma session_run_exact:
  assumes "uniform ready_role m" and idle: "\<And>s. \<not> au_loading (au (snd (m s)))"
  shows "m \<lparr>br = b, au = a\<rparr> = (session_outcome (fst (session_run m b)),
    \<lparr>br = snd (session_run m b), au = session_update (fst (session_run m b)) a\<rparr>)"
proof -
  obtain r b1 x where m: "\<And>a. m \<lparr>br = b, au = a\<rparr> = (r, \<lparr>br = b1, au = acts x a\<rparr>)"
    and c: "\<And>v role. r = Inr v \<Longrightarrow> ready_role v = Some role \<Longrightarrow> \<exists>me. fst x = Some (role, me)"
    using uniformE [OF assms(1)] by metis
  obtain ad ld where x: "x = (ad, ld)" by fastforce
  have "\<not> au_loading (acts x (blank_session\<lparr>au_loading := True\<rparr>))"
    using idle [of "\<lparr>br = b, au = blank_session\<lparr>au_loading := True\<rparr>\<rparr>"] by (simp add: m)
  then have ld: "ld = Some False"
    by (cases ld) (auto simp: x acts_def adopt_def blank_session_def split: option.splits)
  show ?thesis
  proof (cases r)
    case (Inl e)
    then show ?thesis
      by (auto simp: session_run_def m x ld session_result_of_def session_update_def acts_def adopt_def
          blank_session_def signed_in_def Let_def split: option.splits prod.splits)
  next
    case (Inr v)
    then show ?thesis using c [OF Inr]
      by (cases v) (auto simp: session_run_def m x ld session_result_of_def session_update_def acts_def adopt_def
          blank_session_def signed_in_def Let_def split: option.splits prod.splits)
  qed
qed

text \<open>The three operations of the provider, on any console.\<close>

lemma provider_calls_exact:
  "login email password \<lparr>br = b, au = a\<rparr> = (session_outcome (fst (session_run (login email password) b)),
     \<lparr>br = snd (session_run (login email password) b), au = session_update (fst (session_run (login email password) b)) a\<rparr>)"
  "mfa_session t code \<lparr>br = b, au = a\<rparr> = (session_outcome (fst (session_run (mfa_session t code) b)),
     \<lparr>br = snd (session_run (mfa_session t code) b), au = session_update (fst (session_run (mfa_session t code) b)) a\<rparr>)"
  "auth_register p \<lparr>br = b, au = a\<rparr> = (session_outcome (fst (session_run (auth_register p) b)),
     \<lparr>br = snd (session_run (auth_register p) b), au = session_update (fst (session_run (auth_register p) b)) a\<rparr>)"
proof -
  have idle: "\<not> au_loading (au (snd (mfa_session t code s)))" for s
    by (simp add: mfa_session_def io_bind_def io_ret_def loginMFA_def io_finally_def setLoading_def set_au_def split: prod.split sum.split)
  show "mfa_session t code \<lparr>br = b, au = a\<rparr> = (session_outcome (fst (session_run (mfa_session t code) b)),
     \<lparr>br = snd (session_run (mfa_session t code) b), au = session_update (fst (session_run (mfa_session t code) b)) a\<rparr>)"
    by (rule session_run_exact [OF uniform_mfa idle])
qed (rule session_run_exact, (rule uniform_login uniform_register), simp add: login_def auth_register_def)+

subsection \<open>Calls of the pages\<close>

text \<open>A passkey assertion: what \<open>navigator.credentials.get\<close> is given, and the credential it returns.\<close>

record assertion_options =
  ao_challenge :: "byte list"
  ao_timeout :: rat
  ao_rpId :: string

record assertion =
  as_id :: string
  as_rawId :: "byte list"
  as_type :: string
  as_clientDataJSON :: "byte list"
  as_authenticatorData :: "byte list"
  as_signature :: "byte list"
  as_userHandle :: "byte list option"

datatype auth_call =
    AcApi api_call
  | AcLogin string string
  | AcMfa json string
  | AcRegister register_payload
  | AcAssert assertion_options

datatype auth_result =
    ApiAnswer api_result
  | SessionAnswer session_result
  | Asserted "js_error + assertion option"

definition session_answer :: "(console, js_error, login_result) io \<Rightarrow> browser \<Rightarrow> auth_result \<times> browser" where
  "session_answer m b = map_prod SessionAnswer id (session_run m b)"

fun perform_auth ::
  "(assertion_options \<Rightarrow> js_error + assertion option) \<Rightarrow> auth_call \<Rightarrow> browser \<Rightarrow> auth_result \<times> browser" where
  "perform_auth authenticator (AcApi c) b = map_prod ApiAnswer id (perform_api c b)"
| "perform_auth authenticator (AcLogin email password) b = session_answer (login email password) b"
| "perform_auth authenticator (AcMfa preauthToken code) b = session_answer (mfa_session preauthToken code) b"
| "perform_auth authenticator (AcRegister p) b = session_answer (auth_register p) b"
| "perform_auth authenticator (AcAssert options) b = (Asserted (authenticator options), b)"

type_synonym 's auth_script = "('s, auth_call, auth_result, js_error) script"

text \<open>A page with the provider's cells, the paths given to \<open>navigate\<close> and the addresses given to
  \<open>window.location\<close>.\<close>

record auth_page = ui +
  ap_auth :: auth_state
  ap_history :: "string list"
  ap_location :: "string list"

definition navigate :: "string \<Rightarrow> 'a auth_page_scheme \<Rightarrow> 'a auth_page_scheme" where
  "navigate path s = s\<lparr>ap_history := ap_history s @ [path]\<rparr>"

definition leave_to :: "string \<Rightarrow> 'a auth_page_scheme \<Rightarrow> 'a auth_page_scheme" where
  "leave_to url s = s\<lparr>ap_location := ap_location s @ [url]\<rparr>"

definition await_api :: "api_call \<Rightarrow> (envelope \<Rightarrow> 's auth_script) \<Rightarrow> 's auth_script" where
  "await_api c k = Await [AcApi c] (\<lambda>rs n. case hd rs of
      ApiAnswer (Inr e) \<Rightarrow> k e
    | ApiAnswer (Inl e) \<Rightarrow> Throw e
    | _ \<Rightarrow> Done)"

definition await_session ::
  "auth_call \<Rightarrow> (login_result \<Rightarrow> ('a auth_page_scheme) auth_script) \<Rightarrow> ('a auth_page_scheme) auth_script" where
  "await_session c k =
     Set (ap_auth_update (au_loading_update (\<lambda>_. True)))
       (Await [c] (\<lambda>rs n. case hd rs of
          SessionAnswer r \<Rightarrow> Set (ap_auth_update (session_update r))
            (case session_outcome r of Inl e \<Rightarrow> Throw e | Inr v \<Rightarrow> k v)
        | _ \<Rightarrow> Done))"

text \<open>The provider has a session: a role and a token.\<close>

definition has_session :: "'a auth_page_scheme \<Rightarrow> bool" where
  "has_session s \<longleftrightarrow> au_role (ap_auth s) \<noteq> None \<and> \<not> missing (au_token (ap_auth s))"

subsection \<open>Scripts over these calls\<close>

lemma script_ok_await_api [script_intros]:
  "allowed (AcApi c) \<Longrightarrow> (\<And>e. script_ok I allowed (k e)) \<Longrightarrow> script_ok I allowed (await_api c k)"
  by (simp add: await_api_def split: auth_result.splits sum.splits)

lemma ends_low_await_api [script_intros]:
  "low \<Longrightarrow> (\<And>e. ends_low busy (k e) low) \<Longrightarrow> ends_low busy (await_api c k) low"
  by (simp add: await_api_def split: auth_result.splits sum.splits)

lemma calls_once_await_api [script_intros]:
  "(\<And>e. script_ok (\<lambda>_. True) (\<lambda>_. False) (k e)) \<Longrightarrow> calls_once (await_api c k)"
  by (simp add: await_api_def split: auth_result.splits sum.splits)

lemma lead_await_api [simp]: "lead_calls (await_api c k) = [AcApi c]"
  by (simp add: await_api_def)

lemma lead_await_session [simp]: "lead_calls (await_session c k) = [c]"
  by (simp add: await_session_def)

lemma ends_low_await_session [script_intros]:
  assumes "\<And>f x. busy (ap_auth_update f x) = busy x" and "low" and "\<And>v. ends_low busy (k v) low"
  shows "ends_low busy (await_session c k) low"
  using assms by (auto simp: await_session_def intro: ends_low_mono split: auth_result.splits sum.splits)

lemma calls_once_await_session [script_intros]:
  "(\<And>v. script_ok (\<lambda>_. True) (\<lambda>_. False) (k v)) \<Longrightarrow> calls_once (await_session c k)"
  by (simp add: await_session_def split: auth_result.splits sum.splits)

subsection \<open>Going on with a session\<close>

lemma script_when_api [script_intros]:
  "allowed (AcApi c) \<Longrightarrow> (\<And>e. script_when P I allowed (k e) False) \<Longrightarrow> script_when P I allowed (await_api c k) known"
  by (simp add: await_api_def split: auth_result.splits sum.splits)

text \<open>A page may go to the handoff only with a session: the invariant of the pages that sign in.\<close>

definition handoff_signed_in :: "'a auth_page_scheme \<Rightarrow> bool" where
  "handoff_signed_in s \<longleftrightarrow> (''/handoff'' \<in> set (ap_history s) \<longrightarrow> has_session s)"

lemma adopted_has_session: "has_session (ap_auth_update (session_update (Adopted role me)) x)"
  by (simp add: has_session_def session_update_def adopt_def signed_in_def missing_def)

lemma session_update_keeps:
  "has_session x \<Longrightarrow> has_session (ap_auth_update (session_update r) x)"
  "has_session (ap_auth_update (au_loading_update l) x) = has_session x"
  by (auto simp: has_session_def session_update_def adopt_def signed_in_def missing_def split: option.splits)

text \<open>After an awaited operation of the provider, a role means that the session is there.\<close>

lemma script_when_session [script_intros]:
  assumes "allowed c" and "\<And>f x. I x \<Longrightarrow> (has_session x \<Longrightarrow> has_session (ap_auth_update f x)) \<Longrightarrow> I (ap_auth_update f x)"
    and "\<And>role. script_when has_session I allowed (k (SessionReady role)) True"
    and "\<And>t. script_when has_session I allowed (k (MfaRequired t)) False"
  shows "script_when has_session I allowed (await_session c k) known"
proof -
  have upd: "I x \<Longrightarrow> I (ap_auth_update (session_update r) x)" for r x
    using assms(2) session_update_keeps(1) by blast
  have "script_when has_session I allowed
      (Set (ap_auth_update (session_update r)) (case session_outcome r of Inl e \<Rightarrow> Throw e | Inr v \<Rightarrow> k v)) False" for r
  proof (cases r)
    case (Adopted role me)
    then show ?thesis using assms(3) upd [of _ r] by (simp add: adopted_has_session)
  qed (use assms(4) upd [of _ r] in \<open>auto intro: script_when_mono\<close>)
  moreover have "I x \<Longrightarrow> I (ap_auth_update (au_loading_update l) x)" for l x
    using assms(2) session_update_keeps(2) by blast
  ultimately show ?thesis using assms(1)
    by (simp add: await_session_def split: auth_result.split)
qed

end
