(* ===== verification/Sign_In.thy ===== *)
theory Sign_In
  imports Session_Calls
begin

text \<open>
  The pages of the auth console (\<open>console-auth/src/features/auth\<close>): sign-in with password, second factor
  and passkey (\<open>LoginPage.tsx\<close>), registration (\<open>SignupPage.tsx\<close>), the handoff to the other consoles
  (\<open>HandoffPage.tsx\<close>), the return from it in all three consoles (\<open>OAuthCallbackPage.tsx\<close>), and the
  pages for forgotten passwords and e-mail verification. \<open>params\<close> is \<open>searchParams.get\<close>;
  \<open>valid_email\<close> is the browser's own check of an e-mail field. A form whose fields do not pass the
  browser's checks (\<open>required\<close>, \<open>minLength\<close>, \<open>type="email"\<close>) is not submitted.
\<close>

type_synonym params = "string \<Rightarrow> string option"

definition param_is :: "params \<Rightarrow> string \<Rightarrow> string \<Rightarrow> bool" where
  "param_is params k v \<longleftrightarrow> params k = Some v"

definition code_is :: "string \<Rightarrow> js_error \<Rightarrow> bool" where
  "code_is code cause \<longleftrightarrow> (case cause of ApiError c _ _ _ \<Rightarrow> c = JStr code | PlainError _ \<Rightarrow> False)"

definition otp_digits :: "string \<Rightarrow> string" where
  "otp_digits t = filter is_digit (js_take 6 t)"

subsection \<open>Passkeys\<close>

definition opt_field :: "string \<Rightarrow> json option \<Rightarrow> json js_record" where
  "opt_field k v = (case v of None \<Rightarrow> [] | Some j \<Rightarrow> [(k, j)])"

text \<open>\<open>None\<close> when it throws.\<close>

definition assertionOptions :: "json \<Rightarrow> assertion_options option" where
  "assertionOptions data =
     (case prop_of data ''options'' of
        None \<Rightarrow> None
      | Some JNull \<Rightarrow> None
      | Some options \<Rightarrow>
          (let opts = coalesce (prop_of options ''publicKey'') options
           in map_option (\<lambda>challenge. \<lparr>ao_challenge = challenge,
                  ao_timeout = (case prop_of opts ''timeout'' of Some (JNum q) \<Rightarrow> q | _ \<Rightarrow> 60000),
                  ao_rpId = (if \<not> nullish (prop_of opts ''rpId'') then undefined_String (prop_of opts ''rpId'')
                             else if \<not> nullish (prop_of opts ''rpID'') then undefined_String (prop_of opts ''rpID'')
                             else undefined_String None)\<rparr>)
                (base64UrlToBytes (undefined_String (prop_of opts ''challenge'')))))"

definition assertion_json :: "assertion \<Rightarrow> json" where
  "assertion_json c = JObj [(''id'', JStr (as_id c)), (''rawId'', JStr (bytesToBase64Url (as_rawId c))), (''type'', JStr (as_type c)),
     (''response'', JObj ([(''clientDataJSON'', JStr (bytesToBase64Url (as_clientDataJSON c))),
        (''authenticatorData'', JStr (bytesToBase64Url (as_authenticatorData c))),
        (''signature'', JStr (bytesToBase64Url (as_signature c)))]
        @ opt_field ''userHandle'' (map_option (\<lambda>bs. JStr (bytesToBase64Url bs)) (as_userHandle c))))]"

definition passkey_login_call :: "json \<Rightarrow> assertion \<Rightarrow> api_call" where
  "passkey_login_call data c =
     api_post ''/auth/passkey/login''
       (Some (JObj (opt_field ''handle'' (prop_of data ''handle'') @ [(''credential'', assertion_json c)]))) no_options"

text \<open>\<open>supported\<close> says whether the browser has \<open>PublicKeyCredential\<close>.\<close>

definition passkeyLogin :: "bool \<Rightarrow> (json \<Rightarrow> 's auth_script) \<Rightarrow> 's auth_script" where
  "passkeyLogin supported k =
     (if \<not> supported then Throw (PlainError ''Browser Anda tidak mendukung passkey'')
      else await_api (api_post ''/auth/passkey/begin-login'' None no_options)
        (\<lambda>e. case assertionOptions (env_data e) of
            None \<Rightarrow> Throw (PlainError ''TypeError'')
          | Some options \<Rightarrow> Await [AcAssert options] (\<lambda>rs n. case hd rs of
                Asserted (Inl cause) \<Rightarrow> Throw cause
              | Asserted (Inr None) \<Rightarrow> Throw (PlainError ''Passkey login dibatalkan'')
              | Asserted (Inr (Some c)) \<Rightarrow> await_api (passkey_login_call (env_data e) c) (\<lambda>r. k (env_data r))
              | _ \<Rightarrow> Done)))"

subsection \<open>LoginPage\<close>

record login_page = auth_page +
  lg_email :: string
  lg_password :: string
  lg_showPassword :: bool
  lg_error :: "js_error option"
  lg_submitting :: bool
  lg_passkeyBusy :: bool
  lg_mfaToken :: "json option"
  lg_mfaCode :: string
  lg_resending :: bool

definition open_login :: "auth_state \<Rightarrow> login_page" where
  "open_login a = \<lparr>toasts = [], ap_auth = a, ap_history = [], ap_location = [], lg_email = [], lg_password = [],
     lg_showPassword = False, lg_error = None, lg_submitting = False, lg_passkeyBusy = False, lg_mfaToken = None,
     lg_mfaCode = [], lg_resending = False\<rparr>"

text \<open>\<open>mfaToken ? ... : ...\<close>.\<close>

definition second_step :: "login_page \<Rightarrow> bool" where
  "second_step s = (case lg_mfaToken s of Some v \<Rightarrow> truthy v | None \<Rightarrow> False)"

text \<open>The effect for a user who is signed in already.\<close>

definition login_effect :: "params \<Rightarrow> login_page \<Rightarrow> login_page auth_script" where
  "login_effect params s =
     (case au_role (ap_auth s) of
        Some role \<Rightarrow>
          if au_loading (ap_auth s) \<or> missing (au_token (ap_auth s)) then Done
          else if param_is params ''already'' ''customer'' then Done
          else if role = Customer then Set (navigate ''/handoff'') Done
          else Set (navigate (auth_homePathFor (Some role))) Done
      | None \<Rightarrow> Done)"

definition go_home :: "params \<Rightarrow> app_role \<Rightarrow> login_page auth_script" where
  "go_home params role =
     (if role = Customer \<and> \<not> param_is params ''already'' ''customer'' then Set (navigate ''/handoff'') Done
      else Set (navigate (auth_homePathFor (Some role))) Done)"

definition login_submit :: "params \<Rightarrow> login_page \<Rightarrow> login_page auth_script" where
  "login_submit params s =
     Set (lg_error_update (\<lambda>_. None))
       (with_flag lg_submitting_update
         (try_catch
           (await_session (AcLogin (lg_email s) (lg_password s))
             (\<lambda>r. case r of
                 MfaRequired t \<Rightarrow> Set (lg_mfaToken_update (\<lambda>_. Some t)) Done
               | SessionReady role \<Rightarrow> go_home params role))
           (\<lambda>cause. Set (lg_error_update (\<lambda>_. Some cause)) Done)))"

definition handleResendVerification :: "login_page \<Rightarrow> login_page auth_script" where
  "handleResendVerification s =
     (if lg_email s = [] then Set (toast_error ''Masukkan email terlebih dahulu'') Done
      else with_flag lg_resending_update
        (try_catch
          (await_api (api_post ''/auth/email/resend-public'' (Some (JObj [(''email'', JStr (lg_email s))])) no_options)
            (\<lambda>_. Set (toast_success (''Email verifikasi dikirim '' @ em_dash @ '' cek inbox kamu (otomatis setelah daftar).'')) Done))
          (\<lambda>cause. if code_is ''CONFLICT'' cause then Set (toast_error ''Email sudah terverifikasi, silakan login.'') Done
             else Set (toast_error (error_message ''Gagal mengirim email verifikasi'' cause)) Done)))"

definition handleMFASubmit :: "params \<Rightarrow> login_page \<Rightarrow> login_page auth_script" where
  "handleMFASubmit params s =
     (case lg_mfaToken s of
        Some t \<Rightarrow>
          if \<not> truthy t then Done
          else Set (lg_error_update (\<lambda>_. None))
            (with_flag lg_submitting_update
              (try_catch
                (await_session (AcMfa t (lg_mfaCode s))
                  (\<lambda>r. case r of SessionReady role \<Rightarrow> go_home params role | MfaRequired _ \<Rightarrow> Done))
                (\<lambda>cause. Set (lg_error_update (\<lambda>_. Some cause)) Done)))
      | None \<Rightarrow> Done)"

definition handlePasskeyLogin :: "bool \<Rightarrow> login_page auth_script" where
  "handlePasskeyLogin supported =
     Set (lg_error_update (\<lambda>_. None))
       (with_flag lg_passkeyBusy_update
         (try_catch
           (passkeyLogin supported
             (\<lambda>result.
                if \<not> is_object result then Throw (PlainError ''TypeError'')
                else if flag_prop ''mfa_required'' result
                then Set (lg_mfaToken_update (\<lambda>_. prop_of result ''preauth_token''))
                       (Set (toast_info (''Passkey OK '' @ em_dash @ '' masukkan kode TOTP'')) Done)
                else Set (leave_to ''/handoff'') Done))
           (\<lambda>cause. Set (toast_error (error_message ''Passkey login failed'' cause)) Done)))"

text \<open>The banners above the form.\<close>

definition oauth_banner :: "params \<Rightarrow> string option" where
  "oauth_banner params =
     (case params ''error'' of
        None \<Rightarrow> None
      | Some e \<Rightarrow>
          if e = [] then None
          else Some (if e = ''oauth_not_configured''
                     then ''OAuth belum dikonfigurasi '' @ em_dash @ '' hubungi admin untuk set GOOGLE_CLIENT_ID / GITHUB_CLIENT_ID''
                     else if e = ''oauth_invalid_state'' then ''Sesi OAuth kadaluarsa '' @ em_dash @ '' coba lagi''
                     else if e = ''oauth_access_denied''
                     then ''Anda membatalkan login '' @ em_dash @ '' coba lagi atau pakai email/password''
                     else ''OAuth gagal: '' @ e))"

definition unverified_shown :: "login_page \<Rightarrow> bool" where
  "unverified_shown s \<longleftrightarrow> (case lg_error s of Some cause \<Rightarrow> code_is ''EMAIL_NOT_VERIFIED'' cause | None \<Rightarrow> False)"

definition details_text :: "details \<Rightarrow> string" where
  "details_text d =
     (case d of
        NoDetails \<Rightarrow> JSON_stringify (JStr [])
      | CauseError \<Rightarrow> JSON_stringify (JObj [])
      | Details j \<Rightarrow> JSON_stringify (coalesce (Some j) (JStr [])))"

definition unregistered_shown :: "login_page \<Rightarrow> bool" where
  "unregistered_shown s \<longleftrightarrow>
     (case lg_error s of
        Some (ApiError c m st d) \<Rightarrow> c = JStr ''INVALID_CREDENTIALS''
          \<and> (str_includes m ''not registered'' \<or> str_includes (details_text d) ''belum terdaftar'')
      | _ \<Rightarrow> False)"

definition verify_link :: "login_page \<Rightarrow> string" where
  "verify_link s = ''/verify-email?email='' @ encodeURIComponent (lg_email s)"

definition signup_link :: "login_page \<Rightarrow> string" where
  "signup_link s = ''/signup?email='' @ encodeURIComponent (lg_email s)"

datatype login_event =
    LgEffect | LgEmail string | LgPassword string | LgShow | LgSubmit | LgResend
  | LgOAuth string | LgPasskey | LgCode string | LgMfaSubmit | LgBack

fun login_handler ::
  "string \<Rightarrow> (string \<Rightarrow> bool) \<Rightarrow> bool \<Rightarrow> params \<Rightarrow> login_event \<Rightarrow> login_page \<Rightarrow> login_page auth_script" where
  "login_handler base valid_email supported params LgEffect s = login_effect params s"
| "login_handler base valid_email supported params (LgEmail t) s =
     (if second_step s then Done else Set (lg_email_update (\<lambda>_. t)) Done)"
| "login_handler base valid_email supported params (LgPassword t) s =
     (if second_step s then Done else Set (lg_password_update (\<lambda>_. t)) Done)"
| "login_handler base valid_email supported params LgShow s =
     (if second_step s then Done else Set (lg_showPassword_update Not) Done)"
| "login_handler base valid_email supported params LgSubmit s =
     (if second_step s \<or> lg_submitting s \<or> lg_email s = [] \<or> \<not> valid_email (lg_email s) \<or> lg_password s = [] then Done
      else login_submit params s)"
| "login_handler base valid_email supported params LgResend s =
     (if second_step s \<or> \<not> unverified_shown s \<or> lg_resending s \<or> lg_email s = [] then Done
      else handleResendVerification s)"
| "login_handler base valid_email supported params (LgOAuth provider) s =
     (if second_step s \<or> provider \<notin> {''google'', ''github''} then Done
      else Set (leave_to (base @ ''/auth/oauth/'' @ provider)) Done)"
| "login_handler base valid_email supported params LgPasskey s =
     (if second_step s \<or> lg_passkeyBusy s then Done else handlePasskeyLogin supported)"
| "login_handler base valid_email supported params (LgCode t) s =
     (if second_step s then Set (lg_mfaCode_update (\<lambda>_. otp_digits t)) Done else Done)"
| "login_handler base valid_email supported params LgMfaSubmit s =
     (if \<not> second_step s \<or> lg_submitting s \<or> js_length (lg_mfaCode s) \<noteq> 6 then Done else handleMFASubmit params s)"
| "login_handler base valid_email supported params LgBack s =
     (if second_step s then Set (lg_mfaToken_update (\<lambda>_. None)) (Set (lg_mfaCode_update (\<lambda>_. []))
         (Set (lg_error_update (\<lambda>_. None)) Done)) else Done)"

subsection \<open>SignupPage\<close>

definition LOCALES :: "string list" where
  "LOCALES = [''id-ID'', ''en-US'', ''en-GB'', ''zh-CN'', ''ja-JP'']"

definition TIMEZONES :: "string list" where
  "TIMEZONES = [''Asia/Jakarta'', ''Asia/Makassar'', ''Asia/Jayapura'', ''Asia/Singapore'', ''Asia/Kuala_Lumpur'',
     ''Asia/Bangkok'', ''Asia/Tokyo'', ''UTC'']"

record signup_page = auth_page +
  su_fullName :: string
  su_username :: string
  su_email :: string
  su_phone :: string
  su_locale :: string
  su_timezone :: string
  su_password :: string
  su_confirmPassword :: string
  su_showPassword :: bool
  su_showConfirmPassword :: bool
  su_agreedToTerms :: bool
  su_agreedToPrivacy :: bool
  su_error :: "js_error option"
  su_submitting :: bool

definition open_signup :: "auth_state \<Rightarrow> signup_page" where
  "open_signup a = \<lparr>toasts = [], ap_auth = a, ap_history = [], ap_location = [], su_fullName = [], su_username = [],
     su_email = [], su_phone = [], su_locale = ''id-ID'', su_timezone = ''Asia/Jakarta'', su_password = [],
     su_confirmPassword = [], su_showPassword = False, su_showConfirmPassword = False, su_agreedToTerms = False,
     su_agreedToPrivacy = False, su_error = None, su_submitting = False\<rparr>"

definition signup_effect :: "signup_page \<Rightarrow> signup_page auth_script" where
  "signup_effect s =
     (if \<not> au_loading (ap_auth s) \<and> \<not> missing (au_token (ap_auth s)) \<and> au_role (ap_auth s) \<noteq> None
      then Set (navigate (auth_homePathFor (au_role (ap_auth s)))) Done else Done)"

text \<open>\<open>/^\+[1-9][0-9]{7,14}$/\<close>.\<close>

fun phone_ok :: "string \<Rightarrow> bool" where
  "phone_ok (p # d # rest) \<longleftrightarrow> p = CHR ''+'' \<and> is_digit d \<and> d \<noteq> CHR ''0'' \<and> list_all is_digit rest
     \<and> 7 \<le> length rest \<and> length rest \<le> 14"
| "phone_ok _ \<longleftrightarrow> False"

definition signup_payload :: "signup_page \<Rightarrow> register_payload" where
  "signup_payload s = \<lparr>rp_email = su_email s, rp_password = su_password s, rp_full_name = su_fullName s,
     rp_extra = (if trim (su_username s) = [] then [] else [(''username'', JStr (trim (su_username s)))])
       @ (if trim (su_phone s) = [] then [] else [(''phone'', JStr (trim (su_phone s)))])
       @ (if su_locale s = [] then [] else [(''locale'', JStr (su_locale s))])
       @ (if su_timezone s = [] then [] else [(''timezone'', JStr (su_timezone s))])\<rparr>"

definition set_signup_error :: "string \<Rightarrow> signup_page \<Rightarrow> signup_page" where
  "set_signup_error m = su_error_update (\<lambda>_. Some (PlainError m))"

definition signup_submit :: "signup_page \<Rightarrow> signup_page auth_script" where
  "signup_submit s =
     Set (su_error_update (\<lambda>_. None))
       (if su_password s \<noteq> su_confirmPassword s
        then Set (set_signup_error ''Password dan konfirmasi password tidak cocok'') Done
        else if \<not> su_agreedToTerms s \<or> \<not> su_agreedToPrivacy s
        then Set (set_signup_error ''Anda harus menyetujui Syarat & Ketentuan dan Kebijakan Privasi'') Done
        else if su_phone s \<noteq> [] \<and> \<not> phone_ok (su_phone s)
        then Set (set_signup_error ''Format nomor telepon tidak valid. Gunakan format internasional, contoh: +62812345678'') Done
        else with_flag su_submitting_update
          (try_catch
            (await_session (AcRegister (signup_payload s))
              (\<lambda>r. case r of
                  MfaRequired _ \<Rightarrow> Set (navigate ''/login'') Done
                | SessionReady role \<Rightarrow> Set (navigate (auth_homePathFor (Some role))) Done))
            (\<lambda>cause.
               if code_is ''EMAIL_NOT_VERIFIED'' cause
               then Set (toast_success ''Akun berhasil dibuat! Cek email kamu untuk link verifikasi (otomatis terkirim).'')
                      (Set (navigate (''/verify-email?email='' @ encodeURIComponent (su_email s))) Done)
               else if code_is ''EMAIL_ALREADY_EXISTS'' cause
               then Set (set_signup_error (''Email sudah terdaftar. Silakan masuk dengan akun tersebut, atau gunakan '' @ [CHR 0x27]
                      @ ''Lupa password'' @ [CHR 0x27] @ '' jika lupa kata sandi. Jika belum verifikasi email, buka halaman verifikasi untuk kirim ulang.'')) Done
               else Set (su_error_update (\<lambda>_. Some cause)) Done)))"

definition signup_complete :: "(string \<Rightarrow> bool) \<Rightarrow> signup_page \<Rightarrow> bool" where
  "signup_complete valid_email s \<longleftrightarrow>
     su_fullName s \<noteq> [] \<and> su_email s \<noteq> [] \<and> valid_email (su_email s)
     \<and> 10 \<le> js_length (su_password s) \<and> 10 \<le> js_length (su_confirmPassword s)"

datatype signup_event =
    SuEffect | SuFullName string | SuUsername string | SuEmail string | SuPhone string | SuLocale string | SuTimezone string
  | SuPassword string | SuConfirm string | SuShow | SuShowConfirm | SuTerms bool | SuPrivacy bool | SuOAuth string | SuSubmit

fun signup_handler :: "string \<Rightarrow> (string \<Rightarrow> bool) \<Rightarrow> signup_event \<Rightarrow> signup_page \<Rightarrow> signup_page auth_script" where
  "signup_handler base valid_email SuEffect s = signup_effect s"
| "signup_handler base valid_email (SuFullName t) s = Set (su_fullName_update (\<lambda>_. t)) Done"
| "signup_handler base valid_email (SuUsername t) s = Set (su_username_update (\<lambda>_. t)) Done"
| "signup_handler base valid_email (SuEmail t) s = Set (su_email_update (\<lambda>_. t)) Done"
| "signup_handler base valid_email (SuPhone t) s = Set (su_phone_update (\<lambda>_. t)) Done"
| "signup_handler base valid_email (SuLocale t) s = (if t \<in> set LOCALES then Set (su_locale_update (\<lambda>_. t)) Done else Done)"
| "signup_handler base valid_email (SuTimezone t) s = (if t \<in> set TIMEZONES then Set (su_timezone_update (\<lambda>_. t)) Done else Done)"
| "signup_handler base valid_email (SuPassword t) s = Set (su_password_update (\<lambda>_. t)) Done"
| "signup_handler base valid_email (SuConfirm t) s = Set (su_confirmPassword_update (\<lambda>_. t)) Done"
| "signup_handler base valid_email SuShow s = Set (su_showPassword_update Not) Done"
| "signup_handler base valid_email SuShowConfirm s = Set (su_showConfirmPassword_update Not) Done"
| "signup_handler base valid_email (SuTerms v) s = Set (su_agreedToTerms_update (\<lambda>_. v)) Done"
| "signup_handler base valid_email (SuPrivacy v) s = Set (su_agreedToPrivacy_update (\<lambda>_. v)) Done"
| "signup_handler base valid_email (SuOAuth provider) s =
     (if provider \<in> {''google'', ''github''} then Set (leave_to (base @ ''/auth/oauth/'' @ provider)) Done else Done)"
| "signup_handler base valid_email SuSubmit s =
     (if su_submitting s \<or> \<not> su_agreedToTerms s \<or> \<not> su_agreedToPrivacy s \<or> \<not> signup_complete valid_email s then Done
      else signup_submit s)"

subsection \<open>HandoffPage\<close>

record handoff_page = auth_page +
  hf_error :: "string option"
  hf_fired :: bool

definition open_handoff :: "auth_state \<Rightarrow> handoff_page" where
  "open_handoff a = \<lparr>toasts = [], ap_auth = a, ap_history = [], ap_location = [], hf_error = None, hf_fired = False\<rparr>"

text \<open>The header the page adds itself, from the cookie of the moment.\<close>

definition handoff_headers :: "string \<Rightarrow> js_error + string js_record" where
  "handoff_headers ck =
     (case csrf_match ck of
        None \<Rightarrow> Inr []
      | Some v \<Rightarrow> (case decodeURIComponent v of
                    None \<Rightarrow> Inl (PlainError ''URI malformed'')
                  | Some t \<Rightarrow> Inr [(''X-CSRF-Token'', t)]))"

definition handoff_call :: "string js_record \<Rightarrow> api_call" where
  "handoff_call headers = api_post ''/auth/handoff'' (Some (JObj [])) \<lparr>ao_headers = Some headers, ao_query = None\<rparr>"

text \<open>The inner \<open>try\<close>: the code of the answer, or what is thrown instead.\<close>

definition handoff_code :: "api_result \<Rightarrow> js_error + json option" where
  "handoff_code r =
     (let read = (case r of
          Inl e \<Rightarrow> Inl e
        | Inr env \<Rightarrow> if env_data env = JNull then Inl (PlainError ''TypeError'') else Inr (prop_of (env_data env) ''code''))
      in case read of
           Inr code \<Rightarrow> Inr code
         | Inl inner \<Rightarrow>
             if str_includes (err_message inner) ''CSRF'' \<or> str_includes (err_message inner) ''csrf''
             then Inl (PlainError ''Backend belum di-deploy ulang. Jalankan di VPS: git pull && docker compose --env-file compose.env up -d --build api'')
             else Inl inner)"

definition handoff_url :: "string \<Rightarrow> json \<Rightarrow> string" where
  "handoff_url origin code = origin @ ''/oauth/callback?code='' @ encodeURIComponent (js_String code)"

definition handoff_effect :: "env \<Rightarrow> string \<Rightarrow> handoff_page \<Rightarrow> handoff_page auth_script" where
  "handoff_effect e ck s =
     (if hf_fired s \<or> au_loading (ap_auth s) then Done
      else case au_role (ap_auth s) of
        None \<Rightarrow> Set (hf_error_update (\<lambda>_. Some ''You are not signed in.'')) Done
      | Some role \<Rightarrow>
          Set (hf_fired_update (\<lambda>_. True))
            (let origin = consoleUrlFor e (Some role)
             in if origin = [] \<or> startsWith origin ''/''
                then Set (hf_error_update (\<lambda>_. Some ''Could not determine your console.'')) Done
                else try_catch
                  (case handoff_headers ck of
                     Inl cause \<Rightarrow> Throw cause
                   | Inr headers \<Rightarrow> Await [AcApi (handoff_call headers)] (\<lambda>rs n. case hd rs of
                         ApiAnswer r \<Rightarrow> (case handoff_code r of
                             Inl cause \<Rightarrow> Throw cause
                           | Inr None \<Rightarrow> Throw (PlainError ''empty code'')
                           | Inr (Some code) \<Rightarrow> if truthy code then Set (leave_to (handoff_url origin code)) Done
                                             else Throw (PlainError ''empty code''))
                       | _ \<Rightarrow> Done))
                  (\<lambda>cause. Set (hf_error_update (\<lambda>_. Some (''Failed to create handoff: '' @ err_message cause
                       @ ''. Please try logging in again.''))) Done)))"

text \<open>\<open>HfEffect ck\<close> is a run of the effect while \<open>document.cookie\<close> is \<open>ck\<close>; \<open>HfProvider a\<close> is a change of
  the provider's cells.\<close>

datatype handoff_event = HfEffect string | HfProvider auth_state

fun handoff_handler :: "env \<Rightarrow> handoff_event \<Rightarrow> handoff_page \<Rightarrow> handoff_page auth_script" where
  "handoff_handler e (HfEffect ck) s = handoff_effect e ck s"
| "handoff_handler e (HfProvider a) s = Set (ap_auth_update (\<lambda>_. a)) Done"

subsection \<open>OAuthCallbackPage\<close>

text \<open>The three consoles have the page with different destinations.\<close>

datatype callback_site = AuthSite | AdminSite | UserSite

fun callback_home :: "callback_site \<Rightarrow> app_role \<Rightarrow> string" where
  "callback_home AuthSite role = auth_homePathFor (Some role)"
| "callback_home AdminSite role = homePathFor (Some role)"
| "callback_home UserSite role = user_homePathFor (Some role)"

definition callback_done :: "callback_site \<Rightarrow> string" where
  "callback_done site = (if site = AuthSite then ''/handoff'' else ''/'')"

definition callback_failed :: "callback_site \<Rightarrow> string" where
  "callback_failed site = ''Login failed '' @ em_dash @ '' code expired or invalid''
     @ (if site = AuthSite then [] else ''. Redirecting to login'' @ ellipsis)"

record callback_page = auth_page +
  oc_mfaCode :: string
  oc_submitting :: bool
  oc_localError :: "js_error option"
  oc_done :: bool
  oc_cleaned :: bool
  oc_timer :: bool

definition open_callback :: "auth_state \<Rightarrow> callback_page" where
  "open_callback a = \<lparr>toasts = [], ap_auth = a, ap_history = [], ap_location = [], oc_mfaCode = [], oc_submitting = False,
     oc_localError = None, oc_done = False, oc_cleaned = False, oc_timer = False\<rparr>"

definition exchange_call :: "string \<Rightarrow> api_call" where
  "exchange_call code = api_post ''/auth/handoff/exchange'' (Some (JObj [(''code'', JStr code)])) no_options"

definition callback_effect :: "callback_site \<Rightarrow> params \<Rightarrow> callback_page \<Rightarrow> callback_page auth_script" where
  "callback_effect site params s =
     (if \<not> missing (params ''error'') \<or> param_is params ''mfa_required'' ''1'' then Done
      else if missing (params ''code'') \<or> oc_done s then Done
      else Set (oc_done_update (\<lambda>_. True))
        (try_catch
          (await_api (exchange_call (the (params ''code'')))
            (\<lambda>_. Set (oc_cleaned_update (\<lambda>_. True)) (Set (leave_to (callback_done site)) Done)))
          (\<lambda>_. Set (toast_error (callback_failed site))
             (if site = AuthSite then Done else Set (oc_timer_update (\<lambda>_. True)) Done))))"

definition mfa_form_shown :: "params \<Rightarrow> bool" where
  "mfa_form_shown params \<longleftrightarrow>
     missing (params ''error'') \<and> param_is params ''mfa_required'' ''1'' \<and> \<not> missing (params ''preauth_token'')"

definition handleMFA :: "callback_site \<Rightarrow> params \<Rightarrow> callback_page \<Rightarrow> callback_page auth_script" where
  "handleMFA site params s =
     (if missing (params ''preauth_token'') then Done
      else Set (oc_localError_update (\<lambda>_. None))
        (with_flag oc_submitting_update
          (try_catch
            (await_session (AcMfa (JStr (the (params ''preauth_token''))) (oc_mfaCode s))
              (\<lambda>r. case r of
                  SessionReady role \<Rightarrow> Set (toast_success ''MFA verified'') (Set (oc_cleaned_update (\<lambda>_. True))
                      (Set (navigate (callback_home site role)) Done))
                | MfaRequired _ \<Rightarrow> Done))
            (\<lambda>cause. Set (oc_localError_update (\<lambda>_. Some cause)) Done))))"

definition callback_error :: "string \<Rightarrow> string" where
  "callback_error e =
     (if e = ''oauth_not_configured''
      then ''OAuth belum dikonfigurasi '' @ em_dash @ '' set GOOGLE_CLIENT_ID / GITHUB_CLIENT_ID di backend .env''
      else if e = ''oauth_invalid_state'' then ''State tidak valid atau kadaluarsa '' @ em_dash @ '' coba lagi''
      else if e = ''oauth_no_email'' then ''Provider tidak mengembalikan email '' @ em_dash @ '' coba provider lain''
      else ''OAuth gagal: '' @ e)"

datatype callback_view = CallbackError string | CallbackMfa "js_error option" | CallbackSpinner

definition callback_shown :: "params \<Rightarrow> callback_page \<Rightarrow> callback_view" where
  "callback_shown params s =
     (if \<not> missing (params ''error'') then CallbackError (callback_error (the (params ''error'')))
      else if mfa_form_shown params then CallbackMfa (oc_localError s)
      else CallbackSpinner)"

datatype callback_event = OcEffect | OcTimer | OcCode string | OcSubmit

fun callback_handler :: "callback_site \<Rightarrow> params \<Rightarrow> callback_event \<Rightarrow> callback_page \<Rightarrow> callback_page auth_script" where
  "callback_handler site params OcEffect s = callback_effect site params s"
| "callback_handler site params OcTimer s =
     (if oc_timer s then Set (oc_timer_update (\<lambda>_. False)) (Set (leave_to ''https://auth.kilat-cloud.com/login'') Done) else Done)"
| "callback_handler site params (OcCode t) s =
     (if mfa_form_shown params then Set (oc_mfaCode_update (\<lambda>_. otp_digits t)) Done else Done)"
| "callback_handler site params OcSubmit s =
     (if \<not> mfa_form_shown params \<or> oc_submitting s \<or> js_length (oc_mfaCode s) \<noteq> 6 then Done else handleMFA site params s)"

subsection \<open>ForgotPasswordPage and ResetPasswordPage\<close>

record forgot_page =
  fp_email :: string
  fp_error :: "js_error option"
  fp_sent :: bool
  fp_submitting :: bool

definition forgot_submit :: "forgot_page \<Rightarrow> forgot_page api_script" where
  "forgot_submit s =
     Set (fp_error_update (\<lambda>_. None))
       (with_flag fp_submitting_update
         (try_catch
           (await (api_post ''/auth/password/forgot'' (Some (JObj [(''email'', JStr (fp_email s))])) no_options)
             (\<lambda>_. Set (fp_sent_update (\<lambda>_. True)) Done))
           (\<lambda>cause. Set (fp_error_update (\<lambda>_. Some cause)) Done)))"

datatype forgot_event = FpEmail string | FpSubmit

fun forgot_handler :: "(string \<Rightarrow> bool) \<Rightarrow> forgot_event \<Rightarrow> forgot_page \<Rightarrow> forgot_page api_script" where
  "forgot_handler valid_email (FpEmail t) s = (if fp_sent s then Done else Set (fp_email_update (\<lambda>_. t)) Done)"
| "forgot_handler valid_email FpSubmit s =
     (if fp_sent s \<or> fp_submitting s \<or> fp_email s = [] \<or> \<not> valid_email (fp_email s) then Done else forgot_submit s)"

definition url_token :: "params \<Rightarrow> string" where
  "url_token params =
     (case params ''token'' of
        Some t \<Rightarrow> t
      | None \<Rightarrow> (case params ''t'' of Some t \<Rightarrow> t | None \<Rightarrow> []))"

record reset_page =
  rp_token :: string
  rp_newPassword :: string
  rp_confirm :: string
  rp_error :: "js_error option"
  rp_done :: bool
  rp_submitting :: bool

definition open_reset :: "params \<Rightarrow> reset_page" where
  "open_reset params = \<lparr>rp_token = url_token params, rp_newPassword = [], rp_confirm = [], rp_error = None, rp_done = False,
     rp_submitting = False\<rparr>"

definition reset_submit :: "reset_page \<Rightarrow> reset_page api_script" where
  "reset_submit s =
     Set (rp_error_update (\<lambda>_. None))
       (if rp_newPassword s \<noteq> rp_confirm s
        then Set (rp_error_update (\<lambda>_. Some (PlainError ''Passwords do not match''))) Done
        else if js_length (rp_newPassword s) < 10
        then Set (rp_error_update (\<lambda>_. Some (PlainError ''Password must be at least 10 characters''))) Done
        else with_flag rp_submitting_update
          (try_catch
            (await (api_post ''/auth/password/reset''
                (Some (JObj [(''token'', JStr (rp_token s)), (''new_password'', JStr (rp_newPassword s))])) no_options)
              (\<lambda>_. Set (rp_done_update (\<lambda>_. True)) Done))
            (\<lambda>cause. Set (rp_error_update (\<lambda>_. Some cause)) Done)))"

datatype reset_event = RpToken string | RpPassword string | RpConfirm string | RpSubmit

fun reset_handler :: "reset_event \<Rightarrow> reset_page \<Rightarrow> reset_page api_script" where
  "reset_handler (RpToken t) s = (if rp_done s then Done else Set (rp_token_update (\<lambda>_. t)) Done)"
| "reset_handler (RpPassword t) s = (if rp_done s then Done else Set (rp_newPassword_update (\<lambda>_. t)) Done)"
| "reset_handler (RpConfirm t) s = (if rp_done s then Done else Set (rp_confirm_update (\<lambda>_. t)) Done)"
| "reset_handler RpSubmit s =
     (if rp_done s \<or> rp_submitting s \<or> rp_token s = [] \<or> js_length (rp_newPassword s) < 10 \<or> js_length (rp_confirm s) < 10
      then Done else reset_submit s)"

subsection \<open>VerifyEmailPage\<close>

text \<open>\<open>ve_run\<close> numbers the runs of the status effect: a change of what it depends on cancels the run before.\<close>

record verify_page = auth_page +
  ve_error :: "js_error option"
  ve_verifying :: bool
  ve_verified :: bool
  ve_resending :: bool
  ve_emailInput :: string
  ve_run :: nat

definition queryEmail :: "params \<Rightarrow> string" where
  "queryEmail params = (case params ''email'' of Some e \<Rightarrow> e | None \<Rightarrow> [])"

definition open_verify :: "auth_state \<Rightarrow> params \<Rightarrow> verify_page" where
  "open_verify a params = \<lparr>toasts = [], ap_auth = a, ap_history = [], ap_location = [], ve_error = None,
     ve_verifying = (url_token params \<noteq> []), ve_verified = False, ve_resending = False, ve_emailInput = queryEmail params,
     ve_run = 0\<rparr>"

definition verify_effect :: "params \<Rightarrow> verify_page api_script" where
  "verify_effect params =
     (if url_token params = [] then Done
      else finally_set
        (try_catch
          (await (api_post ''/auth/email/verify'' (Some (JObj [(''token'', JStr (url_token params))])) no_options)
            (\<lambda>_. Set (ve_verified_update (\<lambda>_. True)) Done))
          (\<lambda>cause. Set (ve_error_update (\<lambda>_. Some cause)) Done))
        (ve_verifying_update (\<lambda>_. False)))"

definition resend_target :: "params \<Rightarrow> verify_page \<Rightarrow> string" where
  "resend_target params s = (if trim (ve_emailInput s) = [] then trim (queryEmail params) else trim (ve_emailInput s))"

definition resend_call :: "params \<Rightarrow> verify_page \<Rightarrow> api_call" where
  "resend_call params s =
     (if \<not> missing (au_token (ap_auth s)) then api_post ''/auth/email/resend'' None no_options
      else api_post ''/auth/email/resend-public'' (Some (JObj [(''email'', JStr (resend_target params s))])) no_options)"

definition resend :: "params \<Rightarrow> verify_page \<Rightarrow> verify_page api_script" where
  "resend params s =
     Set (ve_error_update (\<lambda>_. None))
       (with_flag ve_resending_update
         (if missing (au_token (ap_auth s)) \<and> resend_target params s = []
          then Set (toast_error ''Masukkan email untuk kirim ulang verifikasi'') (Set (ve_resending_update (\<lambda>_. False)) Done)
          else try_catch
            (await (resend_call params s)
              (\<lambda>_. Set (toast_success (''Email verifikasi dikirim '' @ em_dash @ '' cek inbox & spam (otomatis setelah daftar)'')) Done))
            (\<lambda>cause.
               if code_is ''CONFLICT'' cause
               then Set (toast_success (''Email sudah terverifikasi '' @ em_dash @ '' silakan login''))
                      (Set (ve_verified_update (\<lambda>_. True)) (Set (ve_error_update (\<lambda>_. None)) Done))
               else Set (ve_error_update (\<lambda>_. Some cause)) Done)))"

definition status_email :: "params \<Rightarrow> verify_page \<Rightarrow> string" where
  "status_email params s = trim (if queryEmail params = [] then ve_emailInput s else queryEmail params)"

definition status_effect :: "params \<Rightarrow> verify_page \<Rightarrow> verify_page api_script" where
  "status_effect params s =
     (if url_token params \<noteq> [] \<or> ve_verified s \<or> ve_verifying s \<or> status_email params s = [] then Done
      else Set (ve_run_update Suc)
        (try_catch
          (await (api_get ''/auth/email/status'' \<lparr>ao_headers = None, ao_query = Some [(''email'', QStr (status_email params s))]\<rparr>)
            (\<lambda>e. Set (\<lambda>x. if ve_run x = Suc (ve_run s) \<and> flag_prop ''verified'' (env_data e) then x\<lparr>ve_verified := True\<rparr> else x) Done))
          (\<lambda>_. Done)))"

definition verify_input :: "string \<Rightarrow> verify_page \<Rightarrow> verify_page" where
  "verify_input t s = (if t = ve_emailInput s then s else s\<lparr>ve_emailInput := t, ve_run := Suc (ve_run s)\<rparr>)"

definition goHome :: "verify_page \<Rightarrow> verify_page api_script" where
  "goHome s = Set (navigate (case au_role (ap_auth s) of Some role \<Rightarrow> auth_homePathFor (Some role) | None \<Rightarrow> ''/login'')) Done"

datatype verify_event = VeVerify | VeStatus | VeSync | VeEmail string | VeResend | VeHome

fun verify_handler :: "params \<Rightarrow> verify_event \<Rightarrow> verify_page \<Rightarrow> verify_page api_script" where
  "verify_handler params VeVerify s = verify_effect params"
| "verify_handler params VeStatus s = status_effect params s"
| "verify_handler params VeSync s = Set (verify_input (queryEmail params)) Done"
| "verify_handler params (VeEmail t) s =
     (if ve_verifying s \<or> ve_verified s \<or> \<not> missing (au_token (ap_auth s)) then Done else Set (verify_input t) Done)"
| "verify_handler params VeResend s = (if ve_verifying s \<or> ve_verified s \<or> ve_resending s then Done else resend params s)"
| "verify_handler params VeHome s = (if ve_verified s \<and> \<not> ve_verifying s then goHome s else Done)"

end
