(* ===== verification/Sign_In_Requests.thy ===== *)
theory Sign_In_Requests
  imports Sign_In Js_Number
begin

text \<open>
  What the pages of the auth console send and where they go: the contracts of the pages as
  interpretations of the locales of \<open>Page_Kit\<close>, and the properties over all runs of them.
\<close>

subsection \<open>Requests\<close>

definition six_digits :: "string \<Rightarrow> bool" where
  "six_digits c \<longleftrightarrow> length c = 6 \<and> list_all is_digit c"

text \<open>The texts of an assertion decode to the bytes of a credential.\<close>

definition assertion_decodes :: "assertion \<Rightarrow> json \<Rightarrow> bool" where
  "assertion_decodes c j \<longleftrightarrow>
     (\<exists>raw client authdata sig handle.
        j = JObj [(''id'', JStr (as_id c)), (''rawId'', JStr raw), (''type'', JStr (as_type c)),
              (''response'', JObj ([(''clientDataJSON'', JStr client), (''authenticatorData'', JStr authdata),
                 (''signature'', JStr sig)] @ opt_field ''userHandle'' (map_option JStr handle)))]
        \<and> base64UrlToBytes raw = Some (as_rawId c)
        \<and> base64UrlToBytes client = Some (as_clientDataJSON c)
        \<and> base64UrlToBytes authdata = Some (as_authenticatorData c)
        \<and> base64UrlToBytes sig = Some (as_signature c)
        \<and> map_option base64UrlToBytes handle = map_option Some (as_userHandle c))"

lemma assertion_json_decodes: "assertion_decodes c (assertion_json c)"
  unfolding assertion_decodes_def
  by (intro exI [of _ "bytesToBase64Url (as_rawId c)"] exI [of _ "bytesToBase64Url (as_clientDataJSON c)"]
      exI [of _ "bytesToBase64Url (as_authenticatorData c)"] exI [of _ "bytesToBase64Url (as_signature c)"]
      exI [of _ "map_option bytesToBase64Url (as_userHandle c)"])
     (simp add: assertion_json_def base64url_decodes option.map_comp o_def)

text \<open>The requests of the sign-in page.\<close>

fun login_request :: "(string \<Rightarrow> bool) \<Rightarrow> auth_call \<Rightarrow> bool" where
  "login_request valid_email (AcLogin email password) \<longleftrightarrow> email \<noteq> [] \<and> valid_email email \<and> password \<noteq> []"
| "login_request valid_email (AcMfa t code) \<longleftrightarrow> truthy t \<and> six_digits code"
| "login_request valid_email (AcRegister p) \<longleftrightarrow> False"
| "login_request valid_email (AcAssert options) \<longleftrightarrow> True"
| "login_request valid_email (AcApi c) \<longleftrightarrow>
     c = api_post ''/auth/passkey/begin-login'' None no_options
     \<or> (\<exists>email. email \<noteq> [] \<and> c = api_post ''/auth/email/resend-public'' (Some (JObj [(''email'', JStr email)])) no_options)
     \<or> (\<exists>cred j handle. assertion_decodes cred j
          \<and> c = api_post ''/auth/passkey/login'' (Some (JObj (handle @ [(''credential'', j)]))) no_options)"

definition login_inv :: "login_page \<Rightarrow> bool" where
  "login_inv s \<longleftrightarrow> handoff_signed_in s \<and> list_all is_digit (lg_mfaCode s)"

lemma digits_length: "list_all is_digit s \<Longrightarrow> js_length s = length s"
  by (induction s) (auto simp: js_length_def code_units_def is_digit_def)

lemma otp_digits_digits [simp]: "list_all is_digit (otp_digits t)"
  by (simp add: otp_digits_def list_all_iff)

lemma digits_six: "list_all is_digit s \<Longrightarrow> js_length s = 6 \<Longrightarrow> six_digits s"
  by (simp add: six_digits_def digits_length)

lemmas page_defs = toast_success_def toast_error_def toast_info_def navigate_def leave_to_def

lemma handoff_signed_in_simps [simp]:
  "handoff_signed_in (toasts_update f x) = handoff_signed_in x"
  "handoff_signed_in (ap_location_update g x) = handoff_signed_in x"
  by (simp_all add: handoff_signed_in_def has_session_def)

lemma login_inv_simps [simp]:
  "login_inv (toast_success m x) = login_inv x" "login_inv (toast_error m x) = login_inv x" "login_inv (toast_info m x) = login_inv x"
  "login_inv (leave_to u x) = login_inv x" "login_inv (lg_email_update f1 x) = login_inv x" "login_inv (lg_password_update f1 x) = login_inv x"
  "login_inv (lg_showPassword_update f2 x) = login_inv x" "login_inv (lg_error_update f3 x) = login_inv x"
  "login_inv (lg_submitting_update f2 x) = login_inv x" "login_inv (lg_passkeyBusy_update f2 x) = login_inv x"
  "login_inv (lg_mfaToken_update f4 x) = login_inv x" "login_inv (lg_resending_update f2 x) = login_inv x"
  "list_all is_digit d \<Longrightarrow> login_inv x \<Longrightarrow> login_inv (lg_mfaCode_update (\<lambda>_. d) x)"
  by (simp_all add: login_inv_def page_defs handoff_signed_in_def has_session_def)

lemma navigate_keeps:
  "has_session x \<Longrightarrow> handoff_signed_in (navigate path x)"
  "path \<noteq> ''/handoff'' \<Longrightarrow> handoff_signed_in x \<Longrightarrow> handoff_signed_in (navigate path x)"
  "has_session (navigate path x) = has_session x"
  by (simp_all add: handoff_signed_in_def navigate_def has_session_def)

lemma auth_update_keeps:
  "handoff_signed_in x \<Longrightarrow> (has_session x \<Longrightarrow> has_session (ap_auth_update f x)) \<Longrightarrow> handoff_signed_in (ap_auth_update f x)"
  by (auto simp: handoff_signed_in_def)

lemma login_navigate: "login_inv x \<Longrightarrow> has_session x \<Longrightarrow> login_inv (navigate path x)"
  by (auto simp: login_inv_def navigate_keeps navigate_def [where s = x] has_session_def)
     (auto simp: handoff_signed_in_def has_session_def)

lemma login_auth: "login_inv x \<Longrightarrow> (has_session x \<Longrightarrow> has_session (ap_auth_update f x)) \<Longrightarrow> login_inv (ap_auth_update f x)"
  by (simp add: login_inv_def auth_update_keeps)

lemma go_home_when: "script_when has_session login_inv allowed (go_home params role) True"
  by (simp add: go_home_def login_navigate)

lemma passkey_when:
  assumes "\<And>result. script_when P I (login_request valid_email) (k result) False"
  shows "script_when P I (login_request valid_email) (passkeyLogin supported k) known"
proof -
  have "login_request valid_email (AcApi (passkey_login_call data c))" for data c
    using assertion_json_decodes [of c] by (auto simp: passkey_login_call_def)
  with assms show ?thesis
    by (auto simp: passkeyLogin_def intro!: script_intros split: option.split auth_result.split sum.split)
qed

interpretation login_page_when: page_when "perform_auth authenticator" "login_handler base valid_email supported params"
  has_session login_inv "login_request valid_email" for authenticator base valid_email supported params
proof
  fix s u assume s: "login_inv s"
  then have digits: "list_all is_digit (lg_mfaCode s)" by (simp add: login_inv_def)
  show "script_when has_session login_inv (login_request valid_email) (login_handler base valid_email supported params u s) (has_session s)"
  proof (cases u)
    case LgEffect
    then show ?thesis by (auto simp: login_effect_def has_session_def login_navigate split: option.splits)
  next
    case LgSubmit
    then show ?thesis
      by (auto simp: login_submit_def intro!: script_intros login_auth go_home_when split: login_result.split)
  next
    case LgMfaSubmit
    then show ?thesis using digits
      by (auto simp: handleMFASubmit_def intro!: script_intros login_auth go_home_when digits_six split: login_result.split option.split)
  next
    case LgResend
    then show ?thesis by (auto simp: handleResendVerification_def intro!: script_intros)
  next
    case LgPasskey
    then show ?thesis by (auto simp: handlePasskeyLogin_def intro!: script_intros passkey_when)
  qed auto
qed

subsection \<open>Registration\<close>

text \<open>A registration is sent by the button alone, for the form on the screen, when it is complete.\<close>

definition signup_guard :: "(string \<Rightarrow> bool) \<Rightarrow> signup_event \<Rightarrow> signup_page \<Rightarrow> auth_call \<Rightarrow> bool" where
  "signup_guard valid_email u s c \<longleftrightarrow>
     u = SuSubmit \<and> c = AcRegister (signup_payload s) \<and> su_agreedToTerms s \<and> su_agreedToPrivacy s
     \<and> signup_complete valid_email s \<and> su_password s = su_confirmPassword s
     \<and> (su_phone s \<noteq> [] \<longrightarrow> phone_ok (su_phone s) \<and> map_of (rp_extra (signup_payload s)) ''phone'' = Some (JStr (su_phone s)))
     \<and> (su_phone s = [] \<longrightarrow> map_of (rp_extra (signup_payload s)) ''phone'' = None)"

lemma phone_no_ws: "phone_ok p \<Longrightarrow> c \<in> set p \<Longrightarrow> \<not> is_ws c"
proof (cases p rule: phone_ok.cases)
  case (1 q d rest)
  assume "phone_ok p" and "c \<in> set p"
  with 1 show ?thesis using digit_facts(1) by (auto simp: list_all_iff is_ws_def)
qed auto

lemma signup_phone:
  "phone_ok (su_phone s) \<Longrightarrow> map_of (rp_extra (signup_payload s)) ''phone'' = Some (JStr (su_phone s))"
  "su_phone s = [] \<Longrightarrow> map_of (rp_extra (signup_payload s)) ''phone'' = None"
proof -
  assume p: "phone_ok (su_phone s)"
  then have "su_phone s \<noteq> []" by auto
  with trim_no_ws [OF phone_no_ws [OF p]] show "map_of (rp_extra (signup_payload s)) ''phone'' = Some (JStr (su_phone s))"
    by (simp add: signup_payload_def)
qed (simp add: signup_payload_def trim_def)

lemma signup_submit_lead:
  "c \<in> set (lead_calls (signup_submit s)) \<Longrightarrow>
   c = AcRegister (signup_payload s) \<and> su_password s = su_confirmPassword s \<and> (su_phone s \<noteq> [] \<longrightarrow> phone_ok (su_phone s))"
  by (auto simp: signup_submit_def with_flag_def split: if_splits)

interpretation signup_once: page_once "perform_auth authenticator" "signup_handler base valid_email"
  for authenticator base valid_email
proof
  fix u s show "calls_once (signup_handler base valid_email u s)"
    by (cases u) (auto simp: signup_effect_def signup_submit_def intro!: script_intros split: login_result.split)
qed

lemma signup_lead: "c \<in> set (lead_calls (signup_handler base valid_email u s)) \<Longrightarrow> signup_guard valid_email u s c"
  by (cases u) (auto simp: signup_guard_def signup_effect_def signup_phone dest: signup_submit_lead split: if_splits)

interpretation signup_page_when: page_when "perform_auth authenticator" "signup_handler base valid_email"
  has_session "handoff_signed_in" "\<lambda>_. True" for authenticator base valid_email
proof
  fix s :: signup_page and u assume "handoff_signed_in s"
  have keep [simp]: "handoff_signed_in (su_error_update f x) = handoff_signed_in x"
    "handoff_signed_in (su_submitting_update g x) = handoff_signed_in x"
    "handoff_signed_in (set_signup_error m x) = handoff_signed_in x"
    "handoff_signed_in (toast_success m x) = handoff_signed_in x" for f g m and x :: signup_page
    by (simp_all add: handoff_signed_in_def has_session_def set_signup_error_def toast_success_def)
  have submit: "script_when has_session handoff_signed_in (\<lambda>_. True) (signup_submit s) known" for known
    by (auto simp: signup_submit_def navigate_keeps intro!: script_intros auth_update_keeps split: login_result.split)
  show "script_when has_session handoff_signed_in (\<lambda>_. True) (signup_handler base valid_email u s) (has_session s)"
  proof (cases u)
    case SuEffect
    then show ?thesis by (auto simp: signup_effect_def has_session_def intro: navigate_keeps [unfolded has_session_def])
  next
    case SuSubmit
    then show ?thesis using submit by simp
  qed (auto simp: handoff_signed_in_def has_session_def leave_to_def)
qed

subsection \<open>The callback page\<close>

fun callback_request :: "params \<Rightarrow> auth_call \<Rightarrow> bool" where
  "callback_request params (AcMfa t code) \<longleftrightarrow>
     missing (params ''error'') \<and> params ''mfa_required'' = Some ''1'' \<and> t = JStr (the (params ''preauth_token''))
     \<and> truthy t \<and> six_digits code"
| "callback_request params (AcApi c) \<longleftrightarrow>
     missing (params ''error'') \<and> params ''mfa_required'' \<noteq> Some ''1'' \<and> (\<exists>code. params ''code'' = Some code \<and> code \<noteq> []
       \<and> c = exchange_call code)"
| "callback_request params _ \<longleftrightarrow> False"

definition callback_inv :: "callback_page \<Rightarrow> bool" where
  "callback_inv s \<longleftrightarrow> handoff_signed_in s \<and> list_all is_digit (oc_mfaCode s)"

lemma callback_inv_simps [simp]:
  "callback_inv (toast_success m x) = callback_inv x" "callback_inv (toast_error m x) = callback_inv x"
  "callback_inv (leave_to u x) = callback_inv x" "callback_inv (oc_submitting_update f x) = callback_inv x"
  "callback_inv (oc_done_update f x) = callback_inv x" "callback_inv (oc_cleaned_update f x) = callback_inv x"
  "callback_inv (oc_timer_update f x) = callback_inv x" "callback_inv (oc_localError_update g x) = callback_inv x"
  "list_all is_digit d \<Longrightarrow> callback_inv x \<Longrightarrow> callback_inv (oc_mfaCode_update (\<lambda>_. d) x)"
  by (simp_all add: callback_inv_def page_defs handoff_signed_in_def has_session_def)

lemma callback_navigate: "callback_inv x \<Longrightarrow> has_session x \<Longrightarrow> callback_inv (navigate path x)"
  by (simp add: callback_inv_def navigate_def handoff_signed_in_def has_session_def)

lemma callback_auth:
  "callback_inv x \<Longrightarrow> (has_session x \<Longrightarrow> has_session (ap_auth_update f x)) \<Longrightarrow> callback_inv (ap_auth_update f x)"
  by (simp add: callback_inv_def auth_update_keeps)

lemma callback_session_simps [simp]:
  "has_session (toast_success m x) = has_session x" "has_session (oc_cleaned_update f y) = has_session y"
  by (simp_all add: has_session_def toast_success_def)

interpretation callback_page_when: page_when "perform_auth authenticator" "callback_handler site params"
  has_session callback_inv "callback_request params" for authenticator site params
proof
  fix s u assume "callback_inv s"
  then have digits: "list_all is_digit (oc_mfaCode s)" by (simp add: callback_inv_def)
  show "script_when has_session callback_inv (callback_request params) (callback_handler site params u s) (has_session s)"
  proof (cases u)
    case OcEffect
    then show ?thesis
      by (auto simp: callback_effect_def param_is_def missing_def intro!: script_intros)
  next
    case OcSubmit
    then show ?thesis using digits
      by (auto simp: handleMFA_def mfa_form_shown_def param_is_def missing_def intro!: script_intros callback_auth callback_navigate digits_six
          split: login_result.split)
  qed auto
qed

subsection \<open>Passwords and verification\<close>

fun forgot_guard :: "(string \<Rightarrow> bool) \<Rightarrow> forgot_event \<Rightarrow> forgot_page \<Rightarrow> api_call \<Rightarrow> bool" where
  "forgot_guard valid_email u s c \<longleftrightarrow>
     u = FpSubmit \<and> fp_email s \<noteq> [] \<and> valid_email (fp_email s)
     \<and> c = api_post ''/auth/password/forgot'' (Some (JObj [(''email'', JStr (fp_email s))])) no_options"

fun reset_guard :: "reset_event \<Rightarrow> reset_page \<Rightarrow> api_call \<Rightarrow> bool" where
  "reset_guard u s c \<longleftrightarrow>
     u = RpSubmit \<and> rp_token s \<noteq> [] \<and> rp_newPassword s = rp_confirm s \<and> 10 \<le> js_length (rp_newPassword s)
     \<and> c = api_post ''/auth/password/reset''
         (Some (JObj [(''token'', JStr (rp_token s)), (''new_password'', JStr (rp_newPassword s))])) no_options"

fun verify_guard :: "params \<Rightarrow> verify_event \<Rightarrow> verify_page \<Rightarrow> api_call \<Rightarrow> bool" where
  "verify_guard params VeVerify s c \<longleftrightarrow>
     url_token params \<noteq> [] \<and> c = api_post ''/auth/email/verify'' (Some (JObj [(''token'', JStr (url_token params))])) no_options"
| "verify_guard params VeStatus s c \<longleftrightarrow>
     url_token params = [] \<and> \<not> ve_verified s \<and> ac_path c = ''/auth/email/status''
     \<and> (\<exists>e. e \<noteq> [] \<and> ac_opts c = \<lparr>ao_headers = None, ao_query = Some [(''email'', QStr e)]\<rparr>)"
| "verify_guard params VeResend s c \<longleftrightarrow>
     \<not> ve_verified s
     \<and> (if missing (au_token (ap_auth s))
        then \<exists>e. e \<noteq> [] \<and> c = api_post ''/auth/email/resend-public'' (Some (JObj [(''email'', JStr e)])) no_options
        else c = api_post ''/auth/email/resend'' None no_options)"
| "verify_guard params _ s c \<longleftrightarrow> False"

interpretation forgot_once: page_once perform_api "forgot_handler valid_email" for valid_email
proof
  fix u s show "calls_once (forgot_handler valid_email u s)"
    by (cases u) (auto simp: forgot_submit_def intro!: script_intros)
qed

interpretation reset_once: page_once perform_api reset_handler
proof
  fix u s show "calls_once (reset_handler u s)"
    by (cases u) (auto simp: reset_submit_def intro!: script_intros)
qed

interpretation verify_once: page_once perform_api "verify_handler params" for params
proof
  fix u s show "calls_once (verify_handler params u s)"
    by (cases u) (auto simp: verify_effect_def status_effect_def resend_def goHome_def intro!: script_intros)
qed

lemma lead_simps [simp]: "lead_calls (await c k) = [c]" "lead_calls (with_flag flag s) = lead_calls s"
  by (simp_all add: await_def with_flag_def)

lemma forgot_lead: "c \<in> set (lead_calls (forgot_handler valid_email u s)) \<Longrightarrow> forgot_guard valid_email u s c"
  by (cases u) (auto simp: forgot_submit_def split: if_splits)

lemma reset_lead: "c \<in> set (lead_calls (reset_handler u s)) \<Longrightarrow> reset_guard u s c"
  by (cases u) (auto simp: reset_submit_def split: if_splits)

lemma verify_lead: "c \<in> set (lead_calls (verify_handler params u s)) \<Longrightarrow> verify_guard params u s c"
proof (cases u)
  case VeResend
  then show "c \<in> set (lead_calls (verify_handler params u s)) \<Longrightarrow> ?thesis"
    by (auto simp: resend_def resend_call_def split: if_splits)
qed (auto simp: verify_effect_def status_effect_def goHome_def api_get_def split: if_splits)

lemma opened_inv: "login_inv (open_login a)" "handoff_signed_in (open_signup a)" "callback_inv (open_callback a)"
  by (simp_all add: login_inv_def callback_inv_def handoff_signed_in_def open_login_def open_signup_def open_callback_def)

text \<open>
  C9: the pages that sign a user in send only complete requests. Whatever the user does and whatever is
  answered, a password sign-in names a valid e-mail address and a password; a second-factor request
  carries the token of the first factor and exactly six digits; a passkey sign-in carries texts that
  decode to the bytes of the authenticator's answer; a registration is sent by its button, for a
  complete form with both consents, two equal passwords of ten characters or more and, if a phone number
  was typed, a valid one that is sent unchanged; the callback pages exchange a non-empty code, or ask for
  the second factor, never both; a reset names a token and a password of ten characters or more, typed
  twice; and verification mails are asked for by address or for the session, not otherwise.
\<close>

theorem sign_in_requests_valid:
  "list_all (login_request valid_email)
     (pg_calls (run_page (perform_auth authenticator) (login_handler base valid_email supported params) es1 (open_page (open_login a) b)))
   \<and> calls_guarded (perform_auth authenticator) (signup_handler base valid_email) (signup_guard valid_email)
   \<and> list_all (callback_request params)
     (pg_calls (run_page (perform_auth authenticator) (callback_handler site params) es2 (open_page (open_callback a) b)))
   \<and> calls_guarded perform_api (forgot_handler valid_email) (forgot_guard valid_email)
   \<and> calls_guarded perform_api reset_handler reset_guard
   \<and> calls_guarded perform_api (verify_handler params) (verify_guard params)"
proof (intro conjI)
  show "calls_guarded (perform_auth authenticator) (signup_handler base valid_email) (signup_guard valid_email)"
    by (rule signup_once.guarded) (rule signup_lead)
  show "calls_guarded perform_api (forgot_handler valid_email) (forgot_guard valid_email)"
    by (rule forgot_once.guarded) (rule forgot_lead)
  show "calls_guarded perform_api reset_handler reset_guard" by (rule reset_once.guarded) (rule reset_lead)
  show "calls_guarded perform_api (verify_handler params) (verify_guard params)" by (rule verify_once.guarded) (rule verify_lead)
qed (rule login_page_when.when_calls callback_page_when.when_calls, rule opened_inv)+


subsection \<open>The handoff\<close>

interpretation handoff_once: page_once "perform_auth authenticator" "handoff_handler e" for authenticator e
proof
  fix u s show "calls_once (handoff_handler e u s)"
    by (cases u) (auto simp: handoff_effect_def Let_def intro!: script_intros
        split: option.split sum.split auth_result.split)
qed

lemma handoff_lead:
  "lead_calls (handoff_handler e u s) \<noteq> [] \<Longrightarrow>
   \<exists>c. lead_calls (handoff_handler e u s) = [c] \<and> (\<exists>hs. c = AcApi (handoff_call hs))
     \<and> \<not> hf_fired s \<and> hf_fired (lead_state (handoff_handler e u s) s)"
proof (cases u)
  case (HfEffect ck)
  then show "lead_calls (handoff_handler e u s) \<noteq> [] \<Longrightarrow> ?thesis"
    by (auto simp: handoff_effect_def Let_def split: option.splits sum.splits if_splits)
qed simp

lemma handoff_stays_fired: "script_ok hf_fired (\<lambda>_. True) (handoff_handler e u s)"
  by (cases u) (auto simp: handoff_effect_def Let_def leave_to_def intro!: script_intros
      split: option.split sum.split auth_result.split)

lemma handoff_called_once:
  "let cs = pg_calls (run_page (perform_auth authenticator) (handoff_handler e) es (open_page s b))
   in cs = [] \<or> (\<exists>hs. cs = [AcApi (handoff_call hs)])"
proof -
  have "pg_calls (run_page (perform_auth authenticator) (handoff_handler e) es (open_page s b)) = []
    \<or> (\<exists>c. pg_calls (run_page (perform_auth authenticator) (handoff_handler e) es (open_page s b)) = [c]
        \<and> (\<exists>hs. c = AcApi (handoff_call hs)))"
    by (rule handoff_once.one_call [where armed = "\<lambda>s. \<not> hf_fired s"])
       (blast dest: handoff_lead | simp add: handoff_stays_fired)+
  then show ?thesis by (auto simp: Let_def)
qed

text \<open>\<open>useSearchParams\<close> at an address: the first value of a name.\<close>

definition params_of :: "string \<Rightarrow> params" where
  "params_of url k = map_of (parse_query (url_query url)) k"

lemma encoded_no_delims: "CHR ''&'' \<notin> set (encodeURIComponent s)" "CHR ''='' \<notin> set (encodeURIComponent s)"
  using encodeURIComponent_no_delims [of s] by (auto simp: url_delims_def)

lemma handoff_params:
  assumes "CHR ''?'' \<notin> set origin"
  shows "params_of (handoff_url origin (JStr c)) = [''code'' \<mapsto> c]"
proof -
  have "url_query ((origin @ ''/oauth/callback'') @ CHR ''?'' # ''code='' @ encodeURIComponent c) = ''code='' @ encodeURIComponent c"
    by (rule url_split(2)) (use assms in simp)
  then have q: "url_query (handoff_url origin (JStr c)) = ''code='' @ encodeURIComponent c" by (simp add: handoff_url_def)
  have "split_at_char CHR ''&'' (''code='' @ encodeURIComponent c) = [''code='' @ encodeURIComponent c]"
    by (rule split_at_char_none) (simp add: encoded_no_delims)
  moreover have "parse_pair (''code='' @ encodeURIComponent c) = (''code'', c)"
    by (simp add: parse_pair_def)
  ultimately show ?thesis unfolding params_of_def q by (auto simp: parse_query_def)
qed

interpretation callback_once: page_once "perform_auth authenticator" "callback_handler site params"
  for authenticator site params
proof
  fix u s show "calls_once (callback_handler site params u s)"
    by (cases u) (auto simp: callback_effect_def handleMFA_def intro!: script_intros split: login_result.split)
qed

lemma callback_lead:
  assumes "params = [''code'' \<mapsto> c]" and "lead_calls (callback_handler site params u s) \<noteq> []"
  shows "lead_calls (callback_handler site params u s) = [AcApi (exchange_call c)] \<and> \<not> oc_done s
    \<and> oc_done (lead_state (callback_handler site params u s) s)"
  using assms(2) unfolding assms(1)
  by (cases u) (auto simp: callback_effect_def mfa_form_shown_def param_is_def missing_def await_api_def split: if_splits)

lemma callback_stays_done: "script_ok oc_done (\<lambda>_. True) (callback_handler site params u s)"
  by (cases u) (auto simp: callback_effect_def handleMFA_def page_defs await_session_def intro!: script_intros
      split: login_result.split auth_result.split sum.split)

lemma callback_exchanges_once:
  assumes "params = [''code'' \<mapsto> c]"
  shows "let cs = pg_calls (run_page (perform_auth authenticator) (callback_handler site params) es (open_page s b))
    in cs = [] \<or> cs = [AcApi (exchange_call c)]"
proof -
  have "pg_calls (run_page (perform_auth authenticator) (callback_handler site params) es (open_page s b)) = []
    \<or> (\<exists>x. pg_calls (run_page (perform_auth authenticator) (callback_handler site params) es (open_page s b)) = [x]
        \<and> x = AcApi (exchange_call c))"
    by (rule callback_once.one_call [where armed = "\<lambda>s. \<not> oc_done s"])
       (blast dest: callback_lead [OF assms] | simp add: callback_stays_done)+
  then show ?thesis by (auto simp: Let_def)
qed

lemma callback_first_effect:
  assumes "params = [''code'' \<mapsto> c]" and "c \<noteq> []"
  shows "pg_calls (run_page (perform_auth authenticator) (callback_handler site params) [User OcEffect] (open_page (open_callback a) b))
    = [AcApi (exchange_call c)]"
  using assms by (simp add: run_page_def open_page_def run_script_lead open_callback_def callback_effect_def param_is_def missing_def)

text \<open>
  C8: a session is handed over with its code, once. When the provider has a role and the backend answers
  the handoff request with a code, the auth console leaves for the callback page of that role's console,
  and that page, opened at the address, asks to exchange exactly this code, whatever characters it has:
  its effect sends that request, and no run of the page sends another one or sends it twice. And no
  run of the handoff page, however often its effect runs and the provider changes, asks for two codes.
\<close>

theorem handoff_code_exchanged:
  assumes "au_role a = Some role" and "\<not> au_loading a" and "handoff_headers ck = Inr hs"
    and "fst (perform_api (handoff_call hs) b) = Inr env" and "prop_of (env_data env) ''code'' = Some (JStr c)" and "c \<noteq> []"
    and "CHR ''?'' \<notin> set (consoleUrlFor e (Some role))" and "consoleUrlFor e (Some role) \<noteq> []"
    and "\<not> startsWith (consoleUrlFor e (Some role)) ''/''"
  shows "\<exists>url. ap_location (pg_state (run_page (perform_auth authenticator) (handoff_handler e)
        [User (HfEffect ck), Resume 0 0] (open_page (open_handoff a) b))) = [url]
      \<and> (\<exists>rest. url = consoleUrlFor e (Some role) @ ''/oauth/callback'' @ rest)
      \<and> pg_calls (run_page (perform_auth authenticator) (callback_handler site (params_of url)) [User OcEffect]
          (open_page (open_callback a') b')) = [AcApi (exchange_call c)]
      \<and> pg_calls (run_page (perform_auth authenticator) (callback_handler site (params_of url)) es
          (open_page (open_callback a') b')) \<in> {[], [AcApi (exchange_call c)]}
      \<and> length (pg_calls (run_page (perform_auth authenticator) (handoff_handler e) es' (open_page (open_handoff a) b))) \<le> 1"
proof -
  let ?url = "handoff_url (consoleUrlFor e (Some role)) (JStr c)"
  obtain b1 where p: "perform_api (handoff_call hs) b = (Inr env, b1)"
    using assms(4) by (cases "perform_api (handoff_call hs) b") simp
  have "env_data env \<noteq> JNull" using assms(5) by auto
  with assms(5) have code: "handoff_code (Inr env) = Inr (Some (JStr c))" by (simp add: handoff_code_def)
  have loc: "ap_location (pg_state (run_page (perform_auth authenticator) (handoff_handler e)
        [User (HfEffect ck), Resume 0 0] (open_page (open_handoff a) b))) = [?url]"
    using assms by (simp add: run_page_def open_page_def open_handoff_def handoff_effect_def p code leave_to_def)
  have params: "params_of ?url = [''code'' \<mapsto> c]" by (rule handoff_params [OF assms(7)])
  have "length (pg_calls (run_page (perform_auth authenticator) (handoff_handler e) es' (open_page (open_handoff a) b))) \<le> 1"
    using handoff_called_once [of authenticator e es' "open_handoff a" b] by (auto simp: Let_def)
  moreover have "\<exists>rest. ?url = consoleUrlFor e (Some role) @ ''/oauth/callback'' @ rest" by (simp add: handoff_url_def)
  ultimately show ?thesis
    using loc callback_first_effect [OF params assms(6)] callback_exchanges_once [OF params, of authenticator site es "open_callback a'" b']
    by (intro exI [of _ ?url]) (simp add: Let_def)
qed

definition code_answer :: "string \<Rightarrow> fetch_result" where
  "code_answer c = Resp \<lparr>rs_status = 200, rs_text = Some ''x'', rs_json = Some (JObj [(''data'', JObj [(''code'', JStr c)])])\<rparr>"

lemma handoff_answered:
  "fst (perform_api (handoff_call hs) (sample_browser (code_answer c)))
   = Inr \<lparr>env_data = JObj [(''code'', JStr c)], env_meta = None\<rparr>"
proof -
  obtain rq where rq: "request ''POST'' ''/auth/handoff'' (Some (JObj [])) \<lparr>ao_headers = Some hs, ao_query = None\<rparr> (sample_browser (code_answer c))
      = handle_response ''/auth/handoff'' (code_answer c) (with_request rq (sample_browser (code_answer c)))"
    using sample_request by blast
  show ?thesis
    unfolding handoff_call_def perform_api_verbs apiPost_def rq
    by (simp add: handle_response_def code_answer_def response_ok_def payload_of_def envelope_of_def Let_def)
qed

theorem handoff_code_exchanged_witness:
  "\<exists>url. ap_location (pg_state (run_page (perform_auth (\<lambda>_. Inr None)) (handoff_handler sample_env)
        [User (HfEffect []), Resume 0 0]
        (open_page (open_handoff (signed_in Customer None blank_session)) (sample_browser (code_answer ''a&b=c?''))))) = [url]
      \<and> pg_calls (run_page (perform_auth (\<lambda>_. Inr None)) (callback_handler UserSite (params_of url)) [User OcEffect]
          (open_page (open_callback blank_session) (sample_browser NetFail))) = [AcApi (exchange_call ''a&b=c?'')]"
proof -
  have url: "consoleUrlFor sample_env (Some Customer) = ''https://console.kilat-cloud.com''"
    by (simp add: consoleUrlFor_def sample_env_def or_default_def)
  have hs: "handoff_headers [] = Inr []" by (simp add: handoff_headers_def csrf_match_def csrf_at_def)
  from handoff_code_exchanged [OF _ _ hs handoff_answered [of "[]" "''a&b=c?''"], of "signed_in Customer None blank_session" Customer
      "''a&b=c?''" sample_env "\<lambda>_. Inr None" UserSite blank_session "sample_browser NetFail" "[]" "[]"]
  show ?thesis by (auto simp: url signed_in_def blank_session_def)
qed

subsection \<open>Busy buttons\<close>

lemma passkey_low:
  "(\<And>result. ends_low busy (k result) True) \<Longrightarrow> ends_low busy (passkeyLogin supported k) True"
  by (auto simp: passkeyLogin_def intro!: script_intros split: option.split auth_result.split sum.split)

interpretation login_submitting: page_flag "perform_auth authenticator" "login_handler base valid_email supported params" lg_submitting for authenticator base valid_email supported params
proof
  fix u s show "ends_low lg_submitting (login_handler base valid_email supported params u s) True"
    by (cases u) (auto simp: login_effect_def login_submit_def handleResendVerification_def handleMFASubmit_def handlePasskeyLogin_def go_home_def page_defs intro!: script_intros passkey_low split: option.split login_result.split)
qed

interpretation login_passkey: page_flag "perform_auth authenticator" "login_handler base valid_email supported params" lg_passkeyBusy for authenticator base valid_email supported params
proof
  fix u s show "ends_low lg_passkeyBusy (login_handler base valid_email supported params u s) True"
    by (cases u) (auto simp: login_effect_def login_submit_def handleResendVerification_def handleMFASubmit_def handlePasskeyLogin_def go_home_def page_defs intro!: script_intros passkey_low split: option.split login_result.split)
qed

interpretation login_resending: page_flag "perform_auth authenticator" "login_handler base valid_email supported params" lg_resending for authenticator base valid_email supported params
proof
  fix u s show "ends_low lg_resending (login_handler base valid_email supported params u s) True"
    by (cases u) (auto simp: login_effect_def login_submit_def handleResendVerification_def handleMFASubmit_def handlePasskeyLogin_def go_home_def page_defs intro!: script_intros passkey_low split: option.split login_result.split)
qed

interpretation signup_submitting: page_flag "perform_auth authenticator" "signup_handler base valid_email" su_submitting for authenticator base valid_email
proof
  fix u s show "ends_low su_submitting (signup_handler base valid_email u s) True"
    by (cases u) (auto simp: signup_effect_def signup_submit_def set_signup_error_def page_defs intro!: script_intros split: login_result.split)
qed

interpretation callback_submitting: page_flag "perform_auth authenticator" "callback_handler site params" oc_submitting for authenticator site params
proof
  fix u s show "ends_low oc_submitting (callback_handler site params u s) True"
    by (cases u) (auto simp: callback_effect_def handleMFA_def page_defs intro!: script_intros split: login_result.split)
qed

interpretation forgot_submitting: page_flag perform_api "forgot_handler valid_email" fp_submitting for valid_email
proof
  fix u s show "ends_low fp_submitting (forgot_handler valid_email u s) True"
    by (cases u) (auto simp: forgot_submit_def intro!: script_intros)
qed

interpretation reset_submitting: page_flag perform_api reset_handler rp_submitting
proof
  fix u s show "ends_low rp_submitting (reset_handler u s) True"
    by (cases u) (auto simp: reset_submit_def intro!: script_intros)
qed

interpretation verify_resending: page_flag perform_api "verify_handler params" ve_resending for params
proof
  fix u s show "ends_low ve_resending (verify_handler params u s) True"
    by (cases u) (auto simp: verify_effect_def status_effect_def resend_def goHome_def verify_input_def page_defs intro!: script_intros split: if_splits)
qed

subsection \<open>Surprises\<close>

text \<open>When the options name no relying party, the page asks the authenticator for one called
  \<open>undefined\<close> instead of leaving it out.\<close>

lemma relying_party_undefined:
  assumes "prop_of data ''options'' = Some (JObj options)" and "map_of options ''publicKey'' = None"
    and "map_of options ''rpId'' = None" and "map_of options ''rpID'' = None" and "assertionOptions data = Some o'"
  shows "ao_rpId o' = ''undefined''"
  using assms by (auto simp: assertionOptions_def undefined_String_def Let_def)

text \<open>After a sign-in the guard against the loop between the handoff and the sign-in page has no effect:
  both branches go to the handoff.\<close>

lemma already_guard_ineffective: "go_home params role = Set (navigate ''/handoff'') Done"
  by (simp add: go_home_def auth_homePathFor_def)

end
