(* ===== verification/Network_Lists.thy ===== *)
theory Network_Lists
  imports Customer_Org Js_Number
begin

text \<open>
  The network page of the customer console (\<open>pages/Network.tsx\<close>): private networks, firewall groups, IP
  lists and reserved addresses. The first three tabs are alike: a list of the organisation, a dialog
  that creates a row and a confirmed deletion; they share \<open>net_list\<close>, and \<open>net_kind\<close> holds what their
  sources say differently. A tab and its dialogs are one record, since the dialog asks the tab to load
  again. \<open>orgId\<close> is the active organisation, empty while there is none.
\<close>

subsection \<open>A list of the organisation\<close>

record net_list = ui +
  nl_rows :: "json list"
  nl_loading :: bool
  nl_error :: "js_error option"
  nl_createOpen :: bool
  nl_deleteTarget :: "json option"
  nl_busy :: bool
  nd_name :: string
  nd_description :: string
  nd_busy :: bool

record net_kind =
  nk_path :: string
  nk_label :: string
  nk_delete_failed :: string
  nk_created :: string
  nk_create_failed :: string

definition vpc_kind :: net_kind where
  "vpc_kind = \<lparr>nk_path = ''/vpcs'', nk_label = ''VPC'', nk_delete_failed = ''Failed to delete VPC'',
     nk_created = ''VPC created'', nk_create_failed = ''Failed to create VPC''\<rparr>"

definition firewall_kind :: net_kind where
  "firewall_kind = \<lparr>nk_path = ''/firewall-groups'', nk_label = ''Firewall'', nk_delete_failed = ''Failed to delete firewall'',
     nk_created = ''Firewall group created'', nk_create_failed = ''Failed to create firewall''\<rparr>"

definition ip_list_kind :: net_kind where
  "ip_list_kind = \<lparr>nk_path = ''/ip-lists'', nk_label = ''IP list'', nk_delete_failed = ''Failed to delete list'',
     nk_created = ''IP list created'', nk_create_failed = ''Failed to create list''\<rparr>"

definition net_load :: "net_kind \<Rightarrow> string \<Rightarrow> ('a net_list_scheme) api_script" where
  "net_load kind orgId =
     (if orgId = [] then Done
      else with_flag nl_loading_update (Set (nl_error_update (\<lambda>_. None))
        (try_catch
          (await (api_get (nk_path kind) (org_opts orgId))
            (\<lambda>e. Set (nl_rows_update (\<lambda>_. array_or_empty (Some (env_data e)))) Done))
          (\<lambda>cause. Set (nl_error_update (\<lambda>_. Some cause)) Done))))"

definition net_runDelete :: "net_kind \<Rightarrow> string \<Rightarrow> 'a net_list_scheme \<Rightarrow> ('a net_list_scheme) api_script" where
  "net_runDelete kind orgId s =
     (case nl_deleteTarget s of
        None \<Rightarrow> Done
      | Some target \<Rightarrow>
          with_flag nl_busy_update
            (try_catch
              (await (api_delete (nk_path kind @ ''/'' @ row_id target) (org_opts orgId))
                (\<lambda>_. Set (toast_success (nk_label kind @ '' '' @ [CHR 0x22] @ undefined_String (prop_of target ''name'') @ [CHR 0x22] @ '' deleted''))
                    (Set (nl_deleteTarget_update (\<lambda>_. None)) (Fork (net_load kind orgId) Done))))
              (\<lambda>cause. Set (toast_error (api_message (nk_delete_failed kind) cause)) Done)))"

text \<open>The rows are shown by the table when neither loading nor an error replaces them.\<close>

definition net_rows_shown :: "'a net_list_scheme \<Rightarrow> json list" where
  "net_rows_shown s = (if nl_loading s \<or> nl_error s \<noteq> None then [] else nl_rows s)"

text \<open>The end of a successful creation.\<close>

definition net_created :: "net_kind \<Rightarrow> string \<Rightarrow> ('a net_list_scheme) api_script" where
  "net_created kind orgId =
     Set (toast_success (nk_created kind)) (Set (nd_name_update (\<lambda>_. [])) (Set (nd_description_update (\<lambda>_. []))
       (Set (nl_createOpen_update (\<lambda>_. False)) (Fork (net_load kind orgId) Done))))"

definition net_create :: "net_kind \<Rightarrow> string \<Rightarrow> json \<Rightarrow> ('a net_list_scheme) api_script" where
  "net_create kind orgId body =
     with_flag nd_busy_update
       (try_catch
         (await (api_post (nk_path kind) (Some body) (org_opts orgId)) (\<lambda>_. net_created kind orgId))
         (\<lambda>cause. Set (toast_error (api_message (nk_create_failed kind) cause)) Done))"

datatype net_event =
    NlLoad | NlNew | NlAsk nat | NlDismiss | NlDelete | NdOpen bool | NdName string | NdDescription string | NdCreate

fun net_list_handler ::
  "net_kind \<Rightarrow> ('a net_list_scheme \<Rightarrow> ('a net_list_scheme) api_script) \<Rightarrow> string \<Rightarrow> net_event \<Rightarrow> 'a net_list_scheme
   \<Rightarrow> ('a net_list_scheme) api_script" where
  "net_list_handler kind create orgId NlLoad s = net_load kind orgId"
| "net_list_handler kind create orgId NlNew s = Set (nl_createOpen_update (\<lambda>_. True)) Done"
| "net_list_handler kind create orgId (NlAsk i) s =
     (if i < length (net_rows_shown s) then Set (nl_deleteTarget_update (\<lambda>_. Some (net_rows_shown s ! i))) Done else Done)"
| "net_list_handler kind create orgId NlDismiss s = Set (nl_deleteTarget_update (\<lambda>_. None)) Done"
| "net_list_handler kind create orgId NlDelete s = (if nl_busy s then Done else net_runDelete kind orgId s)"
| "net_list_handler kind create orgId (NdOpen v) s = Set (nl_createOpen_update (\<lambda>_. v)) Done"
| "net_list_handler kind create orgId (NdName t) s = (if nl_createOpen s then Set (nd_name_update (\<lambda>_. t)) Done else Done)"
| "net_list_handler kind create orgId (NdDescription t) s =
     (if nl_createOpen s then Set (nd_description_update (\<lambda>_. t)) Done else Done)"
| "net_list_handler kind create orgId NdCreate s = (if nl_createOpen s \<and> \<not> nd_busy s then create s else Done)"

subsection \<open>VPCs\<close>

record vpc_list = net_list +
  vp_cidr :: string
  vp_regionId :: string
  vp_regions :: "json list"

definition open_vpcs :: vpc_list where
  "open_vpcs = \<lparr>toasts = [], nl_rows = [], nl_loading = True, nl_error = None, nl_createOpen = False, nl_deleteTarget = None,
     nl_busy = False, nd_name = [], nd_description = [], nd_busy = False, vp_cidr = ''10.10.0.0/16'', vp_regionId = [],
     vp_regions = []\<rparr>"

text \<open>Only a region that says so is left out.\<close>

definition vpc_regions :: "vpc_list api_script" where
  "vpc_regions =
     try_catch
       (await (api_get ''/regions'' no_options)
         (\<lambda>e. Set (vp_regions_update (\<lambda>_. filter (\<lambda>r. prop_of r ''enabled'' \<noteq> Some (JBool False))
               (array_or_empty (Some (env_data e))))) Done))
       (\<lambda>_. Done)"

definition vpc_body :: "vpc_list \<Rightarrow> json" where
  "vpc_body s = JObj ([(''name'', JStr (trim (nd_name s))), (''description'', JStr (trim (nd_description s)))]
     @ (if trim (vp_cidr s) = [] then [] else [(''ipv4_cidr'', JStr (trim (vp_cidr s)))])
     @ [(''region_id'', JStr (vp_regionId s))])"

definition submit_vpc :: "string \<Rightarrow> vpc_list \<Rightarrow> vpc_list api_script" where
  "submit_vpc orgId s =
     (if trim (nd_name s) = [] then Set (toast_error ''Name is required'') Done
      else if vp_regionId s = [] then Set (toast_error ''Region is required'') Done
      else net_create vpc_kind orgId (vpc_body s))"

datatype vpc_event = VpcList net_event | VpcRegions | VpcFirst | VpcRegion string | VpcCidr string

fun vpc_handler :: "string \<Rightarrow> vpc_event \<Rightarrow> vpc_list \<Rightarrow> vpc_list api_script" where
  "vpc_handler orgId (VpcList u) s = net_list_handler vpc_kind (submit_vpc orgId) orgId u s"
| "vpc_handler orgId VpcRegions s = (if nl_createOpen s then vpc_regions else Done)"
| "vpc_handler orgId VpcFirst s =
     (if vp_regions s \<noteq> [] \<and> vp_regionId s = [] then Set (vp_regionId_update (\<lambda>_. str_prop ''id'' (hd (vp_regions s)))) Done else Done)"
| "vpc_handler orgId (VpcRegion r) s =
     (if nl_createOpen s \<and> list_ex (\<lambda>x. str_prop ''id'' x = r) (vp_regions s) then Set (vp_regionId_update (\<lambda>_. r)) Done else Done)"
| "vpc_handler orgId (VpcCidr t) s = (if nl_createOpen s then Set (vp_cidr_update (\<lambda>_. t)) Done else Done)"

subsection \<open>Firewall groups and IP lists\<close>

definition named_body :: "net_list \<Rightarrow> json" where
  "named_body s = JObj [(''name'', JStr (trim (nd_name s))), (''description'', JStr (trim (nd_description s)))]"

definition submit_firewall :: "string \<Rightarrow> net_list \<Rightarrow> net_list api_script" where
  "submit_firewall orgId s =
     (if trim (nd_name s) = [] \<and> trim (nd_description s) = [] then Set (toast_error ''Name or description is required'') Done
      else net_create firewall_kind orgId (named_body s))"

definition submit_ip_list :: "string \<Rightarrow> net_list \<Rightarrow> net_list api_script" where
  "submit_ip_list orgId s =
     (if trim (nd_name s) = [] then Set (toast_error ''Name is required'') Done
      else net_create ip_list_kind orgId (named_body s))"

definition firewall_groups_handler :: "string \<Rightarrow> net_event \<Rightarrow> net_list \<Rightarrow> net_list api_script" where
  "firewall_groups_handler orgId = net_list_handler firewall_kind (submit_firewall orgId) orgId"

definition ip_lists_handler :: "string \<Rightarrow> net_event \<Rightarrow> net_list \<Rightarrow> net_list api_script" where
  "ip_lists_handler orgId = net_list_handler ip_list_kind (submit_ip_list orgId) orgId"

subsection \<open>Reserved addresses\<close>

record ip_section = ui +
  ri_ips :: "json list"
  ri_instances :: "json list"
  ri_loading :: bool
  ri_error :: "js_error option"
  ri_createOpen :: bool
  ri_convertOpen :: bool
  ri_deleteTarget :: "json option"
  ri_attachTarget :: "json option"
  ri_attachInstanceId :: string
  ri_busy :: bool
  rd_address :: string
  rd_name :: string
  rd_regionId :: string
  rd_regions :: "json list"
  rd_busy :: bool
  cv_instanceId :: string
  cv_name :: string
  cv_busy :: bool

definition ips_load :: "string \<Rightarrow> ip_section api_script" where
  "ips_load orgId =
     (if orgId = [] then Done
      else with_flag ri_loading_update (Set (ri_error_update (\<lambda>_. None))
        (try_catch
          (await_all [api_get ''/reserved-ips'' (org_opts orgId), api_get ''/instances'' (org_opts orgId)]
            (\<lambda>es. Set (ri_ips_update (\<lambda>_. array_or_empty (Some (env_data (es ! 0)))))
                 (Set (ri_instances_update (\<lambda>_. array_or_empty (Some (env_data (es ! 1))))) Done)))
          (\<lambda>cause. Set (ri_error_update (\<lambda>_. Some cause)) Done))))"

definition instanceName :: "ip_section \<Rightarrow> string \<Rightarrow> string" where
  "instanceName s i =
     (if i = [] then []
      else case find (\<lambda>x. prop_of x ''id'' = Some (JStr i)) (ri_instances s) of
             Some x \<Rightarrow> js_String (coalesce (prop_of x ''name'') (JStr (js_take 8 i)))
           | None \<Rightarrow> js_take 8 i)"

definition release_ip :: "string \<Rightarrow> ip_section \<Rightarrow> ip_section api_script" where
  "release_ip orgId s =
     (case ri_deleteTarget s of
        None \<Rightarrow> Done
      | Some target \<Rightarrow>
          with_flag ri_busy_update
            (try_catch
              (await (api_delete (''/reserved-ips/'' @ row_id target) (org_opts orgId))
                (\<lambda>_. Set (toast_success (''Reserved IP '' @ undefined_String (prop_of target ''ip_addr'') @ '' released''))
                    (Set (ri_deleteTarget_update (\<lambda>_. None)) (Fork (ips_load orgId) Done))))
              (\<lambda>cause. Set (toast_error (api_message ''Failed to release IP'' cause)) Done)))"

definition attach_call :: "string \<Rightarrow> json \<Rightarrow> string \<Rightarrow> api_call" where
  "attach_call orgId target i =
     api_patch (''/reserved-ips/'' @ row_id target) (Some (JObj [(''anchor_ip'', JStr i)])) (org_opts orgId)"

definition attach :: "string \<Rightarrow> ip_section \<Rightarrow> ip_section api_script" where
  "attach orgId s =
     (case ri_attachTarget s of
        None \<Rightarrow> Done
      | Some target \<Rightarrow>
          if ri_attachInstanceId s = [] then Done
          else with_flag ri_busy_update
            (try_catch
              (await (attach_call orgId target (ri_attachInstanceId s))
                (\<lambda>_. Set (toast_success ''IP attached to instance'') (Set (ri_attachTarget_update (\<lambda>_. None))
                    (Set (ri_attachInstanceId_update (\<lambda>_. [])) (Fork (ips_load orgId) Done)))))
              (\<lambda>cause. Set (toast_error (api_message ''Attach failed'' cause)) Done)))"

definition reserve_regions :: "ip_section api_script" where
  "reserve_regions =
     try_catch
       (await (api_get ''/regions'' no_options)
         (\<lambda>e. Set (rd_regions_update (\<lambda>_. filter (flag_prop ''enabled'') (array_or_empty (Some (env_data e))))) Done))
       (\<lambda>_. Done)"

definition reserve_body :: "ip_section \<Rightarrow> json" where
  "reserve_body s = JObj ([(''address'', JStr (trim (rd_address s))), (''name'', JStr (trim (rd_name s)))]
     @ (if rd_regionId s = [] then [] else [(''region_id'', JStr (rd_regionId s))]))"

definition reserve_ip :: "string \<Rightarrow> ip_section \<Rightarrow> ip_section api_script" where
  "reserve_ip orgId s =
     (if trim (rd_address s) = [] then Set (toast_error ''Address is required'') Done
      else with_flag rd_busy_update
        (try_catch
          (await (api_post ''/reserved-ips'' (Some (reserve_body s)) (org_opts orgId))
            (\<lambda>_. Set (toast_success ''IP reserved'') (Set (rd_address_update (\<lambda>_. [])) (Set (rd_name_update (\<lambda>_. []))
                (Set (ri_createOpen_update (\<lambda>_. False)) (Fork (ips_load orgId) Done))))))
          (\<lambda>cause. Set (toast_error (api_message ''Failed to reserve IP'' cause)) Done)))"

definition convert_selected :: "ip_section \<Rightarrow> json option" where
  "convert_selected s = find (\<lambda>x. prop_of x ''id'' = Some (JStr (cv_instanceId s))) (ri_instances s)"

definition primary_ipv4 :: "json option \<Rightarrow> string" where
  "primary_ipv4 inst = (case inst of None \<Rightarrow> [] | Some x \<Rightarrow> str_prop ''primary_ipv4'' x)"

definition convert_body :: "ip_section \<Rightarrow> json" where
  "convert_body s = JObj [(''ip_address'', JStr (primary_ipv4 (convert_selected s))), (''instance_id'', JStr (cv_instanceId s)),
     (''name'', JStr (trim (cv_name s)))]"

definition convert_ip :: "string \<Rightarrow> ip_section \<Rightarrow> ip_section api_script" where
  "convert_ip orgId s =
     (if primary_ipv4 (convert_selected s) = [] then Set (toast_error ''Selected instance has no primary IPv4'') Done
      else with_flag cv_busy_update
        (try_catch
          (await (api_post ''/reserved-ips/convert'' (Some (convert_body s)) (org_opts orgId))
            (\<lambda>_. Set (toast_success ''Primary IP converted to a reserved IP'') (Set (cv_name_update (\<lambda>_. []))
                (Set (ri_convertOpen_update (\<lambda>_. False)) (Fork (ips_load orgId) Done)))))
          (\<lambda>cause. Set (toast_error (api_message ''Conversion failed'' cause)) Done)))"

text \<open>The timer of the conversion dialog: the first instance when it opens, none when it closes.\<close>

definition convert_timer :: "ip_section \<Rightarrow> ip_section" where
  "convert_timer s =
     (if \<not> ri_convertOpen s then s\<lparr>cv_instanceId := []\<rparr>
      else if ri_instances s \<noteq> [] \<and> cv_instanceId s = [] then s\<lparr>cv_instanceId := str_prop ''id'' (hd (ri_instances s))\<rparr>
      else s)"

definition ips_shown :: "ip_section \<Rightarrow> json list" where
  "ips_shown s = (if ri_loading s \<or> ri_error s \<noteq> None then [] else ri_ips s)"

definition attached_to :: "ip_section \<Rightarrow> json \<Rightarrow> string" where
  "attached_to s row =
     (if flag_prop ''attachment_instance'' row then instanceName s (str_prop ''attachment_instance'' row) else em_dash)"

datatype ip_event =
    RiLoad | RiNew | RiConvert | RiAsk nat | RiDismiss | RiRelease | RiAttachAsk nat | RiAttachPick string | RiAttachCancel
  | RiAttach | RdOpen bool | RdRegions | RdAddress string | RdName string | RdRegion string | RdReserve
  | CvOpen bool | CvTimer | CvInstance string | CvName string | CvConvert

fun ip_handler :: "string \<Rightarrow> ip_event \<Rightarrow> ip_section \<Rightarrow> ip_section api_script" where
  "ip_handler orgId RiLoad s = ips_load orgId"
| "ip_handler orgId RiNew s = Set (ri_createOpen_update (\<lambda>_. True)) Done"
| "ip_handler orgId RiConvert s = (if ri_instances s = [] then Done else Set (ri_convertOpen_update (\<lambda>_. True)) Done)"
| "ip_handler orgId (RiAsk i) s =
     (if i < length (ips_shown s) then Set (ri_deleteTarget_update (\<lambda>_. Some (ips_shown s ! i))) Done else Done)"
| "ip_handler orgId RiDismiss s = Set (ri_deleteTarget_update (\<lambda>_. None)) Done"
| "ip_handler orgId RiRelease s = (if ri_busy s then Done else release_ip orgId s)"
| "ip_handler orgId (RiAttachAsk i) s =
     (if i < length (ips_shown s) \<and> \<not> flag_prop ''attachment_instance'' (ips_shown s ! i)
      then Set (ri_attachTarget_update (\<lambda>_. Some (ips_shown s ! i))) Done else Done)"
| "ip_handler orgId (RiAttachPick i) s =
     (if ri_attachTarget s \<noteq> None \<and> list_ex (\<lambda>x. str_prop ''id'' x = i) (ri_instances s)
      then Set (ri_attachInstanceId_update (\<lambda>_. i)) Done else Done)"
| "ip_handler orgId RiAttachCancel s = Set (ri_attachTarget_update (\<lambda>_. None)) Done"
| "ip_handler orgId RiAttach s = (if ri_attachInstanceId s = [] \<or> ri_busy s then Done else attach orgId s)"
| "ip_handler orgId (RdOpen v) s = Set (ri_createOpen_update (\<lambda>_. v)) Done"
| "ip_handler orgId RdRegions s = (if ri_createOpen s then reserve_regions else Done)"
| "ip_handler orgId (RdAddress t) s = (if ri_createOpen s then Set (rd_address_update (\<lambda>_. t)) Done else Done)"
| "ip_handler orgId (RdName t) s = (if ri_createOpen s then Set (rd_name_update (\<lambda>_. t)) Done else Done)"
| "ip_handler orgId (RdRegion r) s =
     (if ri_createOpen s \<and> list_ex (\<lambda>x. str_prop ''id'' x = r) (rd_regions s) then Set (rd_regionId_update (\<lambda>_. r)) Done else Done)"
| "ip_handler orgId RdReserve s = (if ri_createOpen s \<and> \<not> rd_busy s then reserve_ip orgId s else Done)"
| "ip_handler orgId (CvOpen v) s = Set (ri_convertOpen_update (\<lambda>_. v)) Done"
| "ip_handler orgId CvTimer s = Set convert_timer Done"
| "ip_handler orgId (CvInstance i) s =
     (if ri_convertOpen s \<and> list_ex (\<lambda>x. str_prop ''id'' x = i) (ri_instances s) then Set (cv_instanceId_update (\<lambda>_. i)) Done else Done)"
| "ip_handler orgId (CvName t) s = (if ri_convertOpen s then Set (cv_name_update (\<lambda>_. t)) Done else Done)"
| "ip_handler orgId CvConvert s =
     (if ri_convertOpen s \<and> \<not> cv_busy s \<and> cv_instanceId s \<noteq> [] then convert_ip orgId s else Done)"

end
