(* ===== verification/Network_Details.thy ===== *)
theory Network_Details
  imports Network_Lists
begin

text \<open>
  The detail pages of a firewall group (\<open>pages/network/FirewallGroupDetail.tsx\<close>) and of an IP list
  (\<open>pages/network/IpListDetail.tsx\<close>). A page and the cards it shows are one record, since the cards ask the
  page to load again; the note of a rule is edited by a component of its own in every row, which counts
  its requests to load the rules again in \<open>ne_reloads\<close>.
\<close>

subsection \<open>A firewall group\<close>

record group_page = ui +
  gp_group :: "json option"
  gp_loading :: bool
  gp_error :: "js_error option"
  ge_description :: string
  ge_saving :: bool
  gr_rules :: "json list"
  gr_loading :: bool
  gr_error :: "js_error option"
  gr_deleteTarget :: "json option"
  gr_busy :: bool
  gr_protocol :: string
  gr_portFrom :: string
  gr_subnet :: string
  gr_action :: string
  gr_desc :: string
  gr_creating :: bool

definition open_group :: group_page where
  "open_group = \<lparr>toasts = [], gp_group = None, gp_loading = True, gp_error = None, ge_description = [], ge_saving = False,
     gr_rules = [], gr_loading = True, gr_error = None, gr_deleteTarget = None, gr_busy = False, gr_protocol = ''tcp'',
     gr_portFrom = ''443'', gr_subnet = ''0.0.0.0/0'', gr_action = ''accept'', gr_desc = [], gr_creating = False\<rparr>"

definition group_load :: "string option \<Rightarrow> string \<Rightarrow> group_page api_script" where
  "group_load firewallId orgId =
     (if orgId = [] \<or> missing firewallId then Done
      else with_flag gp_loading_update (Set (gp_error_update (\<lambda>_. None))
        (try_catch
          (await (api_get ''/firewall-groups'' (org_opts orgId))
            (\<lambda>e. Set (gp_group_update (\<lambda>_. find (\<lambda>g. prop_of g ''id'' = Some (JStr (the firewallId)))
                  (array_or_empty (Some (env_data e))))) Done))
          (\<lambda>cause. Set (gp_error_update (\<lambda>_. Some cause)) Done))))"

text \<open>The group whose cards are on the screen.\<close>

definition group_shown :: "group_page \<Rightarrow> json option" where
  "group_shown s = (if gp_error s \<noteq> None then None else gp_group s)"

definition save_description :: "string option \<Rightarrow> string \<Rightarrow> json \<Rightarrow> group_page \<Rightarrow> group_page api_script" where
  "save_description firewallId orgId grp s =
     (if trim (ge_description s) = [] then Set (toast_error ''Description is required'') Done
      else with_flag ge_saving_update
        (try_catch
          (await (api_put (''/firewall-groups/'' @ row_id grp) (Some (JObj [(''description'', JStr (trim (ge_description s)))])) (org_opts orgId))
            (\<lambda>_. Set (toast_success ''Description updated'') (Fork (group_load firewallId orgId) Done)))
          (\<lambda>cause. Set (toast_error (api_message ''Failed to update group'' cause)) Done)))"

definition rules_path :: "json \<Rightarrow> string" where
  "rules_path grp = ''/firewall-groups/'' @ row_id grp @ ''/rules''"

definition rules_load :: "string \<Rightarrow> json \<Rightarrow> group_page api_script" where
  "rules_load orgId grp =
     (if orgId = [] then Done
      else with_flag gr_loading_update (Set (gr_error_update (\<lambda>_. None))
        (try_catch
          (await (api_get (rules_path grp) (org_opts orgId))
            (\<lambda>e. Set (gr_rules_update (\<lambda>_. array_or_empty (Some (env_data e)))) Done))
          (\<lambda>cause. Set (gr_error_update (\<lambda>_. Some cause)) Done))))"

text \<open>\<open>!Number.isInteger(port) || port < 1 || port > 65535\<close>.\<close>

definition port_invalid :: "js_num \<Rightarrow> bool" where
  "port_invalid n \<longleftrightarrow> (case n of Fin q \<Rightarrow> \<not> (q = of_int \<lfloor>q\<rfloor> \<and> 1 \<le> q \<and> q \<le> 65535) | _ \<Rightarrow> True)"

definition group_rule_body :: "group_page \<Rightarrow> json" where
  "group_rule_body s = JObj [(''protocol'', JStr (gr_protocol s)), (''port_from'', js_num_json (js_Number (gr_portFrom s))),
     (''port_to'', js_num_json (js_Number (gr_portFrom s))), (''subnet'', JStr (trim (gr_subnet s))), (''action'', JStr (gr_action s)),
     (''desc'', JStr (trim (gr_desc s)))]"

definition addRule :: "string option \<Rightarrow> string \<Rightarrow> json \<Rightarrow> group_page \<Rightarrow> group_page api_script" where
  "addRule firewallId orgId grp s =
     (if trim (gr_subnet s) = [] then Set (toast_error ''Source subnet is required (e.g. 0.0.0.0/0)'') Done
      else if gr_protocol s \<noteq> ''icmp'' \<and> port_invalid (js_Number (gr_portFrom s))
      then Set (toast_error ''Port must be a number between 1 and 65535'') Done
      else with_flag gr_creating_update
        (try_catch
          (await (api_post (rules_path grp) (Some (group_rule_body s)) (org_opts orgId))
            (\<lambda>_. Set (toast_success ''Rule added'') (Set (gr_desc_update (\<lambda>_. []))
                (Fork (group_load firewallId orgId) (Fork (rules_load orgId grp) Done)))))
          (\<lambda>cause. Set (toast_error (api_message ''Failed to add rule'' cause)) Done)))"

definition remove_rule :: "string option \<Rightarrow> string \<Rightarrow> json \<Rightarrow> group_page \<Rightarrow> group_page api_script" where
  "remove_rule firewallId orgId grp s =
     (case gr_deleteTarget s of
        None \<Rightarrow> Done
      | Some target \<Rightarrow>
          if orgId = [] then Done
          else with_flag gr_busy_update
            (try_catch
              (await (api_delete (rules_path grp @ ''/'' @ row_id target) (org_opts orgId))
                (\<lambda>_. Set (toast_success ''Rule removed'') (Set (gr_deleteTarget_update (\<lambda>_. None))
                    (Fork (group_load firewallId orgId) (Fork (rules_load orgId grp) Done)))))
              (\<lambda>cause. Set (toast_error (api_message ''Failed to remove rule'' cause)) Done)))"

definition group_rules_shown :: "group_page \<Rightarrow> json list" where
  "group_rules_shown s = (if gr_loading s \<or> gr_error s \<noteq> None then [] else gr_rules s)"

text \<open>The port column.\<close>

definition rule_ports :: "json \<Rightarrow> string" where
  "rule_ports row =
     (if prop_of row ''port_from'' = prop_of row ''port_to'' then undefined_String (prop_of row ''port_from'')
      else undefined_String (prop_of row ''port_from'') @ [CHR 0xE2, CHR 0x80, CHR 0x93] @ undefined_String (prop_of row ''port_to''))"

datatype group_event =
    GpLoad | GeSeed | GeDescription string | GeSave | GrLoad | GrProtocol string | GrPort string | GrSubnet string
  | GrAction string | GrDesc string | GrAdd | GrAsk nat | GrDismiss | GrRemove

fun group_handler :: "string option \<Rightarrow> string \<Rightarrow> group_event \<Rightarrow> group_page \<Rightarrow> group_page api_script" where
  "group_handler firewallId orgId GpLoad s = group_load firewallId orgId"
| "group_handler firewallId orgId u s =
     (case group_shown s of
        None \<Rightarrow> Done
      | Some grp \<Rightarrow>
          (case u of
             GeSeed \<Rightarrow> Set (ge_description_update (\<lambda>_. str_prop ''description'' grp)) Done
           | GeDescription t \<Rightarrow> Set (ge_description_update (\<lambda>_. t)) Done
           | GeSave \<Rightarrow> if ge_saving s then Done else save_description firewallId orgId grp s
           | GrLoad \<Rightarrow> rules_load orgId grp
           | GrProtocol p \<Rightarrow> if p \<in> {''tcp'', ''udp'', ''icmp''} then Set (gr_protocol_update (\<lambda>_. p)) Done else Done
           | GrPort t \<Rightarrow> if gr_protocol s = ''icmp'' then Done else Set (gr_portFrom_update (\<lambda>_. t)) Done
           | GrSubnet t \<Rightarrow> Set (gr_subnet_update (\<lambda>_. t)) Done
           | GrAction a \<Rightarrow> if a \<in> {''accept'', ''drop'', ''reject''} then Set (gr_action_update (\<lambda>_. a)) Done else Done
           | GrDesc t \<Rightarrow> Set (gr_desc_update (\<lambda>_. t)) Done
           | GrAdd \<Rightarrow> if gr_creating s then Done else addRule firewallId orgId grp s
           | GrAsk i \<Rightarrow> if i < length (group_rules_shown s)
               then Set (gr_deleteTarget_update (\<lambda>_. Some (group_rules_shown s ! i))) Done else Done
           | GrDismiss \<Rightarrow> Set (gr_deleteTarget_update (\<lambda>_. None)) Done
           | GrRemove \<Rightarrow> if gr_busy s then Done else remove_rule firewallId orgId grp s
           | GpLoad \<Rightarrow> Done))"

subsection \<open>The note of a rule\<close>

record note_editor = ui +
  ne_editing :: bool
  ne_value :: string
  ne_saving :: bool
  ne_reloads :: nat

definition save_note :: "string \<Rightarrow> string \<Rightarrow> json \<Rightarrow> note_editor \<Rightarrow> note_editor api_script" where
  "save_note orgId groupId rule s =
     with_flag ne_saving_update
       (try_catch
         (await (api_patch (''/firewall-groups/'' @ groupId @ ''/rules/'' @ row_id rule)
               (Some (JObj [(''desc'', JStr (trim (ne_value s)))])) (org_opts orgId))
           (\<lambda>_. Set (toast_success ''Note updated'') (Set (ne_editing_update (\<lambda>_. False)) (Set (ne_reloads_update Suc) Done))))
         (\<lambda>cause. Set (toast_error (api_message ''Failed to update note'' cause)) Done))"

datatype note_event = NeEdit | NeValue string | NeEnter | NeEscape | NeSave | NeCancel

fun note_handler :: "string \<Rightarrow> string \<Rightarrow> json \<Rightarrow> note_event \<Rightarrow> note_editor \<Rightarrow> note_editor api_script" where
  "note_handler orgId groupId rule NeEdit s =
     (if ne_editing s then Done
      else Set (ne_value_update (\<lambda>_. str_prop ''desc'' rule)) (Set (ne_editing_update (\<lambda>_. True)) Done))"
| "note_handler orgId groupId rule (NeValue t) s = (if ne_editing s then Set (ne_value_update (\<lambda>_. t)) Done else Done)"
| "note_handler orgId groupId rule NeEnter s = (if ne_editing s then save_note orgId groupId rule s else Done)"
| "note_handler orgId groupId rule NeEscape s = (if ne_editing s then Set (ne_editing_update (\<lambda>_. False)) Done else Done)"
| "note_handler orgId groupId rule NeSave s = (if ne_editing s \<and> \<not> ne_saving s then save_note orgId groupId rule s else Done)"
| "note_handler orgId groupId rule NeCancel s = (if ne_editing s then Set (ne_editing_update (\<lambda>_. False)) Done else Done)"

subsection \<open>An IP list\<close>

record ip_list_page = ui +
  ip_meta :: "json option"
  ip_entries :: "json list"
  ip_loading :: bool
  ip_error :: "js_error option"
  me_name :: string
  me_description :: string
  me_saving :: bool
  ec_value :: string
  ec_description :: string
  ec_adding :: bool
  ec_deleteTarget :: "json option"
  ec_deleting :: bool

definition ip_list_load :: "string option \<Rightarrow> string \<Rightarrow> ip_list_page api_script" where
  "ip_list_load listId orgId =
     (if orgId = [] \<or> missing listId then Done
      else with_flag ip_loading_update (Set (ip_error_update (\<lambda>_. None))
        (try_catch
          (await (api_get (''/ip-lists/'' @ the listId) (org_opts orgId))
            (\<lambda>e. Set (ip_meta_update (\<lambda>_. Option.bind (prop_of (env_data e) ''ip_list'') non_null))
                (Set (ip_entries_update (\<lambda>_. array_or_empty (prop_of (env_data e) ''entries''))) Done)))
          (\<lambda>cause. Set (ip_error_update (\<lambda>_. Some cause)) Done))))"

definition meta_shown :: "ip_list_page \<Rightarrow> json option" where
  "meta_shown s = (if ip_error s \<noteq> None then None else ip_meta s)"

definition save_meta :: "string option \<Rightarrow> string \<Rightarrow> json \<Rightarrow> ip_list_page \<Rightarrow> ip_list_page api_script" where
  "save_meta listId orgId meta s =
     (if trim (me_name s) = [] then Set (toast_error ''Name is required'') Done
      else with_flag me_saving_update
        (try_catch
          (await (api_patch (''/ip-lists/'' @ row_id meta)
                (Some (JObj [(''name'', JStr (trim (me_name s))), (''description'', JStr (trim (me_description s)))])) (org_opts orgId))
            (\<lambda>_. Set (toast_success ''IP list updated'') (Fork (ip_list_load listId orgId) Done)))
          (\<lambda>cause. Set (toast_error (api_message ''Failed to update IP list'' cause)) Done)))"

definition addListEntry :: "string option \<Rightarrow> string \<Rightarrow> json \<Rightarrow> ip_list_page \<Rightarrow> ip_list_page api_script" where
  "addListEntry listId orgId meta s =
     (if trim (ec_value s) = [] then Set (toast_error ''IP or CIDR is required'') Done
      else with_flag ec_adding_update
        (try_catch
          (await (api_post (''/ip-lists/'' @ row_id meta @ ''/entries'')
                (Some (JObj [(''value'', JStr (trim (ec_value s))), (''description'', JStr (trim (ec_description s)))])) (org_opts orgId))
            (\<lambda>_. Set (toast_success ''Entry added'') (Set (ec_value_update (\<lambda>_. [])) (Set (ec_description_update (\<lambda>_. []))
                (Fork (ip_list_load listId orgId) Done)))))
          (\<lambda>cause. Set (toast_error (api_message ''Failed to add entry'' cause)) Done)))"

definition remove_entry :: "string option \<Rightarrow> string \<Rightarrow> json \<Rightarrow> ip_list_page \<Rightarrow> ip_list_page api_script" where
  "remove_entry listId orgId meta s =
     (case ec_deleteTarget s of
        None \<Rightarrow> Done
      | Some target \<Rightarrow>
          if orgId = [] then Done
          else with_flag ec_deleting_update
            (try_catch
              (await (api_delete (''/ip-lists/'' @ row_id meta @ ''/entries/'' @ row_id target) (org_opts orgId))
                (\<lambda>_. Set (toast_success (''Entry '' @ undefined_String (prop_of target ''value'') @ '' removed''))
                    (Set (ec_deleteTarget_update (\<lambda>_. None)) (Fork (ip_list_load listId orgId) Done))))
              (\<lambda>cause. Set (toast_error (api_message ''Failed to remove entry'' cause)) Done)))"

definition entries_shown :: "ip_list_page \<Rightarrow> json list" where
  "entries_shown s = (if ip_loading s \<or> ip_error s \<noteq> None then [] else ip_entries s)"

datatype ip_list_event =
    IpLoad | MeSeed | MeName string | MeDescription string | MeSave | EcValue string | EcDescription string | EcAdd
  | EcAsk nat | EcDismiss | EcRemove

fun ip_list_handler :: "string option \<Rightarrow> string \<Rightarrow> ip_list_event \<Rightarrow> ip_list_page \<Rightarrow> ip_list_page api_script" where
  "ip_list_handler listId orgId IpLoad s = ip_list_load listId orgId"
| "ip_list_handler listId orgId u s =
     (case meta_shown s of
        None \<Rightarrow> Done
      | Some meta \<Rightarrow>
          (case u of
             MeSeed \<Rightarrow> Set (me_name_update (\<lambda>_. str_prop ''name'' meta))
                 (Set (me_description_update (\<lambda>_. str_prop ''description'' meta)) Done)
           | MeName t \<Rightarrow> Set (me_name_update (\<lambda>_. t)) Done
           | MeDescription t \<Rightarrow> Set (me_description_update (\<lambda>_. t)) Done
           | MeSave \<Rightarrow> if me_saving s then Done else save_meta listId orgId meta s
           | EcValue t \<Rightarrow> Set (ec_value_update (\<lambda>_. t)) Done
           | EcDescription t \<Rightarrow> Set (ec_description_update (\<lambda>_. t)) Done
           | EcAdd \<Rightarrow> if ec_adding s then Done else addListEntry listId orgId meta s
           | EcAsk i \<Rightarrow> if i < length (entries_shown s) then Set (ec_deleteTarget_update (\<lambda>_. Some (entries_shown s ! i))) Done else Done
           | EcDismiss \<Rightarrow> Set (ec_deleteTarget_update (\<lambda>_. None)) Done
           | EcRemove \<Rightarrow> if ec_deleting s then Done else remove_entry listId orgId meta s
           | IpLoad \<Rightarrow> Done))"

end
