(* ===== verification/Org_Assets.thy ===== *)
theory Org_Assets
  imports Network_Lists
begin

text \<open>
  SSH keys (\<open>pages/account/SshKeys.tsx\<close>) and startup scripts (\<open>pages/StartupScripts.tsx\<close>) of the
  organisation. Both pages list cards, each with an edit button and a confirmation of its own for
  deletion, and share one form for creating and editing. \<open>as_asked\<close> is the row whose confirmation is open.
\<close>

record assets = ui +
  as_rows :: "json list"
  as_loading :: bool
  as_error :: "js_error option"
  as_editing :: "json option"
  as_formOpen :: bool
  as_name :: string
  as_content :: string
  as_busy :: bool
  as_asked :: "json option"

text \<open>What the two sources say differently: \<open>ak_resets\<close> says whether \<open>load\<close> sets the loading flag and clears
  the error before it asks.\<close>

record asset_kind =
  ak_path :: string
  ak_field :: string
  ak_initial :: string
  ak_content_missing :: string
  ak_created :: string
  ak_updated :: string
  ak_save_failed :: string
  ak_deleted :: string
  ak_delete_failed :: string
  ak_trims :: bool
  ak_limit :: "nat option"
  ak_resets :: bool

definition ssh_keys :: asset_kind where
  "ssh_keys = \<lparr>ak_path = ''/ssh-keys'', ak_field = ''public_key'', ak_initial = [], ak_content_missing = ''Public key is required'',
     ak_created = ''SSH key added'', ak_updated = ''SSH key updated'', ak_save_failed = ''Failed to save SSH key'',
     ak_deleted = ''SSH key deleted'', ak_delete_failed = ''Failed to delete SSH key'', ak_trims = True, ak_limit = None,
     ak_resets = True\<rparr>"

definition MAX_CONTENT_BYTES :: nat where
  "MAX_CONTENT_BYTES = 48000"

definition startup_scripts :: asset_kind where
  "startup_scripts = \<lparr>ak_path = ''/startup-scripts'', ak_field = ''content'', ak_initial = ''#!/bin/bash'' @ [CHR 0x0A],
     ak_content_missing = ''Script content is required'', ak_created = ''Startup script created'',
     ak_updated = ''Startup script updated'', ak_save_failed = ''Failed to save startup script'',
     ak_deleted = ''Startup script deleted'', ak_delete_failed = ''Failed to delete script'', ak_trims = False,
     ak_limit = Some MAX_CONTENT_BYTES, ak_resets = False\<rparr>"

text \<open>Strings are UTF-8 bytes, so \<open>TextEncoder\<close> counts their characters.\<close>

definition byteLength :: "string \<Rightarrow> nat" where
  "byteLength v = length v"

definition assets_ask :: "asset_kind \<Rightarrow> string \<Rightarrow> assets api_script" where
  "assets_ask kind orgId =
     finally_set
       (try_catch
         (await (api_get (ak_path kind) (org_opts orgId))
           (\<lambda>e. Set (as_rows_update (\<lambda>_. array_or_empty (Some (env_data e)))) Done))
         (\<lambda>cause. Set (as_error_update (\<lambda>_. Some cause)) Done))
       (as_loading_update (\<lambda>_. False))"

definition assets_load :: "asset_kind \<Rightarrow> string \<Rightarrow> assets api_script" where
  "assets_load kind orgId =
     (if orgId = [] then Done
      else if ak_resets kind
      then Set (as_loading_update (\<lambda>_. True)) (Set (as_error_update (\<lambda>_. None)) (assets_ask kind orgId))
      else assets_ask kind orgId)"

definition openCreate :: "asset_kind \<Rightarrow> assets api_script" where
  "openCreate kind = Set (as_editing_update (\<lambda>_. None)) (Set (as_name_update (\<lambda>_. []))
     (Set (as_content_update (\<lambda>_. ak_initial kind)) (Set (as_formOpen_update (\<lambda>_. True)) Done)))"

definition openEdit :: "asset_kind \<Rightarrow> json \<Rightarrow> assets api_script" where
  "openEdit kind row = Set (as_editing_update (\<lambda>_. Some row)) (Set (as_name_update (\<lambda>_. str_prop ''name'' row))
     (Set (as_content_update (\<lambda>_. str_prop (ak_field kind) row)) (Set (as_formOpen_update (\<lambda>_. True)) Done)))"

definition asset_problem :: "asset_kind \<Rightarrow> assets \<Rightarrow> string option" where
  "asset_problem kind s =
     (if trim (as_name s) = [] then Some ''Name is required''
      else if trim (as_content s) = [] then Some (ak_content_missing kind)
      else case ak_limit kind of
             Some n \<Rightarrow> if byteLength (as_content s) > n then Some (''Script exceeds the '' @ show_nat n @ '' byte limit'') else None
           | None \<Rightarrow> None)"

definition asset_body :: "asset_kind \<Rightarrow> assets \<Rightarrow> json" where
  "asset_body kind s = JObj [(''name'', JStr (trim (as_name s))),
     (ak_field kind, JStr (if ak_trims kind then trim (as_content s) else as_content s))]"

definition asset_call :: "asset_kind \<Rightarrow> string \<Rightarrow> assets \<Rightarrow> api_call" where
  "asset_call kind orgId s =
     (case as_editing s of
        Some row \<Rightarrow> api_patch (ak_path kind @ ''/'' @ row_id row) (Some (asset_body kind s)) (org_opts orgId)
      | None \<Rightarrow> api_post (ak_path kind) (Some (asset_body kind s)) (org_opts orgId))"

definition submit_asset :: "asset_kind \<Rightarrow> string \<Rightarrow> assets \<Rightarrow> assets api_script" where
  "submit_asset kind orgId s =
     (case asset_problem kind s of
        Some m \<Rightarrow> Set (toast_error m) Done
      | None \<Rightarrow>
          with_flag as_busy_update
            (try_catch
              (await (asset_call kind orgId s)
                (\<lambda>_. Set (toast_success (if as_editing s = None then ak_created kind else ak_updated kind))
                    (Set (as_formOpen_update (\<lambda>_. False)) (assets_load kind orgId))))
              (\<lambda>cause. Set (toast_error (api_message (ak_save_failed kind) cause)) Done)))"

definition remove_asset :: "asset_kind \<Rightarrow> string \<Rightarrow> json \<Rightarrow> assets api_script" where
  "remove_asset kind orgId row =
     try_catch
       (await (api_delete (ak_path kind @ ''/'' @ row_id row) (org_opts orgId))
         (\<lambda>_. Set (toast_success (ak_deleted kind)) (assets_load kind orgId)))
       (\<lambda>cause. Set (toast_error (api_message (ak_delete_failed kind) cause)) Done)"

text \<open>The cards: the banner does not replace them.\<close>

definition cards_shown :: "assets \<Rightarrow> json list" where
  "cards_shown s = (if as_loading s then [] else as_rows s)"

datatype asset_event =
    AsLoad | AsNew | AsEdit nat | AsOpen bool | AsName string | AsContent string | AsSubmit | AsAsk nat | AsDismiss | AsDelete

fun asset_handler :: "asset_kind \<Rightarrow> string \<Rightarrow> asset_event \<Rightarrow> assets \<Rightarrow> assets api_script" where
  "asset_handler kind orgId AsLoad s = assets_load kind orgId"
| "asset_handler kind orgId AsNew s = openCreate kind"
| "asset_handler kind orgId (AsEdit i) s = (if i < length (cards_shown s) then openEdit kind (cards_shown s ! i) else Done)"
| "asset_handler kind orgId (AsOpen v) s = Set (as_formOpen_update (\<lambda>_. v)) Done"
| "asset_handler kind orgId (AsName t) s = (if as_formOpen s then Set (as_name_update (\<lambda>_. t)) Done else Done)"
| "asset_handler kind orgId (AsContent t) s = (if as_formOpen s then Set (as_content_update (\<lambda>_. t)) Done else Done)"
| "asset_handler kind orgId AsSubmit s = (if as_formOpen s \<and> \<not> as_busy s then submit_asset kind orgId s else Done)"
| "asset_handler kind orgId (AsAsk i) s =
     (if i < length (cards_shown s) then Set (as_asked_update (\<lambda>_. Some (cards_shown s ! i))) Done else Done)"
| "asset_handler kind orgId AsDismiss s = Set (as_asked_update (\<lambda>_. None)) Done"
| "asset_handler kind orgId AsDelete s =
     (case as_asked s of Some row \<Rightarrow> Set (as_asked_update (\<lambda>_. None)) (remove_asset kind orgId row) | None \<Rightarrow> Done)"

definition ssh_handler :: "string \<Rightarrow> asset_event \<Rightarrow> assets \<Rightarrow> assets api_script" where
  "ssh_handler = asset_handler ssh_keys"

definition script_handler :: "string \<Rightarrow> asset_event \<Rightarrow> assets \<Rightarrow> assets api_script" where
  "script_handler = asset_handler startup_scripts"

end
