(* ===== verification/Org_Requests.thy ===== *)
theory Org_Requests
  imports Network_Details Org_Assets
begin

text \<open>
  What the list pages of an organisation change, and when: interpretations of \<open>page_lead\<close> (after a change
  a page only loads again) and \<open>page_flag\<close> for the network page, its detail pages, the SSH keys and the startup
  scripts.
\<close>

subsection \<open>The lists of the network page\<close>

text \<open>A creation sends a body that \<open>usable\<close> accepts for the state of the dialog.\<close>

fun net_guard ::
  "net_kind \<Rightarrow> ('a net_list_scheme \<Rightarrow> json \<Rightarrow> bool) \<Rightarrow> string \<Rightarrow> net_event \<Rightarrow> 'a net_list_scheme \<Rightarrow> api_call \<Rightarrow> bool" where
  "net_guard kind usable orgId NlDelete s c \<longleftrightarrow>
     \<not> nl_busy s \<and> (\<exists>row. nl_deleteTarget s = Some row \<and> c = api_delete (nk_path kind @ ''/'' @ row_id row) (org_opts orgId))"
| "net_guard kind usable orgId NdCreate s c \<longleftrightarrow>
     nl_createOpen s \<and> \<not> nd_busy s \<and> (\<exists>body. usable s body \<and> c = api_post (nk_path kind) (Some body) (org_opts orgId))"
| "net_guard kind usable orgId _ s c \<longleftrightarrow> False"

definition named :: "json \<Rightarrow> bool" where
  "named body \<longleftrightarrow> (\<exists>n. prop_of body ''name'' = Some (JStr n) \<and> n \<noteq> [] \<and> trim n = n)"

definition vpc_complete :: "vpc_list \<Rightarrow> json \<Rightarrow> bool" where
  "vpc_complete s body \<longleftrightarrow> named body \<and> prop_of body ''region_id'' = Some (JStr (vp_regionId s)) \<and> vp_regionId s \<noteq> []
     \<and> (\<forall>c. prop_of body ''ipv4_cidr'' = Some (JStr c) \<longrightarrow> c \<noteq> [])"

definition described :: "json \<Rightarrow> bool" where
  "described body \<longleftrightarrow> (\<exists>n d. prop_of body ''name'' = Some (JStr n) \<and> prop_of body ''description'' = Some (JStr d) \<and> (n \<noteq> [] \<or> d \<noteq> []))"

lemma net_load_ok [script_intros]:
  assumes "\<And>c. is_get c \<Longrightarrow> allowed c" and "\<And>f x. I x \<Longrightarrow> I (nl_loading_update f x)" and "\<And>f x. I x \<Longrightarrow> I (nl_error_update f x)"
    and "\<And>f x. I x \<Longrightarrow> I (nl_rows_update f x)"
  shows "script_ok I allowed (net_load kind orgId)"
  using assms by (auto simp: net_load_def intro!: script_intros)

lemma net_created_ok: "script_ok (\<lambda>_. True) is_get (net_created kind orgId)"
  by (auto simp: net_created_def intro!: script_intros)

lemma net_list_leads:
  assumes "\<And>s. calls_lead is_get (create s)"
  shows "calls_lead is_get (net_list_handler kind create orgId u s)"
  using assms
  by (cases u) (auto simp: net_runDelete_def net_load_def intro!: script_intros net_load_ok split: option.split)

lemma net_create_leads: "calls_lead is_get (net_create kind orgId body)"
  by (auto simp: net_create_def intro!: script_intros net_created_ok)

lemma net_list_lead:
  assumes "c \<in> set (lead_calls (net_list_handler kind create orgId u s))"
    and "\<And>c. c \<in> set (lead_calls (create s)) \<Longrightarrow> \<exists>body. usable s body \<and> c = api_post (nk_path kind) (Some body) (org_opts orgId)"
  shows "is_get c \<or> net_guard kind usable orgId u s c"
  using assms
  by (cases u) (auto simp: net_runDelete_def net_load_def split: if_splits option.splits)

lemma net_create_makes:
  "c \<in> set (lead_calls (net_create kind orgId body)) \<Longrightarrow> usable body
   \<Longrightarrow> \<exists>body. usable body \<and> c = api_post (nk_path kind) (Some body) (org_opts orgId)"
  by (auto simp: net_create_def)

interpretation firewalls_lead: page_lead perform_api "firewall_groups_handler orgId" is_get for orgId
proof
  fix u s show "calls_lead is_get (firewall_groups_handler orgId u s)"
    unfolding firewall_groups_handler_def
    by (rule net_list_leads) (simp add: submit_firewall_def net_create_leads)
qed

interpretation ip_lists_lead: page_lead perform_api "ip_lists_handler orgId" is_get for orgId
proof
  fix u s show "calls_lead is_get (ip_lists_handler orgId u s)"
    unfolding ip_lists_handler_def
    by (rule net_list_leads) (simp add: submit_ip_list_def net_create_leads)
qed

interpretation vpc_lead: page_lead perform_api "vpc_handler orgId" is_get for orgId
proof
  fix u s show "calls_lead is_get (vpc_handler orgId u s)"
  proof (cases u)
    case (VpcList e)
    then show ?thesis by (simp add: net_list_leads submit_vpc_def net_create_leads)
  qed (auto simp: vpc_regions_def intro!: script_intros)
qed

fun vpc_guard :: "string \<Rightarrow> vpc_event \<Rightarrow> vpc_list \<Rightarrow> api_call \<Rightarrow> bool" where
  "vpc_guard orgId (VpcList u) s c \<longleftrightarrow> net_guard vpc_kind vpc_complete orgId u s c"
| "vpc_guard orgId _ s c \<longleftrightarrow> False"

lemma vpc_body_complete: "trim (nd_name s) \<noteq> [] \<Longrightarrow> vp_regionId s \<noteq> [] \<Longrightarrow> vpc_complete s (vpc_body s)"
  by (auto simp: vpc_complete_def vpc_body_def named_def trim_idem)

lemma vpc_lead_calls: "c \<in> set (lead_calls (vpc_handler orgId u s)) \<Longrightarrow> is_get c \<or> vpc_guard orgId u s c"
proof (cases u)
  case (VpcList e)
  assume "c \<in> set (lead_calls (vpc_handler orgId u s))"
  then have "c \<in> set (lead_calls (net_list_handler vpc_kind (submit_vpc orgId) orgId e s))" by (simp add: VpcList)
  then have "is_get c \<or> net_guard vpc_kind vpc_complete orgId e s c"
    by (rule net_list_lead) (auto simp: submit_vpc_def split: if_splits elim!: net_create_makes intro: vpc_body_complete)
  then show ?thesis by (simp add: VpcList)
qed (auto simp: vpc_regions_def split: if_splits)

lemma firewalls_lead_calls:
  "c \<in> set (lead_calls (firewall_groups_handler orgId u s)) \<Longrightarrow>
   is_get c \<or> net_guard firewall_kind (\<lambda>_. described) orgId u s c"
  unfolding firewall_groups_handler_def
  by (rule net_list_lead, assumption) (auto simp: submit_firewall_def split: if_splits elim!: net_create_makes simp: described_def named_body_def)

lemma ip_lists_lead_calls:
  "c \<in> set (lead_calls (ip_lists_handler orgId u s)) \<Longrightarrow> is_get c \<or> net_guard ip_list_kind (\<lambda>_. named) orgId u s c"
  unfolding ip_lists_handler_def
  by (rule net_list_lead, assumption) (auto simp: submit_ip_list_def split: if_splits elim!: net_create_makes simp: named_def named_body_def trim_idem)

subsection \<open>Reserved addresses\<close>

fun ip_guard :: "string \<Rightarrow> ip_event \<Rightarrow> ip_section \<Rightarrow> api_call \<Rightarrow> bool" where
  "ip_guard orgId RiRelease s c \<longleftrightarrow>
     \<not> ri_busy s \<and> (\<exists>row. ri_deleteTarget s = Some row \<and> c = api_delete (''/reserved-ips/'' @ row_id row) (org_opts orgId))"
| "ip_guard orgId RiAttach s c \<longleftrightarrow>
     \<not> ri_busy s \<and> ri_attachInstanceId s \<noteq> []
     \<and> (\<exists>row. ri_attachTarget s = Some row \<and> c = attach_call orgId row (ri_attachInstanceId s))"
| "ip_guard orgId RdReserve s c \<longleftrightarrow>
     ri_createOpen s \<and> trim (rd_address s) \<noteq> [] \<and> c = api_post ''/reserved-ips'' (Some (reserve_body s)) (org_opts orgId)"
| "ip_guard orgId CvConvert s c \<longleftrightarrow>
     ri_convertOpen s \<and> (\<exists>inst \<in> set (ri_instances s). prop_of inst ''id'' = Some (JStr (cv_instanceId s))
        \<and> str_prop ''primary_ipv4'' inst \<noteq> []
        \<and> c = api_post ''/reserved-ips/convert'' (Some (JObj [(''ip_address'', JStr (str_prop ''primary_ipv4'' inst)),
            (''instance_id'', JStr (cv_instanceId s)), (''name'', JStr (trim (cv_name s)))])) (org_opts orgId))"
| "ip_guard orgId _ s c \<longleftrightarrow> False"

lemma ips_load_ok [script_intros]: "script_ok (\<lambda>_. True) is_get (ips_load orgId)"
  by (auto simp: ips_load_def intro!: script_intros)

interpretation ips_lead: page_lead perform_api "ip_handler orgId" is_get for orgId
proof
  fix u s show "calls_lead is_get (ip_handler orgId u s)"
    by (cases u) (auto simp: ips_load_def release_ip_def attach_def reserve_regions_def reserve_ip_def convert_ip_def
        intro!: script_intros ips_load_ok [unfolded ips_load_def] split: option.split)
qed

lemma convert_lead:
  assumes "c \<in> set (lead_calls (convert_ip orgId s))"
  shows "\<exists>inst \<in> set (ri_instances s). prop_of inst ''id'' = Some (JStr (cv_instanceId s)) \<and> str_prop ''primary_ipv4'' inst \<noteq> []
    \<and> c = api_post ''/reserved-ips/convert'' (Some (JObj [(''ip_address'', JStr (str_prop ''primary_ipv4'' inst)),
        (''instance_id'', JStr (cv_instanceId s)), (''name'', JStr (trim (cv_name s)))])) (org_opts orgId)"
proof (cases "convert_selected s")
  case None
  with assms show ?thesis by (simp add: convert_ip_def primary_ipv4_def)
next
  case (Some inst)
  then have "inst \<in> set (ri_instances s)" "prop_of inst ''id'' = Some (JStr (cv_instanceId s))"
    by (auto simp: convert_selected_def find_Some_iff)
  with assms Some show ?thesis by (auto simp: convert_ip_def primary_ipv4_def convert_body_def split: if_splits)
qed

lemma ips_lead_calls: "c \<in> set (lead_calls (ip_handler orgId u s)) \<Longrightarrow> is_get c \<or> ip_guard orgId u s c"
  by (cases u) (auto simp: ips_load_def release_ip_def attach_def reserve_regions_def reserve_ip_def
      split: if_splits option.splits dest: convert_lead)

subsection \<open>Detail pages\<close>

definition rule_complete :: "json \<Rightarrow> bool" where
  "rule_complete body \<longleftrightarrow>
     (\<exists>p sub. prop_of body ''protocol'' = Some (JStr p) \<and> prop_of body ''subnet'' = Some (JStr sub) \<and> sub \<noteq> []
        \<and> (p \<noteq> ''icmp'' \<longrightarrow> (\<exists>n :: nat. 1 \<le> n \<and> n \<le> 65535 \<and> prop_of body ''port_from'' = Some (JNum (of_nat n))
             \<and> prop_of body ''port_to'' = Some (JNum (of_nat n)))))"

lemma port_valid: "\<not> port_invalid n \<Longrightarrow> \<exists>k :: nat. 1 \<le> k \<and> k \<le> 65535 \<and> js_num_json n = JNum (of_nat k)"
proof (cases n)
  case (Fin q)
  assume "\<not> port_invalid n"
  then have q: "q = of_int \<lfloor>q\<rfloor>" "1 \<le> q" "q \<le> 65535" by (simp_all add: port_invalid_def Fin)
  then have z: "1 \<le> \<lfloor>q\<rfloor>" "\<lfloor>q\<rfloor> \<le> 65535" by linarith+
  then have "q = of_nat (nat \<lfloor>q\<rfloor>)" using q(1) by (metis of_nat_nat order_trans zero_le_one)
  then have "js_num_json n = JNum (of_nat (nat \<lfloor>q\<rfloor>))" by (simp add: Fin js_num_json_def)
  with z show ?thesis by (intro exI [of _ "nat \<lfloor>q\<rfloor>"]) (simp add: nat_le_iff le_nat_iff)
qed (simp_all add: port_invalid_def)

lemma group_rule_complete:
  "trim (gr_subnet s) \<noteq> [] \<Longrightarrow> gr_protocol s = ''icmp'' \<or> \<not> port_invalid (js_Number (gr_portFrom s)) \<Longrightarrow> rule_complete (group_rule_body s)"
  using port_valid [of "js_Number (gr_portFrom s)"] by (auto simp: rule_complete_def group_rule_body_def)

fun group_guard :: "string \<Rightarrow> group_event \<Rightarrow> group_page \<Rightarrow> api_call \<Rightarrow> bool" where
  "group_guard orgId u s c \<longleftrightarrow>
     (\<exists>grp. group_shown s = Some grp \<and>
        (u = GeSave \<and> (\<exists>d. d \<noteq> [] \<and> c = api_put (''/firewall-groups/'' @ row_id grp) (Some (JObj [(''description'', JStr d)])) (org_opts orgId))
         \<or> u = GrAdd \<and> rule_complete (group_rule_body s) \<and> c = api_post (rules_path grp) (Some (group_rule_body s)) (org_opts orgId)
         \<or> u = GrRemove \<and> orgId \<noteq> [] \<and> \<not> gr_busy s
            \<and> (\<exists>row. gr_deleteTarget s = Some row \<and> c = api_delete (rules_path grp @ ''/'' @ row_id row) (org_opts orgId))))"

lemma group_loads_ok [script_intros]:
  "script_ok (\<lambda>_. True) is_get (group_load firewallId orgId)" "script_ok (\<lambda>_. True) is_get (rules_load orgId grp)"
  by (auto simp: group_load_def rules_load_def intro!: script_intros)

interpretation group_lead: page_lead perform_api "group_handler firewallId orgId" is_get for firewallId orgId
proof
  fix u s show "calls_lead is_get (group_handler firewallId orgId u s)"
    by (cases u) (auto simp: save_description_def addRule_def remove_rule_def
        intro!: script_intros script_ok_lead [OF group_loads_ok(1)] script_ok_lead [OF group_loads_ok(2)] split: option.split)
qed

lemma group_lead_calls: "c \<in> set (lead_calls (group_handler firewallId orgId u s)) \<Longrightarrow> is_get c \<or> group_guard orgId u s c"
  by (cases u) (auto simp: group_load_def rules_load_def save_description_def addRule_def remove_rule_def
      split: if_splits option.splits intro: group_rule_complete)

fun note_guard :: "string \<Rightarrow> string \<Rightarrow> json \<Rightarrow> note_event \<Rightarrow> note_editor \<Rightarrow> api_call \<Rightarrow> bool" where
  "note_guard orgId groupId rule u s c \<longleftrightarrow> ne_editing s \<and> u \<in> {NeEnter, NeSave}
     \<and> c = api_patch (''/firewall-groups/'' @ groupId @ ''/rules/'' @ row_id rule) (Some (JObj [(''desc'', JStr (trim (ne_value s)))])) (org_opts orgId)"

interpretation note_lead: page_lead perform_api "note_handler orgId groupId rule" is_get for orgId groupId rule
proof
  fix u s show "calls_lead is_get (note_handler orgId groupId rule u s)"
    by (cases u) (auto simp: save_note_def intro!: script_intros)
qed

lemma note_lead_calls: "c \<in> set (lead_calls (note_handler orgId groupId rule u s)) \<Longrightarrow> is_get c \<or> note_guard orgId groupId rule u s c"
  by (cases u) (auto simp: save_note_def split: if_splits)

fun ip_list_guard :: "string \<Rightarrow> ip_list_event \<Rightarrow> ip_list_page \<Rightarrow> api_call \<Rightarrow> bool" where
  "ip_list_guard orgId u s c \<longleftrightarrow>
     (\<exists>meta. meta_shown s = Some meta \<and>
        (u = MeSave \<and> (\<exists>body. named body \<and> c = api_patch (''/ip-lists/'' @ row_id meta) (Some body) (org_opts orgId))
         \<or> u = EcAdd \<and> (\<exists>v d. v \<noteq> [] \<and> c = api_post (''/ip-lists/'' @ row_id meta @ ''/entries'')
              (Some (JObj [(''value'', JStr v), (''description'', JStr d)])) (org_opts orgId))
         \<or> u = EcRemove \<and> orgId \<noteq> [] \<and> \<not> ec_deleting s
            \<and> (\<exists>row. ec_deleteTarget s = Some row
                 \<and> c = api_delete (''/ip-lists/'' @ row_id meta @ ''/entries/'' @ row_id row) (org_opts orgId))))"

lemma ip_list_load_ok [script_intros]: "script_ok (\<lambda>_. True) is_get (ip_list_load listId orgId)"
  by (auto simp: ip_list_load_def intro!: script_intros)

interpretation ip_list_lead: page_lead perform_api "ip_list_handler listId orgId" is_get for listId orgId
proof
  fix u s show "calls_lead is_get (ip_list_handler listId orgId u s)"
    by (cases u) (auto simp: save_meta_def addListEntry_def remove_entry_def
        intro!: script_intros script_ok_lead [OF ip_list_load_ok] split: option.split)
qed

lemma named_meta: "trim n \<noteq> [] \<Longrightarrow> named (JObj [(''name'', JStr (trim n)), (''description'', d)])"
  by (simp add: named_def trim_idem)

lemma ip_list_lead_calls: "c \<in> set (lead_calls (ip_list_handler listId orgId u s)) \<Longrightarrow> is_get c \<or> ip_list_guard orgId u s c"
  by (cases u) (auto simp: ip_list_load_def save_meta_def addListEntry_def remove_entry_def
      split: if_splits option.splits intro: named_meta)

subsection \<open>SSH keys and startup scripts\<close>

definition asset_complete :: "asset_kind \<Rightarrow> json \<Rightarrow> bool" where
  "asset_complete kind body \<longleftrightarrow>
     (\<exists>n v. body = JObj [(''name'', JStr n), (ak_field kind, JStr v)] \<and> n \<noteq> [] \<and> trim n = n \<and> trim v \<noteq> []
        \<and> (\<forall>limit. ak_limit kind = Some limit \<longrightarrow> length v \<le> limit))"

definition asset_guard :: "asset_kind \<Rightarrow> string \<Rightarrow> asset_event \<Rightarrow> assets \<Rightarrow> api_call \<Rightarrow> bool" where
  "asset_guard kind orgId u s c \<longleftrightarrow>
     u = AsSubmit \<and> as_formOpen s \<and> \<not> as_busy s
       \<and> (\<exists>body. asset_complete kind body
            \<and> c = (case as_editing s of
                     Some row \<Rightarrow> api_patch (ak_path kind @ ''/'' @ row_id row) (Some body) (org_opts orgId)
                   | None \<Rightarrow> api_post (ak_path kind) (Some body) (org_opts orgId)))
     \<or> u = AsDelete \<and> (\<exists>row. as_asked s = Some row \<and> c = api_delete (ak_path kind @ ''/'' @ row_id row) (org_opts orgId))"

lemma assets_load_ok [script_intros]: "script_ok (\<lambda>_. True) is_get (assets_load kind orgId)"
  by (auto simp: assets_load_def assets_ask_def intro!: script_intros)

lemma asset_leads: "calls_lead is_get (asset_handler kind orgId u s)"
  by (cases u) (auto simp: openCreate_def openEdit_def submit_asset_def remove_asset_def
      intro!: script_intros script_ok_lead [OF assets_load_ok] split: option.split)

interpretation ssh_lead: page_lead perform_api "ssh_handler orgId" is_get for orgId
  by unfold_locales (simp add: ssh_handler_def asset_leads)

interpretation script_lead: page_lead perform_api "script_handler orgId" is_get for orgId
  by unfold_locales (simp add: script_handler_def asset_leads)

lemma asset_body_complete: "asset_problem kind s = None \<Longrightarrow> asset_complete kind (asset_body kind s)"
  using trim_length [of "as_content s"]
  by (auto simp: asset_complete_def asset_body_def asset_problem_def byteLength_def trim_idem split: if_splits option.splits)

lemma asset_lead_calls: "c \<in> set (lead_calls (asset_handler kind orgId u s)) \<Longrightarrow> is_get c \<or> asset_guard kind orgId u s c"
proof (cases u)
  case AsSubmit
  then show "c \<in> set (lead_calls (asset_handler kind orgId u s)) \<Longrightarrow> ?thesis"
    using asset_body_complete [of kind s]
    by (auto simp: asset_guard_def submit_asset_def asset_call_def split: if_splits option.splits)
qed (auto simp: asset_guard_def assets_load_def assets_ask_def openCreate_def openEdit_def remove_asset_def split: if_splits option.splits)


subsection \<open>Busy buttons\<close>

lemmas list_defs = net_runDelete_def net_load_def net_create_def net_created_def submit_vpc_def submit_firewall_def
  submit_ip_list_def vpc_regions_def toast_success_def toast_error_def

lemmas ip_defs = ips_load_def release_ip_def attach_def reserve_regions_def reserve_ip_def convert_ip_def convert_timer_def
  toast_success_def toast_error_def

lemmas group_defs = group_load_def save_description_def rules_load_def addRule_def remove_rule_def save_note_def
  toast_success_def toast_error_def

lemmas ip_list_defs = ip_list_load_def save_meta_def addListEntry_def remove_entry_def toast_success_def toast_error_def

lemmas asset_defs = assets_load_def assets_ask_def openCreate_def openEdit_def submit_asset_def remove_asset_def
  toast_success_def toast_error_def

lemma net_list_deleting:
  assumes "\<And>s. ends_low nl_busy (create s) True"
  shows "ends_low nl_busy (net_list_handler kind create orgId u s) True"
  using assms by (cases u) (auto simp: list_defs intro!: script_intros split: option.split)

lemma net_list_creating:
  assumes "\<And>s. ends_low nd_busy (create s) True"
  shows "ends_low nd_busy (net_list_handler kind create orgId u s) True"
  using assms by (cases u) (auto simp: list_defs intro!: script_intros split: option.split)

interpretation vpc_deleting: page_flag perform_api "vpc_handler orgId" nl_busy for orgId
proof
  fix u s show "ends_low nl_busy (vpc_handler orgId u s) True"
  proof (cases u)
    case (VpcList e)
    then show ?thesis by (auto simp: list_defs intro!: net_list_deleting script_intros)
  qed (auto simp: vpc_regions_def intro!: script_intros)
qed

interpretation vpc_creating: page_flag perform_api "vpc_handler orgId" nd_busy for orgId
proof
  fix u s show "ends_low nd_busy (vpc_handler orgId u s) True"
  proof (cases u)
    case (VpcList e)
    then show ?thesis by (auto simp: list_defs intro!: net_list_creating script_intros)
  qed (auto simp: vpc_regions_def intro!: script_intros)
qed

interpretation firewalls_deleting: page_flag perform_api "firewall_groups_handler orgId" nl_busy for orgId
proof
  fix u s show "ends_low nl_busy (firewall_groups_handler orgId u s) True"
    unfolding firewall_groups_handler_def by (rule net_list_deleting) (auto simp: list_defs intro!: script_intros)
qed

interpretation firewalls_creating: page_flag perform_api "firewall_groups_handler orgId" nd_busy for orgId
proof
  fix u s show "ends_low nd_busy (firewall_groups_handler orgId u s) True"
    unfolding firewall_groups_handler_def by (rule net_list_creating) (auto simp: list_defs intro!: script_intros)
qed

interpretation ip_lists_deleting: page_flag perform_api "ip_lists_handler orgId" nl_busy for orgId
proof
  fix u s show "ends_low nl_busy (ip_lists_handler orgId u s) True"
    unfolding ip_lists_handler_def by (rule net_list_deleting) (auto simp: list_defs intro!: script_intros)
qed

interpretation ip_lists_creating: page_flag perform_api "ip_lists_handler orgId" nd_busy for orgId
proof
  fix u s show "ends_low nd_busy (ip_lists_handler orgId u s) True"
    unfolding ip_lists_handler_def by (rule net_list_creating) (auto simp: list_defs intro!: script_intros)
qed

interpretation ips_changing: page_flag perform_api "ip_handler orgId" ri_busy for orgId
proof
  fix u s show "ends_low ri_busy (ip_handler orgId u s) True"
    by (cases u) (auto simp: ip_defs intro!: script_intros split: option.split)
qed

interpretation ips_reserving: page_flag perform_api "ip_handler orgId" rd_busy for orgId
proof
  fix u s show "ends_low rd_busy (ip_handler orgId u s) True"
    by (cases u) (auto simp: ip_defs intro!: script_intros split: option.split)
qed

interpretation ips_converting: page_flag perform_api "ip_handler orgId" cv_busy for orgId
proof
  fix u s show "ends_low cv_busy (ip_handler orgId u s) True"
    by (cases u) (auto simp: ip_defs intro!: script_intros split: option.split)
qed

interpretation group_saving: page_flag perform_api "group_handler firewallId orgId" ge_saving for firewallId orgId
proof
  fix u s show "ends_low ge_saving (group_handler firewallId orgId u s) True"
    by (cases u) (auto simp: group_defs intro!: script_intros split: option.split)
qed

interpretation group_removing: page_flag perform_api "group_handler firewallId orgId" gr_busy for firewallId orgId
proof
  fix u s show "ends_low gr_busy (group_handler firewallId orgId u s) True"
    by (cases u) (auto simp: group_defs intro!: script_intros split: option.split)
qed

interpretation group_adding: page_flag perform_api "group_handler firewallId orgId" gr_creating for firewallId orgId
proof
  fix u s show "ends_low gr_creating (group_handler firewallId orgId u s) True"
    by (cases u) (auto simp: group_defs intro!: script_intros split: option.split)
qed

interpretation note_saving: page_flag perform_api "note_handler orgId groupId rule" ne_saving for orgId groupId rule
proof
  fix u s show "ends_low ne_saving (note_handler orgId groupId rule u s) True"
    by (cases u) (auto simp: group_defs intro!: script_intros split: option.split)
qed

interpretation meta_saving: page_flag perform_api "ip_list_handler listId orgId" me_saving for listId orgId
proof
  fix u s show "ends_low me_saving (ip_list_handler listId orgId u s) True"
    by (cases u) (auto simp: ip_list_defs intro!: script_intros split: option.split)
qed

interpretation entry_adding: page_flag perform_api "ip_list_handler listId orgId" ec_adding for listId orgId
proof
  fix u s show "ends_low ec_adding (ip_list_handler listId orgId u s) True"
    by (cases u) (auto simp: ip_list_defs intro!: script_intros split: option.split)
qed

interpretation entry_removing: page_flag perform_api "ip_list_handler listId orgId" ec_deleting for listId orgId
proof
  fix u s show "ends_low ec_deleting (ip_list_handler listId orgId u s) True"
    by (cases u) (auto simp: ip_list_defs intro!: script_intros split: option.split)
qed

lemma asset_low: "ends_low as_busy (asset_handler kind orgId u s) True"
  by (cases u) (auto simp: asset_defs intro!: script_intros split: option.split)

interpretation ssh_saving: page_flag perform_api "ssh_handler orgId" as_busy for orgId
  by unfold_locales (simp add: ssh_handler_def asset_low)

interpretation script_saving: page_flag perform_api "script_handler orgId" as_busy for orgId
  by unfold_locales (simp add: script_handler_def asset_low)

subsection \<open>Surprises\<close>

text \<open>An error of the startup scripts is never taken away again: neither a successful load nor a
  successful change clears it, so the banner stays until the page is left.\<close>

interpretation script_error: page_contract perform_api "script_handler orgId" "\<lambda>s. as_error s \<noteq> None" "\<lambda>_. True" for orgId
proof
  fix u and s :: assets
  show "script_ok (\<lambda>s. as_error s \<noteq> None) (\<lambda>_. True) (script_handler orgId u s)"
    unfolding script_handler_def
    by (cases u) (auto simp: asset_defs startup_scripts_def intro!: script_intros split: option.split)
qed

lemma script_error_sticks:
  "as_error s \<noteq> None \<Longrightarrow> as_error (pg_state (run_page perform_api (script_handler orgId) es (open_page s b))) \<noteq> None"
  by (rule script_error.runs_keep)

text \<open>The enter key saves a note again while it is being saved; the button does not.\<close>

lemma note_sent_twice:
  "ne_editing s \<Longrightarrow>
   let c = api_patch (''/firewall-groups/'' @ groupId @ ''/rules/'' @ row_id rule) (Some (JObj [(''desc'', JStr (trim (ne_value s)))])) (org_opts orgId)
   in snd (user_run (note_handler orgId groupId rule) [NeEnter, NeEnter] s) = [c, c]"
  by (simp add: save_note_def with_flag_def await_def Let_def)

text \<open>The form marks the name of a firewall group as required, and creates one without a name.\<close>

lemma nameless_firewall:
  assumes "nl_createOpen s" and "\<not> nd_busy s" and "nd_name s = []" and "trim (nd_description s) \<noteq> []"
  shows "lead_calls (firewall_groups_handler orgId NdCreate s)
    = [api_post ''/firewall-groups'' (Some (JObj [(''name'', JStr []), (''description'', JStr (trim (nd_description s)))])) (org_opts orgId)]"
  using assms by (simp add: firewall_groups_handler_def submit_firewall_def net_create_def named_body_def firewall_kind_def)

end
