(* ===== verification/Catalog_Finance.thy ===== *)
theory Catalog_Finance
  imports Billing_Coupons
begin

text \<open>
  The catalog page of the finance console (\<open>finance/pages/Catalog.tsx\<close>): products, plans, plan prices and
  custom rates, loaded together and changed in the dialogs of four tabs. Every tab is a page of its own
  here, over the state the page shares with it; leaving a tab unmounts its dialog, which is a newly opened
  page. The selections of the four tables have no actions; \<open>Data_Table\<close> models them.
\<close>

subsection \<open>Shared by the tabs\<close>

definition SERVICE_KINDS :: "string list" where
  "SERVICE_KINDS = [''vm'', ''object_storage'', ''bare_metal'', ''block_storage'', ''database'', ''kubernetes'', ''hosting'',
     ''domain'', ''other'']"

definition PRICE_MODES :: "string list" where
  "PRICE_MODES = [''fixed_plan'', ''custom_resource'', ''manual_quote'']"

definition catalog_BILLING_PERIODS :: "string list" where
  "catalog_BILLING_PERIODS = [''hourly'', ''daily'', ''monthly'', ''quarterly'', ''semiannual'', ''annual'', ''biennial'', ''triennial'',
     ''quinquennial'', ''one_time'']"

definition toNumberOrUndefined :: "string \<Rightarrow> rat option" where
  "toNumberOrUndefined v = (if trim v = [] then None else case js_Number v of Fin q \<Rightarrow> Some q | _ \<Rightarrow> None)"

text \<open>\<open>Number(v) || d\<close>.\<close>

definition nonzero_or :: "rat \<Rightarrow> string \<Rightarrow> js_num" where
  "nonzero_or d v = (case js_Number v of NaN \<Rightarrow> Fin d | Fin q \<Rightarrow> if q = 0 then Fin d else Fin q | n \<Rightarrow> n)"

text \<open>\<open>cause instanceof ApiError ? `${cause.message} (${cause.code})` : fallback\<close>.\<close>

definition coded_message :: "string \<Rightarrow> js_error \<Rightarrow> string" where
  "coded_message fallback cause =
     (case cause of ApiError code m _ _ \<Rightarrow> m @ '' ('' @ js_String code @ '')'' | PlainError _ \<Rightarrow> fallback)"

definition InlineFormError :: "string option \<Rightarrow> string option" where
  "InlineFormError error = (if missing error then None else error)"

record catalog = ui +
  ct_products :: "json list"
  ct_plans :: "json list"
  ct_rates :: "json list"
  ct_regions :: "json list"
  ct_loading :: bool
  ct_error :: "js_error option"

definition per_100 :: api_options where
  "per_100 = \<lparr>ao_headers = None, ao_query = Some [(''per_page'', QNum 100)]\<rparr>"

definition by_sort_order :: "json list \<Rightarrow> json list" where
  "by_sort_order rows = sort_key (num_prop ''sort_order'') rows"

definition loadCatalog :: "'a catalog_scheme api_script" where
  "loadCatalog =
     with_flag ct_loading_update (Set (ct_error_update (\<lambda>_. None))
         (try_catch
           (await_all [api_get ''/admin/products'' no_options, api_get ''/admin/plans'' per_100,
                       api_get ''/admin/custom-rates'' per_100, api_get ''/admin/regions'' no_options]
             (\<lambda>rs. if env_data (rs ! 0) = JNull then Throw (PlainError ''TypeError'')
               else Set (ct_products_update (\<lambda>_. by_sort_order (array_or_empty (Some (env_data (rs ! 0))))))
                 (Set (ct_plans_update (\<lambda>_. array_or_empty (Some (env_data (rs ! 1)))))
                   (Set (ct_rates_update (\<lambda>_. array_or_empty (Some (env_data (rs ! 2)))))
                     (Set (ct_regions_update (\<lambda>_. array_or_empty (Some (env_data (rs ! 3))))) Done)))))
           (\<lambda>cause. Set (ct_error_update (\<lambda>_. Some cause)) Done)))"

text \<open>The option of a select of rows, by position, and of one with a fixed first entry.\<close>

definition pick_row :: "json list \<Rightarrow> nat \<Rightarrow> string \<Rightarrow> string" where
  "pick_row rows i current = (if i < length rows then row_id (rows ! i) else current)"

definition pick_row_or :: "string \<Rightarrow> json list \<Rightarrow> nat \<Rightarrow> string \<Rightarrow> string" where
  "pick_row_or none rows i current = (if i = 0 then none else pick_row rows (i - 1) current)"

definition enabled_regions :: "'a catalog_scheme \<Rightarrow> json list" where
  "enabled_regions s = filter (flag_prop ''enabled'') (ct_regions s)"

subsection \<open>Products\<close>

record product_form =
  pf_code :: string
  pf_name :: string
  pf_description :: string
  pf_service_kind :: string
  pf_defaultAmount :: string
  pf_sortOrder :: string

definition empty_product_form :: product_form where
  "empty_product_form = \<lparr>pf_code = [], pf_name = [], pf_description = [], pf_service_kind = ''vm'', pf_defaultAmount = [],
     pf_sortOrder = []\<rparr>"

datatype product_field =
    PfCode string
  | PfName string
  | PfKind nat
  | PfAmount string
  | PfSort string
  | PfDescription string

fun ProductFormFields :: "product_field \<Rightarrow> product_form \<Rightarrow> product_form" where
  "ProductFormFields (PfCode t) f = f\<lparr>pf_code := t\<rparr>"
| "ProductFormFields (PfName t) f = f\<lparr>pf_name := t\<rparr>"
| "ProductFormFields (PfKind i) f = f\<lparr>pf_service_kind := pick SERVICE_KINDS i (pf_service_kind f)\<rparr>"
| "ProductFormFields (PfAmount t) f = f\<lparr>pf_defaultAmount := t\<rparr>"
| "ProductFormFields (PfSort t) f = f\<lparr>pf_sortOrder := t\<rparr>"
| "ProductFormFields (PfDescription t) f = f\<lparr>pf_description := t\<rparr>"

record products_tab = catalog +
  pt_createOpen :: bool
  pt_form :: product_form
  pt_error :: "string option"
  pt_saving :: bool
  pt_editTarget :: "json option"
  pe_name :: string
  pe_description :: string
  pe_defaultAmount :: string
  pe_sortOrder :: string
  pe_enabled :: bool
  pe_error :: "string option"
  pe_saving :: bool
  pe_loadedId :: "string option"

definition number_or_default :: "rat \<Rightarrow> string \<Rightarrow> json" where
  "number_or_default d v = JNum (case toNumberOrUndefined v of Some q \<Rightarrow> q | None \<Rightarrow> d)"

definition product_body :: "product_form \<Rightarrow> json" where
  "product_body f = JObj
     ([(''code'', JStr (trim (pf_code f))), (''name'', JStr (trim (pf_name f)))]
      @ (if trim (pf_description f) = [] then [] else [(''description'', JStr (trim (pf_description f)))])
      @ [(''service_kind'', JStr (pf_service_kind f)), (''default_monthly_amount'', number_or_default 0 (pf_defaultAmount f)),
         (''sort_order'', number_or_default 10 (pf_sortOrder f))])"

definition create_product :: "products_tab \<Rightarrow> products_tab api_script" where
  "create_product s =
     (let f = pt_form s in
      if trim (pf_code f) = [] \<or> trim (pf_name f) = []
      then Set (pt_error_update (\<lambda>_. Some ''Code and name are required'')) Done
      else with_flag pt_saving_update (Set (pt_error_update (\<lambda>_. None))
          (try_catch
            (await (api_post ''/admin/products'' (Some (product_body f)) no_options)
              (\<lambda>_. Set (toast_success (''Product '' @ trim (pf_code f) @ '' created''))
                  (Set (pt_createOpen_update (\<lambda>_. False)) (Set (pt_form_update (\<lambda>_. empty_product_form)) loadCatalog))))
            (\<lambda>cause. Set (pt_error_update (\<lambda>_. Some (coded_message ''Failed to create product'' cause))) Done))))"

text \<open>The fields are filled while rendering, whenever another product than the loaded one is shown.\<close>

definition sync_edit :: "products_tab \<Rightarrow> products_tab" where
  "sync_edit s =
     (case pt_editTarget s of
        Some product \<Rightarrow>
          if pe_loadedId s \<noteq> Some (row_id product)
          then s\<lparr>pe_loadedId := Some (row_id product), pe_name := str_prop ''name'' product,
                 pe_description := str_prop ''description'' product,
                 pe_defaultAmount := String_or_empty ''default_monthly_amount'' product,
                 pe_sortOrder := String_or_empty ''sort_order'' product, pe_enabled := flag_prop ''enabled'' product\<rparr>
          else s
      | None \<Rightarrow> s)"

definition changed_number :: "string \<Rightarrow> string \<Rightarrow> json \<Rightarrow> json js_record" where
  "changed_number k v product =
     (case toNumberOrUndefined v of
        Some q \<Rightarrow> if prop_of product k \<noteq> Some (JNum q) then [(k, JNum q)] else []
      | None \<Rightarrow> [])"

definition product_patch :: "products_tab \<Rightarrow> json \<Rightarrow> json js_record" where
  "product_patch s product =
     (if trim (pe_name s) = [] then [] else [(''name'', JStr (trim (pe_name s)))])
     @ (if pe_description s = str_prop ''description'' product then [] else [(''description'', JStr (pe_description s))])
     @ changed_number ''default_monthly_amount'' (pe_defaultAmount s) product
     @ changed_number ''sort_order'' (pe_sortOrder s) product
     @ (if pe_enabled s = flag_prop ''enabled'' product then [] else [(''enabled'', JBool (pe_enabled s))])"

definition close_edit :: "products_tab \<Rightarrow> products_tab" where
  "close_edit s = s\<lparr>pt_editTarget := None, pe_loadedId := None\<rparr>"

definition save_product :: "products_tab \<Rightarrow> products_tab api_script" where
  "save_product s =
     (case pt_editTarget s of
        None \<Rightarrow> Done
      | Some product \<Rightarrow>
          if product_patch s product = [] then Set (pe_error_update (\<lambda>_. Some ''Nothing to update'')) Done
          else with_flag pe_saving_update (Set (pe_error_update (\<lambda>_. None))
              (try_catch
                (await (api_patch (''/admin/products/'' @ row_id product) (Some (JObj (product_patch s product))) no_options)
                  (\<lambda>_. Set (toast_success (''Product '' @ str_prop ''code'' product @ '' updated''))
                      (Set close_edit loadCatalog)))
                (\<lambda>cause. Set (pe_error_update (\<lambda>_. Some (coded_message ''Failed to update product'' cause))) Done))))"

definition products_shown :: "'a catalog_scheme \<Rightarrow> json list" where
  "products_shown s = (if ct_loading s then [] else ct_products s)"

datatype products_event =
    PtLoad
  | PtOpen bool
  | PtField product_field
  | PtCreate
  | PeOpen nat
  | PeClose
  | PeName string
  | PeDescription string
  | PeAmount string
  | PeSort string
  | PeEnabled bool
  | PeSave

definition when_editing :: "(products_tab \<Rightarrow> products_tab) \<Rightarrow> products_tab \<Rightarrow> products_tab api_script" where
  "when_editing f s = (if pt_editTarget s = None then Done else Set f Done)"

fun products_handler :: "products_event \<Rightarrow> products_tab \<Rightarrow> products_tab api_script" where
  "products_handler PtLoad s = loadCatalog"
| "products_handler (PtOpen v) s = Set (pt_createOpen_update (\<lambda>_. v)) Done"
| "products_handler (PtField f) s = (if pt_createOpen s then Set (pt_form_update (ProductFormFields f)) Done else Done)"
| "products_handler PtCreate s = (if pt_createOpen s \<and> \<not> pt_saving s then create_product s else Done)"
| "products_handler (PeOpen i) s =
     (if i < length (products_shown s) then Set (\<lambda>x. sync_edit (x\<lparr>pt_editTarget := Some (products_shown s ! i)\<rparr>)) Done else Done)"
| "products_handler PeClose s = Set close_edit Done"
| "products_handler (PeName t) s = when_editing (pe_name_update (\<lambda>_. t)) s"
| "products_handler (PeDescription t) s = when_editing (pe_description_update (\<lambda>_. t)) s"
| "products_handler (PeAmount t) s = when_editing (pe_defaultAmount_update (\<lambda>_. t)) s"
| "products_handler (PeSort t) s = when_editing (pe_sortOrder_update (\<lambda>_. t)) s"
| "products_handler (PeEnabled v) s = when_editing (pe_enabled_update (\<lambda>_. v)) s"
| "products_handler PeSave s = (if pe_saving s then Done else save_product s)"

text \<open>The table.\<close>

definition positive_money :: "(amount option \<Rightarrow> string option \<Rightarrow> string) \<Rightarrow> string \<Rightarrow> json \<Rightarrow> string" where
  "positive_money money k row = (if num_prop k row > 0 then money (Some (Number (num_prop k row))) None else em_dash)"

definition product_columns :: "(amount option \<Rightarrow> string option \<Rightarrow> string) \<Rightarrow> simple_column list" where
  "product_columns money =
     [\<lparr>cl_key = ''code'', cl_render = Some (str_prop ''code'')\<rparr>, \<lparr>cl_key = ''name'', cl_render = None\<rparr>,
      \<lparr>cl_key = ''service_kind'', cl_render = None\<rparr>,
      \<lparr>cl_key = ''default_monthly_amount'', cl_render = Some (positive_money money ''default_monthly_amount'')\<rparr>,
      \<lparr>cl_key = ''sort_order'', cl_render = None\<rparr>,
      \<lparr>cl_key = ''enabled'', cl_render = Some (\<lambda>row. if flag_prop ''enabled'' row then ''yes'' else ''no'')\<rparr>]"

subsection \<open>Plans\<close>

record plans_tab = catalog +
  pn_productFilter :: string
  pn_createOpen :: bool
  pn_productId :: string
  pn_code :: string
  pn_name :: string
  pn_priceMode :: string
  pn_providerId :: string
  pn_providers :: "json list"
  pn_vcpu :: string
  pn_ramGb :: string
  pn_diskGb :: string
  pn_bandwidthGb :: string
  pn_ipv4Count :: string
  pn_setupFee :: string
  pn_enabled :: bool
  pn_featured :: bool
  pn_error :: "string option"
  pn_saving :: bool

definition plans_filtered :: "plans_tab \<Rightarrow> json list" where
  "plans_filtered s =
     by_sort_order (if pn_productFilter s = ''all'' then ct_plans s
       else filter (\<lambda>plan. prop_of plan ''product_id'' = Some (JStr (pn_productFilter s))) (ct_plans s))"

definition plan_providers :: "plans_tab api_script" where
  "plan_providers =
     try_catch
       (await (api_get ''/admin/providers'' no_options)
         (\<lambda>e. Set (pn_providers_update (\<lambda>_. array_or_empty (Some (env_data e)))) Done))
       (\<lambda>_. Done)"

text \<open>\<open>Math.round((Number(ramGb) || 0) * 1024)\<close>.\<close>

definition ram_megabytes :: "string \<Rightarrow> js_num" where
  "ram_megabytes v =
     (case nonzero_or 0 v of
        Fin q \<Rightarrow> (case to_double (q * 1024) of Fin r \<Rightarrow> Fin (of_int (js_round r)) | n \<Rightarrow> n)
      | n \<Rightarrow> n)"

definition plan_body :: "plans_tab \<Rightarrow> json" where
  "plan_body s = JObj
     ([(''product_id'', JStr (pn_productId s)), (''code'', JStr (trim (pn_code s))), (''name'', JStr (trim (pn_name s))),
       (''price_mode'', JStr (pn_priceMode s))]
      @ (if pn_providerId s = ''__any__'' then [] else [(''provider_id'', JStr (pn_providerId s))])
      @ [(''vcpu'', js_num_json (nonzero_or 0 (pn_vcpu s))), (''ram_mb'', js_num_json (ram_megabytes (pn_ramGb s))),
         (''disk_gb'', js_num_json (nonzero_or 0 (pn_diskGb s))), (''bandwidth_gb'', js_num_json (nonzero_or 0 (pn_bandwidthGb s))),
         (''ipv4_count'', js_num_json (nonzero_or 0 (pn_ipv4Count s))), (''setup_fee'', js_num_json (nonzero_or 0 (pn_setupFee s))),
         (''enabled'', JBool (pn_enabled s)), (''featured'', JBool (pn_featured s))])"

definition create_plan :: "plans_tab \<Rightarrow> plans_tab api_script" where
  "create_plan s =
     (if pn_productId s = [] then Set (pn_error_update (\<lambda>_. Some ''Choose the parent product'')) Done
      else if trim (pn_code s) = [] \<or> trim (pn_name s) = []
      then Set (pn_error_update (\<lambda>_. Some ''Code and name are required'')) Done
      else with_flag pn_saving_update (Set (pn_error_update (\<lambda>_. None))
          (try_catch
            (await (api_post ''/admin/plans'' (Some (plan_body s)) no_options)
              (\<lambda>_. Set (toast_success (''Plan '' @ trim (pn_code s) @ '' created''))
                  (Set (pn_createOpen_update (\<lambda>_. False))
                    (Set (pn_code_update (\<lambda>_. [])) (Set (pn_name_update (\<lambda>_. [])) loadCatalog)))))
            (\<lambda>cause. Set (pn_error_update (\<lambda>_. Some (coded_message ''Failed to create plan'' cause))) Done))))"

datatype plan_field =
    PnProduct nat
  | PnCode string
  | PnName string
  | PnMode nat
  | PnProvider nat
  | PnVcpu string
  | PnRam string
  | PnDisk string
  | PnBandwidth string
  | PnIpv4 string
  | PnSetup string
  | PnEnabled bool
  | PnFeatured bool

fun plan_dialog :: "plan_field \<Rightarrow> plans_tab \<Rightarrow> plans_tab" where
  "plan_dialog (PnProduct i) s = s\<lparr>pn_productId := pick_row (ct_products s) i (pn_productId s)\<rparr>"
| "plan_dialog (PnCode t) s = s\<lparr>pn_code := t\<rparr>"
| "plan_dialog (PnName t) s = s\<lparr>pn_name := t\<rparr>"
| "plan_dialog (PnMode i) s = s\<lparr>pn_priceMode := pick PRICE_MODES i (pn_priceMode s)\<rparr>"
| "plan_dialog (PnProvider i) s = s\<lparr>pn_providerId := pick_row_or ''__any__'' (pn_providers s) i (pn_providerId s)\<rparr>"
| "plan_dialog (PnVcpu t) s = s\<lparr>pn_vcpu := t\<rparr>"
| "plan_dialog (PnRam t) s = s\<lparr>pn_ramGb := t\<rparr>"
| "plan_dialog (PnDisk t) s = s\<lparr>pn_diskGb := t\<rparr>"
| "plan_dialog (PnBandwidth t) s = s\<lparr>pn_bandwidthGb := t\<rparr>"
| "plan_dialog (PnIpv4 t) s = s\<lparr>pn_ipv4Count := t\<rparr>"
| "plan_dialog (PnSetup t) s = s\<lparr>pn_setupFee := t\<rparr>"
| "plan_dialog (PnEnabled v) s = s\<lparr>pn_enabled := v\<rparr>"
| "plan_dialog (PnFeatured v) s = s\<lparr>pn_featured := v\<rparr>"

datatype plans_event =
    PnLoad
  | PnFilter nat
  | PnOpen
  | PnClose
  | PnField plan_field
  | PnCreate

text \<open>Opening the dialog runs its effect, which asks for the providers.\<close>

fun plans_handler :: "plans_event \<Rightarrow> plans_tab \<Rightarrow> plans_tab api_script" where
  "plans_handler PnLoad s = loadCatalog"
| "plans_handler (PnFilter i) s =
     Set (pn_productFilter_update (\<lambda>_. pick_row_or ''all'' (ct_products s) i (pn_productFilter s))) Done"
| "plans_handler PnOpen s = (if pn_createOpen s then Done else Set (pn_createOpen_update (\<lambda>_. True)) plan_providers)"
| "plans_handler PnClose s = Set (pn_createOpen_update (\<lambda>_. False)) Done"
| "plans_handler (PnField f) s = (if pn_createOpen s then Set (plan_dialog f) Done else Done)"
| "plans_handler PnCreate s = (if pn_createOpen s \<and> \<not> pn_saving s then create_plan s else Done)"

definition plan_specs :: "json \<Rightarrow> string" where
  "plan_specs row =
     (let ram = num_prop ''ram_mb'' row in
      undefined_String (prop_of row ''vcpu'') @ '' vCPU '' @ middle_dot @ '' ''
      @ toFixed (if ram / 1024 = of_int \<lfloor>ram / 1024\<rfloor> then 0 else 1) (ram / 1024) @ '' GB RAM '' @ middle_dot @ '' ''
      @ undefined_String (prop_of row ''disk_gb'') @ '' GB disk'')"

definition plan_flags :: "json \<Rightarrow> string" where
  "plan_flags row = (if flag_prop ''enabled'' row then ''enabled'' else ''disabled'')
     @ (if flag_prop ''featured'' row then '' '' @ middle_dot @ '' featured'' else [])"

definition plan_columns :: "(amount option \<Rightarrow> string option \<Rightarrow> string) \<Rightarrow> simple_column list" where
  "plan_columns money =
     [\<lparr>cl_key = ''code'', cl_render = Some (str_prop ''code'')\<rparr>, \<lparr>cl_key = ''name'', cl_render = None\<rparr>,
      \<lparr>cl_key = ''product_code'', cl_render = None\<rparr>, \<lparr>cl_key = ''price_mode'', cl_render = None\<rparr>,
      \<lparr>cl_key = ''specs'', cl_render = Some plan_specs\<rparr>,
      \<lparr>cl_key = ''setup_fee'', cl_render = Some (positive_money money ''setup_fee'')\<rparr>,
      \<lparr>cl_key = ''flags'', cl_render = Some plan_flags\<rparr>]"

subsection \<open>Plan prices\<close>

record prices_tab = catalog +
  pp_planId :: string
  pp_amount :: string
  pp_currency :: string
  pp_period :: string
  pp_minimumCharge :: string
  pp_regionId :: string
  pp_error :: "string option"
  pp_saving :: bool
  pp_added :: "json list"

definition selectedPlan :: "prices_tab \<Rightarrow> json option" where
  "selectedPlan s = find (\<lambda>plan. prop_of plan ''id'' = Some (JStr (pp_planId s))) (ct_plans s)"

definition is_latin :: "char \<Rightarrow> bool" where
  "is_latin c \<longleftrightarrow> (let n = of_char c :: nat in 65 \<le> n \<and> n \<le> 90 \<or> 97 \<le> n \<and> n \<le> 122)"

definition iso_currency :: "string \<Rightarrow> bool" where
  "iso_currency t \<longleftrightarrow> length t = 3 \<and> list_all is_latin t"

text \<open>The checks after the plan, in order.\<close>

definition price_problem :: "prices_tab \<Rightarrow> string option" where
  "price_problem s =
     (if pp_amount s = [] \<or> \<not> isFinite (js_Number (pp_amount s)) \<or> num_negative (js_Number (pp_amount s))
      then Some ''Amount must be zero or greater''
      else if \<not> iso_currency (trim (pp_currency s)) then Some ''Currency must be a 3-letter ISO code''
      else None)"

definition region_field :: "string \<Rightarrow> json js_record" where
  "region_field regionId = (if regionId = ''none'' then [] else [(''region_id'', JStr regionId)])"

definition price_body :: "prices_tab \<Rightarrow> json" where
  "price_body s = JObj
     ([(''amount'', js_num_json (js_Number (pp_amount s))), (''currency'', JStr (toUpperCase (trim (pp_currency s)))),
       (''billing_period'', JStr (pp_period s)), (''minimum_charge'', js_num_json (nonzero_or 0 (pp_minimumCharge s)))]
      @ region_field (pp_regionId s))"

definition add_price :: "prices_tab \<Rightarrow> prices_tab api_script" where
  "add_price s =
     (case selectedPlan s of
        None \<Rightarrow> Set (pp_error_update (\<lambda>_. Some ''Choose a plan first'')) Done
      | Some plan \<Rightarrow>
          case price_problem s of
            Some message \<Rightarrow> Set (pp_error_update (\<lambda>_. Some message)) Done
          | None \<Rightarrow>
              with_flag pp_saving_update (Set (pp_error_update (\<lambda>_. None))
                  (try_catch
                    (await (api_post (''/admin/plans/'' @ row_id plan @ ''/prices'') (Some (price_body s)) no_options)
                      (\<lambda>e. Set (toast_success (pp_period s @ '' price added to '' @ str_prop ''code'' plan))
                          (Set (pp_added_update (\<lambda>previous. previous @ [env_data e])) (Set (pp_amount_update (\<lambda>_. [])) Done))))
                    (\<lambda>cause. Set (pp_error_update (\<lambda>_. Some (coded_message ''Failed to add price'' cause))) Done))))"

datatype prices_event =
    PpLoad
  | PpPlan nat
  | PpAmount string
  | PpCurrency string
  | PpPeriod nat
  | PpMinimum string
  | PpRegion nat
  | PpAdd

fun prices_handler :: "prices_event \<Rightarrow> prices_tab \<Rightarrow> prices_tab api_script" where
  "prices_handler PpLoad s = loadCatalog"
| "prices_handler (PpPlan i) s = Set (pp_planId_update (pick_row (ct_plans s) i)) Done"
| "prices_handler (PpAmount t) s = Set (pp_amount_update (\<lambda>_. t)) Done"
| "prices_handler (PpCurrency t) s = Set (pp_currency_update (\<lambda>_. toUpperCase (js_take 3 t))) Done"
| "prices_handler (PpPeriod i) s = Set (pp_period_update (pick catalog_BILLING_PERIODS i)) Done"
| "prices_handler (PpMinimum t) s = Set (pp_minimumCharge_update (\<lambda>_. t)) Done"
| "prices_handler (PpRegion i) s = Set (pp_regionId_update (pick_row_or ''none'' (enabled_regions s) i)) Done"
| "prices_handler PpAdd s = (if pp_saving s \<or> selectedPlan s = None then Done else add_price s)"

text \<open>The newest price first; without one there is no table.\<close>

definition prices_shown :: "prices_tab \<Rightarrow> json list option" where
  "prices_shown s = (if pp_added s = [] then None else Some (rev (pp_added s)))"

definition row_money :: "(amount option \<Rightarrow> string option \<Rightarrow> string) \<Rightarrow> string \<Rightarrow> json \<Rightarrow> string" where
  "row_money money k row = money (Some (Number (num_prop k row))) (Some (str_prop ''currency'' row))"

definition price_columns ::
  "(amount option \<Rightarrow> string option \<Rightarrow> string) \<Rightarrow> (string option \<Rightarrow> string) \<Rightarrow> simple_column list" where
  "price_columns money dateTime =
     [\<lparr>cl_key = ''billing_period'', cl_render = None\<rparr>, \<lparr>cl_key = ''amount'', cl_render = Some (row_money money ''amount'')\<rparr>,
      \<lparr>cl_key = ''minimum_charge'', cl_render = Some (row_money money ''minimum_charge'')\<rparr>,
      \<lparr>cl_key = ''active_from'', cl_render = Some (\<lambda>row. dateTime (Some (str_prop ''active_from'' row)))\<rparr>]"

subsection \<open>Custom rates\<close>

record rates_tab = catalog +
  cr_createOpen :: bool
  cr_productId :: string
  cr_dimensionCode :: string
  cr_currency :: string
  cr_period :: string
  cr_unitPrice :: string
  cr_includedQuantity :: string
  cr_minQuantity :: string
  cr_maxQuantity :: string
  cr_stepQuantity :: string
  cr_providerId :: string
  cr_regionId :: string
  cr_error :: "string option"
  cr_saving :: bool

definition rate_problem :: "rates_tab \<Rightarrow> string option" where
  "rate_problem s =
     (if cr_productId s = [] then Some ''Choose the product this rate applies to''
      else if trim (cr_dimensionCode s) = [] then Some ''Dimension code is required''
      else if cr_unitPrice s = [] \<or> \<not> isFinite (js_Number (cr_unitPrice s)) \<or> \<not> num_greater (js_Number (cr_unitPrice s)) 0
      then Some ''Unit price must be greater than zero''
      else None)"

definition rate_number :: "string \<Rightarrow> string \<Rightarrow> json js_record" where
  "rate_number k v = (case toNumberOrUndefined v of Some q \<Rightarrow> [(k, JNum q)] | None \<Rightarrow> [])"

definition rate_body :: "rates_tab \<Rightarrow> json" where
  "rate_body s = JObj
     ([(''product_id'', JStr (cr_productId s)), (''dimension_code'', JStr (trim (cr_dimensionCode s))),
       (''currency'', JStr (toUpperCase (trim (cr_currency s)))), (''billing_period'', JStr (cr_period s)),
       (''unit_price'', js_num_json (js_Number (cr_unitPrice s))),
       (''included_quantity'', js_num_json (nonzero_or 0 (cr_includedQuantity s)))]
      @ rate_number ''min_quantity'' (cr_minQuantity s) @ rate_number ''max_quantity'' (cr_maxQuantity s)
      @ [(''step_quantity'', js_num_json (nonzero_or 1 (cr_stepQuantity s)))]
      @ (if trim (cr_providerId s) = [] then [] else [(''provider_id'', JStr (trim (cr_providerId s)))])
      @ region_field (cr_regionId s))"

definition create_rate :: "rates_tab \<Rightarrow> rates_tab api_script" where
  "create_rate s =
     (case rate_problem s of
        Some message \<Rightarrow> Set (cr_error_update (\<lambda>_. Some message)) Done
      | None \<Rightarrow>
          with_flag cr_saving_update (Set (cr_error_update (\<lambda>_. None))
              (try_catch
                (await (api_post ''/admin/custom-rates'' (Some (rate_body s)) no_options)
                  (\<lambda>_. Set (toast_success (''Rate for '' @ trim (cr_dimensionCode s) @ '' created''))
                      (Set (cr_createOpen_update (\<lambda>_. False))
                        (Set (cr_dimensionCode_update (\<lambda>_. [])) (Set (cr_unitPrice_update (\<lambda>_. [])) loadCatalog)))))
                (\<lambda>cause. Set (cr_error_update (\<lambda>_. Some (coded_message ''Failed to create rate'' cause))) Done))))"

datatype rate_field =
    CrProduct nat
  | CrDimension string
  | CrPrice string
  | CrCurrency string
  | CrPeriod nat
  | CrIncluded string
  | CrMin string
  | CrMax string
  | CrStep string
  | CrProvider string
  | CrRegion nat

fun rate_dialog :: "rate_field \<Rightarrow> rates_tab \<Rightarrow> rates_tab" where
  "rate_dialog (CrProduct i) s = s\<lparr>cr_productId := pick_row (ct_products s) i (cr_productId s)\<rparr>"
| "rate_dialog (CrDimension t) s = s\<lparr>cr_dimensionCode := t\<rparr>"
| "rate_dialog (CrPrice t) s = s\<lparr>cr_unitPrice := t\<rparr>"
| "rate_dialog (CrCurrency t) s = s\<lparr>cr_currency := toUpperCase (js_take 3 t)\<rparr>"
| "rate_dialog (CrPeriod i) s = s\<lparr>cr_period := pick catalog_BILLING_PERIODS i (cr_period s)\<rparr>"
| "rate_dialog (CrIncluded t) s = s\<lparr>cr_includedQuantity := t\<rparr>"
| "rate_dialog (CrMin t) s = s\<lparr>cr_minQuantity := t\<rparr>"
| "rate_dialog (CrMax t) s = s\<lparr>cr_maxQuantity := t\<rparr>"
| "rate_dialog (CrStep t) s = s\<lparr>cr_stepQuantity := t\<rparr>"
| "rate_dialog (CrProvider t) s = s\<lparr>cr_providerId := t\<rparr>"
| "rate_dialog (CrRegion i) s = s\<lparr>cr_regionId := pick_row_or ''none'' (enabled_regions s) i (cr_regionId s)\<rparr>"

datatype rates_event =
    CrLoad
  | CrOpen bool
  | CrField rate_field
  | CrCreate

fun rates_handler :: "rates_event \<Rightarrow> rates_tab \<Rightarrow> rates_tab api_script" where
  "rates_handler CrLoad s = loadCatalog"
| "rates_handler (CrOpen v) s = Set (cr_createOpen_update (\<lambda>_. v)) Done"
| "rates_handler (CrField f) s = (if cr_createOpen s then Set (rate_dialog f) Done else Done)"
| "rates_handler CrCreate s = (if cr_createOpen s \<and> \<not> cr_saving s then create_rate s else Done)"

definition rate_bounds :: "json \<Rightarrow> string" where
  "rate_bounds row =
     (let part = (\<lambda>label k. if flag_prop k row then [label @ undefined_String (prop_of row k)] else []);
          parts = part ''incl '' ''included_quantity'' @ part ''min '' ''min_quantity'' @ part ''max '' ''max_quantity''
            @ (if num_prop ''step_quantity'' row > 1 then [''step '' @ undefined_String (prop_of row ''step_quantity'')] else [])
      in if parts = [] then em_dash else join ('' '' @ middle_dot @ '' '') parts)"

text \<open>\<open>Number(row.unit_price)\<close> of a number or a text.\<close>

definition unit_price_cell :: "(amount option \<Rightarrow> string option \<Rightarrow> string) \<Rightarrow> json \<Rightarrow> string" where
  "unit_price_cell money row =
     money (case prop_of row ''unit_price'' of Some (JNum q) \<Rightarrow> Some (Number q) | Some (JStr t) \<Rightarrow> Some (Text t) | _ \<Rightarrow> None)
       (Some (str_prop ''currency'' row))"

definition rate_columns ::
  "(amount option \<Rightarrow> string option \<Rightarrow> string) \<Rightarrow> (string option \<Rightarrow> string) \<Rightarrow> simple_column list" where
  "rate_columns money dateTime =
     [\<lparr>cl_key = ''product_code'', cl_render = None\<rparr>, \<lparr>cl_key = ''dimension_code'', cl_render = Some (str_prop ''dimension_code'')\<rparr>,
      \<lparr>cl_key = ''unit_price'', cl_render = Some (unit_price_cell money)\<rparr>, \<lparr>cl_key = ''billing_period'', cl_render = None\<rparr>,
      \<lparr>cl_key = ''bounds'', cl_render = Some rate_bounds\<rparr>,
      \<lparr>cl_key = ''active_until'', cl_render = Some (\<lambda>row. if str_prop ''active_until'' row = [] then ''Indefinite''
         else dateTime (Some (str_prop ''active_until'' row)))\<rparr>]"

end
