(* ===== verification/Catalog_Admin.thy ===== *)
theory Catalog_Admin
  imports Catalog_Finance
begin

text \<open>
  The products and plans of the admin console (\<open>admin/billing/pages/ProductsPlans.tsx\<close>): two paginated
  lists and three dialogs. Products are created and changed by one \<open>POST\<close>, which the server takes as an
  update when the code exists; the default monthly amount follows in a \<open>PATCH\<close>. The lists, the
  optional numbers and the fixed lists of options are the ones of \<open>Data_Table\<close>, \<open>Billing_Coupons\<close> and
  \<open>Catalog_Finance\<close>, which the source repeats.
\<close>

subsection \<open>Forms\<close>

record admin_product =
  ap_code :: string
  ap_name :: string
  ap_service_kind :: string
  ap_description :: string
  ap_sort_order :: string
  ap_monthly :: string
  ap_enabled :: bool

definition EMPTY_PRODUCT :: admin_product where
  "EMPTY_PRODUCT = \<lparr>ap_code = [], ap_name = [], ap_service_kind = ''vm'', ap_description = [], ap_sort_order = ''10'',
     ap_monthly = ''0'', ap_enabled = True\<rparr>"

text \<open>\<open>String(v ?? 0)\<close>.\<close>

definition String_or_zero :: "string \<Rightarrow> json \<Rightarrow> string" where
  "String_or_zero k row = js_String (coalesce (prop_of row k) (JNum 0))"

definition productFormFrom :: "json \<Rightarrow> admin_product" where
  "productFormFrom row = \<lparr>ap_code = str_prop ''code'' row, ap_name = str_prop ''name'' row,
     ap_service_kind = (if str_prop ''service_kind'' row \<in> set SERVICE_KINDS then str_prop ''service_kind'' row else ''other''),
     ap_description = str_prop ''description'' row, ap_sort_order = String_or_zero ''sort_order'' row,
     ap_monthly = String_or_zero ''default_monthly_amount'' row, ap_enabled = flag_prop ''enabled'' row\<rparr>"

datatype admin_product_field =
    ApCode string
  | ApName string
  | ApKind nat
  | ApSort string
  | ApMonthly string
  | ApEnabled bool
  | ApDescription string

text \<open>The code of an existing product is disabled.\<close>

fun set_admin_product :: "bool \<Rightarrow> admin_product_field \<Rightarrow> admin_product \<Rightarrow> admin_product" where
  "set_admin_product locked (ApCode t) f = (if locked then f else f\<lparr>ap_code := t\<rparr>)"
| "set_admin_product locked (ApName t) f = f\<lparr>ap_name := t\<rparr>"
| "set_admin_product locked (ApKind i) f = f\<lparr>ap_service_kind := pick SERVICE_KINDS i (ap_service_kind f)\<rparr>"
| "set_admin_product locked (ApSort t) f = f\<lparr>ap_sort_order := t\<rparr>"
| "set_admin_product locked (ApMonthly t) f = f\<lparr>ap_monthly := t\<rparr>"
| "set_admin_product locked (ApEnabled v) f = f\<lparr>ap_enabled := v\<rparr>"
| "set_admin_product locked (ApDescription t) f = f\<lparr>ap_description := t\<rparr>"

record admin_plan =
  an_product_id :: string
  an_code :: string
  an_name :: string
  an_price_mode :: string
  an_description :: string
  an_vcpu :: string
  an_ram_mb :: string
  an_disk_gb :: string
  an_bandwidth_gb :: string
  an_ipv4_count :: string
  an_backup_slots :: string
  an_snapshot_slots :: string
  an_network_rate_mbps :: string
  an_setup_fee :: string
  an_sort_order :: string
  an_featured :: bool
  an_enabled :: bool

definition EMPTY_PLAN :: admin_plan where
  "EMPTY_PLAN = \<lparr>an_product_id = [], an_code = [], an_name = [], an_price_mode = ''fixed_plan'', an_description = [], an_vcpu = [],
     an_ram_mb = [], an_disk_gb = [], an_bandwidth_gb = [], an_ipv4_count = [], an_backup_slots = [], an_snapshot_slots = [],
     an_network_rate_mbps = [], an_setup_fee = ''0'', an_sort_order = ''10'', an_featured = False, an_enabled = True\<rparr>"

datatype admin_plan_field =
    AnProduct nat
  | AnMode nat
  | AnCode string
  | AnName string
  | AnDescription string
  | AnVcpu string
  | AnRam string
  | AnDisk string
  | AnBandwidth string
  | AnIpv4 string
  | AnBackups string
  | AnSnapshots string
  | AnRate string
  | AnSetup string
  | AnSort string
  | AnEnabled bool
  | AnFeatured bool

fun set_admin_plan :: "json list \<Rightarrow> admin_plan_field \<Rightarrow> admin_plan \<Rightarrow> admin_plan" where
  "set_admin_plan products (AnProduct i) f = f\<lparr>an_product_id := pick_row products i (an_product_id f)\<rparr>"
| "set_admin_plan products (AnMode i) f = f\<lparr>an_price_mode := pick PRICE_MODES i (an_price_mode f)\<rparr>"
| "set_admin_plan products (AnCode t) f = f\<lparr>an_code := t\<rparr>"
| "set_admin_plan products (AnName t) f = f\<lparr>an_name := t\<rparr>"
| "set_admin_plan products (AnDescription t) f = f\<lparr>an_description := t\<rparr>"
| "set_admin_plan products (AnVcpu t) f = f\<lparr>an_vcpu := t\<rparr>"
| "set_admin_plan products (AnRam t) f = f\<lparr>an_ram_mb := t\<rparr>"
| "set_admin_plan products (AnDisk t) f = f\<lparr>an_disk_gb := t\<rparr>"
| "set_admin_plan products (AnBandwidth t) f = f\<lparr>an_bandwidth_gb := t\<rparr>"
| "set_admin_plan products (AnIpv4 t) f = f\<lparr>an_ipv4_count := t\<rparr>"
| "set_admin_plan products (AnBackups t) f = f\<lparr>an_backup_slots := t\<rparr>"
| "set_admin_plan products (AnSnapshots t) f = f\<lparr>an_snapshot_slots := t\<rparr>"
| "set_admin_plan products (AnRate t) f = f\<lparr>an_network_rate_mbps := t\<rparr>"
| "set_admin_plan products (AnSetup t) f = f\<lparr>an_setup_fee := t\<rparr>"
| "set_admin_plan products (AnSort t) f = f\<lparr>an_sort_order := t\<rparr>"
| "set_admin_plan products (AnEnabled v) f = f\<lparr>an_enabled := v\<rparr>"
| "set_admin_plan products (AnFeatured v) f = f\<lparr>an_featured := v\<rparr>"

record admin_price =
  ar_currency :: string
  ar_billing_period :: string
  ar_amount :: string
  ar_provider_cost :: string
  ar_minimum_charge :: string
  ar_region_id :: string

definition EMPTY_PRICE :: admin_price where
  "EMPTY_PRICE = \<lparr>ar_currency = ''IDR'', ar_billing_period = ''monthly'', ar_amount = [], ar_provider_cost = [],
     ar_minimum_charge = [], ar_region_id = []\<rparr>"

datatype admin_price_field =
    ArCurrency string
  | ArPeriod nat
  | ArAmount string
  | ArMinimum string
  | ArCost string
  | ArRegion string

fun set_admin_price :: "admin_price_field \<Rightarrow> admin_price \<Rightarrow> admin_price" where
  "set_admin_price (ArCurrency t) f = f\<lparr>ar_currency := js_take 3 t\<rparr>"
| "set_admin_price (ArPeriod i) f = f\<lparr>ar_billing_period := pick catalog_BILLING_PERIODS i (ar_billing_period f)\<rparr>"
| "set_admin_price (ArAmount t) f = f\<lparr>ar_amount := t\<rparr>"
| "set_admin_price (ArMinimum t) f = f\<lparr>ar_minimum_charge := t\<rparr>"
| "set_admin_price (ArCost t) f = f\<lparr>ar_provider_cost := t\<rparr>"
| "set_admin_price (ArRegion t) f = f\<lparr>ar_region_id := t\<rparr>"

subsection \<open>The page\<close>

record billing_catalog = ui +
  bc_products :: paged_list
  bc_plans :: paged_list
  bc_productOpen :: bool
  bc_editingProduct :: "json option"
  bc_productForm :: admin_product
  bc_productError :: "string option"
  bc_savingProduct :: bool
  bc_planOpen :: bool
  bc_planForm :: admin_plan
  bc_planError :: "string option"
  bc_savingPlan :: bool
  bc_priceTarget :: "json option"
  bc_priceForm :: admin_price
  bc_priceError :: "string option"
  bc_savingPrice :: bool

definition openProductCreate :: "billing_catalog \<Rightarrow> billing_catalog" where
  "openProductCreate s = s\<lparr>bc_editingProduct := None, bc_productForm := EMPTY_PRODUCT, bc_productError := None,
     bc_productOpen := True\<rparr>"

definition openProductEdit :: "json \<Rightarrow> billing_catalog \<Rightarrow> billing_catalog" where
  "openProductEdit product s = s\<lparr>bc_editingProduct := Some product, bc_productForm := productFormFrom product,
     bc_productError := None, bc_productOpen := True\<rparr>"

definition number_or_zero :: "string \<Rightarrow> js_num" where
  "number_or_zero v = (case optionalNumber v of Some n \<Rightarrow> n | None \<Rightarrow> Fin 0)"

definition negative_field :: "string \<Rightarrow> bool" where
  "negative_field v \<longleftrightarrow> (case optionalNumber v of Some n \<Rightarrow> num_negative n | None \<Rightarrow> False)"

definition admin_product_problem :: "admin_product \<Rightarrow> string option" where
  "admin_product_problem f =
     (if trim (ap_code f) = [] \<or> trim (ap_name f) = [] then Some ''Code and name are required.''
      else if js_Number (ap_sort_order f) = NaN then Some ''Sort order must be a number.''
      else if num_negative (number_or_zero (ap_monthly f)) then Some ''Default monthly amount must be >= 0.''
      else None)"

definition admin_product_body :: "admin_product \<Rightarrow> json" where
  "admin_product_body f = JObj [(''code'', JStr (trim (ap_code f))), (''name'', JStr (trim (ap_name f))),
     (''service_kind'', JStr (ap_service_kind f)), (''description'', JStr (trim (ap_description f))),
     (''sort_order'', js_num_json (js_Number (ap_sort_order f))), (''enabled'', JBool (ap_enabled f))]"

definition monthly_patch :: "json \<Rightarrow> js_num \<Rightarrow> api_call" where
  "monthly_patch id' monthly =
     api_patch (''/admin/products/'' @ js_String id') (Some (JObj [(''default_monthly_amount'', js_num_json monthly)])) no_options"

definition needsMonthlyPatch :: "json option \<Rightarrow> js_num \<Rightarrow> bool" where
  "needsMonthlyPatch editing monthly =
     (case editing of
        Some row \<Rightarrow> (case monthly of Fin q \<Rightarrow> prop_of row ''default_monthly_amount'' \<noteq> Some (JNum q) | _ \<Rightarrow> True)
      | None \<Rightarrow> monthly \<noteq> Fin 0)"

definition product_saved :: "billing_catalog \<Rightarrow> billing_catalog api_script" where
  "product_saved s =
     Set (toast_success (''Product '' @ trim (ap_code (bc_productForm s))
           @ (if bc_editingProduct s \<noteq> None then '' updated'' else '' created'')))
       (Set (bc_productOpen_update (\<lambda>_. False)) (Set (bc_products_update rerun) (Set (bc_plans_update rerun) Done)))"

definition submitProduct :: "billing_catalog \<Rightarrow> billing_catalog api_script" where
  "submitProduct s =
     (let f = bc_productForm s; monthly = number_or_zero (ap_monthly f) in
      case admin_product_problem f of
        Some message \<Rightarrow> Set (bc_productError_update (\<lambda>_. Some message)) Done
      | None \<Rightarrow>
          with_flag bc_savingProduct_update
            (try_catch
              (await (api_post ''/admin/products'' (Some (admin_product_body f)) no_options)
                (\<lambda>saved.
                  case prop_of (env_data saved) ''id'' of
                    Some id' \<Rightarrow>
                      if needsMonthlyPatch (bc_editingProduct s) monthly \<and> truthy id'
                      then await (monthly_patch id' monthly) (\<lambda>_. product_saved s)
                      else product_saved s
                  | None \<Rightarrow> product_saved s))
              (\<lambda>cause. Set (bc_productError_update (\<lambda>_. Some (api_message ''Failed to save product.'' cause))) Done)))"

definition admin_plan_problem :: "admin_plan \<Rightarrow> string option" where
  "admin_plan_problem f =
     (if an_product_id f = [] then Some ''Choose a product for this plan.''
      else if trim (an_code f) = [] \<or> trim (an_name f) = [] then Some ''Code and name are required.''
      else if num_negative (number_or_zero (an_setup_fee f)) then Some ''Setup fee must be >= 0.''
      else None)"

definition admin_plan_body :: "admin_plan \<Rightarrow> json" where
  "admin_plan_body f = JObj
     ([(''product_id'', JStr (an_product_id f)), (''code'', JStr (trim (an_code f))), (''name'', JStr (trim (an_name f))),
       (''description'', JStr (trim (an_description f))), (''price_mode'', JStr (an_price_mode f)), (''enabled'', JBool (an_enabled f)),
       (''featured'', JBool (an_featured f)), (''sort_order'', js_num_json (nonzero_or 0 (an_sort_order f))),
       (''setup_fee'', js_num_json (number_or_zero (an_setup_fee f)))]
      @ opt_field ''vcpu'' (optionalNumber (an_vcpu f)) @ opt_field ''ram_mb'' (optionalNumber (an_ram_mb f))
      @ opt_field ''disk_gb'' (optionalNumber (an_disk_gb f)) @ opt_field ''bandwidth_gb'' (optionalNumber (an_bandwidth_gb f))
      @ [(''ipv4_count'', js_num_json (number_or_zero (an_ipv4_count f))),
         (''backup_slots'', js_num_json (number_or_zero (an_backup_slots f))),
         (''snapshot_slots'', js_num_json (number_or_zero (an_snapshot_slots f)))]
      @ opt_field ''network_rate_mbps'' (optionalNumber (an_network_rate_mbps f)))"

definition submitPlan :: "billing_catalog \<Rightarrow> billing_catalog api_script" where
  "submitPlan s =
     (let f = bc_planForm s in
      case admin_plan_problem f of
        Some message \<Rightarrow> Set (bc_planError_update (\<lambda>_. Some message)) Done
      | None \<Rightarrow>
          with_flag bc_savingPlan_update
            (try_catch
              (await (api_post ''/admin/plans'' (Some (admin_plan_body f)) no_options)
                (\<lambda>_. Set (toast_success (''Plan '' @ trim (an_code f) @ '' saved''))
                    (Set (bc_planOpen_update (\<lambda>_. False)) (Set (bc_plans_update rerun) Done))))
              (\<lambda>cause. Set (bc_planError_update (\<lambda>_. Some (api_message ''Failed to save plan.'' cause))) Done)))"

definition admin_currency :: "admin_price \<Rightarrow> string" where
  "admin_currency f = toUpperCase (trim (ar_currency f))"

definition admin_price_problem :: "admin_price \<Rightarrow> string option" where
  "admin_price_problem f =
     (if js_length (admin_currency f) \<noteq> 3 then Some ''Currency must be a 3-letter ISO code (e.g. IDR).''
      else if optionalNumber (ar_amount f) = None \<or> negative_field (ar_amount f) then Some ''Amount is required and must be >= 0.''
      else if negative_field (ar_provider_cost f) then Some ''Provider cost must be >= 0.''
      else if negative_field (ar_minimum_charge f) then Some ''Minimum charge must be >= 0.''
      else None)"

definition admin_price_body :: "admin_price \<Rightarrow> json" where
  "admin_price_body f = JObj
     ([(''currency'', JStr (admin_currency f)), (''billing_period'', JStr (ar_billing_period f))]
      @ opt_field ''amount'' (optionalNumber (ar_amount f)) @ opt_field ''provider_cost'' (optionalNumber (ar_provider_cost f))
      @ [(''minimum_charge'', js_num_json (number_or_zero (ar_minimum_charge f)))]
      @ (if trim (ar_region_id f) = [] then [] else [(''region_id'', JStr (trim (ar_region_id f)))]))"

definition submitPrice :: "billing_catalog \<Rightarrow> billing_catalog api_script" where
  "submitPrice s =
     (let f = bc_priceForm s in
      case bc_priceTarget s of
        None \<Rightarrow> Done
      | Some plan \<Rightarrow>
          case admin_price_problem f of
            Some message \<Rightarrow> Set (bc_priceError_update (\<lambda>_. Some message)) Done
          | None \<Rightarrow>
              with_flag bc_savingPrice_update
                (try_catch
                  (await (api_post (''/admin/plans/'' @ row_id plan @ ''/prices'') (Some (admin_price_body f)) no_options)
                    (\<lambda>_. Set (toast_success (''Price added for '' @ str_prop ''code'' plan @ '' ('' @ ar_billing_period f @ '')''))
                        (Set (bc_priceTarget_update (\<lambda>_. None)) Done)))
                  (\<lambda>cause. Set (bc_priceError_update (\<lambda>_. Some (api_message ''Failed to add price.'' cause))) Done)))"

text \<open>A new plan starts with the first product of the list.\<close>

definition open_plan :: "billing_catalog \<Rightarrow> billing_catalog" where
  "open_plan s = s\<lparr>bc_planForm := EMPTY_PLAN\<lparr>an_product_id := (case pl_rows (bc_products s) of row # _ \<Rightarrow> str_prop ''id'' row | [] \<Rightarrow> [])\<rparr>,
     bc_planError := None, bc_planOpen := True\<rparr>"

definition open_price :: "json \<Rightarrow> billing_catalog \<Rightarrow> billing_catalog" where
  "open_price plan s = s\<lparr>bc_priceForm := EMPTY_PRICE, bc_priceError := None, bc_priceTarget := Some plan\<rparr>"

datatype pager_event = PagePrevious | PageNext

fun pager_step :: "pager_event \<Rightarrow> paged_list \<Rightarrow> paged_list" where
  "pager_step PagePrevious l = (if pager_previous (pl_loading l) (pl_page l) then setPage (pl_page l - 1) l else l)"
| "pager_step PageNext l = (if pager_next (pl_loading l) (pl_page l) (pl_meta l) then setPage (pl_page l + 1) l else l)"

datatype billing_event =
    BcProducts
  | BcPlans
  | BcProductPage pager_event
  | BcPlanPage pager_event
  | BcNewProduct
  | BcEditProduct nat
  | BcCloseProduct
  | BcProductField admin_product_field
  | BcSaveProduct
  | BcNewPlan
  | BcClosePlan
  | BcPlanField admin_plan_field
  | BcSavePlan
  | BcPrice nat
  | BcClosePrice
  | BcPriceField admin_price_field
  | BcSavePrice

fun billing_handler :: "billing_event \<Rightarrow> billing_catalog \<Rightarrow> billing_catalog api_script" where
  "billing_handler BcProducts s = lift_script bc_products_update (paged_effect ''/admin/products'' [] 20 (bc_products s))"
| "billing_handler BcPlans s = lift_script bc_plans_update (paged_effect ''/admin/plans'' [] 20 (bc_plans s))"
| "billing_handler (BcProductPage e) s = Set (bc_products_update (pager_step e)) Done"
| "billing_handler (BcPlanPage e) s = Set (bc_plans_update (pager_step e)) Done"
| "billing_handler BcNewProduct s = Set openProductCreate Done"
| "billing_handler (BcEditProduct i) s =
     (case row_at i (bc_products s) of Some product \<Rightarrow> Set (openProductEdit product) Done | None \<Rightarrow> Done)"
| "billing_handler BcCloseProduct s = (if bc_savingProduct s then Done else Set (bc_productOpen_update (\<lambda>_. False)) Done)"
| "billing_handler (BcProductField f) s =
     (if bc_productOpen s then Set (bc_productForm_update (set_admin_product (bc_editingProduct s \<noteq> None) f)) Done else Done)"
| "billing_handler BcSaveProduct s = (if bc_productOpen s \<and> \<not> bc_savingProduct s then submitProduct s else Done)"
| "billing_handler BcNewPlan s = Set open_plan Done"
| "billing_handler BcClosePlan s = (if bc_savingPlan s then Done else Set (bc_planOpen_update (\<lambda>_. False)) Done)"
| "billing_handler (BcPlanField f) s =
     (if bc_planOpen s then Set (bc_planForm_update (set_admin_plan (pl_rows (bc_products s)) f)) Done else Done)"
| "billing_handler BcSavePlan s = (if bc_planOpen s \<and> \<not> bc_savingPlan s then submitPlan s else Done)"
| "billing_handler (BcPrice i) s = (case row_at i (bc_plans s) of Some plan \<Rightarrow> Set (open_price plan) Done | None \<Rightarrow> Done)"
| "billing_handler BcClosePrice s = (if bc_savingPrice s then Done else Set (bc_priceTarget_update (\<lambda>_. None)) Done)"
| "billing_handler (BcPriceField f) s =
     (if bc_priceTarget s \<noteq> None then Set (bc_priceForm_update (set_admin_price f)) Done else Done)"
| "billing_handler BcSavePrice s = (if bc_savingPrice s then Done else submitPrice s)"

text \<open>The tables.\<close>

definition prop_or_dash :: "string \<Rightarrow> json \<Rightarrow> string" where
  "prop_or_dash k row = (if flag_prop k row then undefined_String (prop_of row k) else em_dash)"

definition admin_plan_specs :: "json \<Rightarrow> string" where
  "admin_plan_specs plan =
     (let ram = num_prop ''ram_mb'' plan in
      prop_or_dash ''vcpu'' plan @ '' vCPU '' @ middle_dot @ '' ''
      @ (if flag_prop ''ram_mb'' plan
         then toFixed (if ram / 1024 = of_int \<lfloor>ram / 1024\<rfloor> then 0 else 1) (ram / 1024) @ '' GB'' else em_dash)
      @ '' RAM '' @ middle_dot @ '' ''
      @ (if flag_prop ''disk_gb'' plan then undefined_String (prop_of plan ''disk_gb'') @ '' GB'' else em_dash))"

definition enabled_badge :: "json \<Rightarrow> string" where
  "enabled_badge row =
     (case billing_StatusBadge (Some (if flag_prop ''enabled'' row then ''active'' else ''disabled'')) of
        Some (_, label) \<Rightarrow> label | None \<Rightarrow> em_dash)"

definition plain_money :: "(amount option \<Rightarrow> string option \<Rightarrow> string) \<Rightarrow> string \<Rightarrow> json \<Rightarrow> string" where
  "plain_money money k row = money (Some (Number (num_prop k row))) None"

definition admin_product_columns :: "(amount option \<Rightarrow> string option \<Rightarrow> string) \<Rightarrow> simple_column list" where
  "admin_product_columns money =
     [\<lparr>cl_key = ''code'', cl_render = Some (\<lambda>row. str_prop ''name'' row @ str_prop ''code'' row)\<rparr>,
      \<lparr>cl_key = ''service_kind'', cl_render = None\<rparr>,
      \<lparr>cl_key = ''default_monthly_amount'', cl_render = Some (plain_money money ''default_monthly_amount'')\<rparr>,
      \<lparr>cl_key = ''sort_order'', cl_render = None\<rparr>, \<lparr>cl_key = ''enabled'', cl_render = Some enabled_badge\<rparr>]"

definition star :: string where
  "star = [CHR 0xE2, CHR 0x98, CHR 0x85]"

definition admin_plan_columns :: "(amount option \<Rightarrow> string option \<Rightarrow> string) \<Rightarrow> simple_column list" where
  "admin_plan_columns money =
     [\<lparr>cl_key = ''code'', cl_render = Some (\<lambda>row. str_prop ''name'' row
         @ (if flag_prop ''featured'' row then star @ '' featured'' else []) @ str_prop ''code'' row)\<rparr>,
      \<lparr>cl_key = ''product_code'', cl_render = None\<rparr>, \<lparr>cl_key = ''price_mode'', cl_render = None\<rparr>,
      \<lparr>cl_key = ''specs'', cl_render = Some admin_plan_specs\<rparr>,
      \<lparr>cl_key = ''setup_fee'', cl_render = Some (plain_money money ''setup_fee'')\<rparr>,
      \<lparr>cl_key = ''enabled'', cl_render = Some enabled_badge\<rparr>]"

end
