(* ===== verification/Catalog_Requests.thy ===== *)
theory Catalog_Requests
  imports Catalog_Admin
begin

text \<open>
  What the catalog pages of the finance and admin consoles send: interpretations of \<open>page_lead\<close> and
  \<open>page_flag\<close> for the four tabs of \<open>Catalog_Finance\<close> and the page of \<open>Catalog_Admin\<close>.
\<close>

subsection \<open>Complete requests\<close>

definition coded_and_named :: "json \<Rightarrow> bool" where
  "coded_and_named body \<longleftrightarrow> trimmed_text ''code'' body \<and> trimmed_text ''name'' body"

definition product_complete :: "json \<Rightarrow> bool" where
  "product_complete body \<longleftrightarrow> coded_and_named body \<and> finite_where (\<lambda>_. True) ''default_monthly_amount'' body
     \<and> finite_where (\<lambda>_. True) ''sort_order'' body"

definition plan_complete :: "json \<Rightarrow> bool" where
  "plan_complete body \<longleftrightarrow> coded_and_named body \<and> (\<exists>p. prop_of body ''product_id'' = Some (JStr p) \<and> p \<noteq> [])
     \<and> number_where (\<lambda>q. \<exists>z. q = of_int z) ''ram_mb'' body"

definition price_complete :: "json \<Rightarrow> bool" where
  "price_complete body \<longleftrightarrow> finite_where (\<lambda>q. 0 \<le> q) ''amount'' body
     \<and> (\<exists>c. prop_of body ''currency'' = Some (JStr c) \<and> iso_currency c \<and> toUpperCase c = c)"

definition rate_complete :: "json \<Rightarrow> bool" where
  "rate_complete body \<longleftrightarrow> (\<exists>p. prop_of body ''product_id'' = Some (JStr p) \<and> p \<noteq> []) \<and> trimmed_text ''dimension_code'' body
     \<and> finite_where (\<lambda>q. 0 < q) ''unit_price'' body"

definition admin_price_complete :: "json \<Rightarrow> bool" where
  "admin_price_complete body \<longleftrightarrow> number_where (\<lambda>q. 0 \<le> q) ''amount'' body
     \<and> (prop_of body ''provider_cost'' = None \<or> number_where (\<lambda>q. 0 \<le> q) ''provider_cost'' body)
     \<and> number_where (\<lambda>q. 0 \<le> q) ''minimum_charge'' body
     \<and> (\<exists>c. prop_of body ''currency'' = Some (JStr c) \<and> js_length c = 3)"

lemma product_body_complete: "trim (pf_code f) \<noteq> [] \<Longrightarrow> trim (pf_name f) \<noteq> [] \<Longrightarrow> product_complete (product_body f)"
  by (simp add: product_complete_def coded_and_named_def trimmed_text_def finite_where_def product_body_def number_or_default_def trim_idem)

lemma ram_megabytes_whole: "js_num_json (ram_megabytes v) \<in> {JNull} \<union> {JNum q |q. \<exists>z. q = of_int z}"
  by (auto simp: ram_megabytes_def js_num_json_def split: js_num.splits)

lemma plan_body_complete:
  "pn_productId s \<noteq> [] \<Longrightarrow> trim (pn_code s) \<noteq> [] \<Longrightarrow> trim (pn_name s) \<noteq> [] \<Longrightarrow> plan_complete (plan_body s)"
  using ram_megabytes_whole [of "pn_ramGb s"]
  by (auto simp: plan_complete_def coded_and_named_def trimmed_text_def number_where_def plan_body_def trim_idem)

lemma upper_latin: "is_latin c \<Longrightarrow> is_latin (upper_char c)"
  unfolding is_latin_def upper_char_def by (auto simp: Let_def)

lemma iso_currency_upper: "iso_currency t \<Longrightarrow> iso_currency (toUpperCase t)"
  by (auto simp: iso_currency_def toUpperCase_def list_all_iff upper_latin)

lemma price_body_complete: "price_problem s = None \<Longrightarrow> price_complete (price_body s)"
  by (auto simp: price_problem_def price_complete_def price_body_def finite_where_def isFinite_def num_negative_def js_num_json_def
      iso_currency_upper split: if_splits js_num.splits)

lemma rate_body_complete: "rate_problem s = None \<Longrightarrow> rate_complete (rate_body s)"
  by (auto simp: rate_problem_def rate_complete_def rate_body_def trimmed_text_def finite_where_def isFinite_def num_greater_def
      js_num_json_def trim_idem split: if_splits js_num.splits)

subsection \<open>The patch of an edited product\<close>

lemma map_of_changed_number:
  "map_of (changed_number k v product) k' =
     (case toNumberOrUndefined v of Some q \<Rightarrow> if k' = k \<and> prop_of product k \<noteq> Some (JNum q) then Some (JNum q) else None | None \<Rightarrow> None)"
  by (simp add: changed_number_def split: option.split)

lemma changed_number_cases: "changed_number k v product = [] \<or> (\<exists>q. changed_number k v product = [(k, JNum q)])"
  by (simp add: changed_number_def split: option.split)

lemma distinct_product_patch: "distinct (map fst (product_patch s product))"
  using changed_number_cases [of "''default_monthly_amount''" "pe_defaultAmount s" product]
    changed_number_cases [of "''sort_order''" "pe_sortOrder s" product]
  by (elim disjE exE) (simp_all add: product_patch_def)

lemma other_text: "t \<noteq> str_prop k row \<Longrightarrow> prop_of row k \<noteq> Some (JStr t)"
  by (auto simp: str_prop_def)

lemma other_flag: "v \<noteq> flag_prop k row \<Longrightarrow> prop_of row k \<noteq> Some (JBool v)"
  by (auto simp: flag_prop_def)

text \<open>The patched product, property by property.\<close>

lemma patched_prop:
  "prop_of (JObj (obj_spread kvs (product_patch s (JObj kvs)))) k =
     (case map_of (product_patch s (JObj kvs)) k of Some v \<Rightarrow> Some v | None \<Rightarrow> map_of kvs k)"
  by (simp add: map_of_obj_spread [OF distinct_product_patch] map_add_def)

text \<open>
  C24: saving an edited product sends exactly the edit. Whatever the form holds, the product with the
  sent patch merged in has the name of the form (or its old name when that field is blank), its description,
  its amount and sort order where these fields hold a number and the old ones where they do not, and
  its enabled switch; nothing else of the product changes. Apart from the name, no property is sent with
  the value it already has.
\<close>

theorem product_edit_exact:
  "let patch = product_patch s (JObj kvs); merged = JObj (obj_spread kvs patch);
       number = (\<lambda>k v. case toNumberOrUndefined v of Some q \<Rightarrow> Some (JNum q) | None \<Rightarrow> map_of kvs k)
   in str_prop ''name'' merged = (if trim (pe_name s) = [] then str_prop ''name'' (JObj kvs) else trim (pe_name s))
    \<and> str_prop ''description'' merged = pe_description s
    \<and> prop_of merged ''default_monthly_amount'' = number ''default_monthly_amount'' (pe_defaultAmount s)
    \<and> prop_of merged ''sort_order'' = number ''sort_order'' (pe_sortOrder s)
    \<and> flag_prop ''enabled'' merged = pe_enabled s
    \<and> (\<forall>k. k \<in> {''name'', ''description'', ''default_monthly_amount'', ''sort_order'', ''enabled''} \<or> prop_of merged k = map_of kvs k)
    \<and> {k. k \<in> dom (map_of patch) \<and> map_of patch k = map_of kvs k} \<subseteq> {''name''}"
proof -
  let ?patch = "product_patch s (JObj kvs)"
  let ?merged = "JObj (obj_spread kvs ?patch)"
  note patch = product_patch_def map_add_def map_of_changed_number
  have "str_prop ''name'' ?merged = (if trim (pe_name s) = [] then str_prop ''name'' (JObj kvs) else trim (pe_name s))"
    unfolding str_prop_def patched_prop by (simp add: patch split: option.split)
  moreover have "str_prop ''description'' ?merged = pe_description s"
    unfolding str_prop_def patched_prop by (simp add: patch str_prop_def split: option.split)
  moreover have "prop_of ?merged ''default_monthly_amount'' =
      (case toNumberOrUndefined (pe_defaultAmount s) of Some q \<Rightarrow> Some (JNum q) | None \<Rightarrow> map_of kvs ''default_monthly_amount'')"
    unfolding patched_prop by (simp add: patch split: option.split)
  moreover have "prop_of ?merged ''sort_order'' =
      (case toNumberOrUndefined (pe_sortOrder s) of Some q \<Rightarrow> Some (JNum q) | None \<Rightarrow> map_of kvs ''sort_order'')"
    unfolding patched_prop by (simp add: patch split: option.split)
  moreover have "flag_prop ''enabled'' ?merged = pe_enabled s"
    unfolding flag_prop_def patched_prop by (simp add: patch flag_prop_def split: option.split)
  moreover have "k \<in> {''name'', ''description'', ''default_monthly_amount'', ''sort_order'', ''enabled''} \<or> prop_of ?merged k = map_of kvs k" for k
    unfolding patched_prop by (simp add: patch split: option.split)
  moreover have "{k. k \<in> dom (map_of ?patch) \<and> map_of ?patch k = map_of kvs k} \<subseteq> {''name''}"
  proof (intro subsetI)
    fix k assume k: "k \<in> {k. k \<in> dom (map_of ?patch) \<and> map_of ?patch k = map_of kvs k}"
    consider "k = ''name''" | "k = ''description''" | "k = ''default_monthly_amount''" | "k = ''sort_order''" | "k = ''enabled''"
      | "k \<notin> {''name'', ''description'', ''default_monthly_amount'', ''sort_order'', ''enabled''}" by blast
    then show "k \<in> {''name''}"
      using k other_text [of "pe_description s" "''description''" "JObj kvs"] other_flag [of "pe_enabled s" "''enabled''" "JObj kvs"]
      by cases (auto simp: patch split: option.splits if_splits)
  qed
  ultimately show ?thesis unfolding Let_def by blast
qed

subsection \<open>Who sends what\<close>

definition products_guard :: "products_event \<Rightarrow> products_tab \<Rightarrow> api_call \<Rightarrow> bool" where
  "products_guard u s c \<longleftrightarrow>
     u = PtCreate \<and> pt_createOpen s \<and> \<not> pt_saving s \<and> product_complete (product_body (pt_form s))
       \<and> c = api_post ''/admin/products'' (Some (product_body (pt_form s))) no_options
     \<or> u = PeSave \<and> \<not> pe_saving s
       \<and> (\<exists>product. pt_editTarget s = Some product \<and> product_patch s product \<noteq> []
            \<and> c = api_patch (''/admin/products/'' @ row_id product) (Some (JObj (product_patch s product))) no_options)"

definition plans_guard :: "plans_event \<Rightarrow> plans_tab \<Rightarrow> api_call \<Rightarrow> bool" where
  "plans_guard u s c \<longleftrightarrow> u = PnCreate \<and> pn_createOpen s \<and> \<not> pn_saving s \<and> plan_complete (plan_body s)
     \<and> c = api_post ''/admin/plans'' (Some (plan_body s)) no_options"

definition prices_guard :: "prices_event \<Rightarrow> prices_tab \<Rightarrow> api_call \<Rightarrow> bool" where
  "prices_guard u s c \<longleftrightarrow> u = PpAdd \<and> \<not> pp_saving s \<and> price_complete (price_body s)
     \<and> (\<exists>plan \<in> set (ct_plans s). prop_of plan ''id'' = Some (JStr (pp_planId s))
          \<and> c = api_post (''/admin/plans/'' @ row_id plan @ ''/prices'') (Some (price_body s)) no_options)"

definition rates_guard :: "rates_event \<Rightarrow> rates_tab \<Rightarrow> api_call \<Rightarrow> bool" where
  "rates_guard u s c \<longleftrightarrow> u = CrCreate \<and> cr_createOpen s \<and> \<not> cr_saving s \<and> rate_complete (rate_body s)
     \<and> c = api_post ''/admin/custom-rates'' (Some (rate_body s)) no_options"

text \<open>After a \<open>POST\<close> of a product the admin page may still send its default monthly amount.\<close>

definition get_or_monthly :: "api_call \<Rightarrow> bool" where
  "get_or_monthly c \<longleftrightarrow> is_get c \<or> (\<exists>id' monthly. \<not> num_negative monthly \<and> c = monthly_patch id' monthly)"

definition billing_guard :: "billing_event \<Rightarrow> billing_catalog \<Rightarrow> api_call \<Rightarrow> bool" where
  "billing_guard u s c \<longleftrightarrow>
     u = BcSaveProduct \<and> bc_productOpen s \<and> \<not> bc_savingProduct s \<and> coded_and_named (admin_product_body (bc_productForm s))
       \<and> c = api_post ''/admin/products'' (Some (admin_product_body (bc_productForm s))) no_options
     \<or> u = BcSavePlan \<and> bc_planOpen s \<and> \<not> bc_savingPlan s \<and> coded_and_named (admin_plan_body (bc_planForm s))
       \<and> number_where (\<lambda>q. 0 \<le> q) ''setup_fee'' (admin_plan_body (bc_planForm s)) \<and> an_product_id (bc_planForm s) \<noteq> []
       \<and> c = api_post ''/admin/plans'' (Some (admin_plan_body (bc_planForm s))) no_options
     \<or> u = BcSavePrice \<and> \<not> bc_savingPrice s \<and> admin_price_complete (admin_price_body (bc_priceForm s))
       \<and> (\<exists>plan. bc_priceTarget s = Some plan
            \<and> c = api_post (''/admin/plans/'' @ row_id plan @ ''/prices'') (Some (admin_price_body (bc_priceForm s))) no_options)"

lemma loadCatalog_ok [script_intros]:
  assumes "\<And>c. is_get c \<Longrightarrow> allowed c"
  shows "script_ok (\<lambda>_. True) allowed loadCatalog"
  using assms by (auto simp: loadCatalog_def intro!: script_intros)

lemma loadCatalog_lead: "lead_calls (loadCatalog :: 'a catalog_scheme api_script) =
  [api_get ''/admin/products'' no_options, api_get ''/admin/plans'' per_100, api_get ''/admin/custom-rates'' per_100,
   api_get ''/admin/regions'' no_options]"
  by (simp add: loadCatalog_def)

lemmas catalog_defs = create_product_def save_product_def when_editing_def create_plan_def plan_providers_def add_price_def
  create_rate_def

interpretation products_lead: page_lead perform_api products_handler is_get
proof
  fix u s show "calls_lead is_get (products_handler u s)"
    by (cases u) (auto simp: catalog_defs Let_def intro!: script_intros script_ok_lead [OF loadCatalog_ok] split: option.split)
qed

interpretation plans_lead: page_lead perform_api plans_handler is_get
proof
  fix u s show "calls_lead is_get (plans_handler u s)"
    by (cases u) (auto simp: catalog_defs intro!: script_intros script_ok_lead [OF loadCatalog_ok])
qed

interpretation prices_lead: page_lead perform_api prices_handler is_get
proof
  fix u s show "calls_lead is_get (prices_handler u s)"
    by (cases u) (auto simp: catalog_defs intro!: script_intros script_ok_lead [OF loadCatalog_ok] split: option.split)
qed

interpretation rates_lead: page_lead perform_api rates_handler is_get
proof
  fix u s show "calls_lead is_get (rates_handler u s)"
    by (cases u) (auto simp: catalog_defs intro!: script_intros script_ok_lead [OF loadCatalog_ok] split: option.split)
qed

lemma products_lead_calls: "c \<in> set (lead_calls (products_handler u s)) \<Longrightarrow> is_get c \<or> products_guard u s c"
  by (cases u) (auto simp: products_guard_def catalog_defs loadCatalog_lead Let_def split: if_splits option.splits
      intro: product_body_complete)

lemma plans_lead_calls: "c \<in> set (lead_calls (plans_handler u s)) \<Longrightarrow> is_get c \<or> plans_guard u s c"
  by (cases u) (auto simp: plans_guard_def catalog_defs loadCatalog_lead split: if_splits intro: plan_body_complete)

lemma prices_lead_calls: "c \<in> set (lead_calls (prices_handler u s)) \<Longrightarrow> is_get c \<or> prices_guard u s c"
  by (cases u) (auto simp: prices_guard_def catalog_defs loadCatalog_lead selectedPlan_def find_Some_iff
      split: if_splits option.splits intro: price_body_complete)

lemma rates_lead_calls: "c \<in> set (lead_calls (rates_handler u s)) \<Longrightarrow> is_get c \<or> rates_guard u s c"
  by (cases u) (auto simp: rates_guard_def catalog_defs loadCatalog_lead split: if_splits option.splits intro: rate_body_complete)

lemma admin_price_body_complete: "admin_price_problem f = None \<Longrightarrow> admin_price_complete (admin_price_body f)"
  by (auto simp: admin_price_problem_def admin_price_complete_def admin_price_body_def number_where_def negative_field_def
      number_or_zero_def opt_field_def num_negative_def js_num_json_def split: if_splits option.splits js_num.splits)

lemma admin_product_body_complete: "admin_product_problem f = None \<Longrightarrow> coded_and_named (admin_product_body f)"
  by (auto simp: admin_product_problem_def coded_and_named_def trimmed_text_def admin_product_body_def trim_idem split: if_splits)

lemma admin_plan_body_complete:
  assumes "admin_plan_problem f = None"
  shows "coded_and_named (admin_plan_body f)" and "number_where (\<lambda>q. 0 \<le> q) ''setup_fee'' (admin_plan_body f)"
    and "an_product_id f \<noteq> []"
  using assms
  by (auto simp: admin_plan_problem_def coded_and_named_def trimmed_text_def number_where_def admin_plan_body_def trim_idem
      num_negative_def js_num_json_def split: if_splits js_num.splits)

lemma product_saved_ok: "script_ok (\<lambda>_. True) allowed (product_saved s)"
  by (simp add: product_saved_def)

lemma monthly_allowed: "admin_product_problem f = None \<Longrightarrow> get_or_monthly (monthly_patch id' (number_or_zero (ap_monthly f)))"
  by (auto simp: get_or_monthly_def admin_product_problem_def split: if_splits)

lemma get_allowed: "is_get c \<Longrightarrow> get_or_monthly c"
  by (simp add: get_or_monthly_def)

lemma paged_effect_leads: "calls_lead get_or_monthly (paged_effect path query perPage s)"
  by (auto simp: paged_effect_def intro!: script_intros)

interpretation billing_lead: page_lead perform_api billing_handler get_or_monthly
proof
  fix u s show "calls_lead get_or_monthly (billing_handler u s)"
    by (cases u) (auto simp: submitProduct_def submitPlan_def submitPrice_def Let_def
        intro!: script_intros product_saved_ok monthly_allowed paged_effect_leads split: option.split)
qed

lemma billing_lead_calls: "c \<in> set (lead_calls (billing_handler u s)) \<Longrightarrow> get_or_monthly c \<or> billing_guard u s c"
  by (cases u) (auto simp: billing_guard_def submitProduct_def submitPlan_def submitPrice_def paged_effect_def Let_def
      split: if_splits option.splits
      intro: get_allowed admin_product_body_complete admin_plan_body_complete(1,2) admin_price_body_complete
      dest: admin_plan_body_complete(3))


subsection \<open>Busy buttons\<close>

lemmas catalog_flag_defs = catalog_defs loadCatalog_def close_edit_def sync_edit_def toast_success_def

interpretation product_creating: page_flag perform_api products_handler pt_saving
proof
  fix u s show "ends_low pt_saving (products_handler u s) True"
    by (cases u) (auto simp: catalog_flag_defs Let_def intro!: script_intros split: option.split)
qed

interpretation product_saving: page_flag perform_api products_handler pe_saving
proof
  fix u s show "ends_low pe_saving (products_handler u s) True"
    by (cases u) (auto simp: catalog_flag_defs Let_def intro!: script_intros split: option.split)
qed

interpretation plan_saving: page_flag perform_api plans_handler pn_saving
proof
  fix u s show "ends_low pn_saving (plans_handler u s) True"
  proof (cases u)
    case (PnField f)
    have "pn_saving (plan_dialog f x) = pn_saving x" for x by (cases f) simp_all
    with PnField show ?thesis by simp
  qed (auto simp: catalog_flag_defs intro!: script_intros)
qed

interpretation price_saving: page_flag perform_api prices_handler pp_saving
proof
  fix u s show "ends_low pp_saving (prices_handler u s) True"
    by (cases u) (auto simp: catalog_flag_defs intro!: script_intros split: option.split)
qed

interpretation rate_saving: page_flag perform_api rates_handler cr_saving
proof
  fix u s show "ends_low cr_saving (rates_handler u s) True"
  proof (cases u)
    case (CrField f)
    have "cr_saving (rate_dialog f x) = cr_saving x" for x by (cases f) simp_all
    with CrField show ?thesis by simp
  qed (auto simp: catalog_flag_defs intro!: script_intros split: option.split)
qed

lemmas billing_flag_defs = submitProduct_def submitPlan_def submitPrice_def product_saved_def openProductCreate_def
  openProductEdit_def open_plan_def open_price_def toast_success_def Let_def

interpretation billing_product_saving: page_flag perform_api billing_handler bc_savingProduct
proof
  fix u s show "ends_low bc_savingProduct (billing_handler u s) True"
    by (cases u) (auto simp: billing_flag_defs intro!: script_intros split: option.split)
qed

interpretation billing_plan_saving: page_flag perform_api billing_handler bc_savingPlan
proof
  fix u s show "ends_low bc_savingPlan (billing_handler u s) True"
    by (cases u) (auto simp: billing_flag_defs intro!: script_intros split: option.split)
qed

interpretation billing_price_saving: page_flag perform_api billing_handler bc_savingPrice
proof
  fix u s show "ends_low bc_savingPrice (billing_handler u s) True"
    by (cases u) (auto simp: billing_flag_defs intro!: script_intros split: option.split)
qed

subsection \<open>What the forms let through\<close>

text \<open>The dialog says that only changed fields are sent; the name is sent whenever it is not blank, so the
  message that there is nothing to update needs a blank name.\<close>

lemma name_always_sent: "trim (pe_name s) \<noteq> [] \<Longrightarrow> map_of (product_patch s product) ''name'' = Some (JStr (trim (pe_name s)))"
  by (simp add: product_patch_def)

text \<open>The error of one product is still shown when another one is opened.\<close>

lemma edit_error_kept: "i < length (products_shown s) \<Longrightarrow> pe_error (fst (user_run products_handler [PeClose, PeOpen i] s)) = pe_error s"
  by (simp add: products_shown_def close_edit_def sync_edit_def split: if_splits)

text \<open>The bounds and the currency of a rate are not looked at, so a minimum above the maximum and a blank currency are
  sent; a plan may have a negative size.\<close>

lemma rate_bounds_unchecked:
  "rate_problem (s\<lparr>cr_minQuantity := least, cr_maxQuantity := most, cr_currency := currency\<rparr>) = rate_problem s"
  by (simp add: rate_problem_def)

lemma negative_size_sent: "js_Number (pn_vcpu s) = Fin q \<Longrightarrow> q < 0 \<Longrightarrow> prop_of (plan_body s) ''vcpu'' = Some (JNum q)"
  by (simp add: plan_body_def nonzero_or_def js_num_json_def)

text \<open>Saving a new form with the code of an existing product updates it, except for a monthly amount of zero,
  which is not sent.\<close>

lemma zero_amount_not_sent:
  assumes "bc_editingProduct s = None" and "number_or_zero (ap_monthly (bc_productForm s)) = Fin 0"
  shows "calls_once (submitProduct s)"
  using assms by (auto simp: submitProduct_def needsMonthlyPatch_def Let_def product_saved_ok intro!: script_intros split: option.split)

text \<open>The admin console asks for a three-letter code and takes any three characters.\<close>

lemma digits_as_currency:
  "js_length t = 3 \<Longrightarrow> trim t = t \<Longrightarrow> toUpperCase t = t \<Longrightarrow>
   admin_price_problem (f\<lparr>ar_currency := t\<rparr>) = admin_price_problem (f\<lparr>ar_currency := ''IDR''\<rparr>)"
  by (simp add: admin_price_problem_def admin_currency_def negative_field_def trim_def is_ws_def toUpperCase_def upper_char_def
      js_length_def code_units_def)

end
