(* ===== verification/Map_Limited.thy ===== *)
theory Map_Limited
  imports Page_Kit
begin

text \<open>
  \<open>mapLimited\<close> of the finance wallets (\<open>finance/pages/Wallets.tsx\<close>): asynchronous work over a list with a
  limited number of runners that share a cursor. A runner takes the next index, awaits the worker, stores the
  result at that index and goes on until the cursor is past the end. \<open>lm_active\<close> has the index every
  runner works on; a scheduler decides whose worker answers next.
\<close>

record ('r, 'e) limited =
  lm_cursor :: nat
  lm_active :: "nat list"
  lm_results :: "'r option list"
  lm_failed :: "'e option"

text \<open>\<open>Array.from\<close> starts the runners one after the other; each runs up to its first \<open>await\<close>.\<close>

definition limited_start :: "nat \<Rightarrow> 'a list \<Rightarrow> ('r, 'e) limited" where
  "limited_start limit items =
     \<lparr>lm_cursor = min limit (length items), lm_active = [0 ..< min limit (length items)],
      lm_results = replicate (length items) None, lm_failed = None\<rparr>"

text \<open>The runner whose worker answered: on a result it stores it and takes the next index or ends; on a
  rejection it ends, and \<open>Promise.all\<close> keeps the first one.\<close>

definition limited_step :: "('a \<Rightarrow> 'e + 'r) \<Rightarrow> 'a list \<Rightarrow> nat \<Rightarrow> ('r, 'e) limited \<Rightarrow> ('r, 'e) limited" where
  "limited_step worker items pick s =
     (if lm_active s = [] then s
      else let j = pick mod length (lm_active s); i = lm_active s ! j in
        case worker (items ! i) of
          Inl e \<Rightarrow> s\<lparr>lm_active := drop_nth j (lm_active s), lm_failed := (if lm_failed s = None then Some e else lm_failed s)\<rparr>
        | Inr r \<Rightarrow>
            (let s' = s\<lparr>lm_results := (lm_results s)[i := Some r]\<rparr> in
             if lm_cursor s < length items
             then s'\<lparr>lm_cursor := Suc (lm_cursor s), lm_active := (lm_active s)[j := lm_cursor s]\<rparr>
             else s'\<lparr>lm_active := drop_nth j (lm_active s)\<rparr>))"

definition mapLimited :: "('a \<Rightarrow> 'e + 'r) \<Rightarrow> 'a list \<Rightarrow> nat \<Rightarrow> nat list \<Rightarrow> ('r, 'e) limited" where
  "mapLimited worker items limit picks = fold (limited_step worker items) picks (limited_start limit items)"

text \<open>After \<open>k\<close> answers: how far the cursor is, how many runners work, and which results are there.\<close>

definition limited_inv :: "('a \<Rightarrow> 'e + 'r) \<Rightarrow> 'a list \<Rightarrow> nat \<Rightarrow> nat \<Rightarrow> ('r, 'e) limited \<Rightarrow> bool" where
  "limited_inv worker items limit k s \<longleftrightarrow>
     lm_cursor s = min (length items) (limit + k) \<and> length (lm_active s) = min limit (length items - k)
     \<and> distinct (lm_active s) \<and> set (lm_active s) \<subseteq> {..< lm_cursor s} \<and> length (lm_results s) = length items \<and> lm_failed s = None
     \<and> (\<forall>i < length items. lm_results s ! i =
          (if i < lm_cursor s \<and> i \<notin> set (lm_active s) then Some (projr (worker (items ! i))) else None))"

lemma limited_start_inv: "limited_inv worker items limit 0 (limited_start limit items)"
  by (auto simp: limited_inv_def limited_start_def)

lemma drop_nth_distinct: "distinct xs \<Longrightarrow> i < length xs \<Longrightarrow> set (drop_nth i xs) = set xs - {xs ! i} \<and> distinct (drop_nth i xs)"
proof -
  assume "distinct xs" "i < length xs"
  then have "distinct (take i xs @ xs ! i # drop (Suc i) xs)" by (simp add: id_take_nth_drop [symmetric])
  moreover have "set xs = set (take i xs) \<union> {xs ! i} \<union> set (drop (Suc i) xs)"
    using \<open>i < length xs\<close> by (subst id_take_nth_drop [of i xs]) auto
  ultimately show ?thesis by (auto simp: drop_nth_def)
qed

lemma runner_moves: "distinct xs \<Longrightarrow> i < length xs \<Longrightarrow> x \<notin> set xs \<Longrightarrow> set (xs[i := x]) = insert x (set xs - {xs ! i}) \<and> distinct (xs[i := x])"
  by (simp add: set_update_distinct distinct_list_update)

lemma length_drop_nth: "i < length xs \<Longrightarrow> length (drop_nth i xs) = length xs - 1"
  by (simp add: drop_nth_def)

lemma limited_step_inv:
  assumes inv: "limited_inv worker items limit k s" and ok: "list_all (\<lambda>x. \<not> isl (worker x)) items" and limit: "0 < limit"
  shows "limited_inv worker items limit (Suc k) (limited_step worker items pick s)"
proof (cases "lm_active s = []")
  case True
  then have "length items \<le> k" using inv limit by (auto simp: limited_inv_def)
  with True inv show ?thesis by (simp add: limited_inv_def limited_step_def)
next
  case False
  define j where "j = pick mod length (lm_active s)"
  define i where "i = lm_active s ! j"
  have j: "j < length (lm_active s)" using False by (simp add: j_def)
  then have i: "i \<in> set (lm_active s)" by (simp add: i_def)
  then have n: "i < length items" "i < lm_cursor s" using inv by (auto simp: limited_inv_def)
  then obtain r where r: "worker (items ! i) = Inr r" using ok by (cases "worker (items ! i)") (auto simp: list_all_length)
  have k: "k < length items" using inv j by (auto simp: limited_inv_def)
  show ?thesis
  proof (cases "lm_cursor s < length items")
    case True
    let ?a = "(lm_active s)[j := lm_cursor s]"
    have free: "distinct (lm_active s)" "lm_cursor s \<notin> set (lm_active s)" using inv by (auto simp: limited_inv_def)
    have a: "set ?a = insert (lm_cursor s) (set (lm_active s) - {i})" "distinct ?a"
      using runner_moves [OF free(1) j free(2)] by (simp_all add: i_def)
    have step: "limited_step worker items pick s =
        s\<lparr>lm_results := (lm_results s)[i := Some r], lm_cursor := Suc (lm_cursor s), lm_active := ?a\<rparr>"
      using False True r by (simp add: limited_step_def Let_def j_def [symmetric] i_def [symmetric])
    show ?thesis unfolding step limited_inv_def
      using inv True k a n r by (auto simp: limited_inv_def nth_list_update)
  next
    case False
    let ?a = "drop_nth j (lm_active s)"
    have a: "set ?a = set (lm_active s) - {i}" "distinct ?a" "length ?a = length (lm_active s) - 1"
      using drop_nth_distinct [OF _ j] inv length_drop_nth [OF j] by (auto simp: limited_inv_def i_def)
    have step: "limited_step worker items pick s = s\<lparr>lm_results := (lm_results s)[i := Some r], lm_active := ?a\<rparr>"
      using \<open>lm_active s \<noteq> []\<close> False r by (simp add: limited_step_def Let_def j_def [symmetric] i_def [symmetric])
    show ?thesis unfolding step limited_inv_def
      using inv False k a n r by (auto simp: limited_inv_def nth_list_update)
  qed
qed

lemma mapLimited_inv:
  assumes "list_all (\<lambda>x. \<not> isl (worker x)) items" and "0 < limit"
  shows "limited_inv worker items limit (length picks) (mapLimited worker items limit picks)"
proof (induction picks rule: rev_induct)
  case Nil
  show ?case by (simp add: mapLimited_def limited_start_inv)
next
  case (snoc pick picks)
  with limited_step_inv [OF snoc assms] show ?case by (simp add: mapLimited_def)
qed

text \<open>
  C17: \<open>mapLimited\<close> is the ordinary map, done by at most \<open>limit\<close> runners. For a worker that never rejects, and in
  whatever order the workers answer: never more than \<open>limit\<close> items are being worked on, no two runners
  work on the same item, the call is still busy before the last answer and finished with it (so it ends after as many
  answers as there are items), and then the result at every position is the one of the item there.
\<close>

theorem mapLimited_maps:
  assumes "list_all (\<lambda>x. \<not> isl (worker x)) items" and "0 < limit"
  shows "let s = mapLimited worker items limit picks in
      length (lm_active s) \<le> limit \<and> distinct (lm_active s)
      \<and> (lm_active s = [] \<longleftrightarrow> length items \<le> length picks)
      \<and> (length items \<le> length picks \<longrightarrow> lm_results s = map (\<lambda>x. Some (projr (worker x))) items \<and> lm_failed s = None)"
proof -
  let ?s = "mapLimited worker items limit picks"
  have inv: "limited_inv worker items limit (length picks) ?s" using assms by (rule mapLimited_inv)
  have "lm_active ?s = [] \<longleftrightarrow> length items \<le> length picks"
    using inv assms(2) by (auto simp: limited_inv_def min_def simp flip: length_0_conv split: if_splits)
  moreover have "lm_results ?s = map (\<lambda>x. Some (projr (worker x))) items" if "length items \<le> length picks"
    using inv that assms(2) by (intro nth_equalityI) (auto simp: limited_inv_def)
  ultimately show ?thesis using inv by (simp add: limited_inv_def Let_def)
qed

lemma mapLimited_maps_witness:
  "lm_results (mapLimited (\<lambda>x. Inr (x * x) :: string + nat) [3, 5, 7] 2 [1, 0, 0]) = [Some 9, Some 25, Some 49]"
  using mapLimited_maps [of "\<lambda>x. Inr (x * x) :: string + nat" "[3, 5, 7]" 2 "[1, 0, 0]"] by (simp add: Let_def)

end
