(* ===== verification/Wallet_Ledger.thy ===== *)
theory Wallet_Ledger
  imports Billing_Coupons Map_Limited
begin

text \<open>
  The wallets of the organisations in the admin console (\<open>admin/billing/pages/Wallets.tsx\<close>, \<open>OrgWallet.tsx\<close>) and
  in the finance console (\<open>finance/pages/Wallets.tsx\<close>, \<open>OrgWallet.tsx\<close>): balances, ledger and manual credits and
  debits. An adjustment is filled in a form, checked, and sent from a confirmation on top of it. A dialog
  that is open makes everything below it inert. \<open>money\<close> is the console's \<open>formatMoney\<close>.
\<close>

type_synonym money_text = "js_num \<Rightarrow> string option \<Rightarrow> string"

subsection \<open>Adjustments\<close>

record adjust_form =
  af_direction :: string
  af_amount :: string
  af_currency :: string
  af_description :: string

definition empty_adjust :: adjust_form where
  "empty_adjust = \<lparr>af_direction = ''credit'', af_amount = [], af_currency = ''IDR'', af_description = []\<rparr>"

definition adjust_currency :: "adjust_form \<Rightarrow> string" where
  "adjust_currency f = toUpperCase (trim (af_currency f))"

text \<open>The checks of the admin list, in order.\<close>

definition adjust_problem :: "adjust_form \<Rightarrow> string option" where
  "adjust_problem f =
     (if trim (af_amount f) = [] \<or> \<not> num_greater (js_Number (af_amount f)) 0 then Some ''Amount must be a number greater than 0.''
      else if js_length (adjust_currency f) \<noteq> 3 then Some ''Currency must be a 3-letter ISO code (e.g. IDR).''
      else if trim (af_description f) = [] then Some ''Description is required.''
      else None)"

definition adjust_body :: "adjust_form \<Rightarrow> json" where
  "adjust_body f = JObj [(''direction'', JStr (af_direction f)), (''amount'', js_num_json (js_Number (af_amount f))),
     (''currency'', JStr (adjust_currency f)), (''description'', JStr (trim (af_description f)))]"

text \<open>The other three pages leave the currency to the server.\<close>

definition adjust_body_plain :: "adjust_form \<Rightarrow> json" where
  "adjust_body_plain f = JObj [(''direction'', JStr (af_direction f)), (''amount'', js_num_json (js_Number (af_amount f))),
     (''description'', JStr (trim (af_description f)))]"

definition adjust_call :: "string \<Rightarrow> json \<Rightarrow> api_call" where
  "adjust_call org body = api_post (''/admin/wallets/'' @ org @ ''/adjust'') (Some body) no_options"

datatype adjust_field =
    AfDirection nat
  | AfAmount string
  | AfCurrency string
  | AfDescription string

fun set_adjust :: "adjust_field \<Rightarrow> adjust_form \<Rightarrow> adjust_form" where
  "set_adjust (AfDirection i) f = f\<lparr>af_direction := pick [''credit'', ''debit''] i (af_direction f)\<rparr>"
| "set_adjust (AfAmount t) f = f\<lparr>af_amount := t\<rparr>"
| "set_adjust (AfCurrency t) f = f\<lparr>af_currency := js_take 3 t\<rparr>"
| "set_adjust (AfDescription t) f = f\<lparr>af_description := t\<rparr>"

definition is_credit :: "adjust_form \<Rightarrow> bool" where
  "is_credit f \<longleftrightarrow> af_direction f = ''credit''"

text \<open>Requests in the name of an organisation.\<close>

definition wallet_opts :: "string \<Rightarrow> api_options" where
  "wallet_opts org = \<lparr>ao_headers = Some [(''X-Organization-ID'', org)], ao_query = None\<rparr>"

definition ledger_opts :: "string \<Rightarrow> nat \<Rightarrow> api_options" where
  "ledger_opts org page = \<lparr>ao_headers = Some [(''X-Organization-ID'', org)],
     ao_query = Some [(''page'', QNum (of_nat page)), (''per_page'', QNum 10)]\<rparr>"

subsection \<open>The wallets of the admin console\<close>

record wallets_page = paged_list +
  wl_wallets :: "(string \<times> json option) list"
  wl_walletsLoading :: bool
  wl_run :: nat
  wl_due :: bool
  wl_adjustTarget :: "json option"
  wl_form :: adjust_form
  wl_formError :: "string option"
  wl_submitting :: bool
  wl_confirmOpen :: bool
  wl_txnTarget :: "json option"
  wl_txns :: "json list"
  wl_txnsMeta :: "(nat \<times> rat option) option"
  wl_txnsPage :: nat
  wl_txnsLoading :: bool
  wl_txnsError :: "js_error option"
  wl_txnRun :: nat
  wl_txnDue :: bool
  wl_selected :: js_set
  wl_bulkAdjustOpen :: bool
  wl_bulkForm :: adjust_form
  wl_bulkFormError :: "string option"
  wl_bulkBusy :: bool
  wl_bulkConfirmOpen :: bool

text \<open>\<open>reloadBalances\<close>, and the same when the rows of the list are replaced: the effect runs again.\<close>

definition reloadBalances :: "wallets_page \<Rightarrow> wallets_page" where
  "reloadBalances s = s\<lparr>wl_run := Suc (wl_run s), wl_due := True\<rparr>"

definition rows_replaced :: "wallets_page \<Rightarrow> wallets_page \<Rightarrow> wallets_page" where
  "rows_replaced before s = (if pl_loading before \<and> \<not> pl_loading s then reloadBalances s else s)"

text \<open>A script whose setters are followed by the effects they trigger.\<close>

primrec follow_script :: "('s \<Rightarrow> 's \<Rightarrow> 's) \<Rightarrow> ('s, 'c, 'r, 'e) script \<Rightarrow> ('s, 'c, 'r, 'e) script" where
  "follow_script w Done = Done"
| "follow_script w (Throw e) = Throw e"
| "follow_script w (Set f s) = Set (\<lambda>x. w x (f x)) (follow_script w s)"
| "follow_script w (Await cs g) = Await cs (\<lambda>rs n. follow_script w (g rs n))"
| "follow_script w (Fork a s) = Fork (follow_script w a) (follow_script w s)"

text \<open>\<open>fetchOrgWallet\<close> never rejects: a failed read is the wallet \<open>null\<close>.\<close>

definition fetched_wallet :: "api_result \<Rightarrow> json option" where
  "fetched_wallet r = (case r of Inl _ \<Rightarrow> None | Inr e \<Rightarrow> non_null (env_data e))"

definition in_wallet_run :: "nat \<Rightarrow> (wallets_page \<Rightarrow> wallets_page) \<Rightarrow> wallets_page \<Rightarrow> wallets_page" where
  "in_wallet_run r f s = (if wl_run s = r then f s else s)"

definition balances_effect :: "wallets_page \<Rightarrow> wallets_page api_script" where
  "balances_effect s =
     (if \<not> wl_due s then Done
      else Set (\<lambda>x. x\<lparr>wl_due := False, wl_walletsLoading := True\<rparr>)
        (Await (map (\<lambda>org. api_get ''/wallet'' (wallet_opts (row_id org))) (pl_rows s))
          (\<lambda>rs n. Set (in_wallet_run (wl_run s) (\<lambda>x. x\<lparr>wl_wallets := zip (map row_id (pl_rows s)) (map fetched_wallet rs),
             wl_walletsLoading := False\<rparr>)) Done)))"

text \<open>\<open>new Map(pairs)\<close>: a later pair with the same key wins.\<close>

definition wallet_of :: "wallets_page \<Rightarrow> string \<Rightarrow> json option" where
  "wallet_of s org = Option.bind (map_of (rev (wl_wallets s)) org) id"

definition wallet_currency :: "json option \<Rightarrow> string option" where
  "wallet_currency w = (case opt_prop w ''currency'' of Some (JStr c) \<Rightarrow> Some c | _ \<Rightarrow> None)"

definition currency_or_IDR :: "json option \<Rightarrow> string" where
  "currency_or_IDR w = (case wallet_currency w of Some c \<Rightarrow> c | None \<Rightarrow> ''IDR'')"

definition openAdjust :: "json \<Rightarrow> wallets_page \<Rightarrow> wallets_page" where
  "openAdjust org s = s\<lparr>wl_form := empty_adjust\<lparr>af_currency := currency_or_IDR (wallet_of s (row_id org))\<rparr>,
     wl_formError := None, wl_adjustTarget := Some org\<rparr>"

definition submitAdjust :: "wallets_page \<Rightarrow> wallets_page api_script" where
  "submitAdjust s =
     (if wl_adjustTarget s = None then Done
      else case adjust_problem (wl_form s) of
             Some message \<Rightarrow> Set (wl_formError_update (\<lambda>_. Some message)) Done
           | None \<Rightarrow> Set (wl_formError_update (\<lambda>_. None)) (Set (wl_confirmOpen_update (\<lambda>_. True)) Done))"

definition applyAdjust :: "money_text \<Rightarrow> wallets_page \<Rightarrow> wallets_page api_script" where
  "applyAdjust money s =
     (case wl_adjustTarget s of
        None \<Rightarrow> Done
      | Some org \<Rightarrow>
          with_flag wl_submitting_update
            (try_catch
              (await (adjust_call (row_id org) (adjust_body (wl_form s)))
                (\<lambda>_. Set (toast_success (''Wallet for '' @ str_prop ''slug'' org @ '': ''
                          @ (if is_credit (wl_form s) then ''credited'' else ''debited'') @ '' ''
                          @ money (js_Number (af_amount (wl_form s))) (Some (adjust_currency (wl_form s)))))
                    (Set (wl_confirmOpen_update (\<lambda>_. False)) (Set (wl_adjustTarget_update (\<lambda>_. None)) (Set reloadBalances Done)))))
              (\<lambda>cause. Set (toast_error (api_message ''Failed to adjust wallet.'' cause))
                  (Set (wl_confirmOpen_update (\<lambda>_. False)) Done))))"

definition openBulkAdjust :: "wallets_page \<Rightarrow> wallets_page" where
  "openBulkAdjust s = s\<lparr>wl_bulkForm := empty_adjust, wl_bulkFormError := None, wl_bulkAdjustOpen := True\<rparr>"

definition submitBulkAdjust :: "wallets_page \<Rightarrow> wallets_page api_script" where
  "submitBulkAdjust s =
     (case adjust_problem (wl_bulkForm s) of
        Some message \<Rightarrow> Set (wl_bulkFormError_update (\<lambda>_. Some message)) Done
      | None \<Rightarrow> Set (wl_bulkFormError_update (\<lambda>_. None)) (Set (wl_bulkConfirmOpen_update (\<lambda>_. True)) Done))"

definition bulk_targets :: "wallets_page \<Rightarrow> json list" where
  "bulk_targets s = resolve (\<lambda>row index. row_id row) (wl_selected s) (pl_rows s)"

definition bulk_calls :: "wallets_page \<Rightarrow> api_call list" where
  "bulk_calls s = map (\<lambda>org. adjust_call (row_id org) (adjust_body (wl_bulkForm s))) (bulk_targets s)"

definition applyBulkAdjust :: "money_text \<Rightarrow> wallets_page \<Rightarrow> wallets_page api_script" where
  "applyBulkAdjust money s =
     (let n = length (bulk_targets s) in
      if n = 0 then Done
      else with_flag wl_bulkBusy_update
        (try_catch
          (await_all (bulk_calls s)
            (\<lambda>_. Set (toast_success ((if is_credit (wl_bulkForm s) then ''Credited'' else ''Debited'') @ '' ''
                      @ money (js_Number (af_amount (wl_bulkForm s))) (Some (adjust_currency (wl_bulkForm s)))
                      @ '' across '' @ show_nat n @ '' wallet'' @ (if n = 1 then [] else ''s'')))
                (Set (wl_bulkConfirmOpen_update (\<lambda>_. False)) (Set (wl_bulkAdjustOpen_update (\<lambda>_. False))
                  (Set (wl_selected_update (\<lambda>_. [])) (Set reloadBalances Done))))))
          (\<lambda>cause. Set (toast_error (api_message ''Failed to adjust wallets'' cause))
              (Set (wl_bulkConfirmOpen_update (\<lambda>_. False)) Done))))"

text \<open>The ledger of one organisation: a change of the target or the page starts a new run of the effect.\<close>

definition txn_rerun :: "wallets_page \<Rightarrow> wallets_page" where
  "txn_rerun s = s\<lparr>wl_txnRun := Suc (wl_txnRun s), wl_txnDue := (wl_txnTarget s \<noteq> None)\<rparr>"

definition in_txn_run :: "nat \<Rightarrow> (wallets_page \<Rightarrow> wallets_page) \<Rightarrow> wallets_page \<Rightarrow> wallets_page" where
  "in_txn_run r f s = (if wl_txnRun s = r then f s else s)"

definition txns_effect :: "wallets_page \<Rightarrow> wallets_page api_script" where
  "txns_effect s =
     (case wl_txnTarget s of
        None \<Rightarrow> Done
      | Some org \<Rightarrow>
          if \<not> wl_txnDue s then Done
          else Set (\<lambda>x. x\<lparr>wl_txnDue := False, wl_txnsLoading := True, wl_txnsError := None\<rparr>)
            (finally_set
              (try_catch
                (await (api_get ''/wallet/transactions'' (ledger_opts (row_id org) (wl_txnsPage s)))
                  (\<lambda>e. Set (in_txn_run (wl_txnRun s) (\<lambda>x. x\<lparr>wl_txns := array_or_empty (Some (env_data e)),
                         wl_txnsMeta := Some (wl_txnsPage s, meta_num ''total'' (env_meta e))\<rparr>)) Done))
                (\<lambda>cause. Set (in_txn_run (wl_txnRun s) (\<lambda>x. x\<lparr>wl_txns := [], wl_txnsError := Some cause\<rparr>)) Done))
              (in_txn_run (wl_txnRun s) (wl_txnsLoading_update (\<lambda>_. False)))))"

definition lastTxnsPage :: "wallets_page \<Rightarrow> int option" where
  "lastTxnsPage s = (case wl_txnsMeta s of Some (_, Some t) \<Rightarrow> Some (max 1 \<lceil>t / 10\<rceil>) | _ \<Rightarrow> None)"

definition no_dialog :: "wallets_page \<Rightarrow> bool" where
  "no_dialog s \<longleftrightarrow> wl_adjustTarget s = None \<and> \<not> wl_confirmOpen s \<and> wl_txnTarget s = None \<and> \<not> wl_bulkAdjustOpen s
     \<and> \<not> wl_bulkConfirmOpen s"

datatype wallets_event =
    WlList
  | WlPrevious
  | WlNext
  | WlBalances
  | WlCheck nat bool
  | WlCheckAll bool
  | WlAdjust nat
  | WlField adjust_field
  | WlClose
  | WlSubmit
  | WlCancel
  | WlApply
  | WlBulk
  | WlBulkField adjust_field
  | WlBulkClose
  | WlBulkSubmit
  | WlBulkCancel
  | WlBulkApply
  | WlTxns nat
  | WlTxnsEffect
  | WlTxnsPrevious
  | WlTxnsNext
  | WlTxnsClose

definition table_row :: "nat \<Rightarrow> wallets_page \<Rightarrow> json option" where
  "table_row i s = (if no_dialog s then row_at i s else None)"

fun wallets_handler :: "money_text \<Rightarrow> wallets_event \<Rightarrow> wallets_page \<Rightarrow> wallets_page api_script" where
  "wallets_handler money WlList s = follow_script rows_replaced (paged_effect ''/admin/organizations'' [] 20 s)"
| "wallets_handler money WlPrevious s =
     (if no_dialog s \<and> pager_previous (pl_loading s) (pl_page s) then Set (setPage (pl_page s - 1)) Done else Done)"
| "wallets_handler money WlNext s =
     (if no_dialog s \<and> pager_next (pl_loading s) (pl_page s) (pl_meta s) then Set (setPage (pl_page s + 1)) Done else Done)"
| "wallets_handler money WlBalances s = balances_effect s"
| "wallets_handler money (WlCheck i checked) s =
     (case table_row i s of
        Some row \<Rightarrow> Set (wl_selected_update (\<lambda>_. toggleRow (row_id row) checked (wl_selected s))) Done | None \<Rightarrow> Done)"
| "wallets_handler money (WlCheckAll checked) s =
     (if no_dialog s \<and> rows_shown s
      then Set (wl_selected_update (\<lambda>_. toggleAll (Some (\<lambda>row index. row_id row)) (pl_rows s) checked (wl_selected s))) Done
      else Done)"
| "wallets_handler money (WlAdjust i) s = (case table_row i s of Some org \<Rightarrow> Set (openAdjust org) Done | None \<Rightarrow> Done)"
| "wallets_handler money (WlField f) s =
     (if wl_adjustTarget s \<noteq> None \<and> \<not> wl_confirmOpen s then Set (wl_form_update (set_adjust f)) Done else Done)"
| "wallets_handler money WlClose s =
     (if wl_submitting s \<or> wl_confirmOpen s then Done else Set (wl_adjustTarget_update (\<lambda>_. None)) Done)"
| "wallets_handler money WlSubmit s = (if wl_submitting s \<or> wl_confirmOpen s then Done else submitAdjust s)"
| "wallets_handler money WlCancel s = (if wl_submitting s then Done else Set (wl_confirmOpen_update (\<lambda>_. False)) Done)"
| "wallets_handler money WlApply s = (if wl_confirmOpen s \<and> \<not> wl_submitting s then applyAdjust money s else Done)"
| "wallets_handler money WlBulk s =
     (if no_dialog s \<and> BulkActionBar (length (wl_selected s)) (wl_bulkBusy s) = Some True then Set openBulkAdjust Done else Done)"
| "wallets_handler money (WlBulkField f) s =
     (if wl_bulkAdjustOpen s \<and> \<not> wl_bulkConfirmOpen s then Set (wl_bulkForm_update (set_adjust f)) Done else Done)"
| "wallets_handler money WlBulkClose s =
     (if wl_bulkBusy s \<or> wl_bulkConfirmOpen s then Done else Set (wl_bulkAdjustOpen_update (\<lambda>_. False)) Done)"
| "wallets_handler money WlBulkSubmit s =
     (if wl_bulkAdjustOpen s \<and> \<not> wl_bulkBusy s \<and> \<not> wl_bulkConfirmOpen s then submitBulkAdjust s else Done)"
| "wallets_handler money WlBulkCancel s = (if wl_bulkBusy s then Done else Set (wl_bulkConfirmOpen_update (\<lambda>_. False)) Done)"
| "wallets_handler money WlBulkApply s = (if wl_bulkConfirmOpen s \<and> \<not> wl_bulkBusy s then applyBulkAdjust money s else Done)"
| "wallets_handler money (WlTxns i) s =
     (case table_row i s of
        Some org \<Rightarrow> Set (\<lambda>x. txn_rerun (x\<lparr>wl_txnTarget := Some org, wl_txnsPage := 1\<rparr>)) Done | None \<Rightarrow> Done)"
| "wallets_handler money WlTxnsEffect s = txns_effect s"
| "wallets_handler money WlTxnsPrevious s =
     (if wl_txnTarget s \<noteq> None \<and> wl_txnsError s = None \<and> 1 < wl_txnsPage s \<and> \<not> wl_txnsLoading s
      then Set (\<lambda>x. txn_rerun (x\<lparr>wl_txnsPage := wl_txnsPage x - 1\<rparr>)) Done else Done)"
| "wallets_handler money WlTxnsNext s =
     (if wl_txnTarget s \<noteq> None \<and> wl_txnsError s = None \<and> \<not> wl_txnsLoading s
        \<and> (case lastTxnsPage s of Some l \<Rightarrow> int (wl_txnsPage s) < l | None \<Rightarrow> True)
      then Set (\<lambda>x. txn_rerun (x\<lparr>wl_txnsPage := Suc (wl_txnsPage x)\<rparr>)) Done else Done)"
| "wallets_handler money WlTxnsClose s =
     (if wl_txnTarget s = None then Done else Set (\<lambda>x. txn_rerun (x\<lparr>wl_txnTarget := None\<rparr>)) Done)"

definition open_wallets :: wallets_page where
  "open_wallets = \<lparr>toasts = [], pl_page = 1, pl_rows = [], pl_meta = None, pl_loading = True, pl_error = None, pl_run = 0, pl_due = True,
     wl_wallets = [], wl_walletsLoading = True, wl_run = 0, wl_due = True, wl_adjustTarget = None, wl_form = empty_adjust,
     wl_formError = None, wl_submitting = False, wl_confirmOpen = False, wl_txnTarget = None, wl_txns = [], wl_txnsMeta = None,
     wl_txnsPage = 1, wl_txnsLoading = False, wl_txnsError = None, wl_txnRun = 0, wl_txnDue = False, wl_selected = [],
     wl_bulkAdjustOpen = False, wl_bulkForm = empty_adjust, wl_bulkFormError = None, wl_bulkBusy = False, wl_bulkConfirmOpen = False\<rparr>"

text \<open>The cells of the two tables that are computed.\<close>

definition ellipsis :: string where
  "ellipsis = [CHR 0xE2, CHR 0x80, CHR 0xA6]"

definition balance_cell :: "money_text \<Rightarrow> string \<Rightarrow> wallets_page \<Rightarrow> json \<Rightarrow> string" where
  "balance_cell money k s org =
     (case wallet_of s (row_id org) of
        None \<Rightarrow> if wl_walletsLoading s then ellipsis else em_dash
      | Some w \<Rightarrow> money (Fin (num_prop k w)) (wallet_currency (Some w)))"

definition currency_cell :: "wallets_page \<Rightarrow> json \<Rightarrow> string" where
  "currency_cell s org = (case wallet_currency (wallet_of s (row_id org)) of Some c \<Rightarrow> c | None \<Rightarrow> ellipsis)"

definition txn_amount :: "json \<Rightarrow> rat" where
  "txn_amount txn = (if str_prop ''direction'' txn = ''debit'' then - num_prop ''amount'' txn else num_prop ''amount'' txn)"

definition txn_text :: "json \<Rightarrow> string" where
  "txn_text txn = (if str_prop ''description'' txn \<noteq> [] then str_prop ''description'' txn
     else if str_prop ''reference_type'' txn \<noteq> [] then str_prop ''reference_type'' txn else em_dash)"

end
