(* ===== verification/Wallet_Finance.thy ===== *)
theory Wallet_Finance
  imports Wallet_Ledger
begin

text \<open>
  The page of one organisation's wallet in the admin console (\<open>admin/billing/pages/OrgWallet.tsx\<close>) and the wallet
  pages of the finance console (\<open>finance/pages/Wallets.tsx\<close>, \<open>OrgWallet.tsx\<close>). Their forms have no field for the currency:
  that cell of the form is not read.
\<close>

subsection \<open>The page of one wallet in the admin console\<close>

text \<open>\<open>ow_nameDue\<close> is the next page of the organisation list the name search asks for; the search is a loop with
  an \<open>await\<close> in every round, so a round is an event. The route parameter is the argument \<open>orgId\<close> of the
  handler; another organisation is another page.\<close>

record org_wallet = ui +
  ow_wallet :: "json option"
  ow_loading :: bool
  ow_error :: "js_error option"
  ow_run :: nat
  ow_due :: bool
  ow_orgName :: "string option"
  ow_nameDue :: "nat option"
  ow_form :: adjust_form
  ow_formError :: "string option"
  ow_confirmOpen :: bool
  ow_submitting :: bool
  ow_txns :: "json list"
  ow_txnsMeta :: "json option"
  ow_txnsPage :: nat
  ow_txnsLoading :: bool
  ow_txnsError :: "js_error option"
  ow_txnRun :: nat
  ow_txnDue :: bool

text \<open>\<open>useApiDetail("/wallet", headers)\<close>.\<close>

definition in_detail_run :: "nat \<Rightarrow> (org_wallet \<Rightarrow> org_wallet) \<Rightarrow> org_wallet \<Rightarrow> org_wallet" where
  "in_detail_run r f s = (if ow_run s = r then f s else s)"

definition detail_effect :: "string \<Rightarrow> org_wallet \<Rightarrow> org_wallet api_script" where
  "detail_effect orgId s =
     (if \<not> ow_due s then Done
      else if orgId = []
      then Set (\<lambda>x. x\<lparr>ow_due := False, ow_loading := False, ow_error := Some (PlainError ''No identifier in route.'')\<rparr>) Done
      else Set (\<lambda>x. x\<lparr>ow_due := False, ow_loading := True, ow_error := None\<rparr>)
        (try_catch
          (await (api_get ''/wallet'' (wallet_opts orgId))
            (\<lambda>e. Set (in_detail_run (ow_run s) (\<lambda>x. x\<lparr>ow_wallet := non_null (env_data e), ow_loading := False\<rparr>)) Done))
          (\<lambda>cause. Set (in_detail_run (ow_run s) (\<lambda>x. x\<lparr>ow_error := Some cause, ow_loading := False\<rparr>)) Done)))"

definition name_found :: "string \<Rightarrow> json list \<Rightarrow> string option" where
  "name_found orgId rows =
     (case find (\<lambda>org. prop_of org ''id'' = Some (JStr orgId)) rows of
        Some org \<Rightarrow> Some (if str_prop ''name'' org \<noteq> [] then str_prop ''name'' org else str_prop ''slug'' org)
      | None \<Rightarrow> None)"

text \<open>One round: the name, or the next page unless the total says that this was the last.\<close>

definition name_round :: "string \<Rightarrow> nat \<Rightarrow> org_wallet api_script" where
  "name_round orgId page =
     Set (ow_nameDue_update (\<lambda>_. None))
       (try_catch
         (await (api_get ''/admin/organizations'' \<lparr>ao_headers = None,
                   ao_query = Some [(''page'', QNum (of_nat page)), (''per_page'', QNum 100)]\<rparr>)
           (\<lambda>e. if env_data e = JNull then Throw (PlainError ''TypeError'')
             else case name_found orgId (array_or_empty (Some (env_data e))) of
                    Some name \<Rightarrow> Set (ow_orgName_update (\<lambda>_. Some name)) Done
                  | None \<Rightarrow>
                      if (case meta_num ''total'' (env_meta e) of Some t \<Rightarrow> of_nat page * 100 \<ge> t | None \<Rightarrow> False) then Done
                      else Set (ow_nameDue_update (\<lambda>_. Some (Suc page))) Done))
         (\<lambda>_. Done))"

definition txn_again :: "org_wallet \<Rightarrow> org_wallet" where
  "txn_again s = s\<lparr>ow_txnRun := Suc (ow_txnRun s), ow_txnDue := True\<rparr>"

definition in_ledger_run :: "nat \<Rightarrow> (org_wallet \<Rightarrow> org_wallet) \<Rightarrow> org_wallet \<Rightarrow> org_wallet" where
  "in_ledger_run r f s = (if ow_txnRun s = r then f s else s)"

definition ledger_effect :: "string \<Rightarrow> org_wallet \<Rightarrow> org_wallet api_script" where
  "ledger_effect orgId s =
     (if orgId = [] \<or> \<not> ow_txnDue s then Done
      else Set (\<lambda>x. x\<lparr>ow_txnDue := False, ow_txnsLoading := True, ow_txnsError := None\<rparr>)
        (try_catch
          (await (api_get ''/wallet/transactions'' (ledger_opts orgId (ow_txnsPage s)))
            (\<lambda>e. Set (in_ledger_run (ow_txnRun s) (\<lambda>x. x\<lparr>ow_txns := array_or_empty (Some (env_data e)),
                   ow_txnsMeta := Option.bind (env_meta e) non_null, ow_txnsLoading := False\<rparr>)) Done))
          (\<lambda>cause. Set (in_ledger_run (ow_txnRun s) (\<lambda>x. x\<lparr>ow_txns := [], ow_txnsError := Some cause, ow_txnsLoading := False\<rparr>)) Done)))"

definition reloadAll :: "org_wallet \<Rightarrow> org_wallet" where
  "reloadAll s = txn_again (s\<lparr>ow_run := Suc (ow_run s), ow_due := True, ow_txnsPage := 1\<rparr>)"

definition org_adjust_problem :: "adjust_form \<Rightarrow> string option" where
  "org_adjust_problem f =
     (if trim (af_amount f) = [] \<or> \<not> num_greater (js_Number (af_amount f)) 0 then Some ''Amount must be a number greater than 0.''
      else if trim (af_description f) = []
      then Some (''Description is required '' @ em_dash @ '' it is stored on the ledger entry.'')
      else None)"

definition org_submitAdjust :: "string \<Rightarrow> org_wallet \<Rightarrow> org_wallet api_script" where
  "org_submitAdjust orgId s =
     (if orgId = [] then Done
      else case org_adjust_problem (ow_form s) of
             Some message \<Rightarrow> Set (ow_formError_update (\<lambda>_. Some message)) Done
           | None \<Rightarrow> Set (ow_formError_update (\<lambda>_. None)) (Set (ow_confirmOpen_update (\<lambda>_. True)) Done))"

definition clear_entry :: "adjust_form \<Rightarrow> adjust_form" where
  "clear_entry f = f\<lparr>af_amount := [], af_description := []\<rparr>"

definition org_applyAdjust :: "money_text \<Rightarrow> string \<Rightarrow> org_wallet \<Rightarrow> org_wallet api_script" where
  "org_applyAdjust money orgId s =
     (if orgId = [] then Done
      else with_flag ow_submitting_update
        (try_catch
          (await (adjust_call orgId (adjust_body_plain (ow_form s)))
            (\<lambda>_. Set (toast_success (''Wallet '' @ (if is_credit (ow_form s) then ''credited'' else ''debited'') @ '' ''
                      @ money (js_Number (af_amount (ow_form s))) (Some (currency_or_IDR (ow_wallet s)))))
                (Set (\<lambda>x. reloadAll (x\<lparr>ow_confirmOpen := False, ow_form := clear_entry (ow_form x)\<rparr>)) Done)))
          (\<lambda>cause. Set (toast_error (api_message ''Failed to adjust wallet.'' cause))
              (Set (ow_confirmOpen_update (\<lambda>_. False)) Done))))"

text \<open>The heading: the name, the wallet's organisation or the parameter.\<close>

definition wallet_heading :: "string \<Rightarrow> org_wallet \<Rightarrow> string" where
  "wallet_heading orgId s =
     (case ow_orgName s of
        Some name \<Rightarrow> name
      | None \<Rightarrow> case opt_prop (ow_wallet s) ''organization_id'' of Some (JStr i) \<Rightarrow> i | _ \<Rightarrow> orgId)"

definition pager_page :: "org_wallet \<Rightarrow> nat" where
  "pager_page s = (case meta_num ''page'' (ow_txnsMeta s) of Some q \<Rightarrow> nat \<lfloor>q\<rfloor> | None \<Rightarrow> ow_txnsPage s)"

definition set_txns_page :: "nat \<Rightarrow> org_wallet \<Rightarrow> org_wallet" where
  "set_txns_page p s = (if p = ow_txnsPage s then s else txn_again (s\<lparr>ow_txnsPage := p\<rparr>))"

datatype org_wallet_event =
    OwWallet
  | OwName
  | OwLedger
  | OwRefresh
  | OwField adjust_field
  | OwSubmit
  | OwCancel
  | OwApply
  | OwPrevious
  | OwNext

fun org_wallet_handler :: "money_text \<Rightarrow> string \<Rightarrow> org_wallet_event \<Rightarrow> org_wallet \<Rightarrow> org_wallet api_script" where
  "org_wallet_handler money orgId OwWallet s = detail_effect orgId s"
| "org_wallet_handler money orgId OwName s =
     (case ow_nameDue s of Some page \<Rightarrow> if orgId = [] then Done else name_round orgId page | None \<Rightarrow> Done)"
| "org_wallet_handler money orgId OwLedger s = ledger_effect orgId s"
| "org_wallet_handler money orgId OwRefresh s = (if ow_loading s \<or> ow_confirmOpen s then Done else Set reloadAll Done)"
| "org_wallet_handler money orgId (OwField f) s =
     (if ow_confirmOpen s then Done else Set (ow_form_update (set_adjust f)) Done)"
| "org_wallet_handler money orgId OwSubmit s = (if ow_confirmOpen s then Done else org_submitAdjust orgId s)"
| "org_wallet_handler money orgId OwCancel s = (if ow_submitting s then Done else Set (ow_confirmOpen_update (\<lambda>_. False)) Done)"
| "org_wallet_handler money orgId OwApply s =
     (if ow_confirmOpen s \<and> \<not> ow_submitting s then org_applyAdjust money orgId s else Done)"
| "org_wallet_handler money orgId OwPrevious s =
     (if \<not> ow_confirmOpen s \<and> ow_txnsError s = None \<and> pager_previous (ow_txnsLoading s) (pager_page s)
      then Set (set_txns_page (pager_page s - 1)) Done else Done)"
| "org_wallet_handler money orgId OwNext s =
     (if \<not> ow_confirmOpen s \<and> ow_txnsError s = None \<and> pager_next (ow_txnsLoading s) (pager_page s) (ow_txnsMeta s)
      then Set (set_txns_page (pager_page s + 1)) Done else Done)"

definition open_org_wallet :: "string \<Rightarrow> org_wallet" where
  "open_org_wallet orgId = \<lparr>toasts = [], ow_wallet = None, ow_loading = (orgId \<noteq> []), ow_error = None, ow_run = 0, ow_due = True,
     ow_orgName = None, ow_nameDue = Some 1, ow_form = empty_adjust, ow_formError = None, ow_confirmOpen = False,
     ow_submitting = False, ow_txns = [], ow_txnsMeta = None, ow_txnsPage = 1, ow_txnsLoading = True, ow_txnsError = None,
     ow_txnRun = 0, ow_txnDue = True\<rparr>"

subsection \<open>The wallets of the finance console\<close>

record org_ref =
  or_id :: string
  or_public :: string
  or_slug :: string

text \<open>Balances are numbers by the declared type.\<close>

record wallet_row = org_ref +
  wr_balance :: rat
  wr_reserved :: rat
  wr_currency :: string
  wr_loadError :: "string option"

record fin_wallets = ui +
  fw_rows :: "wallet_row list"
  fw_totalBalance :: "json option"
  fw_loading :: bool
  fw_error :: "js_error option"
  fw_txOrg :: "wallet_row option"
  fw_txRows :: "json list"
  fw_txMeta :: "json option"
  fw_txPage :: nat
  fw_txLoading :: bool
  fw_txDue :: bool
  fw_adjustOrg :: "wallet_row option"
  fw_confirmAdjust :: bool
  fw_form :: adjust_form
  fw_adjusting :: bool

definition org_ref_of :: "json \<Rightarrow> org_ref" where
  "org_ref_of row = \<lparr>or_id = str_prop ''organization_id'' row, or_public = str_prop ''org_public_id'' row, or_slug = str_prop ''org_slug'' row\<rparr>"

text \<open>The \<open>Map\<close> of organisations: a key keeps its first position and its last value.\<close>

definition collect_orgs :: "json list \<Rightarrow> (string \<times> org_ref) list \<Rightarrow> (string \<times> org_ref) list" where
  "collect_orgs rows orgs = fold (\<lambda>row. AList.update (str_prop ''organization_id'' row) (org_ref_of row)) rows orgs"

definition MAX_WALLETS :: nat where
  "MAX_WALLETS = 50"

definition wallet_refs :: "json list \<Rightarrow> json list \<Rightarrow> json list \<Rightarrow> org_ref list" where
  "wallet_refs orders invoices payments =
     take MAX_WALLETS (map snd (collect_orgs payments (collect_orgs invoices (collect_orgs orders []))))"

definition amount_of :: "string \<Rightarrow> json \<Rightarrow> rat" where
  "amount_of k w =
     (case prop_of w k of Some (JNum q) \<Rightarrow> q | Some (JStr t) \<Rightarrow> (case js_Number t of Fin q \<Rightarrow> q | _ \<Rightarrow> 0) | _ \<Rightarrow> 0)"

text \<open>The worker of \<open>mapLimited\<close>: it catches, so it never rejects.\<close>

definition wallet_worker :: "org_ref \<Rightarrow> api_result \<Rightarrow> wallet_row" where
  "wallet_worker ref r =
     (case r of
        Inr e \<Rightarrow>
          if env_data e = JNull
          then \<lparr>or_id = or_id ref, or_public = or_public ref, or_slug = or_slug ref, wr_balance = 0, wr_reserved = 0,
                wr_currency = ''IDR'', wr_loadError = Some ''TypeError''\<rparr>
          else \<lparr>or_id = or_id ref, or_public = or_public ref, or_slug = or_slug ref, wr_balance = amount_of ''balance'' (env_data e),
                wr_reserved = amount_of ''reserved_balance'' (env_data e),
                wr_currency = (if str_prop ''currency'' (env_data e) = [] then ''IDR'' else str_prop ''currency'' (env_data e)),
                wr_loadError = None\<rparr>
      | Inl cause \<Rightarrow> \<lparr>or_id = or_id ref, or_public = or_public ref, or_slug = or_slug ref, wr_balance = 0, wr_reserved = 0,
                wr_currency = ''IDR'', wr_loadError = Some (err_message cause)\<rparr>)"

definition richest_first :: "wallet_row list \<Rightarrow> wallet_row list" where
  "richest_first rows = sort_key (\<lambda>r. - wr_balance r) rows"

definition per_page_100 :: api_options where
  "per_page_100 = \<lparr>ao_headers = None, ao_query = Some [(''per_page'', QNum 100)]\<rparr>"

definition billing_rows :: "envelope \<Rightarrow> json list" where
  "billing_rows e = array_or_empty (Some (env_data e))"

text \<open>The wallets are read by \<open>mapLimited\<close> with eight runners; \<open>mapLimited_maps\<close> shows that its result is the
  list of all answers in order, which is what the second \<open>Await\<close> passes on.\<close>

definition loadWallets :: "fin_wallets api_script" where
  "loadWallets =
     with_flag fw_loading_update (Set (fw_error_update (\<lambda>_. None))
       (try_catch
         (await_all [api_get ''/admin/orders'' per_page_100, api_get ''/admin/invoices'' per_page_100,
                     api_get ''/admin/payments'' per_page_100,
                     api_get ''/admin/finance/summary'' \<lparr>ao_headers = None, ao_query = Some [(''days'', QNum 30)]\<rparr>]
           (\<lambda>rs. if env_data (rs ! 3) = JNull then Throw (PlainError ''TypeError'')
             else Set (fw_totalBalance_update (\<lambda>_. Option.bind (prop_of (env_data (rs ! 3)) ''wallet_balance_total'') non_null))
               (if env_data (rs ! 0) = JNull \<or> env_data (rs ! 1) = JNull \<or> env_data (rs ! 2) = JNull
                then Throw (PlainError ''TypeError'')
                else let refs = wallet_refs (billing_rows (rs ! 0)) (billing_rows (rs ! 1)) (billing_rows (rs ! 2)) in
                  Await (map (\<lambda>ref. api_get ''/wallet'' (wallet_opts (or_id ref))) refs)
                    (\<lambda>ws n. Set (fw_rows_update (\<lambda>_. richest_first (map2 wallet_worker refs ws))) Done))))
         (\<lambda>cause. Set (fw_error_update (\<lambda>_. Some cause)) Done)))"

definition fin_loadTransactions :: "wallet_row \<Rightarrow> nat \<Rightarrow> fin_wallets api_script" where
  "fin_loadTransactions org page =
     with_flag fw_txLoading_update
       (try_catch
         (await (api_get ''/wallet/transactions'' (ledger_opts (or_id org) page))
           (\<lambda>e. Set (fw_txRows_update (\<lambda>_. array_or_empty (Some (env_data e))))
               (Set (fw_txMeta_update (\<lambda>_. Option.bind (env_meta e) non_null)) Done)))
         (\<lambda>cause. Set (fw_error_update (\<lambda>_. Some cause)) Done))"

definition fin_adjust_problem :: "adjust_form \<Rightarrow> string option" where
  "fin_adjust_problem f =
     (if af_amount f = [] \<or> \<not> isFinite (js_Number (af_amount f)) \<or> \<not> num_greater (js_Number (af_amount f)) 0
      then Some ''Amount must be greater than zero''
      else if trim (af_description f) = [] then Some ''Description is required''
      else None)"

definition fin_submitAdjust :: "money_text \<Rightarrow> fin_wallets \<Rightarrow> fin_wallets api_script" where
  "fin_submitAdjust money s =
     (case fw_adjustOrg s of
        None \<Rightarrow> Done
      | Some org \<Rightarrow>
          case fin_adjust_problem (fw_form s) of
            Some message \<Rightarrow> Set (toast_error message) Done
          | None \<Rightarrow>
              with_flag fw_adjusting_update
                (try_catch
                  (await (adjust_call (or_id org) (adjust_body_plain (fw_form s)))
                    (\<lambda>_. Set (toast_success (''Wallet '' @ (if is_credit (fw_form s) then ''credited'' else ''debited'') @ '' by ''
                              @ money (js_Number (af_amount (fw_form s))) None @ '' for '' @ or_slug org))
                        (Set (fw_confirmAdjust_update (\<lambda>_. False)) (Set (fw_adjustOrg_update (\<lambda>_. None))
                          (Set (fw_form_update clear_entry) loadWallets)))))
                  (\<lambda>cause. Set (toast_error (api_message ''Adjustment failed'' cause)) Done)))"

definition tx_due :: "fin_wallets \<Rightarrow> fin_wallets" where
  "tx_due s = s\<lparr>fw_txDue := (fw_txOrg s \<noteq> None)\<rparr>"

text \<open>\<open>TablePagination\<close>: the page of the meta data and whether there is a next one.\<close>

definition TablePagination :: "json option \<Rightarrow> (nat \<times> bool) option" where
  "TablePagination meta =
     (case (meta_num ''page'' meta, meta_num ''per_page'' meta) of
        (Some p, Some q) \<Rightarrow>
          Some (nat \<lfloor>p\<rfloor>, (case meta_num ''total'' meta of
                           Some t \<Rightarrow> if q > 0 then p < of_int (max \<lceil>t / q\<rceil> 1) else True
                         | None \<Rightarrow> True))
      | _ \<Rightarrow> None)"

definition prev_page :: "json option \<Rightarrow> nat option" where
  "prev_page meta = (case TablePagination meta of Some (p, _) \<Rightarrow> if 1 < p then Some (p - 1) else None | None \<Rightarrow> None)"

definition next_page :: "json option \<Rightarrow> nat option" where
  "next_page meta = (case TablePagination meta of Some (p, True) \<Rightarrow> Some (Suc p) | _ \<Rightarrow> None)"

definition fin_row :: "nat \<Rightarrow> fin_wallets \<Rightarrow> wallet_row option" where
  "fin_row i s =
     (if \<not> fw_loading s \<and> fw_txOrg s = None \<and> fw_adjustOrg s = None \<and> \<not> fw_confirmAdjust s \<and> i < length (fw_rows s)
      then Some (fw_rows s ! i) else None)"

definition fin_set_page :: "nat option \<Rightarrow> fin_wallets \<Rightarrow> fin_wallets" where
  "fin_set_page p s = (case p of Some p \<Rightarrow> if p = fw_txPage s then s else tx_due (s\<lparr>fw_txPage := p\<rparr>) | None \<Rightarrow> s)"

datatype fin_wallets_event =
    FwLoad
  | FwRefresh
  | FwTxns nat
  | FwTxEffect
  | FwTxPrev
  | FwTxNext
  | FwTxClose
  | FwAdjust nat
  | FwAdjustClose
  | FwField adjust_field
  | FwReview
  | FwConfirm bool
  | FwApply

fun fin_wallets_handler :: "money_text \<Rightarrow> fin_wallets_event \<Rightarrow> fin_wallets \<Rightarrow> fin_wallets api_script" where
  "fin_wallets_handler money FwLoad s = loadWallets"
| "fin_wallets_handler money FwRefresh s = (if fw_loading s then Done else loadWallets)"
| "fin_wallets_handler money (FwTxns i) s =
     (case fin_row i s of
        Some row \<Rightarrow> Set (\<lambda>x. tx_due (x\<lparr>fw_txPage := 1, fw_txRows := [], fw_txMeta := None, fw_txOrg := Some row\<rparr>)) Done
      | None \<Rightarrow> Done)"
| "fin_wallets_handler money FwTxEffect s =
     (case fw_txOrg s of
        Some org \<Rightarrow> if fw_txDue s then Set (fw_txDue_update (\<lambda>_. False)) (fin_loadTransactions org (fw_txPage s)) else Done
      | None \<Rightarrow> Done)"
| "fin_wallets_handler money FwTxPrev s = (if fw_txOrg s = None then Done else Set (fin_set_page (prev_page (fw_txMeta s))) Done)"
| "fin_wallets_handler money FwTxNext s = (if fw_txOrg s = None then Done else Set (fin_set_page (next_page (fw_txMeta s))) Done)"
| "fin_wallets_handler money FwTxClose s = Set (\<lambda>x. tx_due (x\<lparr>fw_txOrg := None\<rparr>)) Done"
| "fin_wallets_handler money (FwAdjust i) s =
     (case fin_row i s of Some row \<Rightarrow> Set (fw_adjustOrg_update (\<lambda>_. Some row)) Done | None \<Rightarrow> Done)"
| "fin_wallets_handler money FwAdjustClose s =
     (if fw_confirmAdjust s then Done else Set (fw_adjustOrg_update (\<lambda>_. None)) Done)"
| "fin_wallets_handler money (FwField f) s =
     (if fw_adjustOrg s \<noteq> None \<and> \<not> fw_confirmAdjust s then Set (fw_form_update (set_adjust f)) Done else Done)"
| "fin_wallets_handler money FwReview s =
     (if fw_adjustOrg s \<noteq> None \<and> \<not> fw_adjusting s \<and> \<not> fw_confirmAdjust s then Set (fw_confirmAdjust_update (\<lambda>_. True)) Done else Done)"
| "fin_wallets_handler money (FwConfirm v) s = (if fw_confirmAdjust s then Set (fw_confirmAdjust_update (\<lambda>_. v)) Done else Done)"
| "fin_wallets_handler money FwApply s = (if fw_confirmAdjust s \<and> \<not> fw_adjusting s then fin_submitAdjust money s else Done)"

definition open_fin_wallets :: fin_wallets where
  "open_fin_wallets = \<lparr>toasts = [], fw_rows = [], fw_totalBalance = None, fw_loading = True, fw_error = None, fw_txOrg = None,
     fw_txRows = [], fw_txMeta = None, fw_txPage = 1, fw_txLoading = False, fw_txDue = False, fw_adjustOrg = None,
     fw_confirmAdjust = False, fw_form = empty_adjust, fw_adjusting = False\<rparr>"

subsection \<open>The page of one wallet in the finance console\<close>

record fin_org_wallet = ui +
  fo_wallet :: "json option"
  fo_walletError :: "js_error option"
  fo_loading :: bool
  fo_orgLabel :: string
  fo_txRows :: "json list"
  fo_txMeta :: "json option"
  fo_txPage :: nat
  fo_txLoading :: bool
  fo_txError :: "js_error option"
  fo_txDue :: bool
  fo_form :: adjust_form
  fo_confirmAdjust :: bool
  fo_adjusting :: bool

definition wallet_loaded :: "api_result \<Rightarrow> fin_org_wallet \<Rightarrow> fin_org_wallet" where
  "wallet_loaded r s =
     (case r of Inr e \<Rightarrow> s\<lparr>fo_wallet := non_null (env_data e), fo_loading := False\<rparr>
      | Inl cause \<Rightarrow> s\<lparr>fo_walletError := Some cause, fo_loading := False\<rparr>)"

definition txns_loaded :: "api_result \<Rightarrow> fin_org_wallet \<Rightarrow> fin_org_wallet" where
  "txns_loaded r s =
     (case r of Inr e \<Rightarrow> s\<lparr>fo_txRows := array_or_empty (Some (env_data e)), fo_txMeta := Option.bind (env_meta e) non_null, fo_txLoading := False\<rparr>
      | Inl cause \<Rightarrow> s\<lparr>fo_txError := Some cause, fo_txLoading := False\<rparr>)"

definition wallet_start :: "fin_org_wallet \<Rightarrow> fin_org_wallet" where
  "wallet_start s = s\<lparr>fo_loading := True, fo_walletError := None\<rparr>"

definition txns_start :: "fin_org_wallet \<Rightarrow> fin_org_wallet" where
  "txns_start s = s\<lparr>fo_txLoading := True, fo_txError := None\<rparr>"

definition org_loadWallet :: "string \<Rightarrow> fin_org_wallet api_script" where
  "org_loadWallet orgId =
     (if orgId = [] then Done
      else Set wallet_start (Await [api_get ''/wallet'' (wallet_opts orgId)] (\<lambda>rs n. Set (wallet_loaded (hd rs)) Done)))"

definition org_loadTransactions :: "string \<Rightarrow> nat \<Rightarrow> fin_org_wallet api_script" where
  "org_loadTransactions orgId page =
     (if orgId = [] then Done
      else Set txns_start (Await [api_get ''/wallet/transactions'' (ledger_opts orgId page)] (\<lambda>rs n. Set (txns_loaded (hd rs)) Done)))"

definition label_effect :: "string \<Rightarrow> fin_org_wallet api_script" where
  "label_effect orgId =
     (if orgId = [] then Done
      else try_catch
        (await (api_get ''/admin/orders'' per_page_100)
          (\<lambda>e. case find (\<lambda>row. prop_of row ''organization_id'' = Some (JStr orgId)) (billing_rows e) of
                 Some row \<Rightarrow> Set (fo_orgLabel_update (\<lambda>_. str_prop ''org_slug'' row)) Done
               | None \<Rightarrow> Done))
        (\<lambda>_. Done))"

text \<open>After an adjustment both loads run together; \<open>Promise.all\<close> waits for the two, which never reject.\<close>

definition org_fin_submitAdjust :: "money_text \<Rightarrow> string \<Rightarrow> fin_org_wallet \<Rightarrow> fin_org_wallet api_script" where
  "org_fin_submitAdjust money orgId s =
     (if orgId = [] then Done
      else case fin_adjust_problem (fo_form s) of
             Some message \<Rightarrow> Set (toast_error message) Done
           | None \<Rightarrow>
               with_flag fo_adjusting_update
                 (try_catch
                   (await (adjust_call orgId (adjust_body_plain (fo_form s)))
                     (\<lambda>_. Set (toast_success (''Wallet '' @ (if is_credit (fo_form s) then ''credited'' else ''debited'') @ '' by ''
                               @ money (js_Number (af_amount (fo_form s))) None))
                         (Set (fo_confirmAdjust_update (\<lambda>_. False)) (Set (fo_form_update clear_entry)
                           (Set wallet_start (Set txns_start
                             (Await [api_get ''/wallet'' (wallet_opts orgId),
                                     api_get ''/wallet/transactions'' (ledger_opts orgId (fo_txPage s))]
                               (\<lambda>rs n. Set (wallet_loaded (rs ! 0)) (Set (txns_loaded (rs ! 1)) Done))))))))
                   ) (\<lambda>cause. Set (toast_error (api_message ''Adjustment failed'' cause)) Done)))"

definition fo_set_page :: "nat option \<Rightarrow> fin_org_wallet \<Rightarrow> fin_org_wallet" where
  "fo_set_page p s = (case p of Some p \<Rightarrow> if p = fo_txPage s then s else s\<lparr>fo_txPage := p, fo_txDue := True\<rparr> | None \<Rightarrow> s)"

text \<open>What the top of the page shows.\<close>

datatype wallet_view = WalletRetry | WalletSkeleton | WalletCards json | WalletNothing

definition wallet_view_of :: "fin_org_wallet \<Rightarrow> wallet_view" where
  "wallet_view_of s =
     (if fo_walletError s \<noteq> None then WalletRetry
      else case fo_wallet s of
             Some w \<Rightarrow> WalletCards w
           | None \<Rightarrow> if fo_loading s then WalletSkeleton else WalletNothing)"

datatype fin_org_event =
    FoLabel
  | FoTxEffect
  | FoRetry
  | FoField adjust_field
  | FoReview
  | FoConfirm bool
  | FoApply
  | FoPrev
  | FoNext

fun fin_org_handler :: "money_text \<Rightarrow> string \<Rightarrow> fin_org_event \<Rightarrow> fin_org_wallet \<Rightarrow> fin_org_wallet api_script" where
  "fin_org_handler money orgId FoLabel s = label_effect orgId"
| "fin_org_handler money orgId FoTxEffect s =
     (if fo_txDue s then Set (fo_txDue_update (\<lambda>_. False)) (org_loadTransactions orgId (fo_txPage s)) else Done)"
| "fin_org_handler money orgId FoRetry s =
     (if wallet_view_of s = WalletRetry \<and> \<not> fo_loading s \<and> \<not> fo_confirmAdjust s then org_loadWallet orgId else Done)"
| "fin_org_handler money orgId (FoField f) s = (if fo_confirmAdjust s then Done else Set (fo_form_update (set_adjust f)) Done)"
| "fin_org_handler money orgId FoReview s =
     (if fo_adjusting s \<or> fo_confirmAdjust s then Done else Set (fo_confirmAdjust_update (\<lambda>_. True)) Done)"
| "fin_org_handler money orgId (FoConfirm v) s = (if fo_confirmAdjust s then Set (fo_confirmAdjust_update (\<lambda>_. v)) Done else Done)"
| "fin_org_handler money orgId FoApply s =
     (if fo_confirmAdjust s \<and> \<not> fo_adjusting s then org_fin_submitAdjust money orgId s else Done)"
| "fin_org_handler money orgId FoPrev s =
     (if fo_txError s = None \<and> \<not> fo_confirmAdjust s then Set (fo_set_page (prev_page (fo_txMeta s))) Done else Done)"
| "fin_org_handler money orgId FoNext s =
     (if fo_txError s = None \<and> \<not> fo_confirmAdjust s then Set (fo_set_page (next_page (fo_txMeta s))) Done else Done)"

definition open_fin_org :: fin_org_wallet where
  "open_fin_org = \<lparr>toasts = [], fo_wallet = None, fo_walletError = None, fo_loading = True, fo_orgLabel = [], fo_txRows = [],
     fo_txMeta = None, fo_txPage = 1, fo_txLoading = True, fo_txError = None, fo_txDue = True, fo_form = empty_adjust,
     fo_confirmAdjust = False, fo_adjusting = False\<rparr>"

end
