(* ===== verification/Wallet_Requests.thy ===== *)
theory Wallet_Requests
  imports Wallet_Finance
begin

text \<open>
  When money moves: interpretations of \<open>page_machine\<close>, \<open>page_lead\<close> and \<open>page_flag\<close> for the four wallet pages.
\<close>

subsection \<open>Valid adjustments\<close>

definition directed :: "adjust_form \<Rightarrow> bool" where
  "directed f \<longleftrightarrow> af_direction f \<in> {''credit'', ''debit''}"

definition valid_adjust :: "json \<Rightarrow> bool" where
  "valid_adjust body \<longleftrightarrow> prop_of body ''direction'' \<in> {Some (JStr ''credit''), Some (JStr ''debit'')}
     \<and> number_where (\<lambda>q. 0 < q) ''amount'' body \<and> trimmed_text ''description'' body
     \<and> (prop_of body ''currency'' = None \<or> (\<exists>c. prop_of body ''currency'' = Some (JStr c) \<and> js_length c = 3 \<and> toUpperCase c = c))"

definition read_or_adjust :: "api_call \<Rightarrow> bool" where
  "read_or_adjust c \<longleftrightarrow> is_get c \<or> (\<exists>org body. valid_adjust body \<and> c = adjust_call org body)"

lemma set_adjust_directed: "directed f \<Longrightarrow> directed (set_adjust e f)"
  by (cases e) (auto simp: directed_def pick_def nth_Cons')

lemma positive_number: "num_greater n 0 \<Longrightarrow> js_num_json n \<in> {JNull} \<union> {JNum q |q. 0 < q}"
  by (cases n) (simp_all add: num_greater_def js_num_json_def)

lemma adjust_body_valid: "adjust_problem f = None \<Longrightarrow> directed f \<Longrightarrow> valid_adjust (adjust_body f)"
  using positive_number [of "js_Number (af_amount f)"]
  by (auto simp: adjust_problem_def directed_def valid_adjust_def adjust_body_def number_where_def trimmed_text_def trim_idem
      adjust_currency_def split: if_splits)

lemma plain_body_valid:
  "num_greater (js_Number (af_amount f)) 0 \<Longrightarrow> trim (af_description f) \<noteq> [] \<Longrightarrow> directed f \<Longrightarrow> valid_adjust (adjust_body_plain f)"
  using positive_number [of "js_Number (af_amount f)"]
  by (auto simp: directed_def valid_adjust_def adjust_body_plain_def number_where_def trimmed_text_def trim_idem)

lemma get_read [simp]: "read_or_adjust (api_get p opts)"
  by (simp add: read_or_adjust_def)

lemma adjust_allowed: "valid_adjust body \<Longrightarrow> read_or_adjust (adjust_call org body)"
  by (auto simp: read_or_adjust_def)

lemma directed_simps [simp]: "directed empty_adjust" "directed (f\<lparr>af_currency := c\<rparr>) = directed f" "directed (clear_entry f) = directed f"
  by (simp_all add: directed_def empty_adjust_def clear_entry_def)

subsection \<open>How scripts that trigger effects behave\<close>

lemma script_ok_follow [script_intros]:
  "script_ok (\<lambda>_. True) allowed s \<Longrightarrow> script_ok (\<lambda>_. True) allowed (follow_script w s)"
  by (induction s) auto

lemma script_ok_follow_keep:
  "script_ok I allowed s \<Longrightarrow> (\<And>x y. I y \<Longrightarrow> I (w x y)) \<Longrightarrow> script_ok I allowed (follow_script w s)"
  by (induction s) auto

lemma calls_lead_follow [script_intros]: "calls_lead later s \<Longrightarrow> calls_lead later (follow_script w s)"
  by (induction s) (auto intro: script_ok_follow)

lemma lead_follow [simp]: "lead_calls (follow_script w s) = lead_calls s"
  by (induction s) simp_all

lemma ends_low_follow [script_intros]:
  "(\<And>x y. busy (w x y) = busy y) \<Longrightarrow> ends_low busy s low \<Longrightarrow> ends_low busy (follow_script w s) low"
  by (induction s arbitrary: low) auto

subsection \<open>The invariants\<close>

definition wallets_inv :: "wallets_page \<Rightarrow> bool" where
  "wallets_inv s \<longleftrightarrow> directed (wl_form s) \<and> directed (wl_bulkForm s)
     \<and> (wl_confirmOpen s \<longrightarrow> adjust_problem (wl_form s) = None)
     \<and> (wl_bulkConfirmOpen s \<longrightarrow> adjust_problem (wl_bulkForm s) = None)"

lemma wallets_inv_frame [simp]:
  "wallets_inv (pl_rows_update f1 s) = wallets_inv s" "wallets_inv (pl_meta_update f2 s) = wallets_inv s"
  "wallets_inv (pl_loading_update f3 s) = wallets_inv s" "wallets_inv (pl_error_update f4 s) = wallets_inv s"
  "wallets_inv (pl_due_update f3 s) = wallets_inv s" "wallets_inv (pl_run_update f5 s) = wallets_inv s"
  "wallets_inv (pl_page_update f5 s) = wallets_inv s" "wallets_inv (wl_wallets_update f6 s) = wallets_inv s"
  "wallets_inv (wl_walletsLoading_update f3 s) = wallets_inv s" "wallets_inv (wl_run_update f5 s) = wallets_inv s"
  "wallets_inv (wl_due_update f3 s) = wallets_inv s" "wallets_inv (wl_adjustTarget_update f7 s) = wallets_inv s"
  "wallets_inv (wl_formError_update f8 s) = wallets_inv s" "wallets_inv (wl_submitting_update f3 s) = wallets_inv s"
  "wallets_inv (wl_txnTarget_update f7 s) = wallets_inv s" "wallets_inv (wl_txns_update f1 s) = wallets_inv s"
  "wallets_inv (wl_txnsMeta_update f9 s) = wallets_inv s" "wallets_inv (wl_txnsPage_update f5 s) = wallets_inv s"
  "wallets_inv (wl_txnsLoading_update f3 s) = wallets_inv s" "wallets_inv (wl_txnsError_update f4 s) = wallets_inv s"
  "wallets_inv (wl_txnRun_update f5 s) = wallets_inv s" "wallets_inv (wl_txnDue_update f3 s) = wallets_inv s"
  "wallets_inv (wl_selected_update f10 s) = wallets_inv s" "wallets_inv (wl_bulkAdjustOpen_update f3 s) = wallets_inv s"
  "wallets_inv (wl_bulkFormError_update f8 s) = wallets_inv s" "wallets_inv (wl_bulkBusy_update f3 s) = wallets_inv s"
  "wallets_inv (toasts_update f11 s) = wallets_inv s"
  by (simp_all add: wallets_inv_def)

lemma wallets_inv_steps:
  "wallets_inv s \<Longrightarrow> wallets_inv (wl_confirmOpen_update (\<lambda>_. False) s)"
  "wallets_inv s \<Longrightarrow> wallets_inv (wl_bulkConfirmOpen_update (\<lambda>_. False) s)"
  "wallets_inv (reloadBalances s) = wallets_inv s" "wallets_inv (rows_replaced before s) = wallets_inv s"
  "wallets_inv (txn_rerun s) = wallets_inv s" "wallets_inv (toast_success m s) = wallets_inv s" "wallets_inv (toast_error m s) = wallets_inv s"
  by (simp_all add: wallets_inv_def reloadBalances_def rows_replaced_def txn_rerun_def toast_success_def toast_error_def)

lemma wallets_inv_runs:
  "(\<And>x. wallets_inv x \<Longrightarrow> wallets_inv (f x)) \<Longrightarrow> wallets_inv s \<Longrightarrow> wallets_inv (in_wallet_run r f s)"
  "(\<And>x. wallets_inv x \<Longrightarrow> wallets_inv (f x)) \<Longrightarrow> wallets_inv s \<Longrightarrow> wallets_inv (in_txn_run r f s)"
  by (simp_all add: in_wallet_run_def in_txn_run_def)

lemma paged_wallets_ok: "script_ok wallets_inv read_or_adjust (follow_script rows_replaced (paged_effect path query n s))"
  by (rule script_ok_follow_keep) (auto simp: wallets_inv_steps intro!: paged_effect_ok)

lemma setPage_wallets: "wallets_inv (setPage p s) = wallets_inv s"
  by (simp add: setPage_def rerun_def)

lemma applyAdjust_ok:
  assumes "wallets_inv s" "wl_confirmOpen s"
  shows "script_ok wallets_inv read_or_adjust (applyAdjust money s)"
  using assms
  by (auto simp: applyAdjust_def wallets_inv_steps adjust_allowed adjust_body_valid wallets_inv_def [of s] intro!: script_intros
      split: option.split)

lemma applyBulk_ok:
  assumes "wallets_inv s" "wl_bulkConfirmOpen s"
  shows "script_ok wallets_inv read_or_adjust (applyBulkAdjust money s)"
proof -
  have "list_all read_or_adjust (bulk_calls s)"
    using assms by (simp add: bulk_calls_def list_all_iff adjust_allowed adjust_body_valid wallets_inv_def)
  then show ?thesis by (auto simp: applyBulkAdjust_def wallets_inv_steps Let_def intro!: script_intros)
qed

lemma effects_ok:
  "script_ok wallets_inv read_or_adjust (balances_effect s)" "script_ok wallets_inv read_or_adjust (txns_effect s)"
  by (auto simp: balances_effect_def txns_effect_def list_all_iff intro!: script_intros wallets_inv_runs split: option.split)

interpretation wallets_valid: page_machine perform_api "wallets_handler money" wallets_inv read_or_adjust for money
proof
  fix u s assume inv: "wallets_inv s"
  show "script_ok_at wallets_inv read_or_adjust (wallets_handler money u s) s"
  proof (cases u)
    case WlList
    then show ?thesis using inv by (simp add: script_ok_imp_at paged_wallets_ok)
  next
    case WlApply
    then show ?thesis using inv by (simp add: script_ok_imp_at applyAdjust_ok)
  next
    case WlBulkApply
    then show ?thesis using inv by (simp add: script_ok_imp_at applyBulk_ok)
  next
    case WlBalances
    then show ?thesis using inv by (simp add: script_ok_imp_at effects_ok)
  next
    case WlTxnsEffect
    then show ?thesis using inv by (simp add: script_ok_imp_at effects_ok)
  next
    case (WlAdjust i)
    then show ?thesis using inv by (auto simp: table_row_def openAdjust_def no_dialog_def wallets_inv_def split: option.split)
  next
    case WlBulk
    then show ?thesis using inv by (auto simp: openBulkAdjust_def no_dialog_def wallets_inv_def)
  next
    case (WlField f)
    then show ?thesis using inv by (auto simp: wallets_inv_def set_adjust_directed)
  next
    case (WlBulkField f)
    then show ?thesis using inv by (auto simp: wallets_inv_def set_adjust_directed)
  next
    case WlSubmit
    then show ?thesis using inv by (auto simp: submitAdjust_def wallets_inv_def split: option.split)
  next
    case WlBulkSubmit
    then show ?thesis using inv by (auto simp: submitBulkAdjust_def wallets_inv_def split: option.split)
  qed (use inv in \<open>auto simp: setPage_wallets wallets_inv_steps split: option.split\<close>)
qed

text \<open>The page of one wallet in the admin console confirms what was checked; the finance pages check when they send.\<close>

definition org_wallet_inv :: "org_wallet \<Rightarrow> bool" where
  "org_wallet_inv s \<longleftrightarrow> directed (ow_form s)
     \<and> (ow_confirmOpen s \<longrightarrow> num_greater (js_Number (af_amount (ow_form s))) 0 \<and> trim (af_description (ow_form s)) \<noteq> [])"

lemma org_wallet_frame [simp]:
  "org_wallet_inv (ow_wallet_update f1 s) = org_wallet_inv s" "org_wallet_inv (ow_loading_update f2 s) = org_wallet_inv s"
  "org_wallet_inv (ow_error_update f3 s) = org_wallet_inv s" "org_wallet_inv (ow_run_update f4 s) = org_wallet_inv s"
  "org_wallet_inv (ow_due_update f2 s) = org_wallet_inv s" "org_wallet_inv (ow_orgName_update f5 s) = org_wallet_inv s"
  "org_wallet_inv (ow_nameDue_update f6 s) = org_wallet_inv s" "org_wallet_inv (ow_formError_update f5 s) = org_wallet_inv s"
  "org_wallet_inv (ow_submitting_update f2 s) = org_wallet_inv s" "org_wallet_inv (ow_txns_update f7 s) = org_wallet_inv s"
  "org_wallet_inv (ow_txnsMeta_update f1 s) = org_wallet_inv s" "org_wallet_inv (ow_txnsPage_update f4 s) = org_wallet_inv s"
  "org_wallet_inv (ow_txnsLoading_update f2 s) = org_wallet_inv s" "org_wallet_inv (ow_txnsError_update f3 s) = org_wallet_inv s"
  "org_wallet_inv (ow_txnRun_update f4 s) = org_wallet_inv s" "org_wallet_inv (ow_txnDue_update f2 s) = org_wallet_inv s"
  "org_wallet_inv (toast_success m s) = org_wallet_inv s" "org_wallet_inv (toast_error m s) = org_wallet_inv s"
  "org_wallet_inv (txn_again s) = org_wallet_inv s" "org_wallet_inv (reloadAll s) = org_wallet_inv s"
  "org_wallet_inv (set_txns_page p s) = org_wallet_inv s"
  by (simp_all add: org_wallet_inv_def toast_success_def toast_error_def txn_again_def reloadAll_def set_txns_page_def)

lemma org_wallet_runs:
  "(\<And>x. org_wallet_inv x \<Longrightarrow> org_wallet_inv (f x)) \<Longrightarrow> org_wallet_inv s \<Longrightarrow> org_wallet_inv (in_detail_run r f s)"
  "(\<And>x. org_wallet_inv x \<Longrightarrow> org_wallet_inv (f x)) \<Longrightarrow> org_wallet_inv s \<Longrightarrow> org_wallet_inv (in_ledger_run r f s)"
  by (simp_all add: in_detail_run_def in_ledger_run_def)

lemma org_wallet_closed: "org_wallet_inv s \<Longrightarrow> org_wallet_inv (ow_confirmOpen_update (\<lambda>_. False) s)"
  by (simp add: org_wallet_inv_def)

lemma org_wallet_cleared: "org_wallet_inv s \<Longrightarrow> org_wallet_inv (s\<lparr>ow_confirmOpen := False, ow_form := clear_entry (ow_form s)\<rparr>)"
  by (simp add: org_wallet_inv_def)

lemma org_effects_ok:
  "script_ok org_wallet_inv read_or_adjust (detail_effect orgId s)" "script_ok org_wallet_inv read_or_adjust (name_round orgId page)"
  "script_ok org_wallet_inv read_or_adjust (ledger_effect orgId s)"
  by (auto simp: detail_effect_def name_round_def ledger_effect_def intro!: script_intros org_wallet_runs split: option.split)

lemma org_apply_ok:
  assumes "org_wallet_inv s" "ow_confirmOpen s"
  shows "script_ok org_wallet_inv read_or_adjust (org_applyAdjust money orgId s)"
proof -
  have "read_or_adjust (adjust_call orgId (adjust_body_plain (ow_form s)))"
    using assms by (intro adjust_allowed plain_body_valid) (auto simp: org_wallet_inv_def)
  then show ?thesis by (auto simp: org_applyAdjust_def org_wallet_closed org_wallet_cleared intro!: script_intros)
qed

interpretation org_wallet_valid: page_machine perform_api "org_wallet_handler money orgId" org_wallet_inv read_or_adjust for money orgId
proof
  fix u s assume inv: "org_wallet_inv s"
  show "script_ok_at org_wallet_inv read_or_adjust (org_wallet_handler money orgId u s) s"
  proof (cases u)
    case OwApply
    then show ?thesis using inv by (simp add: script_ok_imp_at org_apply_ok)
  next
    case (OwField f)
    then show ?thesis using inv by (auto simp: org_wallet_inv_def set_adjust_directed)
  next
    case OwSubmit
    then show ?thesis using inv
      by (auto simp: org_submitAdjust_def org_adjust_problem_def org_wallet_inv_def split: option.split if_splits)
  qed (use inv in \<open>auto simp: org_wallet_closed split: option.split intro!: script_ok_imp_at org_effects_ok\<close>)
qed

lemma fin_problem_valid: "fin_adjust_problem f = None \<Longrightarrow> directed f \<Longrightarrow> read_or_adjust (adjust_call org (adjust_body_plain f))"
  by (intro adjust_allowed plain_body_valid) (auto simp: fin_adjust_problem_def split: if_splits)

lemma loadWallets_ok [script_intros]:
  "(\<And>p opts. allowed (api_get p opts)) \<Longrightarrow> script_ok (\<lambda>s. directed (fw_form s)) allowed loadWallets"
  by (auto simp: loadWallets_def Let_def list_all_iff intro!: script_intros)

interpretation fin_wallets_valid: page_contract perform_api "fin_wallets_handler money" "\<lambda>s. directed (fw_form s)" read_or_adjust
  for money
proof
  fix u and s :: fin_wallets assume d: "directed (fw_form s)"
  have "directed (fw_form (fin_set_page p x)) = directed (fw_form x)" for p x
    by (simp add: fin_set_page_def tx_due_def split: option.split)
  with d show "script_ok (\<lambda>s. directed (fw_form s)) read_or_adjust (fin_wallets_handler money u s)"
    by (cases u) (auto simp: fin_submitAdjust_def fin_loadTransactions_def tx_due_def toast_success_def toast_error_def
        set_adjust_directed intro!: script_intros fin_problem_valid split: option.split)
qed

lemmas fo_steps = wallet_start_def txns_start_def wallet_loaded_def txns_loaded_def fo_set_page_def toast_success_def toast_error_def

interpretation fin_org_valid: page_contract perform_api "fin_org_handler money orgId" "\<lambda>s. directed (fo_form s)" read_or_adjust
  for money orgId
proof
  fix u and s :: fin_org_wallet assume d: "directed (fo_form s)"
  have keep: "directed (fo_form (wallet_loaded r x)) = directed (fo_form x)" "directed (fo_form (txns_loaded r x)) = directed (fo_form x)"
    "directed (fo_form (fo_set_page p x)) = directed (fo_form x)" for r p x
    by (simp_all add: fo_steps split: sum.split option.split)
  with d show "script_ok (\<lambda>s. directed (fo_form s)) read_or_adjust (fin_org_handler money orgId u s)"
    by (cases u) (auto simp: org_fin_submitAdjust_def org_loadTransactions_def org_loadWallet_def label_effect_def
        wallet_start_def txns_start_def toast_success_def toast_error_def set_adjust_directed
        intro!: script_intros fin_problem_valid split: option.split)
qed

subsection \<open>Who moves money\<close>

definition wallets_guard :: "wallets_event \<Rightarrow> wallets_page \<Rightarrow> api_call \<Rightarrow> bool" where
  "wallets_guard u s c \<longleftrightarrow>
     u = WlApply \<and> wl_confirmOpen s \<and> \<not> wl_submitting s
       \<and> (\<exists>org. wl_adjustTarget s = Some org \<and> c = adjust_call (row_id org) (adjust_body (wl_form s)))
     \<or> u = WlBulkApply \<and> wl_bulkConfirmOpen s \<and> \<not> wl_bulkBusy s
       \<and> (\<exists>org \<in> set (pl_rows s). row_id org \<in> set (wl_selected s) \<and> c = adjust_call (row_id org) (adjust_body (wl_bulkForm s)))"

definition org_wallet_guard :: "string \<Rightarrow> org_wallet_event \<Rightarrow> org_wallet \<Rightarrow> api_call \<Rightarrow> bool" where
  "org_wallet_guard orgId u s c \<longleftrightarrow> u = OwApply \<and> ow_confirmOpen s \<and> \<not> ow_submitting s \<and> orgId \<noteq> []
     \<and> c = adjust_call orgId (adjust_body_plain (ow_form s))"

definition fin_wallets_guard :: "fin_wallets_event \<Rightarrow> fin_wallets \<Rightarrow> api_call \<Rightarrow> bool" where
  "fin_wallets_guard u s c \<longleftrightarrow> u = FwApply \<and> fw_confirmAdjust s \<and> \<not> fw_adjusting s
     \<and> (\<exists>org. fw_adjustOrg s = Some org \<and> c = adjust_call (or_id org) (adjust_body_plain (fw_form s)))"

definition fin_org_guard :: "string \<Rightarrow> fin_org_event \<Rightarrow> fin_org_wallet \<Rightarrow> api_call \<Rightarrow> bool" where
  "fin_org_guard orgId u s c \<longleftrightarrow> u = FoApply \<and> fo_confirmAdjust s \<and> \<not> fo_adjusting s \<and> orgId \<noteq> []
     \<and> c = adjust_call orgId (adjust_body_plain (fo_form s))"

lemmas wallet_defs = applyAdjust_def applyBulkAdjust_def submitAdjust_def submitBulkAdjust_def balances_effect_def txns_effect_def
  paged_effect_def Let_def

lemmas org_wallet_defs = detail_effect_def name_round_def ledger_effect_def org_submitAdjust_def org_applyAdjust_def

lemmas fin_defs = loadWallets_def fin_loadTransactions_def fin_submitAdjust_def org_loadWallet_def org_loadTransactions_def
  label_effect_def org_fin_submitAdjust_def Let_def

interpretation wallets_lead: page_lead perform_api "wallets_handler money" is_get for money
proof
  fix u s show "calls_lead is_get (wallets_handler money u s)"
    by (cases u) (auto simp: wallet_defs intro!: script_intros split: option.split)
qed

interpretation org_wallet_lead: page_lead perform_api "org_wallet_handler money orgId" is_get for money orgId
proof
  fix u s show "calls_lead is_get (org_wallet_handler money orgId u s)"
    by (cases u) (auto simp: org_wallet_defs intro!: script_intros split: option.split)
qed

lemma loadWallets_reads: "script_ok (\<lambda>_. True) is_get loadWallets"
  by (auto simp: loadWallets_def Let_def list_all_iff intro!: script_intros)

interpretation fin_wallets_lead: page_lead perform_api "fin_wallets_handler money" is_get for money
proof
  fix u s show "calls_lead is_get (fin_wallets_handler money u s)"
    by (cases u) (auto simp: fin_loadTransactions_def fin_submitAdjust_def intro!: script_intros loadWallets_reads
        script_ok_lead [OF loadWallets_reads] split: option.split)
qed

interpretation fin_org_lead: page_lead perform_api "fin_org_handler money orgId" is_get for money orgId
proof
  fix u s show "calls_lead is_get (fin_org_handler money orgId u s)"
    by (cases u) (auto simp: fin_defs intro!: script_intros split: option.split)
qed

lemma bulk_targets_selected: "org \<in> set (bulk_targets s) \<Longrightarrow> org \<in> set (pl_rows s) \<and> row_id org \<in> set (wl_selected s)"
  by (auto simp: bulk_targets_def resolve_set)

lemma wallets_lead_calls: "c \<in> set (lead_calls (wallets_handler money u s)) \<Longrightarrow> is_get c \<or> wallets_guard u s c"
  by (cases u) (auto simp: wallet_defs wallets_guard_def bulk_calls_def split: if_splits option.splits dest: bulk_targets_selected)

lemma org_wallet_lead_calls: "c \<in> set (lead_calls (org_wallet_handler money orgId u s)) \<Longrightarrow> is_get c \<or> org_wallet_guard orgId u s c"
  by (cases u) (auto simp: org_wallet_defs org_wallet_guard_def split: if_splits option.splits)

lemma fin_wallets_lead_calls: "c \<in> set (lead_calls (fin_wallets_handler money u s)) \<Longrightarrow> is_get c \<or> fin_wallets_guard u s c"
  by (cases u) (auto simp: fin_defs fin_wallets_guard_def split: if_splits option.splits)

lemma fin_org_lead_calls: "c \<in> set (lead_calls (fin_org_handler money orgId u s)) \<Longrightarrow> is_get c \<or> fin_org_guard orgId u s c"
  by (cases u) (auto simp: fin_defs fin_org_guard_def split: if_splits option.splits)

lemma opened_wallets: "wallets_inv open_wallets" "org_wallet_inv (open_org_wallet orgId)" "directed (fo_form open_fin_org)"
  by (simp_all add: wallets_inv_def open_wallets_def org_wallet_inv_def open_org_wallet_def open_fin_org_def)


subsection \<open>Busy buttons\<close>

lemmas wallet_flag_defs = wallet_defs openAdjust_def openBulkAdjust_def reloadBalances_def rows_replaced_def in_wallet_run_def
  in_txn_run_def in_list_run_def txn_rerun_def setPage_def rerun_def toast_success_def toast_error_def

interpretation wallet_submitting: page_flag perform_api "wallets_handler money" wl_submitting for money
proof
  fix u s show "ends_low wl_submitting (wallets_handler money u s) True"
    by (cases u) (auto simp: wallet_flag_defs intro!: script_intros split: option.split if_splits)
qed

interpretation wallet_bulk: page_flag perform_api "wallets_handler money" wl_bulkBusy for money
proof
  fix u s show "ends_low wl_bulkBusy (wallets_handler money u s) True"
    by (cases u) (auto simp: wallet_flag_defs intro!: script_intros split: option.split if_splits)
qed

interpretation org_wallet_submitting: page_flag perform_api "org_wallet_handler money orgId" ow_submitting for money orgId
proof
  fix u s show "ends_low ow_submitting (org_wallet_handler money orgId u s) True"
    by (cases u) (auto simp: org_wallet_defs in_detail_run_def in_ledger_run_def reloadAll_def txn_again_def set_txns_page_def
        toast_success_def toast_error_def intro!: script_intros split: option.split)
qed

interpretation fin_wallets_adjusting: page_flag perform_api "fin_wallets_handler money" fw_adjusting for money
proof
  fix u s show "ends_low fw_adjusting (fin_wallets_handler money u s) True"
    by (cases u) (auto simp: fin_defs tx_due_def fin_set_page_def toast_success_def toast_error_def intro!: script_intros
        split: option.split)
qed

interpretation fin_org_adjusting: page_flag perform_api "fin_org_handler money orgId" fo_adjusting for money orgId
proof
  fix u s
  have keep: "fo_adjusting (wallet_loaded r x) = fo_adjusting x" "fo_adjusting (txns_loaded r x) = fo_adjusting x"
    "fo_adjusting (fo_set_page p x) = fo_adjusting x" for r p and x :: fin_org_wallet
    by (simp_all add: fo_steps split: sum.split option.split)
  show "ends_low fo_adjusting (fin_org_handler money orgId u s) True"
    by (cases u) (auto simp: fin_defs keep wallet_start_def txns_start_def toast_success_def toast_error_def intro!: script_intros
        split: option.split)
qed

subsection \<open>What goes wrong\<close>

text \<open>When one of the adjustments of a bulk fails, the others have been made; the selection and the form stay, and
  confirming again makes all of them again.\<close>

lemma bulk_retry_adjusts_again:
  assumes "wl_bulkAdjustOpen s" "\<not> wl_bulkConfirmOpen s" "\<not> wl_bulkBusy s" "adjust_problem (wl_bulkForm s) = None"
    and "bulk_targets s \<noteq> []" and "failures (fst (perform_all perform (bulk_calls s) b)) \<noteq> []"
  shows "pg_calls (run_page perform (wallets_handler money)
      [User WlBulkSubmit, User WlBulkApply, Resume 0 n, User WlBulkSubmit, User WlBulkApply] (open_page s b))
    = bulk_calls s @ bulk_calls s"
proof -
  obtain rs b' where r: "perform_all perform (bulk_calls s) b = (rs, b')" by fastforce
  have t: "bulk_targets (wl_bulkConfirmOpen_update f x) = bulk_targets x" "bulk_targets (wl_bulkFormError_update g x) = bulk_targets x"
    "bulk_targets (wl_bulkBusy_update f x) = bulk_targets x" "bulk_targets (toasts_update h x) = bulk_targets x"
    "bulk_calls (wl_bulkConfirmOpen_update f x) = bulk_calls x" "bulk_calls (wl_bulkFormError_update g x) = bulk_calls x"
    "bulk_calls (wl_bulkBusy_update f x) = bulk_calls x" "bulk_calls (toasts_update h x) = bulk_calls x" for f g h x
    by (simp_all add: bulk_targets_def bulk_calls_def)
  from assms r show ?thesis
    by (simp add: run_page_def open_page_def submitBulkAdjust_def applyBulkAdjust_def with_flag_def await_all_def t Let_def
        toast_error_def drop_nth_def split: prod.splits)
qed

text \<open>A selection made on another page of the list is counted in the dialogs and adjusted by nobody.\<close>

lemma bulk_apply_silent: "bulk_targets s = [] \<Longrightarrow> applyBulkAdjust money s = Done"
  by (simp add: applyBulkAdjust_def)

text \<open>The finance form keeps what was typed for another organisation.\<close>

lemma form_kept_for_next: "fw_form (fst (user_run (fin_wallets_handler money) [FwAdjustClose, FwAdjust i] s)) = fw_form s"
  by (simp add: fin_row_def split: if_splits)

text \<open>The finance page of one wallet never asks for the balance until an adjustment is made: the skeleton stays.\<close>

definition before_adjusting :: "money_text \<Rightarrow> string \<Rightarrow> fin_org_event \<Rightarrow> fin_org_wallet \<Rightarrow> fin_org_wallet api_script" where
  "before_adjusting money orgId u s = (if u = FoApply then Done else fin_org_handler money orgId u s)"

interpretation never_loaded: page_contract perform_api "before_adjusting money orgId" "\<lambda>s. wallet_view_of s = WalletSkeleton"
  "\<lambda>c. ac_path c \<noteq> ''/wallet''" for money orgId
proof
  fix u s assume "wallet_view_of s = WalletSkeleton"
  then have keep: "wallet_view_of (txns_loaded r x) = wallet_view_of x" "wallet_view_of (fo_set_page p x) = wallet_view_of x"
    "wallet_view_of (txns_start x) = wallet_view_of x" "wallet_view_of (fo_form_update f x) = wallet_view_of x"
    "wallet_view_of (fo_confirmAdjust_update g x) = wallet_view_of x" "wallet_view_of (fo_orgLabel_update h x) = wallet_view_of x"
    "wallet_view_of (fo_txDue_update g x) = wallet_view_of x" for r p f g h x
    by (simp_all add: wallet_view_of_def fo_steps split: sum.split option.split)
  from \<open>wallet_view_of s = WalletSkeleton\<close>
  show "script_ok (\<lambda>s. wallet_view_of s = WalletSkeleton) (\<lambda>c. ac_path c \<noteq> ''/wallet'') (before_adjusting money orgId u s)"
    by (cases u) (auto simp: before_adjusting_def org_loadTransactions_def label_effect_def keep api_get_def
        intro!: script_intros split: option.split)
qed

lemma run_page_restrict:
  "(\<And>u. User u \<in> set es \<Longrightarrow> handler' u = handler u) \<Longrightarrow> run_page perform handler es p = run_page perform handler' es p"
proof (induction es arbitrary: p)
  case (Cons e es)
  have "page_step perform handler e p = page_step perform handler' e p"
    using Cons.prems by (cases e) simp_all
  with Cons show ?case by (simp add: run_page_def)
qed (simp add: run_page_def)

lemma balance_never_loaded:
  assumes "User FoApply \<notin> set es"
  shows "wallet_view_of (pg_state (run_page perform_api (fin_org_handler money orgId) es (open_page open_fin_org b))) = WalletSkeleton"
proof -
  have "run_page perform_api (fin_org_handler money orgId) es (open_page open_fin_org b)
      = run_page perform_api (before_adjusting money orgId) es (open_page open_fin_org b)"
    by (rule run_page_restrict) (use assms in \<open>auto simp: before_adjusting_def fun_eq_iff\<close>)
  then show ?thesis using never_loaded.runs_keep [of open_fin_org] by (simp add: open_fin_org_def wallet_view_of_def)
qed

text \<open>The ledger dialog of the finance list does not cancel: a late answer for one organisation is shown for another.\<close>

lemma ledger_of_another:
  assumes "\<not> fw_loading s" "fw_txOrg s = None" "fw_adjustOrg s = None" "\<not> fw_confirmAdjust s" "fw_rows s = [x, y]"
    and "perform (api_get ''/wallet/transactions'' (ledger_opts (or_id x) 1)) b = (Inr ex, b1)"
    and "perform (api_get ''/wallet/transactions'' (ledger_opts (or_id y) 1)) b1 = (Inr ey, b2)"
  shows "let p = run_page perform (fin_wallets_handler money) [User (FwTxns 0), User FwTxEffect, User FwTxClose, User (FwTxns 1),
        User FwTxEffect, Resume 1 0, Resume 0 0] (open_page s b)
     in fw_txOrg (pg_state p) = Some y \<and> fw_txRows (pg_state p) = array_or_empty (Some (env_data ex))"
  using assms
  by (simp add: run_page_def open_page_def fin_row_def tx_due_def fin_loadTransactions_def with_flag_def await_def drop_nth_def Let_def)

text \<open>The search for the name of an organisation ends only when the server gives a total: without one it asks for
  page after page.\<close>

definition unhelpful :: "api_call \<Rightarrow> browser \<Rightarrow> api_result \<times> browser" where
  "unhelpful c b = (Inr \<lparr>env_data = JArr [], env_meta = None\<rparr>, b)"

lemma endless_name_search:
  "orgId \<noteq> [] \<Longrightarrow> let p = run_page unhelpful (org_wallet_handler money orgId) (concat (replicate n [User OwName, Resume 0 0]))
        (open_page (open_org_wallet orgId) b)
     in length (pg_calls p) = n \<and> ow_nameDue (pg_state p) = Some (Suc n) \<and> pg_waiting p = []"
proof (induction n)
  case 0
  show ?case by (simp add: run_page_def open_page_def open_org_wallet_def)
next
  case (Suc n)
  have "replicate (Suc n) [User OwName, Resume 0 0] = replicate n [User OwName, Resume 0 0] @ [[User OwName, Resume 0 0]]"
    by (simp add: replicate_append_same)
  with Suc show ?case
    by (simp add: run_page_def Let_def name_round_def await_def unhelpful_def drop_nth_def name_found_def meta_num_def opt_prop_def
        array_or_empty_def)
qed

end
