(* ===== verification/Exclusive_Flag.thy ===== *)
theory Exclusive_Flag
  imports Page_Kit
begin

text \<open>
  Pages with one busy flag in front of all their changes. A change is sent only while the flag is down, raises it
  first and lowers it after its answer; everything else the page sends is a read whose continuation leaves the flag
  alone. Then at most one change waits for its answer at any time, in every interleaving.
\<close>

subsection \<open>Scripts that leave the flag alone\<close>

text \<open>\<open>later\<close> are the calls a script may make without holding the flag: the reads.\<close>

primrec quiet :: "('s \<Rightarrow> bool) \<Rightarrow> ('c \<Rightarrow> bool) \<Rightarrow> ('s, 'c, 'r, 'e) script \<Rightarrow> bool" where
  "quiet busy later Done = True"
| "quiet busy later (Throw e) = True"
| "quiet busy later (Set f s) = ((\<forall>x. busy (f x) = busy x) \<and> quiet busy later s)"
| "quiet busy later (Await cs k) = (list_all later cs \<and> (\<forall>rs n. quiet busy later (k rs n)))"
| "quiet busy later (Fork a s) = (quiet busy later a \<and> quiet busy later s)"

text \<open>\<open>held\<close> says that the script holds the flag: it may then make any call, and must lower the flag before it ends.
  Without the flag it only reads; it raises the flag only where the flag is known to be down.\<close>

primrec exclusive :: "('s \<Rightarrow> bool) \<Rightarrow> ('c \<Rightarrow> bool) \<Rightarrow> ('s, 'c, 'r, 'e) script \<Rightarrow> bool \<Rightarrow> bool" where
  "exclusive busy later Done held = (\<not> held)"
| "exclusive busy later (Throw e) held = (\<not> held)"
| "exclusive busy later (Set f s) held =
     ((\<forall>x. \<not> busy (f x)) \<and> exclusive busy later s False
      \<or> (\<forall>x. busy (f x)) \<and> exclusive busy later s True
      \<or> (\<forall>x. busy (f x) = busy x) \<and> exclusive busy later s held)"
| "exclusive busy later (Await cs k) held =
     (if held then \<forall>rs n. exclusive busy later (k rs n) True
      else list_all later cs \<and> (\<forall>rs n. quiet busy later (k rs n)))"
| "exclusive busy later (Fork a s) held = (quiet busy later a \<and> exclusive busy later s held)"

lemma quiet_exclusive: "quiet busy later s \<Longrightarrow> exclusive busy later s False"
  by (induction s) auto

lemma quiet_and_then [script_intros]:
  "quiet busy later s \<Longrightarrow> quiet busy later k \<Longrightarrow> quiet busy later (and_then s k)"
  by (induction s) auto

lemma quiet_try_catch [script_intros]:
  "quiet busy later s \<Longrightarrow> (\<And>e. quiet busy later (h e)) \<Longrightarrow> quiet busy later (try_catch s h)"
  by (induction s) auto

lemma quiet_finally [script_intros]:
  "quiet busy later s \<Longrightarrow> (\<And>x. busy (f x) = busy x) \<Longrightarrow> quiet busy later (finally_set s f)"
  by (induction s) auto

lemma quiet_await [script_intros]: "later c \<Longrightarrow> (\<And>x. quiet busy later (k x)) \<Longrightarrow> quiet busy later (await c k)"
  by (simp add: await_def split: sum.splits)

text \<open>What runs between raising and lowering the flag makes any calls and leaves the flag alone.\<close>

primrec keeps_flag :: "('s \<Rightarrow> bool) \<Rightarrow> ('c \<Rightarrow> bool) \<Rightarrow> ('s, 'c, 'r, 'e) script \<Rightarrow> bool" where
  "keeps_flag busy later Done = True"
| "keeps_flag busy later (Throw e) = True"
| "keeps_flag busy later (Set f s) = ((\<forall>x. busy (f x) = busy x) \<and> keeps_flag busy later s)"
| "keeps_flag busy later (Await cs k) = (\<forall>rs n. keeps_flag busy later (k rs n))"
| "keeps_flag busy later (Fork a s) = (quiet busy later a \<and> keeps_flag busy later s)"

lemma keeps_flag_try [script_intros]:
  "keeps_flag busy later s \<Longrightarrow> (\<And>e. keeps_flag busy later (h e)) \<Longrightarrow> keeps_flag busy later (try_catch s h)"
  by (induction s) auto

lemma keeps_flag_await [script_intros]: "(\<And>x. keeps_flag busy later (k x)) \<Longrightarrow> keeps_flag busy later (await c k)"
  by (simp add: await_def split: sum.splits)

lemma exclusive_finally:
  assumes "\<And>x. \<not> busy (f x)"
  shows "keeps_flag busy later s \<Longrightarrow> exclusive busy later (finally_set s f) True"
  using assms by (induction s) auto

lemma exclusive_with_flag [script_intros]:
  assumes "keeps_flag busy later s" and "\<And>x. busy (flag (\<lambda>_. True) x)" and "\<And>x. \<not> busy (flag (\<lambda>_. False) x)"
  shows "exclusive busy later (with_flag flag s) held"
  using assms exclusive_finally [of busy "flag (\<lambda>_. False)" later s] by (simp add: with_flag_def)

subsection \<open>Runs\<close>

definition quiet_entry :: "('s \<Rightarrow> bool) \<Rightarrow> ('c \<Rightarrow> bool) \<Rightarrow> 'r list \<times> ('r list \<Rightarrow> nat \<Rightarrow> ('s, 'c, 'r, 'e) script) \<Rightarrow> bool" where
  "quiet_entry busy later w \<longleftrightarrow> (\<forall>rs n. quiet busy later (snd w rs n))"

definition owner :: "('s \<Rightarrow> bool) \<Rightarrow> ('c \<Rightarrow> bool) \<Rightarrow> 'r list \<times> ('r list \<Rightarrow> nat \<Rightarrow> ('s, 'c, 'r, 'e) script) \<Rightarrow> bool" where
  "owner busy later w \<longleftrightarrow> (\<forall>rs n. exclusive busy later (snd w rs n) True)"

text \<open>The flag is down and only reads wait, or it is up and beside the reads exactly one script waits that holds it.\<close>

definition flag_owned :: "('s \<Rightarrow> bool) \<Rightarrow> ('c \<Rightarrow> bool) \<Rightarrow> ('s, 'c, 'r, 'e) page \<Rightarrow> bool" where
  "flag_owned busy later p \<longleftrightarrow>
     (if busy (pg_state p)
      then \<exists>xs w ys. pg_waiting p = xs @ w # ys \<and> owner busy later w \<and> list_all (quiet_entry busy later) (xs @ ys)
      else list_all (quiet_entry busy later) (pg_waiting p))"

lemma flag_ownedI:
  "busy (pg_state p) \<Longrightarrow> pg_waiting p = xs @ w # ys \<Longrightarrow> owner busy later w \<Longrightarrow> list_all (quiet_entry busy later) (xs @ ys)
   \<Longrightarrow> flag_owned busy later p"
  unfolding flag_owned_def by metis

lemma flag_ownedE:
  assumes "flag_owned busy later p" and "busy (pg_state p)"
  obtains xs w ys where "pg_waiting p = xs @ w # ys" "owner busy later w" "list_all (quiet_entry busy later) (xs @ ys)"
  using assms unfolding flag_owned_def by metis

lemma run_quiet_script:
  "quiet busy later s \<Longrightarrow>
   busy (pg_state (run_script perform s p)) = busy (pg_state p)
   \<and> (\<exists>ws. pg_waiting (run_script perform s p) = pg_waiting p @ ws \<and> list_all (quiet_entry busy later) ws)"
proof (induction s arbitrary: p)
  case (Set f s)
  show ?case using Set.IH [of "p\<lparr>pg_state := f (pg_state p)\<rparr>"] Set.prems by simp
next
  case (Await cs k)
  then show ?case by (auto simp: quiet_entry_def split: prod.splits)
next
  case (Fork a s)
  then have "quiet busy later a" "quiet busy later s" by simp_all
  with Fork.IH(1) [of p] Fork.IH(2) [of "run_script perform a p"] show ?case by auto
qed simp_all

lemma owned_append:
  assumes "flag_owned busy later p" and "busy (pg_state q) = busy (pg_state p)"
    and "pg_waiting q = pg_waiting p @ ws" and "list_all (quiet_entry busy later) ws"
  shows "flag_owned busy later q"
proof (cases "busy (pg_state p)")
  case True
  with assms(1) obtain xs w ys where "pg_waiting p = xs @ w # ys" "owner busy later w" "list_all (quiet_entry busy later) (xs @ ys)"
    by (rule flag_ownedE)
  with assms True show ?thesis by (intro flag_ownedI [of _ _ xs w "ys @ ws"]) simp_all
qed (use assms in \<open>auto simp: flag_owned_def\<close>)

lemma run_quiet_owned:
  "quiet busy later s \<Longrightarrow> flag_owned busy later p \<Longrightarrow> flag_owned busy later (run_script perform s p)"
  using run_quiet_script [of busy later s perform p] owned_append by metis

lemma run_exclusive:
  "exclusive busy later s held \<Longrightarrow> busy (pg_state p) = held \<Longrightarrow> list_all (quiet_entry busy later) (pg_waiting p)
   \<Longrightarrow> flag_owned busy later (run_script perform s p)"
proof (induction s arbitrary: p held)
  case (Set f s)
  let ?p = "p\<lparr>pg_state := f (pg_state p)\<rparr>"
  have "exclusive busy later s (busy (pg_state ?p))" using Set.prems(1,2) unfolding exclusive.simps by (elim disjE conjE) simp_all
  then show ?case using Set.IH [of "busy (pg_state ?p)" ?p] Set.prems(3) by simp
next
  case (Await cs k)
  obtain rs b where rs: "perform_all perform cs (pg_browser p) = (rs, b)" by fastforce
  show ?case
  proof (cases held)
    case True
    with Await.prems have "owner busy later (rs, k)" by (simp add: owner_def)
    with Await.prems True rs show ?thesis by (intro flag_ownedI [of _ _ "pg_waiting p" "(rs, k)" "[]"]) simp_all
  next
    case False
    with Await.prems rs show ?thesis by (simp add: flag_owned_def quiet_entry_def list_all_iff)
  qed
next
  case (Fork a s)
  then have a: "quiet busy later a" "exclusive busy later s held" by simp_all
  have "list_all (quiet_entry busy later) (pg_waiting (run_script perform a p))" "busy (pg_state (run_script perform a p)) = held"
    using run_quiet_script [OF a(1), of perform p] Fork.prems by auto
  with Fork.IH(2) [OF a(2)] show ?case by simp
qed (simp_all add: flag_owned_def)

lemma nth_other: "i < length (xs @ w # ys) \<Longrightarrow> i \<noteq> length xs \<Longrightarrow> (xs @ w # ys) ! i \<in> set (xs @ ys)"
  by (cases "i < length xs") (auto simp: nth_append nth_Cons split: nat.splits)

lemma drop_other:
  assumes "i < length (xs @ w # ys)" and "i \<noteq> length xs"
  shows "\<exists>xs' ys'. drop_nth i (xs @ w # ys) = xs' @ w # ys' \<and> set (xs' @ ys') \<subseteq> set (xs @ ys)"
proof (cases "i < length xs")
  case True
  then have "drop_nth i (xs @ w # ys) = drop_nth i xs @ w # ys" by (simp add: drop_nth_def)
  then show ?thesis using drop_nth_set [of i xs] by (intro exI [of _ "drop_nth i xs"] exI [of _ ys]) auto
next
  case False
  define j where "j = i - length xs - 1"
  have i: "i = length xs + Suc j" using False assms(2) by (simp add: j_def)
  then have "drop_nth i (xs @ w # ys) = xs @ w # drop_nth j ys" by (simp add: drop_nth_def)
  then show ?thesis using drop_nth_set [of j ys] by (intro exI [of _ xs] exI [of _ "drop_nth j ys"]) auto
qed

text \<open>A page all of whose changes hold the flag.\<close>

locale page_exclusive =
  fixes perform :: "'c \<Rightarrow> browser \<Rightarrow> 'r \<times> browser"
    and handler :: "'u \<Rightarrow> 's \<Rightarrow> ('s, 'c, 'r, 'e) script"
    and busy :: "'s \<Rightarrow> bool"
    and later :: "'c \<Rightarrow> bool"
  assumes idle_handler: "\<not> busy s \<Longrightarrow> exclusive busy later (handler u s) False"
    and busy_handler: "busy s \<Longrightarrow> quiet busy later (handler u s)"
begin

lemma resume_owned:
  assumes "flag_owned busy later p" and i: "i < length (pg_waiting p)"
  shows "flag_owned busy later (run_script perform (snd (pg_waiting p ! i) rs n) (p\<lparr>pg_waiting := drop_nth i (pg_waiting p)\<rparr>))"
    (is "flag_owned _ _ (run_script _ ?k ?p)")
proof (cases "busy (pg_state p)")
  case True
  with assms(1) obtain xs w ys where w: "pg_waiting p = xs @ w # ys" "owner busy later w" "list_all (quiet_entry busy later) (xs @ ys)"
    by (rule flag_ownedE)
  show ?thesis
  proof (cases "i = length xs")
    case here: True
    then have "exclusive busy later ?k True" "pg_waiting ?p = xs @ ys" using w by (simp_all add: owner_def drop_nth_def)
    with w(3) True show ?thesis by (intro run_exclusive) simp_all
  next
    case False
    then have "quiet busy later ?k" using nth_other [of i xs w ys] w i by (auto simp: list_all_iff quiet_entry_def)
    moreover obtain xs' ys' where "drop_nth i (xs @ w # ys) = xs' @ w # ys'" "set (xs' @ ys') \<subseteq> set (xs @ ys)"
      using drop_other False i w(1) by metis
    then have "flag_owned busy later ?p"
      using w True by (intro flag_ownedI [of _ _ xs' w ys']) (auto simp: list_all_iff)
    ultimately show ?thesis by (rule run_quiet_owned)
  qed
next
  case False
  with assms(1) have q: "list_all (quiet_entry busy later) (pg_waiting p)" by (simp add: flag_owned_def)
  then have "quiet busy later ?k" using i by (simp add: list_all_iff quiet_entry_def)
  moreover have "flag_owned busy later ?p" using q False drop_nth_set [of i "pg_waiting p"] by (auto simp: flag_owned_def list_all_iff)
  ultimately show ?thesis by (rule run_quiet_owned)
qed

lemma step_owned: "flag_owned busy later p \<Longrightarrow> flag_owned busy later (page_step perform handler e p)"
proof (cases e)
  case (User u)
  assume p: "flag_owned busy later p"
  show ?thesis
  proof (cases "busy (pg_state p)")
    case True
    with p User busy_handler show ?thesis by (simp add: run_quiet_owned)
  next
    case False
    with p have "list_all (quiet_entry busy later) (pg_waiting p)" by (simp add: flag_owned_def)
    with False User show ?thesis using run_exclusive [OF idle_handler [OF False]] by simp
  qed
qed (simp add: resume_owned)

lemma run_owned: "\<not> busy s \<Longrightarrow> flag_owned busy later (run_page perform handler es (open_page s b))"
proof -
  have "flag_owned busy later p \<Longrightarrow> flag_owned busy later (run_page perform handler es p)" for p
    unfolding run_page_def by (induction es arbitrary: p) (simp_all add: step_owned)
  moreover have "\<not> busy s \<Longrightarrow> flag_owned busy later (open_page s b)" by (simp add: flag_owned_def open_page_def)
  ultimately show "\<not> busy s \<Longrightarrow> ?thesis" by blast
qed

end

text \<open>Such a page frees its flag.\<close>

lemma quiet_low: "quiet busy later s \<Longrightarrow> ends_low busy s True"
  by (induction s) auto

lemma exclusive_low: "exclusive busy later s held \<Longrightarrow> ends_low busy s (\<not> held)"
proof (induction s arbitrary: held)
  case (Set f s)
  then consider "\<forall>x. \<not> busy (f x)" "ends_low busy s True" | "ends_low busy s False"
    | "\<forall>x. busy (f x) = busy x" "ends_low busy s (\<not> held)"
    unfolding exclusive.simps by fastforce
  then show ?case by cases (auto intro: ends_low_mono)
next
  case (Await cs k)
  show ?case
  proof (cases held)
    case True
    with Await.prems Await.IH [of _ _ True] show ?thesis by simp
  next
    case False
    with Await.prems show ?thesis by (simp add: quiet_low [where later = later])
  qed
qed (auto intro: quiet_low)

sublocale page_exclusive \<subseteq> page_flag perform handler busy
proof
  show "ends_low busy (handler u s) True" for u s
    using exclusive_low [OF idle_handler, of s u] quiet_low [OF busy_handler, of s u] by (cases "busy s") simp_all
qed

text \<open>At most one change waits for its answer, and none when another change is sent.\<close>

definition changes_alone ::
  "('c \<Rightarrow> browser \<Rightarrow> 'r \<times> browser) \<Rightarrow> ('u \<Rightarrow> 's \<Rightarrow> ('s, 'c, 'r, 'e) script) \<Rightarrow> ('s \<Rightarrow> bool) \<Rightarrow> ('c \<Rightarrow> bool) \<Rightarrow> bool" where
  "changes_alone perform handler busy later \<longleftrightarrow>
     (\<forall>s b es u. \<not> busy s \<longrightarrow>
        (let p = run_page perform handler es (open_page s b);
             pending = filter (\<lambda>w. \<not> quiet_entry busy later w) (pg_waiting p) in
         length pending \<le> 1 \<and> (list_ex (\<lambda>c. \<not> later c) (lead_calls (handler u (pg_state p))) \<longrightarrow> pending = [])))"

lemma quiet_reads: "quiet busy later s \<Longrightarrow> list_all later (lead_calls s)"
  by (induction s) auto

context page_exclusive
begin

lemma alone: "changes_alone perform handler busy later"
  unfolding changes_alone_def Let_def
proof (intro allI impI conjI)
  fix s b es u assume s: "\<not> busy s"
  let ?p = "run_page perform handler es (open_page s b)"
  let ?pending = "filter (\<lambda>w. \<not> quiet_entry busy later w) (pg_waiting ?p)"
  have o: "flag_owned busy later ?p" by (rule run_owned [OF s])
  have none: "list_all (quiet_entry busy later) ws \<Longrightarrow> filter (\<lambda>w. \<not> quiet_entry busy later w) ws = []" for ws
    by (induction ws) auto
  show "length ?pending \<le> 1"
  proof (cases "busy (pg_state ?p)")
    case True
    with o show ?thesis by (rule flag_ownedE) (simp add: none)
  next
    case False
    with o show ?thesis by (simp add: flag_owned_def none)
  qed
  assume "list_ex (\<lambda>c. \<not> later c) (lead_calls (handler u (pg_state ?p)))"
  then have "\<not> busy (pg_state ?p)" using quiet_reads [OF busy_handler, of "pg_state ?p" u] by (auto simp: list_ex_iff list_all_iff)
  with o show "?pending = []" unfolding flag_owned_def by (simp add: none)
qed

end

end
