(* ===== verification/Infra_Kit.thy ===== *)
theory Infra_Kit
  imports Resource_Hooks Exclusive_Flag Js_Number
begin

text \<open>
  What the provider pages share: lists loaded and polled by \<open>useInfraGet\<close>
  (\<open>admin/pages/providers/infra.ts\<close>), the \<open>runAction\<close> each page defines around its changes, and the
  confirmation dialog of \<open>providers/shared.tsx\<close>.
\<close>

subsection \<open>A list loaded by useInfraGet\<close>

text \<open>The mounted hook, and whether its effect has to run again: after mounting, after a change of the path or the
  query, after \<open>reload\<close> and at every tick of the interval.\<close>

record infra_get =
  ig_hook :: "(json, js_error) hook"
  ig_due :: bool

definition open_infra :: "bool \<Rightarrow> infra_get" where
  "open_infra has_path = \<lparr>ig_hook = infraGet_init has_path, ig_due = True\<rparr>"

definition reload_infra :: "infra_get \<Rightarrow> infra_get" where
  "reload_infra c = c\<lparr>ig_due := True\<rparr>"

definition on_hook :: "(json, js_error) hook_event \<Rightarrow> infra_get \<Rightarrow> infra_get" where
  "on_hook e c = c\<lparr>ig_hook := infraGet_step e (ig_hook c)\<rparr>"

definition start_infra :: "bool \<Rightarrow> infra_get \<Rightarrow> infra_get" where
  "start_infra has c = (on_hook (Start has) c)\<lparr>ig_due := False\<rparr>"

definition outcome_of :: "api_result \<Rightarrow> (json, js_error) outcome" where
  "outcome_of r = (case r of Inl cause \<Rightarrow> Rejected cause | Inr e \<Rightarrow> Fulfilled (env_data e))"

text \<open>The effect, over the setter of the cell in the page. Without a path it queues a zero timeout.\<close>

definition infra_effect ::
  "((infra_get \<Rightarrow> infra_get) \<Rightarrow> 's \<Rightarrow> 's) \<Rightarrow> string option \<Rightarrow> api_options \<Rightarrow> infra_get \<Rightarrow> 's api_script" where
  "infra_effect upd path opts c =
     (if \<not> ig_due c then Done
      else case path of
        None \<Rightarrow> Set (upd (start_infra False)) (Await [] (\<lambda>rs n. Set (upd (on_hook (Deferred (runs (ig_hook c))))) Done))
      | Some p \<Rightarrow> Set (upd (start_infra True))
          (Await [api_get p opts] (\<lambda>rs n. Set (upd (on_hook (Settled (runs (ig_hook c)) (outcome_of (hd rs))))) Done)))"

definition infra_rows :: "infra_get \<Rightarrow> json list" where
  "infra_rows c = array_or_empty (c_data (ig_hook c))"

definition infra_row :: "nat \<Rightarrow> infra_get \<Rightarrow> json option" where
  "infra_row i c = (if i < length (infra_rows c) then Some (infra_rows c ! i) else None)"

definition query_opts :: "(string \<times> query_value) list \<Rightarrow> api_options" where
  "query_opts q = \<lparr>ao_headers = None, ao_query = Some q\<rparr>"

lemma calls_infra [simp]: "list_all is_get (lead_calls (infra_effect upd path opts c))"
  by (simp add: infra_effect_def split: option.split)

lemma infra_get_calls: "c \<in> set (lead_calls (infra_effect upd path opts cell)) \<Longrightarrow> is_get c"
  using calls_infra [of upd path opts cell] by (simp add: list_all_iff)

lemma script_ok_infra [script_intros]:
  "(\<And>f x. I x \<Longrightarrow> I (upd f x)) \<Longrightarrow> (\<And>p o'. allowed (api_get p o')) \<Longrightarrow> script_ok I allowed (infra_effect upd path opts c)"
  by (simp add: infra_effect_def split: option.split)

lemma ends_low_infra [script_intros]:
  "(\<And>f x. busy (upd f x) = busy x) \<Longrightarrow> low \<Longrightarrow> ends_low busy (infra_effect upd path opts c) low"
  by (simp add: infra_effect_def split: option.split)

lemma calls_lead_infra [script_intros]: "calls_lead later (infra_effect upd path opts c)"
  by (simp add: infra_effect_def split: option.split)

lemma quiet_infra [script_intros]:
  "(\<And>f x. busy (upd f x) = busy x) \<Longrightarrow> quiet busy is_get (infra_effect upd path opts c)"
  by (simp add: infra_effect_def split: option.split)

text \<open>While the effect has nothing new to show, the list is the last one answered: a change of the path or the query
  leaves the rows in place until the answer arrives.\<close>

lemma infra_rows_kept [simp]:
  "infra_rows (reload_infra c) = infra_rows c" "infra_rows (start_infra has c) = infra_rows c"
  by (simp_all add: infra_rows_def reload_infra_def start_infra_def on_hook_def next_run_def)

subsection \<open>Changes\<close>

record managed = ui +
  mg_busy :: bool

text \<open>\<open>runAction(action, success, done)\<close>, with the page's \<open>reload\<close>.\<close>

definition infra_runAction ::
  "('a managed_scheme \<Rightarrow> 'a managed_scheme) \<Rightarrow> api_call \<Rightarrow> string \<Rightarrow> ('a managed_scheme \<Rightarrow> 'a managed_scheme)
   \<Rightarrow> 'a managed_scheme api_script" where
  "infra_runAction reload action success finish =
     with_flag mg_busy_update
       (try_catch (await action (\<lambda>_. Set (toast_success success) (Set reload (Set finish Done))))
         (\<lambda>cause. Set (toast_error (api_message ''Request failed'' cause)) Done))"

lemma toast_busy [simp]: "mg_busy (toast_success m s) = mg_busy s" "mg_busy (toast_error m s) = mg_busy s"
  by (simp_all add: toast_success_def toast_error_def)

lemma lead_runAction [simp]: "lead_calls (infra_runAction reload action success finish) = [action]"
  by (simp add: infra_runAction_def with_flag_def await_def lead_step)

lemma calls_lead_runAction [script_intros]: "calls_lead later (infra_runAction reload action success finish)"
  by (auto simp: infra_runAction_def intro!: script_intros)

lemma script_ok_runAction [script_intros]:
  assumes "allowed action" and "\<And>x. I x \<Longrightarrow> I (reload x)" and "\<And>x. I x \<Longrightarrow> I (finish x)"
    and "\<And>m x. I x \<Longrightarrow> I (toast_success m x)" and "\<And>m x. I x \<Longrightarrow> I (toast_error m x)" and "\<And>g x. I x \<Longrightarrow> I (mg_busy_update g x)"
  shows "script_ok I allowed (infra_runAction reload action success finish)"
  using assms by (auto simp: infra_runAction_def intro!: script_intros)

lemma ends_low_runAction [script_intros]:
  assumes "\<And>x. mg_busy (reload x) = mg_busy x" and "\<And>x. mg_busy (finish x) = mg_busy x"
  shows "ends_low mg_busy (infra_runAction reload action success finish) True"
  unfolding infra_runAction_def by (intro ends_low_with_flag ends_low_try_catch ends_low_await) (simp_all add: assms)

lemma exclusive_runAction [script_intros]:
  assumes "\<And>x. mg_busy (reload x) = mg_busy x" and "\<And>x. mg_busy (finish x) = mg_busy x"
  shows "exclusive mg_busy is_get (infra_runAction reload action success finish) held"
  unfolding infra_runAction_def by (intro exclusive_with_flag keeps_flag_try keeps_flag_await) (simp_all add: assms)

subsection \<open>Fields\<close>

text \<open>What the user does in a dialog with a form: type in a field, close it, press its button.\<close>

datatype 'f form_event = FmField 'f | FmClose | FmSubmit

text \<open>\<open>Number.parseInt(text, 10)\<close>: the digits after blanks and a sign.\<close>

definition js_parseInt :: "string \<Rightarrow> js_num" where
  "js_parseInt s =
     (let t = trim s;
          minus = startsWith t ''-'';
          ds = takeWhile is_digit (if startsWith t ''-'' \<or> startsWith t ''+'' then tl t else t)
      in if ds = [] then NaN else to_double (if minus then - of_nat (read_nat ds) else of_nat (read_nat ds)))"

text \<open>\<open>value.replace(/\D/g, "")\<close>.\<close>

definition digits_of :: "string \<Rightarrow> string" where
  "digits_of t = filter is_digit t"

text \<open>\<open>value.replace(/[^0-9,\s]/g, "")\<close>.\<close>

definition id_list :: "string \<Rightarrow> string" where
  "id_list t = filter (\<lambda>c. is_digit c \<or> c = CHR '','' \<or> is_ws c) t"

text \<open>\<open>if (v.trim()) body.k = v.trim()\<close>.\<close>

definition text_field :: "string \<Rightarrow> string \<Rightarrow> (string \<times> json) list" where
  "text_field k v = (if trim v = [] then [] else [(k, JStr (trim v))])"

definition int_field :: "string \<Rightarrow> string \<Rightarrow> (string \<times> json) list" where
  "int_field k v = (if trim v = [] then [] else [(k, js_num_json (js_parseInt v))])"

text \<open>\<open>if (v) body.k = 1\<close> and \<open>body.k = v ? 1 : 0\<close>.\<close>

definition flag_field :: "string \<Rightarrow> bool \<Rightarrow> (string \<times> json) list" where
  "flag_field k v = (if v then [(k, JNum 1)] else [])"

definition bit_field :: "string \<Rightarrow> bool \<Rightarrow> (string \<times> json) list" where
  "bit_field k v = [(k, JNum (if v then 1 else 0))]"

text \<open>\<open>if (target.digest) body.digest = target.digest\<close>.\<close>

definition digest_field :: "json \<Rightarrow> (string \<times> json) list" where
  "digest_field row = (case prop_of row ''digest'' of Some v \<Rightarrow> if truthy v then [(''digest'', v)] else [] | None \<Rightarrow> [])"

text \<open>A row without the property that names it has its buttons disabled.\<close>

definition named_row :: "string \<Rightarrow> nat \<Rightarrow> infra_get \<Rightarrow> json option" where
  "named_row k i c = (case infra_row i c of Some row \<Rightarrow> if flag_prop k row then Some row else None | None \<Rightarrow> None)"

text \<open>The name in a path and in a message.\<close>

definition row_name :: "string \<Rightarrow> json \<Rightarrow> string" where
  "row_name k row = undefined_String (prop_of row k)"

text \<open>The paths of the Proxmox provider; nothing is requested without one.\<close>

definition pve_base :: "string \<Rightarrow> string" where
  "pve_base provider = ''/admin/proxmox/'' @ provider"

definition pve_path :: "string \<Rightarrow> string \<Rightarrow> string option" where
  "pve_path provider sub = (if provider = [] then None else Some (pve_base provider @ sub))"

text \<open>A choice in a select.\<close>

definition choice :: "string list \<Rightarrow> nat \<Rightarrow> string \<Rightarrow> string" where
  "choice options i current = (if i < length options then options ! i else current)"

text \<open>\<open>String(target.k ?? d)\<close>.\<close>

definition prop_text :: "string \<Rightarrow> string \<Rightarrow> json \<Rightarrow> string" where
  "prop_text k d row = (case prop_of row k of None \<Rightarrow> d | Some JNull \<Rightarrow> d | Some v \<Rightarrow> js_String v)"

text \<open>\<open>t || d\<close>.\<close>

definition default_text :: "string \<Rightarrow> string \<Rightarrow> string" where
  "default_text t d = (if t = [] then d else t)"

end
