(* ===== verification/Proxmox_Ha.thy ===== *)
theory Proxmox_Ha
  imports Infra_Kit
begin

text \<open>
  High availability of a Proxmox cluster: the page of the Proxmox section (\<open>proxmox/ProxmoxHaPage.tsx\<close>) with
  resources, groups, rules and the watchdog, and the page of the provider console
  (\<open>admin/pages/providers/Ha.tsx\<close>) with the resources only. A dialog that is open makes the page below it inert; the
  tab in view is the user's choice and no request depends on it.
\<close>

subsection \<open>The dialogs of the Proxmox section\<close>

definition RESOURCE_TYPES :: "string list" where
  "RESOURCE_TYPES = [''vm'', ''ct'']"

definition type_options :: "string list" where
  "type_options = ''all'' # RESOURCE_TYPES"

definition RESOURCE_STATES :: "string list" where
  "RESOURCE_STATES = [''started'', ''stopped'', ''enabled'', ''disabled'']"

record ha_add =
  ha_sid :: string
  ha_type :: string
  ha_state :: string
  ha_group :: string
  ha_maxRestart :: string
  ha_maxRelocate :: string
  ha_comment :: string

definition empty_add :: ha_add where
  "empty_add = \<lparr>ha_sid = [], ha_type = ''vm'', ha_state = ''started'', ha_group = [], ha_maxRestart = ''1'', ha_maxRelocate = ''1'',
     ha_comment = []\<rparr>"

datatype ha_add_field = HaSid string | HaType nat | HaState nat | HaGroup string | HaRestart string | HaRelocate string | HaComment string

fun set_ha_add :: "ha_add_field \<Rightarrow> ha_add \<Rightarrow> ha_add" where
  "set_ha_add (HaSid t) f = f\<lparr>ha_sid := t\<rparr>"
| "set_ha_add (HaType i) f = f\<lparr>ha_type := choice RESOURCE_TYPES i (ha_type f)\<rparr>"
| "set_ha_add (HaState i) f = f\<lparr>ha_state := choice RESOURCE_STATES i (ha_state f)\<rparr>"
| "set_ha_add (HaGroup t) f = f\<lparr>ha_group := t\<rparr>"
| "set_ha_add (HaRestart t) f = f\<lparr>ha_maxRestart := digits_of t\<rparr>"
| "set_ha_add (HaRelocate t) f = f\<lparr>ha_maxRelocate := digits_of t\<rparr>"
| "set_ha_add (HaComment t) f = f\<lparr>ha_comment := t\<rparr>"

definition ha_add_body :: "ha_add \<Rightarrow> json" where
  "ha_add_body f = JObj ([(''sid'', JStr (trim (ha_sid f))), (''state'', JStr (ha_state f))]
     @ text_field ''type'' (ha_type f) @ text_field ''group'' (ha_group f)
     @ int_field ''max_restart'' (ha_maxRestart f) @ int_field ''max_relocate'' (ha_maxRelocate f)
     @ text_field ''comment'' (ha_comment f))"

record ha_group_form =
  hg_group :: string
  hg_nodes :: string
  hg_comment :: string
  hg_restricted :: bool
  hg_nofailback :: bool

definition empty_group :: ha_group_form where
  "empty_group = \<lparr>hg_group = [], hg_nodes = [], hg_comment = [], hg_restricted = False, hg_nofailback = False\<rparr>"

datatype ha_group_field = HgGroup string | HgNodes string | HgComment string | HgRestricted bool | HgNofailback bool

fun set_ha_group :: "ha_group_field \<Rightarrow> ha_group_form \<Rightarrow> ha_group_form" where
  "set_ha_group (HgGroup t) f = f\<lparr>hg_group := t\<rparr>"
| "set_ha_group (HgNodes t) f = f\<lparr>hg_nodes := t\<rparr>"
| "set_ha_group (HgComment t) f = f\<lparr>hg_comment := t\<rparr>"
| "set_ha_group (HgRestricted b) f = f\<lparr>hg_restricted := b\<rparr>"
| "set_ha_group (HgNofailback b) f = f\<lparr>hg_nofailback := b\<rparr>"

definition ha_group_body :: "ha_group_form \<Rightarrow> json" where
  "ha_group_body f = JObj ([(''group'', JStr (trim (hg_group f))), (''nodes'', JStr (trim (hg_nodes f)))]
     @ text_field ''comment'' (hg_comment f) @ flag_field ''restricted'' (hg_restricted f) @ flag_field ''nofailback'' (hg_nofailback f))"

text \<open>The edit dialog is mounted for its target; its name field is disabled.\<close>

definition group_form_of :: "json \<Rightarrow> ha_group_form" where
  "group_form_of target = \<lparr>hg_group = row_name ''group'' target, hg_nodes = str_prop ''nodes'' target,
     hg_comment = str_prop ''comment'' target, hg_restricted = flag_prop ''restricted'' target,
     hg_nofailback = flag_prop ''nofailback'' target\<rparr>"

definition group_edit_body :: "json \<Rightarrow> ha_group_form \<Rightarrow> json" where
  "group_edit_body target f = JObj ([(''nodes'', JStr (trim (hg_nodes f))), (''comment'', JStr (trim (hg_comment f)))]
     @ bit_field ''restricted'' (hg_restricted f) @ bit_field ''nofailback'' (hg_nofailback f) @ digest_field target)"

record ha_rule_form =
  hr_rule :: string
  hr_type :: string
  hr_affinity :: string
  hr_resources :: string
  hr_nodes :: string
  hr_comment :: string
  hr_strict :: bool
  hr_disable :: bool

definition empty_rule :: ha_rule_form where
  "empty_rule = \<lparr>hr_rule = [], hr_type = ''node-affinity'', hr_affinity = ''positive'', hr_resources = [], hr_nodes = [], hr_comment = [],
     hr_strict = False, hr_disable = False\<rparr>"

datatype ha_rule_field =
    HrRule string | HrType nat | HrAffinity nat | HrResources string | HrNodes string | HrComment string | HrStrict bool | HrDisable bool

fun set_ha_rule :: "ha_rule_field \<Rightarrow> ha_rule_form \<Rightarrow> ha_rule_form" where
  "set_ha_rule (HrRule t) f = f\<lparr>hr_rule := t\<rparr>"
| "set_ha_rule (HrType i) f = f\<lparr>hr_type := choice [''node-affinity'', ''resource-affinity''] i (hr_type f)\<rparr>"
| "set_ha_rule (HrAffinity i) f = f\<lparr>hr_affinity := choice [''positive'', ''negative''] i (hr_affinity f)\<rparr>"
| "set_ha_rule (HrResources t) f = f\<lparr>hr_resources := t\<rparr>"
| "set_ha_rule (HrNodes t) f = f\<lparr>hr_nodes := t\<rparr>"
| "set_ha_rule (HrComment t) f = f\<lparr>hr_comment := t\<rparr>"
| "set_ha_rule (HrStrict b) f = f\<lparr>hr_strict := b\<rparr>"
| "set_ha_rule (HrDisable b) f = f\<lparr>hr_disable := b\<rparr>"

definition ha_rule_body :: "ha_rule_form \<Rightarrow> json" where
  "ha_rule_body f = JObj ([(''rule'', JStr (trim (hr_rule f))), (''type'', JStr (trim (hr_type f))), (''resources'', JStr (trim (hr_resources f)))]
     @ text_field ''affinity'' (hr_affinity f) @ text_field ''nodes'' (hr_nodes f) @ text_field ''comment'' (hr_comment f)
     @ flag_field ''strict'' (hr_strict f) @ flag_field ''disable'' (hr_disable f))"

definition rule_form_of :: "json \<Rightarrow> ha_rule_form" where
  "rule_form_of target = \<lparr>hr_rule = row_name ''rule'' target, hr_type = default_text (str_prop ''type'' target) ''node-affinity'',
     hr_affinity = default_text (str_prop ''affinity'' target) ''positive'', hr_resources = str_prop ''resources'' target,
     hr_nodes = str_prop ''nodes'' target, hr_comment = str_prop ''comment'' target, hr_strict = flag_prop ''strict'' target,
     hr_disable = flag_prop ''disable'' target\<rparr>"

definition rule_edit_body :: "json \<Rightarrow> ha_rule_form \<Rightarrow> json" where
  "rule_edit_body target f = JObj ([(''resources'', JStr (trim (hr_resources f))), (''type'', JStr (trim (hr_type f)))]
     @ text_field ''affinity'' (hr_affinity f) @ [(''nodes'', JStr (trim (hr_nodes f))), (''comment'', JStr (trim (hr_comment f)))]
     @ bit_field ''strict'' (hr_strict f) @ bit_field ''disable'' (hr_disable f) @ digest_field target)"

subsection \<open>The page of the Proxmox section\<close>

record ha_page = managed +
  hp_resources :: infra_get
  hp_groups :: infra_get
  hp_rules :: infra_get
  hp_typeFilter :: string
  hp_addOpen :: bool
  hp_add :: ha_add
  hp_delete :: "(string \<times> bool) option"
  hp_disarmOpen :: bool
  hp_mode :: string
  hp_groupOpen :: bool
  hp_group :: ha_group_form
  hp_groupEdit :: "json option"
  hp_groupEditForm :: ha_group_form
  hp_groupDelete :: "json option"
  hp_ruleOpen :: bool
  hp_rule :: ha_rule_form
  hp_ruleEdit :: "json option"
  hp_ruleEditForm :: ha_rule_form
  hp_ruleDelete :: "json option"

definition ha_reload :: "ha_page \<Rightarrow> ha_page" where
  "ha_reload s = s\<lparr>hp_resources := reload_infra (hp_resources s), hp_groups := reload_infra (hp_groups s),
     hp_rules := reload_infra (hp_rules s)\<rparr>"

definition type_query :: "string \<Rightarrow> api_options" where
  "type_query typeFilter = (if typeFilter = ''all'' then no_options else query_opts [(''type'', QStr typeFilter)])"

definition ha_no_dialog :: "ha_page \<Rightarrow> bool" where
  "ha_no_dialog s \<longleftrightarrow> \<not> hp_addOpen s \<and> hp_delete s = None \<and> \<not> hp_disarmOpen s \<and> \<not> hp_groupOpen s \<and> hp_groupEdit s = None
     \<and> hp_groupDelete s = None \<and> \<not> hp_ruleOpen s \<and> hp_ruleEdit s = None \<and> hp_ruleDelete s = None"

definition submit_add :: "string \<Rightarrow> ha_page \<Rightarrow> ha_page api_script" where
  "submit_add provider s =
     (if trim (ha_sid (hp_add s)) = [] then Set (toast_error ''SID is required (e.g. vm:100).'') Done
      else infra_runAction ha_reload (api_post (pve_base provider @ ''/ha-resources'') (Some (ha_add_body (hp_add s))) no_options)
        (''HA resource '' @ trim (ha_sid (hp_add s)) @ '' added'') (hp_addOpen_update (\<lambda>_. False)))"

definition delete_opts :: "string \<Rightarrow> bool \<Rightarrow> api_options" where
  "delete_opts sid purge = query_opts [(''sid'', QStr sid), (''purge'', if purge then QStr ''true'' else QNull)]"

definition confirm_delete :: "string \<Rightarrow> ha_page \<Rightarrow> ha_page api_script" where
  "confirm_delete provider s = Set (hp_delete_update (\<lambda>_. None))
     (case hp_delete s of
        None \<Rightarrow> Done
      | Some (sid, purge) \<Rightarrow> infra_runAction ha_reload (api_delete (pve_base provider @ ''/ha-resources'') (delete_opts sid purge))
          (''HA resource '' @ sid @ '' deleted'') id)"

definition submit_group :: "string \<Rightarrow> ha_page \<Rightarrow> ha_page api_script" where
  "submit_group provider s =
     (let f = hp_group s in
      if trim (hg_group f) = [] then Set (toast_error ''Group name is required.'') Done
      else if trim (hg_nodes f) = [] then Set (toast_error ''Nodes is required (comma list).'') Done
      else infra_runAction ha_reload (api_post (pve_base provider @ ''/ha/groups'') (Some (ha_group_body f)) no_options)
        (''HA group '' @ trim (hg_group f) @ '' created'')
        (\<lambda>x. x\<lparr>hp_group := (hp_group x)\<lparr>hg_group := [], hg_nodes := [], hg_comment := []\<rparr>, hp_groupOpen := False\<rparr>))"

definition submit_group_edit :: "string \<Rightarrow> json \<Rightarrow> ha_page \<Rightarrow> ha_page api_script" where
  "submit_group_edit provider target s =
     (if trim (hg_nodes (hp_groupEditForm s)) = [] then Set (toast_error ''Nodes is required.'') Done
      else infra_runAction ha_reload
        (api_put (pve_base provider @ ''/ha/groups/'' @ encodeURIComponent (row_name ''group'' target))
          (Some (group_edit_body target (hp_groupEditForm s))) no_options)
        (''HA group '' @ row_name ''group'' target @ '' updated'') (hp_groupEdit_update (\<lambda>_. None)))"

definition confirm_group_delete :: "string \<Rightarrow> ha_page \<Rightarrow> ha_page api_script" where
  "confirm_group_delete provider s = Set (hp_groupDelete_update (\<lambda>_. None))
     (case hp_groupDelete s of
        None \<Rightarrow> Done
      | Some t \<Rightarrow>
          if \<not> flag_prop ''group'' t then Done
          else infra_runAction ha_reload (api_delete (pve_base provider @ ''/ha/groups/'' @ encodeURIComponent (row_name ''group'' t)) no_options)
            (''HA group '' @ row_name ''group'' t @ '' deleted'') id)"

definition submit_ha_rule :: "string \<Rightarrow> ha_page \<Rightarrow> ha_page api_script" where
  "submit_ha_rule provider s =
     (let f = hp_rule s in
      if trim (hr_rule f) = [] then Set (toast_error ''Rule name is required.'') Done
      else if trim (hr_type f) = [] then Set (toast_error ''Type is required.'') Done
      else if trim (hr_resources f) = [] then Set (toast_error ''Resources is required (comma SIDs).'') Done
      else infra_runAction ha_reload (api_post (pve_base provider @ ''/ha/rules'') (Some (ha_rule_body f)) no_options)
        (''HA rule '' @ trim (hr_rule f) @ '' created'')
        (\<lambda>x. x\<lparr>hp_rule := (hp_rule x)\<lparr>hr_rule := [], hr_resources := [], hr_nodes := [], hr_comment := []\<rparr>, hp_ruleOpen := False\<rparr>))"

definition submit_rule_edit :: "string \<Rightarrow> json \<Rightarrow> ha_page \<Rightarrow> ha_page api_script" where
  "submit_rule_edit provider target s =
     (if trim (hr_resources (hp_ruleEditForm s)) = [] then Set (toast_error ''Resources is required.'') Done
      else infra_runAction ha_reload
        (api_put (pve_base provider @ ''/ha/rules/'' @ encodeURIComponent (row_name ''rule'' target))
          (Some (rule_edit_body target (hp_ruleEditForm s))) no_options)
        (''HA rule '' @ row_name ''rule'' target @ '' updated'') (hp_ruleEdit_update (\<lambda>_. None)))"

definition confirm_rule_delete :: "string \<Rightarrow> ha_page \<Rightarrow> ha_page api_script" where
  "confirm_rule_delete provider s = Set (hp_ruleDelete_update (\<lambda>_. None))
     (case hp_ruleDelete s of
        None \<Rightarrow> Done
      | Some t \<Rightarrow>
          if \<not> flag_prop ''rule'' t then Done
          else infra_runAction ha_reload (api_delete (pve_base provider @ ''/ha/rules/'' @ encodeURIComponent (row_name ''rule'' t)) no_options)
            (''HA rule '' @ row_name ''rule'' t @ '' deleted'') id)"

definition disarm_options :: "string list" where
  "disarm_options = [''freeze'', ''ignore'']"

definition disarm_call :: "string \<Rightarrow> string \<Rightarrow> api_call" where
  "disarm_call provider mode = api_post (pve_base provider @ ''/ha/disarm'') (Some (JObj [(''mode'', JStr mode)])) no_options"

text \<open>The dialogs, by their components: each is a form that is open or not.\<close>

fun AddResourceDialog :: "string \<Rightarrow> ha_add_field form_event \<Rightarrow> ha_page \<Rightarrow> ha_page api_script" where
  "AddResourceDialog provider (FmField f) s = (if hp_addOpen s then Set (hp_add_update (set_ha_add f)) Done else Done)"
| "AddResourceDialog provider FmClose s = (if hp_addOpen s then Set (hp_addOpen_update (\<lambda>_. False)) Done else Done)"
| "AddResourceDialog provider FmSubmit s = (if hp_addOpen s \<and> \<not> mg_busy s then submit_add provider s else Done)"

fun DisarmDialog :: "string \<Rightarrow> nat form_event \<Rightarrow> ha_page \<Rightarrow> ha_page api_script" where
  "DisarmDialog provider (FmField i) s =
     (if hp_disarmOpen s then Set (hp_mode_update (\<lambda>_. choice disarm_options i (hp_mode s))) Done else Done)"
| "DisarmDialog provider FmClose s = (if hp_disarmOpen s then Set (hp_disarmOpen_update (\<lambda>_. False)) Done else Done)"
| "DisarmDialog provider FmSubmit s =
     (if hp_disarmOpen s \<and> \<not> mg_busy s
      then infra_runAction ha_reload (disarm_call provider (hp_mode s)) (''Watchdog disarmed ('' @ hp_mode s @ '')'')
             (hp_disarmOpen_update (\<lambda>_. False))
      else Done)"

fun CreateGroupDialog :: "string \<Rightarrow> ha_group_field form_event \<Rightarrow> ha_page \<Rightarrow> ha_page api_script" where
  "CreateGroupDialog provider (FmField f) s = (if hp_groupOpen s then Set (hp_group_update (set_ha_group f)) Done else Done)"
| "CreateGroupDialog provider FmClose s = (if hp_groupOpen s then Set (hp_groupOpen_update (\<lambda>_. False)) Done else Done)"
| "CreateGroupDialog provider FmSubmit s =
     (if hp_groupOpen s \<and> \<not> mg_busy s \<and> trim (hg_group (hp_group s)) \<noteq> [] \<and> trim (hg_nodes (hp_group s)) \<noteq> []
      then submit_group provider s else Done)"

fun EditGroupDialog :: "string \<Rightarrow> ha_group_field form_event \<Rightarrow> ha_page \<Rightarrow> ha_page api_script" where
  "EditGroupDialog provider (FmField f) s =
     (if hp_groupEdit s \<noteq> None then Set (hp_groupEditForm_update (set_ha_group f)) Done else Done)"
| "EditGroupDialog provider FmClose s = Set (hp_groupEdit_update (\<lambda>_. None)) Done"
| "EditGroupDialog provider FmSubmit s =
     (case hp_groupEdit s of
        Some target \<Rightarrow> if \<not> mg_busy s then submit_group_edit provider target s else Done
      | None \<Rightarrow> Done)"

fun CreateRuleDialog :: "string \<Rightarrow> ha_rule_field form_event \<Rightarrow> ha_page \<Rightarrow> ha_page api_script" where
  "CreateRuleDialog provider (FmField f) s = (if hp_ruleOpen s then Set (hp_rule_update (set_ha_rule f)) Done else Done)"
| "CreateRuleDialog provider FmClose s = (if hp_ruleOpen s then Set (hp_ruleOpen_update (\<lambda>_. False)) Done else Done)"
| "CreateRuleDialog provider FmSubmit s =
     (if hp_ruleOpen s \<and> \<not> mg_busy s \<and> trim (hr_rule (hp_rule s)) \<noteq> [] \<and> trim (hr_resources (hp_rule s)) \<noteq> []
      then submit_ha_rule provider s else Done)"

fun EditRuleDialog :: "string \<Rightarrow> ha_rule_field form_event \<Rightarrow> ha_page \<Rightarrow> ha_page api_script" where
  "EditRuleDialog provider (FmField f) s =
     (if hp_ruleEdit s \<noteq> None then Set (hp_ruleEditForm_update (set_ha_rule f)) Done else Done)"
| "EditRuleDialog provider FmClose s = Set (hp_ruleEdit_update (\<lambda>_. None)) Done"
| "EditRuleDialog provider FmSubmit s =
     (case hp_ruleEdit s of
        Some target \<Rightarrow> if \<not> mg_busy s then submit_rule_edit provider target s else Done
      | None \<Rightarrow> Done)"

datatype ha_event =
    HpEffects
  | HpTick nat
  | HpFilter nat
  | HpRefresh
  | HpArm
  | HpDisarmOpen
  | HpDisarm "nat form_event"
  | HpAddOpen
  | HpAdd "ha_add_field form_event"
  | HpDelete nat
  | HpPurge bool
  | HpDeleteCancel
  | HpDeleteConfirm
  | HpGroupOpen
  | HpGroupCreate "ha_group_field form_event"
  | HpGroupEdit nat
  | HpGroupSave "ha_group_field form_event"
  | HpGroupDelete nat
  | HpGroupDeleteCancel
  | HpGroupDeleteConfirm
  | HpRuleOpen
  | HpRuleCreate "ha_rule_field form_event"
  | HpRuleEdit nat
  | HpRuleSave "ha_rule_field form_event"
  | HpRuleDelete nat
  | HpRuleDeleteCancel
  | HpRuleDeleteConfirm

text \<open>The effects of the three lists run whether or not the page is shown; every other event needs the page.\<close>

definition ha_effects :: "string \<Rightarrow> ha_page \<Rightarrow> ha_page api_script" where
  "ha_effects provider s =
     Fork (infra_effect hp_resources_update (pve_path provider ''/ha-resources'') (type_query (hp_typeFilter s)) (hp_resources s))
       (Fork (infra_effect hp_groups_update (pve_path provider ''/ha/groups'') no_options (hp_groups s))
         (infra_effect hp_rules_update (pve_path provider ''/ha/rules'') no_options (hp_rules s)))"

fun ha_ui :: "string \<Rightarrow> ha_event \<Rightarrow> ha_page \<Rightarrow> ha_page api_script" where
  "ha_ui provider HpEffects s = Done"
| "ha_ui provider (HpTick i) s = Done"
| "ha_ui provider (HpFilter i) s =
     (if ha_no_dialog s \<and> choice type_options i (hp_typeFilter s) \<noteq> hp_typeFilter s
      then Set (\<lambda>x. x\<lparr>hp_typeFilter := choice type_options i (hp_typeFilter s), hp_resources := reload_infra (hp_resources x)\<rparr>) Done
      else Done)"
| "ha_ui provider HpRefresh s =
     (if ha_no_dialog s \<and> \<not> c_loading (ig_hook (hp_resources s)) then Set (hp_resources_update reload_infra) Done else Done)"
| "ha_ui provider HpArm s =
     (if ha_no_dialog s \<and> \<not> mg_busy s
      then infra_runAction ha_reload (api_post (pve_base provider @ ''/ha/arm'') (Some (JObj [])) no_options) ''Watchdog armed'' id
      else Done)"
| "ha_ui provider HpDisarmOpen s = (if ha_no_dialog s \<and> \<not> mg_busy s then Set (hp_disarmOpen_update (\<lambda>_. True)) Done else Done)"
| "ha_ui provider (HpDisarm e) s = DisarmDialog provider e s"
| "ha_ui provider HpAddOpen s = (if ha_no_dialog s then Set (hp_addOpen_update (\<lambda>_. True)) Done else Done)"
| "ha_ui provider (HpAdd e) s = AddResourceDialog provider e s"
| "ha_ui provider (HpDelete i) s =
     (case named_row ''sid'' i (hp_resources s) of
        Some r \<Rightarrow> if ha_no_dialog s then Set (hp_delete_update (\<lambda>_. Some (row_name ''sid'' r, False))) Done else Done
      | None \<Rightarrow> Done)"
| "ha_ui provider (HpPurge b) s = Set (hp_delete_update (map_option (\<lambda>t. (fst t, b)))) Done"
| "ha_ui provider HpDeleteCancel s = Set (hp_delete_update (\<lambda>_. None)) Done"
| "ha_ui provider HpDeleteConfirm s = (if hp_delete s \<noteq> None \<and> \<not> mg_busy s then confirm_delete provider s else Done)"
| "ha_ui provider HpGroupOpen s = (if ha_no_dialog s then Set (hp_groupOpen_update (\<lambda>_. True)) Done else Done)"
| "ha_ui provider (HpGroupCreate e) s = CreateGroupDialog provider e s"
| "ha_ui provider (HpGroupEdit i) s =
     (case named_row ''group'' i (hp_groups s) of
        Some r \<Rightarrow> if ha_no_dialog s
                  then Set (\<lambda>x. x\<lparr>hp_groupEdit := Some r, hp_groupEditForm := group_form_of r\<rparr>) Done else Done
      | None \<Rightarrow> Done)"
| "ha_ui provider (HpGroupSave e) s = EditGroupDialog provider e s"
| "ha_ui provider (HpGroupDelete i) s =
     (case named_row ''group'' i (hp_groups s) of
        Some r \<Rightarrow> if ha_no_dialog s then Set (hp_groupDelete_update (\<lambda>_. Some r)) Done else Done
      | None \<Rightarrow> Done)"
| "ha_ui provider HpGroupDeleteCancel s = Set (hp_groupDelete_update (\<lambda>_. None)) Done"
| "ha_ui provider HpGroupDeleteConfirm s =
     (if hp_groupDelete s \<noteq> None \<and> \<not> mg_busy s then confirm_group_delete provider s else Done)"
| "ha_ui provider HpRuleOpen s = (if ha_no_dialog s then Set (hp_ruleOpen_update (\<lambda>_. True)) Done else Done)"
| "ha_ui provider (HpRuleCreate e) s = CreateRuleDialog provider e s"
| "ha_ui provider (HpRuleEdit i) s =
     (case named_row ''rule'' i (hp_rules s) of
        Some r \<Rightarrow> if ha_no_dialog s
                  then Set (\<lambda>x. x\<lparr>hp_ruleEdit := Some r, hp_ruleEditForm := rule_form_of r\<rparr>) Done else Done
      | None \<Rightarrow> Done)"
| "ha_ui provider (HpRuleSave e) s = EditRuleDialog provider e s"
| "ha_ui provider (HpRuleDelete i) s =
     (case named_row ''rule'' i (hp_rules s) of
        Some r \<Rightarrow> if ha_no_dialog s then Set (hp_ruleDelete_update (\<lambda>_. Some r)) Done else Done
      | None \<Rightarrow> Done)"
| "ha_ui provider HpRuleDeleteCancel s = Set (hp_ruleDelete_update (\<lambda>_. None)) Done"
| "ha_ui provider HpRuleDeleteConfirm s =
     (if hp_ruleDelete s \<noteq> None \<and> \<not> mg_busy s then confirm_rule_delete provider s else Done)"

text \<open>Each list has its own interval.\<close>

definition ha_tick :: "nat \<Rightarrow> ha_page \<Rightarrow> ha_page" where
  "ha_tick i = (if i = 0 then hp_resources_update reload_infra else if i = 1 then hp_groups_update reload_infra
     else hp_rules_update reload_infra)"

definition ha_handler :: "string \<Rightarrow> ha_event \<Rightarrow> ha_page \<Rightarrow> ha_page api_script" where
  "ha_handler provider u s =
     (if u = HpEffects then ha_effects provider s
      else if provider = [] then Done
      else case u of HpTick i \<Rightarrow> Set (ha_tick i) Done | _ \<Rightarrow> ha_ui provider u s)"

definition open_ha :: "string \<Rightarrow> ha_page" where
  "open_ha provider = \<lparr>toasts = [], mg_busy = False, hp_resources = open_infra (provider \<noteq> []), hp_groups = open_infra (provider \<noteq> []),
     hp_rules = open_infra (provider \<noteq> []), hp_typeFilter = ''all'', hp_addOpen = False, hp_add = empty_add, hp_delete = None,
     hp_disarmOpen = False, hp_mode = ''freeze'', hp_groupOpen = False, hp_group = empty_group, hp_groupEdit = None,
     hp_groupEditForm = empty_group, hp_groupDelete = None, hp_ruleOpen = False, hp_rule = empty_rule, hp_ruleEdit = None,
     hp_ruleEditForm = empty_rule, hp_ruleDelete = None\<rparr>"

text \<open>The cells of the resources table that are computed.\<close>

definition resource_type_cell :: "json \<Rightarrow> string" where
  "resource_type_cell r = default_text (str_prop ''type'' r)
     (default_text (hd (split_at_char (CHR '':'') (str_prop ''sid'' r))) em_dash)"

definition limits_cell :: "json \<Rightarrow> string" where
  "limits_cell r = prop_text ''max_restart'' ''1'' r @ '' / '' @ prop_text ''max_relocate'' ''1'' r"

subsection \<open>The page of the provider console\<close>

definition EDIT_STATES :: "string list" where
  "EDIT_STATES = RESOURCE_STATES @ [''ignored'']"

definition resource_form_of :: "json \<Rightarrow> ha_add" where
  "resource_form_of target = \<lparr>ha_sid = prop_text ''sid'' [] target, ha_type = [], ha_state = prop_text ''state'' ''started'' target,
     ha_group = prop_text ''group'' [] target, ha_maxRestart = prop_text ''max_restart'' ''1'' target,
     ha_maxRelocate = prop_text ''max_relocate'' ''1'' target, ha_comment = prop_text ''comment'' [] target\<rparr>"

definition resource_edit_body :: "json \<Rightarrow> ha_add \<Rightarrow> json" where
  "resource_edit_body target f = JObj ([(''state'', JStr (ha_state f)), (''group'', JStr (trim (ha_group f)))]
     @ int_field ''max_restart'' (ha_maxRestart f) @ int_field ''max_relocate'' (ha_maxRelocate f)
     @ [(''comment'', JStr (trim (ha_comment f)))] @ digest_field target)"

record provider_ha = managed +
  ph_resources :: infra_get
  ph_typeFilter :: string
  ph_addOpen :: bool
  ph_add :: ha_add
  ph_edit :: "json option"
  ph_editForm :: ha_add
  ph_delete :: "(string \<times> bool) option"
  ph_disarmOpen :: bool
  ph_mode :: string

definition ph_reload :: "provider_ha \<Rightarrow> provider_ha" where
  "ph_reload s = s\<lparr>ph_resources := reload_infra (ph_resources s)\<rparr>"

definition ph_type_query :: "string \<Rightarrow> api_options" where
  "ph_type_query typeFilter = query_opts [(''type'', if typeFilter = ''all'' then QNull else QStr typeFilter)]"

definition ph_no_dialog :: "provider_ha \<Rightarrow> bool" where
  "ph_no_dialog s \<longleftrightarrow> \<not> ph_addOpen s \<and> ph_edit s = None \<and> ph_delete s = None \<and> \<not> ph_disarmOpen s"

definition ph_submit_add :: "string \<Rightarrow> provider_ha \<Rightarrow> provider_ha api_script" where
  "ph_submit_add provider s =
     (if trim (ha_sid (ph_add s)) = [] then Set (toast_error ''SID is required (e.g. vm:100).'') Done
      else infra_runAction ph_reload (api_post (pve_base provider @ ''/ha-resources'') (Some (ha_add_body (ph_add s))) no_options)
        (''HA resource '' @ trim (ha_sid (ph_add s)) @ '' added'') (ph_addOpen_update (\<lambda>_. False)))"

definition ph_submit_edit :: "string \<Rightarrow> json \<Rightarrow> provider_ha \<Rightarrow> provider_ha api_script" where
  "ph_submit_edit provider target s =
     infra_runAction ph_reload
       (api_put (pve_base provider @ ''/ha-resources/'' @ encodeURIComponent (row_name ''sid'' target))
         (Some (resource_edit_body target (ph_editForm s))) no_options)
       (''HA resource '' @ row_name ''sid'' target @ '' updated'') (ph_edit_update (\<lambda>_. None))"

definition ph_confirm_delete :: "string \<Rightarrow> provider_ha \<Rightarrow> provider_ha api_script" where
  "ph_confirm_delete provider s = Set (ph_delete_update (\<lambda>_. None))
     (case ph_delete s of
        None \<Rightarrow> Done
      | Some (sid, purge) \<Rightarrow> infra_runAction ph_reload (api_delete (pve_base provider @ ''/ha-resources'') (delete_opts sid purge))
          (''HA resource '' @ sid @ '' deleted'') id)"

text \<open>The fields of the edit dialog that can be typed in.\<close>

definition editable :: "ha_add_field \<Rightarrow> bool" where
  "editable f \<longleftrightarrow> (case f of HaSid _ \<Rightarrow> False | HaType _ \<Rightarrow> False | HaState _ \<Rightarrow> False | _ \<Rightarrow> True)"

fun ProviderAddResourceDialog :: "string \<Rightarrow> ha_add_field form_event \<Rightarrow> provider_ha \<Rightarrow> provider_ha api_script" where
  "ProviderAddResourceDialog provider (FmField f) s = (if ph_addOpen s then Set (ph_add_update (set_ha_add f)) Done else Done)"
| "ProviderAddResourceDialog provider FmClose s = (if ph_addOpen s then Set (ph_addOpen_update (\<lambda>_. False)) Done else Done)"
| "ProviderAddResourceDialog provider FmSubmit s = (if ph_addOpen s \<and> \<not> mg_busy s then ph_submit_add provider s else Done)"

text \<open>The state has its own options; the other fields are those of the add dialog.\<close>

fun EditResourceDialog :: "string \<Rightarrow> (nat + ha_add_field) form_event \<Rightarrow> provider_ha \<Rightarrow> provider_ha api_script" where
  "EditResourceDialog provider (FmField (Inl i)) s =
     (if ph_edit s \<noteq> None then Set (ph_editForm_update (\<lambda>f. f\<lparr>ha_state := choice EDIT_STATES i (ha_state f)\<rparr>)) Done else Done)"
| "EditResourceDialog provider (FmField (Inr f)) s =
     (if ph_edit s \<noteq> None \<and> editable f then Set (ph_editForm_update (set_ha_add f)) Done else Done)"
| "EditResourceDialog provider FmClose s = Set (ph_edit_update (\<lambda>_. None)) Done"
| "EditResourceDialog provider FmSubmit s =
     (case ph_edit s of Some target \<Rightarrow> if \<not> mg_busy s then ph_submit_edit provider target s else Done | None \<Rightarrow> Done)"

fun ProviderDisarmDialog :: "string \<Rightarrow> nat form_event \<Rightarrow> provider_ha \<Rightarrow> provider_ha api_script" where
  "ProviderDisarmDialog provider (FmField i) s =
     (if ph_disarmOpen s then Set (ph_mode_update (\<lambda>_. choice disarm_options i (ph_mode s))) Done else Done)"
| "ProviderDisarmDialog provider FmClose s = (if ph_disarmOpen s then Set (ph_disarmOpen_update (\<lambda>_. False)) Done else Done)"
| "ProviderDisarmDialog provider FmSubmit s =
     (if ph_disarmOpen s \<and> \<not> mg_busy s
      then infra_runAction ph_reload (disarm_call provider (ph_mode s)) (''Watchdog disarmed ('' @ ph_mode s @ '')'')
             (ph_disarmOpen_update (\<lambda>_. False))
      else Done)"

datatype provider_ha_event =
    PhEffect
  | PhTick
  | PhFilter nat
  | PhArm
  | PhDisarmOpen
  | PhDisarm "nat form_event"
  | PhAddOpen
  | PhAdd "ha_add_field form_event"
  | PhEdit nat
  | PhSave "(nat + ha_add_field) form_event"
  | PhDelete nat
  | PhPurge bool
  | PhDeleteCancel
  | PhDeleteConfirm

fun provider_ha_handler :: "string \<Rightarrow> provider_ha_event \<Rightarrow> provider_ha \<Rightarrow> provider_ha api_script" where
  "provider_ha_handler provider PhEffect s =
     infra_effect ph_resources_update (pve_path provider ''/ha-resources'') (ph_type_query (ph_typeFilter s)) (ph_resources s)"
| "provider_ha_handler provider PhTick s = (if provider = [] then Done else Set ph_reload Done)"
| "provider_ha_handler provider (PhFilter i) s =
     (if ph_no_dialog s \<and> choice type_options i (ph_typeFilter s) \<noteq> ph_typeFilter s
      then Set (\<lambda>x. ph_reload (x\<lparr>ph_typeFilter := choice type_options i (ph_typeFilter s)\<rparr>)) Done else Done)"
| "provider_ha_handler provider PhArm s =
     (if ph_no_dialog s \<and> \<not> mg_busy s
      then infra_runAction ph_reload (api_post (pve_base provider @ ''/ha/arm'') None no_options) ''Watchdog armed'' id
      else Done)"
| "provider_ha_handler provider PhDisarmOpen s =
     (if ph_no_dialog s \<and> \<not> mg_busy s then Set (ph_disarmOpen_update (\<lambda>_. True)) Done else Done)"
| "provider_ha_handler provider (PhDisarm e) s = ProviderDisarmDialog provider e s"
| "provider_ha_handler provider PhAddOpen s = (if ph_no_dialog s then Set (ph_addOpen_update (\<lambda>_. True)) Done else Done)"
| "provider_ha_handler provider (PhAdd e) s = ProviderAddResourceDialog provider e s"
| "provider_ha_handler provider (PhEdit i) s =
     (case named_row ''sid'' i (ph_resources s) of
        Some r \<Rightarrow> if ph_no_dialog s then Set (\<lambda>x. x\<lparr>ph_edit := Some r, ph_editForm := resource_form_of r\<rparr>) Done else Done
      | None \<Rightarrow> Done)"
| "provider_ha_handler provider (PhSave e) s = EditResourceDialog provider e s"
| "provider_ha_handler provider (PhDelete i) s =
     (case named_row ''sid'' i (ph_resources s) of
        Some r \<Rightarrow> if ph_no_dialog s then Set (ph_delete_update (\<lambda>_. Some (row_name ''sid'' r, False))) Done else Done
      | None \<Rightarrow> Done)"
| "provider_ha_handler provider (PhPurge b) s = Set (ph_delete_update (map_option (\<lambda>t. (fst t, b)))) Done"
| "provider_ha_handler provider PhDeleteCancel s = Set (ph_delete_update (\<lambda>_. None)) Done"
| "provider_ha_handler provider PhDeleteConfirm s =
     (if ph_delete s \<noteq> None \<and> \<not> mg_busy s then ph_confirm_delete provider s else Done)"

definition open_provider_ha :: "string \<Rightarrow> provider_ha" where
  "open_provider_ha provider = \<lparr>toasts = [], mg_busy = False, ph_resources = open_infra (provider \<noteq> []), ph_typeFilter = ''all'',
     ph_addOpen = False, ph_add = empty_add, ph_edit = None, ph_editForm = empty_add, ph_delete = None, ph_disarmOpen = False,
     ph_mode = ''freeze''\<rparr>"

end
