(* ===== verification/Proxmox_Pools.thy ===== *)
theory Proxmox_Pools
  imports Infra_Kit
begin

text \<open>
  Resource pools of a Proxmox cluster, in the Proxmox section (\<open>proxmox/ProxmoxPoolsPage.tsx\<close>) and in the provider
  console (\<open>admin/pages/providers/Pools.tsx\<close>). The two pages have the same dialogs and requests; the first shows
  nothing without a provider and clears the form of a created pool.
\<close>

record pools_page = managed +
  po_pools :: infra_get
  po_createOpen :: bool
  po_poolid :: string
  po_comment :: string
  po_edit :: "json option"
  po_editComment :: string
  po_members :: "json option"
  po_vms :: string
  po_storages :: string
  po_removeMode :: bool
  po_delete :: "json option"

definition pools_reload :: "pools_page \<Rightarrow> pools_page" where
  "pools_reload s = s\<lparr>po_pools := reload_infra (po_pools s)\<rparr>"

definition pools_no_dialog :: "pools_page \<Rightarrow> bool" where
  "pools_no_dialog s \<longleftrightarrow> \<not> po_createOpen s \<and> po_edit s = None \<and> po_members s = None \<and> po_delete s = None"

definition pool_path :: "string \<Rightarrow> json \<Rightarrow> string" where
  "pool_path provider pool = pve_base provider @ ''/pools/'' @ encodeURIComponent (row_name ''poolid'' pool)"

definition pool_body :: "pools_page \<Rightarrow> json" where
  "pool_body s = JObj ((''poolid'', JStr (trim (po_poolid s))) # text_field ''comment'' (po_comment s))"

text \<open>\<open>submit\<close> of the create dialog; \<open>finish\<close> is what the page does when the pool exists.\<close>

definition submit_pool :: "(pools_page \<Rightarrow> pools_page) \<Rightarrow> string \<Rightarrow> pools_page \<Rightarrow> pools_page api_script" where
  "submit_pool finish provider s =
     (if trim (po_poolid s) = [] then Set (toast_error ''Pool id is required.'') Done
      else infra_runAction pools_reload (api_post (pve_base provider @ ''/pools'') (Some (pool_body s)) no_options)
        (''Pool '' @ trim (po_poolid s) @ '' created'') finish)"

definition pool_created :: "pools_page \<Rightarrow> pools_page" where
  "pool_created s = s\<lparr>po_poolid := [], po_comment := [], po_createOpen := False\<rparr>"

definition provider_pool_created :: "pools_page \<Rightarrow> pools_page" where
  "provider_pool_created s = s\<lparr>po_createOpen := False\<rparr>"

definition submit_pool_edit :: "string \<Rightarrow> json \<Rightarrow> pools_page \<Rightarrow> pools_page api_script" where
  "submit_pool_edit provider target s =
     infra_runAction pools_reload (api_put (pool_path provider target) (Some (JObj [(''comment'', JStr (trim (po_editComment s)))])) no_options)
       (''Pool '' @ row_name ''poolid'' target @ '' updated'') (po_edit_update (\<lambda>_. None))"

definition members_body :: "pools_page \<Rightarrow> json" where
  "members_body s = JObj [(''vms'', JStr (trim (po_vms s))), (''storages'', JStr (trim (po_storages s))), (''delete'', JBool (po_removeMode s))]"

definition submit_members :: "string \<Rightarrow> json \<Rightarrow> pools_page \<Rightarrow> pools_page api_script" where
  "submit_members provider target s =
     (if trim (po_vms s) = [] \<and> trim (po_storages s) = []
      then Set (toast_error ''Provide at least one VMID or storage name.'') Done
      else infra_runAction pools_reload (api_put (pool_path provider target @ ''/members'') (Some (members_body s)) no_options)
        (if po_removeMode s then ''Members removed'' else ''Members added'') (po_members_update (\<lambda>_. None)))"

definition confirm_pool_delete :: "string \<Rightarrow> pools_page \<Rightarrow> pools_page api_script" where
  "confirm_pool_delete provider s = Set (po_delete_update (\<lambda>_. None))
     (case po_delete s of
        None \<Rightarrow> Done
      | Some target \<Rightarrow>
          if \<not> flag_prop ''poolid'' target then Done
          else infra_runAction pools_reload (api_delete (pool_path provider target) no_options)
            (''Pool '' @ row_name ''poolid'' target @ '' deleted'') id)"

datatype pools_event =
    PoEffect
  | PoTick
  | PoCreateOpen
  | PoPoolid string
  | PoComment string
  | PoCreateClose
  | PoCreate
  | PoEdit nat
  | PoEditComment string
  | PoEditClose
  | PoSave
  | PoMembers nat
  | PoVms string
  | PoStorages string
  | PoRemoveMode bool
  | PoMembersClose
  | PoMembersSubmit
  | PoDelete nat
  | PoDeleteCancel
  | PoDeleteConfirm

definition pools_list :: "string \<Rightarrow> pools_page \<Rightarrow> pools_page api_script" where
  "pools_list provider s =
     infra_effect po_pools_update (pve_path provider ''/pools'') no_options (po_pools s)"

definition pool_row :: "nat \<Rightarrow> pools_page \<Rightarrow> json option" where
  "pool_row i s = (if pools_no_dialog s then named_row ''poolid'' i (po_pools s) else None)"

text \<open>The dialogs of a row are mounted for it: the fields start from the row, or empty.\<close>

fun pools_ui :: "(pools_page \<Rightarrow> pools_page) \<Rightarrow> string \<Rightarrow> pools_event \<Rightarrow> pools_page \<Rightarrow> pools_page api_script" where
  "pools_ui finish provider PoEffect s = pools_list provider s"
| "pools_ui finish provider PoTick s = (if provider = [] then Done else Set pools_reload Done)"
| "pools_ui finish provider PoCreateOpen s = (if pools_no_dialog s then Set (po_createOpen_update (\<lambda>_. True)) Done else Done)"
| "pools_ui finish provider (PoPoolid t) s = (if po_createOpen s then Set (po_poolid_update (\<lambda>_. t)) Done else Done)"
| "pools_ui finish provider (PoComment t) s = (if po_createOpen s then Set (po_comment_update (\<lambda>_. t)) Done else Done)"
| "pools_ui finish provider PoCreateClose s = (if po_createOpen s then Set (po_createOpen_update (\<lambda>_. False)) Done else Done)"
| "pools_ui finish provider PoCreate s =
     (if po_createOpen s \<and> \<not> mg_busy s \<and> trim (po_poolid s) \<noteq> [] then submit_pool finish provider s else Done)"
| "pools_ui finish provider (PoEdit i) s =
     (case pool_row i s of
        Some r \<Rightarrow> Set (\<lambda>x. x\<lparr>po_edit := Some r, po_editComment := str_prop ''comment'' r\<rparr>) Done | None \<Rightarrow> Done)"
| "pools_ui finish provider (PoEditComment t) s = (if po_edit s \<noteq> None then Set (po_editComment_update (\<lambda>_. t)) Done else Done)"
| "pools_ui finish provider PoEditClose s = Set (po_edit_update (\<lambda>_. None)) Done"
| "pools_ui finish provider PoSave s =
     (case po_edit s of Some target \<Rightarrow> if \<not> mg_busy s then submit_pool_edit provider target s else Done | None \<Rightarrow> Done)"
| "pools_ui finish provider (PoMembers i) s =
     (case pool_row i s of
        Some r \<Rightarrow> Set (\<lambda>x. x\<lparr>po_members := Some r, po_vms := [], po_storages := [], po_removeMode := False\<rparr>) Done | None \<Rightarrow> Done)"
| "pools_ui finish provider (PoVms t) s = (if po_members s \<noteq> None then Set (po_vms_update (\<lambda>_. id_list t)) Done else Done)"
| "pools_ui finish provider (PoStorages t) s = (if po_members s \<noteq> None then Set (po_storages_update (\<lambda>_. t)) Done else Done)"
| "pools_ui finish provider (PoRemoveMode b) s = (if po_members s \<noteq> None then Set (po_removeMode_update (\<lambda>_. b)) Done else Done)"
| "pools_ui finish provider PoMembersClose s = Set (po_members_update (\<lambda>_. None)) Done"
| "pools_ui finish provider PoMembersSubmit s =
     (case po_members s of Some target \<Rightarrow> if \<not> mg_busy s then submit_members provider target s else Done | None \<Rightarrow> Done)"
| "pools_ui finish provider (PoDelete i) s =
     (case pool_row i s of Some r \<Rightarrow> Set (po_delete_update (\<lambda>_. Some r)) Done | None \<Rightarrow> Done)"
| "pools_ui finish provider PoDeleteCancel s = Set (po_delete_update (\<lambda>_. None)) Done"
| "pools_ui finish provider PoDeleteConfirm s =
     (if po_delete s \<noteq> None \<and> \<not> mg_busy s then confirm_pool_delete provider s else Done)"

definition pools_handler :: "string \<Rightarrow> pools_event \<Rightarrow> pools_page \<Rightarrow> pools_page api_script" where
  "pools_handler provider u s = (if provider = [] \<and> u \<noteq> PoEffect then Done else pools_ui pool_created provider u s)"

definition provider_pools_handler :: "string \<Rightarrow> pools_event \<Rightarrow> pools_page \<Rightarrow> pools_page api_script" where
  "provider_pools_handler provider u s = pools_ui provider_pool_created provider u s"

definition open_pools :: "string \<Rightarrow> pools_page" where
  "open_pools provider = \<lparr>toasts = [], mg_busy = False, po_pools = open_infra (provider \<noteq> []), po_createOpen = False, po_poolid = [],
     po_comment = [], po_edit = None, po_editComment = [], po_members = None, po_vms = [], po_storages = [], po_removeMode = False,
     po_delete = None\<rparr>"

text \<open>The members cell, and the two lists of the members dialog.\<close>

definition pool_guests :: "json \<Rightarrow> json list" where
  "pool_guests pool = filter (\<lambda>m. str_prop ''type'' m \<in> {''qemu'', ''lxc''}) (array_or_empty (prop_of pool ''members''))"

definition pool_storages :: "json \<Rightarrow> json list" where
  "pool_storages pool = filter (\<lambda>m. str_prop ''type'' m = ''storage'') (array_or_empty (prop_of pool ''members''))"

definition members_cell :: "json \<Rightarrow> string list" where
  "members_cell pool =
     (let members = array_or_empty (prop_of pool ''members''); guests = length (pool_guests pool); storages = length (pool_storages pool) in
      if members = [] then [''empty'']
      else (if guests > 0 then [show_nat guests @ '' guest(s)''] else [])
           @ (if storages > 0 then [show_nat storages @ '' storage(s)''] else [])
           @ (if guests = 0 \<and> storages = 0 then [show_nat (length members) @ '' member(s)''] else []))"

definition provider_members_cell :: "json \<Rightarrow> string list" where
  "provider_members_cell pool =
     (let members = array_or_empty (prop_of pool ''members''); guests = length (pool_guests pool); storages = length (pool_storages pool) in
      if members = [] then [''empty'']
      else (if guests > 0 then [show_nat guests @ '' guest(s)''] else []) @ (if storages > 0 then [show_nat storages @ '' storage(s)''] else []))"

end
