(* ===== verification/Proxmox_Snapshots.thy ===== *)
theory Proxmox_Snapshots
  imports Infra_Kit
begin

text \<open>
  Snapshots of a virtual machine: by VMID (\<open>proxmox/ProxmoxSnapshotsPage.tsx\<close>), where the user types the VMID, and
  by node and VMID of the route (\<open>proxmox/ProxmoxQemuSnapshotPage.tsx\<close>). The dialogs are the same; the requests
  differ.
\<close>

text \<open>\<open>String(row.name ?? row.snapname ?? "")\<close> and the description alike.\<close>

definition snapshotName :: "json \<Rightarrow> string" where
  "snapshotName row = prop_text ''name'' (prop_text ''snapname'' [] row) row"

definition snapshotDesc :: "json \<Rightarrow> string" where
  "snapshotDesc row = prop_text ''description'' (prop_text ''desc'' [] row) row"

text \<open>\<open>/^\d+$/.test(vmid)\<close>.\<close>

definition valid_vmid :: "string \<Rightarrow> bool" where
  "valid_vmid vmid \<longleftrightarrow> all_digits vmid"

record snap_page = managed +
  sn_list :: infra_get
  sn_createOpen :: bool
  sn_name :: string
  sn_desc :: string
  sn_restore :: "json option"
  sn_delete :: "json option"

record snapshots_page = snap_page +
  sn_vmid :: string

definition snap_reload :: "'a snap_page_scheme \<Rightarrow> 'a snap_page_scheme" where
  "snap_reload s = s\<lparr>sn_list := reload_infra (sn_list s)\<rparr>"

text \<open>The pseudo-snapshot of the live state is not listed.\<close>

definition snap_rows :: "'a snap_page_scheme \<Rightarrow> json list" where
  "snap_rows s = filter (\<lambda>r. snapshotName r \<noteq> ''current'') (infra_rows (sn_list s))"

definition snap_no_dialog :: "'a snap_page_scheme \<Rightarrow> bool" where
  "snap_no_dialog s \<longleftrightarrow> \<not> sn_createOpen s \<and> sn_restore s = None \<and> sn_delete s = None"

definition snap_row :: "nat \<Rightarrow> 'a snap_page_scheme \<Rightarrow> json option" where
  "snap_row i s =
     (if snap_no_dialog s \<and> i < length (snap_rows s) \<and> snapshotName (snap_rows s ! i) \<noteq> [] then Some (snap_rows s ! i) else None)"

text \<open>\<open>value.replace(/[^a-zA-Z0-9._-]/g, "")\<close> of an input of at most 40 characters.\<close>

definition snap_char :: "char \<Rightarrow> bool" where
  "snap_char c \<longleftrightarrow> is_digit c \<or> c \<in> {CHR ''.'', CHR ''_'', CHR ''-''} \<or> (97 \<le> (of_char c :: nat) \<and> (of_char c :: nat) \<le> 122)
     \<or> (65 \<le> (of_char c :: nat) \<and> (of_char c :: nat) \<le> 90)"

definition snap_input :: "string \<Rightarrow> string" where
  "snap_input t = filter snap_char (js_take 40 t)"

text \<open>The requests of a page: to create a snapshot, to roll back to one and to delete one.\<close>

record snap_calls =
  sc_create :: "string \<Rightarrow> string \<Rightarrow> api_call"
  sc_restore :: "string \<Rightarrow> api_call"
  sc_delete :: "string \<Rightarrow> api_call"

definition snap_created :: "'a snap_page_scheme \<Rightarrow> 'a snap_page_scheme" where
  "snap_created s = s\<lparr>sn_name := [], sn_desc := [], sn_createOpen := False\<rparr>"

text \<open>\<open>submit\<close> of the create dialog, after the check of the VMID.\<close>

definition submit_snapshot :: "snap_calls \<Rightarrow> 'a snap_page_scheme \<Rightarrow> 'a snap_page_scheme api_script" where
  "submit_snapshot calls s =
     (let name = trim (sn_name s) in
      if name = [] then Set (toast_error ''Snapshot name is required.'') Done
      else if name = ''current'' then Set (toast_error (CHR 0x22 # ''current'' @ CHR 0x22 # '' is reserved by PVE.'')) Done
      else infra_runAction snap_reload (sc_create calls name (sn_desc s)) (''Snapshot '' @ name @ '' created'') snap_created)"

definition confirm_restore :: "snap_calls \<Rightarrow> string \<Rightarrow> 'a snap_page_scheme \<Rightarrow> 'a snap_page_scheme api_script" where
  "confirm_restore calls vmid s = Set (sn_restore_update (\<lambda>_. None))
     (case sn_restore s of
        None \<Rightarrow> Done
      | Some target \<Rightarrow>
          if snapshotName target = [] \<or> \<not> valid_vmid vmid then Done
          else infra_runAction snap_reload (sc_restore calls (snapshotName target))
            (''VM '' @ vmid @ '' restored to '' @ snapshotName target) id)"

definition confirm_snapshot_delete :: "snap_calls \<Rightarrow> string \<Rightarrow> 'a snap_page_scheme \<Rightarrow> 'a snap_page_scheme api_script" where
  "confirm_snapshot_delete calls vmid s = Set (sn_delete_update (\<lambda>_. None))
     (case sn_delete s of
        None \<Rightarrow> Done
      | Some target \<Rightarrow>
          if snapshotName target = [] \<or> \<not> valid_vmid vmid then Done
          else infra_runAction snap_reload (sc_delete calls (snapshotName target)) (''Snapshot '' @ snapshotName target @ '' deleted'') id)"

datatype snap_event =
    SnCreateOpen
  | SnName string
  | SnDesc string
  | SnCreateClose
  | SnCreate
  | SnRestore nat
  | SnRestoreCancel
  | SnRestoreConfirm
  | SnDelete nat
  | SnDeleteCancel
  | SnDeleteConfirm

fun snap_ui :: "snap_calls \<Rightarrow> string \<Rightarrow> snap_event \<Rightarrow> 'a snap_page_scheme \<Rightarrow> 'a snap_page_scheme api_script" where
  "snap_ui calls vmid SnCreateOpen s =
     (if snap_no_dialog s \<and> valid_vmid vmid then Set (sn_createOpen_update (\<lambda>_. True)) Done else Done)"
| "snap_ui calls vmid (SnName t) s = (if sn_createOpen s then Set (sn_name_update (\<lambda>_. snap_input t)) Done else Done)"
| "snap_ui calls vmid (SnDesc t) s = (if sn_createOpen s then Set (sn_desc_update (\<lambda>_. js_take 512 t)) Done else Done)"
| "snap_ui calls vmid SnCreateClose s = (if sn_createOpen s then Set (sn_createOpen_update (\<lambda>_. False)) Done else Done)"
| "snap_ui calls vmid SnCreate s =
     (if sn_createOpen s \<and> \<not> mg_busy s \<and> trim (sn_name s) \<noteq> [] \<and> vmid \<noteq> []
      then if valid_vmid vmid then submit_snapshot calls s else Set (toast_error ''VMID is required.'') Done
      else Done)"
| "snap_ui calls vmid (SnRestore i) s =
     (case snap_row i s of Some r \<Rightarrow> if valid_vmid vmid then Set (sn_restore_update (\<lambda>_. Some r)) Done else Done | None \<Rightarrow> Done)"
| "snap_ui calls vmid SnRestoreCancel s = Set (sn_restore_update (\<lambda>_. None)) Done"
| "snap_ui calls vmid SnRestoreConfirm s =
     (if sn_restore s \<noteq> None \<and> \<not> mg_busy s then confirm_restore calls vmid s else Done)"
| "snap_ui calls vmid (SnDelete i) s =
     (case snap_row i s of Some r \<Rightarrow> if valid_vmid vmid then Set (sn_delete_update (\<lambda>_. Some r)) Done else Done | None \<Rightarrow> Done)"
| "snap_ui calls vmid SnDeleteCancel s = Set (sn_delete_update (\<lambda>_. None)) Done"
| "snap_ui calls vmid SnDeleteConfirm s =
     (if sn_delete s \<noteq> None \<and> \<not> mg_busy s then confirm_snapshot_delete calls vmid s else Done)"

subsection \<open>By VMID\<close>

definition vmid_calls :: "string \<Rightarrow> string \<Rightarrow> snap_calls" where
  "vmid_calls provider vmid = \<lparr>
     sc_create = (\<lambda>name desc. api_post (pve_base provider @ ''/snapshots'')
       (Some (JObj ([(''vmid'', js_num_json (js_Number vmid)), (''snapname'', JStr name)] @ text_field ''description'' desc))) no_options),
     sc_restore = (\<lambda>name. api_post (pve_base provider @ ''/snapshots/rollback'')
       (Some (JObj [(''vmid'', js_num_json (js_Number vmid)), (''snapname'', JStr name)])) no_options),
     sc_delete = (\<lambda>name. api_delete (pve_base provider @ ''/snapshots/'' @ encodeURIComponent name) (query_opts [(''vmid'', QStr vmid)]))\<rparr>"

datatype snapshots_event = SpEffect | SpTick | SpVmid string | SpRefresh | SpDialog snap_event

definition snapshots_path :: "string \<Rightarrow> snapshots_page \<Rightarrow> string option" where
  "snapshots_path provider s = (if trim (sn_vmid s) = [] then None else pve_path provider ''/snapshots'')"

definition snapshots_query :: "snapshots_page \<Rightarrow> api_options" where
  "snapshots_query s = (if trim (sn_vmid s) = [] then no_options else query_opts [(''vmid'', QStr (trim (sn_vmid s)))])"

text \<open>A new VMID changes the query: the effect runs again, and the rows stay until it is answered.\<close>

definition set_vmid :: "string \<Rightarrow> snapshots_page \<Rightarrow> snapshots_page" where
  "set_vmid t s = (if digits_of t = sn_vmid s then s else snap_reload (s\<lparr>sn_vmid := digits_of t\<rparr>))"

fun snapshots_handler :: "string \<Rightarrow> snapshots_event \<Rightarrow> snapshots_page \<Rightarrow> snapshots_page api_script" where
  "snapshots_handler provider SpEffect s = infra_effect sn_list_update (snapshots_path provider s) (snapshots_query s) (sn_list s)"
| "snapshots_handler provider SpTick s = (if snapshots_path provider s = None then Done else Set snap_reload Done)"
| "snapshots_handler provider (SpVmid t) s = (if provider \<noteq> [] \<and> snap_no_dialog s then Set (set_vmid t) Done else Done)"
| "snapshots_handler provider SpRefresh s =
     (if provider \<noteq> [] \<and> snap_no_dialog s \<and> valid_vmid (trim (sn_vmid s)) then Set snap_reload Done else Done)"
| "snapshots_handler provider (SpDialog u) s =
     (if provider = [] then Done else snap_ui (vmid_calls provider (trim (sn_vmid s))) (trim (sn_vmid s)) u s)"

definition open_snapshots :: "string \<Rightarrow> snapshots_page" where
  "open_snapshots provider = \<lparr>toasts = [], mg_busy = False, sn_list = open_infra False, sn_createOpen = False, sn_name = [], sn_desc = [],
     sn_restore = None, sn_delete = None, sn_vmid = []\<rparr>"

subsection \<open>By node and VMID\<close>

definition qemu_base :: "string \<Rightarrow> string \<Rightarrow> string \<Rightarrow> string option" where
  "qemu_base provider node vmid =
     (if provider = [] \<or> trim node = [] \<or> \<not> valid_vmid (trim vmid) then None
      else Some (pve_base provider @ ''/nodes/'' @ encodeURIComponent (trim node) @ ''/qemu/'' @ encodeURIComponent (trim vmid) @ ''/snapshot''))"

definition qemu_calls :: "string \<Rightarrow> snap_calls" where
  "qemu_calls base = \<lparr>
     sc_create = (\<lambda>name desc. api_post base (Some (JObj ((''snapname'', JStr name) # text_field ''description'' desc))) no_options),
     sc_restore = (\<lambda>name. api_post (base @ ''/rollback'') (Some (JObj [(''snapname'', JStr name)])) no_options),
     sc_delete = (\<lambda>name. api_delete (base @ ''/'' @ encodeURIComponent name) no_options)\<rparr>"

datatype qemu_snap_event = QsEffect | QsTick | QsRefresh | QsDialog snap_event

fun qemu_snap_handler :: "string \<Rightarrow> string \<Rightarrow> string \<Rightarrow> qemu_snap_event \<Rightarrow> snap_page \<Rightarrow> snap_page api_script" where
  "qemu_snap_handler provider node vmid QsEffect s = infra_effect sn_list_update (qemu_base provider node vmid) no_options (sn_list s)"
| "qemu_snap_handler provider node vmid QsTick s = (if qemu_base provider node vmid = None then Done else Set snap_reload Done)"
| "qemu_snap_handler provider node vmid QsRefresh s =
     (if qemu_base provider node vmid \<noteq> None \<and> snap_no_dialog s \<and> \<not> c_loading (ig_hook (sn_list s)) then Set snap_reload Done else Done)"
| "qemu_snap_handler provider node vmid (QsDialog u) s =
     (case qemu_base provider node vmid of Some base \<Rightarrow> snap_ui (qemu_calls base) (trim vmid) u s | None \<Rightarrow> Done)"

definition open_qemu_snap :: "string \<Rightarrow> string \<Rightarrow> string \<Rightarrow> snap_page" where
  "open_qemu_snap provider node vmid = \<lparr>toasts = [], mg_busy = False, sn_list = open_infra (qemu_base provider node vmid \<noteq> None),
     sn_createOpen = False, sn_name = [], sn_desc = [], sn_restore = None, sn_delete = None\<rparr>"

end
