(* ===== verification/Proxmox_Firewall.thy ===== *)
theory Proxmox_Firewall
  imports Infra_Kit
begin

text \<open>
  The cluster firewall: security groups with their rules, and the rules of the cluster, in the Proxmox section
  (\<open>proxmox/ProxmoxFirewallPage.tsx\<close>) and in the provider console (\<open>admin/pages/providers/Firewall.tsx\<close>). The two
  files differ in the base path and in the polling. The rules of a group are a section inside the groups
  section: it is mounted while a group is selected, stays mounted when another group is selected, and what an instance that is gone
  still writes is lost.
\<close>

subsection \<open>Rules\<close>

record fw_rule_form =
  fr_type :: string
  fr_action :: string
  fr_enabled :: bool
  fr_source :: string
  fr_dest :: string
  fr_dport :: string
  fr_sport :: string
  fr_proto :: string
  fr_macro :: string
  fr_iface :: string
  fr_comment :: string

definition empty_fw_rule :: fw_rule_form where
  "empty_fw_rule = \<lparr>fr_type = ''in'', fr_action = ''ACCEPT'', fr_enabled = True, fr_source = [], fr_dest = [], fr_dport = [], fr_sport = [],
     fr_proto = [], fr_macro = [], fr_iface = [], fr_comment = []\<rparr>"

datatype fw_rule_field =
    FrType nat | FrAction nat | FrEnabled bool | FrSource string | FrDest string | FrDport string | FrSport string | FrProto string
  | FrMacro string | FrIface string | FrComment string

fun set_fw_rule :: "fw_rule_field \<Rightarrow> fw_rule_form \<Rightarrow> fw_rule_form" where
  "set_fw_rule (FrType i) f = f\<lparr>fr_type := choice [''in'', ''out''] i (fr_type f)\<rparr>"
| "set_fw_rule (FrAction i) f = f\<lparr>fr_action := choice [''ACCEPT'', ''DROP'', ''REJECT''] i (fr_action f)\<rparr>"
| "set_fw_rule (FrEnabled b) f = f\<lparr>fr_enabled := b\<rparr>"
| "set_fw_rule (FrSource t) f = f\<lparr>fr_source := t\<rparr>"
| "set_fw_rule (FrDest t) f = f\<lparr>fr_dest := t\<rparr>"
| "set_fw_rule (FrDport t) f = f\<lparr>fr_dport := t\<rparr>"
| "set_fw_rule (FrSport t) f = f\<lparr>fr_sport := t\<rparr>"
| "set_fw_rule (FrProto t) f = f\<lparr>fr_proto := t\<rparr>"
| "set_fw_rule (FrMacro t) f = f\<lparr>fr_macro := t\<rparr>"
| "set_fw_rule (FrIface t) f = f\<lparr>fr_iface := t\<rparr>"
| "set_fw_rule (FrComment t) f = f\<lparr>fr_comment := t\<rparr>"

definition fw_rule_body :: "fw_rule_form \<Rightarrow> json" where
  "fw_rule_body f = JObj ([(''type'', JStr (fr_type f)), (''action'', JStr (fr_action f))] @ flag_field ''enable'' (fr_enabled f)
     @ text_field ''source'' (fr_source f) @ text_field ''dest'' (fr_dest f) @ text_field ''dport'' (fr_dport f)
     @ text_field ''sport'' (fr_sport f) @ text_field ''proto'' (fr_proto f) @ text_field ''macro'' (fr_macro f)
     @ text_field ''iface'' (fr_iface f) @ text_field ''comment'' (fr_comment f))"

record rules_section = managed +
  rs_list :: infra_get
  rs_addOpen :: bool
  rs_form :: fw_rule_form
  rs_delete :: "rat option"

definition rules_reload :: "rules_section \<Rightarrow> rules_section" where
  "rules_reload s = s\<lparr>rs_list := reload_infra (rs_list s)\<rparr>"

text \<open>A created rule closes the dialog and clears the addresses, the ports and the comment.\<close>

definition rule_created :: "rules_section \<Rightarrow> rules_section" where
  "rule_created s = s\<lparr>rs_addOpen := False,
     rs_form := (rs_form s)\<lparr>fr_source := [], fr_dest := [], fr_dport := [], fr_sport := [], fr_comment := []\<rparr>\<rparr>"

definition rule_path :: "string \<Rightarrow> rat \<Rightarrow> string" where
  "rule_path listPath pos = listPath @ ''/'' @ js_String (JNum pos)"

definition confirm_fw_rule_delete :: "string \<Rightarrow> rules_section \<Rightarrow> rules_section api_script" where
  "confirm_fw_rule_delete listPath s = Set (rs_delete_update (\<lambda>_. None))
     (case rs_delete s of
        None \<Rightarrow> Done
      | Some pos \<Rightarrow> infra_runAction rules_reload (api_delete (rule_path listPath pos) no_options)
          (''Rule '' @ js_String (JNum pos) @ '' deleted'') id)"

definition rules_no_dialog :: "rules_section \<Rightarrow> bool" where
  "rules_no_dialog s \<longleftrightarrow> \<not> rs_addOpen s \<and> rs_delete s = None"

text \<open>The delete button of a row, disabled for a row whose position is not a number.\<close>

definition rule_pos :: "nat \<Rightarrow> rules_section \<Rightarrow> rat option" where
  "rule_pos i s = (case infra_row i (rs_list s) of
     Some row \<Rightarrow> (case prop_of row ''pos'' of Some (JNum pos) \<Rightarrow> Some pos | _ \<Rightarrow> None) | None \<Rightarrow> None)"

datatype fw_rules_event =
    RsEffect
  | RsTick
  | RsAddOpen
  | RsField fw_rule_field
  | RsAddClose
  | RsAdd
  | RsDelete nat
  | RsDeleteCancel
  | RsDeleteConfirm

fun fw_rules_handler :: "string \<Rightarrow> fw_rules_event \<Rightarrow> rules_section \<Rightarrow> rules_section api_script" where
  "fw_rules_handler listPath RsEffect s = infra_effect rs_list_update (Some listPath) no_options (rs_list s)"
| "fw_rules_handler listPath RsTick s = Set rules_reload Done"
| "fw_rules_handler listPath RsAddOpen s = (if rules_no_dialog s then Set (rs_addOpen_update (\<lambda>_. True)) Done else Done)"
| "fw_rules_handler listPath (RsField f) s = (if rs_addOpen s then Set (rs_form_update (set_fw_rule f)) Done else Done)"
| "fw_rules_handler listPath RsAddClose s = (if rs_addOpen s then Set (rs_addOpen_update (\<lambda>_. False)) Done else Done)"
| "fw_rules_handler listPath RsAdd s =
     (if rs_addOpen s \<and> \<not> mg_busy s
      then infra_runAction rules_reload (api_post listPath (Some (fw_rule_body (rs_form s))) no_options) ''Rule created'' rule_created
      else Done)"
| "fw_rules_handler listPath (RsDelete i) s =
     (case rule_pos i s of
        Some pos \<Rightarrow> if rules_no_dialog s then Set (rs_delete_update (\<lambda>_. Some pos)) Done else Done
      | None \<Rightarrow> Done)"
| "fw_rules_handler listPath RsDeleteCancel s = Set (rs_delete_update (\<lambda>_. None)) Done"
| "fw_rules_handler listPath RsDeleteConfirm s =
     (if rs_delete s \<noteq> None \<and> \<not> mg_busy s then confirm_fw_rule_delete listPath s else Done)"

definition open_rules :: rules_section where
  "open_rules = \<lparr>toasts = [], mg_busy = False, rs_list = open_infra True, rs_addOpen = False, rs_form = empty_fw_rule, rs_delete = None\<rparr>"

text \<open>The rules of the cluster are this section at \<open>firewall-rules\<close>.\<close>

definition cluster_rules_handler :: "string \<Rightarrow> fw_rules_event \<Rightarrow> rules_section \<Rightarrow> rules_section api_script" where
  "cluster_rules_handler base = fw_rules_handler (base @ ''/firewall-rules'')"

text \<open>\<open>joinAddrPort\<close>, and the two address cells of a rule.\<close>

definition joinAddrPort :: "string option \<Rightarrow> string option \<Rightarrow> string" where
  "joinAddrPort addr port =
     (let no = (\<lambda>v. v = None \<or> v = Some []) in
      if no addr \<and> no port then []
      else if no port then (case addr of Some a \<Rightarrow> a | None \<Rightarrow> [])
      else (case addr of Some a \<Rightarrow> a | None \<Rightarrow> ''*'') @ '':'' @ the port)"

definition maybe_text :: "string \<Rightarrow> json \<Rightarrow> string option" where
  "maybe_text k row = (case prop_of row k of Some (JStr t) \<Rightarrow> Some t | _ \<Rightarrow> None)"

definition source_cell :: "json \<Rightarrow> string" where
  "source_cell row = default_text (joinAddrPort (maybe_text ''source'' row) (maybe_text ''dport'' row)) ''any''"

definition dest_cell :: "json \<Rightarrow> string" where
  "dest_cell row = default_text (joinAddrPort (maybe_text ''dest'' row) (Some [])) ''any''"

subsection \<open>Groups\<close>

record groups_section = managed +
  gs_list :: infra_get
  gs_addOpen :: bool
  gs_name :: string
  gs_comment :: string
  gs_delete :: "json option"
  gs_selected :: "string option"
  gs_mount :: nat
  gs_rules :: rules_section

definition groups_reload :: "groups_section \<Rightarrow> groups_section" where
  "groups_reload s = s\<lparr>gs_list := reload_infra (gs_list s)\<rparr>"

text \<open>The rules section is rendered for a selected group with a name.\<close>

definition shown_group :: "string option \<Rightarrow> string option" where
  "shown_group g = (if missing g then None else g)"

definition group_rules_path :: "string \<Rightarrow> string \<Rightarrow> string" where
  "group_rules_path base g = base @ ''/fw-groups/'' @ encodeURIComponent g @ ''/rules''"

text \<open>\<open>onSelectGroup\<close>: with no group the section unmounts, with a first group a new one mounts, and with another group
  the mounted one gets another path.\<close>

definition select_group :: "string option \<Rightarrow> groups_section \<Rightarrow> groups_section" where
  "select_group g s =
     (let s' = s\<lparr>gs_selected := g\<rparr> in
      case (shown_group (gs_selected s), shown_group g) of
        (_, None) \<Rightarrow> s'
      | (None, Some _) \<Rightarrow> s'\<lparr>gs_mount := Suc (gs_mount s), gs_rules := open_rules\<rparr>
      | (Some a, Some b) \<Rightarrow> if a = b then s' else s'\<lparr>gs_rules := rules_reload (gs_rules s)\<rparr>)"

text \<open>The setters of one instance of the rules section.\<close>

definition in_mount :: "nat \<Rightarrow> (rules_section \<Rightarrow> rules_section) \<Rightarrow> groups_section \<Rightarrow> groups_section" where
  "in_mount m f s = (if gs_mount s = m \<and> shown_group (gs_selected s) \<noteq> None then s\<lparr>gs_rules := f (gs_rules s)\<rparr> else s)"

definition fw_group_body :: "groups_section \<Rightarrow> json" where
  "fw_group_body s = JObj ((''group'', JStr (trim (gs_name s))) # text_field ''comment'' (gs_comment s))"

definition submit_fw_group :: "string \<Rightarrow> groups_section \<Rightarrow> groups_section api_script" where
  "submit_fw_group base s =
     (if trim (gs_name s) = [] then Set (toast_error ''Group name is required.'') Done
      else infra_runAction groups_reload (api_post (base @ ''/fw-groups'') (Some (fw_group_body s)) no_options)
        (''Security group '' @ trim (gs_name s) @ '' created'') (gs_addOpen_update (\<lambda>_. False)))"

text \<open>The request of a confirmed deletion is on its way when the selection is cleared.\<close>

definition confirm_fw_group_delete :: "string \<Rightarrow> groups_section \<Rightarrow> groups_section api_script" where
  "confirm_fw_group_delete base s = Set (gs_delete_update (\<lambda>_. None))
     (case gs_delete s of
        None \<Rightarrow> Done
      | Some target \<Rightarrow>
          if \<not> flag_prop ''group'' target then Done
          else Fork
            (infra_runAction groups_reload
              (api_delete (base @ ''/fw-groups'') (query_opts [(''name'', QStr (row_name ''group'' target))]))
              (''Security group '' @ row_name ''group'' target @ '' deleted'') id)
            (if gs_selected s = maybe_text ''group'' target then Set (select_group None) Done else Done))"

definition groups_no_dialog :: "groups_section \<Rightarrow> bool" where
  "groups_no_dialog s \<longleftrightarrow> \<not> gs_addOpen s \<and> gs_delete s = None
     \<and> (case shown_group (gs_selected s) of Some _ \<Rightarrow> rules_no_dialog (gs_rules s) | None \<Rightarrow> True)"

datatype groups_event =
    GsEffect
  | GsTick
  | GsSelect nat
  | GsAddOpen
  | GsName string
  | GsComment string
  | GsAddClose
  | GsAdd
  | GsDelete nat
  | GsDeleteCancel
  | GsDeleteConfirm
  | GsRules fw_rules_event

text \<open>The buttons of the rules section need that the dialogs of the groups are closed.\<close>

definition opens_rules_dialog :: "fw_rules_event \<Rightarrow> bool" where
  "opens_rules_dialog u \<longleftrightarrow> (case u of RsAddOpen \<Rightarrow> True | RsDelete _ \<Rightarrow> True | _ \<Rightarrow> False)"

fun groups_handler :: "string \<Rightarrow> groups_event \<Rightarrow> groups_section \<Rightarrow> groups_section api_script" where
  "groups_handler base GsEffect s = infra_effect gs_list_update (Some (base @ ''/fw-groups'')) no_options (gs_list s)"
| "groups_handler base GsTick s = Set groups_reload Done"
| "groups_handler base (GsSelect i) s =
     (case infra_row i (gs_list s) of
        Some row \<Rightarrow> if groups_no_dialog s then Set (select_group (maybe_text ''group'' row)) Done else Done
      | None \<Rightarrow> Done)"
| "groups_handler base GsAddOpen s = (if groups_no_dialog s then Set (gs_addOpen_update (\<lambda>_. True)) Done else Done)"
| "groups_handler base (GsName t) s = (if gs_addOpen s then Set (gs_name_update (\<lambda>_. t)) Done else Done)"
| "groups_handler base (GsComment t) s = (if gs_addOpen s then Set (gs_comment_update (\<lambda>_. t)) Done else Done)"
| "groups_handler base GsAddClose s = (if gs_addOpen s then Set (gs_addOpen_update (\<lambda>_. False)) Done else Done)"
| "groups_handler base GsAdd s = (if gs_addOpen s \<and> \<not> mg_busy s then submit_fw_group base s else Done)"
| "groups_handler base (GsDelete i) s =
     (case infra_row i (gs_list s) of
        Some row \<Rightarrow> if groups_no_dialog s then Set (gs_delete_update (\<lambda>_. Some row)) Done else Done
      | None \<Rightarrow> Done)"
| "groups_handler base GsDeleteCancel s = Set (gs_delete_update (\<lambda>_. None)) Done"
| "groups_handler base GsDeleteConfirm s =
     (if gs_delete s \<noteq> None \<and> \<not> mg_busy s then confirm_fw_group_delete base s else Done)"
| "groups_handler base (GsRules u) s =
     (case shown_group (gs_selected s) of
        Some g \<Rightarrow>
          if opens_rules_dialog u \<and> \<not> groups_no_dialog s then Done
          else lift_script (in_mount (gs_mount s)) (fw_rules_handler (group_rules_path base g) u (gs_rules s))
      | None \<Rightarrow> Done)"

definition open_groups :: groups_section where
  "open_groups = \<lparr>toasts = [], mg_busy = False, gs_list = open_infra True, gs_addOpen = False, gs_name = [], gs_comment = [],
     gs_delete = None, gs_selected = None, gs_mount = 0, gs_rules = open_rules\<rparr>"

text \<open>The provider console polls neither list.\<close>

definition provider_rules_handler :: "string \<Rightarrow> fw_rules_event \<Rightarrow> rules_section \<Rightarrow> rules_section api_script" where
  "provider_rules_handler listPath u s = (if u = RsTick then Done else fw_rules_handler listPath u s)"

definition provider_groups_handler :: "string \<Rightarrow> groups_event \<Rightarrow> groups_section \<Rightarrow> groups_section api_script" where
  "provider_groups_handler base u s = (if u = GsTick \<or> u = GsRules RsTick then Done else groups_handler base u s)"

end
