(* ===== verification/Proxmox_Backup.thy ===== *)
theory Proxmox_Backup
  imports Infra_Kit
begin

text \<open>
  Backup schedules of a cluster, in the Proxmox section (\<open>proxmox/ProxmoxBackupJobsPage.tsx\<close>) and in the provider
  console (\<open>admin/pages/providers/BackupJobs.tsx\<close>). The pages share the job editor but for the effect that fills it
  from the job; they differ in how the editor is opened and in how the storages are loaded.
\<close>

subsection \<open>The job editor\<close>

definition MODES :: "string list" where
  "MODES = [''snapshot'', ''suspend'', ''stop'']"

record job_form =
  jf_schedule :: string
  jf_storage :: string
  jf_mode :: string
  jf_node :: string
  jf_pool :: string
  jf_vmids :: string
  jf_all :: bool
  jf_mailto :: string
  jf_notes :: string

text \<open>\<open>editing?.k ?? d\<close> of a property of type string.\<close>

definition job_text :: "string \<Rightarrow> string \<Rightarrow> json option \<Rightarrow> string" where
  "job_text k d editing = (case editing of None \<Rightarrow> d | Some job \<Rightarrow> prop_text k d job)"

definition job_form_of :: "json option \<Rightarrow> job_form" where
  "job_form_of editing = \<lparr>jf_schedule = job_text ''schedule'' ''02:00'' editing, jf_storage = job_text ''storage'' [] editing,
     jf_mode = job_text ''mode'' ''snapshot'' editing, jf_node = job_text ''node'' [] editing, jf_pool = job_text ''pool'' [] editing,
     jf_vmids = job_text ''vmid'' [] editing, jf_all = (case editing of Some job \<Rightarrow> flag_prop ''all'' job | None \<Rightarrow> False),
     jf_mailto = job_text ''mailto'' [] editing, jf_notes = job_text ''notes_template'' [] editing\<rparr>"

datatype job_field =
    JfSchedule string | JfStorage nat | JfMode nat | JfNode string | JfPool string | JfVmids string | JfAll bool | JfMailto string
  | JfNotes string

fun set_job :: "string list \<Rightarrow> job_field \<Rightarrow> job_form \<Rightarrow> job_form" where
  "set_job storages (JfSchedule t) f = f\<lparr>jf_schedule := t\<rparr>"
| "set_job storages (JfStorage i) f = f\<lparr>jf_storage := choice storages i (jf_storage f)\<rparr>"
| "set_job storages (JfMode i) f = f\<lparr>jf_mode := choice MODES i (jf_mode f)\<rparr>"
| "set_job storages (JfNode t) f = f\<lparr>jf_node := t\<rparr>"
| "set_job storages (JfPool t) f = f\<lparr>jf_pool := t\<rparr>"
| "set_job storages (JfVmids t) f = f\<lparr>jf_vmids := id_list t\<rparr>"
| "set_job storages (JfAll b) f = f\<lparr>jf_all := b\<rparr>"
| "set_job storages (JfMailto t) f = f\<lparr>jf_mailto := t\<rparr>"
| "set_job storages (JfNotes t) f = f\<lparr>jf_notes := t\<rparr>"

definition job_problem :: "job_form \<Rightarrow> string option" where
  "job_problem f =
     (if trim (jf_schedule f) = [] \<or> trim (jf_storage f) = [] then Some ''Schedule and storage are required.''
      else if \<not> jf_all f \<and> trim (jf_vmids f) = [] \<and> trim (jf_pool f) = []
      then Some ''Select a scope: all guests, a pool or explicit VMIDs.''
      else None)"

definition mail_fields :: "json option \<Rightarrow> job_form \<Rightarrow> (string \<times> json) list" where
  "mail_fields editing f =
     (if trim (jf_mailto f) = [] then []
      else [(''mailto'', JStr (trim (jf_mailto f))), (''mailnotification'', JStr (default_text (job_text ''mailnotification'' [] editing) ''always''))])"

definition job_body :: "json option \<Rightarrow> job_form \<Rightarrow> json" where
  "job_body editing f =
     JObj ([(''schedule'', JStr (trim (jf_schedule f))), (''storage'', JStr (trim (jf_storage f))), (''mode'', JStr (jf_mode f)),
            (''enabled'', JBool True)]
       @ text_field ''node'' (jf_node f) @ text_field ''pool'' (jf_pool f) @ text_field ''vmid'' (jf_vmids f)
       @ (if jf_all f then [(''all'', JBool True)] else []) @ mail_fields editing f @ text_field ''notes-template'' (jf_notes f))"

text \<open>A job with an identifier is updated, anything else created.\<close>

definition editing_id :: "json option \<Rightarrow> string option" where
  "editing_id editing = (case editing of Some job \<Rightarrow> if flag_prop ''id'' job then Some (row_name ''id'' job) else None | None \<Rightarrow> None)"

definition job_call :: "string \<Rightarrow> json option \<Rightarrow> job_form \<Rightarrow> api_call" where
  "job_call base editing f =
     (case editing_id editing of
        Some i \<Rightarrow> api_put (base @ ''/backup-jobs/'' @ encodeURIComponent i) (Some (job_body editing f)) no_options
      | None \<Rightarrow> api_post (base @ ''/backup-jobs'') (Some (job_body editing f)) no_options)"

definition saved_message :: "json option \<Rightarrow> string" where
  "saved_message editing = (case editing_id editing of Some i \<Rightarrow> ''Backup job '' @ i @ '' updated'' | None \<Rightarrow> ''Backup job created'')"

record jobs_page = ui +
  bj_jobs :: infra_get
  bj_storages :: infra_get
  bj_editorOpen :: bool
  bj_editing :: "json option"
  bj_form :: job_form
  bj_saving :: bool
  bj_delete :: "json option"
  bj_run :: "json option"
  bj_busyId :: "string option"

definition jobs_reload :: "jobs_page \<Rightarrow> jobs_page" where
  "jobs_reload s = s\<lparr>bj_jobs := reload_infra (bj_jobs s)\<rparr>"

definition storage_names :: "jobs_page \<Rightarrow> string list" where
  "storage_names s = filter (\<lambda>n. n \<noteq> []) (map (str_prop ''storage'') (infra_rows (bj_storages s)))"

text \<open>\<open>close\<close> is what the page does to the editor when it is closed or saved.\<close>

definition submit_job :: "(jobs_page \<Rightarrow> jobs_page) \<Rightarrow> string \<Rightarrow> jobs_page \<Rightarrow> jobs_page api_script" where
  "submit_job close base s =
     (case job_problem (bj_form s) of
        Some message \<Rightarrow> Set (toast_error message) Done
      | None \<Rightarrow>
          with_flag bj_saving_update
            (try_catch
              (await (job_call base (bj_editing s) (bj_form s))
                (\<lambda>_. Set close (Set (toast_success (saved_message (bj_editing s))) (Set jobs_reload Done))))
              (\<lambda>cause. Set (toast_error (api_message ''Failed to save backup job'' cause)) Done)))"

subsection \<open>Deleting and running a job\<close>

text \<open>\<open>runAction\<close>: the busy cell holds the job's key.\<close>

definition job_key :: "json \<Rightarrow> string" where
  "job_key job = prop_text ''id'' ''?'' job"

definition run_job_action :: "json \<Rightarrow> api_call \<Rightarrow> string \<Rightarrow> jobs_page api_script" where
  "run_job_action job action success =
     Set (bj_busyId_update (\<lambda>_. Some (job_key job)))
       (finally_set
         (try_catch (await action (\<lambda>_. Set (toast_success success) (Set jobs_reload Done)))
           (\<lambda>cause. Set (toast_error (api_message ''Request failed'' cause)) Done))
         (bj_busyId_update (\<lambda>_. None)))"

definition job_path :: "string \<Rightarrow> json \<Rightarrow> string" where
  "job_path base job = base @ ''/backup-jobs/'' @ encodeURIComponent (row_name ''id'' job)"

definition confirm_job_delete :: "string \<Rightarrow> jobs_page \<Rightarrow> jobs_page api_script" where
  "confirm_job_delete base s = Set (bj_delete_update (\<lambda>_. None))
     (case bj_delete s of
        None \<Rightarrow> Done
      | Some target \<Rightarrow>
          if \<not> flag_prop ''id'' target then Done
          else run_job_action target (api_delete (job_path base target) no_options)
            (''Backup job '' @ row_name ''id'' target @ '' deleted''))"

text \<open>The Proxmox section sends an empty object, the provider console no body.\<close>

definition confirm_job_run :: "json option \<Rightarrow> string \<Rightarrow> jobs_page \<Rightarrow> jobs_page api_script" where
  "confirm_job_run body base s = Set (bj_run_update (\<lambda>_. None))
     (case bj_run s of
        None \<Rightarrow> Done
      | Some target \<Rightarrow>
          if \<not> flag_prop ''id'' target then Done
          else run_job_action target (api_post (job_path base target @ ''/run'') body no_options)
            (''Backup job '' @ row_name ''id'' target @ '' started''))"

datatype jobs_event =
    BjEffects
  | BjTick nat
  | BjAdd
  | BjEdit nat
  | BjField job_field
  | BjClose
  | BjSubmit
  | BjDelete nat
  | BjDeleteCancel
  | BjDeleteConfirm
  | BjRun nat
  | BjRunCancel
  | BjRunConfirm

definition jobs_no_dialog :: "(jobs_page \<Rightarrow> bool) \<Rightarrow> jobs_page \<Rightarrow> bool" where
  "jobs_no_dialog editor s \<longleftrightarrow> \<not> editor s \<and> bj_delete s = None \<and> bj_run s = None"

text \<open>What the two pages do alike, given whether the editor is open.\<close>

fun jobs_ui ::
  "(jobs_page \<Rightarrow> bool) \<Rightarrow> (jobs_page \<Rightarrow> jobs_page) \<Rightarrow> json option \<Rightarrow> string \<Rightarrow> jobs_event \<Rightarrow> jobs_page \<Rightarrow> jobs_page api_script" where
  "jobs_ui editor close run_body base (BjField f) s =
     (if editor s then Set (bj_form_update (set_job (storage_names s) f)) Done else Done)"
| "jobs_ui editor close run_body base BjClose s = (if editor s then Set close Done else Done)"
| "jobs_ui editor close run_body base BjSubmit s = (if editor s \<and> \<not> bj_saving s then submit_job close base s else Done)"
| "jobs_ui editor close run_body base (BjDelete i) s =
     (case infra_row i (bj_jobs s) of
        Some job \<Rightarrow> if jobs_no_dialog editor s then Set (bj_delete_update (\<lambda>_. Some job)) Done else Done
      | None \<Rightarrow> Done)"
| "jobs_ui editor close run_body base BjDeleteCancel s = Set (bj_delete_update (\<lambda>_. None)) Done"
| "jobs_ui editor close run_body base BjDeleteConfirm s =
     (if bj_delete s \<noteq> None \<and> bj_busyId s = None then confirm_job_delete base s else Done)"
| "jobs_ui editor close run_body base (BjRun i) s =
     (case infra_row i (bj_jobs s) of
        Some job \<Rightarrow> if jobs_no_dialog editor s \<and> bj_busyId s \<noteq> Some (job_key job) then Set (bj_run_update (\<lambda>_. Some job)) Done else Done
      | None \<Rightarrow> Done)"
| "jobs_ui editor close run_body base BjRunCancel s = Set (bj_run_update (\<lambda>_. None)) Done"
| "jobs_ui editor close run_body base BjRunConfirm s =
     (if bj_run s \<noteq> None \<and> bj_busyId s = None then confirm_job_run run_body base s else Done)"
| "jobs_ui editor close run_body base _ s = Done"

subsection \<open>The page of the Proxmox section\<close>

text \<open>The editor's effect fills the form whenever the job or the dialog changes.\<close>

definition set_editor :: "json option \<Rightarrow> bool \<Rightarrow> jobs_page \<Rightarrow> jobs_page" where
  "set_editor editing open' s =
     (let s' = s\<lparr>bj_editing := editing, bj_editorOpen := open'\<rparr> in
      if bj_editing s = editing \<and> bj_editorOpen s = open' then s' else s'\<lparr>bj_form := job_form_of editing\<rparr>)"

text \<open>The effects of a render: the two loaders where due, and \<open>loadStorages\<close>, whose dependency is a new object in every
  render, so that every render asks for the storages again.\<close>

definition jobs_effects :: "string \<Rightarrow> jobs_page \<Rightarrow> jobs_page api_script" where
  "jobs_effects provider s =
     Fork (infra_effect bj_jobs_update (pve_path provider ''/backup-jobs'') no_options (bj_jobs s))
       (Fork (infra_effect bj_storages_update (pve_path provider ''/cluster-storages'') no_options (bj_storages s))
         (Set (bj_storages_update reload_infra) Done))"

fun jobs_handler :: "string \<Rightarrow> jobs_event \<Rightarrow> jobs_page \<Rightarrow> jobs_page api_script" where
  "jobs_handler provider BjEffects s = jobs_effects provider s"
| "jobs_handler provider (BjTick i) s =
     (if provider = [] then Done else Set (if i = 0 then jobs_reload else bj_storages_update reload_infra) Done)"
| "jobs_handler provider BjAdd s = (if jobs_no_dialog bj_editorOpen s then Set (set_editor None True) Done else Done)"
| "jobs_handler provider (BjEdit i) s =
     (case infra_row i (bj_jobs s) of
        Some job \<Rightarrow> if jobs_no_dialog bj_editorOpen s then Set (set_editor (Some job) True) Done else Done
      | None \<Rightarrow> Done)"
| "jobs_handler provider u s = jobs_ui bj_editorOpen (set_editor None False) (Some (JObj [])) (pve_base provider) u s"

definition open_jobs :: "string \<Rightarrow> jobs_page" where
  "open_jobs provider = \<lparr>toasts = [], bj_jobs = open_infra (provider \<noteq> []), bj_storages = open_infra (provider \<noteq> []), bj_editorOpen = False,
     bj_editing = None, bj_form = job_form_of None, bj_saving = False, bj_delete = None, bj_run = None, bj_busyId = None\<rparr>"

subsection \<open>The page of the provider console\<close>

definition provider_base :: "string \<Rightarrow> string" where
  "provider_base provider = ''/admin/providers/'' @ provider"

definition provider_editor :: "jobs_page \<Rightarrow> bool" where
  "provider_editor s \<longleftrightarrow> bj_editorOpen s \<or> bj_editing s \<noteq> None"

definition provider_close :: "jobs_page \<Rightarrow> jobs_page" where
  "provider_close s = s\<lparr>bj_editing := None, bj_editorOpen := False\<rparr>"

definition provider_path :: "string \<Rightarrow> string \<Rightarrow> string option" where
  "provider_path provider sub = (if provider = [] then None else Some (provider_base provider @ sub))"

definition provider_jobs_effects :: "string \<Rightarrow> jobs_page \<Rightarrow> jobs_page api_script" where
  "provider_jobs_effects provider s =
     Fork (infra_effect bj_jobs_update (provider_path provider ''/backup-jobs'') no_options (bj_jobs s))
       (infra_effect bj_storages_update (provider_path provider ''/cluster-storages'') no_options (bj_storages s))"

text \<open>No polling; the editor keeps the form it has.\<close>

fun provider_jobs_handler :: "string \<Rightarrow> jobs_event \<Rightarrow> jobs_page \<Rightarrow> jobs_page api_script" where
  "provider_jobs_handler provider BjEffects s = provider_jobs_effects provider s"
| "provider_jobs_handler provider (BjTick i) s = Done"
| "provider_jobs_handler provider BjAdd s =
     (if jobs_no_dialog provider_editor s then Set (bj_editing_update (\<lambda>_. None)) Done else Done)"
| "provider_jobs_handler provider (BjEdit i) s =
     (case infra_row i (bj_jobs s) of
        Some job \<Rightarrow> if jobs_no_dialog provider_editor s then Set (bj_editing_update (\<lambda>_. Some job)) Done else Done
      | None \<Rightarrow> Done)"
| "provider_jobs_handler provider u s = jobs_ui provider_editor provider_close None (provider_base provider) u s"

text \<open>The selection cell.\<close>

definition selection_cell :: "json \<Rightarrow> string" where
  "selection_cell job =
     (if flag_prop ''all'' job then ''all guests''
      else default_text
        (join [CHR '' '', CHR 0xC2, CHR 0xB7, CHR '' '']
          (filter (\<lambda>t. t \<noteq> []) [if flag_prop ''vmid'' job then ''vmids '' @ row_name ''vmid'' job else [],
             if flag_prop ''pool'' job then ''pool '' @ row_name ''pool'' job else []]))
        em_dash)"

end
