(* ===== verification/Proxmox_Requests.thy ===== *)
theory Proxmox_Requests
  imports Proxmox_Ha Proxmox_Pools Proxmox_Snapshots Proxmox_Firewall Proxmox_Backup
begin

text \<open>
  What the Proxmox pages may send: which button sends which change, that changes do not overlap, and the places
  where the pages do something else than they show.
\<close>

subsection \<open>Who sends what\<close>

definition ha_guard :: "string \<Rightarrow> ha_event \<Rightarrow> ha_page \<Rightarrow> api_call \<Rightarrow> bool" where
  "ha_guard provider u s c \<longleftrightarrow> provider \<noteq> [] \<and> \<not> mg_busy s \<and>
     (u = HpArm \<and> ha_no_dialog s \<and> c = api_post (pve_base provider @ ''/ha/arm'') (Some (JObj [])) no_options
      \<or> u = HpDisarm FmSubmit \<and> hp_disarmOpen s \<and> c = disarm_call provider (hp_mode s)
      \<or> u = HpAdd FmSubmit \<and> hp_addOpen s \<and> trimmed_text ''sid'' (ha_add_body (hp_add s))
          \<and> c = api_post (pve_base provider @ ''/ha-resources'') (Some (ha_add_body (hp_add s))) no_options
      \<or> u = HpDeleteConfirm \<and> (\<exists>sid purge. hp_delete s = Some (sid, purge)
          \<and> c = api_delete (pve_base provider @ ''/ha-resources'') (delete_opts sid purge))
      \<or> u = HpGroupCreate FmSubmit \<and> hp_groupOpen s \<and> trimmed_text ''group'' (ha_group_body (hp_group s)) \<and> trimmed_text ''nodes'' (ha_group_body (hp_group s))
          \<and> c = api_post (pve_base provider @ ''/ha/groups'') (Some (ha_group_body (hp_group s))) no_options
      \<or> u = HpGroupSave FmSubmit \<and> (\<exists>target. hp_groupEdit s = Some target \<and> trimmed_text ''nodes'' (group_edit_body target (hp_groupEditForm s))
          \<and> c = api_put (pve_base provider @ ''/ha/groups/'' @ encodeURIComponent (row_name ''group'' target))
                  (Some (group_edit_body target (hp_groupEditForm s))) no_options)
      \<or> u = HpGroupDeleteConfirm \<and> (\<exists>target. hp_groupDelete s = Some target
          \<and> c = api_delete (pve_base provider @ ''/ha/groups/'' @ encodeURIComponent (row_name ''group'' target)) no_options)
      \<or> u = HpRuleCreate FmSubmit \<and> hp_ruleOpen s \<and> trimmed_text ''rule'' (ha_rule_body (hp_rule s)) \<and> trimmed_text ''type'' (ha_rule_body (hp_rule s))
          \<and> trimmed_text ''resources'' (ha_rule_body (hp_rule s))
          \<and> c = api_post (pve_base provider @ ''/ha/rules'') (Some (ha_rule_body (hp_rule s))) no_options
      \<or> u = HpRuleSave FmSubmit \<and> (\<exists>target. hp_ruleEdit s = Some target \<and> trimmed_text ''resources'' (rule_edit_body target (hp_ruleEditForm s))
          \<and> c = api_put (pve_base provider @ ''/ha/rules/'' @ encodeURIComponent (row_name ''rule'' target))
                  (Some (rule_edit_body target (hp_ruleEditForm s))) no_options)
      \<or> u = HpRuleDeleteConfirm \<and> (\<exists>target. hp_ruleDelete s = Some target
          \<and> c = api_delete (pve_base provider @ ''/ha/rules/'' @ encodeURIComponent (row_name ''rule'' target)) no_options))"

definition provider_ha_guard :: "string \<Rightarrow> provider_ha_event \<Rightarrow> provider_ha \<Rightarrow> api_call \<Rightarrow> bool" where
  "provider_ha_guard provider u s c \<longleftrightarrow> \<not> mg_busy s \<and>
     (u = PhArm \<and> ph_no_dialog s \<and> c = api_post (pve_base provider @ ''/ha/arm'') None no_options
      \<or> u = PhDisarm FmSubmit \<and> ph_disarmOpen s \<and> c = disarm_call provider (ph_mode s)
      \<or> u = PhAdd FmSubmit \<and> ph_addOpen s \<and> trimmed_text ''sid'' (ha_add_body (ph_add s))
          \<and> c = api_post (pve_base provider @ ''/ha-resources'') (Some (ha_add_body (ph_add s))) no_options
      \<or> u = PhSave FmSubmit \<and> (\<exists>target. ph_edit s = Some target
          \<and> c = api_put (pve_base provider @ ''/ha-resources/'' @ encodeURIComponent (row_name ''sid'' target))
                  (Some (resource_edit_body target (ph_editForm s))) no_options)
      \<or> u = PhDeleteConfirm \<and> (\<exists>sid purge. ph_delete s = Some (sid, purge)
          \<and> c = api_delete (pve_base provider @ ''/ha-resources'') (delete_opts sid purge)))"

definition pools_guard :: "string \<Rightarrow> pools_event \<Rightarrow> pools_page \<Rightarrow> api_call \<Rightarrow> bool" where
  "pools_guard provider u s c \<longleftrightarrow> \<not> mg_busy s \<and>
     (u = PoCreate \<and> po_createOpen s \<and> trimmed_text ''poolid'' (pool_body s)
          \<and> c = api_post (pve_base provider @ ''/pools'') (Some (pool_body s)) no_options
      \<or> u = PoSave \<and> (\<exists>pool. po_edit s = Some pool
          \<and> c = api_put (pool_path provider pool) (Some (JObj [(''comment'', JStr (trim (po_editComment s)))])) no_options)
      \<or> u = PoMembersSubmit \<and> (\<exists>pool. po_members s = Some pool \<and> (trimmed_text ''vms'' (members_body s) \<or> trimmed_text ''storages'' (members_body s))
          \<and> c = api_put (pool_path provider pool @ ''/members'') (Some (members_body s)) no_options)
      \<or> u = PoDeleteConfirm \<and> (\<exists>pool. po_delete s = Some pool \<and> c = api_delete (pool_path provider pool) no_options))"

text \<open>The name sent is that of the dialog; the name of the live state is never sent to the create request.\<close>

definition snap_guard :: "snap_calls \<Rightarrow> string \<Rightarrow> snap_event \<Rightarrow> 'a snap_page_scheme \<Rightarrow> api_call \<Rightarrow> bool" where
  "snap_guard calls vmid u s c \<longleftrightarrow> valid_vmid vmid \<and> \<not> mg_busy s \<and>
     (u = SnCreate \<and> sn_createOpen s \<and> trim (sn_name s) \<notin> {[], ''current''} \<and> c = sc_create calls (trim (sn_name s)) (sn_desc s)
      \<or> u = SnRestoreConfirm \<and> (\<exists>r. sn_restore s = Some r \<and> snapshotName r \<noteq> [] \<and> c = sc_restore calls (snapshotName r))
      \<or> u = SnDeleteConfirm \<and> (\<exists>r. sn_delete s = Some r \<and> snapshotName r \<noteq> [] \<and> c = sc_delete calls (snapshotName r)))"

definition snapshots_guard :: "string \<Rightarrow> snapshots_event \<Rightarrow> snapshots_page \<Rightarrow> api_call \<Rightarrow> bool" where
  "snapshots_guard provider u s c \<longleftrightarrow>
     (\<exists>d. u = SpDialog d \<and> provider \<noteq> [] \<and> snap_guard (vmid_calls provider (trim (sn_vmid s))) (trim (sn_vmid s)) d s c)"

definition qemu_snap_guard :: "string \<Rightarrow> string \<Rightarrow> string \<Rightarrow> qemu_snap_event \<Rightarrow> snap_page \<Rightarrow> api_call \<Rightarrow> bool" where
  "qemu_snap_guard provider node vmid u s c \<longleftrightarrow>
     (\<exists>d base. u = QsDialog d \<and> qemu_base provider node vmid = Some base \<and> snap_guard (qemu_calls base) (trim vmid) d s c)"

definition rules_guard :: "string \<Rightarrow> fw_rules_event \<Rightarrow> rules_section \<Rightarrow> api_call \<Rightarrow> bool" where
  "rules_guard listPath u s c \<longleftrightarrow> \<not> mg_busy s \<and>
     (u = RsAdd \<and> rs_addOpen s \<and> c = api_post listPath (Some (fw_rule_body (rs_form s))) no_options
      \<or> u = RsDeleteConfirm \<and> (\<exists>pos. rs_delete s = Some pos \<and> c = api_delete (rule_path listPath pos) no_options))"

definition groups_guard :: "string \<Rightarrow> groups_event \<Rightarrow> groups_section \<Rightarrow> api_call \<Rightarrow> bool" where
  "groups_guard base u s c \<longleftrightarrow>
     u = GsAdd \<and> gs_addOpen s \<and> \<not> mg_busy s \<and> trimmed_text ''group'' (fw_group_body s)
       \<and> c = api_post (base @ ''/fw-groups'') (Some (fw_group_body s)) no_options
     \<or> u = GsDeleteConfirm \<and> \<not> mg_busy s \<and> (\<exists>target. gs_delete s = Some target
          \<and> c = api_delete (base @ ''/fw-groups'') (query_opts [(''name'', QStr (row_name ''group'' target))]))
     \<or> (\<exists>d g. u = GsRules d \<and> gs_selected s = Some g \<and> rules_guard (group_rules_path base g) d (gs_rules s) c)"

definition job_complete :: "json \<Rightarrow> bool" where
  "job_complete body \<longleftrightarrow> trimmed_text ''schedule'' body \<and> trimmed_text ''storage'' body
     \<and> (prop_of body ''all'' = Some (JBool True) \<or> trimmed_text ''vmid'' body \<or> trimmed_text ''pool'' body)"

definition jobs_guard :: "(jobs_page \<Rightarrow> bool) \<Rightarrow> json option \<Rightarrow> string \<Rightarrow> jobs_event \<Rightarrow> jobs_page \<Rightarrow> api_call \<Rightarrow> bool" where
  "jobs_guard editor run_body base u s c \<longleftrightarrow>
     u = BjSubmit \<and> editor s \<and> \<not> bj_saving s \<and> job_complete (job_body (bj_editing s) (bj_form s)) \<and> c = job_call base (bj_editing s) (bj_form s)
     \<or> u = BjDeleteConfirm \<and> bj_busyId s = None \<and> (\<exists>job. bj_delete s = Some job \<and> c = api_delete (job_path base job) no_options)
     \<or> u = BjRunConfirm \<and> bj_busyId s = None \<and> (\<exists>job. bj_run s = Some job \<and> c = api_post (job_path base job @ ''/run'') run_body no_options)"

lemma trimmed_field: "trim t \<noteq> [] \<Longrightarrow> map_of kvs k = Some (JStr (trim t)) \<Longrightarrow> trimmed_text k (JObj kvs)"
  by (simp add: trimmed_text_def trim_idem)

lemmas field_defs = text_field_def int_field_def flag_field_def bit_field_def digest_field_def

lemmas ha_defs = ha_effects_def submit_add_def confirm_delete_def submit_group_def submit_group_edit_def confirm_group_delete_def
  submit_ha_rule_def submit_rule_edit_def confirm_rule_delete_def Let_def

lemma ha_bodies:
  "trim (ha_sid f) \<noteq> [] \<Longrightarrow> trimmed_text ''sid'' (ha_add_body f)"
  "trim (hg_group g) \<noteq> [] \<Longrightarrow> trimmed_text ''group'' (ha_group_body g)"
  "trim (hg_nodes g) \<noteq> [] \<Longrightarrow> trimmed_text ''nodes'' (ha_group_body g)"
  "trim (hg_nodes g) \<noteq> [] \<Longrightarrow> trimmed_text ''nodes'' (group_edit_body t g)"
  "trim (hr_rule r) \<noteq> [] \<Longrightarrow> trimmed_text ''rule'' (ha_rule_body r)"
  "trim (hr_type r) \<noteq> [] \<Longrightarrow> trimmed_text ''type'' (ha_rule_body r)"
  "trim (hr_resources r) \<noteq> [] \<Longrightarrow> trimmed_text ''resources'' (ha_rule_body r)"
  "trim (hr_resources r) \<noteq> [] \<Longrightarrow> trimmed_text ''resources'' (rule_edit_body t r)"
  unfolding ha_add_body_def ha_group_body_def group_edit_body_def ha_rule_body_def rule_edit_body_def
  by (auto intro!: trimmed_field simp: field_defs)

lemma ha_dialog_calls:
  assumes "provider \<noteq> []"
  shows "c \<in> set (lead_calls (AddResourceDialog provider a s)) \<Longrightarrow> ha_guard provider (HpAdd a) s c"
    and "c \<in> set (lead_calls (DisarmDialog provider d s)) \<Longrightarrow> ha_guard provider (HpDisarm d) s c"
    and "c \<in> set (lead_calls (CreateGroupDialog provider g s)) \<Longrightarrow> ha_guard provider (HpGroupCreate g) s c"
    and "c \<in> set (lead_calls (EditGroupDialog provider h s)) \<Longrightarrow> ha_guard provider (HpGroupSave h) s c"
    and "c \<in> set (lead_calls (CreateRuleDialog provider r s)) \<Longrightarrow> ha_guard provider (HpRuleCreate r) s c"
    and "c \<in> set (lead_calls (EditRuleDialog provider q s)) \<Longrightarrow> ha_guard provider (HpRuleSave q) s c"
proof -
  show "ha_guard provider (HpAdd a) s c" if "c \<in> set (lead_calls (AddResourceDialog provider a s))"
    using that assms by (cases a) (auto simp: submit_add_def ha_guard_def ha_bodies split: if_splits)
  show "ha_guard provider (HpDisarm d) s c" if "c \<in> set (lead_calls (DisarmDialog provider d s))"
    using that assms by (cases d) (auto simp: ha_guard_def split: if_splits)
  show "ha_guard provider (HpGroupCreate g) s c" if "c \<in> set (lead_calls (CreateGroupDialog provider g s))"
    using that assms by (cases g) (auto simp: submit_group_def ha_guard_def ha_bodies Let_def split: if_splits)
  show "ha_guard provider (HpGroupSave h) s c" if "c \<in> set (lead_calls (EditGroupDialog provider h s))"
    using that assms by (cases h) (auto simp: submit_group_edit_def ha_guard_def ha_bodies split: if_splits option.splits)
  show "ha_guard provider (HpRuleCreate r) s c" if "c \<in> set (lead_calls (CreateRuleDialog provider r s))"
    using that assms by (cases r) (auto simp: submit_ha_rule_def ha_guard_def ha_bodies Let_def split: if_splits)
  show "ha_guard provider (HpRuleSave q) s c" if "c \<in> set (lead_calls (EditRuleDialog provider q s))"
    using that assms by (cases q) (auto simp: submit_rule_edit_def ha_guard_def ha_bodies split: if_splits option.splits)
qed

lemma ha_ui_calls: "c \<in> set (lead_calls (ha_ui provider u s)) \<Longrightarrow> provider \<noteq> [] \<Longrightarrow> is_get c \<or> ha_guard provider u s c"
  by (cases u) (simp_all add: ha_dialog_calls, auto simp: ha_defs ha_guard_def split: if_splits option.splits)

lemma ha_lead_calls: "c \<in> set (lead_calls (ha_handler provider u s)) \<Longrightarrow> is_get c \<or> ha_guard provider u s c"
  using ha_ui_calls [of c provider u s]
  by (auto simp: ha_handler_def ha_effects_def split: if_splits ha_event.splits dest: infra_get_calls)

lemmas provider_ha_defs = ph_submit_add_def ph_submit_edit_def ph_confirm_delete_def

lemma provider_ha_dialog_calls:
  "c \<in> set (lead_calls (ProviderAddResourceDialog provider a s)) \<Longrightarrow> provider_ha_guard provider (PhAdd a) s c"
  "c \<in> set (lead_calls (ProviderDisarmDialog provider d s)) \<Longrightarrow> provider_ha_guard provider (PhDisarm d) s c"
  "c \<in> set (lead_calls (EditResourceDialog provider e s)) \<Longrightarrow> provider_ha_guard provider (PhSave e) s c"
proof -
  show "provider_ha_guard provider (PhAdd a) s c" if "c \<in> set (lead_calls (ProviderAddResourceDialog provider a s))"
    using that by (cases a) (auto simp: ph_submit_add_def provider_ha_guard_def ha_bodies split: if_splits)
  show "provider_ha_guard provider (PhDisarm d) s c" if "c \<in> set (lead_calls (ProviderDisarmDialog provider d s))"
    using that by (cases d) (auto simp: provider_ha_guard_def split: if_splits)
  show "provider_ha_guard provider (PhSave e) s c" if "c \<in> set (lead_calls (EditResourceDialog provider e s))"
    using that by (cases "(provider, e, s)" rule: EditResourceDialog.cases)
      (auto simp: ph_submit_edit_def provider_ha_guard_def split: if_splits option.splits)
qed

lemma provider_ha_lead_calls: "c \<in> set (lead_calls (provider_ha_handler provider u s)) \<Longrightarrow> is_get c \<or> provider_ha_guard provider u s c"
  by (cases u) (simp_all add: provider_ha_dialog_calls,
      auto simp: ph_confirm_delete_def provider_ha_guard_def split: if_splits option.splits dest: infra_get_calls)

lemmas pools_defs = pools_list_def submit_pool_def submit_pool_edit_def submit_members_def confirm_pool_delete_def

lemma pool_bodies:
  "trim (po_poolid s) \<noteq> [] \<Longrightarrow> trimmed_text ''poolid'' (pool_body s)"
  "trim (po_vms s) \<noteq> [] \<Longrightarrow> trimmed_text ''vms'' (members_body s)"
  "trim (po_storages s) \<noteq> [] \<Longrightarrow> trimmed_text ''storages'' (members_body s)"
  unfolding pool_body_def members_body_def by (auto intro!: trimmed_field)

lemma pools_ui_calls: "c \<in> set (lead_calls (pools_ui finish provider u s)) \<Longrightarrow> is_get c \<or> pools_guard provider u s c"
  by (cases u) (auto simp: pools_defs pools_guard_def pool_bodies split: if_splits option.splits dest: infra_get_calls)

lemma pools_lead_calls:
  "c \<in> set (lead_calls (pools_handler provider u s)) \<Longrightarrow> is_get c \<or> pools_guard provider u s c"
  "c \<in> set (lead_calls (provider_pools_handler provider u s)) \<Longrightarrow> is_get c \<or> pools_guard provider u s c"
  by (auto simp: pools_handler_def provider_pools_handler_def pools_ui_calls split: if_splits)

lemmas snap_defs = submit_snapshot_def confirm_restore_def confirm_snapshot_delete_def Let_def

lemma snap_ui_calls: "c \<in> set (lead_calls (snap_ui calls vmid u s)) \<Longrightarrow> snap_guard calls vmid u s c"
  by (cases u) (auto simp: snap_defs snap_guard_def split: if_splits option.splits)

lemma snapshots_lead_calls:
  "c \<in> set (lead_calls (snapshots_handler provider u s)) \<Longrightarrow> is_get c \<or> snapshots_guard provider u s c"
  by (cases u) (auto simp: snapshots_guard_def split: if_splits dest: infra_get_calls snap_ui_calls)

lemma qemu_snap_lead_calls:
  "c \<in> set (lead_calls (qemu_snap_handler provider node vmid u t)) \<Longrightarrow> is_get c \<or> qemu_snap_guard provider node vmid u t c"
  by (cases u) (auto simp: qemu_snap_guard_def split: if_splits option.splits dest: infra_get_calls snap_ui_calls)

lemma rules_lead_calls: "c \<in> set (lead_calls (fw_rules_handler listPath u s)) \<Longrightarrow> is_get c \<or> rules_guard listPath u s c"
  by (cases u) (auto simp: confirm_fw_rule_delete_def rules_guard_def split: if_splits option.splits dest: infra_get_calls)

lemma groups_lead_calls: "c \<in> set (lead_calls (groups_handler base u s)) \<Longrightarrow> is_get c \<or> groups_guard base u s c"
proof (cases u)
  case (GsRules d)
  assume "c \<in> set (lead_calls (groups_handler base u s))"
  with GsRules show ?thesis
    by (auto simp: groups_guard_def shown_group_def split: if_splits option.splits dest!: rules_lead_calls)
qed (auto simp: submit_fw_group_def confirm_fw_group_delete_def groups_guard_def fw_group_body_def trimmed_field
    split: if_splits option.splits dest: infra_get_calls)

lemma provider_fw_lead_calls:
  "c \<in> set (lead_calls (provider_rules_handler listPath u s)) \<Longrightarrow> is_get c \<or> rules_guard listPath u s c"
  "c \<in> set (lead_calls (provider_groups_handler base v t)) \<Longrightarrow> is_get c \<or> groups_guard base v t c"
  by (auto simp: provider_rules_handler_def provider_groups_handler_def dest: rules_lead_calls groups_lead_calls split: if_splits)

lemma job_body_complete:
  assumes "job_problem f = None"
  shows "job_complete (job_body editing f)"
proof -
  have f: "trim (jf_schedule f) \<noteq> []" "trim (jf_storage f) \<noteq> []" "jf_all f \<or> trim (jf_vmids f) \<noteq> [] \<or> trim (jf_pool f) \<noteq> []"
    using assms by (simp_all add: job_problem_def split: if_splits)
  have "trimmed_text ''schedule'' (job_body editing f)" unfolding job_body_def by (rule trimmed_field [OF f(1)]) simp
  moreover have "trimmed_text ''storage'' (job_body editing f)" unfolding job_body_def by (rule trimmed_field [OF f(2)]) simp
  moreover have "jf_all f \<Longrightarrow> prop_of (job_body editing f) ''all'' = Some (JBool True)"
    by (simp add: job_body_def text_field_def map_add_def)
  moreover have "trim (jf_vmids f) \<noteq> [] \<Longrightarrow> trimmed_text ''vmid'' (job_body editing f)"
    unfolding job_body_def by (rule trimmed_field) (simp_all add: text_field_def map_add_def)
  moreover have "trim (jf_pool f) \<noteq> [] \<Longrightarrow> trimmed_text ''pool'' (job_body editing f)"
    unfolding job_body_def by (rule trimmed_field) (simp_all add: text_field_def map_add_def)
  ultimately show ?thesis using f(3) unfolding job_complete_def by blast
qed

lemmas job_defs = submit_job_def confirm_job_delete_def confirm_job_run_def run_job_action_def

lemma jobs_ui_calls: "c \<in> set (lead_calls (jobs_ui editor close run_body base u s)) \<Longrightarrow> jobs_guard editor run_body base u s c"
  by (cases u) (auto simp: job_defs jobs_guard_def job_body_complete split: if_splits option.splits)

lemma jobs_lead_calls:
  "c \<in> set (lead_calls (jobs_handler provider u s)) \<Longrightarrow> is_get c \<or> jobs_guard bj_editorOpen (Some (JObj [])) (pve_base provider) u s c"
  by (cases u) (auto simp: jobs_effects_def split: if_splits option.splits dest: infra_get_calls jobs_ui_calls simp del: jobs_ui.simps)

lemma provider_jobs_lead_calls:
  "c \<in> set (lead_calls (provider_jobs_handler provider u s)) \<Longrightarrow> is_get c \<or> jobs_guard provider_editor None (provider_base provider) u s c"
  by (cases u) (auto simp: provider_jobs_effects_def split: if_splits option.splits dest: infra_get_calls jobs_ui_calls simp del: jobs_ui.simps)

lemmas leads = calls_lead_infra calls_lead_runAction

lemma ha_submit_leads:
  "calls_lead is_get (submit_add provider s)" "calls_lead is_get (confirm_delete provider s)" "calls_lead is_get (submit_group provider s)"
  "calls_lead is_get (submit_group_edit provider t s)" "calls_lead is_get (confirm_group_delete provider s)"
  "calls_lead is_get (submit_ha_rule provider s)" "calls_lead is_get (submit_rule_edit provider t s)" "calls_lead is_get (confirm_rule_delete provider s)"
  by (simp_all add: ha_defs leads split: option.split)

lemma ha_dialog_leads:
  "calls_lead is_get (AddResourceDialog provider a s)" "calls_lead is_get (DisarmDialog provider d s)"
  "calls_lead is_get (CreateGroupDialog provider g s)" "calls_lead is_get (EditGroupDialog provider h s)"
  "calls_lead is_get (CreateRuleDialog provider r s)" "calls_lead is_get (EditRuleDialog provider q s)"
  by (-, (cases a; simp add: ha_submit_leads), (cases d; simp add: leads), (cases g; simp add: ha_submit_leads),
      (cases h; simp add: ha_submit_leads split: option.split), (cases r; simp add: ha_submit_leads),
      (cases q; simp add: ha_submit_leads split: option.split))

lemma ha_ui_leads: "calls_lead is_get (ha_ui provider u s)"
  by (cases u) (simp_all add: ha_dialog_leads ha_submit_leads leads split: option.split)

lemma provider_ha_dialog_leads:
  "calls_lead is_get (ProviderAddResourceDialog provider a t)" "calls_lead is_get (ProviderDisarmDialog provider d t)"
  "calls_lead is_get (EditResourceDialog provider e t)"
  by (-, (cases a; simp add: provider_ha_defs leads), (cases d; simp add: leads),
      (cases "(provider, e, t)" rule: EditResourceDialog.cases; simp add: provider_ha_defs leads split: option.split))

interpretation ha_lead: page_lead perform_api "ha_handler provider" is_get for provider
proof
  fix u s show "calls_lead is_get (ha_handler provider u s)"
    by (cases u) (simp_all add: ha_handler_def ha_effects_def ha_ui_leads leads del: ha_ui.simps)
qed

interpretation provider_ha_lead: page_lead perform_api "provider_ha_handler provider" is_get for provider
proof
  fix u s show "calls_lead is_get (provider_ha_handler provider u s)"
    by (cases u) (simp_all add: provider_ha_dialog_leads ph_confirm_delete_def leads split: option.split)
qed

lemma pools_ui_leads: "calls_lead is_get (pools_ui finish provider u s)"
  by (cases u) (simp_all add: pools_defs leads split: option.split)

interpretation pools_lead: page_lead perform_api "pools_handler provider" is_get for provider
  by unfold_locales (auto simp: pools_handler_def pools_ui_leads)

interpretation provider_pools_lead: page_lead perform_api "provider_pools_handler provider" is_get for provider
  by unfold_locales (auto simp: provider_pools_handler_def pools_ui_leads)

lemma snap_ui_leads: "calls_lead is_get (snap_ui calls vmid u s)"
  by (cases u) (simp_all add: snap_defs leads split: option.split)

interpretation snapshots_lead: page_lead perform_api "snapshots_handler provider" is_get for provider
proof
  fix u s show "calls_lead is_get (snapshots_handler provider u s)"
    by (cases u) (simp_all add: snap_ui_leads leads)
qed

interpretation qemu_snap_lead: page_lead perform_api "qemu_snap_handler provider node vmid" is_get for provider node vmid
proof
  fix u s show "calls_lead is_get (qemu_snap_handler provider node vmid u s)"
    by (cases u) (simp_all add: snap_ui_leads leads split: option.split)
qed

lemma rules_leads: "calls_lead is_get (fw_rules_handler listPath u s)"
  by (cases u) (simp_all add: confirm_fw_rule_delete_def leads split: option.split)

lemma groups_leads: "calls_lead is_get (groups_handler base u s)"
  by (cases u) (simp_all add: submit_fw_group_def confirm_fw_group_delete_def rules_leads calls_lead_lift leads split: option.split)

interpretation rules_lead: page_lead perform_api "fw_rules_handler listPath" is_get for listPath
  by unfold_locales (rule rules_leads)

interpretation provider_rules_lead: page_lead perform_api "provider_rules_handler listPath" is_get for listPath
  by unfold_locales (auto simp: provider_rules_handler_def rules_leads)

interpretation groups_lead: page_lead perform_api "groups_handler base" is_get for base
  by unfold_locales (rule groups_leads)

interpretation provider_groups_lead: page_lead perform_api "provider_groups_handler base" is_get for base
  by unfold_locales (auto simp: provider_groups_handler_def groups_leads)

lemma job_action_leads: "calls_lead is_get (run_job_action job action success)"
  unfolding run_job_action_def calls_lead.simps by (intro calls_lead_finally calls_lead_try calls_lead_await) simp_all

lemma submit_job_leads: "calls_lead is_get (submit_job close base s)"
  unfolding submit_job_def
  by (cases "job_problem (bj_form s)") (simp_all add: calls_lead_flag calls_lead_try calls_lead_await)

lemma jobs_ui_leads: "calls_lead is_get (jobs_ui editor close run_body base u s)"
  by (cases u) (simp_all add: confirm_job_delete_def confirm_job_run_def job_action_leads submit_job_leads split: option.split)

interpretation jobs_lead: page_lead perform_api "jobs_handler provider" is_get for provider
proof
  fix u s show "calls_lead is_get (jobs_handler provider u s)"
    by (cases u) (simp_all add: jobs_effects_def jobs_ui_leads leads del: jobs_ui.simps split: option.split)
qed

interpretation provider_jobs_lead: page_lead perform_api "provider_jobs_handler provider" is_get for provider
proof
  fix u s show "calls_lead is_get (provider_jobs_handler provider u s)"
    by (cases u) (simp_all add: provider_jobs_effects_def jobs_ui_leads leads del: jobs_ui.simps split: option.split)
qed


subsection \<open>One change at a time\<close>

lemma reload_busy [simp]:
  "mg_busy (ha_reload h) = mg_busy h" "mg_busy (ph_reload p) = mg_busy p" "mg_busy (pools_reload q) = mg_busy q"
  "mg_busy (snap_reload n) = mg_busy n" "mg_busy (rules_reload r) = mg_busy r" "mg_busy (groups_reload g) = mg_busy g"
  "mg_busy (ha_tick i h) = mg_busy h" "mg_busy (pool_created q) = mg_busy q" "mg_busy (provider_pool_created q) = mg_busy q"
  "mg_busy (snap_created n) = mg_busy n" "mg_busy (set_vmid t m) = mg_busy m" "mg_busy (rule_created r) = mg_busy r"
  by (simp_all add: ha_reload_def ph_reload_def pools_reload_def snap_reload_def rules_reload_def groups_reload_def ha_tick_def
      pool_created_def provider_pool_created_def snap_created_def set_vmid_def rule_created_def)

lemma gs_rules_busy [simp]: "mg_busy (gs_rules_update f g) = mg_busy g" "toasts (gs_rules_update f g) = toasts g"
  by (cases g; simp)+

lemma select_busy [simp]: "mg_busy (select_group k g) = mg_busy g"
  by (cases "shown_group k"; cases "shown_group (gs_selected g)") (simp_all add: select_group_def Let_def)

lemmas alone_intros = exclusive_runAction quiet_infra quiet_exclusive [OF quiet_infra]

lemma ha_submit_alone:
  "exclusive mg_busy is_get (submit_add provider s) False" "exclusive mg_busy is_get (confirm_delete provider s) False"
  "exclusive mg_busy is_get (submit_group provider s) False" "exclusive mg_busy is_get (submit_group_edit provider t s) False"
  "exclusive mg_busy is_get (confirm_group_delete provider s) False" "exclusive mg_busy is_get (submit_ha_rule provider s) False"
  "exclusive mg_busy is_get (submit_rule_edit provider t s) False" "exclusive mg_busy is_get (confirm_rule_delete provider s) False"
  by (simp_all add: ha_defs alone_intros split: option.split)

lemma ha_dialog_alone:
  "exclusive mg_busy is_get (AddResourceDialog provider a s) False" "exclusive mg_busy is_get (DisarmDialog provider d s) False"
  "exclusive mg_busy is_get (CreateGroupDialog provider g s) False" "exclusive mg_busy is_get (EditGroupDialog provider h s) False"
  "exclusive mg_busy is_get (CreateRuleDialog provider r s) False" "exclusive mg_busy is_get (EditRuleDialog provider q s) False"
  by (-, (cases a; simp add: ha_submit_alone), (cases d; simp add: alone_intros), (cases g; simp add: ha_submit_alone),
      (cases h; simp add: ha_submit_alone split: option.split), (cases r; simp add: ha_submit_alone),
      (cases q; simp add: ha_submit_alone split: option.split))

lemma ha_dialog_quiet:
  assumes "mg_busy s"
  shows "quiet mg_busy is_get (AddResourceDialog provider a s)" "quiet mg_busy is_get (DisarmDialog provider d s)"
    "quiet mg_busy is_get (CreateGroupDialog provider g s)" "quiet mg_busy is_get (EditGroupDialog provider h s)"
    "quiet mg_busy is_get (CreateRuleDialog provider r s)" "quiet mg_busy is_get (EditRuleDialog provider q s)"
  using assms
  by (-, (cases a; simp), (cases d; simp), (cases g; simp), (cases h; simp split: option.split), (cases r; simp),
      (cases q; simp split: option.split))

lemma ha_ui_alone: "exclusive mg_busy is_get (ha_ui provider u s) False" "mg_busy s \<Longrightarrow> quiet mg_busy is_get (ha_ui provider u s)"
  by (cases u; simp add: ha_dialog_alone ha_dialog_quiet ha_submit_alone alone_intros split: option.split)+

interpretation ha_alone: page_exclusive perform_api "ha_handler provider" mg_busy is_get for provider
proof
  fix u s
  show "exclusive mg_busy is_get (ha_handler provider u s) False"
    by (cases u) (simp_all add: ha_handler_def ha_effects_def ha_ui_alone alone_intros del: ha_ui.simps)
  show "mg_busy s \<Longrightarrow> quiet mg_busy is_get (ha_handler provider u s)"
    by (cases u) (simp_all add: ha_handler_def ha_effects_def ha_ui_alone alone_intros del: ha_ui.simps)
qed

lemma provider_ha_dialog_alone:
  "exclusive mg_busy is_get (ProviderAddResourceDialog provider a t) False" "exclusive mg_busy is_get (ProviderDisarmDialog provider d t) False"
  "exclusive mg_busy is_get (EditResourceDialog provider e t) False"
  by (-, (cases a; simp add: provider_ha_defs alone_intros), (cases d; simp add: alone_intros),
      (cases "(provider, e, t)" rule: EditResourceDialog.cases; simp add: provider_ha_defs alone_intros split: option.split))

lemma provider_ha_dialog_quiet:
  assumes "mg_busy t"
  shows "quiet mg_busy is_get (ProviderAddResourceDialog provider a t)" "quiet mg_busy is_get (ProviderDisarmDialog provider d t)"
    "quiet mg_busy is_get (EditResourceDialog provider e t)"
  using assms
  by (-, (cases a; simp), (cases d; simp), (cases "(provider, e, t)" rule: EditResourceDialog.cases; simp split: option.split))

interpretation provider_ha_alone: page_exclusive perform_api "provider_ha_handler provider" mg_busy is_get for provider
proof
  fix u s
  show "exclusive mg_busy is_get (provider_ha_handler provider u s) False"
    by (cases u) (simp_all add: provider_ha_dialog_alone ph_confirm_delete_def alone_intros split: option.split)
  show "mg_busy s \<Longrightarrow> quiet mg_busy is_get (provider_ha_handler provider u s)"
    by (cases u) (simp_all add: provider_ha_dialog_quiet alone_intros split: option.split)
qed

lemma pools_ui_alone:
  assumes "\<And>x. mg_busy (finish x) = mg_busy x"
  shows "exclusive mg_busy is_get (pools_ui finish provider u s) False" "mg_busy s \<Longrightarrow> quiet mg_busy is_get (pools_ui finish provider u s)"
  by (cases u; simp add: pools_defs alone_intros assms split: option.split)+

interpretation pools_alone: page_exclusive perform_api "pools_handler provider" mg_busy is_get for provider
  by unfold_locales (simp_all add: pools_handler_def pools_ui_alone)

interpretation provider_pools_alone: page_exclusive perform_api "provider_pools_handler provider" mg_busy is_get for provider
  by unfold_locales (simp_all add: provider_pools_handler_def pools_ui_alone)

lemma snap_ui_alone:
  "exclusive mg_busy is_get (snap_ui calls vmid u s) False" "mg_busy s \<Longrightarrow> quiet mg_busy is_get (snap_ui calls vmid u s)"
  by (cases u; simp add: snap_defs alone_intros split: option.split)+

interpretation snapshots_alone: page_exclusive perform_api "snapshots_handler provider" mg_busy is_get for provider
proof
  fix u s
  show "exclusive mg_busy is_get (snapshots_handler provider u s) False"
    by (cases u) (simp_all add: snap_ui_alone alone_intros del: snap_ui.simps)
  show "mg_busy s \<Longrightarrow> quiet mg_busy is_get (snapshots_handler provider u s)"
    by (cases u) (simp_all add: snap_ui_alone alone_intros del: snap_ui.simps)
qed

interpretation qemu_snap_alone: page_exclusive perform_api "qemu_snap_handler provider node vmid" mg_busy is_get for provider node vmid
proof
  fix u s
  show "exclusive mg_busy is_get (qemu_snap_handler provider node vmid u s) False"
    by (cases u) (simp_all add: snap_ui_alone alone_intros del: snap_ui.simps split: option.split)
  show "mg_busy s \<Longrightarrow> quiet mg_busy is_get (qemu_snap_handler provider node vmid u s)"
    by (cases u) (simp_all add: snap_ui_alone alone_intros del: snap_ui.simps split: option.split)
qed

lemma rules_alone:
  "exclusive mg_busy is_get (fw_rules_handler listPath u s) False" "mg_busy s \<Longrightarrow> quiet mg_busy is_get (fw_rules_handler listPath u s)"
  by (cases u; simp add: confirm_fw_rule_delete_def alone_intros split: option.split)+

interpretation rules_alone: page_exclusive perform_api "fw_rules_handler listPath" mg_busy is_get for listPath
  by unfold_locales (simp_all add: rules_alone)

interpretation provider_rules_alone: page_exclusive perform_api "provider_rules_handler listPath" mg_busy is_get for listPath
  by unfold_locales (simp_all add: provider_rules_handler_def rules_alone)


subsection \<open>Busy buttons\<close>

lemma in_mount_busy [simp]: "mg_busy (in_mount m f g) = mg_busy g"
  by (simp add: in_mount_def)

lemma confirm_group_low: "ends_low mg_busy (confirm_fw_group_delete base s) True"
  by (simp add: confirm_fw_group_delete_def ends_low_runAction split: option.split)

lemma groups_low: "ends_low mg_busy (groups_handler base u s) True"
  by (cases u) (simp_all add: submit_fw_group_def confirm_group_low ends_low_runAction ends_low_infra ends_low_lift split: option.split)

interpretation groups_busy: page_flag perform_api "groups_handler base" mg_busy for base
  by unfold_locales (rule groups_low)

interpretation provider_groups_busy: page_flag perform_api "provider_groups_handler base" mg_busy for base
  by unfold_locales (simp add: provider_groups_handler_def groups_low)

lemma jobs_frame [simp]:
  "bj_saving (jobs_reload s) = bj_saving s" "bj_busyId (jobs_reload s) = bj_busyId s"
  "bj_saving (set_editor e v s) = bj_saving s" "bj_busyId (set_editor e v s) = bj_busyId s"
  "bj_saving (provider_close s) = bj_saving s" "bj_busyId (provider_close s) = bj_busyId s"
  "bj_saving (toast_success m s) = bj_saving s" "bj_busyId (toast_success m s) = bj_busyId s"
  "bj_saving (toast_error m s) = bj_saving s" "bj_busyId (toast_error m s) = bj_busyId s"
  by (simp_all add: jobs_reload_def set_editor_def provider_close_def toast_success_def toast_error_def Let_def)

definition job_busy :: "jobs_page \<Rightarrow> bool" where
  "job_busy s \<longleftrightarrow> bj_busyId s \<noteq> None"

lemma job_busy_frame [simp]:
  "job_busy (jobs_reload s) = job_busy s" "job_busy (set_editor e v s) = job_busy s" "job_busy (provider_close s) = job_busy s"
  "job_busy (toast_success m s) = job_busy s" "job_busy (toast_error m s) = job_busy s" "job_busy (bj_saving_update f s) = job_busy s"
  "job_busy (bj_jobs_update g s) = job_busy s" "job_busy (bj_storages_update g s) = job_busy s" "job_busy (bj_form_update h s) = job_busy s"
  "job_busy (bj_delete_update k s) = job_busy s" "job_busy (bj_run_update k s) = job_busy s" "job_busy (bj_editing_update k s) = job_busy s"
  "\<not> job_busy (bj_busyId_update (\<lambda>_. None) x)"
  by (simp_all add: job_busy_def)

lemma job_action_low: "ends_low bj_saving (run_job_action job action success) True" "ends_low job_busy (run_job_action job action success) True"
proof -
  show "ends_low bj_saving (run_job_action job action success) True"
    unfolding run_job_action_def ends_low.simps
    by (intro ends_low_finally_keep ends_low_try_catch ends_low_await) simp_all
  show "ends_low job_busy (run_job_action job action success) True"
    unfolding run_job_action_def ends_low.simps
    by (intro ends_low_finally ends_low_try_catch ends_low_await) simp_all
qed

lemma submit_job_low:
  assumes "\<And>x. bj_saving (close x) = bj_saving x" "\<And>x. job_busy (close x) = job_busy x"
  shows "ends_low bj_saving (submit_job close base s) True" "ends_low job_busy (submit_job close base s) True"
proof -
  show "ends_low bj_saving (submit_job close base s) True"
    by (cases "job_problem (bj_form s)"; simp add: submit_job_def; intro ends_low_with_flag ends_low_try_catch ends_low_await; simp add: assms)
  show "ends_low job_busy (submit_job close base s) True"
    by (cases "job_problem (bj_form s)"; simp add: submit_job_def; intro ends_low_with_flag ends_low_try_catch ends_low_await; simp add: assms)
qed

lemma jobs_ui_low:
  assumes "\<And>x. bj_saving (close x) = bj_saving x" "\<And>x. job_busy (close x) = job_busy x"
  shows "ends_low bj_saving (jobs_ui editor close run_body base u s) True" "ends_low job_busy (jobs_ui editor close run_body base u s) True"
  by (cases u; simp add: confirm_job_delete_def confirm_job_run_def job_action_low submit_job_low assms split: option.split)+

interpretation jobs_saving: page_flag perform_api "jobs_handler provider" bj_saving for provider
proof
  fix u s show "ends_low bj_saving (jobs_handler provider u s) True"
    by (cases u) (simp_all add: jobs_effects_def jobs_ui_low ends_low_infra del: jobs_ui.simps split: option.split)
qed

interpretation jobs_busy: page_flag perform_api "jobs_handler provider" job_busy for provider
proof
  fix u s show "ends_low job_busy (jobs_handler provider u s) True"
    by (cases u) (simp_all add: jobs_effects_def jobs_ui_low ends_low_infra del: jobs_ui.simps split: option.split)
qed

interpretation provider_jobs_saving: page_flag perform_api "provider_jobs_handler provider" bj_saving for provider
proof
  fix u s show "ends_low bj_saving (provider_jobs_handler provider u s) True"
    by (cases u) (simp_all add: provider_jobs_effects_def jobs_ui_low ends_low_infra del: jobs_ui.simps split: option.split)
qed

interpretation provider_jobs_busy: page_flag perform_api "provider_jobs_handler provider" job_busy for provider
proof
  fix u s show "ends_low job_busy (provider_jobs_handler provider u s) True"
    by (cases u) (simp_all add: provider_jobs_effects_def jobs_ui_low ends_low_infra del: jobs_ui.simps split: option.split)
qed

subsection \<open>What goes wrong\<close>

text \<open>The add button of the provider console opens nothing: it sets the edited job to none, and the editor is open only while a job
  is edited.\<close>

interpretation provider_editor_closed: page_contract perform_api "provider_jobs_handler provider" "\<lambda>s. \<not> bj_editorOpen s" "\<lambda>_. True"
  for provider
proof
  fix u and s :: jobs_page
  have close: "\<not> bj_editorOpen (provider_close x)" "bj_editorOpen (jobs_reload x) = bj_editorOpen x"
    "bj_editorOpen (toast_success m x) = bj_editorOpen x" "bj_editorOpen (toast_error m x) = bj_editorOpen x" for m x
    by (simp_all add: provider_close_def jobs_reload_def toast_success_def toast_error_def)
  have act: "script_ok (\<lambda>s. \<not> bj_editorOpen s) (\<lambda>_. True) (run_job_action job action success)" for job action success
    unfolding run_job_action_def by (simp add: close, intro script_ok_finally script_ok_try_catch script_ok_await) (simp_all add: close)
  have "script_ok (\<lambda>s. \<not> bj_editorOpen s) (\<lambda>_. True) (submit_job provider_close (provider_base provider) s)"
    unfolding submit_job_def
    by (cases "job_problem (bj_form s)"; simp add: close; intro script_ok_with_flag script_ok_try_catch script_ok_await; simp add: close)
  with act show "script_ok (\<lambda>s. \<not> bj_editorOpen s) (\<lambda>_. True) (provider_jobs_handler provider u s)"
    by (cases u) (simp_all add: provider_jobs_effects_def script_ok_infra confirm_job_delete_def confirm_job_run_def close split: option.split)
qed

lemma add_job_never_opens:
  "let p = run_page perform_api (provider_jobs_handler provider) es (open_page (open_jobs provider) b) in
   provider_editor (pg_state (page_step perform_api (provider_jobs_handler provider) (User BjAdd) p)) = provider_editor (pg_state p)"
  using provider_editor_closed.runs_keep [of "open_jobs provider" provider es b]
  by (simp add: open_jobs_def Let_def run_script_lead jobs_no_dialog_def provider_editor_def)

text \<open>Its editor is not filled from the job: it shows, and saves, the defaults or what was typed for the job before.\<close>

lemma editor_not_filled:
  "infra_row i (bj_jobs s) = Some job \<Longrightarrow> jobs_no_dialog provider_editor s \<Longrightarrow>
   let s' = lead_state (provider_jobs_handler provider (BjEdit i) s) s in bj_editing s' = Some job \<and> bj_form s' = bj_form s"
  by (simp add: Let_def)

text \<open>Saving a job that is disabled enables it, and the choice of all guests does not replace the other scopes but is sent beside them.\<close>

lemma edited_job_enabled: "prop_of (job_body (Some job) (job_form_of (Some job))) ''enabled'' = Some (JBool True)"
  by (simp add: job_body_def)

lemma all_sent_beside_scope:
  assumes "jf_all f" and "trim (jf_vmids f) \<noteq> []"
  shows "prop_of (job_body editing f) ''all'' = Some (JBool True) \<and> trimmed_text ''vmid'' (job_body editing f)"
  using assms by (auto simp: job_body_def text_field_def map_add_def intro!: trimmed_field)

text \<open>The page of the Proxmox section requests the storages again after every render, because the effect that reloads them
  depends on an object made anew in each: \<open>n\<close> renders make \<open>n\<close> requests, and each cancels the one before.\<close>

lemma storages_requested_forever:
  assumes "provider \<noteq> []"
  shows "let p = run_page perform (jobs_handler provider) (replicate n (User BjEffects)) (open_page (open_jobs provider) b);
      asked = filter (\<lambda>c. ac_path c = pve_base provider @ ''/cluster-storages'') (pg_calls p)
    in length asked = n \<and> ig_due (bj_storages (pg_state p)) \<and> runs (ig_hook (bj_storages (pg_state p))) = n"
proof (induction n)
  case 0
  show ?case by (simp add: run_page_def open_page_def open_jobs_def open_infra_def infraGet_init_def fresh_hook_def)
next
  case (Suc n)
  let ?p = "run_page perform (jobs_handler provider) (replicate n (User BjEffects)) (open_page (open_jobs provider) b)"
  have run: "run_page perform (jobs_handler provider) (replicate (Suc n) (User BjEffects)) (open_page (open_jobs provider) b)
      = run_script perform (jobs_effects provider (pg_state ?p)) ?p"
    unfolding replicate_Suc replicate_append_same [symmetric] run_page_append by (simp add: run_page_def [of _ _ "[User BjEffects]"])
  from Suc show ?case unfolding run Let_def run_script_lead [THEN conjunct1] run_script_lead [THEN conjunct2]
    by (simp add: jobs_effects_def infra_effect_def pve_path_def assms start_infra_def on_hook_def reload_infra_def
        next_run_def api_get_def)
qed

text \<open>Typing another VMID leaves the snapshots of the previous machine on screen until the answer arrives; restoring one of them
  rolls the new machine back.\<close>

lemma snapshot_of_previous_machine:
  assumes "provider \<noteq> []" "\<not> mg_busy s" "snap_row i s = Some r" "valid_vmid v" "v \<noteq> sn_vmid s"
  shows "snd (user_run (snapshots_handler provider) [SpVmid v, SpDialog (SnRestore i), SpDialog SnRestoreConfirm] s)
    = [sc_restore (vmid_calls provider v) (snapshotName r)]"
proof -
  have v: "digits_of v = v" "trim v = v"
    using assms(4) by (simp_all add: valid_vmid_def all_digits_def digits_of_def list_all_iff filter_id_conv trim_no_ws digit_facts)
  have s: "snap_no_dialog s" "snapshotName r \<noteq> []" using assms(3) by (auto simp: snap_row_def split: if_splits)
  have "snap_rows (set_vmid v s) = snap_rows s" "snap_no_dialog (set_vmid v s) = snap_no_dialog s"
    by (simp_all add: set_vmid_def snap_rows_def snap_reload_def snap_no_dialog_def)
  then have row: "snap_row i (set_vmid v s) = Some r" using assms(3) by (simp add: snap_row_def cong: if_cong)
  have vm: "sn_vmid (set_vmid v s) = v" "mg_busy (set_vmid v s) = mg_busy s" by (simp_all add: set_vmid_def v snap_reload_def)
  show ?thesis using assms s by (simp add: row vm v confirm_restore_def)
qed

text \<open>Selecting another security group leaves the rules of the first on screen until the answer arrives; deleting one of them
  deletes the rule at that position of the second group.\<close>

lemma infra_row_reload: "infra_row i (reload_infra c) = infra_row i c"
  by (simp add: infra_row_def)

lemma rule_of_other_group_deleted:
  assumes "gs_selected s = Some g" "g \<noteq> []" "infra_row j (gs_list s) = Some row" "maybe_text ''group'' row = Some h" "h \<noteq> []" "h \<noteq> g"
    and "groups_no_dialog s" "\<not> mg_busy (gs_rules s)" "rule_pos i (gs_rules s) = Some pos"
  shows "snd (user_run (groups_handler base) [GsSelect j, GsRules (RsDelete i), GsRules RsDeleteConfirm] s)
    = [api_delete (rule_path (group_rules_path base h) pos) no_options]"
proof -
  have rules: "rules_no_dialog (gs_rules s)" "\<not> gs_addOpen s" "gs_delete s = None"
    using assms(1,2,7) by (auto simp: groups_no_dialog_def shown_group_def missing_def)
  let ?s = "select_group (Some h) s"
  have sel: "?s = s\<lparr>gs_selected := Some h, gs_rules := rules_reload (gs_rules s)\<rparr>"
    using assms(1,2,5,6) by (simp add: select_group_def shown_group_def missing_def)
  have pos: "rule_pos i (rules_reload (gs_rules s)) = Some pos" "rules_no_dialog (rules_reload (gs_rules s))"
    using assms(9) rules(1) by (simp_all add: rule_pos_def infra_row_reload rules_reload_def rules_no_dialog_def)
  have "groups_no_dialog ?s" using rules pos by (simp add: sel groups_no_dialog_def shown_group_def)
  then show ?thesis
    using assms pos by (simp add: sel shown_group_def missing_def in_mount_def confirm_fw_rule_delete_def opens_rules_dialog_def)
qed

text \<open>The port of the destination is shown beside the source.\<close>

lemma destination_port_at_source:
  "let row = JObj [(''dest'', JStr ''10.0.0.5''), (''dport'', JStr ''22'')] in source_cell row = ''*:22'' \<and> dest_cell row = ''10.0.0.5''"
  by (simp add: source_cell_def dest_cell_def joinAddrPort_def maybe_text_def default_text_def Let_def)

text \<open>The type of a resource does not follow its SID: a container added with the fields as they stand is sent as a virtual machine.\<close>

lemma container_added_as_vm:
  "let body = ha_add_body (set_ha_add (HaSid ''ct:101'') empty_add) in
   prop_of body ''sid'' = Some (JStr ''ct:101'') \<and> prop_of body ''type'' = Some (JStr ''vm'')"
  by (simp add: ha_add_body_def empty_add_def text_field_def trim_def is_ws_def Let_def)

text \<open>A created group clears its texts but not its switches: the next group is created restricted as well.\<close>

lemma restricted_carried_over:
  assumes "provider \<noteq> []" "hp_groupOpen s" "\<not> mg_busy s" "trim (hg_group (hp_group s)) \<noteq> []" "trim (hg_nodes (hp_group s)) \<noteq> []"
    and "perform (api_post (pve_base provider @ ''/ha/groups'') (Some (ha_group_body (hp_group s))) no_options) b = (Inr e, b')"
  shows "hp_group (pg_state (run_page perform (ha_handler provider) [User (HpGroupCreate FmSubmit), Resume 0 0] (open_page s b)))
    = \<lparr>hg_group = [], hg_nodes = [], hg_comment = [], hg_restricted = hg_restricted (hp_group s), hg_nofailback = hg_nofailback (hp_group s)\<rparr>"
  using assms
  by (simp add: run_page_def open_page_def ha_handler_def submit_group_def infra_runAction_def with_flag_def await_def drop_nth_def Let_def
      toast_success_def ha_reload_def)

text \<open>The answer of a saved edit closes whichever edit dialog is open by then: the edit of another group is lost.\<close>

lemma late_answer_closes_other_edit:
  assumes "provider \<noteq> []" "ha_no_dialog s" "\<not> mg_busy s" "named_row ''group'' i (hp_groups s) = Some r" "named_row ''group'' j (hp_groups s) = Some q"
    and "trim (str_prop ''nodes'' r) \<noteq> []"
    and "perform (api_put (pve_base provider @ ''/ha/groups/'' @ encodeURIComponent (row_name ''group'' r))
           (Some (group_edit_body r (group_form_of r))) no_options) b = (Inr e, b')"
  shows "let p = run_page perform (ha_handler provider) [User (HpGroupEdit i), User (HpGroupSave FmSubmit), User (HpGroupSave FmClose), User (HpGroupEdit j)] (open_page s b)
    in hp_groupEdit (pg_state p) = Some q \<and> hp_groupEdit (pg_state (page_step perform (ha_handler provider) (Resume 0 0) p)) = None"
  using assms
  by (simp add: run_page_def open_page_def ha_handler_def submit_group_edit_def infra_runAction_def with_flag_def await_def drop_nth_def Let_def
      toast_success_def ha_reload_def ha_no_dialog_def group_form_of_def)

end
