(* ===== verification/Spec2Isabelle.thy ===== *)
theory Spec2Isabelle
  imports Auth_Session Resource_Hooks Identity_Lookup Dokploy_Consoles Console_Routes Formatting Timestamps
    Instance_Firewall Ticket_Threads Instance_Sizing Account_Security Billing_Coupons Wallet_Topup Database_Requests Sign_In_Requests
    Org_Requests
    Catalog_Requests Wallet_Requests Proxmox_Requests
begin

text \<open>
  \<^bold>\<open>Kilat Cloud consoles.\<close> The repository holds five React applications under
  \<open>src/frontend/apps/\<close> (the consoles \<open>console-admin\<close>, \<open>console-user\<close> and \<open>console-auth\<close>, and the
  sites \<open>console-docs\<close> and \<open>console-landing\<close>) over a Go backend. This development models the TypeScript
  of the consoles: what they keep, what they send, what they show, and in which order things can happen.

  \<^bold>\<open>How the parts fit.\<close> Every console talks to the backend through one HTTP client
  (\<open>lib/api.ts\<close>), which attaches the CSRF token, decodes the answer envelope and expires the session on
  a 401. The session provider (\<open>lib/auth.tsx\<close>) signs in through that client and keeps the role; the
  routes (\<open>routes.tsx\<close>) show a page only to the role it is for. Pages load data with hooks, show it in
  tables and change it with forms; the Dokploy sections talk to the relay with clients of their own.

  \<^bold>\<open>Theories\<close>, from the bottom up:
  \<^item> \<open>Js_Prelude\<close>, \<open>Js_Number\<close>, \<open>Url_Codec\<close>, \<open>Json_Text\<close>, \<open>Base64url\<close>, \<open>Timestamps\<close>: the language
    and browser functions the sources call, each with the round trip or equivalence the callers rest on.
    \<open>Base64url\<close> and \<open>Timestamps\<close> model helpers of the consoles (\<open>Security.tsx\<close>, \<open>format.ts\<close>,
    \<open>lib-utils.ts\<close>); \<open>Json_Text\<close> has \<open>JSON.parse\<close>, proved to decide its grammar and to invert
    \<open>JSON.stringify\<close>.
  \<^item> \<open>Browser\<close>: storage, cookies, location, history of requests and the network. The network is the
    cell \<open>net\<close>, an arbitrary sequence of answers, so a statement about all browsers is a statement about
    all servers.
  \<^item> \<open>Api_Client\<close> (\<open>lib/api.ts\<close>): one definition per function of the client. The lemmas give every outcome
    of a request, the URL round trip, the CSRF rule and what a 401 does.
  \<^item> \<open>Auth_Session\<close> (\<open>lib/auth.tsx\<close>): the provider as an event machine, with the role probes; the cached
    session always agrees with the provider.
  \<^item> \<open>Resource_Hooks\<close>: six loading hooks as event machines over numbered runs, and one locale
    (\<open>loading_hook\<close>) with their common contract: stale answers change nothing, the last answer is shown.
  \<^item> \<open>Identity_Lookup\<close> (\<open>identityLookup.ts\<close>): the search through paginated lists.
  \<^item> \<open>Dokploy_Upstream\<close>, \<open>Dokploy_Engine\<close>, \<open>Dokploy_Consoles\<close> (\<open>features/admin/pages/dokploy/manager/\<close>,
    \<open>app/shared.ts\<close>, \<open>entities.ts\<close>): the relay clients, the generic engine and its nine consoles, each an
    interpretation of the locale of the engine.
  \<^item> \<open>Console_Routes\<close>: the route tables of the admin and user consoles, the guards, redirects, layouts and
    navigation trees.
  \<^item> \<open>Formatting\<close>: money, bytes, uptimes, percentages, status badges.
  \<^item> \<open>Page_Kit\<close>: the kit of all further pages. A handler is a \<open>script\<close>: setters, awaited calls, forks.
    The locales \<open>page_machine\<close>, \<open>page_contract\<close>, \<open>page_when\<close>, \<open>page_flag\<close>, \<open>page_once\<close> and \<open>page_lead\<close> say what a page
    promises (an invariant and the calls it may make, what it does once a fact is known, that a busy flag
    comes down, that calls, or at least changes, are made only by user events), and are interpreted in the theory of every page.
  \<^item> \<open>Customer_Org\<close>, \<open>Instance_Firewall\<close>, \<open>Instance_Sizing\<close>, \<open>Transfers\<close>, \<open>Ticket_Threads\<close>,
    \<open>Account_Security\<close>, \<open>Wallet_Topup\<close> (customer pages, and the ticket threads of all consoles),
    \<open>Data_Table\<close> and \<open>Billing_Coupons\<close> (admin tables and billing).
  \<^item> \<open>Relay_Kit\<close>, \<open>Database_Service\<close>, \<open>Database_Requests\<close> (\<open>dokploy/app/services/k4-dbEngine.tsx\<close>): scripts
    over the relay client, the six kinds of database services with every card of their pages, and what
    these cards send, confirm and show.

  \<^item> \<open>Network_Lists\<close>, \<open>Network_Details\<close>, \<open>Org_Assets\<close>, \<open>Org_Requests\<close> (\<open>pages/Network.tsx\<close>, \<open>pages/network/\<close>,
    \<open>SshKeys.tsx\<close>, \<open>StartupScripts.tsx\<close> of the customer console): lists of an organisation with forms and
    confirmed deletions; nothing is changed except by the button that says so, completely and for its row.
  \<^item> \<open>Catalog_Finance\<close>, \<open>Catalog_Admin\<close>, \<open>Catalog_Requests\<close> (\<open>finance/pages/Catalog.tsx\<close>,
    \<open>admin/billing/pages/ProductsPlans.tsx\<close>): products, plans, prices and rates; what the forms check before they
    send, and that the patch of an edited product is exactly the edit.
  \<^item> \<open>Map_Limited\<close>, \<open>Wallet_Ledger\<close>, \<open>Wallet_Finance\<close>, \<open>Wallet_Requests\<close> (\<open>Wallets.tsx\<close> and \<open>OrgWallet.tsx\<close> of
    the admin billing and finance pages): a map with limited concurrency, proved to be the ordinary map; balances, ledgers
    and manual adjustments, which are sent only by their confirmation.
  \<^item> \<open>Exclusive_Flag\<close>, \<open>Infra_Kit\<close>, \<open>Proxmox_Ha\<close>, \<open>Proxmox_Pools\<close>, \<open>Proxmox_Snapshots\<close>, \<open>Proxmox_Firewall\<close>,
    \<open>Proxmox_Backup\<close>, \<open>Proxmox_Requests\<close> (\<open>features/proxmox/\<close> and \<open>admin/pages/providers/\<close>): lists polled by
    \<open>useInfraGet\<close>, which are the hook of \<open>Resource_Hooks\<close> inside a page, and changes through \<open>runAction\<close>; the locale
    \<open>page_exclusive\<close> shows that such a page makes one change at a time.
  \<^item> \<open>Session_Calls\<close>, \<open>Sign_In\<close>, \<open>Sign_In_Requests\<close> (\<open>console-auth/src/features/auth\<close> and the callback pages of
    the other consoles): the operations of the provider as calls a page awaits, shown to lose nothing;
    sign-in, registration, handoff, callback, password and verification pages; what they send, that they go
    to the handoff only with a session, and that the code handed over is the code exchanged.

  \<^bold>\<open>Conventions.\<close>
  \<^item> Strings are UTF-8 bytes; \<open>js_length\<close> and \<open>js_take\<close> count UTF-16 units. Numbers of JSON and of text
    fields are rationals; \<open>js_num\<close> adds the values that are not finite. Objects are association lists in
    insertion order; \<open>undefined\<close> is \<open>None\<close>.
  \<^item> What was thrown is a value: \<open>Inl\<close> of a sum, or \<open>Throw\<close> in a script.
  \<^item> State setters take effect at once. A handler reads the cells of the render it belongs to, which is the
    state at its event; after an \<open>await\<close> it sees only what it captured. Scripts interleave at their
    awaits in every order.
  \<^item> Effects with a timer or a cleanup are events with a run number or a pending flag; an answer of a
    cancelled run changes nothing.
  \<^item> A disabled or hidden control makes its event a no-op.
  \<^item> \<open>Intl.NumberFormat\<close>, \<open>toLocaleString\<close>, what \<open>new Date\<close> makes of texts outside the ISO format, the
    authenticator and the parsed body of an answer are arguments or parts of the answer.

  \<^bold>\<open>Bounds and fuel.\<close> \<open>scan_from\<close> counts down the pages left, so it ends after \<open>maxPages\<close> requests;
  redirects are followed twice, and \<open>redirects_terminate\<close> shows that this reaches the end; the top-up
  watch runs less than 300 seconds; \<open>JSON_parse\<close> starts with twice the length of the text as fuel,
  and \<open>JSON_parse_iff\<close> shows that this is enough for every text of the grammar. All other recursion is
  structural or has a termination proof.

  \<^bold>\<open>Not modelled.\<close> Markup, styles, icons and the components of \<open>components/ui\<close>: they have no state of
  their own beyond open and closed. Charts, the VNC console and the canvas of the landing page: drawing.
  The pages listed in the manifest as not modelled repeat the patterns above (a list, a form, a
  confirmed deletion) over other resources; they are next in the plan. The Go backend is another
  language and is met here only through the answers of the network.
\<close>

section \<open>Across the pages\<close>

text \<open>
  C15: no button stays disabled. Every page disables a button while its request is in flight and enables
  it in a \<open>finally\<close>. For each of these flags of the firewall tabs, the ticket threads, the creation
  wizard, the resize page, the security cards, the coupon page, the top-up page, the
  database service cards, the sign-in pages, the network, key and script pages, the catalog, the wallet and the Proxmox pages:
  whatever the user has done on a page opened with the flag down, and however the answers were interleaved, the answers still
  to come bring the page to rest with the flag down.
\<close>

theorem no_button_stays_disabled:
  "frees perform_api (rules_handler iid orgId) rt_busy \<and> frees perform_api (rules_handler iid orgId) rt_submitting
   \<and> frees perform_api (options_handler iid orgId) ot_saving
   \<and> frees perform_api (ipsets_handler iid orgId) it_submitting \<and> frees perform_api (ipsets_handler iid orgId) it_busy
   \<and> frees perform_api (entries_handler i orgId setName) ep_adding \<and> frees perform_api (entries_handler i orgId setName) ep_saving
   \<and> frees perform_ticket (admin_thread_handler tid org) st_sending
   \<and> frees perform_ticket (noc_thread_handler tid) st_sending \<and> frees perform_ticket (noc_thread_handler tid) nt_closing
   \<and> frees perform_ticket (customer_thread_handler orgId tid) (\<lambda>s. ct_percent s \<noteq> None)
   \<and> frees perform_api (wizard_handler orgId) sz_submitting \<and> frees perform_api (resize_handler orgId inst) sz_submitting
   \<and> frees perform_api password_handler pw_busy \<and> frees perform_api mfa_handler mf_busy
   \<and> frees (perform_passkey authenticator) (passkey_handler supported) pk_busy
   \<and> frees perform_api coupons_handler cp_saving \<and> frees perform_api coupons_handler cp_deleting
   \<and> frees perform_api coupons_handler cp_bulkBusy
   \<and> frees perform_api (topup_handler orgId) tp_creating
   \<and> frees (perform_relay origin) (update_handler cfg row) ud_busy \<and> frees (perform_relay origin) (delete_handler cfg row) dd_busy
   \<and> frees (perform_relay origin) (deploy_handler cfg row) (\<lambda>s. ds_busy s \<noteq> None)
   \<and> frees (perform_relay origin) (passwd_handler cfg row) cw_busy \<and> frees (perform_relay origin) (ports_handler cfg row) ep_busy
   \<and> frees (perform_relay origin) (environment_handler cfg row) et_busy \<and> frees (perform_relay origin) (logs_handler cfg row) lg_loading
   \<and> frees (perform_relay origin) (backup_form_handler cfg row backup dests) bf_busy
   \<and> frees (perform_relay origin) (backups_handler cfg row) bt_busy \<and> frees (perform_relay origin) (command_handler cfg row) cc_busy
   \<and> frees (perform_relay origin) (resources_handler cfg row) rs_busy \<and> frees (perform_relay origin) (json_handler engine cfg row) jc_busy
   \<and> frees (perform_relay origin) (create_handler cfg env) cd_busy
   \<and> frees (perform_auth signer) (login_handler base valid_email supported params) lg_submitting
   \<and> frees (perform_auth signer) (login_handler base valid_email supported params) lg_passkeyBusy
   \<and> frees (perform_auth signer) (login_handler base valid_email supported params) lg_resending
   \<and> frees (perform_auth signer) (signup_handler base valid_email) su_submitting
   \<and> frees (perform_auth signer) (callback_handler site params) oc_submitting
   \<and> frees perform_api (forgot_handler valid_email) fp_submitting \<and> frees perform_api reset_handler rp_submitting
   \<and> frees perform_api (verify_handler params) ve_resending
   \<and> frees perform_api (vpc_handler orgId) nl_busy \<and> frees perform_api (vpc_handler orgId) nd_busy
   \<and> frees perform_api (firewall_groups_handler orgId) nl_busy \<and> frees perform_api (firewall_groups_handler orgId) nd_busy
   \<and> frees perform_api (ip_lists_handler orgId) nl_busy \<and> frees perform_api (ip_lists_handler orgId) nd_busy
   \<and> frees perform_api (ip_handler orgId) ri_busy \<and> frees perform_api (ip_handler orgId) rd_busy
   \<and> frees perform_api (ip_handler orgId) cv_busy
   \<and> frees perform_api (group_handler iid orgId) ge_saving \<and> frees perform_api (group_handler iid orgId) gr_busy
   \<and> frees perform_api (group_handler iid orgId) gr_creating \<and> frees perform_api (note_handler orgId gid row) ne_saving
   \<and> frees perform_api (ip_list_handler iid orgId) me_saving \<and> frees perform_api (ip_list_handler iid orgId) ec_adding
   \<and> frees perform_api (ip_list_handler iid orgId) ec_deleting
   \<and> frees perform_api (ssh_handler orgId) as_busy \<and> frees perform_api (script_handler orgId) as_busy
   \<and> frees perform_api products_handler pt_saving \<and> frees perform_api products_handler pe_saving
   \<and> frees perform_api plans_handler pn_saving \<and> frees perform_api prices_handler pp_saving
   \<and> frees perform_api rates_handler cr_saving \<and> frees perform_api billing_handler bc_savingProduct
   \<and> frees perform_api billing_handler bc_savingPlan \<and> frees perform_api billing_handler bc_savingPrice
   \<and> frees perform_api (wallets_handler money) wl_submitting \<and> frees perform_api (wallets_handler money) wl_bulkBusy
   \<and> frees perform_api (org_wallet_handler money orgId) ow_submitting
   \<and> frees perform_api (fin_wallets_handler money) fw_adjusting \<and> frees perform_api (fin_org_handler money orgId) fo_adjusting
   \<and> frees perform_api (ha_handler provider) mg_busy \<and> frees perform_api (provider_ha_handler provider) mg_busy
   \<and> frees perform_api (pools_handler provider) mg_busy \<and> frees perform_api (provider_pools_handler provider) mg_busy
   \<and> frees perform_api (snapshots_handler provider) mg_busy \<and> frees perform_api (qemu_snap_handler provider node vmid) mg_busy
   \<and> frees perform_api (fw_rules_handler listPath) mg_busy \<and> frees perform_api (provider_rules_handler listPath) mg_busy
   \<and> frees perform_api (groups_handler base) mg_busy \<and> frees perform_api (provider_groups_handler base) mg_busy
   \<and> frees perform_api (jobs_handler provider) bj_saving \<and> frees perform_api (jobs_handler provider) job_busy
   \<and> frees perform_api (provider_jobs_handler provider) bj_saving \<and> frees perform_api (provider_jobs_handler provider) job_busy"
  by (intro conjI rules_busy.page_frees rules_submitting.page_frees options_saving.page_frees ipsets_submitting.page_frees
    ipsets_busy.page_frees entries_adding.page_frees entries_saving.page_frees admin_sending.page_frees
    noc_sending.page_frees noc_closing.page_frees customer_sending.page_frees wizard_submitting.page_frees
    resize_submitting.page_frees password_busy.page_frees mfa_busy.page_frees passkey_busy.page_frees
    coupons_saving.page_frees coupons_deleting.page_frees coupons_bulk.page_frees topup_creating.page_frees
    update_busy.page_frees delete_busy.page_frees deploy_busy.page_frees passwd_busy.page_frees ports_busy.page_frees
    environment_busy.page_frees logs_loading.page_frees backup_form_busy.page_frees backups_busy.page_frees command_busy.page_frees
    resources_busy.page_frees json_busy.page_frees create_busy.page_frees
    login_submitting.page_frees login_passkey.page_frees login_resending.page_frees signup_submitting.page_frees
    callback_submitting.page_frees forgot_submitting.page_frees reset_submitting.page_frees verify_resending.page_frees
    vpc_deleting.page_frees vpc_creating.page_frees firewalls_deleting.page_frees firewalls_creating.page_frees
    ip_lists_deleting.page_frees ip_lists_creating.page_frees ips_changing.page_frees ips_reserving.page_frees
    ips_converting.page_frees group_saving.page_frees group_removing.page_frees group_adding.page_frees
    note_saving.page_frees meta_saving.page_frees entry_adding.page_frees entry_removing.page_frees
    ssh_saving.page_frees script_saving.page_frees
    product_creating.page_frees product_saving.page_frees plan_saving.page_frees price_saving.page_frees
    rate_saving.page_frees billing_product_saving.page_frees billing_plan_saving.page_frees billing_price_saving.page_frees
    wallet_submitting.page_frees wallet_bulk.page_frees org_wallet_submitting.page_frees fin_wallets_adjusting.page_frees
    fin_org_adjusting.page_frees
    ha_alone.page_frees provider_ha_alone.page_frees pools_alone.page_frees provider_pools_alone.page_frees
    snapshots_alone.page_frees qemu_snap_alone.page_frees rules_alone.page_frees provider_rules_alone.page_frees
    groups_busy.page_frees provider_groups_busy.page_frees jobs_saving.page_frees jobs_busy.page_frees
    provider_jobs_saving.page_frees provider_jobs_busy.page_frees)

end
